(* ===== verification/GoFloat.thy ===== *)
theory GoFloat
  imports Complex_Main Prelude
begin

text \<open>
  Go's \<^verbatim>\<open>float64\<close>: IEEE-754 binary64 with rounding to nearest, ties to even. A value is
  one of the specials or a finite number given by its exact rational value; every
  operation is the exact operation followed by \<open>to_f64\<close>. Negative zero is kept apart
  because the canonical JSON of the proxy prints it differently. The lemmas that carry the
  components' proofs are that rounding is monotone and that it is the identity on
  representable numbers.
\<close>

section \<open>Rounding a rational to 53 bits\<close>

function blen :: "int \<Rightarrow> int" where
  "blen n = (if n \<le> 0 then 0 else 1 + blen (n div 2))"
  by pat_completeness auto
termination
  by (relation "measure nat") auto

declare blen.simps [simp del]

definition pow2 :: "int \<Rightarrow> rat" where
  "pow2 e = (if 0 \<le> e then 2 ^ nat e else 1 / 2 ^ nat (- e))"

text \<open>The binary exponent of a positive rational.\<close>

definition flog2 :: "rat \<Rightarrow> int" where
  "flog2 q = (case quotient_of q of (n, d) \<Rightarrow>
     let e = blen n - blen d in if pow2 e \<le> q then e else e - 1)"

text \<open>Rounding to the nearest integer, ties to even.\<close>

definition rne :: "rat \<Rightarrow> int" where
  "rne x = (let f = \<lfloor>x\<rfloor>; r = x - of_int f in
     if r < 1 / 2 \<or> (r = 1 / 2 \<and> even f) then f else f + 1)"

text \<open>
  The exponent of the binade: below \<open>2 ^ -1022\<close> the spacing stays that of the
  subnormal numbers. A positive number is rounded to a multiple of \<open>2 ^ (binade - 52)\<close>.
\<close>

definition binade :: "rat \<Rightarrow> int" where
  "binade q = max (flog2 q) (- 1022)"

definition round_pos :: "rat \<Rightarrow> rat" where
  "round_pos q = of_int (rne (q / pow2 (binade q - 52))) * pow2 (binade q - 52)"

definition round_q :: "rat \<Rightarrow> rat" where
  "round_q q = (if q = 0 then 0 else if 0 < q then round_pos q else - round_pos (- q))"

section \<open>The values\<close>

datatype f64 = NaN | PInf | NInf | NZero | Fin rat

text \<open>A result of magnitude \<open>2 ^ 1024\<close> or more overflows to an infinity.\<close>

definition too_big :: "rat \<Rightarrow> bool" where
  "too_big r \<longleftrightarrow> r \<noteq> 0 \<and> 1024 \<le> flog2 \<bar>r\<bar>"

definition to_f64 :: "rat \<Rightarrow> f64" where
  "to_f64 q = (let r = round_q q in
     if too_big r then (if 0 < r then PInf else NInf)
     else if r = 0 \<and> q < 0 then NZero else Fin r)"

abbreviation fzero :: f64 where "fzero \<equiv> Fin 0"

fun fval :: "f64 \<Rightarrow> rat" where
  "fval (Fin q) = q"
| "fval _ = 0"

fun finite_f64 :: "f64 \<Rightarrow> bool" where
  "finite_f64 (Fin q) = True"
| "finite_f64 NZero = True"
| "finite_f64 _ = False"

section \<open>Comparison\<close>

definition flt :: "f64 \<Rightarrow> f64 \<Rightarrow> bool" where
  "flt a b = (case a of NaN \<Rightarrow> False | PInf \<Rightarrow> False
     | NInf \<Rightarrow> b \<noteq> NaN \<and> b \<noteq> NInf
     | _ \<Rightarrow> (case b of NaN \<Rightarrow> False | NInf \<Rightarrow> False | PInf \<Rightarrow> True | _ \<Rightarrow> fval a < fval b))"

definition fle :: "f64 \<Rightarrow> f64 \<Rightarrow> bool" where
  "fle a b \<longleftrightarrow> a \<noteq> NaN \<and> b \<noteq> NaN \<and> \<not> flt b a"

definition feq :: "f64 \<Rightarrow> f64 \<Rightarrow> bool" where
  "feq a b \<longleftrightarrow> fle a b \<and> fle b a"

section \<open>Arithmetic\<close>

fun fneg :: "f64 \<Rightarrow> f64" where
  "fneg NaN = NaN"
| "fneg PInf = NInf"
| "fneg NInf = PInf"
| "fneg NZero = Fin 0"
| "fneg (Fin q) = (if q = 0 then NZero else Fin (- q))"

text \<open>The sign bit; it is what \<^verbatim>\<open>math.Float64bits(n)&(1<<63)\<close> tests.\<close>

fun fsign :: "f64 \<Rightarrow> bool" where
  "fsign NInf = True"
| "fsign NZero = True"
| "fsign (Fin q) = (q < 0)"
| "fsign _ = False"

definition fadd :: "f64 \<Rightarrow> f64 \<Rightarrow> f64" where
  "fadd a b =
     (if a = NaN \<or> b = NaN then NaN
      else if a = PInf then (if b = NInf then NaN else PInf)
      else if a = NInf then (if b = PInf then NaN else NInf)
      else if b = PInf then PInf else if b = NInf then NInf
      else if a = NZero \<and> b = NZero then NZero
      else to_f64 (fval a + fval b))"

definition fsub :: "f64 \<Rightarrow> f64 \<Rightarrow> f64" where
  "fsub a b = fadd a (fneg b)"

definition signed_inf :: "bool \<Rightarrow> f64" where
  "signed_inf neg = (if neg then NInf else PInf)"

definition signed_zero :: "bool \<Rightarrow> f64" where
  "signed_zero neg = (if neg then NZero else Fin 0)"

definition fmul :: "f64 \<Rightarrow> f64 \<Rightarrow> f64" where
  "fmul a b = (let neg = (fsign a \<noteq> fsign b) in
     if a = NaN \<or> b = NaN then NaN
     else if finite_f64 a \<and> finite_f64 b then
       (if fval a * fval b = 0 then signed_zero neg else to_f64 (fval a * fval b))
     else if (finite_f64 a \<and> fval a = 0) \<or> (finite_f64 b \<and> fval b = 0) then NaN
     else signed_inf neg)"

definition fdiv :: "f64 \<Rightarrow> f64 \<Rightarrow> f64" where
  "fdiv a b = (let neg = (fsign a \<noteq> fsign b) in
     if a = NaN \<or> b = NaN then NaN
     else if finite_f64 a \<and> finite_f64 b then
       (if fval b = 0 then (if fval a = 0 then NaN else signed_inf neg)
        else if fval a = 0 then signed_zero neg
        else to_f64 (fval a / fval b))
     else if finite_f64 a then signed_zero neg
     else if finite_f64 b then signed_inf neg
     else NaN)"

text \<open>A conversion \<^verbatim>\<open>float64(i)\<close> of an integer, and an untyped constant.\<close>

definition f_of_int :: "int \<Rightarrow> f64" where
  "f_of_int i = to_f64 (of_int i)"

definition lit :: "rat \<Rightarrow> f64" where
  "lit q = to_f64 q"

text \<open>\<^verbatim>\<open>math.Abs\<close>, \<^verbatim>\<open>math.Max\<close>, \<^verbatim>\<open>math.Ceil\<close> and \<^verbatim>\<open>math.Round\<close> (half away from zero).\<close>

fun fabs :: "f64 \<Rightarrow> f64" where
  "fabs NInf = PInf"
| "fabs NZero = Fin 0"
| "fabs (Fin q) = Fin \<bar>q\<bar>"
| "fabs x = x"

definition fmax :: "f64 \<Rightarrow> f64 \<Rightarrow> f64" where
  "fmax a b = (if a = PInf \<or> b = PInf then PInf
     else if a = NaN \<or> b = NaN then NaN
     else if a = NZero \<and> feq b fzero then b
     else if b = NZero \<and> feq a fzero then a
     else if flt b a then a else b)"

fun fceil :: "f64 \<Rightarrow> f64" where
  "fceil (Fin q) = (if -1 < q \<and> q < 0 then NZero else Fin (of_int \<lceil>q\<rceil>))"
| "fceil x = x"

fun fround :: "f64 \<Rightarrow> f64" where
  "fround (Fin q) =
     (if q < 0 then (let r = - of_int \<lfloor>- q + 1 / 2\<rfloor> in if r = 0 then NZero else Fin r)
      else Fin (of_int \<lfloor>q + 1 / 2\<rfloor>))"
| "fround x = x"

text \<open>
  A conversion \<^verbatim>\<open>int64(x)\<close> truncates. Out of range the Go specification leaves the value to
  the implementation; this is the value of the amd64 compiler.
\<close>

definition int_min :: int where "int_min = - (2 ^ 63)"

definition trunc_q :: "rat \<Rightarrow> int" where
  "trunc_q q = (if q < 0 then - \<lfloor>- q\<rfloor> else \<lfloor>q\<rfloor>)"

definition int64_of :: "f64 \<Rightarrow> int" where
  "int64_of x = (if finite_f64 x
     then (let i = trunc_q (fval x) in if int_min \<le> i \<and> i < 2 ^ 63 then i else int_min)
     else int_min)"

section \<open>Powers of two and bit lengths\<close>

lemma pow2_powi: "pow2 e = 2 powi e"
  by (simp add: pow2_def power_int_def inverse_eq_divide power_one_over)

lemma pow2_pos [simp]: "0 < pow2 e"
  by (simp add: pow2_def)

lemma pow2_nonneg [simp]: "0 \<le> pow2 e"
  by (simp add: less_imp_le)

lemma pow2_neq0 [simp]: "pow2 e \<noteq> 0"
  by (simp add: pow2_def)

lemma pow2_not_neg [simp]: "\<not> pow2 e \<le> 0" "\<not> pow2 e < 0"
  by (simp_all add: not_le not_less)

lemma pow2_0 [simp]: "pow2 0 = 1"
  by (simp add: pow2_def)

lemma pow2_add: "pow2 (a + b) = pow2 a * pow2 b"
  by (simp add: pow2_powi power_int_add)

lemma pow2_diff: "pow2 (a - b) = pow2 a / pow2 b"
  by (simp add: pow2_powi power_int_diff)

lemma pow2_Suc: "pow2 (a + 1) = 2 * pow2 a"
  by (simp add: pow2_add) (simp add: pow2_def)

lemma pow2_less_iff [simp]: "pow2 a < pow2 b \<longleftrightarrow> a < b"
proof -
  have *: "pow2 a < pow2 b" if "a < b" for a b
    using that by (simp add: pow2_powi power_int_strict_increasing)
  show ?thesis
    using * [of a b] * [of b a] by (cases a b rule: linorder_cases) auto
qed

lemma pow2_le_iff [simp]: "pow2 a \<le> pow2 b \<longleftrightarrow> a \<le> b"
  by (simp add: not_less [symmetric])

lemma pow2_nat: "0 \<le> e \<Longrightarrow> pow2 e = of_int (2 ^ nat e)"
  by (simp add: pow2_def)

lemma blen_int_bounds:
  "0 < n \<Longrightarrow> 1 \<le> blen n \<and> 2 ^ nat (blen n - 1) \<le> n \<and> n < 2 ^ nat (blen n)"
proof (induction n rule: blen.induct)
  case (1 n)
  show ?case
  proof (cases "n = 1")
    case True
    have "blen 1 = 1" by (subst blen.simps, subst blen.simps) simp
    with True show ?thesis by simp
  next
    case False
    with "1.prems" have h: "0 < n div 2" by simp
    define k where "k = nat (blen (n div 2) - 1)"
    have IH: "1 \<le> blen (n div 2)" "2 ^ nat (blen (n div 2) - 1) \<le> n div 2"
        "n div 2 < 2 ^ nat (blen (n div 2))"
      using "1.IH" "1.prems" h by auto
    have b: "blen n = 1 + blen (n div 2)"
      using "1.prems" by (subst blen.simps) simp
    have e: "nat (blen (n div 2)) = Suc k" "nat (blen n - 1) = Suc k" "nat (blen n) = Suc (Suc k)"
      using IH(1) by (simp_all add: k_def b)
    have k: "2 ^ k \<le> n div 2" "n div 2 < 2 * 2 ^ k"
      using IH e by (simp_all add: k_def)
    have "2 * 2 ^ k \<le> n" "n < 2 * (2 * 2 ^ k)" using k by presburger+
    then show ?thesis using IH(1) unfolding e by (simp add: b)
  qed
qed

lemma blen_bounds:
  assumes "0 < n"
  shows "pow2 (blen n - 1) \<le> of_int n" and "of_int n < pow2 (blen n)"
  using blen_int_bounds [OF assms]
  by (simp_all add: pow2_nat del: of_int_power)

section \<open>The binary exponent\<close>

lemma flog2_unique:
  assumes "pow2 a \<le> q" "q < pow2 (a + 1)" "pow2 b \<le> q" "q < pow2 (b + 1)"
  shows "a = b"
proof -
  have "pow2 a < pow2 (b + 1)" "pow2 b < pow2 (a + 1)" using assms by linarith+
  then show ?thesis by simp
qed

lemma flog2_bounds:
  assumes "0 < q"
  shows "pow2 (flog2 q) \<le> q" and "q < pow2 (flog2 q + 1)"
proof -
  obtain n d where nd: "quotient_of q = (n, d)" by (cases "quotient_of q")
  have d: "0 < d" using quotient_of_denom_pos [OF nd] .
  have q: "q = of_int n / of_int d" using quotient_of_div [OF nd] .
  have n: "0 < n" using assms d by (simp add: q zero_less_divide_iff)
  let ?e = "blen n - blen d"
  have n': "pow2 (blen n - 1) \<le> (of_int n :: rat)" "(of_int n :: rat) < pow2 (blen n)"
    and d': "pow2 (blen d - 1) \<le> (of_int d :: rat)" "(of_int d :: rat) < pow2 (blen d)"
    using blen_bounds n d by auto
  have dpos: "0 < (of_int d :: rat)" using d by simp
  have lo: "pow2 (?e - 1) \<le> q"
  proof -
    have "pow2 (?e - 1) * of_int d \<le> pow2 (?e - 1) * pow2 (blen d)"
      using d' by (simp add: mult_left_mono)
    also have "\<dots> = pow2 (blen n - 1)" by (simp flip: pow2_add)
    also have "\<dots> \<le> of_int n" by (rule n')
    finally show ?thesis using dpos by (simp add: q pos_le_divide_eq)
  qed
  have hi: "q < pow2 (?e + 1)"
  proof -
    have "of_int n < pow2 (blen n)" by (rule n')
    also have "\<dots> = pow2 (?e + 1) * pow2 (blen d - 1)" by (simp flip: pow2_add)
    also have "\<dots> \<le> pow2 (?e + 1) * of_int d" using d' by (simp add: mult_left_mono)
    finally show ?thesis using dpos by (simp add: q pos_divide_less_eq)
  qed
  show "pow2 (flog2 q) \<le> q" and "q < pow2 (flog2 q + 1)"
    using lo hi by (auto simp: flog2_def nd Let_def not_le)
qed

lemma flog2_eqI: "pow2 e \<le> q \<Longrightarrow> q < pow2 (e + 1) \<Longrightarrow> flog2 q = e"
  using flog2_unique [of "flog2 q" q e] flog2_bounds [of q] pow2_pos [of e] by linarith

lemma flog2_mono:
  assumes "0 < p" "p \<le> q" shows "flog2 p \<le> flog2 q"
proof -
  have "pow2 (flog2 p) < pow2 (flog2 q + 1)"
    using flog2_bounds [of p] flog2_bounds [of q] assms by linarith
  then show ?thesis by simp
qed

section \<open>Rounding\<close>

lemma rne_of_int [simp]: "rne (of_int i) = i"
  by (simp add: rne_def Let_def)

lemma rne_floor: "\<lfloor>x\<rfloor> \<le> rne x \<and> rne x \<le> \<lfloor>x\<rfloor> + 1"
  by (simp add: rne_def Let_def)

lemma rne_mono:
  assumes "x \<le> y" shows "rne x \<le> rne y"
proof (cases "\<lfloor>x\<rfloor> = \<lfloor>y\<rfloor>")
  case True
  with assms show ?thesis by (auto simp: rne_def Let_def)
next
  case False
  with assms have "\<lfloor>x\<rfloor> + 1 \<le> \<lfloor>y\<rfloor>" by (metis floor_mono linorder_not_le order_antisym zless_imp_add1_zle)
  then show ?thesis using rne_floor [of x] rne_floor [of y] by linarith
qed

lemma rne_le_int: "x \<le> of_int i \<Longrightarrow> rne x \<le> i"
  using rne_mono [of x "of_int i"] by simp

lemma int_le_rne: "of_int i \<le> x \<Longrightarrow> i \<le> rne x"
  using rne_mono [of "of_int i" x] by simp

text \<open>The grid point at the top of a binade bounds every rounding in it.\<close>

lemma binade_bounds:
  assumes "0 < q"
  shows "q < pow2 (binade q + 1)" and "binade q \<noteq> - 1022 \<Longrightarrow> pow2 (binade q) \<le> q"
proof -
  have "pow2 (flog2 q + 1) \<le> pow2 (binade q + 1)" by (simp add: binade_def)
  then show "q < pow2 (binade q + 1)" using flog2_bounds [OF assms] by linarith
  show "pow2 (binade q) \<le> q" if "binade q \<noteq> - 1022"
    using that flog2_bounds [OF assms] by (auto simp: binade_def max_def split: if_splits)
qed

lemma round_pos_le_grid:
  assumes "0 < q" "q \<le> of_int m * pow2 (binade q - 52)"
  shows "round_pos q \<le> of_int m * pow2 (binade q - 52)"
proof -
  have "rne (q / pow2 (binade q - 52)) \<le> m"
    using assms(2) by (intro rne_le_int) (simp add: pos_divide_le_eq)
  then show ?thesis by (simp add: round_pos_def mult_right_mono)
qed

lemma round_pos_ge_grid:
  assumes "0 < q" "of_int m * pow2 (binade q - 52) \<le> q"
  shows "of_int m * pow2 (binade q - 52) \<le> round_pos q"
proof -
  have "m \<le> rne (q / pow2 (binade q - 52))"
    using assms(2) by (intro int_le_rne) (simp add: pos_le_divide_eq)
  then show ?thesis by (simp add: round_pos_def mult_right_mono)
qed

lemma pow2_grid: "pow2 (e + 1) = of_int (2 ^ 53) * pow2 (e - 52)" "pow2 e = of_int (2 ^ 52) * pow2 (e - 52)"
proof -
  have "pow2 (e + 1) = pow2 53 * pow2 (e - 52)" by (simp add: add.commute flip: pow2_add)
  then show "pow2 (e + 1) = of_int (2 ^ 53) * pow2 (e - 52)" by (simp add: pow2_def)
  have "pow2 e = pow2 52 * pow2 (e - 52)" by (simp flip: pow2_add)
  then show "pow2 e = of_int (2 ^ 52) * pow2 (e - 52)" by (simp add: pow2_def)
qed

lemma round_pos_nonneg: "0 < q \<Longrightarrow> 0 \<le> round_pos q"
  using round_pos_ge_grid [of q 0] by simp

lemma round_pos_mono:
  assumes "0 < p" "p \<le> q"
  shows "round_pos p \<le> round_pos q"
proof (cases "binade p = binade q")
  case True
  have "rne (p / pow2 (binade q - 52)) \<le> rne (q / pow2 (binade q - 52))"
    using assms by (intro rne_mono) (simp add: divide_right_mono)
  then show ?thesis by (simp add: round_pos_def True mult_right_mono)
next
  case False
  have q: "0 < q" using assms by simp
  have lt: "binade p < binade q"
    using False flog2_mono [OF assms] by (auto simp: binade_def)
  then have "binade q \<noteq> - 1022" by (auto simp: binade_def)
  then have "pow2 (binade q) \<le> round_pos q"
    using binade_bounds(2) [OF q] round_pos_ge_grid [OF q] pow2_grid(2) by metis
  moreover have "round_pos p \<le> pow2 (binade p + 1)"
    using binade_bounds(1) [OF assms(1)] round_pos_le_grid [OF assms(1)] pow2_grid(1)
    by (metis less_imp_le)
  moreover have "pow2 (binade p + 1) \<le> pow2 (binade q)" using lt by simp
  ultimately show ?thesis by linarith
qed

theorem round_q_mono: "p \<le> q \<Longrightarrow> round_q p \<le> round_q q"
  using round_pos_mono [of p q] round_pos_mono [of "- q" "- p"] round_pos_nonneg [of q]
    round_pos_nonneg [of "- p"]
  by (auto simp: round_q_def)

lemma round_q_0 [simp]: "round_q 0 = 0"
  by (simp add: round_q_def)

lemma round_q_minus: "round_q (- q) = - round_q q"
  by (auto simp: round_q_def)

lemma round_q_nonneg: "0 \<le> q \<Longrightarrow> 0 \<le> round_q q"
  using round_q_mono [of 0 q] by simp

lemma round_q_nonpos: "q \<le> 0 \<Longrightarrow> round_q q \<le> 0"
  using round_q_mono [of q 0] by simp

section \<open>Representable numbers\<close>

definition representable :: "rat \<Rightarrow> bool" where
  "representable q \<longleftrightarrow>
     (\<exists>m k. q = of_int m * pow2 k \<and> \<bar>m\<bar> \<le> 2 ^ 53 \<and> - 1074 \<le> k)"

lemma representableI: "q = of_int m * pow2 k \<Longrightarrow> \<bar>m\<bar> \<le> 2 ^ 53 \<Longrightarrow> - 1074 \<le> k \<Longrightarrow> representable q"
  by (auto simp: representable_def)

lemma representable_of_int: "\<bar>i\<bar> \<le> 2 ^ 53 \<Longrightarrow> representable (of_int i)"
  by (rule representableI [of _ i 0]) simp_all

lemma representable_uminus: "representable (- q) \<longleftrightarrow> representable q"
proof -
  have "representable (- q)" if r: "representable q" for q
  proof -
    from r obtain m k where "q = of_int m * pow2 k" "\<bar>m\<bar> \<le> 2 ^ 53" "- 1074 \<le> k"
      by (auto simp: representable_def)
    then show ?thesis by (intro representableI [of _ "- m" k]) auto
  qed
  from this [of q] this [of "- q"] show ?thesis by auto
qed

lemma round_pos_exact:
  assumes "0 < q" "representable q"
  shows "round_pos q = q"
proof -
  obtain m k where q: "q = of_int m * pow2 k" and m: "\<bar>m\<bar> \<le> 2 ^ 53" and k: "- 1074 \<le> k"
    using assms(2) by (auto simp: representable_def)
  have mpos: "0 < m" using assms(1) by (simp add: q zero_less_mult_iff)
  have "\<exists>j. q = of_int j * pow2 (binade q - 52)"
  proof (cases "binade q - 52 \<le> k")
    case True
    have "pow2 k = of_int (2 ^ nat (k - (binade q - 52))) * pow2 (binade q - 52)"
      using True by (simp add: pow2_nat [symmetric] pow2_add [symmetric] del: of_int_power)
    then have "q = of_int (m * 2 ^ nat (k - (binade q - 52))) * pow2 (binade q - 52)"
      by (simp add: q)
    then show ?thesis by blast
  next
    case False
    then have "binade q \<noteq> - 1022" using k by linarith
    then have "pow2 (binade q) \<le> q" by (rule binade_bounds(2) [OF assms(1)])
    moreover have "q \<le> pow2 (53 + k)"
    proof -
      have "(of_int m :: rat) \<le> of_int (2 ^ 53)" using m by (simp only: of_int_le_iff)
      then have "of_int m * pow2 k \<le> pow2 53 * pow2 k"
        by (intro mult_right_mono) (simp_all add: pow2_nat)
      then show ?thesis by (simp add: q pow2_add)
    qed
    moreover have "pow2 (53 + k) \<le> pow2 (binade q)" using False by simp
    ultimately have "q = pow2 (binade q)" by linarith
    then show ?thesis using pow2_grid(2) by metis
  qed
  then obtain j where j: "q = of_int j * pow2 (binade q - 52)" by blast
  then have "q / pow2 (binade q - 52) = of_int j"
    by (metis nonzero_mult_div_cancel_right pow2_neq0)
  then show ?thesis by (simp add: round_pos_def flip: j)
qed

theorem round_q_exact: "representable q \<Longrightarrow> round_q q = q"
  using round_pos_exact [of q] round_pos_exact [of "- q"] by (auto simp: round_q_def representable_uminus)

lemma representable_round_pos:
  assumes "0 < q" shows "representable (round_pos q)"
proof (rule representableI)
  show "round_pos q = of_int (rne (q / pow2 (binade q - 52))) * pow2 (binade q - 52)"
    by (simp add: round_pos_def)
  have "q / pow2 (binade q - 52) \<le> of_int (2 ^ 53)"
    using binade_bounds(1) [OF assms] by (simp add: pos_divide_le_eq pow2_grid(1))
  then have "rne (q / pow2 (binade q - 52)) \<le> 2 ^ 53" by (rule rne_le_int)
  moreover have "0 \<le> rne (q / pow2 (binade q - 52))"
    using assms by (intro int_le_rne) simp
  ultimately show "\<bar>rne (q / pow2 (binade q - 52))\<bar> \<le> 2 ^ 53" by simp
  show "- 1074 \<le> binade q - 52" by (simp add: binade_def)
qed

lemma representable_0 [simp]: "representable 0"
  using representable_of_int [of 0] by simp

lemma representable_round_q [simp]: "representable (round_q q)"
  by (auto simp: round_q_def representable_round_pos representable_uminus)

lemma round_q_idem [simp]: "round_q (round_q q) = round_q q"
  by (rule round_q_exact) simp

lemma too_big_iff: "too_big r \<longleftrightarrow> pow2 1024 \<le> \<bar>r\<bar>"
proof (cases "r = 0")
  case True
  then show ?thesis by (simp add: too_big_def not_le)
next
  case False
  then have r: "0 < \<bar>r\<bar>" by simp
  have "1024 \<le> flog2 \<bar>r\<bar> \<longleftrightarrow> pow2 1024 \<le> \<bar>r\<bar>"
  proof
    assume "1024 \<le> flog2 \<bar>r\<bar>"
    then have "pow2 1024 \<le> pow2 (flog2 \<bar>r\<bar>)" by simp
    then show "pow2 1024 \<le> \<bar>r\<bar>" using flog2_bounds(1) [OF r] by linarith
  next
    assume "pow2 1024 \<le> \<bar>r\<bar>"
    then have "pow2 1024 < pow2 (flog2 \<bar>r\<bar> + 1)" using flog2_bounds(2) [OF r] by linarith
    then show "1024 \<le> flog2 \<bar>r\<bar>" by (simp del: pow2_Suc)
  qed
  with False show ?thesis by (simp add: too_big_def)
qed

text \<open>
  The finite values the operations produce: representable and below the overflow threshold.
\<close>

definition f64_ok :: "f64 \<Rightarrow> bool" where
  "f64_ok x \<longleftrightarrow> (case x of Fin q \<Rightarrow> representable q \<and> \<not> too_big q | _ \<Rightarrow> True)"

lemma f64_ok_to_f64 [simp, intro]: "f64_ok (to_f64 q)"
  by (simp add: f64_ok_def to_f64_def Let_def)

lemma to_f64_not_NaN [simp]: "to_f64 q \<noteq> NaN"
  by (simp add: to_f64_def Let_def)

lemma to_f64_exact: "representable q \<Longrightarrow> \<not> too_big q \<Longrightarrow> to_f64 q = Fin q"
  by (auto simp: to_f64_def Let_def round_q_exact)

lemma not_too_big_le: "\<bar>q\<bar> \<le> of_int (2 ^ 1000) \<Longrightarrow> \<not> too_big q"
proof -
  assume "\<bar>q\<bar> \<le> of_int (2 ^ 1000)"
  also have "of_int (2 ^ 1000) = pow2 1000" by (simp add: pow2_nat)
  also have "pow2 1000 < pow2 1024" by (simp only: pow2_less_iff)
  finally show ?thesis by (simp add: too_big_iff)
qed

lemma fval_ok_to_f64: "f64_ok x \<Longrightarrow> finite_f64 x \<Longrightarrow> x \<noteq> NZero \<Longrightarrow> to_f64 (fval x) = x"
  by (cases x) (auto simp: f64_ok_def to_f64_exact)

section \<open>Order\<close>

lemma flt_Fin [simp]: "flt (Fin a) (Fin b) \<longleftrightarrow> a < b"
  and flt_PInf [simp]: "\<not> flt PInf x" "flt (Fin a) PInf"
  and flt_NaN [simp]: "\<not> flt NaN x" "\<not> flt x NaN"
  and flt_NInf [simp]: "\<not> flt x NInf" "flt NInf (Fin a)"
  and flt_NZero [simp]: "flt NZero (Fin a) \<longleftrightarrow> 0 < a" "flt (Fin a) NZero \<longleftrightarrow> a < 0"
    "flt NZero PInf" "\<not> flt NZero NZero" "flt NInf NZero" "flt NInf PInf"
  by (auto simp: flt_def split: f64.splits)

lemma fle_Fin [simp]: "fle (Fin a) (Fin b) \<longleftrightarrow> a \<le> b"
  by (auto simp: fle_def)

lemma flt_imp_fle: "flt a b \<Longrightarrow> fle a b"
  by (cases a; cases b) (auto simp: fle_def)

lemma fle_refl: "a \<noteq> NaN \<Longrightarrow> fle a a"
  by (cases a) (auto simp: fle_def)

lemma flt_irrefl [simp]: "\<not> flt a a"
  by (cases a) auto

lemma fle_trans: "fle a b \<Longrightarrow> fle b c \<Longrightarrow> fle a c"
  by (cases a; cases b; cases c) (auto simp: fle_def)

lemma flt_fle_trans: "flt a b \<Longrightarrow> fle b c \<Longrightarrow> flt a c"
  by (cases a; cases b; cases c) (auto simp: fle_def)

lemma fle_flt_trans: "fle a b \<Longrightarrow> flt b c \<Longrightarrow> flt a c"
  by (cases a; cases b; cases c) (auto simp: fle_def)

lemma not_flt: "a \<noteq> NaN \<Longrightarrow> b \<noteq> NaN \<Longrightarrow> \<not> flt a b \<longleftrightarrow> fle b a"
  by (simp add: fle_def)

lemma flt_not_NaN: "flt a b \<Longrightarrow> a \<noteq> NaN \<and> b \<noteq> NaN"
  by (auto simp: flt_def split: f64.splits)

theorem to_f64_mono:
  assumes "p \<le> q" shows "fle (to_f64 p) (to_f64 q)"
proof -
  have r: "round_q p \<le> round_q q" using assms by (rule round_q_mono)
  show ?thesis
    using r round_q_nonneg [of p] round_q_nonpos [of q] round_q_nonpos [of p]
    by (auto simp: to_f64_def Let_def fle_def too_big_iff not_le split: if_splits)
qed

lemma to_f64_le_ok:
  assumes "f64_ok x" "finite_f64 x" "p \<le> fval x" shows "fle (to_f64 p) x"
proof (cases "x = NZero")
  case False
  with assms have "to_f64 (fval x) = x" by (simp add: fval_ok_to_f64)
  with to_f64_mono [OF assms(3)] show ?thesis by simp
next
  case True
  with assms have "fle (to_f64 p) (to_f64 0)" by (intro to_f64_mono) simp
  then show ?thesis by (simp add: True to_f64_exact too_big_def) (cases "to_f64 p"; simp add: fle_def)
qed

lemma to_f64_ge_ok:
  assumes "f64_ok x" "finite_f64 x" "fval x \<le> p" shows "fle x (to_f64 p)"
proof (cases "x = NZero")
  case False
  with assms have "to_f64 (fval x) = x" by (simp add: fval_ok_to_f64)
  with to_f64_mono [OF assms(3)] show ?thesis by simp
next
  case True
  with assms have "fle (to_f64 0) (to_f64 p)" by (intro to_f64_mono) simp
  then show ?thesis by (simp add: True to_f64_exact too_big_def) (cases "to_f64 p"; simp add: fle_def)
qed

text \<open>
  Rounding by hand: the significand \<open>m\<close> of a number that is nearer to it than half a unit.
\<close>

lemma rne_near:
  assumes "\<bar>x - of_int m\<bar> < 1 / 2 \<or> even m \<and> \<bar>x - of_int m\<bar> = 1 / 2" shows "rne x = m"
proof -
  have "\<lfloor>x\<rfloor> = m \<or> \<lfloor>x\<rfloor> = m - 1" using assms by linarith
  with assms show ?thesis by (auto simp: rne_def Let_def)
qed

lemma to_f64_near:
  assumes "pow2 e \<le> q" "q < pow2 (e + 1)" "- 1022 \<le> e" "e < 1023" "0 < m" "m \<le> 2 ^ 53"
    and "\<bar>q / pow2 (e - 52) - of_int m\<bar> < 1 / 2 \<or> even m \<and> \<bar>q / pow2 (e - 52) - of_int m\<bar> = 1 / 2"
  shows "to_f64 q = Fin (of_int m * pow2 (e - 52))"
proof -
  have pos: "0 < q" using assms(1) pow2_pos [of e] by linarith
  have "flog2 q = e" using assms by (intro flog2_eqI)
  then have "binade q = e" using assms by (simp add: binade_def)
  then have r: "round_q q = of_int m * pow2 (e - 52)"
    using pos rne_near [OF assms(7)] by (simp add: round_q_def round_pos_def)
  have "(of_int m :: rat) \<le> of_int (2 ^ 53)" using assms(6) by (simp only: of_int_le_iff)
  then have "of_int m * pow2 (e - 52) \<le> pow2 (e + 1)"
    unfolding pow2_grid(1) [of e] by (intro mult_right_mono) simp_all
  moreover have "pow2 (e + 1) < pow2 1024" using assms(4) by simp
  moreover have "\<bar>of_int m * pow2 (e - 52)\<bar> = of_int m * pow2 (e - 52)" using assms(5) by simp
  ultimately have "\<not> too_big (round_q q)" unfolding r too_big_iff by linarith
  with r assms(5) show ?thesis by (simp add: to_f64_def)
qed

lemma fadd_Fin: "fadd (Fin a) (Fin b) = to_f64 (a + b)"
  by (simp add: fadd_def)

lemma fsub_Fin: "b \<noteq> 0 \<Longrightarrow> fsub (Fin a) (Fin b) = to_f64 (a - b)"
  by (simp add: fsub_def fadd_def)

lemma fadd_zero_ok:
  "f64_ok x \<Longrightarrow> finite_f64 x \<Longrightarrow> x \<noteq> NZero \<Longrightarrow>
     fadd fzero x = x \<and> fadd x fzero = x \<and> fadd x NZero = x \<and> fsub x fzero = x"
  by (cases x) (auto simp: fadd_def fsub_def dest: fval_ok_to_f64)

section \<open>Exact arithmetic on a grid\<close>

text \<open>
  Amounts that are integer multiples of one power of two add and subtract without rounding
  as long as the multiple stays within 53 bits: on such amounts the program's float
  arithmetic is exact.
\<close>

definition on_grid :: "int \<Rightarrow> int \<Rightarrow> f64" where
  "on_grid g m = Fin (of_int m * pow2 g)"

definition grid_ok :: "int \<Rightarrow> bool" where
  "grid_ok g \<longleftrightarrow> - 1074 \<le> g \<and> g \<le> 900"

lemma grid_rounds:
  assumes "grid_ok g" "\<bar>m\<bar> \<le> 2 ^ 53"
  shows "to_f64 (of_int m * pow2 g) = on_grid g m"
proof -
  have "(of_int \<bar>m\<bar> :: rat) \<le> of_int (2 ^ 53)" using assms(2) by (simp only: of_int_le_iff)
  then have "\<bar>of_int m\<bar> \<le> pow2 53" by (simp add: pow2_def)
  moreover have "\<bar>pow2 g\<bar> \<le> pow2 900" using assms(1) by (simp add: grid_ok_def)
  ultimately have "\<bar>of_int m * pow2 g\<bar> \<le> pow2 53 * pow2 900"
    unfolding abs_mult by (intro mult_mono) simp_all
  also have "\<dots> = pow2 953" by (simp flip: pow2_add)
  also have "\<dots> < pow2 1024" by (simp only: pow2_less_iff)
  finally have "\<not> too_big (of_int m * pow2 g)" by (simp add: too_big_iff)
  moreover have "representable (of_int m * pow2 g)"
    using assms by (intro representableI) (auto simp: grid_ok_def)
  ultimately show ?thesis by (simp add: to_f64_exact on_grid_def)
qed

lemma fneg_on_grid: "fneg (on_grid g m) = (if m = 0 then NZero else on_grid g (- m))"
  by (simp add: on_grid_def)

lemma fadd_on_grid [simp]:
  "grid_ok g \<Longrightarrow> \<bar>m + n\<bar> \<le> 2 ^ 53 \<Longrightarrow> fadd (on_grid g m) (on_grid g n) = on_grid g (m + n)"
  using grid_rounds [of g "m + n"] by (simp add: fadd_def on_grid_def distrib_right)

lemma fsub_on_grid [simp]:
  assumes "grid_ok g" "\<bar>m - n\<bar> \<le> 2 ^ 53"
  shows "fsub (on_grid g m) (on_grid g n) = on_grid g (m - n)"
proof -
  have "fsub (on_grid g m) (on_grid g n) = to_f64 (of_int m * pow2 g - of_int n * pow2 g)"
    by (simp add: fsub_def fadd_def on_grid_def)
  also have "of_int m * pow2 g - of_int n * pow2 g = of_int (m - n) * pow2 g"
    by (simp add: algebra_simps)
  also have "to_f64 \<dots> = on_grid g (m - n)" by (rule grid_rounds [OF assms])
  finally show ?thesis .
qed

lemma flt_on_grid [simp]: "flt (on_grid g m) (on_grid g n) \<longleftrightarrow> m < n"
  by (simp add: on_grid_def)

lemma fle_on_grid [simp]: "fle (on_grid g m) (on_grid g n) \<longleftrightarrow> m \<le> n"
  by (simp add: on_grid_def)

lemma on_grid_0 [simp]: "on_grid g 0 = fzero"
  by (simp add: on_grid_def)

lemma on_grid_eq_iff [simp]: "on_grid g m = on_grid g n \<longleftrightarrow> m = n"
  by (simp add: on_grid_def)

text \<open>Zero and one are exact.\<close>

lemma f_of_int_exact: "\<bar>i\<bar> \<le> 2 ^ 53 \<Longrightarrow> f_of_int i = Fin (of_int i)"
  using grid_rounds [of 0 i] by (simp add: f_of_int_def on_grid_def grid_ok_def)

lemma f64_ok_simps [simp]: "f64_ok NaN" "f64_ok PInf" "f64_ok NInf" "f64_ok NZero" "f64_ok fzero"
  by (simp_all add: f64_ok_def too_big_def)

lemma f64_ok_ops [simp]:
  "f64_ok (fadd a b)" "f64_ok (fmul a b)" "f64_ok (fdiv a b)" "f64_ok (fsub a b)"
  "f64_ok (lit q)" "f64_ok (f_of_int i)"
  by (simp_all add: fadd_def fmul_def fdiv_def fsub_def lit_def f_of_int_def signed_inf_def
      signed_zero_def Let_def)

end
