(* ===== verification/GoValue.thy ===== *)
theory GoValue
  imports GoFloat "HOL-Library.AList"
begin

text \<open>
  Go values of dynamic type (\<^verbatim>\<open>any\<close>) as the proxy builds and inspects them, and
  \<^verbatim>\<open>time.Time\<close> with the RFC 3339 formatting the audit signature covers.
\<close>

section \<open>Values of type any\<close>

text \<open>
  One constructor per dynamic type the code can meet. A \<^verbatim>\<open>map[string]any\<close> is a list of
  entries with distinct keys, in the order in which a range over it happens to visit them.
  \<open>AOther\<close> stands for any other dynamic type and carries the name that the verb
  \<^verbatim>\<open>T\<close> prints.
\<close>

datatype any =
    ANil
  | ABool bool
  | AFloat f64
  | AInt int
  | AInt64 int
  | AString string
  | AArr "any list"
  | AMapArr "(string \<times> any) list list"
  | AMap "(string \<times> any) list"
  | AStrArr "string list"
  | AMessages "(string \<times> string) list"
  | AOther string

type_synonym amap = "(string \<times> any) list"

definition amap_get :: "amap \<Rightarrow> string \<Rightarrow> any option" where
  "amap_get m k = map_of m k"

definition amap_set :: "amap \<Rightarrow> string \<Rightarrow> any \<Rightarrow> amap" where
  "amap_set m k v = AList.update k v m"

lemma amap_get_set [simp]: "amap_get (amap_set m k v) k' = (if k' = k then Some v else amap_get m k')"
  by (simp add: amap_get_def amap_set_def update_conv')

lemma distinct_amap_set: "distinct (map fst m) \<Longrightarrow> distinct (map fst (amap_set m k v))"
  by (simp add: amap_set_def distinct_update)

text \<open>Every map inside a value has each key once.\<close>

fun wf_any :: "any \<Rightarrow> bool" where
  "wf_any (AArr vs) = list_all wf_any vs"
| "wf_any (AMapArr ms) =
     list_all (\<lambda>m. distinct (map fst m) \<and> list_all (\<lambda>(k, v). wf_any v) m) ms"
| "wf_any (AMap m) = (distinct (map fst m) \<and> list_all (\<lambda>(k, v). wf_any v) m)"
| "wf_any _ = True"

section \<open>Time\<close>

text \<open>
  A \<^verbatim>\<open>time.Time\<close>: nanoseconds since the Unix epoch and the offset of its location from UTC in
  seconds. The zero time is year 1, which \<^verbatim>\<open>IsZero\<close> tests.
\<close>

record gotime =
  t_nanos :: int
  t_offset :: int

definition t_zero :: gotime where
  "t_zero = \<lparr>t_nanos = - 62135596800 * 1000000000, t_offset = 0\<rparr>"

definition t_IsZero :: "gotime \<Rightarrow> bool" where
  "t_IsZero t \<longleftrightarrow> t_nanos t = - 62135596800 * 1000000000"

definition t_Before :: "gotime \<Rightarrow> gotime \<Rightarrow> bool" where
  "t_Before a b \<longleftrightarrow> t_nanos a < t_nanos b"

definition t_UTC :: "gotime \<Rightarrow> gotime" where
  "t_UTC t = t\<lparr>t_offset := 0\<rparr>"

text \<open>The proleptic Gregorian date of a day count from the epoch.\<close>

definition civil :: "int \<Rightarrow> int \<times> int \<times> int" where
  "civil days = (let z = days + 719468; era = z div 146097; doe = z mod 146097;
     yoe = (doe - doe div 1460 + doe div 36524 - doe div 146096) div 365;
     doy = doe - (365 * yoe + yoe div 4 - yoe div 100);
     mp = (5 * doy + 2) div 153;
     d = doy - (153 * mp + 2) div 5 + 1;
     m = (if mp < 10 then mp + 3 else mp - 9)
   in (yoe + era * 400 + (if m \<le> 2 then 1 else 0), m, d))"

definition pad :: "nat \<Rightarrow> string \<Rightarrow> string" where
  "pad n s = replicate (n - length s) CHR ''0'' @ s"

definition pad_int :: "nat \<Rightarrow> int \<Rightarrow> string" where
  "pad_int n i = (if i < 0 then CHR ''-'' # pad n (itoa (- i)) else pad n (itoa i))"

definition trim_zeros :: "string \<Rightarrow> string" where
  "trim_zeros s = rev (dropWhile (\<lambda>c. c = CHR ''0'') (rev s))"

definition zone_string :: "int \<Rightarrow> string" where
  "zone_string off = (if off = 0 then ''Z'' else
     (let z = (if off < 0 then - ((- off) div 60) else off div 60); a = \<bar>z\<bar> in
      (if z < 0 then ''-'' else ''+'') @ pad_int 2 (a div 60) @ '':'' @ pad_int 2 (a mod 60)))"

definition RFC3339Nano :: "gotime \<Rightarrow> string" where
  "RFC3339Nano t = (let l = t_nanos t + t_offset t * 1000000000;
     secs = l div 1000000000; nanos = l mod 1000000000;
     sod = secs mod 86400; (y, m, d) = civil (secs div 86400);
     frac = trim_zeros (pad_int 9 nanos)
   in pad_int 4 y @ ''-'' @ pad_int 2 m @ ''-'' @ pad_int 2 d @ ''T'' @
      pad_int 2 (sod div 3600) @ '':'' @ pad_int 2 (sod mod 3600 div 60) @ '':'' @
      pad_int 2 (sod mod 60) @ (if frac = [] then [] else ''.'' @ frac) @
      zone_string (t_offset t))"

text \<open>The layout \<^verbatim>\<open>time.RFC3339\<close> has no fraction.\<close>

definition RFC3339 :: "gotime \<Rightarrow> string" where
  "RFC3339 t = RFC3339Nano (t\<lparr>t_nanos := t_nanos t div 1000000000 * 1000000000\<rparr>)"

lemma RFC3339Nano_example:
  "RFC3339Nano \<lparr>t_nanos = 1700000000 * 1000000000 + 120000000, t_offset = 19800\<rparr>
     = ''2023-11-15T03:43:20.12+05:30''"
  by code_simp

end
