(* ===== verification/Domain.thy ===== *)
theory Domain
  imports GoValue
begin

text \<open>
  \<^verbatim>\<open>internal/domain\<close>: the trace record with its execution state machine
  (\<^verbatim>\<open>trace.go\<close>), the constraints a request carries (\<^verbatim>\<open>constraints.go\<close>) and the risk
  report (\<^verbatim>\<open>risk_report.go\<close>). The string-typed enumerations of the code stay strings, since
  the code converts unchecked header text to them; their constants are abbreviations.
  A nil pointer or nil map is \<open>None\<close>.
\<close>

section \<open>Enumerations\<close>

type_synonym ExecutionState = string
type_synonym PrivacyLevel = string
type_synonym ReproducibilityMode = string
type_synonym BudgetStrategy = string
type_synonym PolicyDecision = string
type_synonym FinishReason = string
type_synonym DegradeAction = string
type_synonym ChangeType = string
type_synonym RiskLevel = string
type_synonym Recommendation = string

abbreviation StateInit :: ExecutionState where "StateInit \<equiv> ''INIT''"
abbreviation StateConstraintEval :: ExecutionState where "StateConstraintEval \<equiv> ''CONSTRAINT_EVAL''"
abbreviation StateExecuting :: ExecutionState where "StateExecuting \<equiv> ''EXECUTING''"
abbreviation StateValidation :: ExecutionState where "StateValidation \<equiv> ''VALIDATION''"
abbreviation StateFinalized :: ExecutionState where "StateFinalized \<equiv> ''FINALIZED''"
abbreviation StateFailed :: ExecutionState where "StateFailed \<equiv> ''FAILED''"

abbreviation PrivacyRaw :: PrivacyLevel where "PrivacyRaw \<equiv> ''raw''"
abbreviation PrivacyMasked :: PrivacyLevel where "PrivacyMasked \<equiv> ''masked''"
abbreviation PrivacyHashOnly :: PrivacyLevel where "PrivacyHashOnly \<equiv> ''hash_only''"

abbreviation ReproducibilityNone :: ReproducibilityMode where "ReproducibilityNone \<equiv> ''none''"
abbreviation ReproducibilityBounded :: ReproducibilityMode where "ReproducibilityBounded \<equiv> ''bounded''"
abbreviation ReproducibilityStrict :: ReproducibilityMode where "ReproducibilityStrict \<equiv> ''strict''"

abbreviation BudgetStrategyHardStop :: BudgetStrategy where "BudgetStrategyHardStop \<equiv> ''hard_stop''"
abbreviation BudgetStrategyDegradeModel :: BudgetStrategy where "BudgetStrategyDegradeModel \<equiv> ''degrade_model''"
abbreviation BudgetStrategySoftAlert :: BudgetStrategy where "BudgetStrategySoftAlert \<equiv> ''soft_alert''"

abbreviation PolicyDecisionAllow :: PolicyDecision where "PolicyDecisionAllow \<equiv> ''allow''"
abbreviation PolicyDecisionBlock :: PolicyDecision where "PolicyDecisionBlock \<equiv> ''block''"
abbreviation PolicyDecisionDegrade :: PolicyDecision where "PolicyDecisionDegrade \<equiv> ''degrade''"

abbreviation FinishReasonStop :: FinishReason where "FinishReasonStop \<equiv> ''stop''"

abbreviation DegradeActionSwitchModel :: DegradeAction where "DegradeActionSwitchModel \<equiv> ''SWITCH_MODEL''"

abbreviation ChangeTypeValueChange :: ChangeType where "ChangeTypeValueChange \<equiv> ''VALUE_CHANGE''"
abbreviation ChangeTypeAdded :: ChangeType where "ChangeTypeAdded \<equiv> ''ADDED''"
abbreviation ChangeTypeRemoved :: ChangeType where "ChangeTypeRemoved \<equiv> ''REMOVED''"

abbreviation RiskLevelLow :: RiskLevel where "RiskLevelLow \<equiv> ''LOW''"
abbreviation RiskLevelMedium :: RiskLevel where "RiskLevelMedium \<equiv> ''MEDIUM''"
abbreviation RiskLevelHigh :: RiskLevel where "RiskLevelHigh \<equiv> ''HIGH''"

abbreviation RecommendationApprove :: Recommendation where "RecommendationApprove \<equiv> ''APPROVE''"
abbreviation RecommendationReviewRequired :: Recommendation where "RecommendationReviewRequired \<equiv> ''REVIEW_REQUIRED''"
abbreviation RecommendationBlockRelease :: Recommendation where "RecommendationBlockRelease \<equiv> ''BLOCK_RELEASE''"

section \<open>The trace\<close>

record Input =
  in_Prompt :: any
  in_Params :: "amap option"
  in_Metadata :: "amap option"
  in_Seed :: "int option"

record Output =
  out_Response :: "string option"
  out_Truncated :: bool
  out_FinishReason :: FinishReason

record StateTransition =
  st_From :: ExecutionState
  st_To :: ExecutionState
  st_Timestamp :: gotime

record ErrorInfo =
  ei_Code :: string
  ei_Message :: string
  ei_Details :: "amap option"

record Observations =
  obs_TokensCount :: int
  obs_CostEstimatedUSD :: f64
  obs_LatencyMs :: int
  obs_StateTransitions :: "StateTransition list"
  obs_Error :: "ErrorInfo option"
  obs_DegradeAction :: "DegradeAction option"
  obs_InternalMetrics :: "amap option"

record Proofs =
  pf_AuditSignature :: string
  pf_ProofType :: string
  pf_CanonicalizationMethod :: string

record PolicyEvaluation =
  pe_Decision :: PolicyDecision
  pe_ChecksPassed :: "string list"
  pe_NegotiatedCapabilities :: "string list"

record ConstraintsApplied =
  ca_BudgetLimitUSD :: f64
  ca_BudgetActualUSD :: f64
  ca_BudgetStrategy :: BudgetStrategy
  ca_PrivacyLevel :: PrivacyLevel
  ca_PrivacyMaskedFields :: "string list"
  ca_ReproducibilityMode :: ReproducibilityMode
  ca_ReproducibilitySeed :: "int option"
  ca_PolicyEvaluation :: "PolicyEvaluation option"
  ca_DegradeAction :: "DegradeAction option"
  ca_NegotiatedCapabilities :: "string list"

record Trace =
  tr_TraceID :: string
  tr_ParentID :: "string option"
  tr_SessionID :: "string option"
  tr_ExecutionState :: ExecutionState
  tr_Model :: string
  tr_Input :: Input
  tr_Output :: Output
  tr_Observations :: Observations
  tr_Proofs :: Proofs
  tr_ConstraintsApplied :: ConstraintsApplied
  tr_CreatedAt :: gotime
  tr_TTLExpireAt :: "gotime option"
  tr_Extensions :: "amap option"

text \<open>Go's zero values of these structures.\<close>

definition zero_Input :: Input where
  "zero_Input = \<lparr>in_Prompt = ANil, in_Params = None, in_Metadata = None, in_Seed = None\<rparr>"

definition zero_Output :: Output where
  "zero_Output = \<lparr>out_Response = None, out_Truncated = False, out_FinishReason = []\<rparr>"

definition zero_Observations :: Observations where
  "zero_Observations = \<lparr>obs_TokensCount = 0, obs_CostEstimatedUSD = fzero, obs_LatencyMs = 0,
     obs_StateTransitions = [], obs_Error = None, obs_DegradeAction = None,
     obs_InternalMetrics = None\<rparr>"

definition zero_Proofs :: Proofs where
  "zero_Proofs = \<lparr>pf_AuditSignature = [], pf_ProofType = [], pf_CanonicalizationMethod = []\<rparr>"

definition zero_ConstraintsApplied :: ConstraintsApplied where
  "zero_ConstraintsApplied = \<lparr>ca_BudgetLimitUSD = fzero, ca_BudgetActualUSD = fzero,
     ca_BudgetStrategy = [], ca_PrivacyLevel = [], ca_PrivacyMaskedFields = [],
     ca_ReproducibilityMode = [], ca_ReproducibilitySeed = None, ca_PolicyEvaluation = None,
     ca_DegradeAction = None, ca_NegotiatedCapabilities = []\<rparr>"

section \<open>Operations on a trace\<close>

definition IsValid :: "Trace \<Rightarrow> bool" where
  "IsValid t \<longleftrightarrow> tr_TraceID t \<noteq> [] \<and> tr_Model t \<noteq> [] \<and> \<not> t_IsZero (tr_CreatedAt t)"

definition FillDefaults :: "Trace \<Rightarrow> Trace" where
  "FillDefaults t =
     (let p = tr_Proofs t;
          p = (if pf_ProofType p = [] then p\<lparr>pf_ProofType := ''hash_chain''\<rparr> else p);
          p = (if pf_CanonicalizationMethod p = []
               then p\<lparr>pf_CanonicalizationMethod := ''rfc8785''\<rparr> else p);
          out = tr_Output t;
          out = (if out_FinishReason out = [] then out\<lparr>out_FinishReason := FinishReasonStop\<rparr> else out)
      in t\<lparr>tr_Proofs := p, tr_Output := out\<rparr>)"

record ValidationError =
  ve_Field :: string
  ve_Message :: string

definition ValidationError_Error :: "ValidationError \<Rightarrow> string" where
  "ValidationError_Error e = ve_Field e @ '': '' @ ve_Message e"

definition ValidateSchema :: "Trace \<Rightarrow> ValidationError option" where
  "ValidateSchema t =
     (if tr_TraceID t = [] then Some \<lparr>ve_Field = ''trace_id'', ve_Message = ''trace_id is required''\<rparr>
      else if tr_Model t = [] then Some \<lparr>ve_Field = ''model'', ve_Message = ''model is required''\<rparr>
      else if t_IsZero (tr_CreatedAt t)
      then Some \<lparr>ve_Field = ''created_at'', ve_Message = ''created_at is required''\<rparr>
      else None)"

text \<open>The clock reading of \<^verbatim>\<open>time.Now()\<close> is an argument.\<close>

definition AddStateTransition :: "gotime \<Rightarrow> ExecutionState \<Rightarrow> ExecutionState \<Rightarrow> Trace \<Rightarrow> Trace" where
  "AddStateTransition now from to t =
     t\<lparr>tr_Observations := (tr_Observations t)
          \<lparr>obs_StateTransitions := obs_StateTransitions (tr_Observations t) @
             [\<lparr>st_From = from, st_To = to, st_Timestamp = t_UTC now\<rparr>]\<rparr>,
       tr_ExecutionState := to\<rparr>"

definition IsFinalState :: "Trace \<Rightarrow> bool" where
  "IsFinalState t \<longleftrightarrow> tr_ExecutionState t = StateFinalized \<or> tr_ExecutionState t = StateFailed"

definition CanTransitionTo :: "Trace \<Rightarrow> ExecutionState \<Rightarrow> bool" where
  "CanTransitionTo t to =
     (let s = tr_ExecutionState t in
      if s = StateInit then to = StateConstraintEval
      else if s = StateConstraintEval then to = StateExecuting \<or> to = StateFailed
      else if s = StateExecuting then to = StateValidation \<or> to = StateFailed
      else if s = StateValidation then to = StateFinalized \<or> to = StateFailed
      else False)"

section \<open>Constraints\<close>

record ReproducibilityConstraint =
  rc_Mode :: ReproducibilityMode
  rc_Seed :: "int option"

record BudgetConstraint =
  bc_LimitUSD :: f64
  bc_Strategy :: BudgetStrategy

record PrivacyConstraint =
  pc_Level :: PrivacyLevel
  pc_Strategy :: string
  pc_MaskedFields :: "string list"
  pc_Deterministic :: bool

record Constraints =
  cs_Reproducibility :: "ReproducibilityConstraint option"
  cs_Budget :: "BudgetConstraint option"
  cs_Privacy :: "PrivacyConstraint option"
  cs_Extensions :: "amap option"

definition zero_Constraints :: Constraints where
  "zero_Constraints = \<lparr>cs_Reproducibility = None, cs_Budget = None, cs_Privacy = None,
     cs_Extensions = None\<rparr>"

definition GetPrivacyLevel :: "Constraints \<Rightarrow> PrivacyLevel" where
  "GetPrivacyLevel c = (case cs_Privacy c of
     Some p \<Rightarrow> if pc_Level p \<noteq> [] then pc_Level p else PrivacyRaw | None \<Rightarrow> PrivacyRaw)"

definition GetBudgetLimit :: "Constraints \<Rightarrow> f64" where
  "GetBudgetLimit c = (case cs_Budget c of Some b \<Rightarrow> bc_LimitUSD b | None \<Rightarrow> fzero)"

definition GetBudgetStrategy :: "Constraints \<Rightarrow> BudgetStrategy" where
  "GetBudgetStrategy c = (case cs_Budget c of
     Some b \<Rightarrow> if bc_Strategy b \<noteq> [] then bc_Strategy b else BudgetStrategyHardStop
   | None \<Rightarrow> BudgetStrategyHardStop)"

definition GetReproducibilityMode :: "Constraints \<Rightarrow> ReproducibilityMode" where
  "GetReproducibilityMode c = (case cs_Reproducibility c of
     Some r \<Rightarrow> if rc_Mode r \<noteq> [] then rc_Mode r else ReproducibilityNone
   | None \<Rightarrow> ReproducibilityNone)"

section \<open>The risk report\<close>

record TokenDiff =
  td_SimilarityRatio :: f64
  td_EditDistance :: int
  td_BaselineLength :: int
  td_CandidateLength :: int
  td_Methodology :: string

record FieldRisk =
  fr_Path :: string
  fr_OldValue :: any
  fr_NewValue :: any
  fr_RiskLevel :: RiskLevel
  fr_Confidence :: "f64 option"
  fr_ChangeType :: ChangeType

record RiskAssessment =
  ra_Score :: f64
  ra_Methodology :: string
  ra_Confidence :: "f64 option"
  ra_EmbeddingModel :: "string option"
  ra_Fields :: "FieldRisk list"
  ra_Recommendation :: Recommendation
  ra_RecommendationReasons :: "string list"
  ra_ModelChanged :: "bool option"

record RiskReport =
  rr_BaselineTraceID :: string
  rr_CandidateTraceID :: string
  rr_ModelChanged :: bool
  rr_FocusFields :: "string list"
  rr_TokenDiff :: "TokenDiff option"
  rr_Risk :: "RiskAssessment option"
  rr_GeneratedAt :: string

definition zero_RiskAssessment :: RiskAssessment where
  "zero_RiskAssessment = \<lparr>ra_Score = fzero, ra_Methodology = [], ra_Confidence = None,
     ra_EmbeddingModel = None, ra_Fields = [], ra_Recommendation = [],
     ra_RecommendationReasons = [], ra_ModelChanged = None\<rparr>"

definition NewRiskReport :: "string \<Rightarrow> string \<Rightarrow> RiskReport" where
  "NewRiskReport baselineID candidateID =
     \<lparr>rr_BaselineTraceID = baselineID, rr_CandidateTraceID = candidateID, rr_ModelChanged = False,
      rr_FocusFields = [], rr_TokenDiff = None, rr_Risk = None,
      rr_GeneratedAt = ''2026-01-01T00:00:00Z''\<rparr>"

definition SetTokenSimilarity :: "f64 \<Rightarrow> int \<Rightarrow> int \<Rightarrow> RiskReport \<Rightarrow> RiskReport" where
  "SetTokenSimilarity ratio baselineLen candidateLen r =
     r\<lparr>rr_TokenDiff := Some \<lparr>td_SimilarityRatio = ratio, td_EditDistance = 0,
         td_BaselineLength = baselineLen, td_CandidateLength = candidateLen,
         td_Methodology = ''normalized_levenshtein_v2''\<rparr>\<rparr>"

definition SetTokenSimilarityWithEditDistance ::
    "f64 \<Rightarrow> int \<Rightarrow> int \<Rightarrow> int \<Rightarrow> RiskReport \<Rightarrow> RiskReport" where
  "SetTokenSimilarityWithEditDistance ratio editDistance baselineLen candidateLen r =
     r\<lparr>rr_TokenDiff := Some \<lparr>td_SimilarityRatio = ratio, td_EditDistance = editDistance,
         td_BaselineLength = baselineLen, td_CandidateLength = candidateLen,
         td_Methodology = ''normalized_levenshtein_v2''\<rparr>\<rparr>"

definition SetRisk :: "f64 \<Rightarrow> Recommendation \<Rightarrow> RiskReport \<Rightarrow> RiskReport" where
  "SetRisk score recommendation r =
     r\<lparr>rr_Risk := Some (zero_RiskAssessment\<lparr>ra_Score := score, ra_Recommendation := recommendation,
         ra_Methodology := ''embedding_cosine_v3''\<rparr>)\<rparr>"

definition SetRiskWithReasons ::
    "f64 \<Rightarrow> Recommendation \<Rightarrow> string list \<Rightarrow> RiskReport \<Rightarrow> RiskReport" where
  "SetRiskWithReasons score recommendation reasons r =
     r\<lparr>rr_Risk := Some (zero_RiskAssessment\<lparr>ra_Score := score, ra_Recommendation := recommendation,
         ra_RecommendationReasons := reasons, ra_Methodology := ''embedding_cosine_v3''\<rparr>)\<rparr>"

definition AddFieldRisk ::
    "string \<Rightarrow> any \<Rightarrow> any \<Rightarrow> RiskLevel \<Rightarrow> f64 option \<Rightarrow> ChangeType \<Rightarrow> RiskReport \<Rightarrow> RiskReport" where
  "AddFieldRisk path oldValue newValue riskLevel confidence changeType r =
     (let ra = (case rr_Risk r of None \<Rightarrow> zero_RiskAssessment | Some ra \<Rightarrow> ra) in
      r\<lparr>rr_Risk := Some (ra\<lparr>ra_Fields := ra_Fields ra @
         [\<lparr>fr_Path = path, fr_OldValue = oldValue, fr_NewValue = newValue,
           fr_RiskLevel = riskLevel, fr_Confidence = confidence, fr_ChangeType = changeType\<rparr>]\<rparr>)\<rparr>)"

section \<open>The execution state machine\<close>

text \<open>
  A run that asks \<open>CanTransitionTo\<close> before each \<open>AddStateTransition\<close>, from a trace in any
  state. The history of a trace is its list of (from, to) pairs.
\<close>

inductive guarded_run :: "Trace \<Rightarrow> Trace \<Rightarrow> bool" where
  guarded_refl: "guarded_run t t"
| guarded_step: "guarded_run t0 t \<Longrightarrow> CanTransitionTo t to \<Longrightarrow>
     guarded_run t0 (AddStateTransition now (tr_ExecutionState t) to t)"

definition history :: "Trace \<Rightarrow> (ExecutionState \<times> ExecutionState) list" where
  "history t = map (\<lambda>s. (st_From s, st_To s)) (obs_StateTransitions (tr_Observations t))"

definition fresh_trace :: "Trace \<Rightarrow> bool" where
  "fresh_trace t \<longleftrightarrow> tr_ExecutionState t = StateInit \<and> history t = []"

text \<open>The path that leads to validation, and the histories that are possible in each state.\<close>

definition main_path :: "(ExecutionState \<times> ExecutionState) list" where
  "main_path = [(StateInit, StateConstraintEval), (StateConstraintEval, StateExecuting),
     (StateExecuting, StateValidation), (StateValidation, StateFinalized)]"

definition possible :: "ExecutionState \<Rightarrow> (ExecutionState \<times> ExecutionState) list \<Rightarrow> bool" where
  "possible s h \<longleftrightarrow>
     (s, h) \<in> {(StateInit, []), (StateConstraintEval, take 1 main_path),
       (StateExecuting, take 2 main_path), (StateValidation, take 3 main_path),
       (StateFinalized, main_path),
       (StateFailed, take 1 main_path @ [(StateConstraintEval, StateFailed)]),
       (StateFailed, take 2 main_path @ [(StateExecuting, StateFailed)]),
       (StateFailed, take 3 main_path @ [(StateValidation, StateFailed)])}"

lemma AddStateTransition_simps [simp]:
  "tr_ExecutionState (AddStateTransition now from to t) = to"
  "history (AddStateTransition now from to t) = history t @ [(from, to)]"
  by (simp_all add: AddStateTransition_def history_def)

lemma possible_step:
  "possible (tr_ExecutionState t) (history t) \<Longrightarrow> CanTransitionTo t to \<Longrightarrow>
    possible to (history t @ [(tr_ExecutionState t, to)])"
  by (auto simp: possible_def CanTransitionTo_def main_path_def Let_def split: if_splits)

lemma guarded_run_possible:
  "guarded_run t0 t \<Longrightarrow> fresh_trace t0 \<Longrightarrow> possible (tr_ExecutionState t) (history t)"
  by (induction rule: guarded_run.induct)
    (auto simp: fresh_trace_def possible_step, simp add: possible_def)

lemma final_no_successor: "IsFinalState t \<Longrightarrow> \<not> CanTransitionTo t to"
  by (auto simp: IsFinalState_def CanTransitionTo_def)

lemma possible_progress:
  "possible (tr_ExecutionState t) h \<Longrightarrow> \<not> IsFinalState t \<Longrightarrow> \<exists>to. CanTransitionTo t to"
  by (auto simp: possible_def IsFinalState_def CanTransitionTo_def)

text \<open>
  \<^bold>\<open>C1.\<close> The state machine of a trace. A guarded run from a fresh trace takes at most four
  transitions; it stands in FINALIZED only after the whole path INIT, CONSTRAINT\_EVAL,
  EXECUTING, VALIDATION, FINALIZED was recorded; whatever failed had at least been evaluated;
  and the run is stuck exactly in the two final states.
\<close>

theorem state_machine_sound:
  assumes "guarded_run t0 t" and "fresh_trace t0"
  shows "length (history t) \<le> 4 \<and>
    (tr_ExecutionState t = StateFinalized \<longleftrightarrow> history t = main_path) \<and>
    (tr_ExecutionState t = StateFailed \<longleftrightarrow>
      history t \<noteq> [] \<and> snd (last (history t)) = StateFailed) \<and>
    (history t = [] \<or> hd (history t) = (StateInit, StateConstraintEval)) \<and>
    (IsFinalState t \<longleftrightarrow> (\<forall>to. \<not> CanTransitionTo t to))"
proof -
  have p: "possible (tr_ExecutionState t) (history t)"
    using assms by (rule guarded_run_possible)
  then have "IsFinalState t \<longleftrightarrow> (\<forall>to. \<not> CanTransitionTo t to)"
    using possible_progress final_no_successor by blast
  with p show ?thesis by (auto simp: possible_def main_path_def)
qed

definition sample_trace :: Trace where
  "sample_trace = \<lparr>tr_TraceID = ''t1'', tr_ParentID = None, tr_SessionID = Some ''s1'',
     tr_ExecutionState = StateInit, tr_Model = ''m'', tr_Input = zero_Input,
     tr_Output = zero_Output, tr_Observations = zero_Observations, tr_Proofs = zero_Proofs,
     tr_ConstraintsApplied = zero_ConstraintsApplied,
     tr_CreatedAt = \<lparr>t_nanos = 0, t_offset = 0\<rparr>, tr_TTLExpireAt = None, tr_Extensions = None\<rparr>"

theorem state_machine_sound_witness:
  "\<exists>t. guarded_run sample_trace t \<and> tr_ExecutionState t = StateConstraintEval
     \<and> length (history t) \<le> 4"
proof -
  let ?t = "AddStateTransition t_zero StateInit StateConstraintEval sample_trace"
  have r: "guarded_run sample_trace ?t"
    using guarded_step [OF guarded_refl, of sample_trace StateConstraintEval t_zero]
    by (simp add: sample_trace_def CanTransitionTo_def)
  have f: "fresh_trace sample_trace"
    by (simp add: fresh_trace_def sample_trace_def history_def zero_Observations_def)
  show ?thesis
    using r state_machine_sound [OF r f] by auto
qed

end
