(* ===== verification/Utf8.thy ===== *)
theory Utf8
  imports Prelude
begin

text \<open>
  UTF-8 as Go's \<^verbatim>\<open>unicode/utf8\<close> decodes and encodes it: an invalid byte decodes to U+FFFD
  with size 1. Ranging over a string and converting it to \<^verbatim>\<open>[]rune\<close> both use this decoder.
\<close>

definition byte :: "nat \<Rightarrow> char" where
  "byte n = char_of n"

definition ord :: "char \<Rightarrow> nat" where
  "ord c = of_char c"

lemma ord_byte [simp]: "n < 256 \<Longrightarrow> ord (byte n) = n"
  by (simp add: ord_def byte_def)

lemma byte_ord [simp]: "byte (ord c) = c"
  by (simp add: ord_def byte_def)

lemma ord_less [simp]: "ord c < 256"
  using range_nat_of_char by (auto simp: ord_def)

definition cont :: "nat \<Rightarrow> nat \<Rightarrow> nat \<Rightarrow> bool" where
  "cont lo hi b \<longleftrightarrow> lo \<le> b \<and> b \<le> hi"

definition RuneError :: nat where "RuneError = 65533"

text \<open>The bounds of the second byte after a given lead byte of three or four bytes.\<close>

definition second_lo :: "nat \<Rightarrow> nat" where
  "second_lo b = (if b = 224 then 160 else if b = 240 then 144 else 128)"

definition second_hi :: "nat \<Rightarrow> nat" where
  "second_hi b = (if b = 237 then 159 else if b = 244 then 143 else 191)"

definition decode_bytes :: "nat \<Rightarrow> nat list \<Rightarrow> nat \<times> nat" where
  "decode_bytes b bs =
     (if b < 128 then (b, 1)
      else if cont 194 223 b then
        (case bs of c1 # _ \<Rightarrow>
           if cont 128 191 c1 then ((b - 192) * 64 + (c1 - 128), 2) else (RuneError, 1)
         | [] \<Rightarrow> (RuneError, 1))
      else if cont 224 239 b then
        (case bs of c1 # c2 # _ \<Rightarrow>
           if cont (second_lo b) (second_hi b) c1 \<and> cont 128 191 c2
           then ((b - 224) * 4096 + (c1 - 128) * 64 + (c2 - 128), 3) else (RuneError, 1)
         | _ \<Rightarrow> (RuneError, 1))
      else if cont 240 244 b then
        (case bs of c1 # c2 # c3 # _ \<Rightarrow>
           if cont (second_lo b) (second_hi b) c1 \<and> cont 128 191 c2 \<and> cont 128 191 c3
           then ((b - 240) * 262144 + (c1 - 128) * 4096 + (c2 - 128) * 64 + (c3 - 128), 4)
           else (RuneError, 1)
         | _ \<Rightarrow> (RuneError, 1))
      else (RuneError, 1))"

text \<open>\<^verbatim>\<open>utf8.DecodeRuneInString\<close>; the callers never pass an empty string.\<close>

definition DecodeRune :: "string \<Rightarrow> nat \<times> nat" where
  "DecodeRune s = (case s of [] \<Rightarrow> (RuneError, 0)
     | c # cs \<Rightarrow> decode_bytes (ord c) (map ord (take 3 cs)))"

lemma decode_bytes_size: "1 \<le> snd (decode_bytes b bs)"
  by (auto simp: decode_bytes_def split: list.splits)

function decode_all :: "string \<Rightarrow> (nat \<times> nat) list" where
  "decode_all s = (if s = [] then [] else DecodeRune s # decode_all (drop (snd (DecodeRune s)) s))"
  by pat_completeness auto
termination
proof (relation "measure length")
  fix s :: string
  assume s: "s \<noteq> []"
  then obtain c cs where "s = c # cs" by (cases s) auto
  then have "1 \<le> snd (DecodeRune s)" by (simp add: DecodeRune_def decode_bytes_size [simplified])
  with s show "(drop (snd (DecodeRune s)) s, s) \<in> measure length"
    by (simp add: Suc_le_eq)
qed simp

declare decode_all.simps [simp del]

definition runes :: "string \<Rightarrow> nat list" where
  "runes s = map fst (decode_all s)"

text \<open>\<^verbatim>\<open>WriteRune\<close> and the conversion of a rune to a string.\<close>

definition scalar :: "nat \<Rightarrow> bool" where
  "scalar r \<longleftrightarrow> r < 55296 \<or> (57344 \<le> r \<and> r < 1114112)"

definition encode_scalar :: "nat \<Rightarrow> string" where
  "encode_scalar r =
     (if r < 128 then [byte r]
      else if r < 2048 then [byte (192 + r div 64), byte (128 + r mod 64)]
      else if r < 65536 then
        [byte (224 + r div 4096), byte (128 + r div 64 mod 64), byte (128 + r mod 64)]
      else [byte (240 + r div 262144), byte (128 + r div 4096 mod 64),
            byte (128 + r div 64 mod 64), byte (128 + r mod 64)])"

definition encode_rune :: "nat \<Rightarrow> string" where
  "encode_rune r = encode_scalar (if scalar r then r else RuneError)"

text \<open>The conversion of a slice of runes to a string.\<close>

definition string_of_runes :: "nat list \<Rightarrow> string" where
  "string_of_runes rs = concat (map encode_rune rs)"

definition valid_utf8 :: "string \<Rightarrow> bool" where
  "valid_utf8 s \<longleftrightarrow> (RuneError, 1) \<notin> set (decode_all s)"

section \<open>Decoding an encoded scalar\<close>

text \<open>Base 64 digits, as the continuation bytes carry them.\<close>

lemma digits64 [simp]:
  fixes p q :: nat
  assumes "q < 64"
  shows "(p * 64 + q) div 64 = p" "(p * 64 + q) mod 64 = q"
  using assms by simp_all

lemma digits64_2:
  fixes p q u :: nat
  assumes "q < 64" "u < 64"
  shows "(p * 4096 + q * 64 + u) div 4096 = p" "(p * 4096 + q * 64 + u) div 64 mod 64 = q"
    "(p * 4096 + q * 64 + u) mod 64 = u"
proof -
  have e: "p * 4096 + q * 64 + u = (p * 64 + q) * 64 + u" by simp
  have d: "((p * 64 + q) * 64 + u) div 64 = p * 64 + q" using assms by (rule_tac digits64(1))
  show "(p * 4096 + q * 64 + u) div 64 mod 64 = q" unfolding e d using assms by simp
  show "(p * 4096 + q * 64 + u) mod 64 = u" unfolding e using assms by (rule_tac digits64(2))
  have "(p * 4096 + q * 64 + u) div (64 * 64) = p" unfolding div_mult2_eq e d using assms by simp
  then show "(p * 4096 + q * 64 + u) div 4096 = p" by simp
qed

lemma digits64_3:
  fixes p q u v :: nat
  assumes "q < 64" "u < 64" "v < 64"
  shows "(p * 262144 + q * 4096 + u * 64 + v) div 262144 = p"
    "(p * 262144 + q * 4096 + u * 64 + v) div 4096 mod 64 = q"
    "(p * 262144 + q * 4096 + u * 64 + v) div 64 mod 64 = u"
    "(p * 262144 + q * 4096 + u * 64 + v) mod 64 = v"
proof -
  let ?h = "p * 4096 + q * 64 + u"
  have e: "p * 262144 + q * 4096 + u * 64 + v = ?h * 64 + v" by simp
  have d: "(?h * 64 + v) div 64 = ?h" using assms by (rule_tac digits64(1))
  have h: "?h div 64 = p * 64 + q"
  proof -
    have "?h = (p * 64 + q) * 64 + u" by simp
    then show ?thesis using assms digits64(1) by metis
  qed
  show "(p * 262144 + q * 4096 + u * 64 + v) div 64 mod 64 = u"
    unfolding e d by (rule trans [OF _ digits64_2(3)]) (use assms in simp_all)
  show "(p * 262144 + q * 4096 + u * 64 + v) mod 64 = v"
    unfolding e using assms by (rule_tac digits64(2))
  have "(p * 262144 + q * 4096 + u * 64 + v) div (64 * 64) = p * 64 + q"
    unfolding div_mult2_eq e d h ..
  then have c: "(p * 262144 + q * 4096 + u * 64 + v) div 4096 = p * 64 + q" by simp
  then show "(p * 262144 + q * 4096 + u * 64 + v) div 4096 mod 64 = q" using assms by simp
  have "(p * 262144 + q * 4096 + u * 64 + v) div (4096 * 64) = p"
    unfolding div_mult2_eq c using assms by simp
  then show "(p * 262144 + q * 4096 + u * 64 + v) div 262144 = p" by simp
qed

lemma mod64_le [simp]: "(n::nat) mod 64 \<le> 63"
  using mod_less_divisor [of 64 n] by linarith

lemma scalar_split3: "(r::nat) div 4096 * 4096 + r div 64 mod 64 * 64 + r mod 64 = r"
proof -
  have "r div 4096 = r div 64 div 64" by (simp add: div_mult2_eq [symmetric])
  then have "(r div 4096 * 64 + r div 64 mod 64) * 64 + r mod 64 = r"
    by (simp add: div_mult_mod_eq)
  then show ?thesis by simp
qed

lemma scalar_split4:
  "(r::nat) div 262144 * 262144 + r div 4096 mod 64 * 4096 + r div 64 mod 64 * 64 + r mod 64 = r"
proof -
  have "r div 262144 = r div 4096 div 64" by (simp add: div_mult2_eq [symmetric])
  then have "(r div 262144 * 64 + r div 4096 mod 64) * 4096 = r div 4096 * 4096"
    by (simp add: div_mult_mod_eq)
  then show ?thesis using scalar_split3 [of r] by simp
qed

lemma decode_encode:
  assumes "scalar r"
  shows "DecodeRune (encode_scalar r @ s) = (r, length (encode_scalar r))"
proof -
  consider "r < 128" | "128 \<le> r" "r < 2048" | "2048 \<le> r" "r < 65536" | "65536 \<le> r" "r < 1114112"
    using assms by (fastforce simp: scalar_def)
  then show ?thesis
  proof cases
    case 1
    then show ?thesis by (simp add: encode_scalar_def DecodeRune_def decode_bytes_def)
  next
    case 2
    then have "192 + r div 64 < 224" "194 \<le> 192 + r div 64" by simp_all
    with 2 show ?thesis by (simp add: encode_scalar_def DecodeRune_def decode_bytes_def cont_def)
  next
    case 3
    have b: "224 + r div 4096 < 240" using 3 by simp
    have "cont (second_lo (224 + r div 4096)) (second_hi (224 + r div 4096)) (128 + r div 64 mod 64)"
    proof -
      have "r div 64 mod 64 + 64 * (r div 4096) = r div 64"
        using mod_mult_div_eq [of "r div 64" 64] by (simp add: div_mult2_eq [symmetric])
      moreover have "r div 64 < 864 \<or> 896 \<le> r div 64" using assms by (auto simp: scalar_def)
      moreover have "32 \<le> r div 64" using 3 by simp
      moreover have "r div 64 mod 64 \<le> 63"
        using mod_less_divisor [of 64 "r div 64"] by linarith
      moreover have "r div 4096 < 16" using 3 by simp
      ultimately show ?thesis
        unfolding cont_def second_lo_def second_hi_def by (auto split: if_splits)
    qed
    then have "decode_bytes (224 + r div 4096) (map ord (take 3 (byte (128 + r div 64 mod 64) # byte (128 + r mod 64) # s)))
       = (r div 4096 * 4096 + r div 64 mod 64 * 64 + r mod 64, 3)"
      using 3 b by (simp add: decode_bytes_def) (simp add: cont_def)
    then show ?thesis using 3 b
      unfolding scalar_split3 by (simp add: encode_scalar_def DecodeRune_def)
  next
    case 4
    have b: "240 + r div 262144 \<le> 244" using 4 by simp
    have "r div 4096 mod 64 + 64 * (r div 262144) = r div 4096"
      using mod_mult_div_eq [of "r div 4096" 64] by (simp add: div_mult2_eq [symmetric])
    moreover have "r div 4096 < 272" "16 \<le> r div 4096" using 4 by simp_all
    moreover have "r div 4096 mod 64 \<le> 63"
      using mod_less_divisor [of 64 "r div 4096"] by linarith
    ultimately have "cont (second_lo (240 + r div 262144)) (second_hi (240 + r div 262144))
        (128 + r div 4096 mod 64)"
      using b unfolding cont_def second_lo_def second_hi_def by (auto split: if_splits)
    then have "decode_bytes (240 + r div 262144) (map ord (take 3
        (byte (128 + r div 4096 mod 64) # byte (128 + r div 64 mod 64) # byte (128 + r mod 64) # s)))
       = (r div 262144 * 262144 + r div 4096 mod 64 * 4096 + r div 64 mod 64 * 64 + r mod 64, 4)"
      using 4 b by (simp add: decode_bytes_def) (simp add: cont_def)
    then show ?thesis using 4 b
      unfolding scalar_split4 by (simp add: encode_scalar_def DecodeRune_def)
  qed
qed

text \<open>And conversely: what decodes without error was the encoding of a scalar.\<close>

lemma encode_decode_bytes:
  assumes "decode_bytes (ord c) (map ord (take 3 cs)) = (r, n)" and "(r, n) \<noteq> (RuneError, 1)"
  shows "scalar r \<and> encode_scalar r = take n (c # cs)"
proof -
  consider "ord c < 128" | "cont 194 223 (ord c)" | "cont 224 239 (ord c)" | "cont 240 244 (ord c)"
    using assms by (fastforce simp: decode_bytes_def)
  then show ?thesis
  proof cases
    case 1
    with assms show ?thesis
      by (auto simp: decode_bytes_def scalar_def encode_scalar_def)
  next
    case 2
    then have c: "194 \<le> ord c" "ord c \<le> 223" by (simp_all add: cont_def)
    with assms obtain d ds where cs: "cs = d # ds" and d: "cont 128 191 (ord d)"
      and r: "r = (ord c - 192) * 64 + (ord d - 128)" "n = 2"
      by (cases cs) (auto simp: decode_bytes_def cont_def split: if_splits)
    define p q where pq: "p = ord c - 192" "q = ord d - 128"
    have lt: "2 \<le> p" "p < 32" "q < 64" using c d by (auto simp: pq cont_def)
    have eq: "192 + p = ord c" "128 + q = ord d" using c d by (auto simp: pq cont_def)
    have rr: "r = p * 64 + q" by (simp add: r pq)
    have dm: "r div 64 = p" "r mod 64 = q" unfolding rr using lt by (rule_tac digits64; simp)+
    have "128 \<le> r" "r < 2048" using lt by (simp_all add: rr)
    then show ?thesis
      by (simp add: scalar_def encode_scalar_def cs r(2) dm eq)
  next
    case 3
    then have c: "224 \<le> ord c" "ord c \<le> 239" by (simp_all add: cont_def)
    with assms obtain d e ds where cs: "cs = d # e # ds"
      and d: "cont (second_lo (ord c)) (second_hi (ord c)) (ord d)" "cont 128 191 (ord e)"
      and r: "r = (ord c - 224) * 4096 + (ord d - 128) * 64 + (ord e - 128)" "n = 3"
      by (cases cs; cases "tl cs") (auto simp: decode_bytes_def cont_def split: if_splits)
    define p q u where pqu: "p = ord c - 224" "q = ord d - 128" "u = ord e - 128"
    have lt: "p < 16" "q < 64" "u < 64"
      using c d by (auto simp: pqu cont_def second_hi_def second_lo_def split: if_splits)
    have eq: "ord c = 224 + p" "ord d = 128 + q" "ord e = 128 + u"
      using c d by (auto simp: pqu cont_def second_lo_def split: if_splits)
    have rr: "r = p * 4096 + q * 64 + u" by (simp add: r pqu)
    have dm: "r div 4096 = p" "r div 64 mod 64 = q" "r mod 64 = u"
      unfolding rr using lt by (rule_tac digits64_2; simp)+
    have "p = 0 \<Longrightarrow> 32 \<le> q" "p = 13 \<Longrightarrow> q < 32"
      using d(1) unfolding eq by (simp_all add: cont_def second_lo_def second_hi_def)
    then have sc: "r < 55296 \<or> 57344 \<le> r" and "2048 \<le> r" "r < 65536"
      using lt unfolding rr by (cases "p \<le> 12"; cases "p = 13"; linarith)+
    then show ?thesis
      by (simp add: encode_scalar_def dm cs r(2) flip: eq) (use sc in \<open>simp add: scalar_def\<close>)
  next
    case 4
    then have c: "240 \<le> ord c" "ord c \<le> 244" by (simp_all add: cont_def)
    have shape: "\<exists>d e f ds. cs = d # e # f # ds"
    proof (rule ccontr)
      assume "\<not> ?thesis"
      then have "length cs \<le> 2"
        by (cases cs; cases "tl cs"; cases "tl (tl cs)") auto
      then have "length (map ord (take 3 cs)) \<le> 2" by simp
      then have "decode_bytes (ord c) (map ord (take 3 cs)) = (RuneError, 1)"
        using 4 unfolding decode_bytes_def by (auto simp: cont_def split: list.splits)
      with assms show False by simp
    qed
    then obtain d e f ds where cs: "cs = d # e # f # ds" by blast
    have "cont (second_lo (ord c)) (second_hi (ord c)) (ord d) \<and> cont 128 191 (ord e)
        \<and> cont 128 191 (ord f)"
      and r: "r = (ord c - 240) * 262144 + (ord d - 128) * 4096 + (ord e - 128) * 64 + (ord f - 128)"
        "n = 4"
      using assms c by (auto simp: cs decode_bytes_def cont_def split: if_splits)
    then have d: "cont (second_lo (ord c)) (second_hi (ord c)) (ord d)" "cont 128 191 (ord e)"
        "cont 128 191 (ord f)" by simp_all
    define p q u v where pqu: "p = ord c - 240" "q = ord d - 128" "u = ord e - 128" "v = ord f - 128"
    have lt: "p < 5" "q < 64" "u < 64" "v < 64"
      using c d by (auto simp: pqu cont_def second_hi_def second_lo_def split: if_splits)
    have eq: "ord c = 240 + p" "ord d = 128 + q" "ord e = 128 + u" "ord f = 128 + v"
      using c d by (auto simp: pqu cont_def second_lo_def split: if_splits)
    have rr: "r = p * 262144 + q * 4096 + u * 64 + v" by (simp add: r pqu)
    have dm: "r div 262144 = p" "r div 4096 mod 64 = q" "r div 64 mod 64 = u" "r mod 64 = v"
      unfolding rr using lt by (rule_tac digits64_3; simp)+
    have "p = 0 \<Longrightarrow> 16 \<le> q" "p = 4 \<Longrightarrow> q < 16"
      using d(1) unfolding eq by (simp_all add: cont_def second_lo_def second_hi_def)
    then have "65536 \<le> r" "r < 1114112"
      using lt unfolding rr by linarith+
    then show ?thesis
      by (simp add: encode_scalar_def dm cs r(2) scalar_def flip: eq)
  qed
qed

lemma encode_decode:
  assumes "s \<noteq> []" "DecodeRune s \<noteq> (RuneError, 1)"
  shows "scalar (fst (DecodeRune s))"
    and "encode_scalar (fst (DecodeRune s)) = take (snd (DecodeRune s)) s"
proof -
  obtain c cs where s: "s = c # cs" using assms(1) by (cases s) auto
  obtain r n where d: "decode_bytes (ord c) (map ord (take 3 cs)) = (r, n)"
    by (cases "decode_bytes (ord c) (map ord (take 3 cs))") auto
  from assms(2) have "scalar r \<and> encode_scalar r = take n (c # cs)"
    by (intro encode_decode_bytes [OF d]) (simp add: s DecodeRune_def d)
  then show "scalar (fst (DecodeRune s))"
    and "encode_scalar (fst (DecodeRune s)) = take (snd (DecodeRune s)) s"
    by (simp_all add: s DecodeRune_def d)
qed

section \<open>Valid strings are determined by their runes\<close>

lemma string_of_runes_valid: "valid_utf8 s \<Longrightarrow> string_of_runes (runes s) = s"
proof (induction s rule: decode_all.induct)
  case (1 s)
  show ?case
  proof (cases "s = []")
    case True
    then show ?thesis by (simp add: runes_def string_of_runes_def decode_all.simps)
  next
    case False
    let ?t = "drop (snd (DecodeRune s)) s"
    have d: "decode_all s = DecodeRune s # decode_all ?t"
      using False by (subst decode_all.simps) simp
    with "1.prems" have ne: "DecodeRune s \<noteq> (RuneError, 1)" and t: "valid_utf8 ?t"
      by (auto simp: valid_utf8_def)
    have "string_of_runes (runes s) = encode_rune (fst (DecodeRune s)) @ string_of_runes (runes ?t)"
      by (simp add: runes_def d string_of_runes_def)
    also have "encode_rune (fst (DecodeRune s)) = take (snd (DecodeRune s)) s"
      using encode_decode [OF False ne] by (simp add: encode_rune_def)
    also have "string_of_runes (runes ?t) = ?t" using "1.IH" False t by simp
    finally show ?thesis by simp
  qed
qed

lemma runes_inject: "valid_utf8 s \<Longrightarrow> valid_utf8 t \<Longrightarrow> runes s = runes t \<longleftrightarrow> s = t"
  using string_of_runes_valid by metis

lemma scalar_RuneError [simp]: "scalar RuneError"
  by (simp add: scalar_def RuneError_def)

lemma scalar_decode:
  assumes "s \<noteq> []" shows "scalar (fst (DecodeRune s))"
  using assms encode_decode(1) by (cases "DecodeRune s = (RuneError, 1)") auto

lemma scalar_runes: "r \<in> set (runes s) \<Longrightarrow> scalar r"
proof (induction s rule: decode_all.induct)
  case (1 s)
  then show ?case
    using scalar_decode [of s] by (subst (asm) (2) runes_def, subst (asm) decode_all.simps)
      (auto simp: runes_def split: if_splits)
qed

text \<open>ASCII text is its own rune sequence.\<close>

lemma runes_Cons_ascii: "ord c < 128 \<Longrightarrow> runes (c # s) = ord c # runes s"
  by (simp add: runes_def decode_all.simps [of "c # s"] DecodeRune_def decode_bytes_def)

lemma runes_Nil [simp]: "runes [] = []"
  by (simp add: runes_def decode_all.simps)

lemma runes_ascii: "\<forall>c \<in> set s. ord c < 128 \<Longrightarrow> runes s = map ord s"
  by (induction s) (auto simp: runes_Cons_ascii)

lemma length_runes_le: "length (runes s) \<le> length s"
proof (induction s rule: decode_all.induct)
  case (1 s)
  show ?case
  proof (cases "s = []")
    case False
    have "1 \<le> snd (DecodeRune s)" using False decode_bytes_size by (cases s) (auto simp: DecodeRune_def)
    moreover have "length (runes (drop (snd (DecodeRune s)) s)) \<le> length (drop (snd (DecodeRune s)) s)"
      using "1.IH" False by simp
    moreover have "length (runes s) = Suc (length (runes (drop (snd (DecodeRune s)) s)))"
      using False by (simp add: runes_def decode_all.simps [of s])
    ultimately show ?thesis using False by (cases s) auto
  qed simp
qed

end
