(* ===== verification/Locations.thy ===== *)
theory Locations
  imports GoValue
begin

text \<open>
  Locations inside a value of type \<^verbatim>\<open>any\<close> and what is found there. Masking and the removal of unsigned fields
  are specified by what they do at every location.
\<close>

datatype Step = Key string | Idx nat

type_synonym Location = "Step list"

text \<open>What is at a location: an object, an array of some length, or a value that is neither.\<close>

datatype Node = NObj | NArr nat | NLeaf any

fun node :: "any \<Rightarrow> Location \<Rightarrow> Node option" where
  "node (AMap m) [] = Some NObj"
| "node (AArr vs) [] = Some (NArr (length vs))"
| "node v [] = Some (NLeaf v)"
| "node (AMap m) (Key k # l) = (case amap_get m k of None \<Rightarrow> None | Some v \<Rightarrow> node v l)"
| "node (AArr vs) (Idx i # l) = (if i < length vs then node (vs ! i) l else None)"
| "node v (s # l) = None"

lemma amap_get_map: "amap_get (map (\<lambda>(k, v). (k, f k v)) m) k = map_option (f k) (amap_get m k)"
  by (induction m) (auto simp: amap_get_def)

lemma amap_get_Nil [simp]: "amap_get [] k = None"
  by (simp add: amap_get_def)

lemma amap_get_Cons [simp]: "amap_get ((l, v) # m) k = (if l = k then Some v else amap_get m k)"
  by (simp add: amap_get_def)

lemma amap_get_append: "amap_get (m @ n) k = (case amap_get m k of None \<Rightarrow> amap_get n k | Some v \<Rightarrow> Some v)"
  by (simp add: amap_get_def map_add_def split: option.split)

lemma amap_get_None: "amap_get m k = None \<longleftrightarrow> k \<notin> fst ` set m"
  by (simp add: amap_get_def map_of_eq_None_iff)

lemma amap_get_SomeD: "amap_get m k = Some v \<Longrightarrow> (k, v) \<in> set m"
  by (simp add: amap_get_def map_of_SomeD)

lemma node_leaf: "(\<And>m. v \<noteq> AMap m) \<Longrightarrow> (\<And>vs. v \<noteq> AArr vs) \<Longrightarrow> node v l = (if l = [] then Some (NLeaf v) else None)"
  by (cases v; cases l; cases "hd l") auto

lemma amap_get_in: "distinct (map fst m) \<Longrightarrow> (k, v) \<in> set m \<Longrightarrow> amap_get m k = Some v"
  by (simp add: amap_get_def)

end
