(* ===== verification/Canonical.thy ===== *)
theory Canonical
  imports Jcs Locations "HOL-Library.Multiset"
begin

text \<open>
  What the canonical text promises: it is the same for equal values whatever order their maps
  are visited in, it exists exactly for values of supported types, and it determines the JSON
  value it denotes. The removal of unsigned fields is idempotent and complete.
\<close>

section \<open>Independence of map order\<close>

text \<open>The same value up to the order in which a range visits each map.\<close>

inductive same_value :: "any \<Rightarrow> any \<Rightarrow> bool" where
  same_refl: "same_value v v"
| same_arr: "list_all2 same_value vs ws \<Longrightarrow> same_value (AArr vs) (AArr ws)"
| same_map_arr: "list_all2 (\<lambda>m n. same_value (AMap m) (AMap n)) ms ns \<Longrightarrow>
     same_value (AMapArr ms) (AMapArr ns)"
| same_map: "distinct (map fst m) \<Longrightarrow> mset m' = mset m \<Longrightarrow>
     list_all2 (\<lambda>p q. fst p = fst q \<and> same_value (snd p) (snd q)) m' n \<Longrightarrow>
     same_value (AMap m) (AMap n)"

lemma canonicalizeObject_cong:
  assumes "list_all2 (\<lambda>p q. fst p = fst q \<and>
      canonicalizeValue (snd p) = canonicalizeValue (snd q)) m n"
  shows "canonicalizeObject m = canonicalizeObject n"
proof -
  let ?f = "\<lambda>(k, v). (k, canonicalizeValue v)"
  have e: "map ?f m = map ?f n"
    using assms by (induction rule: list_all2_induct) auto
  let ?g = "\<lambda>(k, r). map_ok (\<lambda>cv. canonicalizeString k @ '':'' @ cv) r"
  have c: "canonicalizeObject m = map_ok (\<lambda>cs. ''{'' @ Join cs '','' @ ''}'')
     (map_result ?g (sort_key fst (map ?f m)))" for m
  proof -
    have s: "sort_key fst (map ?f m) = map ?f (sort_key fst m)"
    proof (induction m)
      case (Cons x m)
      have i: "insort_key fst (?f x) (map ?f ys) = map ?f (insort_key fst x ys)" for ys
        by (induction ys) (auto simp: case_prod_unfold)
      show ?case by (simp add: Cons.IH i del: split_paired_All)
    qed simp
    have r: "map_result (\<lambda>(k, v). map_ok (\<lambda>cv. canonicalizeString k @ '':'' @ cv)
        (canonicalizeValue v)) xs = map_result ?g (map ?f xs)" for xs
      by (induction xs) (auto split: sum.splits)
    show ?thesis by (simp only: canonicalizeObject.simps s r)
  qed
  show ?thesis by (simp add: c e)
qed

lemma canonicalizeObject_perm:
  assumes "distinct (map fst m)" "mset m' = mset m"
  shows "canonicalizeObject m' = canonicalizeObject m"
proof -
  have one: "distinct (map fst xs) \<Longrightarrow> k \<in> set xs \<Longrightarrow> filter (\<lambda>x. fst k = fst x) xs = [k]"
    for xs :: amap and k
    by (induction xs) (auto simp: filter_empty_conv image_iff)
  have d: "distinct (map fst m')"
    using assms by (metis mset_eq_imp_distinct_iff mset_map)
  have "sort_key fst m' = sort_key fst m"
  proof (rule properties_for_sort_key)
    fix k assume "k \<in> set (sort_key fst m)"
    then have "k \<in> set m" "k \<in> set m'" using assms(2) by (auto dest: mset_eq_setD)
    moreover have "distinct (map fst (sort_key fst m))"
      using assms(1) by (metis mset_eq_imp_distinct_iff mset_map mset_sort)
    ultimately show "filter (\<lambda>x. fst k = fst x) (sort_key fst m) = filter (\<lambda>x. fst k = fst x) m'"
      using one [of "sort_key fst m" k] one [of m' k] d by simp
  qed (use assms(2) in simp_all)
  then show ?thesis by (simp add: canonicalizeObject.simps)
qed

lemma canonicalize_array_cong:
  "map canonicalizeValue vs = map canonicalizeValue ws \<Longrightarrow> canonicalizeArray vs = canonicalizeArray ws"
proof -
  have "map_result canonicalizeValue vs = map_result id (map canonicalizeValue vs)" for vs
    by (induction vs) (auto split: sum.splits)
  then show "map canonicalizeValue vs = map canonicalizeValue ws \<Longrightarrow> canonicalizeArray vs = canonicalizeArray ws"
    by (simp add: canonicalizeArray.simps)
qed

lemma canonicalize_array_maps_cong:
  "map canonicalizeObject ms = map canonicalizeObject ns \<Longrightarrow>
    canonicalizeArrayOfMaps ms = canonicalizeArrayOfMaps ns"
proof -
  have "map_result canonicalizeObject ms = map_result id (map canonicalizeObject ms)" for ms
    by (induction ms) (auto split: sum.splits)
  then show "map canonicalizeObject ms = map canonicalizeObject ns \<Longrightarrow>
    canonicalizeArrayOfMaps ms = canonicalizeArrayOfMaps ns"
    by (simp add: canonicalizeArrayOfMaps.simps)
qed

lemma same_value_canonical: "same_value v w \<Longrightarrow> canonicalizeValue v = canonicalizeValue w"
proof (induction rule: same_value.induct)
  case (same_arr vs ws)
  have "map canonicalizeValue vs = map canonicalizeValue ws"
    using same_arr.IH by (induction rule: list_all2_induct) simp_all
  then show ?case unfolding canonicalizeValue.simps by (rule canonicalize_array_cong)
next
  case (same_map_arr ms ns)
  have "map canonicalizeObject ms = map canonicalizeObject ns"
    using same_map_arr.IH by (induction rule: list_all2_induct) (simp_all add: canonicalizeValue.simps(9))
  then show ?case unfolding canonicalizeValue.simps by (rule canonicalize_array_maps_cong)
next
  case (same_map m m' n)
  have "list_all2 (\<lambda>p q. fst p = fst q \<and> canonicalizeValue (snd p) = canonicalizeValue (snd q)) m' n"
    using same_map.IH by (rule list_all2_mono) auto
  then show ?case
    unfolding canonicalizeValue.simps canonicalizeObject_perm [OF same_map.hyps(1,2), symmetric]
    by (rule canonicalizeObject_cong)
qed simp

section \<open>When a value has a canonical text\<close>

text \<open>The dynamic types met on the way down.\<close>

fun unsupported :: "any \<Rightarrow> string set" where
  "unsupported (AArr vs) = (\<Union>v \<in> set vs. unsupported v)"
| "unsupported (AMapArr ms) = (\<Union>m \<in> set ms. \<Union>e \<in> set m. unsupported (snd e))"
| "unsupported (AMap m) = (\<Union>e \<in> set m. unsupported (snd e))"
| "unsupported (AStrArr ss) = {''[]string''}"
| "unsupported (AMessages ms) = {''[]upstream.Message''}"
| "unsupported (AOther ty) = {ty}"
| "unsupported _ = {}"


section \<open>The JSON value of a canonical text\<close>

text \<open>JSON values: a number by its text, a string by its code points, an object by its entries.\<close>

datatype json = JNull | JBool bool | JNum string | JStr "nat list" | JArr "json list"
  | JObj "(nat list \<times> json) list"

definition number_json :: "f64 \<Rightarrow> json" where
  "number_json n = (if n = NaN \<or> n = PInf \<or> n = NInf then JNull else JNum (canonicalizeNumber n))"

function (sequential) to_json :: "any \<Rightarrow> json" where
  "to_json ANil = JNull"
| "to_json (ABool b) = JBool b"
| "to_json (AFloat f) = number_json f"
| "to_json (AInt i) = number_json (f_of_int i)"
| "to_json (AInt64 i) = number_json (f_of_int i)"
| "to_json (AString s) = JStr (runes s)"
| "to_json (AArr vs) = JArr (map to_json vs)"
| "to_json (AMapArr ms) = JArr (map (\<lambda>m. to_json (AMap m)) ms)"
| "to_json (AMap m) = JObj (map (\<lambda>(k, v). (runes k, to_json v)) (sort_key fst m))"
| "to_json _ = JNull"
  by pat_completeness auto
termination
  by (relation "measure size")
    (auto dest: size_entry size_elem size_map_elem simp: less_Suc_eq_le Suc_le_eq)

definition render_string :: "nat list \<Rightarrow> string" where
  "render_string rs = CHR 0x22 # concat (map esc_rune rs) @ [CHR 0x22]"

fun render :: "json \<Rightarrow> string" where
  "render JNull = ''null''"
| "render (JBool b) = (if b then ''true'' else ''false'')"
| "render (JNum t) = t"
| "render (JStr rs) = render_string rs"
| "render (JArr js) = ''['' @ Join (map render js) '','' @ '']''"
| "render (JObj es) = ''{'' @ Join (map (\<lambda>(k, j). render_string k @ '':'' @ render j) es) '','' @ ''}''"

lemma canonicalizeNumber_json: "canonicalizeNumber n = render (number_json n)"
  by (simp add: number_json_def canonicalizeNumber_def feq_def fle_def flt_def split: f64.splits)

lemma map_result_all_Inr:
  "(\<And>x. x \<in> set xs \<Longrightarrow> f x = Inr (g x)) \<Longrightarrow> map_result f xs = Inr (map g xs)"
  by (induction xs) auto

lemma canonical_render:
  "(unsupported v = {} \<longrightarrow> canonicalizeValue v = Inr (render (to_json v)))"
  "(\<Union> (unsupported ` set vs) = {} \<longrightarrow> canonicalizeArray vs = Inr (render (JArr (map to_json vs))))"
  "(\<Union> (unsupported ` AMap ` set ms) = {} \<longrightarrow>
      canonicalizeArrayOfMaps ms = Inr (render (to_json (AMapArr ms))))"
  "(unsupported (AMap m) = {} \<longrightarrow> canonicalizeObject m = Inr (render (to_json (AMap m))))"
proof (induction v and vs and ms and m rule:
    canonicalizeValue_canonicalizeArray_canonicalizeArrayOfMaps_canonicalizeObject.induct)
  case (13 vs)
  have "\<Union> (unsupported ` set vs) = {} \<Longrightarrow>
      map_result canonicalizeValue vs = Inr (map (render \<circ> to_json) vs)"
    using 13 by (intro map_result_all_Inr) auto
  then show ?case by (simp add: canonicalizeArray.simps)
next
  case (14 ms)
  have "\<Union> (unsupported ` AMap ` set ms) = {} \<Longrightarrow>
      map_result canonicalizeObject ms = Inr (map (\<lambda>m. render (to_json (AMap m))) ms)"
    using 14 by (intro map_result_all_Inr) auto
  then show ?case by (simp add: canonicalizeArrayOfMaps.simps comp_def)
next
  case (15 m)
  have "unsupported (AMap m) = {} \<Longrightarrow>
      map_result (\<lambda>(k, v). map_ok (\<lambda>cv. canonicalizeString k @ '':'' @ cv) (canonicalizeValue v))
        (sort_key fst m)
      = Inr (map (\<lambda>(k, v). canonicalizeString k @ '':'' @ render (to_json v)) (sort_key fst m))"
    using 15 by (intro map_result_all_Inr) (auto simp: Ball_def)
  then show ?case
    by (simp add: canonicalizeObject.simps comp_def case_prod_unfold render_string_def
        canonicalizeString_def)
qed (simp_all add: canonicalizeValue.simps canonicalizeNumber_json canonicalizeString_def render_string_def)

lemma map_result_Inl: "map_result f xs = Inl e \<Longrightarrow> \<exists>x \<in> set xs. f x = Inl e"
  by (induction xs) (auto split: sum.splits)

lemma map_result_Inr_all: "map_result f xs = Inr ys \<Longrightarrow> x \<in> set xs \<Longrightarrow> \<exists>y. f x = Inr y"
  by (induction xs arbitrary: ys) (auto split: sum.splits)

abbreviation type_errors :: "string set \<Rightarrow> string set" where
  "type_errors tys \<equiv> (\<lambda>ty. ''unsupported type: '' @ ty) ` tys"

lemma canonical_error:
  "(\<forall>e. canonicalizeValue v = Inl e \<longrightarrow> e \<in> type_errors (unsupported v))"
  "(\<forall>e. canonicalizeArray vs = Inl e \<longrightarrow> e \<in> type_errors (\<Union> (unsupported ` set vs)))"
  "(\<forall>e. canonicalizeArrayOfMaps ms = Inl e \<longrightarrow> e \<in> type_errors (\<Union> (unsupported ` AMap ` set ms)))"
  "(\<forall>e. canonicalizeObject m = Inl e \<longrightarrow> e \<in> type_errors (unsupported (AMap m)))"
proof (induction v and vs and ms and m rule:
    canonicalizeValue_canonicalizeArray_canonicalizeArrayOfMaps_canonicalizeObject.induct)
  case (13 vs)
  show ?case
  proof (intro allI impI)
    fix e assume "canonicalizeArray vs = Inl e"
    then obtain v where v: "v \<in> set vs" "canonicalizeValue v = Inl e"
      by (auto simp: canonicalizeArray.simps dest: map_result_Inl)
    then have "e \<in> type_errors (unsupported v)" using 13 by simp
    with v(1) show "e \<in> type_errors (\<Union> (unsupported ` set vs))" by blast
  qed
next
  case (14 ms)
  show ?case
  proof (intro allI impI)
    fix e assume "canonicalizeArrayOfMaps ms = Inl e"
    then obtain m where m: "m \<in> set ms" "canonicalizeObject m = Inl e"
      by (auto simp: canonicalizeArrayOfMaps.simps dest: map_result_Inl)
    then have "e \<in> type_errors (unsupported (AMap m))" using 14 by blast
    with m(1) show "e \<in> type_errors (\<Union> (unsupported ` AMap ` set ms))" by blast
  qed
next
  case (15 m)
  have *: "canonicalizeObject m = Inl e \<Longrightarrow> \<exists>(k, v) \<in> set m. canonicalizeValue v = Inl e" for e
    by (fastforce simp: canonicalizeObject.simps dest: map_result_Inl)
  show ?case
  proof (intro allI impI)
    fix e assume "canonicalizeObject m = Inl e"
    then obtain k v where kv: "(k, v) \<in> set m" "canonicalizeValue v = Inl e" using * by blast
    then have "e \<in> type_errors (unsupported v)" using 15 [of "(k, v)" k v] by simp
    moreover have "unsupported v \<subseteq> unsupported (AMap m)" using kv(1) by force
    ultimately show "e \<in> type_errors (unsupported (AMap m))" by blast
  qed
qed (simp_all add: canonicalizeValue.simps)

lemma canonical_supported:
  "(isl (canonicalizeValue v) \<or> unsupported v = {})"
  "(isl (canonicalizeArray vs) \<or> \<Union> (unsupported ` set vs) = {})"
  "(isl (canonicalizeArrayOfMaps ms) \<or> \<Union> (unsupported ` AMap ` set ms) = {})"
  "(isl (canonicalizeObject m) \<or> unsupported (AMap m) = {})"
proof (induction v and vs and ms and m rule:
    canonicalizeValue_canonicalizeArray_canonicalizeArrayOfMaps_canonicalizeObject.induct)
  case (13 vs)
  then show ?case by (auto simp: canonicalizeArray.simps isl_map_result)
next
  case (14 ms)
  then show ?case by (auto simp: canonicalizeArrayOfMaps.simps isl_map_result)
next
  case (15 m)
  then show ?case by (fastforce simp: canonicalizeObject.simps isl_map_result Bex_def)
qed (simp_all add: canonicalizeValue.simps)

section \<open>The canonical text determines the JSON value\<close>

text \<open>A reader for what one rune contributes.\<close>

definition unhex :: "char \<Rightarrow> nat" where
  "unhex c = (if ord c < 58 then ord c - 48 else ord c - 87)"

fun unesc :: "string \<Rightarrow> nat \<times> string" where
  "unesc (c # s) =
     (if c \<noteq> CHR 0x5C then (case DecodeRune (c # s) of (r, n) \<Rightarrow> (r, drop n (c # s)))
      else if hd s = CHR ''n'' then (10, tl s)
      else if hd s = CHR ''r'' then (13, tl s)
      else if hd s = CHR ''t'' then (9, tl s)
      else if hd s = CHR ''b'' then (8, tl s)
      else if hd s = CHR ''u'' then (unhex (s ! 3) * 16 + unhex (s ! 4), drop 5 s)
      else (ord (hd s), tl s))"
| "unesc [] = (0, [])"

lemma ord_of_nat [simp]: "n < 256 \<Longrightarrow> ord (char_of n) = n"
  using ord_byte [of n] by (simp add: byte_def)

lemma unhex_hex_digit [simp]: "n < 16 \<Longrightarrow> unhex (hex_digit n) = n"
  by (simp add: unhex_def hex_digit_def)

lemma encode_scalar_hd: "encode_scalar r \<noteq> []"
  "32 \<le> r \<Longrightarrow> r \<noteq> 34 \<Longrightarrow> r \<noteq> 92 \<Longrightarrow> r < 1114112 \<Longrightarrow>
    ord (hd (encode_scalar r)) \<noteq> 34 \<and> ord (hd (encode_scalar r)) \<noteq> 92"
proof -
  show "encode_scalar r \<noteq> []" by (simp add: encode_scalar_def)
  assume r: "32 \<le> r" "r \<noteq> 34" "r \<noteq> 92" "r < 1114112"
  have "r < 65536 \<Longrightarrow> 224 + r div 4096 < 256" "240 + r div 262144 < 256" "r < 2048 \<Longrightarrow> 192 + r div 64 < 256"
    using r by simp_all
  then show "ord (hd (encode_scalar r)) \<noteq> 34 \<and> ord (hd (encode_scalar r)) \<noteq> 92"
    using r by (auto simp: encode_scalar_def)
qed

lemma unesc_esc:
  assumes "scalar r" shows "unesc (esc_rune r @ s) = (r, s)"
proof -
  consider "r \<in> {34, 92, 10, 13, 9, 8, 12}" | "r < 32" "r \<notin> {10, 13, 9, 8, 12}"
    | "32 \<le> r" "r \<noteq> 34" "r \<noteq> 92"
    by fastforce
  then show ?thesis
  proof cases
    case 1
    then show ?thesis by (auto simp: esc_rune_def unhex_def ord_def nth_Cons' numeral_eq_Suc)
  next
    case 2
    have "r div 16 * 16 + r mod 16 = r" by simp
    with 2 show ?thesis by (simp add: esc_rune_def hex4_def)
  next
    case 3
    have e: "esc_rune r = encode_scalar r"
      using 3 assms by (simp add: esc_rune_def encode_rune_def)
    have lt: "r < 1114112" using assms by (auto simp: scalar_def)
    obtain c t where ct: "encode_scalar r = c # t" using encode_scalar_hd(1) [of r] by (cases "encode_scalar r") auto
    then have "ord c \<noteq> 92" using encode_scalar_hd(2) [OF 3 lt] by simp
    then have "c \<noteq> CHR 0x5C" by (auto simp: ord_def)
    then show ?thesis using decode_encode [OF assms, of s] by (simp add: e ct)
  qed
qed

lemma esc_rune_hd: "scalar r \<Longrightarrow> esc_rune r \<noteq> [] \<and> hd (esc_rune r) \<noteq> CHR 0x22"
proof -
  assume r: "scalar r"
  show ?thesis
  proof (cases "32 \<le> r \<and> r \<noteq> 34 \<and> r \<noteq> 92")
    case True
    then have e: "esc_rune r = encode_scalar r" using r by (simp add: esc_rune_def encode_rune_def)
    have "ord (hd (encode_scalar r)) \<noteq> 34"
      using encode_scalar_hd(2) [of r] True r by (auto simp: scalar_def)
    then show ?thesis using encode_scalar_hd(1) [of r] by (auto simp: e ord_def)
  qed (auto simp: esc_rune_def)
qed

lemma render_string_decode:
  assumes "list_all scalar rs" "list_all scalar ss" "render_string rs @ r = render_string ss @ s"
  shows "rs = ss \<and> r = s"
proof -
  have "concat (map esc_rune rs) @ CHR 0x22 # r = concat (map esc_rune ss) @ CHR 0x22 # s"
    using assms(3) by (simp add: render_string_def)
  with assms(1,2) show ?thesis
  proof (induction rs arbitrary: ss)
    case Nil
    show ?case
    proof (cases ss)
      case Nil
      then show ?thesis using Nil.prems by simp
    next
      case (Cons b ss')
      then show ?thesis using Nil.prems esc_rune_hd [of b] by (cases "esc_rune b") auto
    qed
  next
    case (Cons a rs)
    show ?case
    proof (cases ss)
      case Nil
      then show ?thesis using Cons.prems esc_rune_hd [of a] by (cases "esc_rune a") auto
    next
      case (Cons b ss')
      let ?R = "concat (map esc_rune rs) @ CHR 0x22 # r"
      let ?S = "concat (map esc_rune ss') @ CHR 0x22 # s"
      have sc: "scalar a" "scalar b" using Cons.prems(1,2) Cons by simp_all
      have "(a, ?R) = unesc (esc_rune a @ ?R)" by (rule unesc_esc [OF sc(1), symmetric])
      also have "esc_rune a @ ?R = esc_rune b @ ?S"
        using Cons.prems(3) unfolding Cons list.map concat.simps append_assoc .
      also have "unesc (esc_rune b @ ?S) = (b, ?S)" by (rule unesc_esc [OF sc(2)])
      finally have "a = b" "?R = ?S" by blast+
      then show ?thesis using Cons.IH [OF _ _ \<open>?R = ?S\<close>] Cons.prems(1,2) Cons by simp
    qed
  qed
qed

definition num_char :: "char \<Rightarrow> bool" where
  "num_char c \<longleftrightarrow> c \<in> set ''-.0123456789''"

definition ends :: "string \<Rightarrow> bool" where
  "ends r \<longleftrightarrow> r = [] \<or> \<not> num_char (hd r)"

fun json_ok :: "json \<Rightarrow> bool" where
  "json_ok (JNum t) \<longleftrightarrow> t \<noteq> [] \<and> list_all num_char t"
| "json_ok (JStr rs) \<longleftrightarrow> list_all scalar rs"
| "json_ok (JArr js) \<longleftrightarrow> list_all json_ok js"
| "json_ok (JObj es) \<longleftrightarrow> list_all (\<lambda>(k, j). list_all scalar k \<and> json_ok j) es"
| "json_ok _ \<longleftrightarrow> True"

lemma ends_Cons [simp]: "ends (c # r) \<longleftrightarrow> \<not> num_char c"
  by (simp add: ends_def)

lemma number_decode:
  assumes "list_all num_char t" "list_all num_char u" "ends r" "ends s" "t @ r = u @ s"
  shows "t = u \<and> r = s"
proof -
  have "takeWhile num_char (t @ r) = t" if "list_all num_char t" "ends r" for t r
    using that by (cases r) (auto simp: takeWhile_append2 list_all_iff ends_def)
  then have "t = u" using assms by metis
  with assms(5) show ?thesis by simp
qed

text \<open>Elements separated by commas, when each element can be read and none starts with the closer.\<close>

lemma Join_decode:
  assumes dec: "\<And>x y r s. x \<in> set xs \<Longrightarrow> y \<in> set ys \<Longrightarrow> ends r \<Longrightarrow> ends s \<Longrightarrow>
      enc x @ r = enc y @ s \<Longrightarrow> x = y \<and> r = s"
    and start: "\<And>x. x \<in> set xs \<union> set ys \<Longrightarrow> enc x \<noteq> [] \<and> hd (enc x) \<noteq> c"
    and c: "\<not> num_char c" "c \<noteq> CHR '',''"
    and eq: "Join (map enc xs) '','' @ c # r = Join (map enc ys) '','' @ c # s"
  shows "xs = ys \<and> r = s"
proof -
  have comma: "\<not> num_char CHR '',''" by (simp add: num_char_def)
  define tl_enc where "tl_enc zs t = (case zs of [] \<Rightarrow> c # t
    | _ \<Rightarrow> CHR '','' # Join (map enc zs) '','' @ c # t)" for zs t
  have J: "Join (map enc (z # zs)) '','' @ c # t = enc z @ tl_enc zs t" for z zs t
    by (cases zs) (simp_all add: tl_enc_def)
  have e: "ends (tl_enc zs t)" for zs t
    using c comma by (cases zs) (simp_all add: tl_enc_def)
  show ?thesis
    using dec start eq
  proof (induction xs arbitrary: ys)
    case Nil
    show ?case
    proof (cases ys)
      case (Cons y ys')
      then have "enc y @ tl_enc ys' s = c # r" using Nil.prems(3) J by simp
      then show ?thesis using Nil.prems(2) [of y] Cons by (cases "enc y") auto
    qed (use Nil.prems in simp)
  next
    case (Cons x xs)
    show ?case
    proof (cases ys)
      case Nil
      then have "enc x @ tl_enc xs r = c # s" using Cons.prems(3) J by simp
      then show ?thesis using Cons.prems(2) [of x] by (cases "enc x") auto
    next
      case ys: (Cons y ys')
      have "enc x @ tl_enc xs r = enc y @ tl_enc ys' s" using Cons.prems(3) J ys by simp
      then have xy: "x = y" "tl_enc xs r = tl_enc ys' s"
        using Cons.prems(1) [of x y] e ys by auto
      have "Join (map enc xs) '','' @ c # r = Join (map enc ys') '','' @ c # s"
        using xy(2) c(2) by (cases xs; cases ys') (auto simp: tl_enc_def)
      then have "xs = ys' \<and> r = s" using Cons.prems(1,2) ys by (intro Cons.IH) auto
      with xy ys show ?thesis by simp
    qed
  qed
qed

lemma render_hd: "json_ok j \<Longrightarrow> render j \<noteq> [] \<and> hd (render j) \<noteq> CHR '']'' \<and> hd (render j) \<noteq> CHR ''}''"
  by (cases j) (auto simp: render_string_def neq_Nil_conv num_char_def)

lemma render_decode:
  "json_ok i \<Longrightarrow> json_ok j \<Longrightarrow> ends r \<Longrightarrow> ends s \<Longrightarrow> render i @ r = render j @ s \<Longrightarrow> i = j \<and> r = s"
proof (induction i arbitrary: j r s)
  case JNull
  then show ?case by (cases j) (auto simp: render_string_def num_char_def neq_Nil_conv split: if_splits)
next
  case (JBool b)
  then show ?case by (cases j) (auto simp: render_string_def num_char_def neq_Nil_conv split: if_splits)
next
  case (JNum t)
  then show ?case
  proof (cases j)
    case (JNum u)
    with JNum.prems \<open>json_ok (json.JNum t)\<close> show ?thesis using number_decode [of t u r s] by auto
  qed (auto simp: render_string_def num_char_def neq_Nil_conv split: if_splits)
next
  case (JStr rs)
  then show ?case
  proof (cases j)
    case (JStr ss)
    with JStr.prems show ?thesis using render_string_decode [of rs ss r s] by auto
  qed (auto simp: render_string_def num_char_def neq_Nil_conv split: if_splits)
next
  case (JArr js)
  show ?case
  proof (cases j)
    case ks: (JArr ks)
    have "js = ks \<and> r = s"
    proof (rule Join_decode [of js ks render "CHR '']''"])
      show "x = y \<and> r' = s'" if "x \<in> set js" "y \<in> set ks" "ends r'" "ends s'"
        "render x @ r' = render y @ s'" for x y r' s'
        using JArr.IH [of x y r' s'] that JArr.prems(1,2) ks by (auto simp: list_all_iff)
      show "render x \<noteq> [] \<and> hd (render x) \<noteq> CHR '']''" if "x \<in> set js \<union> set ks" for x
        using render_hd [of x] that JArr.prems(1,2) ks by (auto simp: list_all_iff)
    qed (use JArr.prems ks in \<open>auto simp: num_char_def\<close>)
    with ks show ?thesis by simp
  qed (use JArr.prems in \<open>auto simp: render_string_def num_char_def neq_Nil_conv split: if_splits\<close>)
next
  case (JObj es)
  let ?enc = "\<lambda>(k, j). render_string k @ '':'' @ render j"
  show ?case
  proof (cases j)
    case fs: (JObj fs)
    have "es = fs \<and> r = s"
    proof (rule Join_decode [of es fs ?enc "CHR ''}''"])
      show "x = y \<and> r' = s'" if "x \<in> set es" "y \<in> set fs" "ends r'" "ends s'"
        "?enc x @ r' = ?enc y @ s'" for x y r' s'
      proof -
        obtain k i where x: "x = (k, i)" by (cases x)
        obtain l j' where y: "y = (l, j')" by (cases y)
        have ok: "list_all scalar k" "json_ok i" "list_all scalar l" "json_ok j'"
          using that JObj.prems(1,2) fs by (auto simp: list_all_iff x y)
        have "render_string k @ (CHR '':'' # render i @ r') = render_string l @ (CHR '':'' # render j' @ s')"
          using that(5) by (simp add: x y)
        from render_string_decode [OF ok(1,3) this]
        have "k = l" "render i @ r' = render j' @ s'" by auto
        moreover have "i = j' \<and> r' = s'"
          using JObj.IH [of x i j' r' s'] that ok calculation by (simp add: x)
        ultimately show ?thesis by (simp add: x y)
      qed
      show "?enc x \<noteq> [] \<and> hd (?enc x) \<noteq> CHR ''}''" for x
        by (simp add: render_string_def split: prod.splits)
    qed (use JObj.prems fs in \<open>auto simp: num_char_def\<close>)
    with fs show ?thesis by simp
  qed (use JObj.prems in \<open>auto simp: render_string_def num_char_def neq_Nil_conv split: if_splits\<close>)
qed

lemma num_char_digit: "0 \<le> d \<Longrightarrow> d < 10 \<Longrightarrow> num_char (digit_char d)"
proof -
  assume "0 \<le> d" "d < 10"
  then have "d \<in> {0, 1, 2, 3, 4, 5, 6, 7, 8, 9}" by simp presburger
  then show ?thesis by (auto simp: digit_chars num_char_def)
qed

lemma num_char_utoa: "0 \<le> n \<Longrightarrow> list_all num_char acc \<Longrightarrow>
    list_all num_char (utoa_acc n acc) \<and> utoa_acc n acc \<noteq> []"
proof (induction n acc rule: utoa_acc.induct)
  case (1 n acc)
  show ?case
  proof (cases "n < 10")
    case True
    then have "utoa_acc n acc = digit_char n # acc" by (subst utoa_acc.simps) simp
    with 1 True show ?thesis by (simp add: num_char_digit)
  next
    case False
    then have "utoa_acc n acc = utoa_acc (n div 10) (digit_char (n mod 10) # acc)"
      by (subst utoa_acc.simps) simp
    with 1 False show ?thesis by (simp add: num_char_digit)
  qed
qed

lemma num_char_minus [simp]: "num_char CHR ''-''" "num_char CHR ''.''" "num_char CHR ''0''"
  by (simp_all add: num_char_def)

lemma num_char_itoa: "list_all num_char (itoa n)" "itoa n \<noteq> []"
  using num_char_utoa [of n "[]"] num_char_utoa [of "- n" "[]"] by (auto simp: itoa_def)

lemma num_char_pad_int: "list_all num_char (pad_int k n)" "pad_int k n \<noteq> []"
  using num_char_itoa [of n] num_char_itoa [of "- n"] by (auto simp: pad_int_def pad_def list_all_iff)

lemma pad_int_nonneg: "0 \<le> n \<Longrightarrow> k \<le> length (pad_int k n)"
  by (simp add: pad_int_def pad_def)

lemma TrimRight_prefix: "\<exists>w. s = TrimRight s c @ w"
proof -
  have "rev s = takeWhile (\<lambda>d. d = c) (rev s) @ dropWhile (\<lambda>d. d = c) (rev s)" by simp
  then have "s = TrimRight s c @ rev (takeWhile (\<lambda>d. d = c) (rev s))"
    unfolding TrimRight_def by (metis rev_append rev_rev_ident)
  then show ?thesis by blast
qed

lemma TrimRight_not_Nil: "d \<in> set s \<Longrightarrow> d \<noteq> c \<Longrightarrow> TrimRight s c \<noteq> []"
  by (auto simp: TrimRight_def dropWhile_eq_Nil_conv)

lemma list_all_TrimRight: "list_all P s \<Longrightarrow> list_all P (TrimRight s c)"
  using set_TrimRight [of s c] by (auto simp: list_all_iff)

lemma utoa_digits: "0 \<le> n \<Longrightarrow> \<forall>c \<in> set acc. c \<noteq> CHR ''.'' \<Longrightarrow> \<forall>c \<in> set (utoa_acc n acc). c \<noteq> CHR ''.''"
proof (induction n acc rule: utoa_acc.induct)
  case (1 n acc)
  have d: "0 \<le> d \<Longrightarrow> d < 10 \<Longrightarrow> digit_char d \<noteq> CHR ''.''" for d
  proof -
    assume "0 \<le> d" "d < 10"
    then have "d \<in> {0, 1, 2, 3, 4, 5, 6, 7, 8, 9}" by simp presburger
    then show ?thesis by (auto simp: digit_chars)
  qed
  show ?case
  proof (cases "n < 10")
    case True
    then have "utoa_acc n acc = digit_char n # acc" by (subst utoa_acc.simps) simp
    with 1 True show ?thesis by (simp add: d)
  next
    case False
    then have "utoa_acc n acc = utoa_acc (n div 10) (digit_char (n mod 10) # acc)"
      by (subst utoa_acc.simps) simp
    with 1 False show ?thesis by (simp add: d)
  qed
qed

lemma number_text:
  assumes "n \<noteq> NaN" "n \<noteq> PInf" "n \<noteq> NInf"
  shows "list_all num_char (canonicalizeNumber n) \<and> canonicalizeNumber n \<noteq> []"
proof -
  let ?i = "rne (\<bar>fval n\<bar> * 10 ^ 15)"
  let ?p = "pad_int (15 + 1) ?i"
  let ?f = "fmt_fixed 15 (fval n)"
  have i: "0 \<le> ?i" by (rule int_le_rne) simp
  obtain x t where x: "take (length ?p - 15) ?p = x # t"
    using pad_int_nonneg [OF i, of "15 + 1"] by (cases "take (length ?p - 15) ?p") auto
  have "x \<in> set ?p" using x by (metis in_set_takeD list.set_intros(1))
  then have xd: "x \<noteq> CHR ''.''"
    using i utoa_digits [OF i, of "[]"] by (auto simp: pad_int_def pad_def itoa_def)
  have f: "?f = (if fval n < 0 then ''-'' else []) @ x # t @ CHR ''.'' # drop (length ?p - 15) ?p"
    unfolding fmt_fixed_def Let_def x by simp
  obtain y u where y: "?f = y # u" "y \<noteq> CHR ''.''"
    using xd by (cases "fval n < 0") (auto simp: f)
  have "CHR ''.'' \<in> set ?f" by (simp add: f)
  then have ne: "TrimRight ?f CHR ''0'' \<noteq> []" by (rule TrimRight_not_Nil) simp
  obtain w where "?f = TrimRight ?f CHR ''0'' @ w" using TrimRight_prefix by blast
  with ne y have "y \<in> set (TrimRight ?f CHR ''0'')"
    by (cases "TrimRight ?f CHR ''0''") auto
  then have "TrimRight (TrimRight ?f CHR ''0'') CHR ''.'' \<noteq> []"
    using y(2) by (rule TrimRight_not_Nil)
  moreover have "list_all num_char ?f"
    using num_char_pad_int [of "15 + 1" ?i]
    by (auto simp: fmt_fixed_def Let_def list_all_iff dest: in_set_takeD in_set_dropD)
  ultimately show ?thesis
    using assms num_char_itoa by (auto simp: canonicalizeNumber_def Let_def list_all_TrimRight)
qed

lemma json_ok_number: "json_ok (number_json n)"
  using number_text [of n] by (simp add: number_json_def)

lemma list_all_runes: "list_all scalar (runes s)"
  using scalar_runes by (auto simp: list_all_iff)

lemma json_ok_to_json: "json_ok (to_json v)"
  by (induction v rule: to_json.induct) (auto simp: json_ok_number list_all_runes list_all_iff scalar_runes)

section \<open>Stripping\<close>

abbreviation unsigned_key :: "string \<Rightarrow> bool" where
  "unsigned_key k \<equiv> k = ''internal_metrics'' \<or> underscore k"

text \<open>What an extension may hold after stripping.\<close>

definition clean_extension :: "string \<times> any \<Rightarrow> bool" where
  "clean_extension e \<longleftrightarrow> \<not> underscore (fst e) \<and> snd e \<noteq> ANil \<and>
     (case snd e of AMap c \<Rightarrow> list_all (\<lambda>e. \<not> underscore (fst e)) c | _ \<Rightarrow> True)"

fun clean_map :: "amap \<Rightarrow> bool"
  and clean_field :: "string \<Rightarrow> any \<Rightarrow> bool"
  and clean_arr :: "any list \<Rightarrow> bool"
  and clean_elem :: "any \<Rightarrow> bool" where
  "clean_map [] \<longleftrightarrow> True"
| "clean_map ((k, v) # m) \<longleftrightarrow> \<not> unsigned_key k \<and> clean_field k v \<and> clean_map m"
| "clean_field k (AMap c) \<longleftrightarrow>
     (if k = ''extensions'' then c \<noteq> [] \<and> list_all clean_extension c else clean_map c)"
| "clean_field k (AArr vs) \<longleftrightarrow> clean_arr vs"
| "clean_field k v \<longleftrightarrow> True"
| "clean_arr [] \<longleftrightarrow> True"
| "clean_arr (v # vs) \<longleftrightarrow> clean_elem v \<and> clean_arr vs"
| "clean_elem (AMap c) \<longleftrightarrow> clean_map c"
| "clean_elem v \<longleftrightarrow> True"

lemma stripExtensionField_clean:
  "stripExtensionField v \<noteq> ANil \<Longrightarrow> \<not> underscore k \<Longrightarrow> clean_extension (k, stripExtensionField v)"
  by (auto simp: clean_extension_def stripExtensionField_def list_all_iff split: any.splits)

lemma strip_extensions_clean: "list_all clean_extension (strip_extensions c)"
  by (auto simp: strip_extensions_def list_all_iff stripExtensionField_clean)

lemma clean_extension_strip: "clean_extension (k, v) \<Longrightarrow> stripExtensionField v = v"
  by (auto simp: clean_extension_def stripExtensionField_def list_all_iff filter_id_conv split: any.splits)

lemma strip_extensions_id: "list_all clean_extension c \<Longrightarrow> strip_extensions c = c"
proof (induction c)
  case (Cons e c)
  obtain k v where e: "e = (k, v)" by (cases e)
  with Cons have k: "clean_extension (k, v)" by simp
  then have "\<not> underscore k" "v \<noteq> ANil" by (simp_all add: clean_extension_def)
  with Cons clean_extension_strip [OF k] show ?case
    by (simp add: strip_extensions_def e)
qed (simp add: strip_extensions_def)

lemma clean_map_append [simp]: "clean_map (m @ n) \<longleftrightarrow> clean_map m \<and> clean_map n"
  by (induction m) auto

lemma strip_clean:
  "clean_map (StripNonSignatureFields m)"
  "(\<not> unsigned_key k \<longrightarrow> clean_map (strip_field k v))"
  "clean_arr (stripArrayNonSignatureFields vs)"
  "clean_elem (strip_elem w)"
  by (induction m and k v and vs and w rule:
      StripNonSignatureFields_strip_field_stripArrayNonSignatureFields_strip_elem.induct)
    (auto simp: strip_extensions_clean)

lemma strip_id:
  "(clean_map m \<longrightarrow> StripNonSignatureFields m = m)"
  "(clean_field k v \<longrightarrow> strip_field k v = [(k, v)])"
  "(clean_arr vs \<longrightarrow> stripArrayNonSignatureFields vs = vs)"
  "(clean_elem w \<longrightarrow> strip_elem w = w)"
  by (induction m and k v and vs and w rule:
      StripNonSignatureFields_strip_field_stripArrayNonSignatureFields_strip_elem.induct)
    (auto simp: strip_extensions_id)

lemma strip_append [simp]:
  "StripNonSignatureFields (m @ n) = StripNonSignatureFields m @ StripNonSignatureFields n"
  by (induction m) auto

section \<open>What stripping keeps\<close>

text \<open>
  The locations that stripping removes whatever is there: those that pass an unsigned key of a map that it reaches.
  It reaches the maps below maps and the maps that are elements of an array; of a map of extensions it reaches the
  entries and the members of an entry.
\<close>

fun unsigned_loc :: "Location \<Rightarrow> bool" where
  "unsigned_loc (Key k # l) \<longleftrightarrow> unsigned_key k \<or>
     (case l of
        Key e # l' \<Rightarrow>
          if k = ''extensions'' then underscore e \<or> (case l' of Key j # _ \<Rightarrow> underscore j | _ \<Rightarrow> False)
          else unsigned_loc l
      | Idx i # l' \<Rightarrow> unsigned_loc l'
      | [] \<Rightarrow> False)"
| "unsigned_loc l \<longleftrightarrow> False"

text \<open>
  What is lost besides: a null entry of a map of extensions, and the whole map when it has no signed entry that is not null.
\<close>

definition no_signed_entry :: "amap \<Rightarrow> bool" where
  "no_signed_entry c \<longleftrightarrow> list_all (\<lambda>(e, v). underscore e \<or> v = ANil) c"

fun lost :: "amap \<Rightarrow> Location \<Rightarrow> bool" where
  "lost m (Key k # l) \<longleftrightarrow>
     (case amap_get m k of
        Some (AMap c) \<Rightarrow>
          if k = ''extensions''
          then no_signed_entry c \<or> (case l of Key e # _ \<Rightarrow> amap_get c e = Some ANil | _ \<Rightarrow> False)
          else lost c l
      | Some (AArr vs) \<Rightarrow>
          (case l of Idx i # l' \<Rightarrow> i < length vs \<and> (case vs ! i of AMap c \<Rightarrow> lost c l' | _ \<Rightarrow> False) | _ \<Rightarrow> False)
      | _ \<Rightarrow> False)"
| "lost m l \<longleftrightarrow> False"

lemma get_strip_field_other: "j \<noteq> k \<Longrightarrow> amap_get (strip_field j v) k = None"
  by (cases v) auto

lemma strip_array_map: "stripArrayNonSignatureFields vs = map strip_elem vs"
  by (induction vs) simp_all

lemma get_strip:
  "distinct (map fst m) \<Longrightarrow> amap_get (StripNonSignatureFields m) k =
     (if unsigned_key k then None else case amap_get m k of None \<Rightarrow> None | Some v \<Rightarrow> amap_get (strip_field k v) k)"
proof (induction m)
  case (Cons e m)
  obtain j v where e: "e = (j, v)" by (cases e)
  have other: "amap_get (strip_field j v) k = None" if "j \<noteq> k"
    using that by (rule get_strip_field_other)
  have none: "amap_get m k = None" if "j = k" using Cons.prems e that by (auto simp: amap_get_None)
  show ?case
  proof (cases "j = k")
    case True
    with none Cons show ?thesis by (auto simp: e amap_get_append split: option.split)
  next
    case False
    with other Cons show ?thesis by (auto simp: e amap_get_append split: option.split)
  qed
qed simp

lemma get_strip_extensions:
  "distinct (map fst c) \<Longrightarrow> amap_get (strip_extensions c) e =
     (if underscore e then None else case amap_get c e of
        None \<Rightarrow> None | Some v \<Rightarrow> if v = ANil then None else Some (stripExtensionField v))"
proof (induction c)
  case (Cons x c)
  obtain j v where x: "x = (j, v)" by (cases x)
  have n: "stripExtensionField v = ANil \<longleftrightarrow> v = ANil" by (cases v) (auto simp: stripExtensionField_def)
  have "amap_get c e = None" if "j = e" using Cons.prems x that by (auto simp: amap_get_None)
  with Cons n show ?case by (auto simp: x strip_extensions_def split: option.split)
qed (simp add: strip_extensions_def)

lemma strip_extensions_Nil: "strip_extensions c = [] \<longleftrightarrow> no_signed_entry c"
proof -
  have n: "stripExtensionField v = ANil \<longleftrightarrow> v = ANil" for v by (cases v) (auto simp: stripExtensionField_def)
  show ?thesis by (induction c) (auto simp: strip_extensions_def no_signed_entry_def n split: if_splits)
qed

lemma get_signed_members: "amap_get (filter (\<lambda>(k, v). \<not> underscore k) d) j = (if underscore j then None else amap_get d j)"
  by (induction d) (auto split: if_splits)

lemma node_extension_entry:
  "node (stripExtensionField v) l = (if case l of Key j # _ \<Rightarrow> underscore j | _ \<Rightarrow> False then
     (case v of AMap d \<Rightarrow> None | _ \<Rightarrow> node v l) else node v l)"
proof (cases v)
  case (AMap d)
  then show ?thesis
    by (cases l; cases "hd l") (auto simp: stripExtensionField_def get_signed_members split: option.split)
qed (auto simp: stripExtensionField_def)

lemma node_strip_elem:
  assumes "\<And>c. u = AMap c \<Longrightarrow>
      node (AMap (StripNonSignatureFields c)) l = (if unsigned_loc l \<or> lost c l then None else node (AMap c) l)"
  shows "node (strip_elem u) l = (if unsigned_loc l \<or> (case u of AMap c \<Rightarrow> lost c l | _ \<Rightarrow> False) then None else node u l)"
proof (cases "\<exists>c. u = AMap c")
  case True
  with assms show ?thesis by auto
next
  case False
  then have "strip_elem u = u" "(case u of AMap c \<Rightarrow> lost c l | _ \<Rightarrow> False) = False" by (cases u; simp)+
  moreover have "node u l = None" if "unsigned_loc l"
    using that False by (cases u; cases l; cases "hd l") auto
  ultimately show ?thesis by simp
qed

lemma node_strip:
  "wf_any (AMap m) \<Longrightarrow>
    node (AMap (StripNonSignatureFields m)) l = (if unsigned_loc l \<or> lost m l then None else node (AMap m) l)"
proof (induction l arbitrary: m rule: length_induct)
  case (1 l)
  have d: "distinct (map fst m)" using 1(2) by simp
  note IH = 1(1) [rule_format]
  show ?case
  proof (cases l)
    case (Cons s l')
    show ?thesis
    proof (cases s)
      case (Key k)
      show ?thesis
      proof (cases "unsigned_key k \<or> amap_get m k = None")
        case True
        then show ?thesis using Cons Key d by (auto simp: get_strip)
      next
        case False
        then obtain v where v: "amap_get m k = Some v" by auto
        have wf: "wf_any v" using amap_get_SomeD [OF v] 1(2) by (auto simp: list_all_iff)
        have n: "node (AMap (StripNonSignatureFields m)) l =
            (case amap_get (strip_field k v) k of None \<Rightarrow> None | Some u \<Rightarrow> node u l')"
          using False v d Cons Key by (simp add: get_strip)
        consider (ext) c where "v = AMap c" "k = ''extensions''" | (map) c where "v = AMap c" "k \<noteq> ''extensions''"
          | (arr) vs where "v = AArr vs" | (leaf) "\<And>c. v \<noteq> AMap c" "\<And>vs. v \<noteq> AArr vs"
          by blast
        then show ?thesis
        proof cases
          case ext
          have dc: "distinct (map fst c)" using wf ext by simp
          show ?thesis
          proof (cases "no_signed_entry c")
            case True
            then show ?thesis using n ext Cons Key v by (simp add: strip_extensions_Nil)
          next
            case some: False
            then have n': "node (AMap (StripNonSignatureFields m)) l = node (AMap (strip_extensions c)) l'"
              using n ext by (simp add: strip_extensions_Nil)
            show ?thesis
            proof (cases l')
              case Nil
              then show ?thesis using n' some ext False Cons Key v by simp
            next
              case l': (Cons s' l'')
              show ?thesis
              proof (cases s')
                case (Key e)
                then show ?thesis
                  using n' some ext False Cons \<open>s = Key k\<close> v l' dc
                  by (auto simp: get_strip_extensions node_extension_entry split: option.split any.split list.split Step.split)
              next
                case (Idx i)
                then show ?thesis using n' some ext False Cons \<open>s = Key k\<close> v l' by simp
              qed
            qed
          qed
        next
          case map
          then show ?thesis using n IH [of l' c] wf False Cons Key v
            by (cases l'; cases "hd l'") auto
        next
          case arr
          show ?thesis
          proof (cases l')
            case l': (Cons s' l'')
            have "node (strip_elem (vs ! i)) l'' =
                (if unsigned_loc l'' \<or> (case vs ! i of AMap c \<Rightarrow> lost c l'' | _ \<Rightarrow> False) then None else node (vs ! i) l'')"
              if "i < length vs" for i
            proof (rule node_strip_elem)
              fix c assume "vs ! i = AMap c"
              moreover have "wf_any (vs ! i)" using wf arr that by (simp add: list_all_iff)
              ultimately show "node (AMap (StripNonSignatureFields c)) l'' =
                  (if unsigned_loc l'' \<or> lost c l'' then None else node (AMap c) l'')"
                using IH [of l'' c] Cons l' by simp
            qed
            then show ?thesis using n arr False Cons Key v l'
              by (cases s') (auto simp: strip_array_map)
          qed (use n arr False Cons Key v in \<open>simp add: strip_array_map\<close>)
        next
          case leaf
          then have "strip_field k v = [(k, v)]" by (cases v) auto
          then show ?thesis using n leaf False Cons Key v
            by (cases l'; cases "hd l'") (auto simp: node_leaf split: any.split)
        qed
      qed
    qed (use Cons in simp)
  qed simp
qed

section \<open>The properties\<close>

text \<open>
  \<^bold>\<open>C20.\<close> Go leaves the order of a range over a map open; the canonical text of two values that
  differ only in the order in which their maps are visited, at any depth, is the same.
\<close>

theorem canonical_order_independent:
  assumes "same_value v w"
  shows "Canonicalize v = Canonicalize w \<and> CanonicalizeAndHash v = CanonicalizeAndHash w"
  using same_value_canonical [OF assms] by (simp add: CanonicalizeAndHash_def Canonicalize_def)

theorem canonical_order_independent_witness:
  "Canonicalize (AMap [(''b'', ABool True), (''a'', AMap [(''y'', ANil), (''x'', AString [])])])
   = Canonicalize (AMap [(''a'', AMap [(''x'', AString []), (''y'', ANil)]), (''b'', ABool True)])"
proof -
  have inner: "same_value (AMap [(''y'', ANil), (''x'', AString [])]) (AMap [(''x'', AString []), (''y'', ANil)])"
    by (rule same_map [where m' = "[(''x'', AString []), (''y'', ANil)]"]) (auto intro: same_refl)
  have "same_value (AMap [(''b'', ABool True), (''a'', AMap [(''y'', ANil), (''x'', AString [])])])
      (AMap [(''a'', AMap [(''x'', AString []), (''y'', ANil)]), (''b'', ABool True)])"
    by (rule same_map [where m' = "[(''a'', AMap [(''y'', ANil), (''x'', AString [])]), (''b'', ABool True)]"])
      (auto intro: same_refl inner)
  from canonical_order_independent [OF this] show ?thesis by simp
qed

text \<open>
  Every branch of the canonicalizer: a value of supported types has as its text the
  rendering of its JSON value, and any other value gives the error that names one of the
  unsupported types inside it.
\<close>

theorem canonical_functional:
  "case Canonicalize v of
     Inr s \<Rightarrow> unsupported v = {} \<and> s = render (to_json v)
   | Inl e \<Rightarrow> \<exists>ty. ty \<in> unsupported v \<and> e = ''unsupported type: '' @ ty"
proof (cases "canonicalizeValue v")
  case (Inl e)
  then show ?thesis using canonical_error(1) [of v] by (auto simp: Canonicalize_def)
next
  case (Inr s)
  then have "unsupported v = {}" using canonical_supported(1) [of v] by auto
  with Inr show ?thesis using canonical_render(1) [of v] by (simp add: Canonicalize_def)
qed

text \<open>
  \<^bold>\<open>C21.\<close> The text is unambiguous: two values with the same canonical text denote the same JSON
  value, with the same numbers as printed, the same code points in every string and key, and the
  same entries. Nothing that is printed can be moved between fields without changing the text.
\<close>

theorem canonical_injective:
  assumes "Canonicalize v = Inr s" and "Canonicalize w = Inr s"
  shows "to_json v = to_json w"
proof -
  have "s = render (to_json v)" "s = render (to_json w)"
    using assms canonical_supported(1) [of v] canonical_supported(1) [of w]
      canonical_render(1) [of v] canonical_render(1) [of w] by (auto simp: Canonicalize_def)
  then have "render (to_json v) @ [] = render (to_json w) @ []" by simp
  then show ?thesis
    using render_decode [OF json_ok_to_json [of v] json_ok_to_json [of w], of "[]" "[]"]
    by (simp add: ends_def)
qed

theorem canonical_injective_witness:
  "to_json (AMap [(''b'', ABool True), (''a'', AString ''x'')])
   = to_json (AMap [(''a'', AString ''x''), (''b'', ABool True)])"
proof -
  let ?s = "''{'' @ [CHR 0x22, CHR ''a'', CHR 0x22, CHR '':'', CHR 0x22, CHR ''x'', CHR 0x22, CHR '','',
    CHR 0x22, CHR ''b'', CHR 0x22] @ '':true}''"
  note eval = Canonicalize_def canonicalizeValue.simps canonicalizeObject.simps canonicalizeString_def
    runes_ascii ord_def esc_rune_def encode_rune_def encode_scalar_def byte_def scalar_def char_of_def bit_Suc_0_iff
  have "Canonicalize (AMap [(''b'', ABool True), (''a'', AString ''x'')]) = Inr ?s"
    by (simp add: eval)
  moreover have "Canonicalize (AMap [(''a'', AString ''x''), (''b'', ABool True)]) = Inr ?s"
    by (simp add: eval)
  ultimately show ?thesis by (rule canonical_injective)
qed

text \<open>
  \<^bold>\<open>C22.\<close> What stripping does, at every location of the map. It removes exactly the locations that pass an unsigned
  key of a map that it reaches, the null entries of maps of extensions, and such maps when nothing signed is in them;
  everything else, at any depth, has what it had. The result has no unsigned key where stripping
  reaches, a map is its own result exactly when that is so already, and stripping again changes nothing.
\<close>

theorem strip_sound:
  assumes "wf_any (AMap m)"
  shows "(\<forall>l. node (AMap (StripNonSignatureFields m)) l = (if unsigned_loc l \<or> lost m l then None else node (AMap m) l)) \<and>
    clean_map (StripNonSignatureFields m) \<and>
    (clean_map m \<longleftrightarrow> StripNonSignatureFields m = m) \<and>
    StripNonSignatureFields (StripNonSignatureFields m) = StripNonSignatureFields m"
proof -
  have c: "clean_map (StripNonSignatureFields m)" by (rule strip_clean)
  then have "clean_map m \<longleftrightarrow> StripNonSignatureFields m = m" using strip_id(1) [of m] by metis
  moreover have "StripNonSignatureFields (StripNonSignatureFields m) = StripNonSignatureFields m"
    using strip_id(1) [of "StripNonSignatureFields m"] c by simp
  ultimately show ?thesis using c node_strip [OF assms] by blast
qed

theorem strip_sound_witness:
  "let m = StripNonSignatureFields [(''a'', AArr [AMap [(''_x'', ANil), (''b'', ABool True)]]), (''extensions'', AMap [(''e'', ANil)])] in
     node (AMap m) [Key ''a'', Idx 0, Key ''b''] = Some (NLeaf (ABool True)) \<and>
     node (AMap m) [Key ''a'', Idx 0, Key ''_x''] = None \<and> node (AMap m) [Key ''extensions''] = None"
proof -
  have "wf_any (AMap [(''a'', AArr [AMap [(''_x'', ANil), (''b'', ABool True)]]), (''extensions'', AMap [(''e'', ANil)])])"
    by simp
  note r = strip_sound [OF this, THEN conjunct1, rule_format]
  show ?thesis
    unfolding Let_def r by (simp add: no_signed_entry_def HasPrefix_def)
qed

end
