(* ===== verification/Signing.thy ===== *)
theory Signing
  imports Domain Canonical
begin

text \<open>
  \<^verbatim>\<open>internal/service/audit/signer.go\<close>: the map a trace is signed as, the hash signature and its
  verification. A Go map literal is a list of entries in the order in which they are set; what is
  hashed does not depend on it. A nil trace is \<open>None\<close>.
\<close>

section \<open>The signed map of a trace\<close>

definition isInternalField :: "string \<Rightarrow> bool" where
  "isInternalField key \<longleftrightarrow> length key > 0 \<and> hd key = CHR ''_''"

definition inputToMap :: "Input \<Rightarrow> amap" where
  "inputToMap inp =
     (if in_Prompt inp \<noteq> ANil then [(''prompt'', in_Prompt inp)] else []) @
     (case in_Params inp of Some p \<Rightarrow> [(''params'', AMap p)] | None \<Rightarrow> []) @
     (case in_Metadata inp of Some m \<Rightarrow> [(''metadata'', AMap m)] | None \<Rightarrow> [])"

definition outputToMap :: "Output \<Rightarrow> amap" where
  "outputToMap out =
     (case out_Response out of
        Some r \<Rightarrow> [(''response'', AString (if out_Truncated out then SanitizeResponse r else r))]
      | None \<Rightarrow> []) @
     [(''truncated'', ABool (out_Truncated out))] @
     (if out_FinishReason out \<noteq> [] then [(''finish_reason'', AString (out_FinishReason out))] else [])"

definition transitionToMap :: "StateTransition \<Rightarrow> amap" where
  "transitionToMap st =
     [(''from'', AString (st_From st)), (''to'', AString (st_To st)),
      (''timestamp'', AString (RFC3339Nano (st_Timestamp st)))]"

definition errorToMap :: "ErrorInfo \<Rightarrow> amap" where
  "errorToMap e =
     [(''code'', AString (ei_Code e)), (''message'', AString (ei_Message e))] @
     (case ei_Details e of Some d \<Rightarrow> [(''details'', AMap d)] | None \<Rightarrow> [])"

definition observationsToMap :: "Observations \<Rightarrow> amap" where
  "observationsToMap obs =
     (if obs_TokensCount obs > 0 then [(''tokens_count'', AInt (obs_TokensCount obs))] else []) @
     (if flt fzero (obs_CostEstimatedUSD obs)
      then [(''cost_estimated_usd'', AFloat (obs_CostEstimatedUSD obs))] else []) @
     (if obs_LatencyMs obs > 0 then [(''latency_ms'', AInt (obs_LatencyMs obs))] else []) @
     (if obs_StateTransitions obs \<noteq> []
      then [(''state_transitions'', AMapArr (map transitionToMap (obs_StateTransitions obs)))] else []) @
     (case obs_Error obs of Some e \<Rightarrow> [(''error'', AMap (errorToMap e))] | None \<Rightarrow> [])"

definition proofsToMap :: "Proofs \<Rightarrow> amap" where
  "proofsToMap p =
     [(''audit_signature'', AString (pf_AuditSignature p))] @
     (if pf_ProofType p \<noteq> [] then [(''proof_type'', AString (pf_ProofType p))] else []) @
     (if pf_CanonicalizationMethod p \<noteq> []
      then [(''canonicalization_method'', AString (pf_CanonicalizationMethod p))] else [])"

definition policyEvaluationToMap :: "PolicyEvaluation \<Rightarrow> amap" where
  "policyEvaluationToMap pe =
     (if pe_Decision pe \<noteq> [] then [(''decision'', AString (pe_Decision pe))] else []) @
     (if pe_ChecksPassed pe \<noteq> [] then [(''checks_passed'', AStrArr (pe_ChecksPassed pe))] else []) @
     (if pe_NegotiatedCapabilities pe \<noteq> []
      then [(''negotiated_capabilities'', AStrArr (pe_NegotiatedCapabilities pe))] else [])"

definition constraintsAppliedToMap :: "ConstraintsApplied \<Rightarrow> amap" where
  "constraintsAppliedToMap ca =
     (if flt fzero (ca_BudgetLimitUSD ca)
      then [(''budget_limit_usd'', AFloat (ca_BudgetLimitUSD ca))] else []) @
     (if flt fzero (ca_BudgetActualUSD ca)
      then [(''budget_actual_usd'', AFloat (ca_BudgetActualUSD ca))] else []) @
     (if ca_BudgetStrategy ca \<noteq> [] then [(''budget_strategy'', AString (ca_BudgetStrategy ca))] else []) @
     (if ca_PrivacyLevel ca \<noteq> [] then [(''privacy_level'', AString (ca_PrivacyLevel ca))] else []) @
     (if ca_PrivacyMaskedFields ca \<noteq> []
      then [(''privacy_masked_fields'', AStrArr (ca_PrivacyMaskedFields ca))] else []) @
     (if ca_ReproducibilityMode ca \<noteq> []
      then [(''reproducibility_mode'', AString (ca_ReproducibilityMode ca))] else []) @
     (case ca_PolicyEvaluation ca of
        Some pe \<Rightarrow> [(''policy_evaluation'', AMap (policyEvaluationToMap pe))] | None \<Rightarrow> [])"

definition traceToMap :: "Trace \<Rightarrow> amap" where
  "traceToMap t =
     [(''trace_id'', AString (tr_TraceID t))] @
     (case tr_ParentID t of Some p \<Rightarrow> [(''parent_id'', AString p)] | None \<Rightarrow> []) @
     (case tr_SessionID t of Some s \<Rightarrow> [(''session_id'', AString s)] | None \<Rightarrow> []) @
     [(''execution_state'', AString (tr_ExecutionState t)),
      (''model'', AString (tr_Model t)),
      (''input'', AMap (inputToMap (tr_Input t))),
      (''output'', AMap (outputToMap (tr_Output t))),
      (''observations'', AMap (observationsToMap (tr_Observations t))),
      (''proofs'', AMap (proofsToMap (tr_Proofs t))),
      (''constraints_applied'', AMap (constraintsAppliedToMap (tr_ConstraintsApplied t))),
      (''created_at'', AString (RFC3339Nano (tr_CreatedAt t)))] @
     (case tr_TTLExpireAt t of Some e \<Rightarrow> [(''ttl_expire_at'', AString (RFC3339Nano e))] | None \<Rightarrow> []) @
     (case tr_Extensions t of
        None \<Rightarrow> []
      | Some es \<Rightarrow>
          (let ext = filter (\<lambda>(k, v). \<not> isInternalField k) es in
           if length ext > 0 then [(''extensions'', AMap ext)] else []))"

section \<open>Signing and verifying\<close>

definition clear_signature :: "Trace \<Rightarrow> Trace" where
  "clear_signature t = t\<lparr>tr_Proofs := (tr_Proofs t)\<lparr>pf_AuditSignature := []\<rparr>\<rparr>"

definition Sign :: "Trace option \<Rightarrow> string result" where
  "Sign trace = (case trace of
     None \<Rightarrow> Inl ''trace cannot be nil''
   | Some t \<Rightarrow>
       (let traceMap = traceToMap (clear_signature t);
            stripped = StripNonSignatureFields traceMap
        in case Canonicalize (AMap stripped) of
             Inl err \<Rightarrow> Inl (''canonicalization failed: '' @ err)
           | Inr canonical \<Rightarrow> Inr (ComputeSHA256Hex canonical)))"

definition Verify :: "Trace option \<Rightarrow> bool result" where
  "Verify trace = (case trace of
     None \<Rightarrow> Inl ''trace cannot be nil''
   | Some t \<Rightarrow>
       if pf_AuditSignature (tr_Proofs t) = [] then Inl ''audit_signature is empty''
       else (case Sign trace of
           Inl err \<Rightarrow> Inl err
         | Inr computed \<Rightarrow> Inr (computed = pf_AuditSignature (tr_Proofs t))))"

definition set_signature :: "string \<Rightarrow> Trace \<Rightarrow> Trace" where
  "set_signature s t = t\<lparr>tr_Proofs := (tr_Proofs t)\<lparr>pf_AuditSignature := s\<rparr>\<rparr>"

section \<open>What is signed\<close>

lemma clear_set_signature [simp]: "clear_signature (set_signature s t) = clear_signature t"
  by (simp add: clear_signature_def set_signature_def)

lemma Sign_set_signature [simp]: "Sign (Some (set_signature s t)) = Sign (Some t)"
  by (simp add: Sign_def)

text \<open>A trace that arrives as JSON; \<open>unmarshal\<close> is the decoder.\<close>

definition VerifyFromJSON :: "('d \<Rightarrow> Trace result) \<Rightarrow> 'd \<Rightarrow> bool result" where
  "VerifyFromJSON unmarshal dat = (case unmarshal dat of
     Inl err \<Rightarrow> Inl (''failed to unmarshal trace: '' @ err) | Inr t \<Rightarrow> Verify (Some t))"

definition signed_map :: "Trace \<Rightarrow> amap" where
  "signed_map t = StripNonSignatureFields (traceToMap (clear_signature t))"

lemma Sign_Some: "Sign (Some t) = (case Canonicalize (AMap (signed_map t)) of
    Inl err \<Rightarrow> Inl (''canonicalization failed: '' @ err) | Inr c \<Rightarrow> Inr (sha256_hex c))"
  by (simp add: Sign_def signed_map_def ComputeSHA256Hex_def Let_def split: sum.split)

lemma Sign_Inr_iff: "Sign (Some t) = Inr h \<longleftrightarrow>
    unsupported (AMap (signed_map t)) = {} \<and> h = sha256_hex (render (to_json (AMap (signed_map t))))"
  using canonical_render(1) [of "AMap (signed_map t)"] canonical_supported(1) [of "AMap (signed_map t)"]
  by (auto simp: Sign_Some Canonicalize_def split: sum.splits)

section \<open>Which traces can be signed\<close>

definition supported_map :: "amap \<Rightarrow> bool" where
  "supported_map m \<longleftrightarrow> unsupported (AMap m) = {}"

text \<open>The parts of a trace whose type the caller chooses, and the three lists of strings.\<close>

definition signable :: "Trace \<Rightarrow> bool" where
  "signable t \<longleftrightarrow>
     supported_map (strip_field ''prompt'' (in_Prompt (tr_Input t))) \<and>
     pred_option (supported_map \<circ> StripNonSignatureFields) (in_Params (tr_Input t)) \<and>
     pred_option (supported_map \<circ> StripNonSignatureFields) (in_Metadata (tr_Input t)) \<and>
     pred_option (pred_option (supported_map \<circ> StripNonSignatureFields) \<circ> ei_Details)
       (obs_Error (tr_Observations t)) \<and>
     ca_PrivacyMaskedFields (tr_ConstraintsApplied t) = [] \<and>
     pred_option (\<lambda>pe. pe_ChecksPassed pe = [] \<and> pe_NegotiatedCapabilities pe = [])
       (ca_PolicyEvaluation (tr_ConstraintsApplied t)) \<and>
     pred_option (supported_map \<circ> strip_extensions) (tr_Extensions t)"

lemma supported_map_simps [simp]:
  "supported_map []"
  "supported_map (m @ n) \<longleftrightarrow> supported_map m \<and> supported_map n"
  "supported_map ((k, v) # m) \<longleftrightarrow> unsupported v = {} \<and> supported_map m"
  "unsupported (AMap m) = {} \<longleftrightarrow> supported_map m"
  by (auto simp: supported_map_def)

declare unsupported.simps(3) [simp del]

lemma strip_field_AMap:
  "k \<noteq> ''extensions'' \<Longrightarrow> strip_field k (AMap c) = [(k, AMap (StripNonSignatureFields c))]"
  by simp

lemma strip_extensions_filter:
  "strip_extensions (filter (\<lambda>(k, v). \<not> isInternalField k) es) = strip_extensions es"
proof -
  have "isInternalField k \<longleftrightarrow> underscore k" for k
    by (cases k) (auto simp: isInternalField_def HasPrefix_def)
  then show ?thesis by (simp add: strip_extensions_def case_prod_unfold)
qed

lemma underscore_simps [simp]: "underscore [] \<longleftrightarrow> False" "underscore (c # s) \<longleftrightarrow> c = CHR ''_''"
  by (auto simp: HasPrefix_def)

lemma supported_input:
  "supported_map (StripNonSignatureFields (inputToMap i)) \<longleftrightarrow>
     supported_map (strip_field ''prompt'' (in_Prompt i)) \<and>
     pred_option (supported_map \<circ> StripNonSignatureFields) (in_Params i) \<and>
     pred_option (supported_map \<circ> StripNonSignatureFields) (in_Metadata i)"
  by (cases "in_Prompt i = ANil"; cases "in_Params i"; cases "in_Metadata i")
    (simp_all add: inputToMap_def)

lemma supported_output: "supported_map (StripNonSignatureFields (outputToMap out))"
  by (simp add: outputToMap_def split: option.split)

lemma supported_transitions:
  "unsupported (AMapArr (map transitionToMap sts)) = {}"
  by (auto simp: transitionToMap_def)

lemma supported_observations:
  "supported_map (StripNonSignatureFields (observationsToMap obs)) \<longleftrightarrow>
     pred_option (pred_option (supported_map \<circ> StripNonSignatureFields) \<circ> ei_Details) (obs_Error obs)"
proof -
  have e: "supported_map (StripNonSignatureFields (errorToMap e)) \<longleftrightarrow>
      pred_option (supported_map \<circ> StripNonSignatureFields) (ei_Details e)" for e
    by (cases "ei_Details e") (simp_all add: errorToMap_def)
  show ?thesis
    by (cases "obs_Error obs") (auto simp: observationsToMap_def e supported_transitions simp del: unsupported.simps(2))
qed

lemma supported_proofs: "supported_map (StripNonSignatureFields (proofsToMap p))"
  by (simp add: proofsToMap_def)

lemma supported_constraints:
  "supported_map (StripNonSignatureFields (constraintsAppliedToMap ca)) \<longleftrightarrow>
     ca_PrivacyMaskedFields ca = [] \<and>
     pred_option (\<lambda>pe. pe_ChecksPassed pe = [] \<and> pe_NegotiatedCapabilities pe = []) (ca_PolicyEvaluation ca)"
proof -
  have p: "supported_map (StripNonSignatureFields (policyEvaluationToMap pe)) \<longleftrightarrow>
      pe_ChecksPassed pe = [] \<and> pe_NegotiatedCapabilities pe = []" for pe
    by (simp add: policyEvaluationToMap_def)
  show ?thesis
    by (cases "ca_PolicyEvaluation ca") (simp_all add: constraintsAppliedToMap_def p)
qed

lemma supported_signed_map: "supported_map (signed_map t) \<longleftrightarrow> signable t"
proof -
  have ext: "supported_map (StripNonSignatureFields
      (case e of None \<Rightarrow> [] | Some es \<Rightarrow> let ext = filter (\<lambda>(k, v). \<not> isInternalField k) es in
           if length ext > 0 then [(''extensions'', AMap ext)] else [])) \<longleftrightarrow>
      pred_option (supported_map \<circ> strip_extensions) e" for e
  proof (cases e)
    case (Some es)
    let ?f = "filter (\<lambda>(k, v). \<not> isInternalField k) es"
    have "strip_extensions [] = []" by (simp add: strip_extensions_def)
    with strip_extensions_filter [of es] have "?f = [] \<Longrightarrow> strip_extensions es = []"
      by metis
    then show ?thesis
      by (cases "?f = []") (simp_all add: Some Let_def strip_extensions_filter del: filter_empty_conv)
  qed simp
  show ?thesis
    by (cases "tr_ParentID t"; cases "tr_SessionID t"; cases "tr_TTLExpireAt t")
      (simp_all add: signed_map_def traceToMap_def clear_signature_def signable_def supported_input
        supported_output supported_observations supported_proofs supported_constraints ext)
qed

section \<open>What the signature determines\<close>

definition ascii :: "string \<Rightarrow> bool" where
  "ascii s \<longleftrightarrow> (\<forall>c \<in> set s. ord c < 128)"

lemma runes_ascii_inject: "ascii s \<Longrightarrow> ascii t \<Longrightarrow> runes s = runes t \<longleftrightarrow> s = t"
proof -
  have "inj ord" by (metis byte_ord injI)
  then show "ascii s \<Longrightarrow> ascii t \<Longrightarrow> runes s = runes t \<longleftrightarrow> s = t"
    by (simp add: ascii_def runes_ascii inj_map_eq_map)
qed

definition good_map :: "amap \<Rightarrow> bool" where
  "good_map m \<longleftrightarrow> distinct (map fst m) \<and> list_all ascii (map fst m)"

text \<open>Selecting a member of a JSON object.\<close>

fun json_get :: "json \<Rightarrow> string \<Rightarrow> json option" where
  "json_get (JObj es) k = map_of es (runes k)"
| "json_get _ k = None"

lemma json_get_to_json:
  assumes "good_map m" "ascii k"
  shows "json_get (to_json (AMap m)) k = map_option to_json (map_of m k)"
proof -
  have i: "list_all ascii (map fst xs) \<Longrightarrow>
      map_of (map (\<lambda>(k, v). (runes k, to_json v)) xs) (runes k) = map_option to_json (map_of xs k)" for xs
    by (induction xs) (auto simp: runes_ascii_inject assms(2))
  have d: "distinct (map fst (sort_key fst m))"
    using assms(1) by (metis good_map_def mset_eq_imp_distinct_iff mset_map mset_sort)
  have "map_of (sort_key fst m) = map_of m"
    using d assms(1) by (subst map_of_inject_set) (auto simp: good_map_def)
  moreover have "list_all ascii (map fst (sort_key fst m))"
    using assms(1) by (simp add: good_map_def list_all_iff)
  ultimately show ?thesis by (simp add: i)
qed

text \<open>What stripping does to one field that it keeps.\<close>

definition strip_val :: "any \<Rightarrow> any" where
  "strip_val v = (case v of AMap c \<Rightarrow> AMap (StripNonSignatureFields c)
     | AArr vs \<Rightarrow> AArr (stripArrayNonSignatureFields vs) | _ \<Rightarrow> v)"

lemma strip_field_val: "k \<noteq> ''extensions'' \<Longrightarrow> strip_field k v = [(k, strip_val v)]"
  by (cases v) (simp_all add: strip_val_def)

lemma strip_field_keys: "set (map fst (strip_field k v)) \<subseteq> {k}"
  by (cases "k = ''extensions''"; cases v) (auto simp: strip_val_def)

lemma map_of_strip:
  "k \<noteq> ''extensions'' \<Longrightarrow> \<not> unsigned_key k \<Longrightarrow>
    map_of (StripNonSignatureFields m) k = map_option strip_val (map_of m k)"
proof (induction m)
  case (Cons e m)
  obtain l v where e: "e = (l, v)" by (cases e)
  have "l \<noteq> k \<Longrightarrow> map_of (strip_field l v) k = None"
    using strip_field_keys [of l v] by (auto simp: map_of_eq_None_iff)
  with Cons show ?case by (cases "l = k") (auto simp: e strip_field_val map_add_def)
qed simp

lemma strip_keys: "set (map fst (StripNonSignatureFields m)) \<subseteq> set (map fst m)"
proof (induction m)
  case (Cons e m)
  obtain l v where "e = (l, v)" by (cases e)
  with Cons strip_field_keys [of l v] show ?case by auto
qed simp

lemma good_map_strip: "good_map m \<Longrightarrow> good_map (StripNonSignatureFields m)"
proof (induction m)
  case (Cons e m)
  obtain l v where e: "e = (l, v)" by (cases e)
  have m: "good_map m" "l \<notin> set (map fst m)" "ascii l"
    using Cons.prems by (simp_all add: good_map_def e)
  have d: "distinct (map fst (strip_field l v))"
    by (cases "l = ''extensions''"; cases v) (simp_all add: strip_field_val)
  have f: "x = l" if "x \<in> set (map fst (strip_field l v))" for x
    using strip_field_keys [of l v] that by blast
  have "l \<notin> set (map fst (StripNonSignatureFields m))"
    using strip_keys [of m] m(2) by blast
  then have "set (map fst (strip_field l v)) \<inter> set (map fst (StripNonSignatureFields m)) = {}"
    using f by blast
  moreover have "list_all ascii (map fst (strip_field l v))"
    using f m(3) by (auto simp: list_all_iff)
  ultimately show ?case
    using Cons.IH [OF m(1)] d by (simp add: good_map_def e)
qed (simp add: good_map_def)

lemma ascii_simps [simp]:
  "ascii []" "ascii (c # s) \<longleftrightarrow> ord c < 128 \<and> ascii s" "ascii (s @ t) \<longleftrightarrow> ascii s \<and> ascii t"
  by (auto simp: ascii_def)

lemma ascii_pad_int [simp]: "ascii (pad_int k n)"
proof -
  have "num_char c \<Longrightarrow> ord c < 128" for c
    by (auto simp: num_char_def ord_def)
  then show ?thesis
    using num_char_pad_int(1) [of k n] by (auto simp: ascii_def list_all_iff)
qed

lemma ascii_subset: "set s \<subseteq> set t \<Longrightarrow> ascii t \<Longrightarrow> ascii s"
  by (auto simp: ascii_def)

lemma ascii_RFC3339Nano: "ascii (RFC3339Nano t)"
proof -
  have "ascii (trim_zeros (pad_int 9 n))" for n
    by (rule ascii_subset [OF _ ascii_pad_int [of 9 n]])
      (auto simp: trim_zeros_def dest: set_dropWhileD)
  moreover have "ascii (zone_string z)" for z
    by (simp add: zone_string_def Let_def ord_def)
  ultimately show ?thesis
    by (simp add: RFC3339Nano_def Let_def ord_def split: prod.split)
qed

text \<open>A map built by optional insertions has its keys among those in the order of the code.\<close>

lemma subseq_set_distinct: "subseq xs ys \<Longrightarrow> set xs \<subseteq> set ys \<and> (distinct ys \<longrightarrow> distinct xs)"
  by (induction rule: list_emb.induct) auto

lemma good_mapI: "subseq (map fst m) ks \<Longrightarrow> distinct ks \<Longrightarrow> list_all ascii ks \<Longrightarrow> good_map m"
  using subseq_set_distinct [of "map fst m" ks] by (auto simp: good_map_def list_all_iff)

lemma optional_fields:
  "subseq (map fst []) []"
  "subseq (map fst m) ks \<Longrightarrow> subseq (map fst ((k, v) # m)) (k # ks)"
  "subseq (map fst m) ks \<Longrightarrow> subseq (map fst ((if b then [(k, v)] else []) @ m)) (k # ks)"
  "subseq (map fst m) ks \<Longrightarrow>
     subseq (map fst ((case x of None \<Rightarrow> [] | Some y \<Rightarrow> [(k, f y)]) @ m)) (k # ks)"
  "subseq (map fst (if b then [(k, v)] else [])) [k]"
  "subseq (map fst (case x of None \<Rightarrow> [] | Some y \<Rightarrow> [(k, f y)])) [k]"
  "subseq (map fst (case x of None \<Rightarrow> [] | Some es \<Rightarrow>
     let ext = g es in if length ext > 0 then [(k, h ext)] else [])) [k]"
  by (auto simp: Let_def split: option.split)

lemma good_map_trace: "good_map (traceToMap t)"
  unfolding traceToMap_def append.simps
  by (rule good_mapI, (rule optional_fields)+) (simp_all add: ord_def)

lemma good_map_output: "good_map (outputToMap out)"
  unfolding outputToMap_def append.simps
  by (rule good_mapI, (rule optional_fields)+) (simp_all add: ord_def)

lemma good_map_observations: "good_map (observationsToMap obs)"
  unfolding observationsToMap_def append.simps
  by (rule good_mapI, (rule optional_fields)+) (simp_all add: ord_def)

lemma good_map_constraints: "good_map (constraintsAppliedToMap ca)"
  unfolding constraintsAppliedToMap_def append.simps
  by (rule good_mapI, (rule optional_fields)+) (simp_all add: ord_def)

lemma good_map_error: "good_map (errorToMap e)"
  unfolding errorToMap_def append.simps
  by (rule good_mapI, (rule optional_fields)+) (simp_all add: ord_def)

lemma good_map_policy: "good_map (policyEvaluationToMap pe)"
  unfolding policyEvaluationToMap_def append.simps
  by (rule good_mapI, (rule optional_fields)+) (simp_all add: ord_def)

lemma good_map_input: "good_map (inputToMap i)"
  unfolding inputToMap_def append.simps
  by (rule good_mapI, (rule optional_fields)+) (simp_all add: ord_def)

lemma good_map_proofs: "good_map (proofsToMap p)"
  unfolding proofsToMap_def append.simps
  by (rule good_mapI, (rule optional_fields)+) (simp_all add: ord_def)

definition signed_json :: "Trace \<Rightarrow> json" where
  "signed_json t = to_json (AMap (signed_map t))"

lemma json_get_stripped:
  assumes "good_map m" "ascii k" "k \<noteq> ''extensions''" "\<not> unsigned_key k"
  shows "json_get (to_json (AMap (StripNonSignatureFields m))) k
    = map_option (to_json \<circ> strip_val) (map_of m k)"
  using assms by (simp add: json_get_to_json good_map_strip map_of_strip option.map_comp del: to_json.simps)

lemma map_of_case_option [simp]:
  "map_of (case x of None \<Rightarrow> [] | Some y \<Rightarrow> [(k, f y)]) l = (if l = k then map_option f x else None)"
  by (cases x) auto

lemma map_of_extensions [simp]:
  "l \<noteq> ''extensions'' \<Longrightarrow> map_of (case x of None \<Rightarrow> [] | Some es \<Rightarrow>
     let ext = g es in if length ext > 0 then [(''extensions'', h ext)] else []) l = None"
  by (cases x) (auto simp: Let_def)

lemma map_of_append_apply:
  "map_of (xs @ ys) k = (case map_of xs k of None \<Rightarrow> map_of ys k | Some v \<Rightarrow> Some v)"
  by (simp add: map_add_def)

lemma map_of_if [simp]:
  "map_of (if b then xs else ys) k = (if b then map_of xs k else map_of ys k)"
  by simp

lemma case_map_option [simp]:
  "(case map_option f x of None \<Rightarrow> None | Some v \<Rightarrow> Some v) = map_option f x"
  by (cases x) auto

lemmas member_eval = map_of_append_apply strip_val_def option.map_comp comp_def

text \<open>What is read at a key of the stripped map of a part of the trace.\<close>

lemmas member_keys = json_get_stripped good_map_trace good_map_input good_map_output good_map_observations
  good_map_proofs good_map_constraints good_map_error good_map_policy ord_def

abbreviation part_json :: "amap \<Rightarrow> json" where
  "part_json m \<equiv> to_json (AMap (StripNonSignatureFields m))"

lemma signed_members:
  "json_get (signed_json t) ''trace_id'' = Some (JStr (runes (tr_TraceID t)))"
  "json_get (signed_json t) ''execution_state'' = Some (JStr (runes (tr_ExecutionState t)))"
  "json_get (signed_json t) ''model'' = Some (JStr (runes (tr_Model t)))"
  "json_get (signed_json t) ''created_at'' = Some (JStr (runes (RFC3339Nano (tr_CreatedAt t))))"
  "json_get (signed_json t) ''input'' = Some (part_json (inputToMap (tr_Input t)))"
  "json_get (signed_json t) ''output'' = Some (part_json (outputToMap (tr_Output t)))"
  "json_get (signed_json t) ''observations'' = Some (part_json (observationsToMap (tr_Observations t)))"
  "json_get (signed_json t) ''proofs'' = Some (part_json (proofsToMap ((tr_Proofs t)\<lparr>pf_AuditSignature := []\<rparr>)))"
  "json_get (signed_json t) ''constraints_applied'' = Some (part_json (constraintsAppliedToMap (tr_ConstraintsApplied t)))"
  by (simp_all add: signed_json_def signed_map_def member_keys del: to_json.simps)
    (simp_all add: traceToMap_def clear_signature_def member_eval del: to_json.simps(9) map_of_append)

lemma signed_optional:
  "json_get (signed_json t) ''parent_id'' = map_option (JStr \<circ> runes) (tr_ParentID t)"
  "json_get (signed_json t) ''session_id'' = map_option (JStr \<circ> runes) (tr_SessionID t)"
  "json_get (signed_json t) ''ttl_expire_at'' = map_option (JStr \<circ> runes \<circ> RFC3339Nano) (tr_TTLExpireAt t)"
  by (simp_all add: signed_json_def signed_map_def member_keys del: to_json.simps)
    (cases "tr_ParentID t"; cases "tr_SessionID t"; cases "tr_TTLExpireAt t";
      simp add: traceToMap_def clear_signature_def member_eval del: to_json.simps(9) map_of_append)+

lemma input_members:
  "json_get (part_json (inputToMap i)) ''prompt'' =
     (if in_Prompt i = ANil then None else Some (to_json (strip_val (in_Prompt i))))"
  "json_get (part_json (inputToMap i)) ''params'' = map_option part_json (in_Params i)"
  "json_get (part_json (inputToMap i)) ''metadata'' = map_option part_json (in_Metadata i)"
  by (simp_all add: member_keys del: to_json.simps)
    (cases "in_Params i"; cases "in_Metadata i"; simp add: inputToMap_def member_eval del: to_json.simps(9) map_of_append)+

lemma output_members:
  "json_get (part_json (outputToMap out)) ''response''
     = map_option (\<lambda>r. JStr (runes (if out_Truncated out then SanitizeResponse r else r))) (out_Response out)"
  "json_get (part_json (outputToMap out)) ''truncated'' = Some (JBool (out_Truncated out))"
  "json_get (part_json (outputToMap out)) ''finish_reason''
     = (if out_FinishReason out = [] then None else Some (JStr (runes (out_FinishReason out))))"
  by (simp_all add: member_keys del: to_json.simps)
    (cases "out_Response out"; simp add: outputToMap_def member_eval del: to_json.simps(9) map_of_append)+

lemma observations_members:
  "json_get (part_json (observationsToMap obs)) ''tokens_count''
     = (if 0 < obs_TokensCount obs then Some (number_json (f_of_int (obs_TokensCount obs))) else None)"
  "json_get (part_json (observationsToMap obs)) ''cost_estimated_usd''
     = (if flt fzero (obs_CostEstimatedUSD obs) then Some (number_json (obs_CostEstimatedUSD obs)) else None)"
  "json_get (part_json (observationsToMap obs)) ''latency_ms''
     = (if 0 < obs_LatencyMs obs then Some (number_json (f_of_int (obs_LatencyMs obs))) else None)"
  "json_get (part_json (observationsToMap obs)) ''state_transitions''
     = (if obs_StateTransitions obs = [] then None
        else Some (JArr (map (\<lambda>st. to_json (AMap (transitionToMap st))) (obs_StateTransitions obs))))"
  "json_get (part_json (observationsToMap obs)) ''error'' = map_option (part_json \<circ> errorToMap) (obs_Error obs)"
  by (simp_all add: member_keys del: to_json.simps)
    (cases "obs_Error obs"; simp add: observationsToMap_def member_eval del: to_json.simps(9) map_of_append)+

lemma error_members:
  "json_get (part_json (errorToMap e)) ''code'' = Some (JStr (runes (ei_Code e)))"
  "json_get (part_json (errorToMap e)) ''message'' = Some (JStr (runes (ei_Message e)))"
  "json_get (part_json (errorToMap e)) ''details'' = map_option part_json (ei_Details e)"
  by (simp_all add: member_keys del: to_json.simps)
    (cases "ei_Details e"; simp add: errorToMap_def member_eval del: to_json.simps(9) map_of_append)+

lemma proofs_members:
  "json_get (part_json (proofsToMap p)) ''proof_type''
     = (if pf_ProofType p = [] then None else Some (JStr (runes (pf_ProofType p))))"
  "json_get (part_json (proofsToMap p)) ''canonicalization_method''
     = (if pf_CanonicalizationMethod p = [] then None else Some (JStr (runes (pf_CanonicalizationMethod p))))"
  by (simp_all add: member_keys del: to_json.simps)
    (simp_all add: proofsToMap_def member_eval del: to_json.simps(9) map_of_append)

lemma constraints_members:
  "json_get (part_json (constraintsAppliedToMap ca)) ''budget_limit_usd''
     = (if flt fzero (ca_BudgetLimitUSD ca) then Some (number_json (ca_BudgetLimitUSD ca)) else None)"
  "json_get (part_json (constraintsAppliedToMap ca)) ''budget_actual_usd''
     = (if flt fzero (ca_BudgetActualUSD ca) then Some (number_json (ca_BudgetActualUSD ca)) else None)"
  "json_get (part_json (constraintsAppliedToMap ca)) ''budget_strategy''
     = (if ca_BudgetStrategy ca = [] then None else Some (JStr (runes (ca_BudgetStrategy ca))))"
  "json_get (part_json (constraintsAppliedToMap ca)) ''privacy_level''
     = (if ca_PrivacyLevel ca = [] then None else Some (JStr (runes (ca_PrivacyLevel ca))))"
  "json_get (part_json (constraintsAppliedToMap ca)) ''reproducibility_mode''
     = (if ca_ReproducibilityMode ca = [] then None else Some (JStr (runes (ca_ReproducibilityMode ca))))"
  "json_get (part_json (constraintsAppliedToMap ca)) ''policy_evaluation''
     = map_option (part_json \<circ> policyEvaluationToMap) (ca_PolicyEvaluation ca)"
  by (simp_all add: member_keys del: to_json.simps)
    (cases "ca_PolicyEvaluation ca"; simp add: constraintsAppliedToMap_def member_eval del: to_json.simps(9) map_of_append)+

lemma policy_members:
  "json_get (part_json (policyEvaluationToMap pe)) ''decision''
     = (if pe_Decision pe = [] then None else Some (JStr (runes (pe_Decision pe))))"
  by (simp add: member_keys del: to_json.simps)
    (simp add: policyEvaluationToMap_def member_eval del: to_json.simps(9) map_of_append)

lemma transition_members:
  "json_get (to_json (AMap (transitionToMap st))) ''from'' = Some (JStr (runes (st_From st)))"
  "json_get (to_json (AMap (transitionToMap st))) ''to'' = Some (JStr (runes (st_To st)))"
  "json_get (to_json (AMap (transitionToMap st))) ''timestamp''
     = Some (JStr (runes (RFC3339Nano (st_Timestamp st))))"
proof -
  have "good_map (transitionToMap st)"
    unfolding transitionToMap_def
    by (rule good_mapI, (rule optional_fields)+) (simp_all add: ord_def)
  then show
    "json_get (to_json (AMap (transitionToMap st))) ''from'' = Some (JStr (runes (st_From st)))"
    "json_get (to_json (AMap (transitionToMap st))) ''to'' = Some (JStr (runes (st_To st)))"
    "json_get (to_json (AMap (transitionToMap st))) ''timestamp''
       = Some (JStr (runes (RFC3339Nano (st_Timestamp st))))"
    by (simp_all add: json_get_to_json ord_def del: to_json.simps) (simp_all add: transitionToMap_def)
qed

text \<open>A text that reads the same, whatever bytes encode it.\<close>

definition same_text :: "string \<Rightarrow> string \<Rightarrow> bool" where
  "same_text s t \<longleftrightarrow> runes s = runes t"

definition same_transition :: "StateTransition \<Rightarrow> StateTransition \<Rightarrow> bool" where
  "same_transition a b \<longleftrightarrow> same_text (st_From a) (st_From b) \<and> same_text (st_To a) (st_To b) \<and>
     RFC3339Nano (st_Timestamp a) = RFC3339Nano (st_Timestamp b)"

lemma same_transition_json:
  "to_json (AMap (transitionToMap a)) = to_json (AMap (transitionToMap b)) \<Longrightarrow> same_transition a b"
  using transition_members [of a] transition_members [of b]
  by (simp add: same_transition_def same_text_def runes_ascii_inject ascii_RFC3339Nano)

lemma same_transitions_json:
  "map (\<lambda>st. to_json (AMap (transitionToMap st))) xs = map (\<lambda>st. to_json (AMap (transitionToMap st))) ys \<Longrightarrow>
    list_all2 same_transition xs ys"
proof (induction xs arbitrary: ys)
  case (Cons x xs)
  then show ?case by (cases ys) (auto simp: same_transition_json simp del: to_json.simps)
qed simp

lemma runes_eq_Nil [simp]: "runes s = [] \<longleftrightarrow> s = []" "[] = runes s \<longleftrightarrow> s = []"
  by (simp_all add: runes_def decode_all.simps [of s])

text \<open>
  What two traces agree on when their signed texts are the same, field by field: texts by their code points, numbers by
  the numeral that is printed when they are positive (no other is signed), times by their text in RFC 3339, values of
  dynamic type by the JSON value of what stripping leaves of them.
\<close>

definition same_count :: "int \<Rightarrow> int \<Rightarrow> bool" where
  "same_count m n \<longleftrightarrow> (0 < m \<longleftrightarrow> 0 < n) \<and> (0 < m \<longrightarrow> number_json (f_of_int m) = number_json (f_of_int n))"

definition same_amount :: "f64 \<Rightarrow> f64 \<Rightarrow> bool" where
  "same_amount x y \<longleftrightarrow> (flt fzero x \<longleftrightarrow> flt fzero y) \<and> (flt fzero x \<longrightarrow> number_json x = number_json y)"

definition same_time :: "gotime \<Rightarrow> gotime \<Rightarrow> bool" where
  "same_time a b \<longleftrightarrow> RFC3339Nano a = RFC3339Nano b"

definition same_map :: "amap \<Rightarrow> amap \<Rightarrow> bool" where
  "same_map m n \<longleftrightarrow> part_json m = part_json n"

definition same_prompt :: "any \<Rightarrow> any \<Rightarrow> bool" where
  "same_prompt v w \<longleftrightarrow> (v = ANil \<longleftrightarrow> w = ANil) \<and> to_json (strip_val v) = to_json (strip_val w)"

definition same_input :: "Input \<Rightarrow> Input \<Rightarrow> bool" where
  "same_input a b \<longleftrightarrow> same_prompt (in_Prompt a) (in_Prompt b) \<and> rel_option same_map (in_Params a) (in_Params b) \<and>
     rel_option same_map (in_Metadata a) (in_Metadata b)"

text \<open>The response as it is signed.\<close>

definition signed_response :: "Output \<Rightarrow> string option" where
  "signed_response out = map_option (\<lambda>r. if out_Truncated out then SanitizeResponse r else r) (out_Response out)"

definition same_output :: "Output \<Rightarrow> Output \<Rightarrow> bool" where
  "same_output a b \<longleftrightarrow> rel_option same_text (signed_response a) (signed_response b) \<and> out_Truncated a = out_Truncated b \<and>
     same_text (out_FinishReason a) (out_FinishReason b)"

definition same_error :: "ErrorInfo \<Rightarrow> ErrorInfo \<Rightarrow> bool" where
  "same_error a b \<longleftrightarrow> same_text (ei_Code a) (ei_Code b) \<and> same_text (ei_Message a) (ei_Message b) \<and>
     rel_option same_map (ei_Details a) (ei_Details b)"

definition same_observations :: "Observations \<Rightarrow> Observations \<Rightarrow> bool" where
  "same_observations a b \<longleftrightarrow> same_count (obs_TokensCount a) (obs_TokensCount b) \<and>
     same_amount (obs_CostEstimatedUSD a) (obs_CostEstimatedUSD b) \<and> same_count (obs_LatencyMs a) (obs_LatencyMs b) \<and>
     list_all2 same_transition (obs_StateTransitions a) (obs_StateTransitions b) \<and>
     rel_option same_error (obs_Error a) (obs_Error b)"

definition same_policy :: "PolicyEvaluation \<Rightarrow> PolicyEvaluation \<Rightarrow> bool" where
  "same_policy a b \<longleftrightarrow> same_text (pe_Decision a) (pe_Decision b) \<and> pe_ChecksPassed a = pe_ChecksPassed b \<and>
     pe_NegotiatedCapabilities a = pe_NegotiatedCapabilities b"

definition same_constraints :: "ConstraintsApplied \<Rightarrow> ConstraintsApplied \<Rightarrow> bool" where
  "same_constraints a b \<longleftrightarrow> same_amount (ca_BudgetLimitUSD a) (ca_BudgetLimitUSD b) \<and>
     same_amount (ca_BudgetActualUSD a) (ca_BudgetActualUSD b) \<and> same_text (ca_BudgetStrategy a) (ca_BudgetStrategy b) \<and>
     same_text (ca_PrivacyLevel a) (ca_PrivacyLevel b) \<and> ca_PrivacyMaskedFields a = ca_PrivacyMaskedFields b \<and>
     same_text (ca_ReproducibilityMode a) (ca_ReproducibilityMode b) \<and>
     rel_option same_policy (ca_PolicyEvaluation a) (ca_PolicyEvaluation b)"

text \<open>The extensions as they are signed: none when stripping leaves none.\<close>

definition signed_extensions :: "Trace \<Rightarrow> amap option" where
  "signed_extensions t = (case tr_Extensions t of None \<Rightarrow> None
     | Some es \<Rightarrow> if strip_extensions es = [] then None else Some (strip_extensions es))"

definition same_signed_fields :: "Trace \<Rightarrow> Trace \<Rightarrow> bool" where
  "same_signed_fields t u \<longleftrightarrow>
     same_text (tr_TraceID t) (tr_TraceID u) \<and>
     rel_option same_text (tr_ParentID t) (tr_ParentID u) \<and>
     rel_option same_text (tr_SessionID t) (tr_SessionID u) \<and>
     same_text (tr_ExecutionState t) (tr_ExecutionState u) \<and>
     same_text (tr_Model t) (tr_Model u) \<and>
     same_input (tr_Input t) (tr_Input u) \<and>
     same_output (tr_Output t) (tr_Output u) \<and>
     same_observations (tr_Observations t) (tr_Observations u) \<and>
     same_text (pf_ProofType (tr_Proofs t)) (pf_ProofType (tr_Proofs u)) \<and>
     same_text (pf_CanonicalizationMethod (tr_Proofs t)) (pf_CanonicalizationMethod (tr_Proofs u)) \<and>
     same_constraints (tr_ConstraintsApplied t) (tr_ConstraintsApplied u) \<and>
     same_time (tr_CreatedAt t) (tr_CreatedAt u) \<and>
     rel_option same_time (tr_TTLExpireAt t) (tr_TTLExpireAt u) \<and>
     rel_option (\<lambda>a b. to_json (AMap a) = to_json (AMap b)) (signed_extensions t) (signed_extensions u)"

lemma traceToMap_front:
  "\<exists>front. traceToMap t = front @ (case tr_Extensions t of None \<Rightarrow> []
      | Some es \<Rightarrow> let ext = filter (\<lambda>(k, v). \<not> isInternalField k) es in
          if length ext > 0 then [(''extensions'', AMap ext)] else []) \<and> ''extensions'' \<notin> set (map fst front)"
  unfolding traceToMap_def
  by (simp only: append_assoc [symmetric], rule exI, rule conjI, rule refl) (auto split: option.split)

lemma signed_extensions_member:
  "json_get (signed_json t) ''extensions'' = map_option (\<lambda>x. to_json (AMap x)) (signed_extensions t)"
proof -
  let ?f = "filter (\<lambda>(k, v). \<not> isInternalField k)"
  obtain front where front: "traceToMap (clear_signature t) = front @ (case tr_Extensions (clear_signature t) of None \<Rightarrow> []
      | Some es \<Rightarrow> let ext = ?f es in if length ext > 0 then [(''extensions'', AMap ext)] else [])"
    and keys: "''extensions'' \<notin> set (map fst front)"
    using traceToMap_front by blast
  have ext: "tr_Extensions (clear_signature t) = tr_Extensions t" by (simp add: clear_signature_def)
  have none: "map_of (StripNonSignatureFields front) ''extensions'' = None"
    using keys strip_keys [of front] by (auto simp: map_of_eq_None_iff)
  have nil: "strip_extensions es = []" if "?f es = []" for es
    using that strip_extensions_filter [of es] by (metis filter.simps(1) list.map(1) strip_extensions_def)
  have "map_of (signed_map t) ''extensions'' = map_option AMap (signed_extensions t)"
  proof (cases "tr_Extensions t")
    case None
    then show ?thesis by (simp add: signed_map_def front ext none signed_extensions_def)
  next
    case (Some es)
    then show ?thesis using nil [of es]
      by (cases "?f es = []")
        (simp_all add: signed_map_def front ext none signed_extensions_def Let_def strip_extensions_filter map_add_def
          del: filter_empty_conv)
  qed
  moreover have "good_map (signed_map t)" unfolding signed_map_def by (intro good_map_strip good_map_trace)
  ultimately show ?thesis
    by (simp add: signed_json_def json_get_to_json ord_def option.map_comp comp_def del: to_json.simps)
qed

lemmas same_defs = same_text_def same_count_def same_amount_def same_time_def same_map_def same_prompt_def

lemma same_option: "(\<And>x y. f x = f y \<Longrightarrow> R x y) \<Longrightarrow> map_option f a = map_option f b \<Longrightarrow> rel_option R a b"
  by (cases a; cases b) auto

lemma same_json_text: "map_option (JStr \<circ> runes) a = map_option (JStr \<circ> runes) b \<Longrightarrow> rel_option same_text a b"
  by (rule same_option [of "JStr \<circ> runes"]) (simp_all add: same_text_def)

lemma same_time_json: "runes (RFC3339Nano a) = runes (RFC3339Nano b) \<Longrightarrow> same_time a b"
  by (simp add: same_time_def runes_ascii_inject ascii_RFC3339Nano)

lemma same_text_json:
  "(if s = [] then None else Some (JStr (runes s))) = (if t = [] then None else Some (JStr (runes t))) \<Longrightarrow> same_text s t"
  by (auto simp: same_text_def split: if_splits)

lemma same_map_json: "map_option part_json a = map_option part_json b \<Longrightarrow> rel_option same_map a b"
  by (rule same_option [of part_json]) (simp_all add: same_map_def)

lemma same_input_json: "part_json (inputToMap a) = part_json (inputToMap b) \<Longrightarrow> same_input a b"
  using input_members [of a] input_members [of b]
  by (auto simp: same_input_def same_prompt_def same_map_json simp del: to_json.simps split: if_splits)

lemma same_output_json: "part_json (outputToMap a) = part_json (outputToMap b) \<Longrightarrow> same_output a b"
proof -
  assume e: "part_json (outputToMap a) = part_json (outputToMap b)"
  note m = output_members [of a, unfolded e output_members]
  have "map_option (JStr \<circ> runes) (signed_response a) = map_option (JStr \<circ> runes) (signed_response b)"
    using m(1,2) by (simp add: signed_response_def option.map_comp comp_def)
  with m(2,3) show ?thesis by (simp add: same_output_def same_json_text same_text_json)
qed

lemma same_error_json: "part_json (errorToMap a) = part_json (errorToMap b) \<Longrightarrow> same_error a b"
  using error_members [of a] error_members [of b]
  by (auto simp: same_error_def same_text_def same_map_json simp del: to_json.simps)

lemma same_observations_json: "part_json (observationsToMap a) = part_json (observationsToMap b) \<Longrightarrow> same_observations a b"
proof -
  assume e: "part_json (observationsToMap a) = part_json (observationsToMap b)"
  note m = observations_members [of a, unfolded e observations_members]
  have "list_all2 same_transition (obs_StateTransitions a) (obs_StateTransitions b)"
    using m(4) by (intro same_transitions_json) (simp split: if_splits del: to_json.simps)
  moreover have "rel_option same_error (obs_Error a) (obs_Error b)"
    using m(5) by (intro same_option [of "part_json \<circ> errorToMap"]) (simp_all add: same_error_json del: to_json.simps)
  ultimately show ?thesis
    using m(1-3) by (simp add: same_observations_def same_count_def same_amount_def split: if_splits)
qed

lemma same_policy_json:
  assumes "part_json (policyEvaluationToMap a) = part_json (policyEvaluationToMap b)"
    and "pe_ChecksPassed a = pe_ChecksPassed b" "pe_NegotiatedCapabilities a = pe_NegotiatedCapabilities b"
  shows "same_policy a b"
  using assms policy_members [of a] policy_members [of b] by (simp add: same_policy_def same_text_json del: to_json.simps)

lemma same_constraints_json:
  assumes "part_json (constraintsAppliedToMap a) = part_json (constraintsAppliedToMap b)"
    and "supported_map (StripNonSignatureFields (constraintsAppliedToMap a))"
    and "supported_map (StripNonSignatureFields (constraintsAppliedToMap b))"
  shows "same_constraints a b"
proof -
  note m = constraints_members [of a, unfolded assms(1) constraints_members]
  have "rel_option same_policy (ca_PolicyEvaluation a) (ca_PolicyEvaluation b)"
    using m(6) assms(2,3) unfolding supported_constraints
    by (cases "ca_PolicyEvaluation a"; cases "ca_PolicyEvaluation b") (simp_all add: same_policy_json del: to_json.simps)
  moreover have "ca_PrivacyMaskedFields a = ca_PrivacyMaskedFields b"
    using assms(2,3) by (simp add: supported_constraints)
  ultimately show ?thesis
    using m(1-5) by (simp add: same_constraints_def same_amount_def same_text_json split: if_splits)
qed

lemma signed_json_fields:
  assumes "signed_json t = signed_json u" "signable t" "signable u"
  shows "same_signed_fields t u"
proof -
  note m = signed_members [of t, unfolded assms(1) signed_members]
  note o = signed_optional [of t, unfolded assms(1) signed_optional]
  note x = signed_extensions_member [of t, unfolded assms(1) signed_extensions_member]
  have sup: "supported_map (StripNonSignatureFields (constraintsAppliedToMap (tr_ConstraintsApplied v)))" if "signable v" for v
    using that by (simp add: signable_def supported_constraints)
  show ?thesis
    unfolding same_signed_fields_def
  proof (intro conjI)
    show "rel_option same_text (tr_ParentID t) (tr_ParentID u)" "rel_option same_text (tr_SessionID t) (tr_SessionID u)"
      using o(1,2) by (simp_all only: same_json_text)
    show "rel_option same_time (tr_TTLExpireAt t) (tr_TTLExpireAt u)"
      using o(3) by (intro same_option [of "JStr \<circ> runes \<circ> RFC3339Nano"]) (simp_all add: same_time_json)
    show "same_time (tr_CreatedAt t) (tr_CreatedAt u)" using m(4) by (simp add: same_time_json)
    show "same_constraints (tr_ConstraintsApplied t) (tr_ConstraintsApplied u)"
      using m(9) by (intro same_constraints_json sup assms(2,3)) simp
    show "same_input (tr_Input t) (tr_Input u)" using m(5) by (intro same_input_json) simp
    show "same_output (tr_Output t) (tr_Output u)" using m(6) by (intro same_output_json) simp
    show "same_observations (tr_Observations t) (tr_Observations u)" using m(7) by (intro same_observations_json) simp
    have p: "part_json (proofsToMap ((tr_Proofs t)\<lparr>pf_AuditSignature := []\<rparr>)) =
        part_json (proofsToMap ((tr_Proofs u)\<lparr>pf_AuditSignature := []\<rparr>))" using m(8) by simp
    note pm = proofs_members [of "(tr_Proofs t)\<lparr>pf_AuditSignature := []\<rparr>", unfolded p proofs_members]
    show "same_text (pf_ProofType (tr_Proofs t)) (pf_ProofType (tr_Proofs u))"
      "same_text (pf_CanonicalizationMethod (tr_Proofs t)) (pf_CanonicalizationMethod (tr_Proofs u))"
      using pm by (auto simp: same_text_def split: if_splits)
    show "rel_option (\<lambda>a b. to_json (AMap a) = to_json (AMap b)) (signed_extensions t) (signed_extensions u)"
      using x by (intro same_option [of "\<lambda>a. to_json (AMap a)"]) (simp_all del: to_json.simps)
  qed (use m in \<open>simp_all add: same_text_def\<close>)
qed

text \<open>Two traces that verify under one signature hash to the same value.\<close>

lemma verified_texts:
  assumes "Verify (Some t) = Inr True" "Verify (Some u) = Inr True"
    and "pf_AuditSignature (tr_Proofs t) = pf_AuditSignature (tr_Proofs u)"
  shows "sha256_hex (render (signed_json t)) = sha256_hex (render (signed_json u))"
proof -
  have v: "Sign (Some x) = Inr (pf_AuditSignature (tr_Proofs x))" if "Verify (Some x) = Inr True" for x
    using that by (auto simp: Verify_def split: if_splits sum.splits)
  from v [OF assms(1)] v [OF assms(2)] assms(3) show ?thesis
    unfolding Sign_Inr_iff by (simp add: signed_json_def)
qed

lemma render_signed_inject:
  assumes "render (signed_json t) = render (signed_json u)"
  shows "signed_json t = signed_json u"
  using render_decode [of "signed_json t" "signed_json u" "[]" "[]"] assms
  by (simp add: signed_json_def json_ok_to_json ends_def del: to_json.simps)

lemma Sign_signable: "signable t \<Longrightarrow> \<exists>h. Sign (Some t) = Inr h"
  by (simp only: Sign_Inr_iff supported_signed_map [symmetric] supported_map_def simp_thms)

lemma isl_Sign: "isl (Sign (Some t)) \<longleftrightarrow> \<not> signable t"
proof -
  have "(\<exists>h. Sign (Some t) = Inr h) \<longleftrightarrow> signable t"
    by (simp add: Sign_Inr_iff supported_signed_map)
  then show ?thesis by (cases "Sign (Some t)") auto
qed

lemma Verify_signable: "Verify (Some t) = Inr True \<Longrightarrow> signable t"
  using isl_Sign [of t] by (auto simp: Verify_def split: if_splits sum.splits)

section \<open>The properties\<close>

text \<open>
  \<^bold>\<open>C23.\<close> Sign and Verify fit together: a trace that carries the signature Sign computed for it
  verifies, the same trace with any other nonempty signature does not, and a signature is a text of
  64 characters.
\<close>

theorem sign_verify:
  assumes "Sign (Some t) = Inr h"
  shows "Verify (Some (set_signature h t)) = Inr True \<and> length h = 64 \<and>
    (\<forall>s. s \<noteq> [] \<longrightarrow> s \<noteq> h \<longrightarrow> Verify (Some (set_signature s t)) = Inr False) \<and>
    Verify (Some (set_signature [] t)) = Inl ''audit_signature is empty''"
proof -
  have h: "length h = 64" "h \<noteq> []" using assms by (auto simp: Sign_Inr_iff)
  with assms show ?thesis by (simp add: Verify_def) (simp add: set_signature_def)
qed

lemma Verify_signed:
  assumes "Sign (Some t) = Inr h"
  shows "Verify (Some (set_signature h t)) = Inr True" "pf_AuditSignature (tr_Proofs (set_signature h t)) = h" "h \<noteq> []"
proof -
  show h: "h \<noteq> []" using assms by (auto simp: Sign_Inr_iff)
  show s: "pf_AuditSignature (tr_Proofs (set_signature h t)) = h" by (simp add: set_signature_def)
  have "Sign (Some (set_signature h t)) = Inr h" using assms by simp
  with h s show "Verify (Some (set_signature h t)) = Inr True" unfolding Verify_def by simp
qed

lemma signable_sample: "signable sample_trace"
  by (simp add: signable_def sample_trace_def zero_Input_def zero_Observations_def zero_ConstraintsApplied_def)

lemma Sign_sample: "\<exists>h. Sign (Some sample_trace) = Inr h"
  by (rule Sign_signable [OF signable_sample])

theorem sign_verify_witness:
  "\<exists>h. Sign (Some sample_trace) = Inr h \<and> Verify (Some (set_signature h sample_trace)) = Inr True"
proof -
  obtain h where h: "Sign (Some sample_trace) = Inr h" using Sign_sample by blast
  with sign_verify [OF h] show ?thesis by blast
qed

text \<open>
  \<^bold>\<open>C24.\<close> What a signature vouches for. Two traces that both verify under the same signature agree on every
  field that the signer reads: identifier, parent, session, state, model, prompt, parameters, metadata, response as
  signed, truncation, finish reason, token count, cost, latency, every recorded transition, the error with its details,
  proof type and method, budget limit and amount, strategy, privacy level, masked fields, reproducibility mode, policy
  evaluation, time of creation and of expiry, and the signed extensions, unless their two canonical texts happen to be
  a SHA-256 collision.
\<close>

theorem signature_covers:
  assumes "Verify (Some t) = Inr True" and "Verify (Some u) = Inr True"
    and "pf_AuditSignature (tr_Proofs t) = pf_AuditSignature (tr_Proofs u)"
    and no_collision: "sha256_hex (render (signed_json t)) = sha256_hex (render (signed_json u)) \<Longrightarrow>
      render (signed_json t) = render (signed_json u)"
  shows "same_signed_fields t u"
proof (rule signed_json_fields [OF render_signed_inject])
  show "render (signed_json t) = render (signed_json u)"
    using verified_texts [OF assms(1-3)] no_collision by blast
  show "signable t" "signable u" using assms(1,2) by (simp_all add: Verify_signable)
qed

theorem signature_covers_witness:
  "\<exists>h. same_signed_fields (set_signature h sample_trace)
     (set_signature h (sample_trace\<lparr>tr_Input := zero_Input\<lparr>in_Seed := Some 7\<rparr>\<rparr>))"
proof -
  let ?u = "sample_trace\<lparr>tr_Input := zero_Input\<lparr>in_Seed := Some 7\<rparr>\<rparr>"
  obtain h where h: "Sign (Some sample_trace) = Inr h" using Sign_sample by blast
  have m: "signed_map (set_signature s ?u) = signed_map (set_signature s sample_trace)" for s
    by (simp add: signed_map_def clear_signature_def set_signature_def traceToMap_def inputToMap_def
        sample_trace_def zero_Input_def)
  then have u: "Sign (Some ?u) = Inr h"
    using h by (metis Sign_Some Sign_set_signature)
  have j: "signed_json (set_signature h ?u) = signed_json (set_signature h sample_trace)"
    unfolding signed_json_def m ..
  have "same_signed_fields (set_signature h sample_trace) (set_signature h ?u)"
  proof (rule signature_covers)
    show "Verify (Some (set_signature h sample_trace)) = Inr True" using sign_verify [OF h] by blast
    show "Verify (Some (set_signature h ?u)) = Inr True" using sign_verify [OF u] by blast
    show "render (signed_json (set_signature h sample_trace)) = render (signed_json (set_signature h ?u))"
      unfolding j ..
  qed (simp add: set_signature_def)
  then show ?thesis by blast
qed

text \<open>
  Exactly which traces can be signed. Signing fails when a masked field list, a list of
  passed checks or of negotiated capabilities is recorded, since these are slices of strings that the
  canonicalizer rejects, and when a caller's value has an unsupported type; a trace whose prompt is
  the message slice of a chat request is never signed.
\<close>

theorem sign_fails_iff:
  "(isl (Sign (Some t)) \<longleftrightarrow> \<not> signable t) \<and>
   isl (Sign (Some (t\<lparr>tr_Input := (tr_Input t)\<lparr>in_Prompt := AMessages ms\<rparr>\<rparr>))) \<and>
   isl (Sign (Some (t\<lparr>tr_ConstraintsApplied := (tr_ConstraintsApplied t)
     \<lparr>ca_PolicyEvaluation := Some \<lparr>pe_Decision = d, pe_ChecksPassed = c # cs,
        pe_NegotiatedCapabilities = caps\<rparr>\<rparr>\<rparr>)))"
proof -
  have "\<not> signable (t\<lparr>tr_Input := (tr_Input t)\<lparr>in_Prompt := AMessages ms\<rparr>\<rparr>)"
    by (simp add: signable_def)
  moreover have "\<not> signable (t\<lparr>tr_ConstraintsApplied := (tr_ConstraintsApplied t)
     \<lparr>ca_PolicyEvaluation := Some \<lparr>pe_Decision = d, pe_ChecksPassed = c # cs,
        pe_NegotiatedCapabilities = caps\<rparr>\<rparr>\<rparr>)"
    by (simp add: signable_def)
  ultimately show ?thesis using isl_Sign by blast
qed

text \<open>
  What the signature does not cover: the request's seed, both degrade actions, the
  reproducibility seed, the negotiated capabilities of the constraints, the internal metrics and the
  signature field itself can be changed without changing the signature.
\<close>

theorem signature_blind:
  "Sign (Some (t
     \<lparr>tr_Input := (tr_Input t)\<lparr>in_Seed := seed\<rparr>,
      tr_Observations := (tr_Observations t)\<lparr>obs_DegradeAction := da, obs_InternalMetrics := im\<rparr>,
      tr_Proofs := (tr_Proofs t)\<lparr>pf_AuditSignature := sig\<rparr>,
      tr_ConstraintsApplied := (tr_ConstraintsApplied t)
        \<lparr>ca_ReproducibilitySeed := rseed, ca_DegradeAction := cda, ca_NegotiatedCapabilities := caps\<rparr>\<rparr>))
   = Sign (Some t)"
proof -
  have "inputToMap (i\<lparr>in_Seed := seed\<rparr>) = inputToMap i" for i by (simp add: inputToMap_def)
  moreover have "observationsToMap (o'\<lparr>obs_DegradeAction := da, obs_InternalMetrics := im\<rparr>)
      = observationsToMap o'" for o' by (simp add: observationsToMap_def)
  moreover have "constraintsAppliedToMap (c\<lparr>ca_ReproducibilitySeed := rseed, ca_DegradeAction := cda,
      ca_NegotiatedCapabilities := caps\<rparr>) = constraintsAppliedToMap c" for c
    by (simp add: constraintsAppliedToMap_def)
  ultimately show ?thesis by (simp add: Sign_def clear_signature_def traceToMap_def)
qed

end
