(* ===== verification/Merkle.thy ===== *)
theory Merkle
  imports Sha256 "HOL-Library.Multiset"
begin

text \<open>
  \<^verbatim>\<open>internal/service/audit/merkle.go\<close>: the Merkle tree over a batch of signatures, its
  proofs and their verification. The nodes the code links by pointers live in an arena: a node is
  its index, so a lone node that becomes both children of its parent is shared as in the code.
\<close>

section \<open>The tree\<close>

record MerkleNode =
  mn_Hash :: string
  mn_Left :: "nat option"
  mn_Right :: "nat option"
  mn_Parent :: "nat option"

record ProofNode =
  pn_Hash :: string
  pn_IsLeft :: bool

record BatchProof =
  bp_RootHash :: string
  bp_ProofType :: string
  bp_LeafHashes :: "string list"
  bp_ProofElements :: "ProofNode list"

record MerkleTree =
  mt_Nodes :: "MerkleNode list"
  mt_Root :: "nat option"
  mt_Leaves :: "nat list"
  mt_ProofType :: string

definition computeHash :: "string \<Rightarrow> string" where
  "computeHash data = sha256_hex data"

definition set_parent :: "nat \<Rightarrow> nat \<Rightarrow> MerkleNode list \<Rightarrow> MerkleNode list" where
  "set_parent i p a = a[i := (a ! i)\<lparr>mn_Parent := Some p\<rparr>]"

text \<open>A new parent of two nodes (of one node twice) at the end of the arena.\<close>

definition new_parent :: "MerkleNode list \<Rightarrow> nat \<Rightarrow> nat \<Rightarrow> MerkleNode list" where
  "new_parent a l r = set_parent r (length a) (set_parent l (length a) a) @
     [\<lparr>mn_Hash = computeHash (mn_Hash (a ! l) @ mn_Hash (a ! r)),
       mn_Left = Some l, mn_Right = Some r, mn_Parent = None\<rparr>]"

fun build_level :: "MerkleNode list \<Rightarrow> nat list \<Rightarrow> nat list \<Rightarrow> MerkleNode list \<times> nat list" where
  "build_level a (i # j # nodes) newLevel = build_level (new_parent a i j) nodes (newLevel @ [length a])"
| "build_level a [i] newLevel = (new_parent a i i, newLevel @ [length a])"
| "build_level a [] newLevel = (a, newLevel)"

lemma length_build_level:
  "length (snd (build_level a nodes newLevel)) = length newLevel + (length nodes + 1) div 2"
  by (induction a nodes newLevel rule: build_level.induct) auto

function build_levels :: "MerkleNode list \<Rightarrow> nat list \<Rightarrow> MerkleNode list \<times> nat list" where
  "build_levels a nodes =
     (if length nodes > 1 then
        (case build_level a nodes [] of (a', newLevel) \<Rightarrow> build_levels a' newLevel)
      else (a, nodes))"
  by pat_completeness auto
termination
  by (relation "measure (\<lambda>(a, nodes). length nodes)")
    (auto simp: case_prod_unfold length_build_level)

declare build_levels.simps [simp del]

definition leaf_node :: "string \<Rightarrow> MerkleNode" where
  "leaf_node sig = \<lparr>mn_Hash = computeHash sig, mn_Left = None, mn_Right = None, mn_Parent = None\<rparr>"

definition NewMerkleTree :: "string list \<Rightarrow> MerkleTree" where
  "NewMerkleTree signatures =
     (if length signatures = 0
      then \<lparr>mt_Nodes = [], mt_Root = None, mt_Leaves = [], mt_ProofType = ''merkle_tree''\<rparr>
      else (let sortedSignatures = sort signatures;
                leaves = [0..<length sortedSignatures];
                (a, nodes) = build_levels (map leaf_node sortedSignatures) leaves
        in \<lparr>mt_Nodes = a, mt_Root = Some (hd nodes), mt_Leaves = leaves,
            mt_ProofType = ''merkle_tree''\<rparr>))"

definition GetRootHash :: "MerkleTree \<Rightarrow> string" where
  "GetRootHash mt = (case mt_Root mt of None \<Rightarrow> [] | Some r \<Rightarrow> mn_Hash (mt_Nodes mt ! r))"

section \<open>Proofs\<close>

definition findLeafNode :: "MerkleTree \<Rightarrow> string \<Rightarrow> nat option" where
  "findLeafNode mt targetHash =
     List.find (\<lambda>leaf. mn_Hash (mt_Nodes mt ! leaf) = targetHash) (mt_Leaves mt)"

text \<open>The climb to the root; a parent has a larger index, so the arena's length is enough fuel.\<close>

fun climb :: "nat \<Rightarrow> MerkleNode list \<Rightarrow> nat \<Rightarrow> ProofNode list" where
  "climb 0 a node = []"
| "climb (Suc n) a node =
     (case mn_Parent (a ! node) of
        None \<Rightarrow> []
      | Some parent \<Rightarrow>
          (if mn_Left (a ! parent) = Some node
           then (case mn_Right (a ! parent) of
                   Some r \<Rightarrow> [\<lparr>pn_Hash = mn_Hash (a ! r), pn_IsLeft = False\<rparr>] | None \<Rightarrow> [])
           else (case mn_Left (a ! parent) of
                   Some l \<Rightarrow> [\<lparr>pn_Hash = mn_Hash (a ! l), pn_IsLeft = True\<rparr>] | None \<Rightarrow> []))
          @ climb n a parent)"

definition buildProof :: "MerkleTree \<Rightarrow> string \<Rightarrow> ProofNode list" where
  "buildProof mt targetHash = (case findLeafNode mt targetHash of
     None \<Rightarrow> [] | Some node \<Rightarrow> climb (length (mt_Nodes mt)) (mt_Nodes mt) node)"

definition GenerateBatchProof :: "MerkleTree \<Rightarrow> string list \<Rightarrow> BatchProof option" where
  "GenerateBatchProof mt targetSignatures =
     (if mt_Root mt = None \<or> length targetSignatures = 0 then None
      else (let leafHashes = map computeHash (sort targetSignatures)
        in Some \<lparr>bp_RootHash = GetRootHash mt, bp_ProofType = mt_ProofType mt,
             bp_LeafHashes = leafHashes,
             bp_ProofElements = concat (map (buildProof mt) leafHashes)\<rparr>))"

text \<open>One round of the verifier over the current hashes; the proof elements not yet used remain.\<close>

fun root_round :: "string list \<Rightarrow> ProofNode list \<Rightarrow> string list \<times> ProofNode list" where
  "root_round (c # d # cs) (pn # ps) =
     (let h = (if pn_IsLeft pn then computeHash (pn_Hash pn @ c) else computeHash (c @ pn_Hash pn));
          (hs, rest) = root_round cs ps in (h # hs, rest))"
| "root_round (c # d # cs) [] =
     (let (hs, rest) = root_round cs [] in (computeHash (c @ d) # hs, rest))"
| "root_round [c] (pn # ps) = ([computeHash (c @ pn_Hash pn)], ps)"
| "root_round [c] [] = ([computeHash (c @ c)], [])"
| "root_round [] ps = ([], ps)"

lemma length_root_round: "length (fst (root_round cs ps)) = (length cs + 1) div 2"
  by (induction cs ps rule: root_round.induct) (auto simp: Let_def split: prod.splits)

function root_loop :: "string list \<Rightarrow> ProofNode list \<Rightarrow> string list" where
  "root_loop cs ps =
     (if length cs > 1 then (case root_round cs ps of (cs', ps') \<Rightarrow> root_loop cs' ps') else cs)"
  by pat_completeness auto
termination
  by (relation "measure (\<lambda>(cs, ps). length cs)")
    (auto simp: case_prod_unfold length_root_round)

declare root_loop.simps [simp del]

definition computeRootFromProof :: "string list \<Rightarrow> ProofNode list \<Rightarrow> string" where
  "computeRootFromProof leafHashes proofElements =
     (if length leafHashes = 0 then []
      else (let currentHashes = root_loop leafHashes proofElements in
        if length currentHashes > 0 then hd currentHashes else []))"

definition VerifyProof :: "MerkleTree \<Rightarrow> BatchProof option \<Rightarrow> bool" where
  "VerifyProof mt pf = (case (pf, mt_Root mt) of
     (Some p, Some r) \<Rightarrow>
       (if bp_RootHash p \<noteq> mn_Hash (mt_Nodes mt ! r) then False
        else computeRootFromProof (bp_LeafHashes p) (bp_ProofElements p) = bp_RootHash p)
   | _ \<Rightarrow> False)"

section \<open>The builder and the chained tree\<close>

type_synonym MerkleTreeBuilder = "string list"

definition NewMerkleTreeBuilder :: MerkleTreeBuilder where
  "NewMerkleTreeBuilder = []"

definition AddSignature :: "MerkleTreeBuilder \<Rightarrow> string \<Rightarrow> MerkleTreeBuilder" where
  "AddSignature b sig = (if sig \<noteq> [] then b @ [sig] else b)"

definition Build :: "MerkleTreeBuilder \<Rightarrow> MerkleTree" where
  "Build b = NewMerkleTree b"

definition BuildProof :: "MerkleTreeBuilder \<Rightarrow> string list \<Rightarrow> BatchProof option" where
  "BuildProof b targetSignatures = GenerateBatchProof (Build b) targetSignatures"

record ExtendedMerkleTree =
  em_Tree :: MerkleTree
  em_Timestamp :: int
  em_PreviousRoot :: string
  em_ChainSequence :: int

definition NewExtendedMerkleTree :: "string list \<Rightarrow> string \<Rightarrow> int \<Rightarrow> ExtendedMerkleTree" where
  "NewExtendedMerkleTree signatures previousRoot sequence =
     \<lparr>em_Tree = NewMerkleTree signatures, em_Timestamp = 0, em_PreviousRoot = previousRoot,
      em_ChainSequence = sequence\<rparr>"

definition GetAggregateHash :: "ExtendedMerkleTree \<Rightarrow> string" where
  "GetAggregateHash emt = (case mt_Root (em_Tree emt) of
     None \<Rightarrow> []
   | Some r \<Rightarrow> computeHash (mn_Hash (mt_Nodes (em_Tree emt) ! r) @ em_PreviousRoot emt))"

section \<open>The arena invariant\<close>

text \<open>
  The nodes without a parent are exactly the given ones; every other node is a child of a node of
  larger index, whose hash is that of its children's hashes.
\<close>

definition linked :: "MerkleNode list \<Rightarrow> nat \<Rightarrow> nat \<Rightarrow> bool" where
  "linked a i p \<longleftrightarrow> i < p \<and> p < length a \<and>
     (\<exists>l r. mn_Left (a ! p) = Some l \<and> mn_Right (a ! p) = Some r \<and> (l = i \<or> r = i) \<and>
       l < p \<and> r < p \<and> mn_Hash (a ! p) = computeHash (mn_Hash (a ! l) @ mn_Hash (a ! r)))"

definition wf_arena :: "MerkleNode list \<Rightarrow> nat set \<Rightarrow> bool" where
  "wf_arena a tops \<longleftrightarrow> tops \<subseteq> {..<length a} \<and>
     (\<forall>i < length a. case mn_Parent (a ! i) of None \<Rightarrow> i \<in> tops | Some p \<Rightarrow> i \<notin> tops \<and> linked a i p)"


lemma new_parent_simps:
  assumes "l < length a" "r < length a"
  shows "length (new_parent a l r) = Suc (length a)"
    and "k < length a \<Longrightarrow> mn_Hash (new_parent a l r ! k) = mn_Hash (a ! k)"
    and "k < length a \<Longrightarrow> mn_Left (new_parent a l r ! k) = mn_Left (a ! k)"
    and "k < length a \<Longrightarrow> mn_Right (new_parent a l r ! k) = mn_Right (a ! k)"
    and "k < length a \<Longrightarrow> mn_Parent (new_parent a l r ! k)
          = (if k = l \<or> k = r then Some (length a) else mn_Parent (a ! k))"
    and "new_parent a l r ! length a = \<lparr>mn_Hash = computeHash (mn_Hash (a ! l) @ mn_Hash (a ! r)),
       mn_Left = Some l, mn_Right = Some r, mn_Parent = None\<rparr>"
  using assms by (auto simp: new_parent_def set_parent_def nth_append nth_list_update)

lemma linked_new_parent:
  assumes "l < length a" "r < length a" "linked a i p"
  shows "linked (new_parent a l r) i p"
proof -
  obtain l' r' where lr: "i < p" "p < length a" "mn_Left (a ! p) = Some l'" "mn_Right (a ! p) = Some r'"
    "l' = i \<or> r' = i" "l' < p" "r' < p"
    "mn_Hash (a ! p) = computeHash (mn_Hash (a ! l') @ mn_Hash (a ! r'))"
    using assms(3) unfolding linked_def by blast
  then have "l' < length a" "r' < length a" by simp_all
  note s = new_parent_simps [OF assms(1,2)]
  show ?thesis
    using lr \<open>l' < length a\<close> \<open>r' < length a\<close> by (simp add: linked_def s)
qed

lemma linked_to_new_parent:
  assumes "l < length a" "r < length a" "i = l \<or> i = r"
  shows "linked (new_parent a l r) i (length a)"
  unfolding linked_def
  using assms by (intro conjI exI [of _ l] exI [of _ r]) (auto simp: new_parent_simps)

lemma wf_new_parent:
  assumes wf: "wf_arena a (insert l (insert r tops))" and new: "l \<notin> tops" "r \<notin> tops"
  shows "wf_arena (new_parent a l r) (insert (length a) tops)"
proof -
  have lr: "l < length a" "r < length a" using wf by (auto simp: wf_arena_def)
  note s = new_parent_simps [OF lr]
  show ?thesis
    unfolding wf_arena_def
  proof (intro conjI allI impI)
    show "insert (length a) tops \<subseteq> {..<length (new_parent a l r)}"
      using wf by (auto simp: wf_arena_def s(1))
    fix i assume i: "i < length (new_parent a l r)"
    show "case mn_Parent (new_parent a l r ! i) of None \<Rightarrow> i \<in> insert (length a) tops
        | Some p \<Rightarrow> i \<notin> insert (length a) tops \<and> linked (new_parent a l r) i p"
    proof (cases "i < length a")
      case True
      show ?thesis
      proof (cases "i = l \<or> i = r")
        case t: True
        with True new linked_to_new_parent [OF lr t] show ?thesis by (auto simp: s(5))
      next
        case False
        have "case mn_Parent (a ! i) of None \<Rightarrow> i \<in> insert l (insert r tops)
          | Some p \<Rightarrow> i \<notin> insert l (insert r tops) \<and> linked a i p"
          using wf True by (simp add: wf_arena_def)
        with True False linked_new_parent [OF lr] show ?thesis
          by (cases "mn_Parent (a ! i)") (simp_all add: s(5))
      qed
    next
      case False
      with i have "i = length a" by (simp add: s(1))
      then show ?thesis by (simp add: s(6))
    qed
  qed
qed

text \<open>The hashes of a level, and the specification of the root: pair up until one is left.\<close>

fun level_up :: "string list \<Rightarrow> string list" where
  "level_up (c # d # cs) = computeHash (c @ d) # level_up cs"
| "level_up [c] = [computeHash (c @ c)]"
| "level_up [] = []"

lemma length_level_up: "length (level_up cs) = (length cs + 1) div 2"
  by (induction cs rule: level_up.induct) auto

function merkle_root :: "string list \<Rightarrow> string" where
  "merkle_root cs = (if length cs > 1 then merkle_root (level_up cs) else hd cs)"
  by pat_completeness auto
termination
  by (relation "measure length") (auto simp: length_level_up)

declare merkle_root.simps [simp del]

abbreviation hashes :: "MerkleNode list \<Rightarrow> nat list \<Rightarrow> string list" where
  "hashes a is \<equiv> map (\<lambda>i. mn_Hash (a ! i)) is"

lemma build_level_correct:
  assumes "wf_arena a (set nodes \<union> set newLevel)" "distinct (nodes @ newLevel)"
    "build_level a nodes newLevel = (a', newLevel')"
  shows "wf_arena a' (set newLevel') \<and> distinct newLevel' \<and> length a \<le> length a' \<and>
    (\<forall>i < length a. mn_Hash (a' ! i) = mn_Hash (a ! i)) \<and>
    hashes a' newLevel' = hashes a newLevel @ level_up (hashes a nodes)"
  using assms
proof (induction a nodes newLevel arbitrary: a' newLevel' rule: build_level.induct)
  case (1 a i j nodes newLevel)
  let ?b = "new_parent a i j"
  have sub: "set (i # j # nodes) \<union> set newLevel \<subseteq> {..<length a}"
    using "1.prems"(1) by (simp add: wf_arena_def)
  then have ij: "i < length a" "j < length a" by auto
  note s = new_parent_simps [OF ij]
  have wf: "wf_arena ?b (insert (length a) (set nodes \<union> set newLevel))"
    using "1.prems"(1,2) by (intro wf_new_parent) auto
  have d: "distinct (nodes @ newLevel @ [length a])" using "1.prems"(2) sub by auto
  have r: "wf_arena a' (set newLevel') \<and> distinct newLevel' \<and> length ?b \<le> length a' \<and>
    (\<forall>i < length ?b. mn_Hash (a' ! i) = mn_Hash (?b ! i)) \<and>
    hashes a' newLevel' = hashes ?b (newLevel @ [length a]) @ level_up (hashes ?b nodes)"
    using wf d "1.prems"(3) by (intro "1.IH") (simp_all add: insert_commute)
  have "hashes ?b nodes = hashes a nodes" "hashes ?b newLevel = hashes a newLevel"
    using sub s(2) by (auto simp: subset_iff)
  with r show ?case by (auto simp: s)
next
  case (2 a i newLevel)
  let ?b = "new_parent a i i"
  have sub: "set [i] \<union> set newLevel \<subseteq> {..<length a}" using "2.prems"(1) by (simp add: wf_arena_def)
  then have i: "i < length a" by auto
  note s = new_parent_simps [OF i i]
  have "wf_arena ?b (insert (length a) (set newLevel))"
    using "2.prems"(1,2) by (intro wf_new_parent) auto
  moreover have "hashes ?b newLevel = hashes a newLevel" using sub s(2) by (auto simp: subset_iff)
  ultimately show ?case using "2.prems"(2,3) sub by (auto simp: s)
next
  case (3 a newLevel)
  then show ?case by auto
qed

lemma build_levels_correct:
  assumes "wf_arena a (set nodes)" "distinct nodes" "nodes \<noteq> []" "build_levels a nodes = (a', nodes')"
  shows "\<exists>r. nodes' = [r] \<and> wf_arena a' {r} \<and> length a \<le> length a' \<and>
    (\<forall>i < length a. mn_Hash (a' ! i) = mn_Hash (a ! i)) \<and> mn_Hash (a' ! r) = merkle_root (hashes a nodes)"
  using assms
proof (induction a nodes arbitrary: a' nodes' rule: build_levels.induct)
  case (1 a nodes)
  show ?case
  proof (cases "length nodes > 1")
    case False
    with "1.prems"(3) obtain r where r: "nodes = [r]" by (cases nodes) auto
    have "build_levels a [r] = (a, [r])" by (subst build_levels.simps) simp
    then have "a' = a" "nodes' = [r]" using "1.prems"(4) r by simp_all
    moreover have "merkle_root (hashes a [r]) = mn_Hash (a ! r)" by (subst merkle_root.simps) simp
    ultimately show ?thesis using "1.prems"(1) r by simp
  next
    case True
    obtain b newLevel where l: "build_level a nodes [] = (b, newLevel)" by fastforce
    note c = build_level_correct [of a nodes "[]", OF _ _ l, simplified, OF "1.prems"(1,2)]
    have "length newLevel = (length nodes + 1) div 2"
      using length_build_level [of a nodes "[]"] l by simp
    with True have ne: "newLevel \<noteq> []" by auto
    have e: "build_levels b newLevel = (a', nodes')"
      using "1.prems"(4) True l build_levels.simps [of a nodes] by simp
    obtain r where r: "nodes' = [r]" "wf_arena a' {r}" "length b \<le> length a'"
      "\<forall>i < length b. mn_Hash (a' ! i) = mn_Hash (b ! i)" "mn_Hash (a' ! r) = merkle_root (hashes b newLevel)"
      using "1.IH" [OF True l [symmetric] _ _ ne e] c by blast
    moreover have "merkle_root (hashes b newLevel) = merkle_root (hashes a nodes)"
      using c True merkle_root.simps [of "hashes a nodes"] by simp
    ultimately show ?thesis using c by (intro exI [of _ r]) simp
  qed
qed

text \<open>Following a proof from a hash.\<close>

fun path_root :: "string \<Rightarrow> ProofNode list \<Rightarrow> string" where
  "path_root h [] = h"
| "path_root h (pn # ps) =
     path_root (if pn_IsLeft pn then computeHash (pn_Hash pn @ h) else computeHash (h @ pn_Hash pn)) ps"

lemma climb_correct:
  "wf_arena a {r} \<Longrightarrow> i < length a \<Longrightarrow> length a \<le> n + i \<Longrightarrow>
    path_root (mn_Hash (a ! i)) (climb n a i) = mn_Hash (a ! r)"
proof (induction n arbitrary: i)
  case (Suc n)
  show ?case
  proof (cases "mn_Parent (a ! i)")
    case None
    then have "i = r" using Suc.prems(1,2) by (auto simp: wf_arena_def split: option.splits)
    with None show ?thesis by simp
  next
    case (Some p)
    then have "linked a i p" using Suc.prems(1,2) by (auto simp: wf_arena_def split: option.splits)
    then obtain l k where p: "i < p" "p < length a" "mn_Left (a ! p) = Some l" "mn_Right (a ! p) = Some k"
      "l = i \<or> k = i" "mn_Hash (a ! p) = computeHash (mn_Hash (a ! l) @ mn_Hash (a ! k))"
      unfolding linked_def by blast
    have "path_root (mn_Hash (a ! p)) (climb n a p) = mn_Hash (a ! r)"
      using Suc.prems p(1,2) by (intro Suc.IH) simp_all
    with Some p(3-6) show ?thesis by auto
  qed
qed simp

lemma NewMerkleTree_correct:
  assumes "sigs \<noteq> []"
  defines "t \<equiv> NewMerkleTree sigs"
  obtains r where "mt_Root t = Some r" "wf_arena (mt_Nodes t) {r}"
    "mt_Leaves t = [0..<length sigs]" "length sigs \<le> length (mt_Nodes t)"
    "\<And>i. i < length sigs \<Longrightarrow> mn_Hash (mt_Nodes t ! i) = computeHash (sort sigs ! i)"
    "mn_Hash (mt_Nodes t ! r) = merkle_root (map computeHash (sort sigs))"
proof -
  let ?a = "map leaf_node (sort sigs)" and ?leaves = "[0..<length sigs]"
  obtain a' nodes where b: "build_levels ?a ?leaves = (a', nodes)" by fastforce
  have wf: "wf_arena ?a (set ?leaves)"
    by (auto simp: wf_arena_def leaf_node_def)
  have h: "hashes ?a ?leaves = map computeHash (sort sigs)"
    by (rule nth_equalityI) (simp_all add: leaf_node_def)
  obtain r where r: "nodes = [r]" "wf_arena a' {r}" "length sigs \<le> length a'"
    "\<forall>i < length sigs. mn_Hash (a' ! i) = mn_Hash (?a ! i)"
    "mn_Hash (a' ! r) = merkle_root (map computeHash (sort sigs))"
    using build_levels_correct [OF wf _ _ b] assms(1) unfolding h by auto
  have t: "t = \<lparr>mt_Nodes = a', mt_Root = Some r, mt_Leaves = ?leaves, mt_ProofType = ''merkle_tree''\<rparr>"
    using assms(1) b r(1) by (simp add: t_def NewMerkleTree_def Let_def)
  show thesis
    using r by (intro that [of r]) (simp_all add: t leaf_node_def)
qed

lemma find_leaf:
  assumes "List.find P xs = None \<Longrightarrow> False" obtains i where "List.find P xs = Some i" "i \<in> set xs" "P i"
  using assms by (metis find_Some_iff nth_mem option.exhaust)

section \<open>The properties\<close>

text \<open>
  \<^bold>\<open>C25.\<close> The root of a batch is the pairwise hash tree over the sorted signatures' hashes, a lone
  hash being paired with itself; it does not depend on the order in which the signatures were added,
  and an empty batch has the empty root.
\<close>

theorem merkle_root_spec:
  assumes "mset sigs = mset sigs'" and "sigs \<noteq> []"
  shows "GetRootHash (NewMerkleTree sigs) = merkle_root (map computeHash (sort sigs)) \<and>
    GetRootHash (NewMerkleTree sigs') = GetRootHash (NewMerkleTree sigs) \<and>
    GetRootHash (NewMerkleTree []) = []"
proof -
  have r: "GetRootHash (NewMerkleTree xs) = merkle_root (map computeHash (sort xs))" if "xs \<noteq> []" for xs
    by (rule NewMerkleTree_correct [OF that]) (simp add: GetRootHash_def)
  have "sigs' \<noteq> []" using assms by auto
  moreover have "sort sigs = sort sigs'"
    using assms(1) by (metis properties_for_sort mset_sort sorted_sort)
  ultimately show ?thesis using r assms(2) by (simp add: GetRootHash_def) (simp add: NewMerkleTree_def)
qed

theorem merkle_root_spec_witness:
  "GetRootHash (NewMerkleTree [''b'', ''a'', ''c'']) = GetRootHash (NewMerkleTree [''a'', ''c'', ''b''])"
  using merkle_root_spec [of "[''a'', ''c'', ''b'']" "[''b'', ''a'', ''c'']"] by simp

text \<open>
  \<^bold>\<open>C26.\<close> Membership proofs are right: for every signature of the batch, the path that buildProof
  returns leads from its leaf hash to the root, and for a hash that is no leaf the path is empty.
\<close>

theorem merkle_path_correct:
  assumes "sig \<in> set sigs"
  shows "path_root (computeHash sig) (buildProof (NewMerkleTree sigs) (computeHash sig))
      = GetRootHash (NewMerkleTree sigs) \<and>
    (other \<notin> computeHash ` set sigs \<longrightarrow> buildProof (NewMerkleTree sigs) other = [])"
proof -
  let ?t = "NewMerkleTree sigs"
  have ne: "sigs \<noteq> []" using assms by auto
  obtain r where t: "mt_Root ?t = Some r" "wf_arena (mt_Nodes ?t) {r}"
    "mt_Leaves ?t = [0..<length sigs]" "length sigs \<le> length (mt_Nodes ?t)"
    "\<And>i. i < length sigs \<Longrightarrow> mn_Hash (mt_Nodes ?t ! i) = computeHash (sort sigs ! i)"
    by (rule NewMerkleTree_correct [OF ne]) blast
  let ?P = "\<lambda>h leaf. mn_Hash (mt_Nodes ?t ! leaf) = h"
  obtain j where j: "j < length sigs" "sort sigs ! j = sig"
    using assms by (metis in_set_conv_nth length_sort set_sort)
  obtain i where i: "findLeafNode ?t (computeHash sig) = Some i" "i < length sigs"
      "mn_Hash (mt_Nodes ?t ! i) = computeHash sig"
    unfolding findLeafNode_def t(3)
    by (rule find_leaf [of "?P (computeHash sig)" "[0..<length sigs]"])
      (use j t(5) in \<open>auto simp: find_None_iff\<close>)
  have "path_root (mn_Hash (mt_Nodes ?t ! i)) (climb (length (mt_Nodes ?t)) (mt_Nodes ?t) i)
      = mn_Hash (mt_Nodes ?t ! r)"
    using t i(2) by (intro climb_correct) simp_all
  then have "path_root (computeHash sig) (buildProof ?t (computeHash sig)) = GetRootHash ?t"
    by (simp add: buildProof_def i GetRootHash_def t(1))
  moreover have "other \<notin> computeHash ` set sigs \<Longrightarrow> findLeafNode ?t other = None"
    using t(3,5) by (auto simp: findLeafNode_def find_None_iff image_iff)
      (metis length_sort nth_mem set_sort)
  ultimately show ?thesis by (auto simp: buildProof_def)
qed

theorem merkle_path_correct_witness:
  "path_root (computeHash ''b'') (buildProof (NewMerkleTree [''a'', ''b'', ''c'']) (computeHash ''b''))
     = GetRootHash (NewMerkleTree [''a'', ''b'', ''c''])"
  using merkle_path_correct [of "''b''" "[''a'', ''b'', ''c'']"] by simp

text \<open>
  Verification of a batch proof does not follow the path: for a single target the verifier
  returns the leaf hash unchanged, so a proof made by the tree for one signature is accepted exactly
  when the leaf hash is itself the root, whatever path the proof carries. A proof for another root is
  always rejected.
\<close>

theorem merkle_verify_single:
  "(VerifyProof mt (GenerateBatchProof mt [sig]) \<longleftrightarrow>
      mt_Root mt \<noteq> None \<and> computeHash sig = GetRootHash mt) \<and>
   (VerifyProof mt (Some bp) \<and> bp_RootHash bp \<noteq> GetRootHash mt \<longleftrightarrow> False) \<and>
   computeRootFromProof [h] ps = h"
proof -
  have "root_loop [h] ps = [h]" for h ps by (subst root_loop.simps) simp
  then show ?thesis
    by (auto simp: VerifyProof_def GenerateBatchProof_def Let_def GetRootHash_def
        computeRootFromProof_def split: option.splits if_splits)
qed

end
