(* ===== verification/BudgetStore.thy ===== *)
theory BudgetStore
  imports GoFloat Prelude
begin

text \<open>
  The budget stores of \<^verbatim>\<open>internal/adapter/storage\<close>: the in-memory store
  (\<^verbatim>\<open>storage.go\<close>) and the SQLite store (\<^verbatim>\<open>sqlite.go\<close>), behind the interface
  \<^verbatim>\<open>BudgetStore\<close>, whose laws are a locale. An operation takes the state and returns its
  result and the new state; an error result is the message, \<open>None\<close> for nil. Mutexes and
  transactions make every operation atomic, so a state between operations is all there is.
\<close>

section \<open>The in-memory store\<close>

record MemoryBudgetStore =
  mb_budget :: f64
  mb_reserved :: f64
  mb_used :: f64

record Budget =
  bg_TotalBudget :: f64
  bg_UsedBudget :: f64

definition NewMemoryBudgetStore :: MemoryBudgetStore where
  "NewMemoryBudgetStore = \<lparr>mb_budget = Fin 100, mb_reserved = fzero, mb_used = fzero\<rparr>"

definition mem_Reserve :: "string \<Rightarrow> f64 \<Rightarrow> MemoryBudgetStore \<Rightarrow> bool result \<times> MemoryBudgetStore" where
  "mem_Reserve sessionID amount s =
     (let remaining = fsub (fsub (mb_budget s) (mb_reserved s)) (mb_used s) in
      if flt remaining amount then (Inr False, s)
      else (Inr True, s\<lparr>mb_reserved := fadd (mb_reserved s) amount\<rparr>))"

definition mem_Commit :: "string \<Rightarrow> f64 \<Rightarrow> MemoryBudgetStore \<Rightarrow> string option \<times> MemoryBudgetStore" where
  "mem_Commit sessionID amount s =
     (None, s\<lparr>mb_used := fadd (mb_used s) amount, mb_reserved := fsub (mb_reserved s) amount\<rparr>)"

definition mem_Rollback :: "string \<Rightarrow> f64 \<Rightarrow> MemoryBudgetStore \<Rightarrow> string option \<times> MemoryBudgetStore" where
  "mem_Rollback sessionID amount s = (None, s\<lparr>mb_reserved := fsub (mb_reserved s) amount\<rparr>)"

definition mem_GetRemaining :: "string \<Rightarrow> MemoryBudgetStore \<Rightarrow> f64 result" where
  "mem_GetRemaining sessionID s = Inr (fsub (fsub (mb_budget s) (mb_reserved s)) (mb_used s))"

definition mem_GetBudget :: "MemoryBudgetStore \<Rightarrow> Budget" where
  "mem_GetBudget s = \<lparr>bg_TotalBudget = mb_budget s, bg_UsedBudget = mb_used s\<rparr>"

definition mem_Set :: "f64 \<Rightarrow> MemoryBudgetStore \<Rightarrow> MemoryBudgetStore" where
  "mem_Set amount s = s\<lparr>mb_budget := amount\<rparr>"

definition mem_SetBudget :: "string \<Rightarrow> f64 \<Rightarrow> MemoryBudgetStore \<Rightarrow> string option \<times> MemoryBudgetStore" where
  "mem_SetBudget sessionID amount s = (None, s\<lparr>mb_budget := amount\<rparr>)"

section \<open>The SQLite store\<close>

text \<open>
  The table \<^verbatim>\<open>budget_store\<close> by its primary key. Its column \<^verbatim>\<open>updated_at\<close> is
  written and never read, and is left out; amounts are numbers (the driver binds NaN as NULL).
\<close>

record BudgetRow =
  br_total :: f64
  br_used :: f64
  br_reserved :: f64

type_synonym BudgetTable = "string \<rightharpoonup> BudgetRow"

definition sql_no_rows :: string where
  "sql_no_rows = ''sql: no rows in result set''"

definition sql_ReserveBudget :: "string \<Rightarrow> f64 \<Rightarrow> BudgetTable \<Rightarrow> bool result \<times> BudgetTable" where
  "sql_ReserveBudget sessionID amount db = (case db sessionID of
     None \<Rightarrow> (Inl (''no budget found for session: '' @ sessionID), db)
   | Some r \<Rightarrow>
       if flt (br_total r) (fadd (fadd (br_used r) (br_reserved r)) amount) then (Inr False, db)
       else (Inr True, db(sessionID \<mapsto> r\<lparr>br_reserved := fadd (br_reserved r) amount\<rparr>)))"

definition sql_CommitBudget :: "string \<Rightarrow> f64 \<Rightarrow> BudgetTable \<Rightarrow> string option \<times> BudgetTable" where
  "sql_CommitBudget sessionID amount db = (case db sessionID of
     None \<Rightarrow> (Some sql_no_rows, db)
   | Some r \<Rightarrow>
       if flt (br_reserved r) amount then (Some ''insufficient reserved budget'', db)
       else (None, db(sessionID \<mapsto> r\<lparr>br_used := fadd (br_used r) amount,
               br_reserved := fsub (br_reserved r) amount\<rparr>)))"

definition sql_RollbackBudget :: "string \<Rightarrow> f64 \<Rightarrow> BudgetTable \<Rightarrow> string option \<times> BudgetTable" where
  "sql_RollbackBudget sessionID amount db = (case db sessionID of
     None \<Rightarrow> (Some sql_no_rows, db)
   | Some r \<Rightarrow>
       if flt (br_reserved r) amount then (Some ''insufficient reserved budget to rollback'', db)
       else (None, db(sessionID \<mapsto> r\<lparr>br_reserved := fsub (br_reserved r) amount\<rparr>)))"

definition sql_GetRemainingBudget :: "string \<Rightarrow> BudgetTable \<Rightarrow> f64 result" where
  "sql_GetRemainingBudget sessionID db = (case db sessionID of
     None \<Rightarrow> Inl (''no budget found for session: '' @ sessionID)
   | Some r \<Rightarrow> Inr (fsub (fsub (br_total r) (br_used r)) (br_reserved r)))"

definition sql_SetSessionBudget :: "string \<Rightarrow> f64 \<Rightarrow> BudgetTable \<Rightarrow> string option \<times> BudgetTable" where
  "sql_SetSessionBudget sessionID amount db =
     (None, db(sessionID \<mapsto> \<lparr>br_total = amount, br_used = fzero, br_reserved = fzero\<rparr>))"

text \<open>The rows are closed before the first call of \<^verbatim>\<open>Next\<close>, which then returns false.\<close>

definition sql_GetBudget :: "BudgetTable \<Rightarrow> Budget" where
  "sql_GetBudget db = \<lparr>bg_TotalBudget = fzero, bg_UsedBudget = fzero\<rparr>"

definition sql_SetGlobal :: "f64 \<Rightarrow> BudgetTable \<Rightarrow> BudgetTable" where
  "sql_SetGlobal amount db = snd (sql_SetSessionBudget ''__global__'' amount db)"

section \<open>The stores as records of operations\<close>

record 's BudgetOps =
  bo_Reserve :: "string \<Rightarrow> f64 \<Rightarrow> 's \<Rightarrow> bool result \<times> 's"
  bo_Commit :: "string \<Rightarrow> f64 \<Rightarrow> 's \<Rightarrow> string option \<times> 's"
  bo_Rollback :: "string \<Rightarrow> f64 \<Rightarrow> 's \<Rightarrow> string option \<times> 's"
  bo_GetRemaining :: "string \<Rightarrow> 's \<Rightarrow> f64 result"
  bo_Get :: "'s \<Rightarrow> Budget result"
  bo_Set :: "f64 \<Rightarrow> 's \<Rightarrow> string option \<times> 's"
  bo_SetBudget :: "string \<Rightarrow> f64 \<Rightarrow> 's \<Rightarrow> string option \<times> 's"

definition mem_ops :: "MemoryBudgetStore BudgetOps" where
  "mem_ops = \<lparr>bo_Reserve = mem_Reserve, bo_Commit = mem_Commit, bo_Rollback = mem_Rollback,
     bo_GetRemaining = mem_GetRemaining, bo_Get = (\<lambda>s. Inr (mem_GetBudget s)),
     bo_Set = (\<lambda>amount s. (None, mem_Set amount s)), bo_SetBudget = mem_SetBudget\<rparr>"

definition sql_ops :: "BudgetTable BudgetOps" where
  "sql_ops = \<lparr>bo_Reserve = sql_ReserveBudget, bo_Commit = sql_CommitBudget, bo_Rollback = sql_RollbackBudget,
     bo_GetRemaining = sql_GetRemainingBudget, bo_Get = (\<lambda>db. Inr (sql_GetBudget db)),
     bo_Set = (\<lambda>amount db. (None, sql_SetGlobal amount db)), bo_SetBudget = sql_SetSessionBudget\<rparr>"

section \<open>The specification: a ledger of whole units\<close>

record ledger =
  lg_total :: int
  lg_reserved :: int
  lg_used :: int

definition ledger_ok :: "ledger \<Rightarrow> bool" where
  "ledger_ok L \<longleftrightarrow> 0 \<le> lg_reserved L \<and> 0 \<le> lg_used L \<and>
     lg_used L + lg_reserved L \<le> lg_total L \<and> lg_total L \<le> 2 ^ 52"

datatype budget_op = BReserve int | BCommit int | BRollback int

text \<open>One operation, when its amount is in range: only what is reserved is committed or released.\<close>

fun ledger_step :: "budget_op \<Rightarrow> ledger \<Rightarrow> ledger option" where
  "ledger_step (BReserve a) L =
     (if 0 \<le> a \<and> a \<le> 2 ^ 52
      then Some (if lg_used L + lg_reserved L + a \<le> lg_total L
                 then L\<lparr>lg_reserved := lg_reserved L + a\<rparr> else L)
      else None)"
| "ledger_step (BCommit a) L =
     (if 0 \<le> a \<and> a \<le> lg_reserved L
      then Some (L\<lparr>lg_used := lg_used L + a, lg_reserved := lg_reserved L - a\<rparr>) else None)"
| "ledger_step (BRollback a) L =
     (if 0 \<le> a \<and> a \<le> lg_reserved L
      then Some (L\<lparr>lg_reserved := lg_reserved L - a\<rparr>) else None)"

fun ledger_run :: "budget_op list \<Rightarrow> ledger \<Rightarrow> ledger option" where
  "ledger_run [] L = Some L"
| "ledger_run (op # ops) L = (case ledger_step op L of None \<Rightarrow> None | Some L' \<Rightarrow> ledger_run ops L')"

lemma ledger_step_ok [inv_intros]: "ledger_step op L = Some L' \<Longrightarrow> ledger_ok L \<Longrightarrow> ledger_ok L'"
  by (cases op) (auto simp: ledger_ok_def split: if_splits)

lemma ledger_step_total: "ledger_step op L = Some L' \<Longrightarrow> lg_total L' = lg_total L"
  by (cases op) (auto split: if_splits)

lemma ledger_run_total: "ledger_run ops L = Some L' \<Longrightarrow> lg_total L' = lg_total L"
  by (induction ops arbitrary: L) (auto dest: ledger_step_total split: option.splits)

lemma ledger_run_ok [inv_intros]: "ledger_run ops L = Some L' \<Longrightarrow> ledger_ok L \<Longrightarrow> ledger_ok L'"
  by (induction ops arbitrary: L) (auto dest: ledger_step_ok split: option.splits)

text \<open>The same operation on a store, with the amount in units of \<open>2 powi g\<close>.\<close>

definition apply_op :: "(string \<Rightarrow> f64 \<Rightarrow> 's \<Rightarrow> bool result \<times> 's) \<Rightarrow> (string \<Rightarrow> f64 \<Rightarrow> 's \<Rightarrow> string option \<times> 's) \<Rightarrow>
    (string \<Rightarrow> f64 \<Rightarrow> 's \<Rightarrow> string option \<times> 's) \<Rightarrow> int \<Rightarrow> string \<Rightarrow> budget_op \<Rightarrow> 's \<Rightarrow> 's" where
  "apply_op reserve commit rollback g sid op s = (case op of
     BReserve a \<Rightarrow> snd (reserve sid (on_grid g a) s)
   | BCommit a \<Rightarrow> snd (commit sid (on_grid g a) s)
   | BRollback a \<Rightarrow> snd (rollback sid (on_grid g a) s))"

section \<open>The interface\<close>

text \<open>
  What a session's budget promises its clients, on amounts that are multiples of one power of two
  within 52 bits, where float arithmetic is exact. \<open>repr g s sid L\<close>: in the state \<open>s\<close> the
  session \<open>sid\<close> has the ledger \<open>L\<close> in units of \<open>2 powi g\<close>.
\<close>

locale budget_store =
  fixes reserve :: "string \<Rightarrow> f64 \<Rightarrow> 's \<Rightarrow> bool result \<times> 's"
    and commit :: "string \<Rightarrow> f64 \<Rightarrow> 's \<Rightarrow> string option \<times> 's"
    and rollback :: "string \<Rightarrow> f64 \<Rightarrow> 's \<Rightarrow> string option \<times> 's"
    and remaining :: "string \<Rightarrow> 's \<Rightarrow> f64 result"
    and repr :: "int \<Rightarrow> 's \<Rightarrow> string \<Rightarrow> ledger \<Rightarrow> bool"
  assumes reserve_law: "grid_ok g \<Longrightarrow> ledger_ok L \<Longrightarrow> repr g s sid L \<Longrightarrow>
      ledger_step (BReserve a) L = Some L' \<Longrightarrow>
      fst (reserve sid (on_grid g a) s) = Inr (lg_used L + lg_reserved L + a \<le> lg_total L) \<and>
      repr g (snd (reserve sid (on_grid g a) s)) sid L'"
    and commit_law: "grid_ok g \<Longrightarrow> ledger_ok L \<Longrightarrow> repr g s sid L \<Longrightarrow>
      ledger_step (BCommit a) L = Some L' \<Longrightarrow>
      fst (commit sid (on_grid g a) s) = None \<and> repr g (snd (commit sid (on_grid g a) s)) sid L'"
    and rollback_law: "grid_ok g \<Longrightarrow> ledger_ok L \<Longrightarrow> repr g s sid L \<Longrightarrow>
      ledger_step (BRollback a) L = Some L' \<Longrightarrow>
      fst (rollback sid (on_grid g a) s) = None \<and> repr g (snd (rollback sid (on_grid g a) s)) sid L'"
    and remaining_law: "grid_ok g \<Longrightarrow> ledger_ok L \<Longrightarrow> repr g s sid L \<Longrightarrow>
      remaining sid s = Inr (on_grid g (lg_total L - lg_used L - lg_reserved L))"
begin

abbreviation step :: "int \<Rightarrow> string \<Rightarrow> budget_op \<Rightarrow> 's \<Rightarrow> 's" where
  "step \<equiv> apply_op reserve commit rollback"

lemma step_refines:
  "grid_ok g \<Longrightarrow> ledger_ok L \<Longrightarrow> repr g s sid L \<Longrightarrow> ledger_step op L = Some L' \<Longrightarrow>
    repr g (step g sid op s) sid L'"
  using reserve_law commit_law rollback_law by (cases op) (auto simp: apply_op_def simp del: ledger_step.simps)

lemma run_refines:
  "grid_ok g \<Longrightarrow> ledger_ok L \<Longrightarrow> repr g s sid L \<Longrightarrow> ledger_run ops L = Some L' \<Longrightarrow>
    repr g (fold (step g sid) ops s) sid L'"
proof (induction ops arbitrary: L s)
  case (Cons op ops)
  then obtain L1 where L1: "ledger_step op L = Some L1" "ledger_run ops L1 = Some L'"
    by (auto split: option.splits)
  have "repr g (fold (step g sid) ops (step g sid op s)) sid L'"
    using Cons.prems(1) ledger_step_ok [OF L1(1) Cons.prems(2)]
      step_refines [OF Cons.prems(1-3) L1(1)] L1(2) by (rule Cons.IH)
  then show ?case by simp
qed simp

lemma never_overspent:
  assumes "grid_ok g" "ledger_ok L" "repr g s sid L" "ledger_run ops L = Some L'"
  shows "remaining sid (fold (step g sid) ops s)
      = Inr (on_grid g (lg_total L - lg_used L' - lg_reserved L'))
    \<and> 0 \<le> lg_total L - lg_used L' - lg_reserved L'"
proof -
  have ok: "ledger_ok L'" using assms(2,4) by (auto intro: ledger_run_ok)
  with run_refines [OF assms] remaining_law [OF assms(1) ok] ledger_run_total [OF assms(4)]
  show ?thesis by (simp add: ledger_ok_def)
qed

end

text \<open>A store whose sessions do not disturb each other.\<close>

locale session_budget_store = budget_store reserve commit rollback remaining repr
  for reserve :: "string \<Rightarrow> f64 \<Rightarrow> 's \<Rightarrow> bool result \<times> 's"
    and commit rollback remaining repr +
  assumes frame: "sid \<noteq> sid' \<Longrightarrow> repr g s sid' L \<Longrightarrow>
      repr g (snd (reserve sid amount s)) sid' L \<and> repr g (snd (commit sid amount s)) sid' L \<and>
      repr g (snd (rollback sid amount s)) sid' L"
begin

lemma step_frame: "sid \<noteq> sid' \<Longrightarrow> repr g s sid' L \<Longrightarrow> repr g (step h sid op s) sid' L"
  using frame by (cases op) (auto simp: apply_op_def)

lemma run_frame: "sid \<noteq> sid' \<Longrightarrow> repr g s sid' L \<Longrightarrow> repr g (fold (step h sid) ops s) sid' L"
  by (induction ops arbitrary: s) (auto simp: step_frame)

end

section \<open>Both stores meet the interface\<close>

definition mem_repr :: "int \<Rightarrow> MemoryBudgetStore \<Rightarrow> string \<Rightarrow> ledger \<Rightarrow> bool" where
  "mem_repr g s sid L \<longleftrightarrow> s = \<lparr>mb_budget = on_grid g (lg_total L),
     mb_reserved = on_grid g (lg_reserved L), mb_used = on_grid g (lg_used L)\<rparr>"

definition sql_repr :: "int \<Rightarrow> BudgetTable \<Rightarrow> string \<Rightarrow> ledger \<Rightarrow> bool" where
  "sql_repr g db sid L \<longleftrightarrow> db sid = Some \<lparr>br_total = on_grid g (lg_total L),
     br_used = on_grid g (lg_used L), br_reserved = on_grid g (lg_reserved L)\<rparr>"

lemma ledger_bounds:
  assumes "ledger_ok L"
  shows "0 \<le> lg_reserved L" "lg_reserved L \<le> 2 ^ 52" "0 \<le> lg_used L" "lg_used L \<le> 2 ^ 52"
    "0 \<le> lg_total L" "lg_total L \<le> 2 ^ 52" "lg_used L + lg_reserved L \<le> 2 ^ 52"
  using assms by (auto simp: ledger_ok_def)

interpretation mem: budget_store mem_Reserve mem_Commit mem_Rollback mem_GetRemaining mem_repr
proof (unfold_locales, goal_cases)
  case (1 g L s sid a L')
  with ledger_bounds [OF 1(2)] show ?case
    by (auto simp: mem_repr_def mem_Reserve_def Let_def split: if_splits)
next
  case (2 g L s sid a L')
  with ledger_bounds [OF 2(2)] show ?case by (auto simp: mem_repr_def mem_Commit_def split: if_splits)
next
  case (3 g L s sid a L')
  with ledger_bounds [OF 3(2)] show ?case by (auto simp: mem_repr_def mem_Rollback_def split: if_splits)
next
  case (4 g L s sid)
  with ledger_bounds [OF 4(2)] show ?case by (simp add: mem_repr_def mem_GetRemaining_def algebra_simps)
qed

interpretation sql: session_budget_store sql_ReserveBudget sql_CommitBudget sql_RollbackBudget
  sql_GetRemainingBudget sql_repr
proof (unfold_locales, goal_cases)
  case (1 g L s sid a L')
  with ledger_bounds [OF 1(2)] show ?case
    by (auto simp: sql_repr_def sql_ReserveBudget_def split: if_splits)
next
  case (2 g L s sid a L')
  with ledger_bounds [OF 2(2)] show ?case
    by (auto simp: sql_repr_def sql_CommitBudget_def split: if_splits)
next
  case (3 g L s sid a L')
  with ledger_bounds [OF 3(2)] show ?case
    by (auto simp: sql_repr_def sql_RollbackBudget_def split: if_splits)
next
  case (4 g L s sid)
  with ledger_bounds [OF 4(2)] show ?case by (simp add: sql_repr_def sql_GetRemainingBudget_def)
next
  case (5 sid sid' g s L amount)
  then show ?case
    by (auto simp: sql_repr_def sql_ReserveBudget_def sql_CommitBudget_def sql_RollbackBudget_def
        split: option.split)
qed


section \<open>The properties\<close>

abbreviation "mem_step \<equiv> apply_op mem_Reserve mem_Commit mem_Rollback"
abbreviation "sql_step \<equiv> apply_op sql_ReserveBudget sql_CommitBudget sql_RollbackBudget"

text \<open>
  \<^bold>\<open>C27.\<close> The in-memory store implements the ledger and is never overspent: after any sequence of
  reservations, and of commits and rollbacks of amounts that are reserved at that moment, the remaining
  budget is the total less what is used and reserved, exactly, and not negative. Amounts are multiples
  of one power of two within 52 bits, where the float operations do not round.
\<close>

theorem memory_never_overspent:
  assumes "grid_ok g" "ledger_ok L" "mem_repr g s sid L" "ledger_run ops L = Some L'"
  shows "mem_repr g (fold (mem_step g sid) ops s) sid L' \<and>
    mem_GetRemaining sid (fold (mem_step g sid) ops s)
      = Inr (on_grid g (lg_total L - lg_used L' - lg_reserved L')) \<and>
    0 \<le> lg_total L - lg_used L' - lg_reserved L'"
  using mem.run_refines [OF assms] mem.never_overspent [OF assms] by simp

theorem memory_never_overspent_witness:
  "mem_GetRemaining ''s'' (fold (mem_step 0 ''s'') [BReserve 30, BCommit 30, BReserve 80, BReserve 70, BRollback 70]
     NewMemoryBudgetStore) = Inr (on_grid 0 70)"
proof -
  let ?L = "\<lparr>lg_total = 100, lg_reserved = 0, lg_used = 0\<rparr>"
  have "mem_repr 0 NewMemoryBudgetStore ''s'' ?L"
    by (simp add: mem_repr_def NewMemoryBudgetStore_def) (simp add: on_grid_def)
  from memory_never_overspent [OF _ _ this,
      of "[BReserve 30, BCommit 30, BReserve 80, BReserve 70, BRollback 70]"]
  show ?thesis by (simp add: grid_ok_def ledger_ok_def)
qed

text \<open>
  \<^bold>\<open>C28.\<close> The SQLite store implements one ledger per session: a session is never overspent, commits
  and rollbacks of reserved amounts succeed, and what one session does leaves every other session's
  ledger alone.
\<close>

theorem sqlite_never_overspent:
  assumes "grid_ok g" "ledger_ok L" "sql_repr g db sid L" "ledger_run ops L = Some L'"
    and "sid \<noteq> sid'" "sql_repr g db sid' M"
  shows "sql_repr g (fold (sql_step g sid) ops db) sid L' \<and>
    sql_GetRemainingBudget sid (fold (sql_step g sid) ops db)
      = Inr (on_grid g (lg_total L - lg_used L' - lg_reserved L')) \<and>
    0 \<le> lg_total L - lg_used L' - lg_reserved L' \<and>
    sql_repr g (fold (sql_step g sid) ops db) sid' M"
  using sql.run_refines [OF assms(1-4)] sql.never_overspent [OF assms(1-4)]
    sql.run_frame [OF assms(5,6)] by simp

theorem sqlite_never_overspent_witness:
  "let db = snd (sql_SetSessionBudget ''b'' (on_grid 0 5) (snd (sql_SetSessionBudget ''a'' (on_grid 0 9) Map.empty)));
       db' = fold (sql_step 0 ''a'') [BReserve 6, BReserve 6, BCommit 4] db
   in sql_GetRemainingBudget ''a'' db' = Inr (on_grid 0 3) \<and>
      sql_repr 0 db' ''b'' \<lparr>lg_total = 5, lg_reserved = 0, lg_used = 0\<rparr>"
proof -
  let ?db = "snd (sql_SetSessionBudget ''b'' (on_grid 0 5) (snd (sql_SetSessionBudget ''a'' (on_grid 0 9) Map.empty)))"
  have "sql_repr 0 ?db ''a'' \<lparr>lg_total = 9, lg_reserved = 0, lg_used = 0\<rparr>"
    "sql_repr 0 ?db ''b'' \<lparr>lg_total = 5, lg_reserved = 0, lg_used = 0\<rparr>"
    by (simp_all add: sql_repr_def sql_SetSessionBudget_def)
  from sqlite_never_overspent [OF _ _ this(1) _ _ this(2), of "[BReserve 6, BReserve 6, BCommit 4]"]
  show ?thesis by (simp add: Let_def grid_ok_def ledger_ok_def)
qed

end
