(* ===== verification/BudgetDecimal.thy ===== *)
theory BudgetDecimal
  imports BudgetStore
begin

text \<open>The budget stores on decimal amounts, where float arithmetic rounds.\<close>

text \<open>The numbers that occur, as multiples of \<open>2 ^ -56\<close>.\<close>

definition ulps :: "rat \<Rightarrow> f64" where
  "ulps m = Fin (m / 72057594037927936)"

lemma decimal_values:
  "lit (1/10) = ulps 7205759403792794" "lit (3/10) = ulps 21617278211378380"
  "fsub (ulps 21617278211378380) (ulps 7205759403792794) = ulps 14411518807585586"
  "fsub (ulps 21617278211378380) (ulps 14411518807585588) = ulps 7205759403792792"
  "fadd (ulps 7205759403792794) (ulps 7205759403792794) = ulps 14411518807585588"
  "fadd (ulps 14411518807585588) (ulps 7205759403792794) = ulps 21617278211378384"
  using to_f64_near [of "- 4" "1/10" 7205759403792794] to_f64_near [of "- 2" "3/10" 5404319552844595]
    to_f64_near [of "- 3" "14411518807585586 / 72057594037927936" 7205759403792793]
    to_f64_near [of "- 4" "7205759403792792 / 72057594037927936" 7205759403792792]
    to_f64_near [of "- 3" "14411518807585588 / 72057594037927936" 7205759403792794]
    to_f64_near [of "- 2" "21617278211378382 / 72057594037927936" 5404319552844596]
  by (simp_all add: ulps_def lit_def fadd_Fin fsub_Fin pow2_def)

lemma flt_ulps [simp]: "flt (ulps m) (ulps n) \<longleftrightarrow> m < n"
  by (simp add: ulps_def)

lemma decimal_zero:
  assumes "x \<in> {fzero, lit (1/10), lit (3/10), fadd (lit (1/10)) (lit (1/10)),
    fsub (lit (3/10)) (lit (1/10)), fsub (lit (3/10)) (fadd (lit (1/10)) (lit (1/10)))}"
  shows "fadd fzero x = x" "fsub x fzero = x"
proof -
  have "f64_ok x" using assms by (auto simp: lit_def)
  moreover have "\<exists>m. x = ulps m" using assms by (auto simp: decimal_values) (simp add: ulps_def exI [of _ 0])
  ultimately show "fadd fzero x = x" "fsub x fzero = x"
    using fadd_zero_ok [of x] by (auto simp: ulps_def)
qed

lemmas decimal_simps = decimal_values decimal_zero [simplified decimal_values]

text \<open>
  On decimal amounts the float arithmetic of both stores loses a reservation the budget
  allows: of three reservations of 0.1 from a budget of 0.3 the third is refused, by the memory store
  because 0.3 - 0.2 is below 0.1 and by the SQLite store because 0.2 + 0.1 is above 0.3.
\<close>

theorem decimal_reservation_refused:
  "(let a = lit (1/10); s0 = \<lparr>mb_budget = lit (3/10), mb_reserved = fzero, mb_used = fzero\<rparr>;
        (ok1, s1) = mem_Reserve ''s'' a s0; (ok2, s2) = mem_Reserve ''s'' a s1
    in (ok1, ok2, fst (mem_Reserve ''s'' a s2)) = (Inr True, Inr True, Inr False)) \<and>
   (let a = lit (1/10); db0 = [''s'' \<mapsto> \<lparr>br_total = lit (3/10), br_used = fzero, br_reserved = fzero\<rparr>];
        (ok1, db1) = sql_ReserveBudget ''s'' a db0; (ok2, db2) = sql_ReserveBudget ''s'' a db1
    in (ok1, ok2, fst (sql_ReserveBudget ''s'' a db2)) = (Inr True, Inr True, Inr False))"
  by (simp add: mem_Reserve_def sql_ReserveBudget_def Let_def decimal_simps)

end
