(* ===== verification/Governance.thy ===== *)
theory Governance
  imports Domain BudgetStore
begin

text \<open>
  \<^verbatim>\<open>internal/service/governance\<close>: the budget check of \<^verbatim>\<open>budget_service.go\<close> and the
  constraint evaluator of \<^verbatim>\<open>evaluator.go\<close>, with what they decide on every branch.
\<close>

section \<open>The budget check\<close>

record BudgetResult =
  bu_Allowed :: bool
  bu_LimitUSD :: f64
  bu_ConsumedUSD :: f64
  bu_RemainingUSD :: f64
  bu_BufferApplied :: bool

text \<open>The constant 0.001 of \<^verbatim>\<open>NewBudgetService\<close>.\<close>

definition defaultBufferPercent :: f64 where
  "defaultBufferPercent = lit (1 / 1000)"

definition CheckBudget :: "f64 \<Rightarrow> f64 \<Rightarrow> BudgetResult" where
  "CheckBudget limitUSD currentCostUSD =
     (if feq limitUSD fzero
      then \<lparr>bu_Allowed = True, bu_LimitUSD = fzero, bu_ConsumedUSD = currentCostUSD,
            bu_RemainingUSD = fzero, bu_BufferApplied = False\<rparr>
      else (let buffer = fmul limitUSD defaultBufferPercent;
                effectiveLimit = fadd limitUSD buffer;
                r = \<lparr>bu_Allowed = False, bu_LimitUSD = limitUSD, bu_ConsumedUSD = currentCostUSD,
                     bu_RemainingUSD = fsub effectiveLimit currentCostUSD,
                     bu_BufferApplied = flt fzero buffer\<rparr>
            in if fle effectiveLimit currentCostUSD
               then r\<lparr>bu_Allowed := False, bu_RemainingUSD := fzero\<rparr>
               else r\<lparr>bu_Allowed := True\<rparr>))"

definition GetSafeErrorDetails :: "BudgetResult \<Rightarrow> amap" where
  "GetSafeErrorDetails r =
     [(''limit_usd'', AFloat (bu_LimitUSD r)), (''buffer_applied'', ABool (bu_BufferApplied r))]"

definition ShouldHardStop :: "f64 \<Rightarrow> f64 \<Rightarrow> bool" where
  "ShouldHardStop limitUSD currentCostUSD =
     (let buffer = fmul limitUSD defaultBufferPercent in
      fle (fadd limitUSD buffer) currentCostUSD)"

text \<open>The budget service forwards to its store, if it has one.\<close>

definition bs_GetRemaining :: "'s BudgetOps \<Rightarrow> 's option \<Rightarrow> string \<Rightarrow> f64 result" where
  "bs_GetRemaining ops store sessionID = (case store of Some s \<Rightarrow> bo_GetRemaining ops sessionID s | None \<Rightarrow> Inr fzero)"

definition bs_SetBudget :: "'s BudgetOps \<Rightarrow> string \<Rightarrow> f64 \<Rightarrow> 's option \<Rightarrow> string option \<times> 's option" where
  "bs_SetBudget ops sessionID amount store = (case store of
     Some s \<Rightarrow> map_prod id Some (bo_SetBudget ops sessionID amount s) | None \<Rightarrow> (None, None))"

definition bs_Reserve :: "'s BudgetOps \<Rightarrow> string \<Rightarrow> f64 \<Rightarrow> 's option \<Rightarrow> bool result \<times> 's option" where
  "bs_Reserve ops sessionID amount store = (case store of
     Some s \<Rightarrow> map_prod id Some (bo_Reserve ops sessionID amount s) | None \<Rightarrow> (Inr False, None))"

definition bs_Commit :: "'s BudgetOps \<Rightarrow> string \<Rightarrow> f64 \<Rightarrow> 's option \<Rightarrow> string option \<times> 's option" where
  "bs_Commit ops sessionID amount store = (case store of
     Some s \<Rightarrow> map_prod id Some (bo_Commit ops sessionID amount s) | None \<Rightarrow> (None, None))"

definition bs_Rollback :: "'s BudgetOps \<Rightarrow> string \<Rightarrow> f64 \<Rightarrow> 's option \<Rightarrow> string option \<times> 's option" where
  "bs_Rollback ops sessionID amount store = (case store of
     Some s \<Rightarrow> map_prod id Some (bo_Rollback ops sessionID amount s) | None \<Rightarrow> (None, None))"

section \<open>The evaluator\<close>

record EvaluationResult =
  er_Decision :: PolicyDecision
  er_ChecksPassed :: "string list"
  er_ChecksFailed :: "string list"
  er_ConstraintsUsed :: ConstraintsApplied
  er_Error :: "ErrorInfo option"
  er_DegradeAction :: "DegradeAction option"

definition initial_result :: EvaluationResult where
  "initial_result = \<lparr>er_Decision = PolicyDecisionAllow, er_ChecksPassed = [], er_ChecksFailed = [],
     er_ConstraintsUsed = zero_ConstraintsApplied, er_Error = None, er_DegradeAction = None\<rparr>"

definition pass_check :: "string \<Rightarrow> EvaluationResult \<Rightarrow> EvaluationResult" where
  "pass_check c r = r\<lparr>er_ChecksPassed := er_ChecksPassed r @ [c]\<rparr>"

text \<open>
  The budget stage; \<open>ok\<close> and \<open>exceeded\<close> are the names the two evaluators give to the checks.
\<close>

definition eval_budget :: "string \<Rightarrow> string \<Rightarrow> f64 \<Rightarrow> BudgetConstraint \<Rightarrow> EvaluationResult \<Rightarrow> EvaluationResult" where
  "eval_budget ok exceeded currentCostUSD b r =
     (let budgetResult = CheckBudget (bc_LimitUSD b) currentCostUSD;
          r1 =
            (if \<not> bu_Allowed budgetResult then
               (if bc_Strategy b = BudgetStrategyDegradeModel
                then (pass_check ''budget_check_degraded'' (r\<lparr>er_Decision := PolicyDecisionDegrade\<rparr>))
                  \<lparr>er_DegradeAction := Some DegradeActionSwitchModel,
                   er_ConstraintsUsed := (er_ConstraintsUsed r)
                     \<lparr>ca_DegradeAction := Some DegradeActionSwitchModel\<rparr>\<rparr>
                else if bc_Strategy b = BudgetStrategySoftAlert
                then pass_check ''budget_check_soft_alert'' (r\<lparr>er_Decision := PolicyDecisionAllow\<rparr>)
                else r\<lparr>er_Decision := PolicyDecisionBlock,
                       er_ChecksFailed := er_ChecksFailed r @ [exceeded],
                       er_Error := Some \<lparr>ei_Code = ''SENTORIS_BUDGET_EXCEEDED'',
                         ei_Message = ''Budget limit exceeded'',
                         ei_Details = Some (GetSafeErrorDetails budgetResult)\<rparr>\<rparr>)
             else pass_check ok r)
      in r1\<lparr>er_ConstraintsUsed := (er_ConstraintsUsed r1)
           \<lparr>ca_BudgetLimitUSD := bc_LimitUSD b, ca_BudgetStrategy := bc_Strategy b,
            ca_BudgetActualUSD := currentCostUSD\<rparr>\<rparr>)"

definition eval_privacy :: "string \<Rightarrow> PrivacyConstraint \<Rightarrow> EvaluationResult \<Rightarrow> EvaluationResult" where
  "eval_privacy check p r =
     pass_check check (r\<lparr>er_ConstraintsUsed := (er_ConstraintsUsed r)
       \<lparr>ca_PrivacyLevel := pc_Level p, ca_PrivacyMaskedFields := pc_MaskedFields p\<rparr>\<rparr>)"

definition eval_reproducibility :: "string \<Rightarrow> ReproducibilityConstraint \<Rightarrow> EvaluationResult \<Rightarrow> EvaluationResult" where
  "eval_reproducibility check rc r =
     pass_check check (r\<lparr>er_ConstraintsUsed := (er_ConstraintsUsed r)
       \<lparr>ca_ReproducibilityMode := rc_Mode rc, ca_ReproducibilitySeed := rc_Seed rc\<rparr>\<rparr>)"

definition when_some :: "('a \<Rightarrow> 'r \<Rightarrow> 'r) \<Rightarrow> 'a option \<Rightarrow> 'r \<Rightarrow> 'r" where
  "when_some f x r = (case x of None \<Rightarrow> r | Some y \<Rightarrow> f y r)"

definition Evaluate :: "Constraints option \<Rightarrow> f64 \<Rightarrow> EvaluationResult" where
  "Evaluate constraints currentCostUSD = (case constraints of
     None \<Rightarrow> initial_result
   | Some c \<Rightarrow>
       when_some (eval_reproducibility ''reproducibility_check'') (cs_Reproducibility c)
         (when_some (eval_privacy ''privacy_check'') (cs_Privacy c)
           (when_some (eval_budget ''budget_check'' ''budget_check'' currentCostUSD) (cs_Budget c)
             initial_result)))"

definition EvaluateWithReproducibility :: "Constraints option \<Rightarrow> f64 \<Rightarrow> EvaluationResult" where
  "EvaluateWithReproducibility constraints currentCostUSD = (case constraints of
     None \<Rightarrow> initial_result
   | Some c \<Rightarrow>
       when_some (eval_reproducibility ''reproducibility_constraint_applied'') (cs_Reproducibility c)
         (when_some (eval_privacy ''privacy_constraint_applied'') (cs_Privacy c)
           (when_some (eval_budget ''budget_ok'' ''budget_exceeded'' currentCostUSD) (cs_Budget c)
             initial_result)))"

text \<open>Validation returns the message of the first violated rule, \<open>None\<close> for nil.\<close>

definition validate_budget :: "BudgetConstraint \<Rightarrow> string option" where
  "validate_budget b =
     (if flt (bc_LimitUSD b) fzero then Some ''budget limit must be non-negative''
      else if bc_Strategy b \<noteq> BudgetStrategyHardStop \<and> bc_Strategy b \<noteq> BudgetStrategyDegradeModel \<and>
              bc_Strategy b \<noteq> BudgetStrategySoftAlert
      then Some (''invalid budget strategy: '' @ bc_Strategy b) else None)"

definition validate_privacy :: "PrivacyConstraint \<Rightarrow> string option" where
  "validate_privacy p =
     (if pc_Level p \<noteq> PrivacyRaw \<and> pc_Level p \<noteq> PrivacyMasked \<and> pc_Level p \<noteq> PrivacyHashOnly
      then Some (''invalid privacy level: '' @ pc_Level p) else None)"

definition validate_reproducibility :: "ReproducibilityConstraint \<Rightarrow> string option" where
  "validate_reproducibility rc =
     (if rc_Mode rc \<noteq> ReproducibilityNone \<and> rc_Mode rc \<noteq> ReproducibilityBounded \<and>
         rc_Mode rc \<noteq> ReproducibilityStrict
      then Some (''invalid reproducibility mode: '' @ rc_Mode rc) else None)"

definition ValidateConstraintCombination :: "Constraints option \<Rightarrow> string option" where
  "ValidateConstraintCombination constraints = (case constraints of
     None \<Rightarrow> None
   | Some c \<Rightarrow>
     (case (case cs_Budget c of None \<Rightarrow> None | Some b \<Rightarrow> validate_budget b) of
        Some e \<Rightarrow> Some e
      | None \<Rightarrow>
     (case (case cs_Privacy c of None \<Rightarrow> None | Some p \<Rightarrow> validate_privacy p) of
        Some e \<Rightarrow> Some e
      | None \<Rightarrow>
     (case (cs_Privacy c, cs_Reproducibility c) of
        (Some p, Some rc) \<Rightarrow>
          if pc_Level p = PrivacyHashOnly \<and> rc_Mode rc = ReproducibilityStrict
          then Some ''hash_only privacy level conflicts with strict reproducibility''
          else validate_reproducibility rc
      | (None, Some rc) \<Rightarrow> validate_reproducibility rc
      | _ \<Rightarrow> None))))"

text \<open>
  The evaluator as an object. The store that it is made with goes into a field that nothing reads; its budget
  service, a store or none, has none.
\<close>

record 's ConstraintEvaluator =
  ce_budgetService :: "'s option option"
  ce_constraintStore :: "'s option"

definition NewBudgetService :: "'s option \<Rightarrow> 's option" where
  "NewBudgetService store = store"

definition NewConstraintEvaluator :: "'s option \<Rightarrow> 's ConstraintEvaluator" where
  "NewConstraintEvaluator budgetStore =
     \<lparr>ce_budgetService = Some (NewBudgetService None), ce_constraintStore = budgetStore\<rparr>"

definition GetBudgetService :: "'s ConstraintEvaluator \<Rightarrow> 's option \<times> 's ConstraintEvaluator" where
  "GetBudgetService e = (case ce_budgetService e of
     Some s \<Rightarrow> (s, e)
   | None \<Rightarrow> (NewBudgetService None, e\<lparr>ce_budgetService := Some (NewBudgetService None)\<rparr>))"

definition ce_CheckBudget :: "f64 \<Rightarrow> f64 \<Rightarrow> 's ConstraintEvaluator \<Rightarrow> BudgetResult \<times> 's ConstraintEvaluator" where
  "ce_CheckBudget limitUSD currentCostUSD e =
     (let e = (if ce_budgetService e = None then e\<lparr>ce_budgetService := Some (NewBudgetService None)\<rparr> else e)
      in (CheckBudget limitUSD currentCostUSD, e))"

lemma evaluator_without_store:
  assumes "GetBudgetService (NewConstraintEvaluator budgetStore) = (service, e)"
  shows "fst (bs_Reserve ops sid amount service) = Inr False" "bs_GetRemaining ops service sid = Inr fzero"
    "bs_SetBudget ops sid amount service = (None, None)" "bs_Commit ops sid amount service = (None, None)"
  using assms
  by (auto simp: GetBudgetService_def NewConstraintEvaluator_def NewBudgetService_def bs_Reserve_def bs_GetRemaining_def
      bs_SetBudget_def bs_Commit_def)

section \<open>Budget arithmetic\<close>

lemma fmul_nonneg:
  assumes "f64_ok x" "fle fzero x" "f64_ok y" "fle fzero y"
  shows "fmul x y = NaN \<or> fle fzero (fmul x y)"
  using assms
proof (cases x; cases y)
  fix p q assume xy: "x = Fin p" "y = Fin q"
  then have "0 \<le> p * q" using assms by simp
  then have "fle fzero (to_f64 (p * q))" using to_f64_ge_ok [of fzero "p * q"] by simp
  then show ?thesis using xy assms
    by (auto simp: fmul_def Let_def signed_zero_def split: if_splits)
qed (auto simp: fmul_def Let_def signed_inf_def signed_zero_def fle_def flt_def split: if_splits)

lemma buffer_percent: "\<exists>q > 0. defaultBufferPercent = Fin q"
  using to_f64_near [of "- 10" "1/1000" 4611686018427388]
  by (intro exI [of _ "1152921504606847 / 1152921504606846976"]) (simp add: defaultBufferPercent_def lit_def pow2_def)

lemma fadd_ge:
  assumes "f64_ok (Fin p)" "fle fzero y" shows "fle (Fin p) (fadd (Fin p) y)"
proof -
  have m: "fle (Fin p) (to_f64 (p + m))" if "0 \<le> m" for m
    using to_f64_ge_ok [of "Fin p" "p + m"] assms(1) that by simp
  show ?thesis
  proof (cases y)
    case (Fin q)
    then show ?thesis using m [of q] assms(2) by (simp add: fadd_def)
  next
    case NZero
    then show ?thesis using m [of 0] by (simp add: fadd_def)
  next
    case PInf
    then show ?thesis by (simp add: fadd_def fle_def)
  qed (use assms(2) in \<open>simp_all add: fle_def\<close>)
qed

lemma effective_limit:
  assumes "f64_ok l" "flt fzero l"
  shows "fle l (fadd l (fmul l defaultBufferPercent))"
proof (cases l)
  case (Fin p)
  obtain q where q: "0 < q" "defaultBufferPercent = Fin q" using buffer_percent by blast
  have p: "0 < p" using assms(2) Fin by simp
  have "fle fzero (to_f64 (p * q))" using to_f64_ge_ok [of fzero "p * q"] p q by simp
  moreover have "fmul l defaultBufferPercent = to_f64 (p * q)"
    unfolding Fin q(2) using p q(1) by (simp add: fmul_def Let_def)
  ultimately show ?thesis using fadd_ge assms(1) by (simp add: Fin)
next
  case PInf
  obtain q where q: "0 < q" "defaultBufferPercent = Fin q" using buffer_percent by blast
  show ?thesis unfolding PInf q(2) using q(1)
    by (simp add: fmul_def fadd_def Let_def signed_inf_def fle_def)
qed (use assms(2) in \<open>auto simp: flt_def\<close>)

section \<open>What is decided\<close>

lemma check_budget_facts:
  assumes "f64_ok limit" "flt fzero limit" "cost \<noteq> NaN"
  shows "(flt cost limit \<longrightarrow> bu_Allowed (CheckBudget limit cost)) \<and>
    (bu_Allowed (CheckBudget limit cost)
       \<longleftrightarrow> flt cost (fadd limit (fmul limit defaultBufferPercent))) \<and>
    (bu_Allowed (CheckBudget limit cost) \<longleftrightarrow> \<not> ShouldHardStop limit cost) \<and>
    (\<not> bu_Allowed (CheckBudget limit cost) \<longrightarrow> bu_RemainingUSD (CheckBudget limit cost) = fzero) \<and>
    bu_Allowed (CheckBudget fzero cost)"
proof -
  have n: "\<not> feq limit fzero" using assms(2) by (auto simp: feq_def fle_def)
  have e: "fle limit (fadd limit (fmul limit defaultBufferPercent))"
    by (rule effective_limit [OF assms(1,2)])
  then have "fadd limit (fmul limit defaultBufferPercent) \<noteq> NaN" by (simp add: fle_def)
  with assms(3) have i: "fle (fadd limit (fmul limit defaultBufferPercent)) cost
      \<longleftrightarrow> \<not> flt cost (fadd limit (fmul limit defaultBufferPercent))"
    by (simp add: fle_def)
  have "flt cost limit \<Longrightarrow> flt cost (fadd limit (fmul limit defaultBufferPercent))"
    using e by (rule flt_fle_trans [rotated])
  then show ?thesis
    by (simp add: CheckBudget_def ShouldHardStop_def Let_def n i) (simp add: feq_def)
qed

text \<open>A cost is over a limit when there is a limit and the cost has reached the limit with its buffer.\<close>

definition over_budget :: "f64 \<Rightarrow> f64 \<Rightarrow> bool" where
  "over_budget limit cost \<longleftrightarrow> \<not> feq limit fzero \<and> fle (fadd limit (fmul limit defaultBufferPercent)) cost"

lemma Allowed_over_budget: "bu_Allowed (CheckBudget limit cost) \<longleftrightarrow> \<not> over_budget limit cost"
  by (simp add: CheckBudget_def over_budget_def Let_def)

lemma over_budget_mono: "over_budget limit cost \<Longrightarrow> fle cost cost' \<Longrightarrow> over_budget limit cost'"
  unfolding over_budget_def by (blast intro: fle_trans)

lemma not_over_below: "f64_ok limit \<Longrightarrow> flt fzero limit \<Longrightarrow> flt cost limit \<Longrightarrow> \<not> over_budget limit cost"
  using check_budget_facts [of limit cost] by (cases "cost = NaN") (auto simp: Allowed_over_budget flt_def)

text \<open>The constraints of a request as the evaluator reads them, where a part that is missing is never over its limit.\<close>

definition budget_over :: "Constraints \<Rightarrow> f64 \<Rightarrow> bool" where
  "budget_over c cost \<longleftrightarrow> (\<exists>b. cs_Budget c = Some b \<and> over_budget (bc_LimitUSD b) cost)"

definition budget_strategy :: "Constraints \<Rightarrow> BudgetStrategy" where
  "budget_strategy c = (case cs_Budget c of None \<Rightarrow> [] | Some b \<Rightarrow> bc_Strategy b)"

abbreviation blocks :: "Constraints \<Rightarrow> f64 \<Rightarrow> bool" where
  "blocks c cost \<equiv> budget_over c cost \<and> budget_strategy c \<notin> {BudgetStrategyDegradeModel, BudgetStrategySoftAlert}"

abbreviation degrades :: "Constraints \<Rightarrow> f64 \<Rightarrow> bool" where
  "degrades c cost \<equiv> budget_over c cost \<and> budget_strategy c = BudgetStrategyDegradeModel"

text \<open>The checks in the order of the stages, the error of a blocked request, and the record of the constraints.\<close>

definition passed_checks :: "Constraints \<Rightarrow> f64 \<Rightarrow> string list" where
  "passed_checks c cost =
     (if cs_Budget c = None \<or> blocks c cost then []
      else [if degrades c cost then ''budget_check_degraded''
            else if budget_over c cost then ''budget_check_soft_alert'' else ''budget_check'']) @
     (if cs_Privacy c = None then [] else [''privacy_check'']) @
     (if cs_Reproducibility c = None then [] else [''reproducibility_check''])"

definition budget_error :: "f64 \<Rightarrow> ErrorInfo" where
  "budget_error limit = \<lparr>ei_Code = ''SENTORIS_BUDGET_EXCEEDED'', ei_Message = ''Budget limit exceeded'',
     ei_Details = Some [(''limit_usd'', AFloat limit), (''buffer_applied'', ABool (flt fzero (fmul limit defaultBufferPercent)))]\<rparr>"

definition recorded :: "Constraints \<Rightarrow> f64 \<Rightarrow> ConstraintsApplied" where
  "recorded c cost =
     \<lparr>ca_BudgetLimitUSD = GetBudgetLimit c, ca_BudgetActualUSD = (if cs_Budget c = None then fzero else cost),
      ca_BudgetStrategy = budget_strategy c,
      ca_PrivacyLevel = (case cs_Privacy c of None \<Rightarrow> [] | Some p \<Rightarrow> pc_Level p),
      ca_PrivacyMaskedFields = (case cs_Privacy c of None \<Rightarrow> [] | Some p \<Rightarrow> pc_MaskedFields p),
      ca_ReproducibilityMode = (case cs_Reproducibility c of None \<Rightarrow> [] | Some q \<Rightarrow> rc_Mode q),
      ca_ReproducibilitySeed = Option.bind (cs_Reproducibility c) rc_Seed,
      ca_PolicyEvaluation = None,
      ca_DegradeAction = (if degrades c cost then Some DegradeActionSwitchModel else None),
      ca_NegotiatedCapabilities = []\<rparr>"

definition evaluation :: "Constraints \<Rightarrow> f64 \<Rightarrow> EvaluationResult" where
  "evaluation c cost =
     \<lparr>er_Decision = (if blocks c cost then PolicyDecisionBlock else if degrades c cost then PolicyDecisionDegrade
        else PolicyDecisionAllow),
      er_ChecksPassed = passed_checks c cost, er_ChecksFailed = (if blocks c cost then [''budget_check''] else []),
      er_ConstraintsUsed = recorded c cost,
      er_Error = (if blocks c cost then Some (budget_error (GetBudgetLimit c)) else None),
      er_DegradeAction = (if degrades c cost then Some DegradeActionSwitchModel else None)\<rparr>"

text \<open>The names that the evaluator with reproducibility gives to the checks.\<close>

definition renamed :: "string \<Rightarrow> string" where
  "renamed check = (if check = ''budget_check'' then ''budget_ok'' else if check = ''privacy_check'' then ''privacy_constraint_applied''
     else if check = ''reproducibility_check'' then ''reproducibility_constraint_applied'' else check)"

lemmas evaluate_defs = when_some_def eval_budget_def eval_privacy_def eval_reproducibility_def pass_check_def initial_result_def
  zero_ConstraintsApplied_def Let_def

lemmas evaluation_defs = evaluation_def passed_checks_def recorded_def budget_error_def budget_over_def budget_strategy_def
  GetBudgetLimit_def

lemma safe_details: "over_budget limit cost \<Longrightarrow> GetSafeErrorDetails (CheckBudget limit cost) =
    [(''limit_usd'', AFloat limit), (''buffer_applied'', ABool (flt fzero (fmul limit defaultBufferPercent)))]"
  by (simp add: GetSafeErrorDetails_def CheckBudget_def over_budget_def Let_def)

lemma Evaluate_eq: "Evaluate (Some c) cost = evaluation c cost"
  by (cases "cs_Reproducibility c"; cases "cs_Privacy c"; cases "cs_Budget c")
    (simp_all add: Evaluate_def evaluate_defs evaluation_defs Allowed_over_budget safe_details)

lemma EvaluateWithReproducibility_eq:
  "EvaluateWithReproducibility (Some c) cost = (evaluation c cost)
     \<lparr>er_ChecksPassed := map renamed (passed_checks c cost),
      er_ChecksFailed := (if blocks c cost then [''budget_exceeded''] else [])\<rparr>"
  by (cases "cs_Reproducibility c"; cases "cs_Privacy c"; cases "cs_Budget c")
    (simp_all add: EvaluateWithReproducibility_def evaluate_defs evaluation_defs Allowed_over_budget safe_details renamed_def)

text \<open>
  An evaluation before anything was spent never blocks and never degrades: for constraints that
  pass validation and a current cost of zero the decision is allow, whatever the strategy.
\<close>

lemma zero_cost_allows:
  assumes "ValidateConstraintCombination (Some c) = None"
    and "\<And>b. cs_Budget c = Some b \<Longrightarrow> f64_ok (bc_LimitUSD b)"
  shows "er_Decision (Evaluate (Some c) fzero) = PolicyDecisionAllow \<and>
    er_Error (Evaluate (Some c) fzero) = None"
proof -
  have "bu_Allowed (CheckBudget (bc_LimitUSD b) fzero)" if b: "cs_Budget c = Some b" for b
  proof -
    have l: "\<not> flt (bc_LimitUSD b) fzero"
      using assms(1) b
      by (auto simp: ValidateConstraintCombination_def validate_budget_def split: if_splits)
    show ?thesis
    proof (cases "flt fzero (bc_LimitUSD b)")
      case True
      then show ?thesis using check_budget_facts [OF assms(2) [OF b] True, of fzero] by simp
    next
      case False
      with l have "feq (bc_LimitUSD b) fzero \<or> bc_LimitUSD b = NaN"
        by (auto simp: feq_def fle_def)
      moreover have "bu_Allowed (CheckBudget NaN fzero)"
        by (simp add: CheckBudget_def fmul_def fadd_def fle_def)
      moreover have "feq x fzero \<Longrightarrow> bu_Allowed (CheckBudget x fzero)" for x
        by (simp add: CheckBudget_def)
      ultimately show ?thesis by auto
    qed
  qed
  then have "\<not> budget_over c fzero" by (auto simp: budget_over_def Allowed_over_budget)
  then show ?thesis by (simp add: Evaluate_eq evaluation_def)
qed

section \<open>The properties\<close>

text \<open>
  The budget check. A zero limit means no limit. For a positive limit a cost below the limit is
  always allowed, a cost is allowed exactly when it is below the limit with its buffer, which is exactly
  when the stream's hard stop does not fire, and the remaining budget is zero once it is not allowed.
\<close>

theorem check_budget_correct:
  assumes "f64_ok limit" "flt fzero limit" "cost \<noteq> NaN"
  shows "(flt cost limit \<longrightarrow> bu_Allowed (CheckBudget limit cost)) \<and>
    (bu_Allowed (CheckBudget limit cost)
       \<longleftrightarrow> flt cost (fadd limit (fmul limit defaultBufferPercent))) \<and>
    (bu_Allowed (CheckBudget limit cost) \<longleftrightarrow> \<not> ShouldHardStop limit cost) \<and>
    (\<not> bu_Allowed (CheckBudget limit cost) \<longrightarrow> bu_RemainingUSD (CheckBudget limit cost) = fzero) \<and>
    bu_Allowed (CheckBudget fzero cost)"
  using assms by (rule check_budget_facts)

theorem check_budget_correct_witness:
  "bu_Allowed (CheckBudget (Fin 5) (Fin 4))"
proof -
  have "f64_ok (Fin 5)" using f64_ok_ops(6) [of 5] by (simp add: f_of_int_exact)
  from check_budget_correct [OF this, of "Fin 4"] show ?thesis by simp
qed

text \<open>
  \<^bold>\<open>C31.\<close> The evaluator on every combination of constraints and strategies. A request is over its budget when it has
  a limit and its cost has reached the limit with the buffer; it is then blocked, unless the strategy degrades the
  model or only alerts. The result has the decision, the checks in the order of the stages, the failed check and the
  error of a blocked request, which shows the limit and never the cost, the action SWITCH\_MODEL of a degraded one, and a copy of
  every constraint; the evaluator with reproducibility gives the same under other names of the checks. A cost below
  the limit passes, and what was blocked or degraded at some cost is so, with the same error, at every higher cost.
\<close>

theorem evaluate_correct:
  "Evaluate None cost = initial_result \<and>
   er_Decision (Evaluate (Some c) cost) = (if blocks c cost then PolicyDecisionBlock
      else if degrades c cost then PolicyDecisionDegrade else PolicyDecisionAllow) \<and>
   er_ChecksPassed (Evaluate (Some c) cost) = passed_checks c cost \<and>
   er_ChecksFailed (Evaluate (Some c) cost) = (if blocks c cost then [''budget_check''] else []) \<and>
   er_Error (Evaluate (Some c) cost) = (if blocks c cost then Some (budget_error (GetBudgetLimit c)) else None) \<and>
   er_DegradeAction (Evaluate (Some c) cost) = (if degrades c cost then Some DegradeActionSwitchModel else None) \<and>
   er_ConstraintsUsed (Evaluate (Some c) cost) = recorded c cost \<and>
   EvaluateWithReproducibility (Some c) cost = (Evaluate (Some c) cost)
     \<lparr>er_ChecksPassed := map renamed (passed_checks c cost),
      er_ChecksFailed := (if blocks c cost then [''budget_exceeded''] else [])\<rparr> \<and>
   (f64_ok (GetBudgetLimit c) \<longrightarrow> flt fzero (GetBudgetLimit c) \<longrightarrow> flt cost (GetBudgetLimit c) \<longrightarrow>
      er_Decision (Evaluate (Some c) cost) = PolicyDecisionAllow) \<and>
   (er_Decision (Evaluate (Some c) cost) \<noteq> PolicyDecisionAllow \<longrightarrow> fle cost cost' \<longrightarrow>
      er_Decision (Evaluate (Some c) cost') = er_Decision (Evaluate (Some c) cost) \<and>
      er_Error (Evaluate (Some c) cost') = er_Error (Evaluate (Some c) cost))"
proof -
  have "budget_over c cost'" if "budget_over c cost" "fle cost cost'"
    using that over_budget_mono unfolding budget_over_def by blast
  moreover have "\<not> budget_over c cost"
    if "f64_ok (GetBudgetLimit c)" "flt fzero (GetBudgetLimit c)" "flt cost (GetBudgetLimit c)"
    using that not_over_below by (auto simp: budget_over_def GetBudgetLimit_def)
  ultimately show ?thesis
    unfolding Evaluate_eq EvaluateWithReproducibility_eq by (simp add: evaluation_def) (simp add: Evaluate_def)
qed

theorem evaluate_correct_witness:
  "let c = zero_Constraints\<lparr>cs_Budget := Some \<lparr>bc_LimitUSD = Fin 5, bc_Strategy = BudgetStrategyHardStop\<rparr>\<rparr> in
     er_Decision (Evaluate (Some c) (Fin 4)) = PolicyDecisionAllow \<and>
     er_Decision (Evaluate (Some c) (Fin 9)) = PolicyDecisionBlock"
proof -
  let ?c = "zero_Constraints\<lparr>cs_Budget := Some \<lparr>bc_LimitUSD = Fin 5, bc_Strategy = BudgetStrategyHardStop\<rparr>\<rparr>"
  have "f64_ok (Fin 5)" using f64_ok_ops(6) [of 5] by (simp add: f_of_int_exact)
  then have allowed: "er_Decision (Evaluate (Some ?c) (Fin 4)) = PolicyDecisionAllow"
    using evaluate_correct [of "Fin 4" ?c "Fin 4", THEN conjunct2, THEN conjunct2, THEN conjunct2, THEN conjunct2, THEN conjunct2,
        THEN conjunct2, THEN conjunct2, THEN conjunct2, THEN conjunct1]
    by (simp add: GetBudgetLimit_def)
  have "budget_over ?c (Fin 9)"
    unfolding budget_over_def over_budget_def by (simp add: zero_Constraints_def) code_simp
  then have "er_Decision (Evaluate (Some ?c) (Fin 9)) = PolicyDecisionBlock"
    using evaluate_correct [of "Fin 9" ?c "Fin 9", THEN conjunct2, THEN conjunct1] by (simp add: budget_strategy_def)
  with allowed show ?thesis by (simp add: Let_def)
qed

end
