(* ===== verification/Regex.thy ===== *)
theory Regex
  imports Utf8
begin

text \<open>
  The part of \<^verbatim>\<open>regexp\<close> that the proxy's patterns use: literals that ignore case, classes,
  alternation, greedy and lazy repetition and word boundaries. Matching is leftmost-first: the
  alternatives are tried in the order a backtracking matcher would, and the first that matches wins.
  Text is matched by code points; a replacement copies the bytes between matches unchanged.
\<close>

text \<open>A class is a list of ranges of code points. A repetition carries whether it is greedy.\<close>

datatype rx = REps | RClass "(nat \<times> nat) list" | RSeq rx rx | RAlt rx rx | RStar bool rx
  | ROpt rx | RBound

definition in_class :: "(nat \<times> nat) list \<Rightarrow> nat \<Rightarrow> bool" where
  "in_class cs r \<longleftrightarrow> list_ex (\<lambda>(lo, hi). lo \<le> r \<and> r \<le> hi) cs"

definition is_word :: "nat \<Rightarrow> bool" where
  "is_word r \<longleftrightarrow> in_class [(48, 57), (65, 90), (95, 95), (97, 122)] r"

text \<open>A word boundary lies between the rune before, if any, and the rest.\<close>

definition at_bound :: "nat option \<Rightarrow> nat list \<Rightarrow> bool" where
  "at_bound prev s \<longleftrightarrow>
     (case prev of None \<Rightarrow> False | Some r \<Rightarrow> is_word r) \<noteq> (case s of [] \<Rightarrow> False | r # _ \<Rightarrow> is_word r)"

text \<open>All ways to match at the front, best first: the rune before the rest, and the rest.\<close>

function rmatch :: "rx \<Rightarrow> nat option \<Rightarrow> nat list \<Rightarrow> (nat option \<times> nat list) list" where
  "rmatch REps prev s = [(prev, s)]"
| "rmatch (RClass cs) prev s = (case s of [] \<Rightarrow> [] | r # t \<Rightarrow> if in_class cs r then [(Some r, t)] else [])"
| "rmatch (RSeq a b) prev s = concat (map (\<lambda>(p, t). rmatch b p t) (rmatch a prev s))"
| "rmatch (RAlt a b) prev s = rmatch a prev s @ rmatch b prev s"
| "rmatch (RStar greedy a) prev s =
     (let more = concat (map (\<lambda>(p, t). if length t < length s then rmatch (RStar greedy a) p t else [])
                   (rmatch a prev s))
      in if greedy then more @ [(prev, s)] else (prev, s) # more)"
| "rmatch (ROpt a) prev s = rmatch a prev s @ [(prev, s)]"
| "rmatch RBound prev s = (if at_bound prev s then [(prev, s)] else [])"
  by pat_completeness auto
termination
  by (relation "measures [\<lambda>(a, prev, s). size a, \<lambda>(a, prev, s). length s]") auto

text \<open>\<^verbatim>\<open>MatchString\<close>: a match somewhere in the text.\<close>

fun match_from :: "rx \<Rightarrow> nat option \<Rightarrow> nat list \<Rightarrow> bool" where
  "match_from a prev [] \<longleftrightarrow> rmatch a prev [] \<noteq> []"
| "match_from a prev (r # s) \<longleftrightarrow> rmatch a prev (r # s) \<noteq> [] \<or> match_from a (Some r) s"

definition MatchString :: "rx \<Rightarrow> string \<Rightarrow> bool" where
  "MatchString a input \<longleftrightarrow> match_from a None (runes input)"

text \<open>
  \<^verbatim>\<open>ReplaceAllString\<close> for a pattern that never matches the empty text: the runes with the
  bytes each came from.
\<close>

function replace_from :: "rx \<Rightarrow> string \<Rightarrow> nat option \<Rightarrow> (nat \<times> string) list \<Rightarrow> string" where
  "replace_from a new prev u =
     (if u = [] then []
      else (case rmatch a prev (map fst u) of
         (p, t) # _ \<Rightarrow>
           if length t < length u then new @ replace_from a new p (drop (length u - length t) u)
           else snd (hd u) @ replace_from a new (Some (fst (hd u))) (tl u)
       | [] \<Rightarrow> snd (hd u) @ replace_from a new (Some (fst (hd u))) (tl u)))"
  by pat_completeness auto
termination
  by (relation "measure (\<lambda>(a, new, prev, u). length u)") auto

declare replace_from.simps [simp del]

function units :: "string \<Rightarrow> (nat \<times> string) list" where
  "units s = (if s = [] then []
     else (fst (DecodeRune s), take (snd (DecodeRune s)) s) # units (drop (snd (DecodeRune s)) s))"
  by pat_completeness auto
termination
proof (relation "measure length")
  fix s :: string
  assume s: "s \<noteq> []"
  then have "1 \<le> snd (DecodeRune s)"
    using decode_bytes_size by (cases s) (auto simp: DecodeRune_def)
  with s show "(drop (snd (DecodeRune s)) s, s) \<in> measure length" by (simp add: Suc_le_eq)
qed simp

declare units.simps [simp del]

definition ReplaceAllString :: "rx \<Rightarrow> string \<Rightarrow> string \<Rightarrow> string" where
  "ReplaceAllString a input new = replace_from a new None (units input)"

lemma units_runes: "map fst (units s) = runes s"
proof (induction s rule: units.induct)
  case (1 s)
  then show ?case by (cases "s = []") (simp_all add: units.simps [of s] decode_all.simps [of s] units.simps [of "[]"] decode_all.simps [of "[]"] runes_def)
qed

lemma units_bytes: "concat (map snd (units s)) = s"
proof (induction s rule: units.induct)
  case (1 s)
  then show ?case by (cases "s = []") (simp_all add: units.simps [of s] units.simps [of "[]"])
qed

text \<open>Text in which the pattern does not occur is left alone.\<close>

lemma replace_from_id: "\<not> match_from a prev (map fst u) \<Longrightarrow> replace_from a new prev u = concat (map snd u)"
  by (induction u arbitrary: prev) (auto simp: replace_from.simps split: list.splits)

lemma ReplaceAllString_id: "\<not> MatchString a s \<Longrightarrow> ReplaceAllString a s new = s"
  by (simp add: MatchString_def ReplaceAllString_def replace_from_id units_runes units_bytes)

section \<open>Building patterns\<close>

text \<open>One letter under the flag (?i): both cases, and the two code points that fold to k and s.\<close>

definition fold_class :: "nat \<Rightarrow> rx" where
  "fold_class r =
     (let l = (if 65 \<le> r \<and> r \<le> 90 then r + 32 else r) in
      if 97 \<le> l \<and> l \<le> 122
      then RClass ([(l, l), (l - 32, l - 32)] @ (if l = 107 then [(8490, 8490)] else []) @
             (if l = 115 then [(383, 383)] else []))
      else RClass [(r, r)])"

definition rx_word :: "string \<Rightarrow> rx" where
  "rx_word w = foldr (\<lambda>c a. RSeq (fold_class (ord c)) a) w REps"

definition rx_plus :: "rx \<Rightarrow> rx" where
  "rx_plus a = RSeq a (RStar True a)"

text \<open>The class of the escape s: tab, newline, form feed, return, space.\<close>

definition rx_spaces :: rx where
  "rx_spaces = rx_plus (RClass [(9, 10), (12, 13), (32, 32)])"

text \<open>Words separated by white space.\<close>

fun rx_phrase :: "string list \<Rightarrow> rx" where
  "rx_phrase [] = REps"
| "rx_phrase [w] = rx_word w"
| "rx_phrase (w # ws) = RSeq (rx_word w) (RSeq rx_spaces (rx_phrase ws))"

fun rx_alts :: "rx list \<Rightarrow> rx" where
  "rx_alts [] = RClass []"
| "rx_alts [a] = a"
| "rx_alts (a # as) = RAlt a (rx_alts as)"

fun rx_times :: "nat \<Rightarrow> rx \<Rightarrow> rx" where
  "rx_times 0 a = REps"
| "rx_times (Suc n) a = RSeq a (rx_times n a)"

text \<open>Up to n more repetitions, as many as possible first.\<close>

fun rx_upto :: "nat \<Rightarrow> rx \<Rightarrow> rx" where
  "rx_upto 0 a = REps"
| "rx_upto (Suc n) a = ROpt (RSeq a (rx_upto n a))"

definition rx_range :: "nat \<Rightarrow> nat \<Rightarrow> rx \<Rightarrow> rx" where
  "rx_range lo hi a = RSeq (rx_times lo a) (rx_upto (hi - lo) a)"

definition rx_digit :: rx where "rx_digit = RClass [(48, 57)]"

definition rx_char :: "char \<Rightarrow> rx" where "rx_char c = RClass [(ord c, ord c)]"

lemma sanity_match: "MatchString (rx_phrase [''ignore'', ''previous'']) ''Please IGNORE   Previous text''"
  by code_simp

end
