(* ===== verification/GoText.thy ===== *)
theory GoText
  imports Utf8
begin

text \<open>
  More of Go's \<^verbatim>\<open>strings\<close> package: trimming of Unicode white space, cutting at a separator,
  and the lines of \<^verbatim>\<open>bufio.Scanner\<close>.
\<close>

section \<open>White space\<close>

text \<open>
  The UTF-8 bytes of the runes of \<^verbatim>\<open>unicode.IsSpace\<close>: the ASCII ones, U+0085, U+00A0,
  U+1680, U+2000 to U+200A, U+2028, U+2029, U+202F, U+205F and U+3000. A string starts (ends) with
  one of these runes exactly when it starts (ends) with its bytes.
\<close>

definition space_bytes :: "nat list list" where
  "space_bytes = [[32], [9], [10], [11], [12], [13], [194, 133], [194, 160], [225, 154, 128]] @
     map (\<lambda>i. [226, 128, 128 + i]) [0..<11] @
     [[226, 128, 168], [226, 128, 169], [226, 128, 175], [226, 129, 159], [227, 128, 128]]"

definition space_codes :: "string list" where
  "space_codes = map (map byte) space_bytes"

function trim_codes :: "string list \<Rightarrow> string \<Rightarrow> string" where
  "trim_codes codes s = (case find (\<lambda>p. p \<noteq> [] \<and> HasPrefix s p) codes of
      Some p \<Rightarrow> trim_codes codes (drop (length p) s)
    | None \<Rightarrow> s)"
  by pat_completeness auto
termination
  by (relation "measure (\<lambda>(codes, s). length s)")
    (auto simp: HasPrefix_iff find_Some_iff)

declare trim_codes.simps [simp del]

definition TrimSpace :: "string \<Rightarrow> string" where
  "TrimSpace s = rev (trim_codes (map rev space_codes) (rev (trim_codes space_codes s)))"

lemma trim_codes_id: "find (\<lambda>p. p \<noteq> [] \<and> HasPrefix s p) codes = None \<Longrightarrow> trim_codes codes s = s"
  by (simp add: trim_codes.simps)

lemma trim_codes_idem [simp]: "trim_codes codes (trim_codes codes s) = trim_codes codes s"
proof (induction codes s rule: trim_codes.induct)
  case (1 codes s)
  show ?case
  proof (cases "find (\<lambda>p. p \<noteq> [] \<and> HasPrefix s p) codes")
    case None
    then show ?thesis by (simp add: trim_codes_id)
  next
    case (Some p)
    with 1 show ?thesis by (simp add: trim_codes.simps [of codes s])
  qed
qed

lemma trim_codes_suffix: "\<exists>u. s = u @ trim_codes codes s"
proof (induction codes s rule: trim_codes.induct)
  case (1 codes s)
  show ?case
  proof (cases "find (\<lambda>p. p \<noteq> [] \<and> HasPrefix s p) codes")
    case None
    then show ?thesis by (simp add: trim_codes_id)
  next
    case (Some p)
    with 1 obtain u where "drop (length p) s = u @ trim_codes codes (drop (length p) s)" by blast
    then have "s = (take (length p) s @ u) @ trim_codes codes (drop (length p) s)"
      by (metis append.assoc append_take_drop_id)
    with Some show ?thesis by (metis (no_types, lifting) option.simps(5) trim_codes.simps)
  qed
qed

lemma trim_codes_none: "find (\<lambda>p. p \<noteq> [] \<and> HasPrefix (trim_codes codes s) p) codes = None"
proof (induction codes s rule: trim_codes.induct)
  case (1 codes s)
  show ?case
  proof (cases "find (\<lambda>p. p \<noteq> [] \<and> HasPrefix s p) codes")
    case None
    then show ?thesis by (simp add: trim_codes_id)
  next
    case (Some p)
    with 1 show ?thesis by (simp add: trim_codes.simps [of codes s])
  qed
qed

text \<open>Trimming is idempotent: what is left at the front after trimming the end is a prefix of the rest.\<close>

lemma TrimSpace_idem [simp]: "TrimSpace (TrimSpace s) = TrimSpace s"
proof -
  let ?l = "trim_codes space_codes s" and ?t = "TrimSpace s"
  obtain u where "rev ?l = u @ trim_codes (map rev space_codes) (rev ?l)" using trim_codes_suffix by blast
  then have l: "?l = ?t @ rev u" unfolding TrimSpace_def by (metis rev_append rev_rev_ident)
  have "\<not> HasPrefix ?t p" if "p \<in> set space_codes" "p \<noteq> []" for p
    using trim_codes_none [of space_codes s] that l by (auto simp: find_None_iff HasPrefix_iff)
  then have "trim_codes space_codes ?t = ?t" by (intro trim_codes_id) (auto simp: find_None_iff)
  then show ?thesis by (simp add: TrimSpace_def)
qed

text \<open>A printable ASCII character begins no white space, so text between two of them is not trimmed.\<close>

definition graphic :: "char \<Rightarrow> bool" where
  "graphic c \<longleftrightarrow> 32 < ord c \<and> ord c < 127"

lemma space_bytes_range: "ns \<in> set space_bytes \<Longrightarrow> n \<in> set ns \<Longrightarrow> n \<le> 32 \<or> 127 < n \<and> n < 256"
  by (auto simp: space_bytes_def)

lemma space_codes_graphic:
  assumes "p \<in> set space_codes" "graphic c"
  shows "c \<notin> set p"
proof
  assume "c \<in> set p"
  with assms(1) obtain ns n where n: "ns \<in> set space_bytes" "n \<in> set ns" "c = byte n"
    by (auto simp: space_codes_def)
  from space_bytes_range [OF n(1,2)] n(3) assms(2) show False by (auto simp: graphic_def)
qed

lemma trim_codes_graphic:
  "graphic c \<Longrightarrow> trim_codes space_codes (c # s) = c # s"
  "graphic c \<Longrightarrow> trim_codes (map rev space_codes) (c # s) = c # s"
proof -
  assume c: "graphic c"
  have no: "\<not> HasPrefix (c # s) p" if "p \<noteq> []" "c \<notin> set p" for p
    using that by (cases p) (auto simp: HasPrefix_iff)
  from c show "trim_codes space_codes (c # s) = c # s"
    by (intro trim_codes_id) (auto simp: find_None_iff no space_codes_graphic)
  from c show "trim_codes (map rev space_codes) (c # s) = c # s"
    by (intro trim_codes_id) (auto simp: find_None_iff no space_codes_graphic)
qed

lemma trim_codes_blank: "trim_codes space_codes (CHR '' '' # s) = trim_codes space_codes s"
proof -
  have "byte 32 = CHR '' ''" by code_simp
  then have "find (\<lambda>p. p \<noteq> [] \<and> HasPrefix (CHR '' '' # s) p) space_codes = Some '' ''"
    by (simp add: space_codes_def space_bytes_def HasPrefix_def)
  then show ?thesis by (simp add: trim_codes.simps [of space_codes "CHR '' '' # s"])
qed

lemma TrimSpace_graphic:
  assumes "s = [] \<or> graphic (hd s) \<and> graphic (last s)"
  shows "TrimSpace s = s"
proof (cases "s = []")
  case True
  then show ?thesis by (simp add: TrimSpace_def trim_codes_id find_None_iff HasPrefix_def)
next
  case False
  then obtain c s' where s: "s = c # s'" by (cases s) auto
  moreover from False obtain d s'' where r: "rev s = d # s''" by (cases "rev s") auto
  moreover have "d = last s" using r by (metis hd_rev list.sel(1))
  moreover have "rev (d # s'') = s" using r by (metis rev_rev_ident)
  ultimately show ?thesis using assms False by (auto simp: TrimSpace_def trim_codes_graphic)
qed

section \<open>Cutting\<close>

text \<open>\<^verbatim>\<open>strings.SplitN\<close> with a separator of one byte and \<open>n = 2\<close>.\<close>

fun SplitN2 :: "string \<Rightarrow> char \<Rightarrow> string \<times> string option" where
  "SplitN2 [] sep = ([], None)"
| "SplitN2 (c # s) sep =
     (if c = sep then ([], Some s) else (case SplitN2 s sep of (a, b) \<Rightarrow> (c # a, b)))"

lemma SplitN2_append: "sep \<notin> set a \<Longrightarrow> SplitN2 (a @ sep # b) sep = (a, Some b)"
  by (induction a) auto

section \<open>Lines\<close>

text \<open>
  \<^verbatim>\<open>bufio.ScanLines\<close>: the text is split at newlines, one carriage return before a newline or
  the end is dropped, and an empty last piece is no line.
\<close>

definition dropCR :: "string \<Rightarrow> string" where
  "dropCR s = TrimSuffix s [byte 13]"

definition raw_lines :: "string \<Rightarrow> string list" where
  "raw_lines s = (let ps = Split s (byte 10) in if last ps = [] then butlast ps else ps)"

text \<open>
  The lines a \<^verbatim>\<open>bufio.Scanner\<close> with its default buffer of 65536 bytes delivers, and the error
  it stops with: a piece that fills the buffer without a newline is too long.
\<close>

definition scan_lines :: "string \<Rightarrow> string list \<times> string option" where
  "scan_lines s =
     (let ls = raw_lines s; ok = takeWhile (\<lambda>l. int (length l) < 65536) ls in
      (map dropCR ok, if length ok = length ls then None else Some ''bufio.Scanner: token too long''))"

lemma Split_Cons_sep [simp]: "Split (sep # s) sep = [] # Split s sep"
  by simp

lemma Split_append_sep: "sep \<notin> set a \<Longrightarrow> Split (a @ sep # s) sep = a # Split s sep"
  by (induction a) auto

lemma raw_lines_line: "byte 10 \<notin> set l \<Longrightarrow> raw_lines (l @ byte 10 # s) = l # raw_lines s"
  by (simp add: raw_lines_def Split_append_sep Let_def)

lemma raw_lines_Nil [simp]: "raw_lines [] = []"
  by (simp add: raw_lines_def)

lemma Split_no_sep_id: "sep \<notin> set a \<Longrightarrow> Split a sep = [a]"
  by (induction a) auto

lemma dropCR_id: "byte 13 \<notin> set l \<Longrightarrow> dropCR l = l"
proof (cases l rule: rev_cases)
  case (snoc ys y)
  assume "byte 13 \<notin> set l"
  with snoc show ?thesis by (auto simp: dropCR_def TrimSuffix_def HasSuffix_def)
qed (simp add: dropCR_def TrimSuffix_def HasSuffix_def)

definition plain_line :: "string \<Rightarrow> bool" where
  "plain_line l \<longleftrightarrow> byte 10 \<notin> set l \<and> byte 13 \<notin> set l \<and> int (length l) < 65536"

lemma scan_lines_line:
  "plain_line l \<Longrightarrow> scan_lines (l @ byte 10 # s) = (l # fst (scan_lines s), snd (scan_lines s))"
  by (simp add: scan_lines_def plain_line_def raw_lines_line dropCR_id Let_def)

lemma scan_lines_Nil [simp]: "scan_lines [] = ([], None)"
  by (simp add: scan_lines_def)

lemma scan_lines_last:
  "plain_line l \<Longrightarrow> l \<noteq> [] \<Longrightarrow> scan_lines l = ([l], None)"
  by (simp add: scan_lines_def plain_line_def raw_lines_def Split_no_sep_id dropCR_id Let_def)

section \<open>Scanning numbers\<close>

text \<open>
  The verb d of \<^verbatim>\<open>fmt.Sscanf\<close>: it skips white space (a newline stops the scan), takes a sign
  and decimal digits, and fails outside 64 bits. The result is the number and what follows it.
\<close>

definition is_dec :: "char \<Rightarrow> bool" where
  "is_dec c \<longleftrightarrow> 48 \<le> ord c \<and> ord c \<le> 57"

definition dec_value :: "string \<Rightarrow> int" where
  "dec_value ds = foldl (\<lambda>n c. 10 * n + (int (ord c) - 48)) 0 ds"

definition blank_codes :: "string list" where
  "blank_codes = map (map byte) (filter (\<lambda>b. b \<noteq> [10]) space_bytes)"

definition split_sign :: "string \<Rightarrow> bool \<times> string" where
  "split_sign s = (case s of
     [] \<Rightarrow> (False, s)
   | c # t \<Rightarrow> if c = CHR ''-'' then (True, t) else if c = CHR ''+'' then (False, t) else (False, s))"

definition scan_d :: "string \<Rightarrow> (int \<times> string) option" where
  "scan_d s =
     (case split_sign (trim_codes blank_codes s) of (neg, t) \<Rightarrow>
        let ds = takeWhile is_dec t; n = (if neg then - dec_value ds else dec_value ds) in
        if ds = [] \<or> n < - 9223372036854775808 \<or> 9223372036854775807 < n then None
        else Some (n, dropWhile is_dec t))"

text \<open>A nonempty string of digits within 64 bits is scanned as its number.\<close>

definition number_ok :: "string \<Rightarrow> bool" where
  "number_ok d \<longleftrightarrow> d \<noteq> [] \<and> list_all is_dec d \<and> dec_value d \<le> 9223372036854775807"

lemma dec_value_nonneg: "list_all is_dec d \<Longrightarrow> 0 \<le> dec_value d"
proof (induction d rule: rev_induct)
  case (snoc c d)
  then show ?case by (simp add: dec_value_def is_dec_def)
qed (simp add: dec_value_def)

lemma is_dec_chars [simp]: "\<not> is_dec (CHR ''.'')" "\<not> is_dec (CHR ''-'')" "\<not> is_dec (CHR ''+'')"
  by code_simp+

lemma trim_blank_graphic: "graphic c \<Longrightarrow> trim_codes blank_codes (c # s) = c # s"
proof (rule trim_codes_id)
  assume c: "graphic c"
  have "\<not> HasPrefix (c # s) p" if "p \<in> set blank_codes" "p \<noteq> []" for p
  proof -
    have "p \<in> set space_codes" using that(1) by (auto simp: blank_codes_def space_codes_def)
    then have "c \<notin> set p" by (rule space_codes_graphic [OF _ c])
    with that(2) show ?thesis by (cases p) (auto simp: HasPrefix_iff)
  qed
  then show "find (\<lambda>p. p \<noteq> [] \<and> HasPrefix (c # s) p) blank_codes = None"
    by (auto simp: find_None_iff)
qed

lemma scan_d_number:
  assumes "number_ok d" "t = [] \<or> \<not> is_dec (hd t)"
  shows "scan_d (d @ t) = Some (dec_value d, t)"
proof -
  obtain c d' where d: "d = c # d'" "is_dec c" using assms(1) by (cases d) (auto simp: number_ok_def)
  then have "graphic c" by (auto simp: is_dec_def graphic_def)
  then have trim: "trim_codes blank_codes (d @ t) = d @ t" using d by (simp add: trim_blank_graphic)
  have sign: "split_sign (d @ t) = (False, d @ t)" using d by (auto simp: split_sign_def)
  have dec: "list_all is_dec d" using assms(1) by (simp add: number_ok_def)
  then have "takeWhile is_dec (d @ t) = d @ takeWhile is_dec t" "dropWhile is_dec (d @ t) = dropWhile is_dec t"
    by (simp_all add: list_all_iff)
  moreover have "takeWhile is_dec t = []" "dropWhile is_dec t = t" using assms(2) by (cases t; auto)+
  ultimately show ?thesis
    using assms(1) trim sign dec_value_nonneg [OF dec] by (simp add: scan_d_def number_ok_def)
qed

end
