(* ===== verification/Masking.thy ===== *)
theory Masking
  imports Domain Regex Sha256 GoText Locations
begin

text \<open>
  The privacy service of \<^verbatim>\<open>governance/budget_service.go\<close>: masking by path, masking of PII by
  pattern, hashing. Marshalling to JSON and back, which Go does by reflection, is a parameter:
  \<open>marshal\<close> gives the text of a value and \<open>unmarshal\<close> the value of a text, \<open>None\<close> for an error.
  The order in which the map of patterns is visited is an argument.
\<close>

section \<open>Patterns\<close>

definition rx_alnum :: "(nat \<times> nat) list" where
  "rx_alnum = [(97, 122), (65, 90), (48, 57)]"

definition rx_email :: rx where
  "rx_email = RSeq (rx_plus (RClass (rx_alnum @ [(46, 46), (95, 95), (37, 37), (43, 43), (45, 45)])))
     (RSeq (rx_char CHR ''@'')
     (RSeq (rx_plus (RClass (rx_alnum @ [(46, 46), (45, 45)])))
     (RSeq (rx_char CHR ''.'') (RSeq (rx_times 2 (RClass [(97, 122), (65, 90)]))
       (RStar True (RClass [(97, 122), (65, 90)]))))))"

text \<open>The class of hyphen, dot and white space.\<close>

definition rx_sep :: rx where
  "rx_sep = ROpt (RClass [(45, 45), (46, 46), (9, 10), (12, 13), (32, 32)])"

definition rx_phone :: rx where
  "rx_phone =
     RSeq (ROpt (RSeq (ROpt (rx_char CHR ''+'')) (RSeq (rx_range 1 3 rx_digit) rx_sep)))
     (RSeq (ROpt (rx_char CHR ''('')) (RSeq (rx_times 3 rx_digit) (RSeq (ROpt (rx_char CHR '')''))
     (RSeq rx_sep (RSeq (rx_times 3 rx_digit) (RSeq rx_sep (rx_times 4 rx_digit)))))))"

definition rx_ssn :: rx where
  "rx_ssn = RSeq RBound (RSeq (rx_times 3 rx_digit) (RSeq (rx_char CHR ''-'') (RSeq (rx_times 2 rx_digit)
     (RSeq (rx_char CHR ''-'') (RSeq (rx_times 4 rx_digit) RBound)))))"

definition rx_card :: rx where
  "rx_card = RSeq RBound (RSeq (rx_range 13 16 (RSeq rx_digit (RStar False (RClass [(32, 32), (45, 45)])))) RBound)"

definition rx_ip :: rx where
  "rx_ip = RSeq RBound (RSeq (rx_times 3 (RSeq (rx_range 1 3 rx_digit) (rx_char CHR ''.'')))
     (RSeq (rx_range 1 3 rx_digit) RBound))"

definition piiPatterns :: "string \<rightharpoonup> rx" where
  "piiPatterns = [''email'' \<mapsto> rx_email, ''phone'' \<mapsto> rx_phone, ''ssn'' \<mapsto> rx_ssn,
     ''credit_card'' \<mapsto> rx_card, ''ip_address'' \<mapsto> rx_ip]"

definition pii_replacement :: "string \<Rightarrow> string" where
  "pii_replacement patternName =
     (if patternName = ''email'' then ''[EMAIL_REDACTED]''
      else if patternName = ''phone'' then ''[PHONE_REDACTED]''
      else if patternName = ''ssn'' then ''[SSN_REDACTED]''
      else if patternName = ''credit_card'' then ''[CREDIT_CARD_REDACTED]''
      else if patternName = ''ip_address'' then ''[IP_REDACTED]''
      else ''[REDACTED]'')"

definition maskStringWithPII :: "string list \<Rightarrow> string \<Rightarrow> string" where
  "maskStringWithPII order str =
     foldl (\<lambda>result patternName. case piiPatterns patternName of
         Some a \<Rightarrow> ReplaceAllString a result (pii_replacement patternName) | None \<Rightarrow> result) str order"

section \<open>Masking\<close>

fun maskValue :: "any \<Rightarrow> any" where
  "maskValue (AArr v) = AArr (map maskValue v)"
| "maskValue (AMap m) = AMap (map (\<lambda>(k, v). (k, maskValue v)) m)"
| "maskValue _ = AString ''[REDACTED]''"

definition parseArrayIndex :: "string \<Rightarrow> int option" where
  "parseArrayIndex s = map_option fst (scan_d s)"

text \<open>\<^verbatim>\<open>strings.Trim\<close> with the brackets as cutset.\<close>

definition trim_brackets :: "string \<Rightarrow> string" where
  "trim_brackets s = (let b = (\<lambda>c. c = CHR ''['' \<or> c = CHR '']'') in
     rev (dropWhile b (rev (dropWhile b s))))"

fun traverseAndMask :: "string list \<Rightarrow> any \<Rightarrow> any" where
  "traverseAndMask [] data = maskValue data"
| "traverseAndMask (part # rest) (AMap v) =
     (if part = ''*'' then AMap (map (\<lambda>(k, x). (k, traverseAndMask rest x)) v)
      else AMap (map (\<lambda>(k, x). (k, if k = part then traverseAndMask rest x else x)) v))"
| "traverseAndMask (part # rest) (AArr v) =
     (if HasPrefix part ''['' \<and> HasSuffix part '']'' then
        (let inner = trim_brackets part in
         if inner = ''*'' \<or> inner = [] then AArr (map (traverseAndMask rest) v)
         else (case parseArrayIndex inner of
             Some idx \<Rightarrow> if 0 \<le> idx \<and> idx < int (length v)
               then AArr (v[nat idx := traverseAndMask rest (v ! nat idx)]) else AArr v
           | None \<Rightarrow> AArr v))
      else if part = ''*'' then AArr (map (traverseAndMask rest) v)
      else AArr v)"
| "traverseAndMask (part # rest) data = data"

definition maskFieldByPath :: "string \<Rightarrow> any \<Rightarrow> any" where
  "maskFieldByPath path data = traverseAndMask (Split (TrimPrefix path ''$.'') CHR ''.'') data"

fun maskFieldsWithPII :: "(any \<Rightarrow> string option) \<Rightarrow> (string \<Rightarrow> any option) \<Rightarrow> string list \<Rightarrow> any \<Rightarrow> any" where
  "maskFieldsWithPII marshal unmarshal order (AString v) = AString (maskStringWithPII order v)"
| "maskFieldsWithPII marshal unmarshal order (AStrArr v) = AStrArr (map (maskStringWithPII order) v)"
| "maskFieldsWithPII marshal unmarshal order (AArr v) = AArr (map (maskFieldsWithPII marshal unmarshal order) v)"
| "maskFieldsWithPII marshal unmarshal order (AMap v) =
     AMap (map (\<lambda>(k, x). (k, maskFieldsWithPII marshal unmarshal order x)) v)"
| "maskFieldsWithPII marshal unmarshal order content =
     (case marshal content of
        None \<Rightarrow> content
      | Some jsonStr \<Rightarrow>
          (let maskedStr = maskStringWithPII order jsonStr in
           case unmarshal maskedStr of Some r \<Rightarrow> r | None \<Rightarrow> AString maskedStr))"

definition maskFieldsWithJSONPath :: "(any \<Rightarrow> string option) \<Rightarrow> (string \<Rightarrow> any option) \<Rightarrow> string list \<Rightarrow>
    any \<Rightarrow> string list \<Rightarrow> any" where
  "maskFieldsWithJSONPath marshal unmarshal order content flds =
     (if length flds = 0 then maskFieldsWithPII marshal unmarshal order content
      else (case marshal content of
          None \<Rightarrow> content
        | Some jsonBytes \<Rightarrow> (case unmarshal jsonBytes of
            None \<Rightarrow> content
          | Some data \<Rightarrow>
              foldl (\<lambda>d fieldPath. let p = TrimSpace fieldPath in
                  if p = [] then d else maskFieldByPath p d) data flds)))"

definition maskFields :: "(any \<Rightarrow> string option) \<Rightarrow> (string \<Rightarrow> any option) \<Rightarrow> string list \<Rightarrow>
    any \<Rightarrow> string list \<Rightarrow> any" where
  "maskFields marshal unmarshal order content flds =
     (if length flds = 0 then maskFieldsWithPII marshal unmarshal order content
      else maskFieldsWithJSONPath marshal unmarshal order content flds)"

definition hashContent :: "(any \<Rightarrow> string option) \<Rightarrow> any \<Rightarrow> any" where
  "hashContent marshal content = (case content of
     AString v \<Rightarrow> AString (sha256_hex v)
   | AStrArr v \<Rightarrow> AStrArr (map sha256_hex v)
   | _ \<Rightarrow> (case marshal content of None \<Rightarrow> content | Some jsonBytes \<Rightarrow> AString (sha256_hex jsonBytes)))"

record MaskingResult =
  mr_OriginalContent :: any
  mr_MaskedContent :: any
  mr_MaskedFields :: "string list"
  mr_AlgorithmVersion :: string

definition ApplyMasking :: "(any \<Rightarrow> string option) \<Rightarrow> (string \<Rightarrow> any option) \<Rightarrow> string list \<Rightarrow>
    PrivacyLevel \<Rightarrow> any \<Rightarrow> string list \<Rightarrow> MaskingResult" where
  "ApplyMasking marshal unmarshal order level content flds =
     (let r = \<lparr>mr_OriginalContent = ANil, mr_MaskedContent = ANil, mr_MaskedFields = flds,
               mr_AlgorithmVersion = ''v1.0''\<rparr> in
      if level = PrivacyMasked
      then r\<lparr>mr_OriginalContent := content,
             mr_MaskedContent := maskFieldsWithJSONPath marshal unmarshal order content flds\<rparr>
      else if level = PrivacyHashOnly
      then r\<lparr>mr_OriginalContent := content, mr_MaskedContent := hashContent marshal content\<rparr>
      else r\<lparr>mr_MaskedContent := content\<rparr>)"

type_synonym MaskingStrategy = string

definition ApplyMaskingWithStrategy :: "(any \<Rightarrow> string option) \<Rightarrow> (string \<Rightarrow> any option) \<Rightarrow> string list \<Rightarrow>
    PrivacyLevel \<Rightarrow> MaskingStrategy \<Rightarrow> any \<Rightarrow> string list \<Rightarrow> MaskingResult" where
  "ApplyMaskingWithStrategy marshal unmarshal order level strategy content flds =
     (let r = \<lparr>mr_OriginalContent = ANil, mr_MaskedContent = ANil, mr_MaskedFields = flds,
               mr_AlgorithmVersion = ''v1.0''\<rparr> in
      if level = PrivacyMasked
      then r\<lparr>mr_OriginalContent := content,
             mr_MaskedContent :=
               (if strategy = ''regex'' then maskFieldsWithPII marshal unmarshal order content
                else maskFieldsWithJSONPath marshal unmarshal order content flds)\<rparr>
      else if level = PrivacyHashOnly
      then r\<lparr>mr_OriginalContent := content, mr_MaskedContent := hashContent marshal content\<rparr>
      else r\<lparr>mr_MaskedContent := content\<rparr>)"

definition ApplyPrivacyMaskingWithStrategy :: "(any \<Rightarrow> string option) \<Rightarrow> (string \<Rightarrow> any option) \<Rightarrow>
    string list \<Rightarrow> any \<Rightarrow> ConstraintsApplied option \<Rightarrow> MaskingStrategy \<Rightarrow> any" where
  "ApplyPrivacyMaskingWithStrategy marshal unmarshal order content constraints strategy =
     (case constraints of
        None \<Rightarrow> content
      | Some c \<Rightarrow>
          if ca_PrivacyLevel c = PrivacyRaw then content
          else mr_MaskedContent (ApplyMaskingWithStrategy marshal unmarshal order (ca_PrivacyLevel c)
            strategy content (ca_PrivacyMaskedFields c)))"

section \<open>What masking does\<close>

text \<open>
  The specification speaks of locations only. A part of a path stands for steps: a star for every step, a name for
  the member of that name, and in brackets an index, or a star or nothing for every index.
\<close>

definition bracketed :: "string \<Rightarrow> bool" where
  "bracketed part \<longleftrightarrow> HasPrefix part ''['' \<and> HasSuffix part '']''"

fun stands_for :: "string \<Rightarrow> Step \<Rightarrow> bool" where
  "stands_for part (Key k) \<longleftrightarrow> part = ''*'' \<or> part = k"
| "stands_for part (Idx i) \<longleftrightarrow>
     (if bracketed part
      then trim_brackets part \<in> {''*'', []} \<or> parseArrayIndex (trim_brackets part) = Some (int i)
      else part = ''*'')"

text \<open>A path covers the locations that it leads to and everything below.\<close>

fun covers :: "string list \<Rightarrow> Location \<Rightarrow> bool" where
  "covers [] l \<longleftrightarrow> True"
| "covers (part # parts) (s # l) \<longleftrightarrow> stands_for part s \<and> covers parts l"
| "covers (part # parts) [] \<longleftrightarrow> False"

fun redact :: "Node \<Rightarrow> Node" where
  "redact (NLeaf v) = NLeaf (AString ''[REDACTED]'')"
| "redact n = n"

lemma covers_prefix: "covers parts l \<longleftrightarrow> (\<exists>p q. l = p @ q \<and> list_all2 stands_for parts p)"
  by (induction parts l rule: covers.induct) (auto simp: list_all2_Cons1 Cons_eq_append_conv)

lemma node_maskValue: "node (maskValue v) l = map_option redact (node v l)"
proof (induction l arbitrary: v)
  case Nil
  then show ?case by (cases v) auto
next
  case (Cons s l)
  then show ?case
    by (cases v; cases s) (auto simp: node_leaf amap_get_map [where f = "\<lambda>_. maskValue"] split: option.split)
qed

lemma traverse_leaf:
  "(\<And>m. v \<noteq> AMap m) \<Longrightarrow> (\<And>vs. v \<noteq> AArr vs) \<Longrightarrow> traverseAndMask (part # parts) v = v"
  by (cases v) auto

lemma traverse_array:
  "traverseAndMask (part # parts) (AArr v) =
    AArr (map (\<lambda>i. if stands_for part (Idx i) then traverseAndMask parts (v ! i) else v ! i) [0..<length v])"
proof -
  have all: "map f v = map (\<lambda>i. f (v ! i)) [0..<length v]" for f :: "any \<Rightarrow> any"
    by (rule nth_equalityI) simp_all
  have none: "v = map (\<lambda>i. v ! i) [0..<length v]" by (simp add: map_nth)
  have one: "v[nat n := f (v ! nat n)] = map (\<lambda>i. if n = int i then f (v ! i) else v ! i) [0..<length v]"
    if "0 \<le> n" for n and f :: "any \<Rightarrow> any"
    using that by (intro nth_equalityI) (auto simp: nth_list_update)
  show ?thesis
  proof (cases "bracketed part \<and> trim_brackets part \<notin> {''*'', []}")
    case True
    then have star: "part \<noteq> ''*''" by (auto simp: bracketed_def HasPrefix_def)
    show ?thesis
    proof (cases "parseArrayIndex (trim_brackets part)")
      case None
      with True star none show ?thesis by (simp add: bracketed_def)
    next
      case (Some n)
      consider "0 \<le> n" "n < int (length v)" | "n < 0" | "int (length v) \<le> n" by linarith
      then show ?thesis
      proof cases
        case 1
        with True star Some one [of n "traverseAndMask parts"] show ?thesis by (simp add: bracketed_def)
      next
        case 2
        then have "map (\<lambda>i. if n = int i then f i else v ! i) [0..<length v] = v" for f :: "nat \<Rightarrow> any"
          by (intro nth_equalityI) auto
        with True star Some 2 show ?thesis by (simp add: bracketed_def)
      next
        case 3
        then have "map (\<lambda>i. if n = int i then f i else v ! i) [0..<length v] = v" for f :: "nat \<Rightarrow> any"
          by (intro nth_equalityI) auto
        with True star Some 3 show ?thesis by (simp add: bracketed_def)
      qed
    qed
  next
    case False
    then show ?thesis using all [of "traverseAndMask parts"] none by (auto simp: bracketed_def Let_def)
  qed
qed

lemma node_traverse:
  "node (traverseAndMask parts data) l = (if covers parts l then map_option redact (node data l) else node data l)"
proof (induction parts arbitrary: data l)
  case Nil
  then show ?case by (simp add: node_maskValue)
next
  case (Cons part parts)
  consider (obj) m where "data = AMap m" | (arr) vs where "data = AArr vs" | (leaf) "\<And>m. data \<noteq> AMap m" "\<And>vs. data \<noteq> AArr vs"
    by blast
  then show ?case
  proof cases
    case obj
    have "traverseAndMask (part # parts) data = AMap (map (\<lambda>(k, x). (k, if stands_for part (Key k) then traverseAndMask parts x else x)) m)"
      unfolding obj by auto
    then show ?thesis
      using Cons.IH obj by (cases l; cases "hd l") (auto simp: amap_get_map split: option.split)
  next
    case arr
    then show ?thesis using Cons.IH by (cases l; cases "hd l") (auto simp: traverse_array simp del: traverseAndMask.simps)
  next
    case leaf
    then have "traverseAndMask (part # parts) data = data" by (rule traverse_leaf)
    with leaf show ?thesis by (cases l; cases "hd l") (auto simp: node_leaf)
  qed
qed

lemma redact_redact: "map_option redact (map_option redact x) = map_option redact x"
proof -
  have "redact (redact n) = redact n" for n by (cases n) auto
  then show ?thesis by (cases x) auto
qed

lemma maskValue_idem: "maskValue (maskValue v) = maskValue v"
  by (induction v rule: maskValue.induct) (auto simp: case_prod_unfold)

lemma traverse_idem: "traverseAndMask parts (traverseAndMask parts data) = traverseAndMask parts data"
proof (induction parts arbitrary: data)
  case Nil
  then show ?case by (simp add: maskValue_idem)
next
  case (Cons part parts)
  consider (obj) m where "data = AMap m" | (arr) vs where "data = AArr vs" | (leaf) "\<And>m. data \<noteq> AMap m" "\<And>vs. data \<noteq> AArr vs"
    by blast
  then show ?case
  proof cases
    case obj
    then show ?thesis using Cons.IH by (auto simp: case_prod_unfold comp_def)
  next
    case arr
    have "map (\<lambda>i. if P i then f (map (\<lambda>i. if P i then f (vs ! i) else vs ! i) [0..<length vs] ! i)
          else map (\<lambda>i. if P i then f (vs ! i) else vs ! i) [0..<length vs] ! i) [0..<length vs] =
        map (\<lambda>i. if P i then f (vs ! i) else vs ! i) [0..<length vs]" if "\<And>x. f (f x) = f x" for P and f :: "any \<Rightarrow> any"
      using that by (intro nth_equalityI) auto
    then show ?thesis using arr Cons.IH by (simp add: traverse_array del: traverseAndMask.simps)
  next
    case leaf
    then show ?thesis using traverse_leaf by metis
  qed
qed

section \<open>The properties\<close>

text \<open>
  \<^bold>\<open>C33.\<close> What masking by path does, at every location of the value. A location that the parts of the path lead
  to, or that lies below one, keeps its shape: an object its members, an array its length, and whatever else is there
  becomes the redaction text. Every other location has what it had: the siblings of a masked member at any depth, the
  other elements of an array, and everything when the path leads nowhere. Masking again changes nothing.
\<close>

theorem mask_path_correct:
  "node (maskFieldByPath path data) l =
     (if covers (Split (TrimPrefix path ''$.'') CHR ''.'') l then map_option redact (node data l) else node data l) \<and>
   maskFieldByPath path (maskFieldByPath path data) = maskFieldByPath path data"
  by (simp add: maskFieldByPath_def node_traverse traverse_idem)

text \<open>
  The forms with a bracket after a name, array[*].field in the comment of the code and messages[1].content in the
  documents, select nothing: the path is split at dots only, so its first part is the name with its brackets,
  and an object without a key of that spelling is returned as it was.
\<close>

theorem bracket_path_noop:
  assumes "CHR ''.'' \<notin> set (arr @ idx)" "CHR ''$'' \<notin> set arr" "arr @ ''['' @ idx @ '']'' \<notin> set (map fst m)"
    and "pre = [] \<or> pre = ''$.''"
  shows "maskFieldByPath (pre @ arr @ ''['' @ idx @ ''].'' @ field) (AMap m) = AMap m"
proof -
  let ?part = "arr @ ''['' @ idx @ '']''"
  have p: "arr @ ''['' @ idx @ ''].'' @ field = ?part @ CHR ''.'' # field" by simp
  have "\<not> HasPrefix (?part @ CHR ''.'' # field) ''$.''"
    using assms(2) by (cases arr) (auto simp: HasPrefix_def)
  then have "TrimPrefix (pre @ ?part @ CHR ''.'' # field) ''$.'' = ?part @ CHR ''.'' # field"
    using assms(4) by (auto simp: TrimPrefix_def HasPrefix_def)
  moreover have "Split (?part @ CHR ''.'' # field) CHR ''.'' = ?part # Split field CHR ''.''"
    using assms(1) by (intro Split_append_sep) simp
  moreover have "?part \<noteq> ''*''" by (cases arr) auto
  moreover have "map (\<lambda>(k, x). (k, if k = ?part then f x else x)) m = m" for f
    using assms(3) by (intro map_idI) force
  ultimately show ?thesis unfolding p by (simp add: maskFieldByPath_def)
qed

theorem bracket_path_noop_witness:
  "maskFieldByPath ''items[*].secret'' (AMap [(''items'', AArr [AMap [(''secret'', AString ''x'')]])])
   = AMap [(''items'', AArr [AMap [(''secret'', AString ''x'')]])]"
  using bracket_path_noop [of "''items''" "''*''" "[(''items'', AArr [AMap [(''secret'', AString ''x'')]])]" "[]" "''secret''"]
  by simp

end
