(* ===== verification/Sanitizer.thy ===== *)
theory Sanitizer
  imports Regex
begin

text \<open>
  \<^verbatim>\<open>governance/input_sanitizer.go\<close>: the injection patterns, with their source text and what
  they match, and the sanitizer.
\<close>

section \<open>The patterns\<close>

text \<open>The source text of white space in a pattern: backslash, s, plus.\<close>

definition sp :: string where
  "sp = CHR 0x5C # ''s+''"

text \<open>A pattern is its source and its meaning.\<close>

record Pattern =
  pat_String :: string
  pat_rx :: rx

definition any_char :: rx where
  "any_char = RClass [(0, 9), (11, 1114111)]"

definition injectionPatterns :: "Pattern list" where
  "injectionPatterns =
   [\<lparr>pat_String = ''(?i)(ignore'' @ sp @ ''previous|ignore'' @ sp @ ''all|disregard'' @ sp @
       ''previous|disregard'' @ sp @ ''all|reset'' @ sp @ ''prompt|forget'' @ sp @ ''instructions)'',
     pat_rx = rx_alts (map rx_phrase [[''ignore'', ''previous''], [''ignore'', ''all''],
       [''disregard'', ''previous''], [''disregard'', ''all''], [''reset'', ''prompt''],
       [''forget'', ''instructions'']])\<rparr>,
    \<lparr>pat_String = ''(?i)(system'' @ sp @ ''prompt|system'' @ sp @ ''role|as'' @ sp @ ''a'' @ sp @ ''system)'',
     pat_rx = rx_alts (map rx_phrase [[''system'', ''prompt''], [''system'', ''role''],
       [''as'', ''a'', ''system'']])\<rparr>,
    \<lparr>pat_String = ''(?i)(execute'' @ sp @ ''command|run'' @ sp @ ''code|python'' @ sp @ ''code|javascript'' @
       sp @ ''code)'',
     pat_rx = rx_alts (map rx_phrase [[''execute'', ''command''], [''run'', ''code''],
       [''python'', ''code''], [''javascript'', ''code'']])\<rparr>,
    \<lparr>pat_String = ''(?i)(override'' @ sp @ ''settings|bypass'' @ sp @ ''filter|disable'' @ sp @ ''security)'',
     pat_rx = rx_alts (map rx_phrase [[''override'', ''settings''], [''bypass'', ''filter''],
       [''disable'', ''security'']])\<rparr>,
    \<lparr>pat_String = ''(?i)(prompt'' @ sp @ ''injection|jailbreak|escape'' @ sp @ ''prompt)'',
     pat_rx = rx_alts (map rx_phrase [[''prompt'', ''injection''], [''jailbreak''],
       [''escape'', ''prompt'']])\<rparr>,
    \<lparr>pat_String = ''(?i)(BEGIN'' @ sp @ ''SYSTEM|END'' @ sp @ ''SYSTEM|<system>.*</system>)'',
     pat_rx = rx_alts [rx_phrase [''begin'', ''system''], rx_phrase [''end'', ''system''],
       RSeq (rx_word ''<system>'') (RSeq (RStar True any_char) (rx_word ''</system>''))]\<rparr>]"

section \<open>The sanitizer\<close>

record SanitizationResult =
  sr_IsClean :: bool
  sr_OriginalInput :: string
  sr_SanitizedInput :: string
  sr_Warnings :: "string list"
  sr_Blocked :: bool
  sr_BlockReason :: string

definition blockingPatterns :: "string list" where
  "blockingPatterns = [''ignore previous'', ''ignore all'', ''disregard previous'', ''disregard all'',
     ''override settings'', ''bypass filter'', ''disable security'']"

definition shouldBlock :: "Pattern \<Rightarrow> bool" where
  "shouldBlock pattern = list_ex (\<lambda>bp. Contains (ToLower (pat_String pattern)) bp) blockingPatterns"

definition redactedMark :: string where
  "redactedMark = ''[REDACTED]''"

definition basicTokens :: "string list" where
  "basicTokens = [''<script>'', ''</script>'', ''<iframe>'', ''</iframe>'', ''javascript:'', ''data:'']"

definition applyBasicSanitization :: "string \<Rightarrow> string" where
  "applyBasicSanitization input = foldl (\<lambda>s t. ReplaceAll s t redactedMark) input basicTokens"

fun scan_patterns :: "string \<Rightarrow> Pattern list \<Rightarrow> SanitizationResult \<Rightarrow> SanitizationResult" where
  "scan_patterns input [] r = r\<lparr>sr_SanitizedInput := applyBasicSanitization input\<rparr>"
| "scan_patterns input (pattern # ps) r =
     (if MatchString (pat_rx pattern) input then
        (let r' = r\<lparr>sr_IsClean := False,
               sr_Warnings := sr_Warnings r @ [''Potential injection pattern detected: '' @ pat_String pattern]\<rparr> in
         if shouldBlock pattern
         then r'\<lparr>sr_Blocked := True, sr_BlockReason := ''Detected malicious injection attempt''\<rparr>
         else scan_patterns input ps r')
      else scan_patterns input ps r)"

definition Sanitize :: "string \<Rightarrow> SanitizationResult" where
  "Sanitize input = scan_patterns input injectionPatterns
     \<lparr>sr_IsClean = True, sr_OriginalInput = input, sr_SanitizedInput = input, sr_Warnings = [],
      sr_Blocked = False, sr_BlockReason = []\<rparr>"

definition SanitizeMessages :: "(string \<times> string) list list \<Rightarrow> (string \<times> string) list list" where
  "SanitizeMessages messages = map (map (\<lambda>(k, v).
     (k, if ToLower k = ''content'' \<or> ToLower k = ''prompt''
         then (let r = Sanitize v in if sr_Blocked r then ''[BLOCKED]'' else sr_SanitizedInput r)
         else v))) messages"

definition RedactForLogging :: "string \<Rightarrow> string" where
  "RedactForLogging data =
     (if data = [] then redactedMark else if length data > 50 then redactedMark else redactedMark)"

definition sensitiveFields :: "string list" where
  "sensitiveFields = [''prompt'', ''response'', ''content'', ''message'', ''input'', ''output'',
     ''api_key'', ''password'', ''secret'']"

definition RedactFieldsForLogging :: "(string \<times> 'v) list \<Rightarrow> (string \<times> (string + 'v)) list" where
  "RedactFieldsForLogging flds = map (\<lambda>(k, v).
     (k, if list_ex (\<lambda>sf. Contains (ToLower k) sf) sensitiveFields then Inl redactedMark else Inr v)) flds"

definition IsPotentiallyMalicious :: "string \<Rightarrow> bool" where
  "IsPotentiallyMalicious input = (let r = Sanitize input in \<not> sr_IsClean r \<or> sr_Blocked r)"

section \<open>Replacing all occurrences\<close>

lemma ReplaceAll_prefix:
  "ReplaceAll s old new = p @ v \<Longrightarrow> new \<noteq> [] \<Longrightarrow> set p \<inter> set new = {} \<Longrightarrow> \<exists>w. s = p @ w"
proof (induction s old new arbitrary: p rule: ReplaceAll.induct)
  case (2 c s old new)
  show ?case
  proof (cases p)
    case (Cons d q)
    have "\<not> (old \<noteq> [] \<and> HasPrefix (c # s) old)"
    proof
      assume m: "old \<noteq> [] \<and> HasPrefix (c # s) old"
      then have "new @ ReplaceAll (drop (length old) (c # s)) old new = d # q @ v"
        using "2.prems"(1) Cons by simp
      then have "d = hd new" using "2.prems"(2) by (cases new) auto
      then show False using "2.prems"(2,3) Cons by auto
    qed
    with "2.prems" "2.IH"(2) [of q] Cons show ?thesis by (auto split: if_splits)
  qed simp
qed simp

lemma ReplaceAll_occurrence:
  "ReplaceAll s old new = u @ p @ v \<Longrightarrow> new \<noteq> [] \<Longrightarrow> p \<noteq> [] \<Longrightarrow> set p \<inter> set new = {} \<Longrightarrow>
    \<exists>a b. s = a @ p @ b"
proof (induction s old new arbitrary: u rule: ReplaceAll.induct)
  case (2 c s old new)
  show ?case
  proof (cases "old \<noteq> [] \<and> HasPrefix (c # s) old")
    case True
    let ?r = "drop (length old) (c # s)"
    have e: "new @ ReplaceAll ?r old new = u @ p @ v" using "2.prems"(1) True by simp
    have "length new \<le> length u"
    proof (rule ccontr)
      assume "\<not> ?thesis"
      then have "(u @ p @ v) ! length u \<in> set new"
        by (subst e [symmetric]) (simp add: nth_append)
      moreover have "(u @ p @ v) ! length u = hd p" using "2.prems"(3) by (cases p) simp_all
      ultimately show False using "2.prems"(3,4) by (cases p) auto
    qed
    then obtain u2 where "u = new @ u2"
      using e by (metis append_eq_append_conv_if append_eq_conv_conj)
    with e have "ReplaceAll ?r old new = u2 @ p @ v" by simp
    from "2.IH"(1) [OF True this "2.prems"(2-4)] obtain a b where "?r = a @ p @ b" by blast
    then have "c # s = (take (length old) (c # s) @ a) @ p @ b" by (metis append_assoc append_take_drop_id)
    then show ?thesis by blast
  next
    case False
    have e: "c # ReplaceAll s old new = u @ p @ v"
      using "2.prems"(1) unfolding ReplaceAll.simps if_not_P [OF False] .
    show ?thesis
    proof (cases u)
      case Nil
      then have "ReplaceAll (c # s) old new = p @ v" using "2.prems"(1) by simp
      from ReplaceAll_prefix [OF this "2.prems"(2,4)] show ?thesis by (metis append_Nil)
    next
      case (Cons d u')
      with e have "ReplaceAll s old new = u' @ p @ v" by simp
      from "2.IH"(2) [OF False this "2.prems"(2-4)] show ?thesis by (metis append_Cons)
    qed
  qed
qed simp

lemma ReplaceAll_keeps_absent:
  "new \<noteq> [] \<Longrightarrow> p \<noteq> [] \<Longrightarrow> set p \<inter> set new = {} \<Longrightarrow> \<not> Contains s p \<Longrightarrow>
    \<not> Contains (ReplaceAll s old new) p"
  using ReplaceAll_occurrence unfolding Contains_iff by blast

lemma ReplaceAll_removes:
  "new \<noteq> [] \<Longrightarrow> old \<noteq> [] \<Longrightarrow> set old \<inter> set new = {} \<Longrightarrow> \<not> Contains (ReplaceAll s old new) old"
proof -
  assume a: "new \<noteq> []" "old \<noteq> []" "set old \<inter> set new = {}"
  have "ReplaceAll s old new \<noteq> u @ old @ v" for u v
    using a
  proof (induction s old new arbitrary: u rule: ReplaceAll.induct)
    case (2 c s old new)
    show ?case
    proof (cases "old \<noteq> [] \<and> HasPrefix (c # s) old")
      case True
      show ?thesis
      proof
        assume "ReplaceAll (c # s) old new = u @ old @ v"
        then have e: "new @ ReplaceAll (drop (length old) (c # s)) old new = u @ old @ v" using True by simp
        have "length new \<le> length u"
        proof (rule ccontr)
          assume "\<not> ?thesis"
          then have "(u @ old @ v) ! length u \<in> set new"
            by (subst e [symmetric]) (simp add: nth_append)
          moreover have "(u @ old @ v) ! length u = hd old" using "2.prems"(2) by (cases old) simp_all
          ultimately show False using "2.prems"(2,3) by (cases old) auto
        qed
        then obtain u2 where "u = new @ u2"
          using e by (metis append_eq_append_conv_if append_eq_conv_conj)
        with e "2.IH"(1) [OF True "2.prems"] show False by simp
      qed
    next
      case False
      show ?thesis
      proof
        assume r: "ReplaceAll (c # s) old new = u @ old @ v"
        then have e: "c # ReplaceAll s old new = u @ old @ v"
          unfolding ReplaceAll.simps if_not_P [OF False] .
        show False
        proof (cases u)
          case Nil
          then have "\<exists>w. c # s = old @ w"
            using r "2.prems" by (intro ReplaceAll_prefix [where old = old and new = new]) simp_all
          then show False using False "2.prems"(2) by (auto simp: HasPrefix_iff)
        next
          case (Cons d u')
          with e "2.IH"(2) [OF False "2.prems"] show False by simp
        qed
      qed
    qed
  qed simp
  then show ?thesis by (simp add: Contains_iff)
qed

section \<open>The properties\<close>

lemma foldl_removes:
  assumes "new \<noteq> []" "\<forall>t \<in> set ts. t \<noteq> [] \<and> set t \<inter> set new = {}" "t \<in> set ts \<or> \<not> Contains s t"
    "t \<noteq> []" "set t \<inter> set new = {}"
  shows "\<not> Contains (foldl (\<lambda>s t. ReplaceAll s t new) s ts) t"
  using assms
proof (induction ts arbitrary: s)
  case (Cons a ts)
  show ?case
  proof (cases "t \<in> set ts")
    case True
    then show ?thesis using Cons by simp
  next
    case False
    have "\<not> Contains (ReplaceAll s a new) t"
    proof (cases "t = a")
      case True
      then show ?thesis using ReplaceAll_removes [OF assms(1)] Cons.prems(4,5) by simp
    next
      case n: False
      then have "\<not> Contains s t" using Cons.prems(3) False by simp
      then show ?thesis using ReplaceAll_keeps_absent [OF assms(1)] Cons.prems(4,5) by simp
    qed
    then show ?thesis using Cons by simp
  qed
qed simp

lemma lower_char_space: "lower_char c = CHR '' '' \<Longrightarrow> c = CHR '' ''"
proof (rule ccontr)
  assume l: "lower_char c = CHR '' ''" and c: "c \<noteq> CHR '' ''"
  then have n: "65 \<le> (of_char c :: nat)" "of_char c \<le> (90 :: nat)"
    "char_of (of_char c + 32 :: nat) = CHR '' ''"
    by (simp_all add: lower_char_def Let_def split: if_splits)
  have "ord (char_of (of_char c + 32 :: nat)) = of_char c + 32"
    using n(2) ord_byte [of "of_char c + 32"] by (simp add: byte_def)
  moreover have "ord (char_of (of_char c + 32 :: nat)) = 32" unfolding n(3) by (simp add: ord_def)
  ultimately show False using n(1) by simp
qed

lemma shouldBlock_needs_space: "shouldBlock p \<Longrightarrow> CHR '' '' \<in> set (pat_String p)"
proof -
  assume "shouldBlock p"
  then obtain bp where "bp \<in> set blockingPatterns" "Contains (ToLower (pat_String p)) bp"
    by (auto simp: shouldBlock_def list_ex_iff)
  moreover from this(1) have "CHR '' '' \<in> set bp" by (auto simp: blockingPatterns_def)
  ultimately have "CHR '' '' \<in> set (ToLower (pat_String p))" by (auto simp: Contains_iff)
  then obtain c where "c \<in> set (pat_String p)" "lower_char c = CHR '' ''"
    by (auto simp: ToLower_def)
  then show ?thesis using lower_char_space [of c] by simp
qed

lemma no_pattern_blocks: "list_all (\<lambda>p. \<not> shouldBlock p) injectionPatterns"
proof -
  have "list_all (\<lambda>p. CHR '' '' \<notin> set (pat_String p)) injectionPatterns"
    by (simp add: injectionPatterns_def sp_def)
  then show ?thesis using shouldBlock_needs_space by (auto simp: list_all_iff)
qed

lemma scan_never_blocks:
  "list_all (\<lambda>p. \<not> shouldBlock p) ps \<Longrightarrow>
    sr_Blocked (scan_patterns input ps r) = sr_Blocked r \<and>
    sr_SanitizedInput (scan_patterns input ps r) = applyBasicSanitization input \<and>
    sr_IsClean (scan_patterns input ps r)
      = (sr_IsClean r \<and> list_all (\<lambda>p. \<not> MatchString (pat_rx p) input) ps)"
  by (induction input ps r rule: scan_patterns.induct) (auto simp: Let_def)

lemma basic_tokens_disjoint: "\<forall>t \<in> set basicTokens. t \<noteq> [] \<and> set t \<inter> set redactedMark = {}"
  by (simp add: basicTokens_def redactedMark_def)

text \<open>
  The sanitizer never blocks. Whether a pattern blocks is decided by looking for phrases such as
  "ignore previous" in the pattern's source, where the space is written as an escape, so none is found;
  an input is clean exactly when no pattern matches it, and is passed on with the basic replacements.
\<close>

theorem sanitizer_never_blocks:
  "sr_Blocked (Sanitize input) = False \<and>
   list_all (\<lambda>p. \<not> shouldBlock p) injectionPatterns \<and>
   sr_IsClean (Sanitize input) = list_all (\<lambda>p. \<not> MatchString (pat_rx p) input) injectionPatterns \<and>
   sr_SanitizedInput (Sanitize input) = applyBasicSanitization input \<and>
   IsPotentiallyMalicious input = list_ex (\<lambda>p. MatchString (pat_rx p) input) injectionPatterns"
proof -
  note s = scan_never_blocks [OF no_pattern_blocks, of input
      "\<lparr>sr_IsClean = True, sr_OriginalInput = input, sr_SanitizedInput = input, sr_Warnings = [],
        sr_Blocked = False, sr_BlockReason = []\<rparr>"]
  have "(\<not> list_all (\<lambda>p. \<not> MatchString (pat_rx p) input) ps) = list_ex (\<lambda>p. MatchString (pat_rx p) input) ps"
    for ps by (induction ps) auto
  with s no_pattern_blocks show ?thesis
    unfolding IsPotentiallyMalicious_def Let_def Sanitize_def by simp
qed

text \<open>
  The basic replacements leave none of the script and frame tags and URL schemes in the text,
  in whatever way they overlap or would be joined by an earlier replacement.
\<close>

theorem basic_sanitization_complete:
  assumes "t \<in> set basicTokens"
  shows "\<not> Contains (applyBasicSanitization input) t"
  unfolding applyBasicSanitization_def
  using basic_tokens_disjoint assms by (intro foldl_removes) (auto simp: redactedMark_def)

theorem basic_sanitization_complete_witness:
  "\<not> Contains (applyBasicSanitization ''<scr<script>ipt>'') ''<script>''"
  by (rule basic_sanitization_complete) (simp add: basicTokens_def)

end
