(* ===== verification/Breaker.thy ===== *)
theory Breaker
  imports GoFloat Prelude
begin

text \<open>
  \<^verbatim>\<open>internal/adapter/upstream/fault_tolerant_client.go\<close> and
  \<^verbatim>\<open>circuit_breaker.go\<close>: the circuit breaker of the fault tolerant client with its
  retry loop, and the client that retries around the breaker of the gobreaker package. The
  wrapped client, the clock, the sleep and gobreaker act on a world \<open>'w\<close> and are arguments.
\<close>

section \<open>The circuit breaker\<close>

type_synonym CircuitState = string

abbreviation CircuitStateClosed :: CircuitState where "CircuitStateClosed \<equiv> ''closed''"
abbreviation CircuitStateOpen :: CircuitState where "CircuitStateOpen \<equiv> ''open''"
abbreviation CircuitStateHalfOpen :: CircuitState where "CircuitStateHalfOpen \<equiv> ''half_open''"

text \<open>Times are nanoseconds; the zero \<^verbatim>\<open>time.Time\<close> is \<open>None\<close>.\<close>

record CircuitBreaker =
  cb_failureThreshold :: int
  cb_timeout :: int
  cb_state :: CircuitState
  cb_failureCount :: int
  cb_lastFailure :: "int option"

definition NewCircuitBreaker :: "int \<Rightarrow> int \<Rightarrow> CircuitBreaker" where
  "NewCircuitBreaker threshold timeout =
     \<lparr>cb_failureThreshold = threshold, cb_timeout = timeout, cb_state = CircuitStateClosed,
      cb_failureCount = 0, cb_lastFailure = None\<rparr>"

text \<open>An error is its text and what \<^verbatim>\<open>errors.Is\<close> answers for the two context errors.\<close>

record UpErr =
  ue_msg :: string
  ue_DeadlineExceeded :: bool
  ue_Canceled :: bool

definition plain_err :: "string \<Rightarrow> UpErr" where
  "plain_err m = \<lparr>ue_msg = m, ue_DeadlineExceeded = False, ue_Canceled = False\<rparr>"

text \<open>\<^verbatim>\<open>time.Since\<close>, which saturates for the zero time.\<close>

definition since :: "int \<Rightarrow> int option \<Rightarrow> int" where
  "since now t = (case t of None \<Rightarrow> 9223372036854775807 | Some t \<Rightarrow> now - t)"

definition admits :: "int \<Rightarrow> CircuitBreaker \<Rightarrow> bool" where
  "admits now cb \<longleftrightarrow> cb_state cb \<noteq> CircuitStateOpen \<or> cb_timeout cb < since now (cb_lastFailure cb)"

definition enter :: "CircuitBreaker \<Rightarrow> CircuitBreaker" where
  "enter cb = (if cb_state cb = CircuitStateOpen then cb\<lparr>cb_state := CircuitStateHalfOpen\<rparr> else cb)"

definition failed :: "int \<Rightarrow> CircuitBreaker \<Rightarrow> CircuitBreaker" where
  "failed now cb =
     (let cb = cb\<lparr>cb_failureCount := cb_failureCount cb + 1, cb_lastFailure := Some now\<rparr> in
      if cb_failureThreshold cb \<le> cb_failureCount cb then cb\<lparr>cb_state := CircuitStateOpen\<rparr> else cb)"

definition succeeded :: "CircuitBreaker \<Rightarrow> CircuitBreaker" where
  "succeeded cb =
     (let cb = (if cb_state cb = CircuitStateHalfOpen then cb\<lparr>cb_state := CircuitStateClosed\<rparr> else cb)
      in cb\<lparr>cb_failureCount := 0\<rparr>)"

definition open_err :: UpErr where
  "open_err = plain_err ''circuit breaker is open''"

text \<open>
  \<^verbatim>\<open>Execute\<close> returns a value that may be nil and an error that may be nil, the breaker and
  the world after it. The clock is read when the call enters an open breaker and when it failed.
\<close>

definition Execute ::
    "('w \<Rightarrow> int) \<Rightarrow> ('w \<Rightarrow> ('a option \<times> UpErr option) \<times> 'w) \<Rightarrow> CircuitBreaker \<Rightarrow> 'w
      \<Rightarrow> ('a option \<times> UpErr option) \<times> CircuitBreaker \<times> 'w" where
  "Execute clock fn cb w =
     (if \<not> admits (clock w) cb then ((None, Some open_err), cb, w)
      else (case fn w of ((result, err), w') \<Rightarrow>
        (case err of
           Some e \<Rightarrow> ((result, err), failed (clock w') (enter cb), w')
         | None \<Rightarrow> ((result, None), succeeded (enter cb), w'))))"

section \<open>The fault tolerant client\<close>

fun containsHelper_from :: "nat \<Rightarrow> string \<Rightarrow> string \<Rightarrow> bool" where
  "containsHelper_from 0 s substr = (take (length substr) s = substr)"
| "containsHelper_from (Suc n) s substr =
     (take (length substr) s = substr \<or> containsHelper_from n (tl s) substr)"

definition containsHelper :: "string \<Rightarrow> string \<Rightarrow> bool" where
  "containsHelper s substr =
     (length substr \<le> length s \<and> containsHelper_from (length s - length substr) s substr)"

definition contains :: "string \<Rightarrow> string \<Rightarrow> bool" where
  "contains s substr \<longleftrightarrow>
     length substr \<le> length s \<and> (s = substr \<or> 0 < length s \<and> containsHelper s substr)"

definition isRetryable :: "UpErr option \<Rightarrow> bool" where
  "isRetryable err = (case err of
     None \<Rightarrow> False
   | Some e \<Rightarrow> ue_DeadlineExceeded e \<or> ue_Canceled e \<or> contains (ue_msg e) ''timeout'' \<or>
       contains (ue_msg e) ''temporary'' \<or> contains (ue_msg e) ''connection reset'')"

record FaultTolerantUpstreamClient =
  ft_breaker :: CircuitBreaker
  ft_maxRetries :: int

definition NewFaultTolerantUpstreamClient :: FaultTolerantUpstreamClient where
  "NewFaultTolerantUpstreamClient =
     \<lparr>ft_breaker = NewCircuitBreaker 5 (30 * 1000000000), ft_maxRetries = 3\<rparr>"

text \<open>The loop of \<^verbatim>\<open>Chat\<close>: \<open>n\<close> rounds are left, \<open>i\<close> is the loop variable.\<close>

fun ft_attempts ::
    "('w \<Rightarrow> (UpErr + 'a) \<times> 'w) \<Rightarrow> (int \<Rightarrow> 'w \<Rightarrow> 'w) \<Rightarrow> nat \<Rightarrow> int \<Rightarrow> UpErr option \<Rightarrow> 'w
      \<Rightarrow> ('a option \<times> UpErr option) \<times> 'w" where
  "ft_attempts call sleep 0 i lastErr w = ((None, lastErr), w)"
| "ft_attempts call sleep (Suc n) i lastErr w =
     (case call w of
        (Inr resp, w') \<Rightarrow> ((Some resp, None), w')
      | (Inl err, w') \<Rightarrow>
          if isRetryable (Some err)
          then ft_attempts call sleep n (i + 1) (Some err) (sleep ((i + 1) * 100000000) w')
          else ((None, Some err), w'))"

text \<open>
  \<^verbatim>\<open>Chat\<close>; \<open>None\<close> is the panic of the type assertion on a nil result, which
  \<^verbatim>\<open>maxRetries = 0\<close> would give.
\<close>

definition ft_Chat ::
    "('w \<Rightarrow> int) \<Rightarrow> (int \<Rightarrow> 'w \<Rightarrow> 'w) \<Rightarrow> ('req \<Rightarrow> 'w \<Rightarrow> (UpErr + 'a) \<times> 'w) \<Rightarrow> 'req
      \<Rightarrow> FaultTolerantUpstreamClient \<Rightarrow> 'w
      \<Rightarrow> (UpErr + 'a) option \<times> FaultTolerantUpstreamClient \<times> 'w" where
  "ft_Chat clock sleep client_Chat req c w =
     (case Execute clock (ft_attempts (client_Chat req) sleep (nat (ft_maxRetries c)) 0 None)
             (ft_breaker c) w of
        ((result, err), cb, w') \<Rightarrow>
          ((case err of Some e \<Rightarrow> Some (Inl e) | None \<Rightarrow> map_option Inr result),
           c\<lparr>ft_breaker := cb\<rparr>, w'))"

text \<open>
  \<^verbatim>\<open>StreamChat\<close>: one call, no retry. A stream is the list of events the channel delivers
  until it is closed; \<open>cancelled i\<close> says that the context is found done before the event \<open>i\<close>.
\<close>

fun forward_events :: "(nat \<Rightarrow> bool) \<Rightarrow> nat \<Rightarrow> 'ev list \<Rightarrow> 'ev list" where
  "forward_events cancelled i [] = []"
| "forward_events cancelled i (e # es) = (if cancelled i then [] else e # forward_events cancelled (Suc i) es)"

definition ft_StreamChat ::
    "('w \<Rightarrow> int) \<Rightarrow> (nat \<Rightarrow> bool) \<Rightarrow> ('req \<Rightarrow> 'w \<Rightarrow> (UpErr + 'ev list) \<times> 'w) \<Rightarrow> 'req
      \<Rightarrow> FaultTolerantUpstreamClient \<Rightarrow> 'w
      \<Rightarrow> (UpErr + 'ev list) option \<times> FaultTolerantUpstreamClient \<times> 'w" where
  "ft_StreamChat clock cancelled client_StreamChat req c w =
     (case Execute clock (\<lambda>w. case client_StreamChat req w of
               (Inl e, w') \<Rightarrow> ((None, Some e), w')
             | (Inr ch, w') \<Rightarrow> ((Some (forward_events cancelled 0 ch), None), w')) (ft_breaker c) w of
        ((result, err), cb, w') \<Rightarrow>
          ((case err of Some e \<Rightarrow> Some (Inl e) | None \<Rightarrow> map_option Inr result),
           c\<lparr>ft_breaker := cb\<rparr>, w'))"

section \<open>The client around gobreaker\<close>

text \<open>
  Its three loops are one: \<^verbatim>\<open>maxRetries + 1\<close> attempts with a sleep between two of them.
  \<open>attempt\<close> is the wrapped call, through gobreaker's \<^verbatim>\<open>Execute\<close> for the two chat calls.
\<close>

record CircuitBreakerClient =
  cc_maxRetries :: int
  cc_retryDelay :: int

fun retry_from ::
    "('w \<Rightarrow> (UpErr + 'a) \<times> 'w) \<Rightarrow> ('w \<Rightarrow> 'w) \<Rightarrow> nat \<Rightarrow> 'w \<Rightarrow> (UpErr + 'a) \<times> 'w" where
  "retry_from attempt sleep n w = (case attempt w of
      (Inr v, w') \<Rightarrow> (Inr v, w')
    | (Inl e, w') \<Rightarrow> (case n of
        0 \<Rightarrow> (Inl e, w')
      | Suc m \<Rightarrow> retry_from attempt sleep m (sleep w')))"

declare retry_from.simps [simp del]

text \<open>
  \<^verbatim>\<open>fmt.Errorf\<close> with the verb w, of a nil error when no attempt was made. The wrapped error
  is still found by \<^verbatim>\<open>errors.Is\<close>.
\<close>

definition wrap_failure :: "string \<Rightarrow> int \<Rightarrow> UpErr option \<Rightarrow> UpErr" where
  "wrap_failure what n err =
     (let pre = ''failed to '' @ what @ '' after '' @ itoa n @ '' retries: '' in
      case err of
        None \<Rightarrow> plain_err (pre @ ''%!w(<nil>)'')
      | Some e \<Rightarrow> e\<lparr>ue_msg := pre @ ue_msg e\<rparr>)"

definition retry_call ::
    "string \<Rightarrow> ('w \<Rightarrow> (UpErr + 'a) \<times> 'w) \<Rightarrow> (int \<Rightarrow> 'w \<Rightarrow> 'w) \<Rightarrow> CircuitBreakerClient \<Rightarrow> 'w
      \<Rightarrow> (UpErr + 'a) \<times> 'w" where
  "retry_call what attempt sleep c w =
     (if cc_maxRetries c < 0 then (Inl (wrap_failure what (cc_maxRetries c) None), w)
      else (case retry_from attempt (sleep (cc_retryDelay c)) (nat (cc_maxRetries c)) w of
          (Inr v, w') \<Rightarrow> (Inr v, w')
        | (Inl e, w') \<Rightarrow> (Inl (wrap_failure what (cc_maxRetries c) (Some e)), w')))"

definition cc_GetPricing ::
    "(int \<Rightarrow> 'w \<Rightarrow> 'w) \<Rightarrow> (string \<Rightarrow> 'w \<Rightarrow> (UpErr + f64) \<times> 'w) \<Rightarrow> string
      \<Rightarrow> CircuitBreakerClient \<Rightarrow> 'w \<Rightarrow> (UpErr + f64) \<times> 'w" where
  "cc_GetPricing sleep client_GetPricing model c w =
     retry_call ''get pricing'' (client_GetPricing model) sleep c w"

definition cc_Chat ::
    "(('w \<Rightarrow> (UpErr + 'a) \<times> 'w) \<Rightarrow> 'w \<Rightarrow> (UpErr + 'a) \<times> 'w) \<Rightarrow> (int \<Rightarrow> 'w \<Rightarrow> 'w)
      \<Rightarrow> ('req \<Rightarrow> 'w \<Rightarrow> (UpErr + 'a) \<times> 'w) \<Rightarrow> 'req \<Rightarrow> CircuitBreakerClient \<Rightarrow> 'w \<Rightarrow> (UpErr + 'a) \<times> 'w" where
  "cc_Chat breaker_Execute sleep client_Chat req c w =
     retry_call ''chat'' (breaker_Execute (client_Chat req)) sleep c w"

definition cc_StreamChat ::
    "(('w \<Rightarrow> (UpErr + 'a) \<times> 'w) \<Rightarrow> 'w \<Rightarrow> (UpErr + 'a) \<times> 'w) \<Rightarrow> (int \<Rightarrow> 'w \<Rightarrow> 'w)
      \<Rightarrow> ('req \<Rightarrow> 'w \<Rightarrow> (UpErr + 'a) \<times> 'w) \<Rightarrow> 'req \<Rightarrow> CircuitBreakerClient \<Rightarrow> 'w \<Rightarrow> (UpErr + 'a) \<times> 'w" where
  "cc_StreamChat breaker_Execute sleep client_StreamChat req c w =
     retry_call ''stream chat'' (breaker_Execute (client_StreamChat req)) sleep c w"

text \<open>The rule gobreaker is given for tripping, on its counts.\<close>

definition ReadyToTrip :: "int \<Rightarrow> int \<Rightarrow> bool" where
  "ReadyToTrip Requests TotalFailures =
     (let failureRatio = fdiv (f_of_int TotalFailures) (f_of_int Requests)
      in 5 \<le> Requests \<and> fle (lit (1/2)) failureRatio)"

section \<open>Runs of the breaker\<close>

text \<open>
  Calls one after another. The list holds, latest first, whether each admitted call returned
  without an error.
\<close>

fun run_calls ::
    "('w \<Rightarrow> int) \<Rightarrow> ('w \<Rightarrow> ('a option \<times> UpErr option) \<times> 'w) list \<Rightarrow> bool list \<Rightarrow> CircuitBreaker \<Rightarrow> 'w
      \<Rightarrow> bool list \<times> CircuitBreaker \<times> 'w" where
  "run_calls clock [] hs cb w = (hs, cb, w)"
| "run_calls clock (fn # fns) hs cb w =
     (case Execute clock fn cb w of ((result, err), cb', w') \<Rightarrow>
        run_calls clock fns (if admits (clock w) cb then (err = None) # hs else hs) cb' w')"

definition trailing_failures :: "bool list \<Rightarrow> int" where
  "trailing_failures hs = int (length (takeWhile Not hs))"

lemma trailing_failures_simps [simp]:
  "trailing_failures [] = 0"
  "trailing_failures (True # hs) = 0"
  "trailing_failures (False # hs) = trailing_failures hs + 1"
  by (simp_all add: trailing_failures_def)

definition breaker_state :: "int \<Rightarrow> bool list \<Rightarrow> CircuitState" where
  "breaker_state threshold hs =
     (if threshold \<le> trailing_failures hs then CircuitStateOpen else CircuitStateClosed)"

definition breaker_inv :: "int \<Rightarrow> int \<Rightarrow> bool list \<Rightarrow> CircuitBreaker \<Rightarrow> bool" where
  "breaker_inv threshold timeout hs cb \<longleftrightarrow>
     cb_failureThreshold cb = threshold \<and> cb_timeout cb = timeout \<and>
     cb_failureCount cb = trailing_failures hs \<and> cb_state cb = breaker_state threshold hs"

lemma breaker_inv_New [inv_intros]:
  "1 \<le> threshold \<Longrightarrow> breaker_inv threshold timeout [] (NewCircuitBreaker threshold timeout)"
  by (simp add: breaker_inv_def NewCircuitBreaker_def breaker_state_def)

lemma breaker_inv_failed [inv_intros]:
  "breaker_inv threshold timeout hs cb \<Longrightarrow>
   breaker_inv threshold timeout (False # hs) (failed now (enter cb))"
  by (auto simp: breaker_inv_def failed_def enter_def breaker_state_def Let_def)

lemma breaker_inv_succeeded [inv_intros]:
  "1 \<le> threshold \<Longrightarrow> breaker_inv threshold timeout hs cb \<Longrightarrow>
   breaker_inv threshold timeout (True # hs) (succeeded (enter cb))"
  by (auto simp: breaker_inv_def succeeded_def enter_def breaker_state_def Let_def split: if_splits)

lemma breaker_inv_Execute:
  assumes "1 \<le> threshold" "breaker_inv threshold timeout hs cb"
    and "Execute clock fn cb w = ((result, err), cb', w')"
  shows "breaker_inv threshold timeout (if admits (clock w) cb then (err = None) # hs else hs) cb'"
  using assms by (auto simp: Execute_def split: if_splits prod.splits option.splits intro: inv_intros)

lemma breaker_inv_run:
  "1 \<le> threshold \<Longrightarrow> breaker_inv threshold timeout hs cb \<Longrightarrow>
   run_calls clock fns hs cb w = (hs', cb', w') \<Longrightarrow> breaker_inv threshold timeout hs' cb'"
proof (induction fns arbitrary: hs cb w)
  case (Cons fn fns)
  obtain result err cb1 w1 where ex: "Execute clock fn cb w = ((result, err), cb1, w1)"
    by (metis prod.exhaust)
  from Cons.IH [OF Cons.prems(1) breaker_inv_Execute [OF Cons.prems(1,2) ex]] Cons.prems(3) ex
  show ?case by simp
qed simp

section \<open>The retry loop of the fault tolerant client\<close>

text \<open>
  A client whose answer to its \<open>n\<close>th call is \<open>answers n\<close>, in a world that counts the calls
  and records the sleeps. An answer is final when the loop does not retry after it.
\<close>

type_synonym script_world = "nat \<times> int list"

definition scripted :: "(nat \<Rightarrow> UpErr + 'a) \<Rightarrow> script_world \<Rightarrow> (UpErr + 'a) \<times> script_world" where
  "scripted answers w = (answers (fst w), (Suc (fst w), snd w))"

definition nap :: "int \<Rightarrow> script_world \<Rightarrow> script_world" where
  "nap d w = (fst w, snd w @ [d])"

lemma scripted_simp [simp]: "scripted answers (i, ds) = (answers i, (Suc i, ds))"
  by (simp add: scripted_def)

lemma nap_simp [simp]: "nap d (i, ds) = (i, ds @ [d])"
  by (simp add: nap_def)

definition final_answer :: "UpErr + 'a \<Rightarrow> bool" where
  "final_answer r = (case r of Inr _ \<Rightarrow> True | Inl e \<Rightarrow> \<not> isRetryable (Some e))"

definition as_pair :: "UpErr + 'a \<Rightarrow> 'a option \<times> UpErr option" where
  "as_pair r = (case r of Inr v \<Rightarrow> (Some v, None) | Inl e \<Rightarrow> (None, Some e))"

definition naps :: "nat \<Rightarrow> nat \<Rightarrow> int list" where
  "naps i k = map (\<lambda>j. (int j + 1) * 100000000) [i..<k]"

lemma ft_attempts_scripted:
  assumes "0 < n"
  shows "\<exists>k. i \<le> k \<and> k < i + n \<and> (\<forall>j. i \<le> j \<longrightarrow> j < k \<longrightarrow> \<not> final_answer (answers j)) \<and>
    (final_answer (answers k) \<or> k = i + n - 1) \<and>
    ft_attempts (scripted answers) nap n (int i) err (i, ds) =
      (as_pair (answers k), (Suc k, ds @ naps i (if final_answer (answers k) then k else Suc k)))"
  using assms
proof (induction n arbitrary: i err ds)
  case (Suc n)
  show ?case
  proof (cases "final_answer (answers i)")
    case True
    then show ?thesis
      by (intro exI [of _ i])
        (auto simp: as_pair_def naps_def final_answer_def split: sum.splits)
  next
    case False
    then obtain e where e: "answers i = Inl e" "isRetryable (Some e)"
      by (auto simp: final_answer_def split: sum.splits)
    let ?ds = "ds @ [(int i + 1) * 100000000]"
    have run: "ft_attempts (scripted answers) nap (Suc n) (int i) err (i, ds) =
        ft_attempts (scripted answers) nap n (int (Suc i)) (Some e) (Suc i, ?ds)"
      using e by (simp add: add.commute)
    show ?thesis
    proof (cases "n = 0")
      case True
      with run e False show ?thesis
        by (intro exI [of _ i]) (simp add: as_pair_def naps_def)
    next
      case n: False
      from Suc.IH [OF n [unfolded neq0_conv], of "Suc i" "Some e" ?ds] obtain k where
        k: "Suc i \<le> k" "k < Suc i + n"
          "\<forall>j. Suc i \<le> j \<longrightarrow> j < k \<longrightarrow> \<not> final_answer (answers j)"
          "final_answer (answers k) \<or> k = Suc i + n - 1"
          "ft_attempts (scripted answers) nap n (int (Suc i)) (Some e) (Suc i, ?ds) =
            (as_pair (answers k), (Suc k, ?ds @ naps (Suc i) (if final_answer (answers k) then k else Suc k)))"
        by blast
      have "\<forall>j. i \<le> j \<longrightarrow> j < k \<longrightarrow> \<not> final_answer (answers j)"
        using k(3) False by (metis le_neq_implies_less Suc_leI)
      moreover have "naps i m = (int i + 1) * 100000000 # naps (Suc i) m" if "i < m" for m
        using that by (simp add: naps_def upt_conv_Cons)
      ultimately show ?thesis
        using k run by (intro exI [of _ k]) auto
    qed
  qed
qed simp

section \<open>The retry loop around gobreaker\<close>

lemma retry_from_scripted:
  "\<exists>k. i \<le> k \<and> k \<le> i + n \<and> (\<forall>j. i \<le> j \<longrightarrow> j < k \<longrightarrow> isl (answers j)) \<and>
    (\<not> isl (answers k) \<or> k = i + n) \<and>
    retry_from (scripted answers) (nap d) n (i, ds) = (answers k, (Suc k, ds @ replicate (k - i) d))"
proof (induction n arbitrary: i ds)
  case 0
  show ?case
    by (intro exI [of _ i]) (auto simp: retry_from.simps split: sum.splits)
next
  case (Suc n)
  show ?case
  proof (cases "answers i")
    case (Inr v)
    then show ?thesis
      by (intro exI [of _ i]) (auto simp: retry_from.simps [of _ _ "Suc n"])
  next
    case (Inl e)
    from Suc.IH [of "Suc i" "ds @ [d]"] obtain k where
      k: "Suc i \<le> k" "k \<le> Suc i + n" "\<forall>j. Suc i \<le> j \<longrightarrow> j < k \<longrightarrow> isl (answers j)"
        "\<not> isl (answers k) \<or> k = Suc i + n"
        "retry_from (scripted answers) (nap d) n (Suc i, ds @ [d])
          = (answers k, (Suc k, (ds @ [d]) @ replicate (k - Suc i) d))"
      by blast
    have "\<forall>j. i \<le> j \<longrightarrow> j < k \<longrightarrow> isl (answers j)"
      using k(3) Inl by (metis Suc_leI isl_def le_neq_implies_less)
    moreover have "k - i = Suc (k - Suc i)" using k(1) by simp
    ultimately show ?thesis
      using k Inl
      by (intro exI [of _ k]) (simp add: retry_from.simps [of _ _ "Suc n"])
  qed
qed

section \<open>The properties\<close>

text \<open>
  \<^bold>\<open>C36.\<close> The breaker over any run of calls from a new one: its counter is the number of
  failures since the last success among the calls it admitted, between calls it is open exactly
  when that number has reached the threshold and closed otherwise (never half open), an open breaker
  rejects every call until the timeout has passed without running it, and after the timeout one
  successful call closes it.
\<close>

theorem breaker_counts_failures:
  fixes fns :: "('w \<Rightarrow> ('a option \<times> UpErr option) \<times> 'w) list"
  assumes "1 \<le> threshold"
    and "run_calls clock fns [] (NewCircuitBreaker threshold timeout) w = (hs, cb, w')"
  shows "cb_failureCount cb = trailing_failures hs \<and>
    cb_state cb = (if threshold \<le> trailing_failures hs then CircuitStateOpen else CircuitStateClosed) \<and>
    (threshold \<le> trailing_failures hs \<longrightarrow> since (clock w') (cb_lastFailure cb) \<le> timeout \<longrightarrow>
       (\<forall>fn :: 'w \<Rightarrow> ('a option \<times> UpErr option) \<times> 'w. Execute clock fn cb w' = ((None, Some open_err), cb, w'))) \<and>
    (\<forall>(fn :: 'w \<Rightarrow> ('a option \<times> UpErr option) \<times> 'w) r w2. timeout < since (clock w') (cb_lastFailure cb) \<longrightarrow> fn w' = ((r, None), w2) \<longrightarrow>
       cb_state (fst (snd (Execute clock fn cb w'))) = CircuitStateClosed)"
proof -
  have inv: "breaker_inv threshold timeout hs cb"
    using breaker_inv_run [OF assms(1) breaker_inv_New [OF assms(1)] assms(2)] .
  then have count: "cb_failureCount cb = trailing_failures hs"
    and state: "cb_state cb = (if threshold \<le> trailing_failures hs then CircuitStateOpen else CircuitStateClosed)"
    by (simp_all add: breaker_inv_def breaker_state_def)
  from inv have reject: "Execute clock fn cb w' = ((None, Some open_err), cb, w')"
    if "threshold \<le> trailing_failures hs" "since (clock w') (cb_lastFailure cb) \<le> timeout"
    for fn :: "'w \<Rightarrow> ('a option \<times> UpErr option) \<times> 'w"
    using that by (simp add: Execute_def admits_def breaker_inv_def breaker_state_def)
  have recover: "cb_state (fst (snd (Execute clock fn cb w'))) = CircuitStateClosed"
    if "timeout < since (clock w') (cb_lastFailure cb)" "fn w' = ((r, None), w2)"
    for fn :: "'w \<Rightarrow> ('a option \<times> UpErr option) \<times> 'w" and r w2
    using breaker_inv_succeeded [OF assms(1) inv] that assms(1) inv
    by (simp add: Execute_def admits_def breaker_inv_def breaker_state_def)
  show ?thesis using count state reject recover by blast
qed

theorem breaker_counts_failures_witness:
  "let fail = (\<lambda>w :: int. ((None :: unit option, Some (plain_err ''x'')), w + 1));
       (hs, cb, w) = run_calls (\<lambda>w. w) [fail, fail, fail] [] (NewCircuitBreaker 2 30) 0
   in hs = [False, False] \<and> cb_state cb = CircuitStateOpen \<and> w = 2 \<and>
      cb_state (fst (snd (Execute (\<lambda>w. w) (\<lambda>w. ((Some (), None), w)) cb 33))) = CircuitStateClosed"
proof -
  let ?fail = "\<lambda>w :: int. ((None :: unit option, Some (plain_err ''x'')), w + 1)"
  let ?cb = "\<lparr>cb_failureThreshold = 2, cb_timeout = 30, cb_state = CircuitStateOpen,
    cb_failureCount = 2, cb_lastFailure = Some 2\<rparr>"
  have run: "run_calls (\<lambda>w. w) [?fail, ?fail, ?fail] [] (NewCircuitBreaker 2 30) 0
      = ([False, False], ?cb, 2)"
    by (simp add: Execute_def admits_def NewCircuitBreaker_def failed_def enter_def since_def Let_def)
  from breaker_counts_failures [OF _ run] have "cb_state ?cb = CircuitStateOpen" by simp
  with run show ?thesis
    by (simp add: Execute_def admits_def succeeded_def enter_def since_def Let_def)
qed

text \<open>
  \<^bold>\<open>C37.\<close> The retry loop of the fault tolerant client. For a client that answers its calls in
  any way, an admitted \<^verbatim>\<open>Chat\<close> returns the first answer that is a success or an error it does
  not retry, among the first \<^verbatim>\<open>maxRetries\<close> calls, or else the error of the last of them; it sleeps
  100 ms times the attempt after each retried error, the last one included; and the breaker counts
  the whole loop as one call.
\<close>

theorem ft_chat_retries:
  assumes "1 \<le> ft_maxRetries c" "admits (clock (0, [])) (ft_breaker c)"
  shows "\<exists>k. int k < ft_maxRetries c \<and> (\<forall>j<k. \<not> final_answer (answers j)) \<and>
    (final_answer (answers k) \<or> int k = ft_maxRetries c - 1) \<and>
    (let w' = (Suc k, naps 0 (if final_answer (answers k) then k else Suc k)) in
     ft_Chat clock nap (\<lambda>_. scripted answers) req c (0, []) =
       (Some (answers k),
        c\<lparr>ft_breaker := (if isl (answers k) then failed (clock w') (enter (ft_breaker c))
                         else succeeded (enter (ft_breaker c)))\<rparr>, w'))"
proof -
  have "0 < nat (ft_maxRetries c)" using assms(1) by simp
  from ft_attempts_scripted [OF this, of 0 answers None "[]"] obtain k where
    k: "k < nat (ft_maxRetries c)" "\<forall>j<k. \<not> final_answer (answers j)"
      "final_answer (answers k) \<or> k = nat (ft_maxRetries c) - 1"
      "ft_attempts (scripted answers) nap (nat (ft_maxRetries c)) 0 None (0, []) =
        (as_pair (answers k), (Suc k, naps 0 (if final_answer (answers k) then k else Suc k)))"
    by auto
  show ?thesis
    using k assms
    by (intro exI [of _ k])
      (cases "answers k"; auto simp: ft_Chat_def Execute_def as_pair_def Let_def)
qed

theorem ft_chat_retries_witness:
  "let ok = (\<lambda>n. if n < 2 then Inl (plain_err ''i/o timeout'') else Inr ''answer'') in
   fst (ft_Chat (\<lambda>_. 0) nap (\<lambda>_. scripted ok) () NewFaultTolerantUpstreamClient (0, [])) = Some (Inr ''answer'')"
proof -
  let ?ok = "\<lambda>n. if n < 2 then Inl (plain_err ''i/o timeout'') else Inr ''answer''"
  let ?c = NewFaultTolerantUpstreamClient
  have retry: "\<not> final_answer (?ok n)" if "n < 2" for n :: nat
    using that
    by (simp add: final_answer_def isRetryable_def plain_err_def contains_def containsHelper_def
        numeral_eq_Suc)
  have c: "1 \<le> ft_maxRetries ?c" "admits ((\<lambda>_. 0) (0 :: nat, [] :: int list)) (ft_breaker ?c)"
    by (simp_all add: NewFaultTolerantUpstreamClient_def admits_def NewCircuitBreaker_def)
  obtain k where k: "int k < ft_maxRetries ?c" "final_answer (?ok k) \<or> int k = ft_maxRetries ?c - 1"
      "let w' = (Suc k, naps 0 (if final_answer (?ok k) then k else Suc k)) in
       ft_Chat (\<lambda>_. 0) nap (\<lambda>_. scripted ?ok) () ?c (0, []) = (Some (?ok k),
         ?c\<lparr>ft_breaker := (if isl (?ok k) then failed ((\<lambda>_. 0) w') (enter (ft_breaker ?c))
                         else succeeded (enter (ft_breaker ?c)))\<rparr>, w')"
    using ft_chat_retries [OF c, of ?ok "()"] by blast
  have "ft_maxRetries ?c = 3" by (simp add: NewFaultTolerantUpstreamClient_def)
  with k(1,2) retry [of k] have "\<not> k < 2" by linarith
  then have "?ok k = Inr ''answer''" by simp
  with k(3) show ?thesis by (simp only: Let_def fst_conv)
qed

text \<open>
  The client around gobreaker makes at most \<^verbatim>\<open>maxRetries + 1\<close> attempts with the delay
  between two of them, returns the first success, and otherwise wraps the error of the last attempt.
\<close>

theorem retry_call_attempts:
  assumes "0 \<le> cc_maxRetries c"
  shows "\<exists>k. int k \<le> cc_maxRetries c \<and> (\<forall>j<k. isl (answers j)) \<and>
    (\<not> isl (answers k) \<or> int k = cc_maxRetries c) \<and>
    retry_call what (scripted answers) nap c (0, []) =
      ((case answers k of Inr v \<Rightarrow> Inr v | Inl e \<Rightarrow> Inl (wrap_failure what (cc_maxRetries c) (Some e))),
       (Suc k, replicate k (cc_retryDelay c)))"
proof -
  from retry_from_scripted [of 0 "nat (cc_maxRetries c)" answers "cc_retryDelay c" "[]"] obtain k where
    k: "k \<le> nat (cc_maxRetries c)" "\<forall>j<k. isl (answers j)"
      "\<not> isl (answers k) \<or> k = nat (cc_maxRetries c)"
      "retry_from (scripted answers) (nap (cc_retryDelay c)) (nat (cc_maxRetries c)) (0, [])
        = (answers k, (Suc k, replicate k (cc_retryDelay c)))"
    by auto
  with assms show ?thesis
    by (intro exI [of _ k]) (auto simp: retry_call_def split: sum.splits)
qed

theorem retry_call_attempts_witness:
  "fst (retry_call ''chat'' (scripted (\<lambda>n. if n = 0 then Inl open_err else Inr n)) nap
     \<lparr>cc_maxRetries = 2, cc_retryDelay = 5\<rparr> (0, [])) \<noteq> Inl (wrap_failure ''chat'' 2 (Some open_err))"
proof -
  let ?answers = "\<lambda>n. if n = 0 then Inl open_err else Inr n"
  let ?c = "\<lparr>cc_maxRetries = 2, cc_retryDelay = 5\<rparr>"
  have "0 \<le> cc_maxRetries ?c" by simp
  from retry_call_attempts [OF this, of ?answers "''chat''"] obtain k where
    k: "\<not> isl (?answers k) \<or> int k = cc_maxRetries ?c"
      "retry_call ''chat'' (scripted ?answers) nap ?c (0, []) =
        ((case ?answers k of Inr v \<Rightarrow> Inr v
          | Inl e \<Rightarrow> Inl (wrap_failure ''chat'' (cc_maxRetries ?c) (Some e))),
         (Suc k, replicate k (cc_retryDelay ?c)))"
    by blast
  from k(1) have "?answers k = Inr k" by (cases k) simp_all
  with k(2) show ?thesis by (simp del: One_nat_def)
qed

end
