(* ===== verification/Upstream.thy ===== *)
theory Upstream
  imports GoFloat GoText GoValue
begin

text \<open>
  \<^verbatim>\<open>internal/adapter/upstream/client.go\<close>, the types of the upstream interface and the echo
  client, with \<^verbatim>\<open>internal/service/tokenizer/tokenizer.go\<close>. The tiktoken encoder is an argument.
\<close>

section \<open>The interface types\<close>

record ModelPricing =
  mp_InputPricePer1K :: f64
  mp_OutputPricePer1K :: f64

definition zero_ModelPricing :: ModelPricing where
  "zero_ModelPricing = \<lparr>mp_InputPricePer1K = fzero, mp_OutputPricePer1K = fzero\<rparr>"

record Message =
  msg_Role :: string
  msg_Content :: string

record ChatRequest =
  cr_Model :: string
  cr_Messages :: "Message list"
  cr_Stream :: bool
  cr_Params :: "amap option"
  cr_Seed :: "int option"

record ChatResponse =
  rs_Model :: string
  rs_Content :: string
  rs_FinishReason :: string
  rs_TokensUsed :: int
  rs_CostUSD :: f64

record Usage =
  us_InputTokens :: int
  us_OutputTokens :: int
  us_TotalTokens :: int
  us_CostUSD :: f64

definition zero_Usage :: Usage where
  "zero_Usage = \<lparr>us_InputTokens = 0, us_OutputTokens = 0, us_TotalTokens = 0, us_CostUSD = fzero\<rparr>"

record StreamEvent =
  ev_Content :: string
  ev_Done :: bool
  ev_Error :: "string option"
  ev_Usage :: "Usage option"

definition zero_StreamEvent :: StreamEvent where
  "zero_StreamEvent = \<lparr>ev_Content = [], ev_Done = False, ev_Error = None, ev_Usage = None\<rparr>"

section \<open>The tokenizer\<close>

record 'tok OpenAITokenizer =
  tk_model :: string
  tk_encode :: "string \<Rightarrow> 'tok list"

definition NewOpenAITokenizer ::
    "(string \<Rightarrow> (string \<Rightarrow> 'tok list) result) \<Rightarrow> (string \<Rightarrow> (string \<Rightarrow> 'tok list) result) \<Rightarrow> string
      \<Rightarrow> 'tok OpenAITokenizer result" where
  "NewOpenAITokenizer EncodingForModel GetEncoding model =
     (case EncodingForModel model of
        Inr enc \<Rightarrow> Inr \<lparr>tk_model = model, tk_encode = enc\<rparr>
      | Inl _ \<Rightarrow> (case GetEncoding ''cl100k_base'' of
          Inl e \<Rightarrow> Inl (''failed to get encoding: '' @ e)
        | Inr enc \<Rightarrow> Inr \<lparr>tk_model = model, tk_encode = enc\<rparr>))"

definition CountTokens :: "'tok OpenAITokenizer \<Rightarrow> string \<Rightarrow> int result" where
  "CountTokens t text = Inr (int (length (tk_encode t text)))"

definition DefaultTokenizer ::
    "(string \<Rightarrow> (string \<Rightarrow> 'tok list) result) \<Rightarrow> (string \<Rightarrow> (string \<Rightarrow> 'tok list) result)
      \<Rightarrow> 'tok OpenAITokenizer result" where
  "DefaultTokenizer EncodingForModel GetEncoding =
     NewOpenAITokenizer EncodingForModel GetEncoding ''gpt-3.5-turbo''"

section \<open>The echo client\<close>

record 'tok OpenAIClient =
  oc_model :: string
  oc_pricing :: "string \<rightharpoonup> ModelPricing"
  oc_tokenizer :: "'tok OpenAITokenizer"

definition echo_pricing :: "string \<rightharpoonup> ModelPricing" where
  "echo_pricing =
     [''gpt-4o'' \<mapsto> \<lparr>mp_InputPricePer1K = lit (5/1000), mp_OutputPricePer1K = lit (15/1000)\<rparr>,
      ''gpt-4o-mini'' \<mapsto> \<lparr>mp_InputPricePer1K = lit (15/100000), mp_OutputPricePer1K = lit (6/10000)\<rparr>,
      ''gpt-4-turbo'' \<mapsto> \<lparr>mp_InputPricePer1K = lit (1/100), mp_OutputPricePer1K = lit (3/100)\<rparr>,
      ''gpt-3.5-turbo'' \<mapsto> \<lparr>mp_InputPricePer1K = lit (5/10000), mp_OutputPricePer1K = lit (15/10000)\<rparr>]"

definition oc_GetPricing :: "'tok OpenAIClient \<Rightarrow> string \<Rightarrow> f64" where
  "oc_GetPricing c model = (case oc_pricing c model of
     Some p \<Rightarrow> fdiv (fdiv (fadd (mp_InputPricePer1K p) (mp_OutputPricePer1K p)) (Fin 2)) (Fin 1000)
   | None \<Rightarrow> lit (1/100000))"

definition count_or_estimate :: "'tok OpenAIClient \<Rightarrow> string \<Rightarrow> int" where
  "count_or_estimate c s = (case CountTokens (oc_tokenizer c) s of
     Inr n \<Rightarrow> n | Inl _ \<Rightarrow> int (length s) div 4)"

definition oc_Chat :: "'tok OpenAIClient \<Rightarrow> ChatRequest \<Rightarrow> ChatResponse result" where
  "oc_Chat c req =
     (if cr_Messages req = [] then Inl ''no messages provided''
      else let lastMsg = last (cr_Messages req);
               tokensUsed = count_or_estimate c (msg_Content lastMsg);
               pricing = oc_GetPricing c (cr_Model req)
           in Inr \<lparr>rs_Model = cr_Model req, rs_Content = ''Echo: '' @ msg_Content lastMsg,
                rs_FinishReason = ''stop'', rs_TokensUsed = tokensUsed,
                rs_CostUSD = fmul (f_of_int tokensUsed) pricing\<rparr>)"

text \<open>The loop of \<^verbatim>\<open>splitIntoWords\<close> over the runes, with the words so far and the open word.\<close>

fun split_runes :: "nat list \<Rightarrow> string list \<Rightarrow> string \<Rightarrow> string list" where
  "split_runes [] res word = (if word \<noteq> [] then res @ [word] else res)"
| "split_runes (c # cs) res word =
     (if c = 32 \<or> c = 10
      then let res = (if word \<noteq> [] then res @ [word] else res);
               res = (if c = 10 then res @ [[byte 10]] else res)
           in split_runes cs res []
      else split_runes cs res (word @ encode_rune c))"

definition splitIntoWords :: "string \<Rightarrow> string list" where
  "splitIntoWords s =
     (if s = [] then []
      else let res = split_runes (runes s) [] [] in if res = [] then [s] else res)"

text \<open>
  The events of \<^verbatim>\<open>StreamChat\<close>. \<open>cancelled i\<close>: the context is done at the select before word \<open>i\<close>.
\<close>

fun stream_words ::
    "'tok OpenAIClient \<Rightarrow> string \<Rightarrow> (nat \<Rightarrow> bool) \<Rightarrow> nat \<Rightarrow> int \<Rightarrow> string list \<Rightarrow> StreamEvent list" where
  "stream_words c model cancelled i totalTokens [] = []"
| "stream_words c model cancelled i totalTokens (word # rest) =
     (if cancelled i then []
      else let event = zero_StreamEvent\<lparr>ev_Content := word\<rparr>;
               totalTokens = totalTokens + count_or_estimate c word
           in event #
             (if rest = []
              then [event\<lparr>ev_Done := True,
                     ev_Usage := Some (zero_Usage\<lparr>us_TotalTokens := totalTokens,
                       us_CostUSD := fmul (oc_GetPricing c model) (f_of_int totalTokens)\<rparr>)\<rparr>]
              else stream_words c model cancelled (Suc i) totalTokens rest))"

definition oc_StreamChat :: "'tok OpenAIClient \<Rightarrow> (nat \<Rightarrow> bool) \<Rightarrow> ChatRequest \<Rightarrow> StreamEvent list result" where
  "oc_StreamChat c cancelled req =
     (if cr_Messages req = [] then Inl ''no messages provided''
      else Inr (stream_words c (cr_Model req) cancelled 0 0
                  (splitIntoWords (msg_Content (last (cr_Messages req))))))"

section \<open>The factory\<close>

type_synonym 'c ClientFactory = "string \<rightharpoonup> 'c"

definition cf_Register :: "string \<Rightarrow> 'c \<Rightarrow> 'c ClientFactory \<Rightarrow> 'c ClientFactory" where
  "cf_Register name client f = f(name \<mapsto> client)"

definition cf_Get :: "string \<Rightarrow> 'c ClientFactory \<Rightarrow> 'c option" where
  "cf_Get name f = f name"

section \<open>What the echo stream delivers\<close>

lemma concat_split_runes:
  "concat (split_runes cs res word) = concat res @ word @ concat (map encode_rune (filter (\<lambda>c. c \<noteq> 32) cs))"
proof (induction cs arbitrary: res word)
  case (Cons c cs)
  have "encode_rune 10 = [byte 10]" by (simp add: encode_rune_def encode_scalar_def scalar_def)
  with Cons show ?case by (auto simp: Let_def)
qed auto

lemma split_runes_no_Nil:
  "[] \<notin> set res \<Longrightarrow> [] \<notin> set (split_runes cs res word)"
proof (induction cs arbitrary: res word)
  case (Cons c cs)
  then show ?case by (simp add: Let_def)
qed auto

lemma encode_rune_not_Nil [simp]: "encode_rune r \<noteq> []"
  by (simp add: encode_rune_def encode_scalar_def)

lemma split_runes_Nil_iff:
  "split_runes cs res word = [] \<longleftrightarrow> res = [] \<and> word = [] \<and> set cs \<subseteq> {32}"
  by (induction cs arbitrary: res word) (auto simp: Let_def)

definition stream_usage :: "'tok OpenAIClient \<Rightarrow> string \<Rightarrow> int \<Rightarrow> Usage" where
  "stream_usage c model n = zero_Usage\<lparr>us_TotalTokens := n,
     us_CostUSD := fmul (oc_GetPricing c model) (f_of_int n)\<rparr>"

lemma stream_words_events:
  "(\<And>i. \<not> cancelled i) \<Longrightarrow> ws \<noteq> [] \<Longrightarrow>
   stream_words c model cancelled i n ws =
     map (\<lambda>w. zero_StreamEvent\<lparr>ev_Content := w\<rparr>) ws @
     [\<lparr>ev_Content = last ws, ev_Done = True, ev_Error = None,
       ev_Usage = Some (stream_usage c model (n + (\<Sum>w\<leftarrow>ws. count_or_estimate c w)))\<rparr>]"
  by (induction ws arbitrary: i n)
    (auto simp: Let_def zero_StreamEvent_def stream_usage_def add.assoc)

section \<open>The properties\<close>

text \<open>
  What the echo client streams when the context is not cancelled: an empty message gives
  no event at all, so no event that says done; a blank one is streamed whole; otherwise the words are
  sent in order with no spaces, their text being the message without its spaces, and then the last
  word is sent a second time in the event that says done and carries the usage.
\<close>

theorem echo_stream_events:
  assumes "\<And>i. \<not> cancelled i" "cr_Messages req \<noteq> []" "s = msg_Content (last (cr_Messages req))"
  shows "\<exists>ws. (s = [] \<longrightarrow> ws = []) \<and>
    (s \<noteq> [] \<longrightarrow> set (runes s) \<subseteq> {32} \<longrightarrow> ws = [s]) \<and>
    (\<not> set (runes s) \<subseteq> {32} \<longrightarrow> [] \<notin> set ws \<and> ws \<noteq> [] \<and>
       concat ws = string_of_runes (filter (\<lambda>c. c \<noteq> 32) (runes s))) \<and>
    (case oc_StreamChat c cancelled req of Inl _ \<Rightarrow> False | Inr es \<Rightarrow>
       map ev_Content es = (if ws = [] then [] else ws @ [last ws]) \<and>
       map ev_Done es = (if ws = [] then [] else replicate (length ws) False @ [True]))"
proof (intro exI [of _ "splitIntoWords s"] conjI impI)
  let ?r = "split_runes (runes s) [] []"
  show "splitIntoWords s = []" if "s = []"
    using that by (simp add: splitIntoWords_def)
  show "splitIntoWords s = [s]" if "s \<noteq> []" "set (runes s) \<subseteq> {32}"
    using that split_runes_Nil_iff [of "runes s" "[]" "[]"] by (simp add: splitIntoWords_def)
  have r: "splitIntoWords s = ?r \<and> ?r \<noteq> []" if "\<not> set (runes s) \<subseteq> {32}"
    using that split_runes_Nil_iff [of "runes s" "[]" "[]"] by (auto simp: splitIntoWords_def)
  show "[] \<notin> set (splitIntoWords s)" "splitIntoWords s \<noteq> []"
    "concat (splitIntoWords s) = string_of_runes (filter (\<lambda>c. c \<noteq> 32) (runes s))"
    if "\<not> set (runes s) \<subseteq> {32}"
    using r [OF that] split_runes_no_Nil [of "[]" "runes s" "[]"] concat_split_runes [of "runes s" "[]" "[]"]
    by (simp_all add: string_of_runes_def)
  show "case oc_StreamChat c cancelled req of Inl _ \<Rightarrow> False | Inr es \<Rightarrow>
       map ev_Content es = (if splitIntoWords s = [] then [] else splitIntoWords s @ [last (splitIntoWords s)]) \<and>
       map ev_Done es = (if splitIntoWords s = [] then [] else replicate (length (splitIntoWords s)) False @ [True])"
    using assms stream_words_events [where cancelled = cancelled and ws = "splitIntoWords s" and c = c
        and model = "cr_Model req" and i = 0 and n = 0]
    by (cases "splitIntoWords s = []")
      (simp_all add: oc_StreamChat_def zero_StreamEvent_def comp_def map_replicate_const)
qed

theorem echo_stream_events_witness:
  "case oc_StreamChat \<lparr>oc_model = [], oc_pricing = Map.empty,
       oc_tokenizer = \<lparr>tk_model = [], tk_encode = (\<lambda>s. s)\<rparr>\<rparr> (\<lambda>_. False)
     \<lparr>cr_Model = [], cr_Messages = [\<lparr>msg_Role = [], msg_Content = ''''\<rparr>], cr_Stream = True,
      cr_Params = None, cr_Seed = None\<rparr> of Inl _ \<Rightarrow> False | Inr es \<Rightarrow> map ev_Content es = []"
proof -
  let ?c = "\<lparr>oc_model = [], oc_pricing = Map.empty,
       oc_tokenizer = \<lparr>tk_model = [], tk_encode = (\<lambda>s. s)\<rparr>\<rparr> :: char OpenAIClient"
  let ?req = "\<lparr>cr_Model = [], cr_Messages = [\<lparr>msg_Role = [], msg_Content = ''''\<rparr>], cr_Stream = True,
      cr_Params = None, cr_Seed = None\<rparr>"
  have "\<not> (\<lambda>_. False) (i :: nat)" for i by simp
  from echo_stream_events [OF this, of ?req "[]" ?c] show ?thesis
    by (auto split: sum.splits)
qed

end
