(* ===== verification/Sse.thy ===== *)
theory Sse
  imports Upstream
begin

text \<open>
  Server-sent events: \<^verbatim>\<open>sse_decoder.go\<close>, \<^verbatim>\<open>sse_reader.go\<close> and the client that reads a
  provider's stream with the latter, \<^verbatim>\<open>real_client.go\<close>, all of \<^verbatim>\<open>internal/adapter/upstream\<close>.
  \<^verbatim>\<open>encoding/json\<close> and the HTTP round trip are arguments.
\<close>

section \<open>The decoder\<close>

record SSEEvent =
  sse_Type :: string
  sse_Data :: string

text \<open>A decoder is its scanner: the lines that remain and the error after them.\<close>

type_synonym SSEDecoder = "string list \<times> string option"

definition NewSSEDecoder :: "string \<Rightarrow> SSEDecoder" where
  "NewSSEDecoder body = scan_lines body"

abbreviation EOF :: string where "EOF \<equiv> ''EOF''"

definition sse_field :: "string \<Rightarrow> SSEEvent \<Rightarrow> SSEEvent" where
  "sse_field line event =
     (case SplitN2 line (CHR '':'') of (field, rest) \<Rightarrow>
        let v = (case rest of Some r \<Rightarrow> TrimPrefix r '' '' | None \<Rightarrow> []) in
        if field = ''event'' then event\<lparr>sse_Type := v\<rparr>
        else if field = ''data'' then event\<lparr>sse_Data := sse_Data event @ v @ [byte 10]\<rparr>
        else event)"

fun Decode_from :: "SSEEvent \<Rightarrow> string list \<Rightarrow> string option \<Rightarrow> SSEEvent result \<times> SSEDecoder" where
  "Decode_from event [] err =
     ((case err of
         Some e \<Rightarrow> Inl e
       | None \<Rightarrow> if sse_Data event \<noteq> []
           then Inr (event\<lparr>sse_Data := TrimSuffix (sse_Data event) [byte 10]\<rparr>) else Inl EOF),
      ([], err))"
| "Decode_from event (line # ls) err =
     (if line = [] then (Inr event, (ls, err))
      else if HasPrefix line '':'' then Decode_from event ls err
      else Decode_from (sse_field line event) ls err)"

definition Decode :: "SSEDecoder \<Rightarrow> SSEEvent result \<times> SSEDecoder" where
  "Decode d = Decode_from \<lparr>sse_Type = ''message'', sse_Data = []\<rparr> (fst d) (snd d)"

section \<open>The reader\<close>

text \<open>
  What \<^verbatim>\<open>json.Unmarshal\<close> finds in the data of an event: of each choice the content of its
  delta and its finish reason, and the usage.
\<close>

record OpenAIResp =
  oa_Choices :: "(string \<times> string) list"
  oa_Usage :: "Usage option"

definition processEvent :: "(string \<Rightarrow> OpenAIResp option) \<Rightarrow> string \<Rightarrow> string \<Rightarrow> StreamEvent" where
  "processEvent unmarshal eventType dat =
     (case unmarshal dat of
        None \<Rightarrow> zero_StreamEvent\<lparr>ev_Content := dat\<rparr>
      | Some resp \<Rightarrow> (case oa_Choices resp of
          [] \<Rightarrow> zero_StreamEvent
        | (content, finishReason) # _ \<Rightarrow>
            zero_StreamEvent\<lparr>ev_Content := content, ev_Done := finishReason \<noteq> [],
              ev_Usage := oa_Usage resp\<rparr>))"

text \<open>The loop over the lines: the type and data of the first complete event and the lines after it.\<close>

fun parse_lines :: "string \<Rightarrow> string list \<Rightarrow> string list \<Rightarrow> (string \<times> string \<times> string list) option" where
  "parse_lines eventType eventData [] = None"
| "parse_lines eventType eventData (l # ls) =
     (let line = TrimSpace l in
      if line = [] then
        (if eventData \<noteq> [] then Some (eventType, Join eventData [byte 10], ls)
         else parse_lines eventType eventData ls)
      else if HasPrefix line ''event:'' then parse_lines (TrimSpace (drop 6 line)) eventData ls
      else if HasPrefix line ''data:'' then parse_lines eventType (eventData @ [TrimSpace (drop 5 line)]) ls
      else parse_lines eventType eventData ls)"

text \<open>\<^verbatim>\<open>ParseEvent\<close> on the buffer; its error is always nil.\<close>

definition ParseEvent :: "(string \<Rightarrow> OpenAIResp option) \<Rightarrow> string \<Rightarrow> string \<Rightarrow> StreamEvent \<times> string" where
  "ParseEvent unmarshal dat buffer =
     (let buffer = buffer @ dat in
      case parse_lines [] [] (Split buffer (byte 10)) of
        Some (eventType, dataStr, rest) \<Rightarrow> (processEvent unmarshal eventType dataStr, Join rest [byte 10])
      | None \<Rightarrow> (zero_StreamEvent, buffer))"

section \<open>The client of a provider\<close>

record RealUpstreamClient =
  rc_baseURL :: string
  rc_authHeader :: string
  rc_provider :: string
  rc_model :: string
  rc_pricing :: "string \<rightharpoonup> ModelPricing"

definition real_pricing :: "string \<rightharpoonup> ModelPricing" where
  "real_pricing =
     [''gpt-4o'' \<mapsto> \<lparr>mp_InputPricePer1K = lit (5/1000), mp_OutputPricePer1K = lit (15/1000)\<rparr>,
      ''gpt-4o-mini'' \<mapsto> \<lparr>mp_InputPricePer1K = lit (15/100000), mp_OutputPricePer1K = lit (6/10000)\<rparr>,
      ''gpt-4-turbo'' \<mapsto> \<lparr>mp_InputPricePer1K = lit (1/100), mp_OutputPricePer1K = lit (3/100)\<rparr>,
      ''gpt-3.5-turbo'' \<mapsto> \<lparr>mp_InputPricePer1K = lit (5/10000), mp_OutputPricePer1K = lit (15/10000)\<rparr>,
      ''deepseek-chat'' \<mapsto> \<lparr>mp_InputPricePer1K = lit (1/10000), mp_OutputPricePer1K = lit (1/10000)\<rparr>,
      ''qwen-max'' \<mapsto> \<lparr>mp_InputPricePer1K = lit (3/10000), mp_OutputPricePer1K = lit (3/10000)\<rparr>,
      ''qwen-plus'' \<mapsto> \<lparr>mp_InputPricePer1K = lit (2/10000), mp_OutputPricePer1K = lit (2/10000)\<rparr>,
      ''qwen-turbo'' \<mapsto> \<lparr>mp_InputPricePer1K = lit (1/10000), mp_OutputPricePer1K = lit (1/10000)\<rparr>]"

definition NewRealUpstreamClient :: "string \<Rightarrow> string \<Rightarrow> string \<Rightarrow> string \<Rightarrow> RealUpstreamClient" where
  "NewRealUpstreamClient provider baseURL authHeader model =
     \<lparr>rc_baseURL = baseURL, rc_authHeader = authHeader, rc_provider = provider, rc_model = model,
      rc_pricing = real_pricing\<rparr>"

record HttpReply =
  hr_StatusCode :: int
  hr_Body :: "string result"

record ChatBody =
  cb_Choices :: "(string \<times> string) list"
  cb_PromptTokens :: int
  cb_CompletionTokens :: int
  cb_TotalTokens :: int

text \<open>
  The exchange before the body is used, shared by both calls: \<open>marshal\<close> is the JSON text of the
  request, \<open>newRequest\<close> the error of \<^verbatim>\<open>http.NewRequestWithContext\<close>, \<open>doHTTP\<close> the round trip
  on URL, headers and body.
\<close>

type_synonym header_list = "(string \<times> string) list"

definition json_headers :: "RealUpstreamClient \<Rightarrow> header_list" where
  "json_headers c = [(''Content-Type'', ''application/json''), (''Authorization'', rc_authHeader c)]"

definition sse_headers :: header_list where
  "sse_headers = [(''Accept'', ''text/event-stream''), (''Cache-Control'', ''no-cache''),
     (''Connection'', ''keep-alive'')]"

definition exchange ::
    "(ChatRequest \<Rightarrow> string result) \<Rightarrow> (string \<Rightarrow> string option)
      \<Rightarrow> (string \<Rightarrow> header_list \<Rightarrow> string \<Rightarrow> 'r result) \<Rightarrow> header_list \<Rightarrow> RealUpstreamClient
      \<Rightarrow> ChatRequest \<Rightarrow> 'r result" where
  "exchange marshal newRequest doHTTP headers c req =
     (case marshal req of
        Inl e \<Rightarrow> Inl (''failed to marshal request: '' @ e)
      | Inr reqBody \<Rightarrow>
          let url = rc_baseURL c @ ''/chat/completions'' in
          (case newRequest url of
             Some e \<Rightarrow> Inl (''failed to create request: '' @ e)
           | None \<Rightarrow> (case doHTTP url headers reqBody of
               Inl e \<Rightarrow> Inl (''upstream request failed: '' @ e)
             | Inr resp \<Rightarrow> Inr resp)))"

definition non_200 :: "int \<Rightarrow> string \<Rightarrow> string" where
  "non_200 status body = ''upstream returned non-200 status: '' @ itoa status @ '', body: '' @ body"

definition chat_cost :: "ModelPricing \<Rightarrow> ChatBody \<Rightarrow> f64" where
  "chat_cost pricing usage =
     fadd (fdiv (fmul (f_of_int (cb_PromptTokens usage)) (mp_InputPricePer1K pricing)) (Fin 1000))
          (fdiv (fmul (f_of_int (cb_CompletionTokens usage)) (mp_OutputPricePer1K pricing)) (Fin 1000))"

definition rc_Chat ::
    "(ChatRequest \<Rightarrow> string result) \<Rightarrow> (string \<Rightarrow> string option)
      \<Rightarrow> (string \<Rightarrow> header_list \<Rightarrow> string \<Rightarrow> HttpReply result) \<Rightarrow> (string \<Rightarrow> ChatBody result)
      \<Rightarrow> RealUpstreamClient \<Rightarrow> ChatRequest \<Rightarrow> ChatResponse result" where
  "rc_Chat marshal newRequest doHTTP unmarshal c req =
     (if cr_Messages req = [] then Inl ''messages cannot be empty''
      else bind_result (exchange marshal newRequest doHTTP (json_headers c) c req) (\<lambda>resp.
        case hr_Body resp of
          Inl e \<Rightarrow> Inl (''failed to read response body: '' @ e)
        | Inr body \<Rightarrow>
            if hr_StatusCode resp \<noteq> 200 then Inl (non_200 (hr_StatusCode resp) body)
            else (case unmarshal body of
                Inl e \<Rightarrow> Inl (''failed to unmarshal response: '' @ e)
              | Inr r \<Rightarrow> (case cb_Choices r of
                  [] \<Rightarrow> Inl ''upstream returned no choices''
                | (content, finishReason) # _ \<Rightarrow>
                    let pricing = (case rc_pricing c (cr_Model req) of Some p \<Rightarrow> p | None \<Rightarrow> zero_ModelPricing)
                    in Inr \<lparr>rs_Model = cr_Model req, rs_Content = content, rs_FinishReason = finishReason,
                         rs_TokensUsed = cb_TotalTokens r, rs_CostUSD = chat_cost pricing r\<rparr>))))"

text \<open>
  \<^verbatim>\<open>GetPricing\<close> returns a price beside its error.
\<close>

definition rc_GetPricing :: "RealUpstreamClient \<Rightarrow> string \<Rightarrow> f64 \<times> string option" where
  "rc_GetPricing c model = (case rc_pricing c model of
     Some p \<Rightarrow> (mp_InputPricePer1K p, None)
   | None \<Rightarrow> (lit (2/1000), Some (''pricing not found for model: '' @ model)))"

text \<open>
  One round of the goroutine of \<^verbatim>\<open>StreamChat\<close>: what the selects on the context and the body
  give in it. A read delivers a chunk, the end or an error.
\<close>

datatype read_result = Chunk string | ReadEOF | ReadErr string

record round =
  rd_cancelled :: bool
  rd_deadlineErr :: "string option"
  rd_read :: read_result
  rd_sendCancelled :: bool

definition error_event :: "string \<Rightarrow> StreamEvent" where
  "error_event e = zero_StreamEvent\<lparr>ev_Done := True, ev_Error := Some e\<rparr>"

fun pump :: "(string \<Rightarrow> OpenAIResp option) \<Rightarrow> string \<Rightarrow> round list \<Rightarrow> StreamEvent list" where
  "pump unmarshal buffer [] = []"
| "pump unmarshal buffer (r # rs) =
     (if rd_cancelled r then []
      else case rd_deadlineErr r of
        Some e \<Rightarrow> (if rd_sendCancelled r then [] else [error_event (''failed to set read deadline: '' @ e)])
      | None \<Rightarrow> (case rd_read r of
          ReadEOF \<Rightarrow> []
        | ReadErr e \<Rightarrow> (if rd_sendCancelled r then [] else [error_event (''failed to read stream: '' @ e)])
        | Chunk dat \<Rightarrow>
            if dat = [] then pump unmarshal buffer rs
            else (case ParseEvent unmarshal dat buffer of (event, buffer') \<Rightarrow>
              if rd_sendCancelled r then [] else event # pump unmarshal buffer' rs)))"

definition rc_StreamChat ::
    "(ChatRequest \<Rightarrow> string result) \<Rightarrow> (string \<Rightarrow> string option)
      \<Rightarrow> (string \<Rightarrow> header_list \<Rightarrow> string \<Rightarrow> (int \<times> string \<times> round list) result)
      \<Rightarrow> (string \<Rightarrow> OpenAIResp option) \<Rightarrow> RealUpstreamClient \<Rightarrow> ChatRequest \<Rightarrow> StreamEvent list result" where
  "rc_StreamChat marshal newRequest doHTTP unmarshal c req =
     bind_result (exchange marshal newRequest doHTTP (json_headers c @ sse_headers) c req)
       (\<lambda>(status, body, rounds).
          if status \<noteq> 200 then Inl (non_200 status body) else Inr (pump unmarshal [] rounds))"

section \<open>The decoder against the format\<close>

text \<open>The text a sender writes for an event, and calling the decoder until its first error.\<close>

definition sse_line :: "string \<Rightarrow> string \<Rightarrow> string" where
  "sse_line field v = field @ '': '' @ v"

definition encode_event :: "string \<times> string list \<Rightarrow> string" where
  "encode_event ev = concat (map (\<lambda>l. l @ [byte 10])
     (sse_line ''event'' (fst ev) # map (sse_line ''data'') (snd ev) @ [[]]))"

fun decode_calls :: "nat \<Rightarrow> SSEDecoder \<Rightarrow> SSEEvent result list" where
  "decode_calls 0 d = []"
| "decode_calls (Suc n) d = (case Decode d of (r, d') \<Rightarrow> r # decode_calls n d')"

definition event_ok :: "string \<times> string list \<Rightarrow> bool" where
  "event_ok ev \<longleftrightarrow> plain_line (sse_line ''event'' (fst ev)) \<and>
     (\<forall>d \<in> set (snd ev). plain_line (sse_line ''data'' d))"

definition decoded :: "string \<times> string list \<Rightarrow> SSEEvent" where
  "decoded ev = \<lparr>sse_Type = fst ev, sse_Data = concat (map (\<lambda>d. d @ [byte 10]) (snd ev))\<rparr>"

lemma sse_field_line:
  "sse_field (sse_line ''event'' v) e = e\<lparr>sse_Type := v\<rparr>"
  "sse_field (sse_line ''data'' v) e = e\<lparr>sse_Data := sse_Data e @ v @ [byte 10]\<rparr>"
proof -
  have "SplitN2 (sse_line f v) (CHR '':'') = (f, Some ('' '' @ v))" if "CHR '':'' \<notin> set f" for f
    using SplitN2_append [OF that, of "'' '' @ v"] by (simp add: sse_line_def)
  then show "sse_field (sse_line ''event'' v) e = e\<lparr>sse_Type := v\<rparr>"
    "sse_field (sse_line ''data'' v) e = e\<lparr>sse_Data := sse_Data e @ v @ [byte 10]\<rparr>"
    by (simp_all add: sse_field_def TrimPrefix_def HasPrefix_def)
qed

lemma sse_line_simps [simp]:
  "sse_line ''event'' v \<noteq> []" "\<not> HasPrefix (sse_line ''event'' v) '':''"
  "sse_line ''data'' v \<noteq> []" "\<not> HasPrefix (sse_line ''data'' v) '':''"
  by (simp_all add: sse_line_def HasPrefix_def)

lemma Decode_from_data:
  "Decode_from e (map (sse_line ''data'') ds @ ls) err =
   Decode_from (e\<lparr>sse_Data := sse_Data e @ concat (map (\<lambda>d. d @ [byte 10]) ds)\<rparr>) ls err"
  by (induction ds arbitrary: e) (simp_all add: sse_field_line)

lemma scan_lines_concat:
  "\<forall>l \<in> set ls. plain_line l \<Longrightarrow>
   scan_lines (concat (map (\<lambda>l. l @ [byte 10]) ls) @ s) = (ls @ fst (scan_lines s), snd (scan_lines s))"
  by (induction ls) (simp_all add: scan_lines_line)

lemma Decode_encoded:
  assumes "event_ok ev"
  shows "Decode (scan_lines (encode_event ev @ s)) = (Inr (decoded ev), scan_lines s)"
proof -
  let ?ls = "sse_line ''event'' (fst ev) # map (sse_line ''data'') (snd ev) @ [[]]"
  have "\<forall>l \<in> set ?ls. plain_line l"
    using assms by (auto simp: event_ok_def plain_line_def)
  from scan_lines_concat [OF this, of s]
  have "scan_lines (encode_event ev @ s) = (?ls @ fst (scan_lines s), snd (scan_lines s))"
    by (simp only: encode_event_def)
  then show ?thesis
    by (simp add: Decode_def sse_field_line Decode_from_data decoded_def)
qed

lemma decode_calls_encoded:
  "\<forall>ev \<in> set evs. event_ok ev \<Longrightarrow>
   decode_calls (length evs + n) (scan_lines (concat (map encode_event evs) @ s)) =
     map (Inr \<circ> decoded) evs @ decode_calls n (scan_lines s)"
  by (induction evs) (simp_all add: Decode_encoded)

section \<open>The reader on whole events\<close>

text \<open>A payload a reader gives back as it is: one line whose ends are printable ASCII.\<close>

definition payload_ok :: "string \<Rightarrow> bool" where
  "payload_ok p \<longleftrightarrow> p \<noteq> [] \<and> byte 10 \<notin> set p \<and> graphic (hd p) \<and> graphic (last p)"

definition data_event :: "string \<Rightarrow> string" where
  "data_event p = ''data: '' @ p @ [byte 10, byte 10]"

lemma TrimSpace_Nil [simp]: "TrimSpace [] = []"
  by (rule TrimSpace_graphic) simp

lemma trim_payload_line:
  assumes "payload_ok p"
  shows "TrimSpace (''data: '' @ p) = ''data: '' @ p" "TrimSpace ('' '' @ p) = p"
proof -
  have d: "graphic (CHR ''d'')" by code_simp
  with assms show "TrimSpace (''data: '' @ p) = ''data: '' @ p"
    by (intro TrimSpace_graphic) (simp add: payload_ok_def)
  obtain c s where p: "p = c # s" "graphic c" using assms by (cases p) (auto simp: payload_ok_def)
  have "trim_codes space_codes ('' '' @ p) = trim_codes space_codes p"
    by (simp add: trim_codes_blank)
  then have "TrimSpace ('' '' @ p) = TrimSpace p" by (simp add: TrimSpace_def)
  also have "TrimSpace p = p" using assms by (intro TrimSpace_graphic) (simp add: payload_ok_def)
  finally show "TrimSpace ('' '' @ p) = p" .
qed

lemma byte10_not_data: "byte 10 \<notin> set ''data: ''"
  by code_simp

lemma Split_data_event:
  assumes "payload_ok p"
  shows "Split (data_event p @ s) (byte 10) = (''data: '' @ p) # [] # Split s (byte 10)"
proof -
  have "byte 10 \<notin> set (''data: '' @ p)"
    using assms byte10_not_data by (simp only: set_append Un_iff payload_ok_def) simp
  from Split_append_sep [OF this, of "byte 10 # s"] show ?thesis
    by (simp only: data_event_def append_assoc append_Cons append_Nil Split_Cons_sep)
qed

lemma parse_data_event:
  assumes "payload_ok p"
  shows "parse_lines t ds ((''data: '' @ p) # [] # ls) = Some (t, Join (ds @ [p]) [byte 10], ls)"
proof -
  have "\<not> HasPrefix (''data: '' @ p) ''event:''" "HasPrefix (''data: '' @ p) ''data:''"
    "drop 5 (''data: '' @ p) = '' '' @ p"
    by (simp_all add: HasPrefix_def)
  then show ?thesis
    using trim_payload_line [OF assms]
    by (subst parse_lines.simps) (simp only: Let_def, simp)
qed

lemma ParseEvent_data_event:
  assumes "payload_ok p"
  shows "ParseEvent unmarshal (data_event p @ s) [] = (processEvent unmarshal [] p, s)"
  using assms
  by (simp only: ParseEvent_def Let_def append_Nil Split_data_event parse_data_event)
    (simp add: Join_Split)

definition chunk_round :: "string \<Rightarrow> round" where
  "chunk_round s = \<lparr>rd_cancelled = False, rd_deadlineErr = None, rd_read = Chunk s, rd_sendCancelled = False\<rparr>"

definition eof_round :: round where
  "eof_round = \<lparr>rd_cancelled = False, rd_deadlineErr = None, rd_read = ReadEOF, rd_sendCancelled = False\<rparr>"

lemma data_event_not_Nil [simp]: "data_event p \<noteq> []"
  by (simp add: data_event_def)

lemma pump_whole_events:
  "\<forall>p \<in> set ps. payload_ok p \<Longrightarrow>
   pump unmarshal [] (map (chunk_round \<circ> data_event) ps @ rs) =
     map (processEvent unmarshal []) ps @ pump unmarshal [] rs"
proof (induction ps)
  case (Cons p ps)
  from ParseEvent_data_event [of p unmarshal "[]"] Cons show ?case
    by (simp add: chunk_round_def)
qed simp

section \<open>The properties\<close>

text \<open>
  \<^bold>\<open>C38.\<close> The decoder reads back what a sender writes: the events of a stream come out one by one,
  in order, with their type and their data lines each followed by a newline, and then the end of the
  stream is reported. Only an event that the stream leaves unterminated has its last newline removed.
\<close>

theorem sse_decode_events:
  assumes "\<forall>ev \<in> set evs. event_ok ev" "plain_line (sse_line ''data'' tail)"
  shows "decode_calls (length evs + 1) (NewSSEDecoder (concat (map encode_event evs)))
      = map (Inr \<circ> decoded) evs @ [Inl EOF] \<and>
    decode_calls (length evs + 2) (NewSSEDecoder (concat (map encode_event evs) @ sse_line ''data'' tail))
      = map (Inr \<circ> decoded) evs @ [Inr \<lparr>sse_Type = ''message'', sse_Data = tail\<rparr>, Inl EOF]"
proof -
  have eof: "Decode ([], None) = (Inl EOF, ([], None))" by (simp add: Decode_def)
  have whole: "decode_calls (length evs + 1) (NewSSEDecoder (concat (map encode_event evs)))
      = map (Inr \<circ> decoded) evs @ [Inl EOF]"
    using decode_calls_encoded [OF assms(1), of 1 "[]"] eof by (simp add: NewSSEDecoder_def)
  have "Decode (scan_lines (sse_line ''data'' tail)) =
      (Inr \<lparr>sse_Type = ''message'', sse_Data = tail\<rparr>, ([], None))"
    using assms(2) by (simp add: scan_lines_last Decode_def sse_field_line TrimSuffix_def HasSuffix_def)
  then have "decode_calls (length evs + 2) (NewSSEDecoder (concat (map encode_event evs) @ sse_line ''data'' tail))
      = map (Inr \<circ> decoded) evs @ [Inr \<lparr>sse_Type = ''message'', sse_Data = tail\<rparr>, Inl EOF]"
    using decode_calls_encoded [OF assms(1), of 2 "sse_line ''data'' tail"] eof
    by (simp add: NewSSEDecoder_def numeral_2_eq_2)
  with whole show ?thesis ..
qed

theorem sse_decode_events_witness:
  "decode_calls 2 (NewSSEDecoder (encode_event (''ping'', [''a'', ''b'']))) =
     [Inr \<lparr>sse_Type = ''ping'', sse_Data = [CHR ''a'', byte 10, CHR ''b'', byte 10]\<rparr>, Inl EOF]"
proof -
  have "plain_line ''event: ping''" "plain_line ''data: a''" "plain_line ''data: b''" "plain_line ''data: ''"
    by code_simp+
  then have "\<forall>ev \<in> set [(''ping'', [''a'', ''b''])]. event_ok ev" "plain_line (sse_line ''data'' [])"
    by (simp_all add: event_ok_def sse_line_def)
  from sse_decode_events [OF this] show ?thesis by (simp add: decoded_def numeral_2_eq_2)
qed

text \<open>
  The stream of the provider client emits one event per read of the body. When every
  read delivers exactly one event, all of them arrive in order; when a read delivers several, the
  first is emitted, the others wait in the buffer for the next read, and the end of the body loses them.
\<close>

theorem stream_event_per_read:
  assumes "\<forall>p \<in> set ps. payload_ok p" "payload_ok p"
  shows "pump unmarshal [] (map (chunk_round \<circ> data_event) ps @ [eof_round]) =
      map (processEvent unmarshal []) ps \<and>
    pump unmarshal [] [chunk_round (data_event p @ concat (map data_event ps)), eof_round] =
      [processEvent unmarshal [] p]"
  using pump_whole_events [OF assms(1), of unmarshal "[eof_round]"]
    ParseEvent_data_event [OF assms(2), of unmarshal "concat (map data_event ps)"]
  by (simp_all add: eof_round_def chunk_round_def)

theorem stream_event_per_read_witness:
  "pump (\<lambda>_. None) [] [chunk_round (data_event ''a'' @ data_event ''b''), eof_round] =
     [zero_StreamEvent\<lparr>ev_Content := ''a''\<rparr>]"
proof -
  have "payload_ok ''a''" "payload_ok ''b''" by code_simp+
  then have "\<forall>p \<in> set [''b'']. payload_ok p" "payload_ok ''a''" by simp_all
  from stream_event_per_read [OF this, of "\<lambda>_. None"] show ?thesis
    by (simp add: processEvent_def)
qed

end
