(* ===== verification/Extensions.thy ===== *)
theory Extensions
  imports Domain Regex GoText
begin

text \<open>
  \<^verbatim>\<open>internal/service/extensions/registry.go\<close>: the registry of protocol extensions with its
  checks on conflicts and dependencies, the comparison of versions, and the two built-in handlers.
  A handler is a value \<open>'h\<close>; what the methods of the interface do is an argument.
\<close>

section \<open>Entries\<close>

record MaintainerInfo =
  mi_Name :: string
  mi_ContactURI :: string
  mi_GitHubOrg :: string

record 'h ExtensionRegistryEntry =
  en_Namespace :: string
  en_Version :: string
  en_Title :: string
  en_Status :: string
  en_Maintainer :: MaintainerInfo
  en_SpecificationURI :: string
  en_MinProtocolVersion :: string
  en_Dependencies :: "string list"
  en_ConflictsWith :: "string list"
  en_CapabilitiesRequired :: "string list"
  en_SchemaRef :: string
  en_Tags :: "string list"
  en_CreatedAt :: string
  en_UpdatedAt :: string
  en_HandlerClass :: string
  en_Handler :: "'h option"

text \<open>A pattern between the anchors for the start and the end of the text.\<close>

definition FullMatch :: "rx \<Rightarrow> string \<Rightarrow> bool" where
  "FullMatch a s \<longleftrightarrow> list_ex (\<lambda>(p, t). t = []) (rmatch a None (runes s))"

definition rx_literal :: "string \<Rightarrow> rx" where
  "rx_literal w = foldr (\<lambda>c a. RSeq (rx_char c) a) w REps"

definition namespace_rx :: rx where
  "namespace_rx =
     RSeq (rx_literal ''sentoris.ai/v'') (RSeq (rx_plus rx_digit) (RSeq (rx_char (CHR ''/''))
       (rx_plus (RClass [(97, 122), (48, 57), (95, 95), (45, 45)]))))"

definition IsValidNamespace :: "string \<Rightarrow> bool" where
  "IsValidNamespace namespace = FullMatch namespace_rx namespace"

definition version_rx :: rx where
  "version_rx =
     RSeq (rx_plus rx_digit) (RSeq (rx_char (CHR ''.'')) (RSeq (rx_plus rx_digit)
       (RSeq (rx_char (CHR ''.'')) (rx_plus rx_digit))))"

definition IsValidVersion :: "string \<Rightarrow> bool" where
  "IsValidVersion version = FullMatch version_rx version"

definition Entry_Validate :: "'h ExtensionRegistryEntry \<Rightarrow> string option" where
  "Entry_Validate e =
     (if \<not> IsValidNamespace (en_Namespace e) then Some (''invalid namespace format: '' @ en_Namespace e)
      else if \<not> IsValidVersion (en_Version e) then Some (''invalid version format: '' @ en_Version e)
      else if en_Title e = [] then Some ''title is required''
      else if en_Status e = [] then Some ''status is required''
      else if mi_Name (en_Maintainer e) = [] then Some ''maintainer.name is required''
      else if mi_ContactURI (en_Maintainer e) = [] then Some ''maintainer.contact_uri is required''
      else if en_SpecificationURI e = [] then Some ''specification_uri is required''
      else None)"

section \<open>The registry\<close>

type_synonym 'h ExtensionRegistry = "string \<rightharpoonup> 'h ExtensionRegistryEntry"

definition NewExtensionRegistry :: "'h ExtensionRegistry" where
  "NewExtensionRegistry = Map.empty"

definition ext_Register ::
    "'h ExtensionRegistryEntry \<Rightarrow> 'h ExtensionRegistry \<Rightarrow> string option \<times> 'h ExtensionRegistry" where
  "ext_Register entry r =
     (case Entry_Validate entry of
        Some e \<Rightarrow> (Some (''validation failed: '' @ e), r)
      | None \<Rightarrow> (case find (\<lambda>c. r c \<noteq> None) (en_ConflictsWith entry) of
          Some conflict \<Rightarrow> (Some (''extension '' @ en_Namespace entry @
            '' conflicts with already registered extension '' @ conflict), r)
        | None \<Rightarrow> (case find (\<lambda>d. r d = None) (en_Dependencies entry) of
            Some dep \<Rightarrow> (Some (''extension '' @ en_Namespace entry @ '' requires '' @ dep @
              '' which is not registered''), r)
          | None \<Rightarrow> (None, r(en_Namespace entry \<mapsto> entry)))))"

definition ext_Get :: "string \<Rightarrow> 'h ExtensionRegistry \<Rightarrow> 'h ExtensionRegistryEntry option" where
  "ext_Get namespace r = r namespace"

text \<open>The entries in the order \<open>ks\<close> in which the map is ranged over.\<close>

definition entries_in :: "string list \<Rightarrow> 'h ExtensionRegistry \<Rightarrow> 'h ExtensionRegistryEntry list" where
  "entries_in ks r = map (\<lambda>k. the (r k)) ks"

definition ext_List :: "string list \<Rightarrow> 'h ExtensionRegistry \<Rightarrow> 'h ExtensionRegistryEntry list" where
  "ext_List ks r = entries_in ks r"

definition ext_Remove ::
    "string list \<Rightarrow> string \<Rightarrow> 'h ExtensionRegistry \<Rightarrow> string option \<times> 'h ExtensionRegistry" where
  "ext_Remove ks namespace r =
     (if r namespace = None then (Some (''extension '' @ namespace @ '' not found''), r)
      else case find (\<lambda>e. namespace \<in> set (en_Dependencies e)) (entries_in ks r) of
        Some e \<Rightarrow> (Some (''cannot remove '' @ namespace @ '': it is required by '' @ en_Namespace e), r)
      | None \<Rightarrow> (None, r(namespace := None)))"

fun close_entries :: "('h \<Rightarrow> string option) \<Rightarrow> 'h ExtensionRegistryEntry list \<Rightarrow> string option" where
  "close_entries close [] = None"
| "close_entries close (e # es) = (case en_Handler e of
     None \<Rightarrow> close_entries close es
   | Some h \<Rightarrow> (case close h of
       Some err \<Rightarrow> Some (''failed to close extension '' @ en_Namespace e @ '': '' @ err)
     | None \<Rightarrow> close_entries close es))"

definition ext_Close :: "('h \<Rightarrow> string option) \<Rightarrow> string list \<Rightarrow> 'h ExtensionRegistry \<Rightarrow> string option" where
  "ext_Close close ks r = close_entries close (entries_in ks r)"

text \<open>An element that is null in the JSON is a nil entry, and its validation panics.\<close>

fun register_all ::
    "'h ExtensionRegistryEntry option list \<Rightarrow> 'h ExtensionRegistry \<Rightarrow> string option Outcome \<times> 'h ExtensionRegistry" where
  "register_all [] r = (Returns None, r)"
| "register_all (None # es) r = (Panics, r)"
| "register_all (Some e # es) r = (case ext_Register e r of
     (Some err, r') \<Rightarrow> (Returns (Some (''failed to register extension '' @ en_Namespace e @ '': '' @ err)), r')
   | (None, r') \<Rightarrow> register_all es r')"

text \<open>\<open>unmarshal\<close> is \<^verbatim>\<open>json.Unmarshal\<close> into a list of pointers to entries.\<close>

definition LoadFromConfig ::
    "(string \<Rightarrow> 'h ExtensionRegistryEntry option list result) \<Rightarrow> string \<Rightarrow> 'h ExtensionRegistry
      \<Rightarrow> string option Outcome \<times> 'h ExtensionRegistry" where
  "LoadFromConfig unmarshal configData r = (case unmarshal configData of
     Inl e \<Rightarrow> (Returns (Some (''failed to unmarshal extension registry config: '' @ e)), r)
   | Inr entries \<Rightarrow> register_all entries r)"

text \<open>
  The registry as JSON and back: a map of entries, none of them null. The field with the handler is left out of the
  JSON. What was decoded replaces the entries as it is: nothing of what \<^verbatim>\<open>Register\<close> checks is checked here.
\<close>

definition ext_MarshalJSON :: "('h ExtensionRegistry \<Rightarrow> string result) \<Rightarrow> 'h ExtensionRegistry \<Rightarrow> string result" where
  "ext_MarshalJSON marshal r = marshal r"

definition ext_UnmarshalJSON ::
    "(string \<Rightarrow> 'h ExtensionRegistry result) \<Rightarrow> string \<Rightarrow> 'h ExtensionRegistry \<Rightarrow> string option \<times> 'h ExtensionRegistry" where
  "ext_UnmarshalJSON unmarshal data r = (case unmarshal data of Inl e \<Rightarrow> (Some e, r) | Inr entries \<Rightarrow> (None, entries))"

definition without_handlers :: "'h ExtensionRegistry \<Rightarrow> 'h ExtensionRegistry" where
  "without_handlers r = map_option (\<lambda>e. e\<lparr>en_Handler := None\<rparr>) \<circ> r"

definition GetCapabilities :: "string list \<Rightarrow> 'h ExtensionRegistry \<Rightarrow> string list" where
  "GetCapabilities ks r = first_seen [] (concat (map en_CapabilitiesRequired (entries_in ks r)))"

definition FilterByCapability ::
    "string list \<Rightarrow> string \<Rightarrow> 'h ExtensionRegistry \<Rightarrow> 'h ExtensionRegistryEntry list" where
  "FilterByCapability ks capability r =
     filter (\<lambda>e. capability \<in> set (en_CapabilitiesRequired e)) (entries_in ks r)"

section \<open>Versions\<close>

text \<open>\<^verbatim>\<open>fmt.Sscanf\<close> with the format of three verbs d between dots.\<close>

definition skip_dot :: "string \<Rightarrow> string option" where
  "skip_dot s = (case s of [] \<Rightarrow> None | c # t \<Rightarrow> if c = CHR ''.'' then Some t else None)"

text \<open>What is not reached keeps its zero value.\<close>

definition Sscanf_version :: "string \<Rightarrow> int \<times> int \<times> int" where
  "Sscanf_version v = (case scan_d v of
     None \<Rightarrow> (0, 0, 0)
   | Some (major, t) \<Rightarrow> (case Option.bind (skip_dot t) scan_d of
       None \<Rightarrow> (major, 0, 0)
     | Some (minor, t) \<Rightarrow> (case Option.bind (skip_dot t) scan_d of
         None \<Rightarrow> (major, minor, 0)
       | Some (patch, t) \<Rightarrow> (major, minor, patch))))"

text \<open>Subtraction of 64-bit integers.\<close>

definition sub64 :: "int \<Rightarrow> int \<Rightarrow> int" where
  "sub64 a b = (a - b + 9223372036854775808) mod 18446744073709551616 - 9223372036854775808"

definition compareVersions :: "string \<Rightarrow> string \<Rightarrow> int" where
  "compareVersions v1 v2 =
     (case Sscanf_version v1 of (major1, minor1, patch1) \<Rightarrow>
      case Sscanf_version v2 of (major2, minor2, patch2) \<Rightarrow>
        if major1 \<noteq> major2 then sub64 major1 major2
        else if minor1 \<noteq> minor2 then sub64 minor1 minor2
        else sub64 patch1 patch2)"

definition GetCompatibleExtensions ::
    "string list \<Rightarrow> string \<Rightarrow> 'h ExtensionRegistry \<Rightarrow> 'h ExtensionRegistryEntry list" where
  "GetCompatibleExtensions ks protocolVersion r =
     filter (\<lambda>e. let minVersion = (if en_MinProtocolVersion e = [] then ''1.0.0'' else en_MinProtocolVersion e)
                 in 0 \<le> compareVersions protocolVersion minVersion) (entries_in ks r)"

section \<open>Running an extension\<close>

definition GetExtensionHandler :: "string \<Rightarrow> 'h ExtensionRegistry \<Rightarrow> 'h option" where
  "GetExtensionHandler namespace r = (case r namespace of None \<Rightarrow> None | Some e \<Rightarrow> en_Handler e)"

text \<open>Both entry points look the handler up and call one method of it on the trace.\<close>

definition run_handler ::
    "('h \<Rightarrow> Trace \<Rightarrow> string \<Rightarrow> string option \<times> Trace) \<Rightarrow> Trace \<Rightarrow> string \<Rightarrow> string
      \<Rightarrow> 'h ExtensionRegistry \<Rightarrow> string option \<times> Trace" where
  "run_handler method trace namespace params r = (case r namespace of
     None \<Rightarrow> (Some (''extension '' @ namespace @ '' not found''), trace)
   | Some e \<Rightarrow> (case en_Handler e of
       None \<Rightarrow> (Some (''extension '' @ namespace @ '' has no handler''), trace)
     | Some h \<Rightarrow> method h trace params))"

definition ExecuteExtensionOnConstraintEval ::
    "('h \<Rightarrow> Trace \<Rightarrow> string \<Rightarrow> string option \<times> Trace) \<Rightarrow> Trace \<Rightarrow> string \<Rightarrow> string
      \<Rightarrow> 'h ExtensionRegistry \<Rightarrow> string option \<times> Trace" where
  "ExecuteExtensionOnConstraintEval OnConstraintEval trace namespace params r =
     run_handler OnConstraintEval trace namespace params r"

definition ExecuteExtensionOnExecuting ::
    "('h \<Rightarrow> Trace \<Rightarrow> string \<Rightarrow> string option \<times> Trace) \<Rightarrow> Trace \<Rightarrow> string \<Rightarrow> string
      \<Rightarrow> 'h ExtensionRegistry \<Rightarrow> string option \<times> Trace" where
  "ExecuteExtensionOnExecuting OnExecuting trace namespace params r =
     run_handler OnExecuting trace namespace params r"

text \<open>The built-in handlers do nothing.\<close>

datatype builtin_extension = MemoryFirewallExtension | CustomRuleExtension

definition builtin_OnConstraintEval :: "builtin_extension \<Rightarrow> Trace \<Rightarrow> string \<Rightarrow> string option \<times> Trace" where
  "builtin_OnConstraintEval e trace params = (None, trace)"

definition builtin_OnExecuting :: "builtin_extension \<Rightarrow> Trace \<Rightarrow> string \<Rightarrow> string option \<times> Trace" where
  "builtin_OnExecuting e trace params = (None, trace)"

definition builtin_Close :: "builtin_extension \<Rightarrow> string option" where
  "builtin_Close e = None"

section \<open>The invariant of the registry\<close>

definition registry_ok :: "'h ExtensionRegistry \<Rightarrow> bool" where
  "registry_ok r \<longleftrightarrow> (\<forall>ns e. r ns = Some e \<longrightarrow>
     en_Namespace e = ns \<and> Entry_Validate e = None \<and> (\<forall>d \<in> set (en_Dependencies e). r d \<noteq> None))"

datatype 'h ext_op = ERegister "'h ExtensionRegistryEntry" | ERemove "string list" string
  | ELoad "'h ExtensionRegistryEntry option list" | ERestore

fun ext_step :: "'h ext_op \<Rightarrow> 'h ExtensionRegistry \<Rightarrow> 'h ExtensionRegistry" where
  "ext_step (ERegister e) r = snd (ext_Register e r)"
| "ext_step (ERemove ks ns) r = (if iter_order ks r then snd (ext_Remove ks ns r) else r)"
| "ext_step (ELoad es) r = snd (LoadFromConfig (\<lambda>_. Inr es) [] r)"
| "ext_step ERestore r = snd (ext_UnmarshalJSON (\<lambda>_. Inr (without_handlers r)) [] r)"

lemma registry_ok_New [inv_intros]: "registry_ok NewExtensionRegistry"
  by (simp add: registry_ok_def NewExtensionRegistry_def)

lemma registry_ok_Register [inv_intros]:
  "registry_ok r \<Longrightarrow> registry_ok (snd (ext_Register e r))"
  by (auto simp: registry_ok_def ext_Register_def find_None_iff split: option.splits)

lemma registry_ok_register_all [inv_intros]:
  "registry_ok r \<Longrightarrow> registry_ok (snd (register_all es r))"
proof (induction es r rule: register_all.induct)
  case (3 e es r)
  have "registry_ok (snd (ext_Register e r))" by (rule registry_ok_Register [OF "3.prems"])
  with "3.IH" show ?case by (cases "ext_Register e r") (auto split: option.splits)
qed simp_all

lemma entries_in_set: "iter_order ks r \<Longrightarrow> set (entries_in ks r) = {e. \<exists>k. r k = Some e}"
  by (force simp: entries_in_def iter_order_def dom_def)

lemma registry_ok_Remove [inv_intros]:
  assumes "registry_ok r" "iter_order ks r"
  shows "registry_ok (snd (ext_Remove ks ns r))"
proof -
  have "registry_ok (r(ns := None))" if "\<forall>e \<in> set (entries_in ks r). ns \<notin> set (en_Dependencies e)"
    using assms that by (fastforce simp: registry_ok_def entries_in_set)
  with assms show ?thesis
    by (auto simp: ext_Remove_def find_None_iff split: option.splits)
qed

lemma Entry_Validate_handler [simp]: "Entry_Validate (e\<lparr>en_Handler := h\<rparr>) = Entry_Validate e"
  by (simp add: Entry_Validate_def)

lemma registry_ok_restored [inv_intros]: "registry_ok r \<Longrightarrow> registry_ok (without_handlers r)"
  by (auto simp: registry_ok_def without_handlers_def)

lemma registry_ok_step [inv_intros]: "registry_ok r \<Longrightarrow> registry_ok (ext_step op r)"
  by (cases op) (auto simp: LoadFromConfig_def ext_UnmarshalJSON_def intro: inv_intros)

lemma registry_ok_run: "registry_ok r \<Longrightarrow> registry_ok (fold ext_step ops r)"
  by (induction ops arbitrary: r) (auto intro: inv_intros)

section \<open>Comparing versions\<close>

text \<open>A version of three numbers.\<close>

definition version :: "string \<Rightarrow> string \<Rightarrow> string \<Rightarrow> string" where
  "version a b c = a @ CHR ''.'' # b @ CHR ''.'' # c"

lemma Sscanf_version_version:
  assumes "number_ok a" "number_ok b" "number_ok c"
  shows "Sscanf_version (version a b c) = (dec_value a, dec_value b, dec_value c)"
  using assms scan_d_number [of a "CHR ''.'' # b @ CHR ''.'' # c"] scan_d_number [of b "CHR ''.'' # c"]
    scan_d_number [of c "[]"]
  by (simp add: Sscanf_version_def version_def skip_dot_def)

lemma sub64_small:
  "0 \<le> a \<Longrightarrow> a \<le> 9223372036854775807 \<Longrightarrow> 0 \<le> b \<Longrightarrow> b \<le> 9223372036854775807 \<Longrightarrow> sub64 a b = a - b"
  by (simp add: sub64_def)

section \<open>The properties\<close>

text \<open>
  \<^bold>\<open>C39.\<close> Whatever is registered, loaded, removed and read back from the registry's own JSON, in any order and with
  any order of ranging over the map, a load that panics half way included: every entry is stored under its own namespace, passed validation, and has all
  of its dependencies registered.
\<close>

theorem registry_dependencies_closed:
  "registry_ok (fold ext_step ops NewExtensionRegistry)"
  by (rule registry_ok_run [OF registry_ok_New])

text \<open>
  Versions of three numbers within 64 bits are compared as triples of numbers: the
  result is positive, zero or negative as the first is later, equal or earlier, so an extension is
  listed as compatible exactly when the protocol version is not before its minimum.
\<close>

theorem compare_versions_lexicographic:
  assumes "number_ok a" "number_ok b" "number_ok c" "number_ok a'" "number_ok b'" "number_ok c'"
  shows "sgn (compareVersions (version a b c) (version a' b' c')) =
    (let v = [dec_value a, dec_value b, dec_value c]; v' = [dec_value a', dec_value b', dec_value c']
     in if v' < v then 1 else if v < v' then - 1 else 0)"
proof -
  have r: "0 \<le> dec_value d \<and> dec_value d \<le> 9223372036854775807" if "number_ok d" for d
    using that dec_value_nonneg [of d] by (simp add: number_ok_def)
  show ?thesis
    using assms [THEN r] assms
    by (auto simp: compareVersions_def Sscanf_version_version sub64_small sgn_if)
qed

theorem compare_versions_lexicographic_witness:
  "sgn (compareVersions ''1.10.0'' ''1.9.7'') = 1"
proof -
  have "number_ok ''1''" "number_ok ''10''" "number_ok ''0''" "number_ok ''9''" "number_ok ''7''"
    by (code_simp)+
  moreover have "dec_value ''1'' = 1" "dec_value ''10'' = 10" "dec_value ''0'' = 0" "dec_value ''9'' = 9"
    "dec_value ''7'' = 7"
    by (code_simp)+
  ultimately show ?thesis
    using compare_versions_lexicographic [of "''1''" "''10''" "''0''" "''1''" "''9''" "''7''"]
    by (simp add: version_def)
qed

section \<open>Gaps of the checks\<close>

text \<open>
  A registry that is read back from its own JSON has lost its handlers: every extension that could be run fails
  from then on, and one that was missing before is missing still.
\<close>

lemma restored_runs_nothing:
  assumes "ext_MarshalJSON marshal r = Inr data" "unmarshal data = Inr (without_handlers r)"
  shows "ext_UnmarshalJSON unmarshal data r' = (None, without_handlers r) \<and>
    ExecuteExtensionOnExecuting run trace ns params (without_handlers r) =
      (Some (''extension '' @ ns @ (if r ns = None then '' not found'' else '' has no handler'')), trace)"
  using assms by (simp add: ext_UnmarshalJSON_def ExecuteExtensionOnExecuting_def run_handler_def without_handlers_def
      split: option.split)

text \<open>JSON from elsewhere is not checked: one entry alone can need another that is not there.\<close>

lemma restored_unchecked:
  assumes "Entry_Validate e = None" "en_Dependencies e = [dep]" "dep \<noteq> en_Namespace e"
  shows "fst (ext_Register e NewExtensionRegistry) \<noteq> None \<and>
    \<not> registry_ok (snd (ext_UnmarshalJSON (\<lambda>_. Inr [en_Namespace e \<mapsto> e]) data NewExtensionRegistry))"
  using assms by (auto simp: ext_Register_def ext_UnmarshalJSON_def NewExtensionRegistry_def registry_ok_def split: option.splits)

text \<open>Conflicts are looked up for the newcomer only: an entry that conflicts with a later one is no obstacle.\<close>

lemma conflict_one_sided:
  assumes "Entry_Validate e = None" "en_ConflictsWith e = []" "en_Dependencies e = []"
    and "r ns = Some old" "en_Namespace e \<in> set (en_ConflictsWith old)" "ns \<noteq> en_Namespace e"
  shows "ext_Register e r = (None, r(en_Namespace e \<mapsto> e)) \<and> (r(en_Namespace e \<mapsto> e)) ns = Some old"
  using assms by (simp add: ext_Register_def)

text \<open>An entry registered again with itself among its dependencies can never be removed.\<close>

lemma self_dependency_stuck:
  assumes "Entry_Validate e = None" "en_ConflictsWith e = []" "en_Dependencies e = [en_Namespace e]"
    and "r (en_Namespace e) \<noteq> None" "iter_order ks (r(en_Namespace e \<mapsto> e))"
  shows "fst (ext_Remove ks (en_Namespace e) (snd (ext_Register e r))) \<noteq> None"
proof -
  let ?r = "r(en_Namespace e \<mapsto> e)"
  have "e \<in> set (entries_in ks ?r)" using entries_in_set [OF assms(5)] by (auto intro: exI [of _ "en_Namespace e"])
  moreover have "en_Namespace e \<in> set (en_Dependencies e)" using assms(3) by simp
  ultimately have "find (\<lambda>x. en_Namespace e \<in> set (en_Dependencies x)) (entries_in ks ?r) \<noteq> None"
    unfolding find_None_iff by blast
  with assms show ?thesis by (auto simp: ext_Register_def ext_Remove_def split: option.splits)
qed

end
