(* ===== verification/KvStore.thy ===== *)
theory KvStore
  imports Prelude
begin

text \<open>
  The contract of the record stores of \<^verbatim>\<open>internal/adapter/storage\<close>: saving, looking up and
  deleting records by a key, over any representation of the store. What a store gives back for a
  saved record is \<open>stored r\<close>: the record itself in memory, the record after a round trip through
  the columns of its table in SQL.
\<close>

locale kv_store =
  fixes save :: "'r \<Rightarrow> 's \<Rightarrow> string option \<times> 's"
    and get :: "string \<Rightarrow> 's \<Rightarrow> 'v result"
    and delete :: "string \<Rightarrow> 's \<Rightarrow> string option \<times> 's"
    and contents :: "'s \<Rightarrow> string \<rightharpoonup> 'v"
    and key :: "'r \<Rightarrow> string"
    and stored :: "'r \<Rightarrow> 'v"
    and not_found :: "string \<Rightarrow> string"
  assumes save_ok: "fst (save r s) = None"
    and delete_ok: "fst (delete k s) = None"
    and contents_save: "contents (snd (save r s)) = (contents s)(key r \<mapsto> stored r)"
    and contents_delete: "contents (snd (delete k s)) = (contents s)(k := None)"
    and get_contents: "get k s = (case contents s k of None \<Rightarrow> Inl (not_found k) | Some v \<Rightarrow> Inr v)"
begin

lemma get_save_same: "get (key r) (snd (save r s)) = Inr (stored r)"
  by (simp add: get_contents contents_save)

lemma get_save_other: "k \<noteq> key r \<Longrightarrow> get k (snd (save r s)) = get k s"
  by (simp add: get_contents contents_save)

lemma get_delete_same: "get k (snd (delete k s)) = Inl (not_found k)"
  by (simp add: get_contents contents_delete)

lemma get_delete_other: "k' \<noteq> k \<Longrightarrow> get k' (snd (delete k s)) = get k' s"
  by (simp add: get_contents contents_delete)

lemma save_idem: "contents (snd (save r (snd (save r s)))) = contents (snd (save r s))"
  by (simp add: contents_save)

lemma delete_save: "contents (snd (delete (key r) (snd (save r s)))) = contents (snd (delete (key r) s))"
  by (simp add: contents_save contents_delete)

lemmas laws = get_save_same get_save_other get_delete_same get_delete_other

end

text \<open>Runs of operations, and what the last one on a key leaves for it.\<close>

datatype 'r kv_op = Save 'r | Delete string

fun last_write :: "('r \<Rightarrow> string) \<Rightarrow> string \<Rightarrow> 'r kv_op list \<Rightarrow> 'r option option" where
  "last_write key k [] = None"
| "last_write key k (op # ops) = (case last_write key k ops of
     Some w \<Rightarrow> Some w
   | None \<Rightarrow> (case op of
       Save r \<Rightarrow> if key r = k then Some (Some r) else None
     | Delete k' \<Rightarrow> if k' = k then Some None else None))"

fun kv_step ::
    "('r \<Rightarrow> 's \<Rightarrow> string option \<times> 's) \<Rightarrow> (string \<Rightarrow> 's \<Rightarrow> string option \<times> 's) \<Rightarrow> 'r kv_op \<Rightarrow> 's \<Rightarrow> 's" where
  "kv_step save delete (Save r) s = snd (save r s)"
| "kv_step save delete (Delete k) s = snd (delete k s)"

context kv_store
begin

lemma contents_run:
  "contents (fold (kv_step save delete) ops s) k =
     (case last_write key k ops of None \<Rightarrow> contents s k | Some w \<Rightarrow> map_option stored w)"
proof (induction ops arbitrary: s)
  case (Cons op ops)
  then show ?case
    by (cases op) (auto simp: contents_save contents_delete split: option.splits)
qed simp

lemma get_run:
  "get k (fold (kv_step save delete) ops s) =
     (case last_write key k ops of
        None \<Rightarrow> get k s
      | Some None \<Rightarrow> Inl (not_found k)
      | Some (Some r) \<Rightarrow> Inr (stored r))"
  by (simp add: get_contents contents_run split: option.splits)

end

section \<open>Result sets\<close>

text \<open>
  \<^verbatim>\<open>sql.Rows\<close>: the rows that remain and whether the set is closed; \<^verbatim>\<open>Next\<close> on a closed
  set reports no row. \<open>read_rows\<close> is the loop over \<^verbatim>\<open>Next\<close> and \<^verbatim>\<open>Scan\<close>.
\<close>

record 'row Rows =
  rw_rest :: "'row list"
  rw_closed :: bool

definition rows_of :: "'row list \<Rightarrow> 'row Rows" where
  "rows_of rs = \<lparr>rw_rest = rs, rw_closed = False\<rparr>"

definition rows_Close :: "'row Rows \<Rightarrow> 'row Rows" where
  "rows_Close r = r\<lparr>rw_closed := True\<rparr>"

definition rows_Next :: "'row Rows \<Rightarrow> ('row \<times> 'row Rows) option" where
  "rows_Next r =
     (if rw_closed r then None
      else case rw_rest r of [] \<Rightarrow> None | x # xs \<Rightarrow> Some (x, r\<lparr>rw_rest := xs\<rparr>))"

function read_rows :: "'row Rows \<Rightarrow> 'row list" where
  "read_rows r = (case rows_Next r of None \<Rightarrow> [] | Some (x, r') \<Rightarrow> x # read_rows r')"
  by pat_completeness auto
termination
  by (relation "measure (\<lambda>r. length (rw_rest r))") (auto simp: rows_Next_def split: if_splits list.splits)

declare read_rows.simps [simp del]

lemma read_rows_of: "read_rows (rows_of rs) = rs"
  by (induction rs) (subst read_rows.simps, simp add: rows_of_def rows_Next_def)+

lemma read_rows_closed [simp]: "read_rows (rows_Close r) = []"
  by (simp add: read_rows.simps rows_Next_def rows_Close_def)

end
