(* ===== verification/TraceStore.thy ===== *)
theory TraceStore
  imports Domain KvStore "HOL-Library.Multiset"
begin

text \<open>
  The trace stores of \<^verbatim>\<open>internal/adapter/storage\<close>: in memory (\<^verbatim>\<open>storage.go\<close>), in SQLite
  (\<^verbatim>\<open>sqlite.go\<close>), and the cleaner that removes expired traces (\<^verbatim>\<open>ttl_cleaner.go\<close>).
  Locks and single statements make every operation atomic. Where the code ranges over the map of
  traces the order \<open>ks\<close> of its keys is an argument.
\<close>

section \<open>The memory store\<close>

type_synonym MemoryTraceStore = "string \<rightharpoonup> Trace"

definition NewMemoryTraceStore :: MemoryTraceStore where
  "NewMemoryTraceStore = Map.empty"

definition trace_not_found :: "string \<Rightarrow> string" where
  "trace_not_found traceID = ''trace not found: '' @ traceID"

definition mt_Save :: "Trace \<Rightarrow> MemoryTraceStore \<Rightarrow> string option \<times> MemoryTraceStore" where
  "mt_Save trace s = (None, s(tr_TraceID trace \<mapsto> trace))"

definition mt_Get :: "string \<Rightarrow> MemoryTraceStore \<Rightarrow> Trace result" where
  "mt_Get traceID s = (case s traceID of None \<Rightarrow> Inl (trace_not_found traceID) | Some t \<Rightarrow> Inr t)"

definition mt_Update :: "Trace \<Rightarrow> MemoryTraceStore \<Rightarrow> string option \<times> MemoryTraceStore" where
  "mt_Update trace s =
     (if s (tr_TraceID trace) = None then (Some (trace_not_found (tr_TraceID trace)), s)
      else (None, s(tr_TraceID trace \<mapsto> trace)))"

definition mt_Delete :: "string \<Rightarrow> MemoryTraceStore \<Rightarrow> string option \<times> MemoryTraceStore" where
  "mt_Delete traceID s = (None, s(traceID := None))"

definition traces_in :: "string list \<Rightarrow> MemoryTraceStore \<Rightarrow> Trace list" where
  "traces_in ks s = map (\<lambda>k. the (s k)) ks"

definition mt_ListBySession :: "string list \<Rightarrow> string \<Rightarrow> MemoryTraceStore \<Rightarrow> Trace list" where
  "mt_ListBySession ks sessionID s = filter (\<lambda>t. tr_SessionID t = Some sessionID) (traces_in ks s)"

definition expired :: "gotime \<Rightarrow> Trace \<Rightarrow> bool" where
  "expired now t = (case tr_TTLExpireAt t of None \<Rightarrow> False | Some e \<Rightarrow> t_Before e now)"

fun cleanup_keys :: "gotime \<Rightarrow> string list \<Rightarrow> int \<Rightarrow> MemoryTraceStore \<Rightarrow> int \<times> MemoryTraceStore" where
  "cleanup_keys now [] n s = (n, s)"
| "cleanup_keys now (k # ks) n s =
     (if expired now (the (s k)) then cleanup_keys now ks (n + 1) (s(k := None))
      else cleanup_keys now ks n s)"

definition mt_CleanupExpired :: "gotime \<Rightarrow> string list \<Rightarrow> MemoryTraceStore \<Rightarrow> int \<times> MemoryTraceStore" where
  "mt_CleanupExpired now ks s = cleanup_keys now ks 0 s"

text \<open>
  The inner loop of \<^verbatim>\<open>ListRecent\<close> for one \<open>i\<close>: \<open>x\<close> is \<open>traces[i]\<close>, swapped with each
  later element created after it; the result is the element left at \<open>i\<close> and those after it.
\<close>

fun exchange_pass :: "Trace \<Rightarrow> Trace list \<Rightarrow> Trace \<times> Trace list" where
  "exchange_pass x [] = (x, [])"
| "exchange_pass x (y # ys) =
     (if t_Before (tr_CreatedAt x) (tr_CreatedAt y)
      then (case exchange_pass y ys of (m, r) \<Rightarrow> (m, x # r))
      else (case exchange_pass x ys of (m, r) \<Rightarrow> (m, y # r)))"

lemma length_exchange_pass [simp]: "length (snd (exchange_pass x ys)) = length ys"
  by (induction ys arbitrary: x) (auto split: prod.splits simp: prod_eq_iff)

function exchange_sort :: "Trace list \<Rightarrow> Trace list" where
  "exchange_sort [] = []"
| "exchange_sort (x # xs) = (case exchange_pass x xs of (m, r) \<Rightarrow> m # exchange_sort r)"
  by pat_completeness auto
termination
proof (relation "measure length")
  show "wf (measure length)" by simp
next
  fix x :: Trace and xs m r
  show "(r, x # xs) \<in> measure length" if "(m, r) = exchange_pass x xs"
    using that length_exchange_pass [of x xs] by (simp flip: that)
qed

text \<open>A negative limit panics in the slice expression: \<open>None\<close>.\<close>

definition mt_ListRecent :: "string list \<Rightarrow> int \<Rightarrow> MemoryTraceStore \<Rightarrow> Trace list option" where
  "mt_ListRecent ks limit s =
     (let traces = exchange_sort (traces_in ks s) in
      if limit < int (length traces)
      then (if limit < 0 then None else Some (take (nat limit) traces))
      else Some traces)"

definition mt_Count :: "string list \<Rightarrow> MemoryTraceStore \<Rightarrow> int" where
  "mt_Count ks s = int (length ks)"

definition stat_states :: "string list" where
  "stat_states = [''INIT'', ''CONSTRAINT_EVAL'', ''EXECUTING'', ''VALIDATION'', ''FINALIZED'', ''FAILED'']"

fun count_states :: "Trace list \<Rightarrow> (string \<rightharpoonup> int) \<Rightarrow> (string \<rightharpoonup> int)" where
  "count_states [] m = m"
| "count_states (t # ts) m = count_states ts (case m (tr_ExecutionState t) of
     None \<Rightarrow> m | Some n \<Rightarrow> m(tr_ExecutionState t \<mapsto> n + 1))"

text \<open>The total and the map from state to number.\<close>

definition mt_GetStats :: "string list \<Rightarrow> MemoryTraceStore \<Rightarrow> int \<times> (string \<rightharpoonup> int)" where
  "mt_GetStats ks s =
     (int (length ks), count_states (traces_in ks s) (map_of (map (\<lambda>st. (st, 0)) stat_states)))"

section \<open>The SQLite store\<close>

text \<open>
  How the driver and \<^verbatim>\<open>encoding/json\<close> write the columns of a row and read them back; the
  writers of the JSON columns give the text of an empty object where marshalling fails.
\<close>

record TraceCodec =
  enc_Input :: "Input \<Rightarrow> string"
  dec_Input :: "string \<Rightarrow> Input"
  enc_Output :: "Output \<Rightarrow> string"
  dec_Output :: "string \<Rightarrow> Output"
  enc_Observations :: "Observations \<Rightarrow> string"
  dec_Observations :: "string \<Rightarrow> Observations"
  enc_Proofs :: "Proofs \<Rightarrow> string"
  dec_Proofs :: "string \<Rightarrow> Proofs"
  enc_Constraints :: "ConstraintsApplied \<Rightarrow> string"
  dec_Constraints :: "string \<Rightarrow> ConstraintsApplied"
  enc_Extensions :: "amap option \<Rightarrow> string"
  dec_Extensions :: "string \<Rightarrow> amap option"
  enc_Time :: "gotime \<Rightarrow> string"
  dec_Time :: "string \<Rightarrow> gotime"

record TraceRow =
  tw_parent_id :: "string option"
  tw_session_id :: "string option"
  tw_execution_state :: string
  tw_model :: string
  tw_input_json :: string
  tw_output_json :: string
  tw_observations_json :: string
  tw_proofs_json :: string
  tw_constraints_json :: string
  tw_created_at :: string
  tw_ttl_expire_at :: "string option"
  tw_extensions_json :: string

type_synonym TraceTable = "string \<rightharpoonup> TraceRow"

definition trace_row :: "TraceCodec \<Rightarrow> Trace \<Rightarrow> TraceRow" where
  "trace_row c t =
     \<lparr>tw_parent_id = tr_ParentID t, tw_session_id = tr_SessionID t,
      tw_execution_state = tr_ExecutionState t, tw_model = tr_Model t,
      tw_input_json = enc_Input c (tr_Input t), tw_output_json = enc_Output c (tr_Output t),
      tw_observations_json = enc_Observations c (tr_Observations t),
      tw_proofs_json = enc_Proofs c (tr_Proofs t),
      tw_constraints_json = enc_Constraints c (tr_ConstraintsApplied t),
      tw_created_at = enc_Time c (tr_CreatedAt t),
      tw_ttl_expire_at = map_option (enc_Time c) (tr_TTLExpireAt t),
      tw_extensions_json = enc_Extensions c (tr_Extensions t)\<rparr>"

definition scan_trace :: "TraceCodec \<Rightarrow> string \<Rightarrow> TraceRow \<Rightarrow> Trace" where
  "scan_trace c traceID r =
     \<lparr>tr_TraceID = traceID, tr_ParentID = tw_parent_id r, tr_SessionID = tw_session_id r,
      tr_ExecutionState = tw_execution_state r, tr_Model = tw_model r,
      tr_Input = dec_Input c (tw_input_json r), tr_Output = dec_Output c (tw_output_json r),
      tr_Observations = dec_Observations c (tw_observations_json r),
      tr_Proofs = dec_Proofs c (tw_proofs_json r),
      tr_ConstraintsApplied = dec_Constraints c (tw_constraints_json r),
      tr_CreatedAt = dec_Time c (tw_created_at r),
      tr_TTLExpireAt = map_option (dec_Time c) (tw_ttl_expire_at r),
      tr_Extensions = dec_Extensions c (tw_extensions_json r)\<rparr>"

definition sql_SaveTrace :: "TraceCodec \<Rightarrow> Trace \<Rightarrow> TraceTable \<Rightarrow> string option \<times> TraceTable" where
  "sql_SaveTrace c trace db = (None, db(tr_TraceID trace \<mapsto> trace_row c trace))"

definition sql_GetTrace :: "TraceCodec \<Rightarrow> string \<Rightarrow> TraceTable \<Rightarrow> Trace result" where
  "sql_GetTrace c traceID db = (case db traceID of
     None \<Rightarrow> Inl (trace_not_found traceID) | Some r \<Rightarrow> Inr (scan_trace c traceID r))"

definition sql_UpdateTrace :: "TraceCodec \<Rightarrow> Trace \<Rightarrow> TraceTable \<Rightarrow> string option \<times> TraceTable" where
  "sql_UpdateTrace c trace db = sql_SaveTrace c trace db"

definition sql_DeleteTrace :: "string \<Rightarrow> TraceTable \<Rightarrow> string option \<times> TraceTable" where
  "sql_DeleteTrace traceID db = (None, db(traceID := None))"

text \<open>
  The two list functions close the result set before reading it. \<open>order\<close> is the order in which
  the engine delivers the keys of the selected rows.
\<close>

definition sql_ListTracesBySession :: "TraceCodec \<Rightarrow> string list \<Rightarrow> string \<Rightarrow> TraceTable \<Rightarrow> Trace list" where
  "sql_ListTracesBySession c order sessionID db =
     (let rows = rows_of (map (\<lambda>k. (k, the (db k))) (filter (\<lambda>k. tw_session_id (the (db k)) = Some sessionID) order));
          rows = rows_Close rows
      in map (\<lambda>(k, r). scan_trace c k r) (read_rows rows))"

definition sql_ListRecentTraces :: "TraceCodec \<Rightarrow> string list \<Rightarrow> int \<Rightarrow> TraceTable \<Rightarrow> Trace list" where
  "sql_ListRecentTraces c order limit db =
     (let rows = rows_of ((if limit < 0 then id else take (nat limit)) (map (\<lambda>k. (k, the (db k))) order));
          rows = rows_Close rows
      in map (\<lambda>(k, r). scan_trace c k r) (read_rows rows))"

text \<open>
  The expiry column is compared as text with the text of the present time. The result is the
  number of rows that go.
\<close>

definition sql_expired :: "gotime \<Rightarrow> TraceRow \<Rightarrow> bool" where
  "sql_expired now r = (case tw_ttl_expire_at r of None \<Rightarrow> False | Some e \<Rightarrow> e < RFC3339 now)"

definition sql_CleanupExpiredTraces :: "gotime \<Rightarrow> string list \<Rightarrow> TraceTable \<Rightarrow> int \<times> TraceTable" where
  "sql_CleanupExpiredTraces now order db =
     (int (length (filter (\<lambda>k. sql_expired now (the (db k))) order)),
      (\<lambda>k. case db k of None \<Rightarrow> None | Some r \<Rightarrow> if sql_expired now r then None else Some r))"

definition sql_CountTraces :: "string list \<Rightarrow> TraceTable \<Rightarrow> int" where
  "sql_CountTraces order db = int (length order)"

text \<open>
  \<^verbatim>\<open>GetTraceStats\<close>: total, completed, failed. The sums over no row are NULL, which does not
  scan into an integer.
\<close>

definition sql_GetTraceStats :: "string list \<Rightarrow> TraceTable \<Rightarrow> (int \<times> int \<times> int) result" where
  "sql_GetTraceStats order db =
     (let cnt = (\<lambda>st. int (length (filter (\<lambda>k. tw_execution_state (the (db k)) = st) order))) in
      if order = [] then Inl ''sql: Scan error on column index 1: converting NULL to int64 is unsupported''
      else Inr (int (length order), cnt ''completed'', cnt ''failed''))"

section \<open>The cleaner\<close>

text \<open>
  One tick of the cleaner of \<^verbatim>\<open>ttl_cleaner.go\<close> over any store: what it logs and the store
  after it. \<open>cleanup\<close> is the store's \<^verbatim>\<open>CleanupExpired\<close>.
\<close>

definition cleanupExpiredTraces :: "('s \<Rightarrow> int result \<times> 's) \<Rightarrow> 's \<Rightarrow> string list \<times> 's" where
  "cleanupExpiredTraces cleanup s =
     (case cleanup s of
        (Inl e, s') \<Rightarrow> ([''Starting TTL cleanup for expired traces'',
           ''Failed to cleanup expired traces: '' @ e], s')
      | (Inr n, s') \<Rightarrow> ([''Starting TTL cleanup for expired traces'',
           if 0 < n then ''Successfully deleted '' @ itoa n @ '' expired traces''
           else ''No expired traces found''], s'))"

section \<open>Both stores keep the contract\<close>

interpretation mem_traces: kv_store mt_Save mt_Get mt_Delete "\<lambda>s. s" tr_TraceID "\<lambda>t. t" trace_not_found
  by unfold_locales (auto simp: mt_Save_def mt_Get_def mt_Delete_def split: option.splits)

interpretation sql_traces: kv_store "sql_SaveTrace c" "sql_GetTrace c" sql_DeleteTrace
    "\<lambda>db k. map_option (scan_trace c k) (db k)" tr_TraceID
    "\<lambda>t. scan_trace c (tr_TraceID t) (trace_row c t)" trace_not_found
  for c
  by unfold_locales
    (auto simp: sql_SaveTrace_def sql_GetTrace_def sql_DeleteTrace_def split: option.splits)

section \<open>The most recent traces\<close>

abbreviation not_before :: "Trace \<Rightarrow> Trace \<Rightarrow> bool" where
  "not_before a b \<equiv> \<not> t_Before (tr_CreatedAt a) (tr_CreatedAt b)"

lemma exchange_pass_mset:
  "add_mset (fst (exchange_pass x ys)) (mset (snd (exchange_pass x ys))) = add_mset x (mset ys)"
  by (induction ys arbitrary: x) (auto split: prod.splits simp: add_mset_commute prod_eq_iff)

lemma exchange_pass_max:
  "not_before (fst (exchange_pass x ys)) x \<and> (\<forall>y \<in> set (snd (exchange_pass x ys)). not_before (fst (exchange_pass x ys)) y)"
proof (induction ys arbitrary: x)
  case (Cons y ys)
  show ?case
  proof (cases "t_Before (tr_CreatedAt x) (tr_CreatedAt y)")
    case True
    with Cons [of y] show ?thesis by (auto simp: t_Before_def split: prod.splits)
  next
    case False
    with Cons [of x] show ?thesis by (auto simp: t_Before_def split: prod.splits)
  qed
qed (simp add: t_Before_def)

lemma mset_exchange_sort: "mset (exchange_sort xs) = mset xs"
proof (induction xs rule: exchange_sort.induct)
  case (2 x xs)
  then show ?case using exchange_pass_mset [of x xs] by (auto split: prod.splits)
qed simp

lemma set_exchange_sort: "set (exchange_sort xs) = set xs"
  by (metis mset_exchange_sort set_mset_mset)

lemma sorted_exchange_sort: "sorted_wrt not_before (exchange_sort xs)"
proof (induction xs rule: exchange_sort.induct)
  case (2 x xs)
  then show ?case using exchange_pass_max [of x xs] by (auto split: prod.splits simp: set_exchange_sort)
qed simp

section \<open>Removing expired traces\<close>

lemma cleanup_keys_eq:
  "distinct ks \<Longrightarrow> cleanup_keys now ks n s =
     (n + int (length (filter (\<lambda>k. expired now (the (s k))) ks)),
      (\<lambda>k. if k \<in> set ks \<and> expired now (the (s k)) then None else s k))"
proof (induction ks arbitrary: n s)
  case (Cons k ks)
  then have "filter (\<lambda>k'. expired now (the ((s(k := None)) k'))) ks = filter (\<lambda>k. expired now (the (s k))) ks"
    by (intro filter_cong) auto
  with Cons show ?case by (auto simp: fun_eq_iff)
qed simp

text \<open>The list functions of the SQLite store see no row: they read a closed result set.\<close>

lemma sql_lists_empty:
  "sql_ListTracesBySession c order sessionID db = []" "sql_ListRecentTraces c order limit db = []"
  by (simp_all add: sql_ListTracesBySession_def sql_ListRecentTraces_def)

section \<open>The properties\<close>

text \<open>
  Both trace stores are maps from trace id to trace. After any sequence of saves and
  deletes, a lookup gives what the last of them on that id left: the saved trace (read back through the
  columns of its row in SQLite) or the not-found error, and an id nobody touched is as before.
\<close>

theorem trace_stores_last_write:
  "mt_Get k (fold (kv_step mt_Save mt_Delete) ops s) =
     (case last_write tr_TraceID k ops of
        None \<Rightarrow> mt_Get k s
      | Some None \<Rightarrow> Inl (trace_not_found k)
      | Some (Some t) \<Rightarrow> Inr t) \<and>
   sql_GetTrace c k (fold (kv_step (sql_SaveTrace c) sql_DeleteTrace) ops db) =
     (case last_write tr_TraceID k ops of
        None \<Rightarrow> sql_GetTrace c k db
      | Some None \<Rightarrow> Inl (trace_not_found k)
      | Some (Some t) \<Rightarrow> Inr (scan_trace c (tr_TraceID t) (trace_row c t)))"
  by (intro conjI mem_traces.get_run sql_traces.get_run)

text \<open>
  \<^bold>\<open>C34.\<close> \<^verbatim>\<open>ListRecent\<close> of the memory store, for every order of ranging over the map:
  it returns the stored traces cut to the limit, latest first, and no trace it leaves out was created
  after one it returns.
\<close>

theorem list_recent_most_recent:
  assumes "iter_order ks s" "0 \<le> limit"
  shows "\<exists>ts rest. mt_ListRecent ks limit s = Some ts \<and>
    mset (ts @ rest) = mset (traces_in ks s) \<and> length ts = min (nat limit) (length ks) \<and>
    sorted_wrt not_before ts \<and> (\<forall>a \<in> set ts. \<forall>b \<in> set rest. not_before a b)"
proof -
  let ?all = "exchange_sort (traces_in ks s)"
  have len: "length ?all = length ks"
    by (metis length_map mset_exchange_sort mset_eq_length traces_in_def)
  have "mt_ListRecent ks limit s = Some (take (nat limit) ?all)"
    using assms(2) len by (auto simp: mt_ListRecent_def Let_def)
  moreover have "sorted_wrt not_before (take (nat limit) ?all @ drop (nat limit) ?all)"
    by (simp add: sorted_exchange_sort)
  then have "sorted_wrt not_before (take (nat limit) ?all)"
    "\<forall>a \<in> set (take (nat limit) ?all). \<forall>b \<in> set (drop (nat limit) ?all). not_before a b"
    unfolding sorted_wrt_append by blast+
  moreover have "mset (take (nat limit) ?all @ drop (nat limit) ?all) = mset (traces_in ks s)"
    by (simp only: append_take_drop_id mset_exchange_sort)
  moreover have "length (take (nat limit) ?all) = min (nat limit) (length ks)"
    using len by simp
  ultimately show ?thesis by blast
qed

theorem list_recent_most_recent_witness:
  "\<exists>ts. mt_ListRecent [''a'', ''b''] 1
     [''a'' \<mapsto> sample_trace, ''b'' \<mapsto> sample_trace\<lparr>tr_TraceID := ''b''\<rparr>] = Some ts \<and> length ts = 1"
proof -
  let ?s = "[''a'' \<mapsto> sample_trace, ''b'' \<mapsto> sample_trace\<lparr>tr_TraceID := ''b''\<rparr>]"
  have "iter_order [''a'', ''b''] ?s" by (auto simp: iter_order_def)
  from list_recent_most_recent [OF this, of 1] show ?thesis by auto
qed

text \<open>
  The cleanup of the memory store removes exactly the traces whose expiry lies before
  the present, keeps every other trace as it is, and reports how many it removed, in any order of
  ranging over the map.
\<close>

theorem memory_cleanup_exact:
  assumes "iter_order ks s"
  shows "mt_CleanupExpired now ks s =
    (int (card {k. \<exists>t. s k = Some t \<and> expired now t}),
     (\<lambda>k. case s k of None \<Rightarrow> None | Some t \<Rightarrow> if expired now t then None else Some t))"
proof -
  have d: "distinct ks" and k: "\<And>k. k \<in> set ks \<longleftrightarrow> s k \<noteq> None"
    using assms by (auto simp: iter_order_def dom_def)
  have "{k. \<exists>t. s k = Some t \<and> expired now t} = set (filter (\<lambda>k. expired now (the (s k))) ks)"
    using k by auto
  then have "card {k. \<exists>t. s k = Some t \<and> expired now t} = length (filter (\<lambda>k. expired now (the (s k))) ks)"
    using d by (metis distinct_card distinct_filter)
  with d k show ?thesis
    by (auto simp: mt_CleanupExpired_def cleanup_keys_eq fun_eq_iff split: option.splits)
qed

theorem memory_cleanup_exact_witness:
  "snd (mt_CleanupExpired \<lparr>t_nanos = 5, t_offset = 0\<rparr> [''a'', ''b'']
     [''a'' \<mapsto> sample_trace\<lparr>tr_TTLExpireAt := Some \<lparr>t_nanos = 4, t_offset = 0\<rparr>\<rparr>,
      ''b'' \<mapsto> sample_trace\<lparr>tr_TTLExpireAt := Some \<lparr>t_nanos = 6, t_offset = 0\<rparr>\<rparr>])
   = [''b'' \<mapsto> sample_trace\<lparr>tr_TTLExpireAt := Some \<lparr>t_nanos = 6, t_offset = 0\<rparr>\<rparr>]"
proof -
  let ?s = "[''a'' \<mapsto> sample_trace\<lparr>tr_TTLExpireAt := Some \<lparr>t_nanos = 4, t_offset = 0\<rparr>\<rparr>,
      ''b'' \<mapsto> sample_trace\<lparr>tr_TTLExpireAt := Some \<lparr>t_nanos = 6, t_offset = 0\<rparr>\<rparr>]"
  have "iter_order [''a'', ''b''] ?s" by (auto simp: iter_order_def)
  from memory_cleanup_exact [OF this] show ?thesis
    by (auto simp: expired_def t_Before_def fun_eq_iff)
qed

text \<open>
  The cleanup of the SQLite store compares texts of two layouts. A trace whose expiry
  has the same calendar date as the present is removed whatever the time of day, so also one that has
  hours left: the driver writes a blank after the date where the present has the letter T.
\<close>

theorem sqlite_cleanup_same_day:
  assumes "tr_TTLExpireAt t = Some e" "enc_Time c e = day @ '' '' @ u" "RFC3339 now = day @ ''T'' @ v"
  shows "sql_GetTrace c (tr_TraceID t)
     (snd (sql_CleanupExpiredTraces now order (snd (sql_SaveTrace c t db)))) = Inl (trace_not_found (tr_TraceID t))"
proof -
  have "day @ '' '' @ u < day @ ''T'' @ v"
    by (induction day) (simp_all add: less_char_def)
  with assms have "sql_expired now (trace_row c t)"
    by (simp add: sql_expired_def trace_row_def)
  then show ?thesis
    by (simp add: sql_GetTrace_def sql_CleanupExpiredTraces_def sql_SaveTrace_def)
qed

text \<open>At noon of a day: an expiry an hour before midnight of the same day, in the driver's layout.\<close>

definition space_codec :: TraceCodec where
  "space_codec = \<lparr>enc_Input = (\<lambda>_. []), dec_Input = (\<lambda>_. zero_Input), enc_Output = (\<lambda>_. []),
     dec_Output = (\<lambda>_. zero_Output), enc_Observations = (\<lambda>_. []), dec_Observations = (\<lambda>_. zero_Observations),
     enc_Proofs = (\<lambda>_. []), dec_Proofs = (\<lambda>_. zero_Proofs), enc_Constraints = (\<lambda>_. []),
     dec_Constraints = (\<lambda>_. zero_ConstraintsApplied), enc_Extensions = (\<lambda>_. []), dec_Extensions = (\<lambda>_. None),
     enc_Time = (\<lambda>t. take 10 (RFC3339Nano t) @ '' '' @ drop 11 (RFC3339Nano t)), dec_Time = (\<lambda>_. t_zero)\<rparr>"

theorem sqlite_cleanup_same_day_witness:
  "let now = \<lparr>t_nanos = 1699963200000000000, t_offset = 0\<rparr>; e = \<lparr>t_nanos = 1700002800000000000, t_offset = 0\<rparr>;
       t = sample_trace\<lparr>tr_TTLExpireAt := Some e\<rparr>
   in t_Before now e \<and> sql_GetTrace space_codec (tr_TraceID t) (snd (sql_CleanupExpiredTraces now []
        (snd (sql_SaveTrace space_codec t Map.empty)))) = Inl (trace_not_found (tr_TraceID t))"
proof -
  let ?now = "\<lparr>t_nanos = 1699963200000000000, t_offset = 0\<rparr>"
  let ?e = "\<lparr>t_nanos = 1700002800000000000, t_offset = 0\<rparr>"
  let ?t = "sample_trace\<lparr>tr_TTLExpireAt := Some ?e\<rparr>"
  have now: "RFC3339 ?now = ''2023-11-14'' @ ''T'' @ ''12:00:00Z''" by code_simp
  have "RFC3339Nano ?e = ''2023-11-14T23:00:00Z''" by code_simp
  then have e: "enc_Time space_codec ?e = ''2023-11-14'' @ '' '' @ ''23:00:00Z''"
    by (simp add: space_codec_def)
  have "tr_TTLExpireAt ?t = Some ?e" by simp
  from sqlite_cleanup_same_day [OF this e now] show ?thesis
    by (simp add: Let_def t_Before_def)
qed

end
