(* ===== verification/Crypto.thy ===== *)
theory Crypto
  imports Sha256
begin

text \<open>
  \<^verbatim>\<open>internal/adapter/storage/crypto.go\<close>: sealing of stored secrets and hashing of API keys.
  The cipher of \<^verbatim>\<open>crypto/aes\<close> in GCM mode and the random source are arguments; the URL-safe
  base 64 text is defined here.
\<close>

section \<open>Base 64\<close>

definition b64_char :: "nat \<Rightarrow> char" where
  "b64_char n = byte (if n < 26 then 65 + n else if n < 52 then 71 + n else if n < 62 then n - 4
     else if n = 62 then 45 else 95)"

definition b64_value :: "char \<Rightarrow> nat option" where
  "b64_value c = (let n = ord c in
     if 65 \<le> n \<and> n \<le> 90 then Some (n - 65) else if 97 \<le> n \<and> n \<le> 122 then Some (n - 71)
     else if 48 \<le> n \<and> n \<le> 57 then Some (n + 4) else if n = 45 then Some 62
     else if n = 95 then Some 63 else None)"

abbreviation pad_char :: char where "pad_char \<equiv> CHR ''=''"

fun b64_encode :: "nat list \<Rightarrow> string" where
  "b64_encode [] = []"
| "b64_encode [a] = [b64_char (a div 4), b64_char (a mod 4 * 16), pad_char, pad_char]"
| "b64_encode [a, b] =
     [b64_char (a div 4), b64_char (a mod 4 * 16 + b div 16), b64_char (b mod 16 * 4), pad_char]"
| "b64_encode (a # b # c # r) =
     [b64_char (a div 4), b64_char (a mod 4 * 16 + b div 16), b64_char (b mod 16 * 4 + c div 64),
      b64_char (c mod 64)] @ b64_encode r"

text \<open>Decoding in groups of four; only the last group may be padded.\<close>

fun b64_groups :: "string \<Rightarrow> nat list option" where
  "b64_groups [] = Some []"
| "b64_groups (w # x # y # z # r) =
     (case (b64_value w, b64_value x) of
        (Some p, Some q) \<Rightarrow>
          if y = pad_char then (if z = pad_char \<and> r = [] then Some [p * 4 + q div 16] else None)
          else (case b64_value y of
              None \<Rightarrow> None
            | Some s \<Rightarrow>
                if z = pad_char
                then (if r = [] then Some [p * 4 + q div 16, q mod 16 * 16 + s div 4] else None)
                else (case (b64_value z, b64_groups r) of
                    (Some t, Some bs) \<Rightarrow>
                      Some ([p * 4 + q div 16, q mod 16 * 16 + s div 4, s mod 4 * 64 + t] @ bs)
                  | _ \<Rightarrow> None))
      | _ \<Rightarrow> None)"
| "b64_groups _ = None"

definition b64_decode :: "string \<Rightarrow> nat list option" where
  "b64_decode s = b64_groups (filter (\<lambda>c. c \<noteq> byte 10 \<and> c \<noteq> byte 13) s)"

section \<open>The operations\<close>

text \<open>
  \<open>newCipher key\<close> is the error of \<^verbatim>\<open>aes.NewCipher\<close> (and of \<^verbatim>\<open>cipher.NewGCM\<close>);
  \<open>seal key nonce\<close> and \<open>unseal key nonce\<close> are the methods of the GCM; the nonce is 12 random bytes.
\<close>

abbreviation nonceSize :: nat where "nonceSize \<equiv> 12"

definition Encrypt ::
    "(nat list \<Rightarrow> string option) \<Rightarrow> (nat list \<Rightarrow> nat list \<Rightarrow> nat list \<Rightarrow> nat list) \<Rightarrow> nat list result
      \<Rightarrow> nat list \<Rightarrow> nat list \<Rightarrow> string result" where
  "Encrypt newCipher seal nonce key plaintext = (case newCipher key of
     Some e \<Rightarrow> Inl e
   | None \<Rightarrow> (case nonce of
       Inl e \<Rightarrow> Inl e
     | Inr n \<Rightarrow> Inr (b64_encode (n @ seal key n plaintext))))"

text \<open>
  \<^verbatim>\<open>Decrypt\<close> returns a slice that may be nil and an error that may be nil. For a text shorter
  than the nonce both are: the variable returned as the error holds nil there.
\<close>

definition Decrypt ::
    "(nat list \<Rightarrow> string option) \<Rightarrow> (nat list \<Rightarrow> nat list \<Rightarrow> nat list \<Rightarrow> nat list result)
      \<Rightarrow> nat list \<Rightarrow> string \<Rightarrow> nat list option result" where
  "Decrypt newCipher unseal key ciphertextBase64 = (case b64_decode ciphertextBase64 of
     None \<Rightarrow> Inl ''illegal base64 data''
   | Some ciphertext \<Rightarrow> (case newCipher key of
       Some e \<Rightarrow> Inl e
     | None \<Rightarrow>
         if length ciphertext < nonceSize then Inr None
         else map_ok Some (unseal key (take nonceSize ciphertext) (drop nonceSize ciphertext))))"

definition HashAPIKey :: "string \<Rightarrow> string" where
  "HashAPIKey key = b64_encode (Sum256 key)"

definition GenerateAPIKey :: "nat list result \<Rightarrow> string result" where
  "GenerateAPIKey random32 = map_ok b64_encode random32"

definition GetKeyPrefix :: "string \<Rightarrow> string" where
  "GetKeyPrefix key = (if length key < 8 then key else take 8 key)"

section \<open>Round trips\<close>

lemma b64_value_char [simp]: "n < 64 \<Longrightarrow> b64_value (b64_char n) = Some n"
  by (auto simp: b64_value_def b64_char_def Let_def)

lemma ord_pad_char: "ord pad_char = 61"
  by code_simp

lemma b64_char_neq:
  "n < 64 \<Longrightarrow> b64_char n \<noteq> pad_char" "n < 64 \<Longrightarrow> b64_char n \<noteq> byte 10" "n < 64 \<Longrightarrow> b64_char n \<noteq> byte 13"
proof -
  assume n: "n < 64"
  then have "b64_value (b64_char n) \<noteq> None" by simp
  moreover have "b64_value pad_char = None" "b64_value (byte 10) = None" "b64_value (byte 13) = None"
    by (simp_all add: b64_value_def ord_pad_char)
  ultimately show "b64_char n \<noteq> pad_char" "b64_char n \<noteq> byte 10" "b64_char n \<noteq> byte 13"
    by metis+
qed

lemma quot_rem_simps:
  "(a::nat) < 256 \<Longrightarrow> a div 4 < 64" "(a::nat) mod 4 * 16 < 64"
  "(b::nat) < 256 \<Longrightarrow> a mod 4 * 16 + b div 16 < 64" "(b::nat) mod 16 * 4 < 64"
  "(c::nat) < 256 \<Longrightarrow> b mod 16 * 4 + c div 64 < 64" "(c::nat) mod 64 < 64"
  by linarith+

lemma regroup_bytes:
  fixes b c :: nat
  shows "b < 256 \<Longrightarrow> b div 16 div 16 = 0"
    and "b < 256 \<Longrightarrow> b div 16 mod 16 * 16 + b mod 16 = b"
    and "c < 256 \<Longrightarrow> c div 64 div 4 = 0"
    and "c < 256 \<Longrightarrow> c div 64 mod 4 * 64 + c mod 64 = c"
proof -
  show "b < 256 \<Longrightarrow> b div 16 div 16 = 0" "c < 256 \<Longrightarrow> c div 64 div 4 = 0" by simp_all
  have "b div 16 < 16" if "b < 256" using that by simp
  then show "b < 256 \<Longrightarrow> b div 16 mod 16 * 16 + b mod 16 = b" by simp
  have "c div 64 < 4" if "c < 256" using that by simp
  then show "c < 256 \<Longrightarrow> c div 64 mod 4 * 64 + c mod 64 = c" by simp
qed

lemma b64_groups_encode:
  "list_all (\<lambda>b. b < 256) bs \<Longrightarrow> b64_groups (b64_encode bs) = Some bs"
  by (induction bs rule: b64_encode.induct)
    (simp_all add: quot_rem_simps b64_char_neq regroup_bytes)

lemma b64_encode_clean:
  "list_all (\<lambda>b. b < 256) bs \<Longrightarrow> filter (\<lambda>c. c \<noteq> byte 10 \<and> c \<noteq> byte 13) (b64_encode bs) = b64_encode bs"
proof (induction bs rule: b64_encode.induct)
  have "pad_char \<noteq> byte 10" "pad_char \<noteq> byte 13" by code_simp+
  {
    case 1 then show ?case by simp
  next
    case (2 a) then show ?case
      using \<open>pad_char \<noteq> byte 10\<close> \<open>pad_char \<noteq> byte 13\<close> by (simp add: quot_rem_simps b64_char_neq)
  next
    case (3 a b) then show ?case
      using \<open>pad_char \<noteq> byte 10\<close> \<open>pad_char \<noteq> byte 13\<close> by (simp add: quot_rem_simps b64_char_neq)
  next
    case (4 a b c r) then show ?case by (simp add: quot_rem_simps b64_char_neq)
  }
qed

lemma b64_decode_encode: "list_all (\<lambda>b. b < 256) bs \<Longrightarrow> b64_decode (b64_encode bs) = Some bs"
  by (simp add: b64_decode_def b64_encode_clean b64_groups_encode)

lemma HashAPIKey_inject: "HashAPIKey k = HashAPIKey k' \<longleftrightarrow> Sum256 k = Sum256 k'"
proof -
  have "list_all (\<lambda>b. b < 256) (Sum256 k)" for k
    by (simp add: list_all_iff Sum256_less)
  then show ?thesis unfolding HashAPIKey_def by (metis b64_decode_encode option.inject)
qed

section \<open>The properties\<close>

text \<open>
  What was encrypted under a key is decrypted under it, for every cipher whose
  \<^verbatim>\<open>Open\<close> undoes its \<^verbatim>\<open>Seal\<close>. A text too short to hold the nonce is no error: nothing is
  returned and the error is nil.
\<close>

theorem decrypt_encrypt:
  assumes "newCipher key = None" "length nonce = nonceSize" "list_all (\<lambda>b. b < 256) nonce"
    and "list_all (\<lambda>b. b < 256) (seal key nonce plaintext)"
    and "unseal key nonce (seal key nonce plaintext) = Inr plaintext"
    and "length short < nonceSize" "list_all (\<lambda>b. b < 256) short"
  shows "bind_result (Encrypt newCipher seal (Inr nonce) key plaintext) (Decrypt newCipher unseal key)
      = Inr (Some plaintext) \<and>
    Decrypt newCipher unseal key (b64_encode short) = Inr None"
  using assms by (simp add: Encrypt_def Decrypt_def b64_decode_encode)

theorem decrypt_encrypt_witness:
  "bind_result (Encrypt (\<lambda>_. None) (\<lambda>k n p. rev p @ [7]) (Inr (replicate 12 1)) [1] [5, 6])
     (Decrypt (\<lambda>_. None) (\<lambda>k n s. Inr (rev (butlast s))) [1]) = Inr (Some [5, 6])"
proof -
  have "list_all (\<lambda>b. b < 256) (replicate 12 (1::nat))" by (simp add: list_all_iff)
  from decrypt_encrypt [where newCipher = "\<lambda>_. None" and key = "[1]" and nonce = "replicate 12 1"
      and seal = "\<lambda>k n p. rev p @ [7]" and plaintext = "[5, 6]"
      and unseal = "\<lambda>k n s. Inr (rev (butlast s))" and short = "[]", OF _ _ this]
  show ?thesis by simp
qed

end
