(* ===== verification/RecordStores.thy ===== *)
theory RecordStores
  imports Domain KvStore Crypto
begin

text \<open>
  The stores of risk reports, API keys and providers in \<^verbatim>\<open>internal/adapter/storage\<close>, in
  memory (\<^verbatim>\<open>storage.go\<close>, \<^verbatim>\<open>provider_store.go\<close>) and in SQLite (\<^verbatim>\<open>sqlite.go\<close>).
  \<open>ks\<close> is the order of ranging over a map, \<open>order\<close> the order in which the engine delivers
  rows; texts of JSON columns are written and read by arguments.
\<close>

section \<open>Risk reports\<close>

type_synonym MemoryRiskReportStore = "string \<rightharpoonup> RiskReport"

definition report_not_found :: "string \<Rightarrow> string" where
  "report_not_found traceID = ''risk report not found: '' @ traceID"

definition mr_Save :: "RiskReport \<Rightarrow> MemoryRiskReportStore \<Rightarrow> string option \<times> MemoryRiskReportStore" where
  "mr_Save report s = (None, s(rr_BaselineTraceID report \<mapsto> report))"

definition mr_Get :: "string \<Rightarrow> MemoryRiskReportStore \<Rightarrow> RiskReport result" where
  "mr_Get traceID s = (case s traceID of None \<Rightarrow> Inl (report_not_found traceID) | Some r \<Rightarrow> Inr r)"

text \<open>A negative limit panics: \<open>None\<close>.\<close>

definition mr_List :: "string list \<Rightarrow> int \<Rightarrow> MemoryRiskReportStore \<Rightarrow> RiskReport list option" where
  "mr_List ks limit s =
     (let reports = map (\<lambda>k. the (s k)) ks in
      if limit < int (length reports)
      then (if limit < 0 then None else Some (take (nat limit) reports)) else Some reports)"

definition mr_Delete :: "string \<Rightarrow> MemoryRiskReportStore \<Rightarrow> string option \<times> MemoryRiskReportStore" where
  "mr_Delete traceID s = (None, s(traceID := None))"

record ReportRow =
  rw_replay_trace_id :: string
  rw_score :: f64
  rw_details_json :: string
  rw_created_at :: string

type_synonym ReportTable = "string \<rightharpoonup> ReportRow"

definition report_row :: "gotime \<Rightarrow> (RiskReport \<Rightarrow> string) \<Rightarrow> RiskReport \<Rightarrow> ReportRow" where
  "report_row now marshal report =
     \<lparr>rw_replay_trace_id = rr_CandidateTraceID report,
      rw_score = (case rr_Risk report of None \<Rightarrow> fzero | Some ra \<Rightarrow> ra_Score ra),
      rw_details_json = marshal report, rw_created_at = RFC3339 now\<rparr>"

definition sql_SaveRiskReport ::
    "gotime \<Rightarrow> (RiskReport \<Rightarrow> string) \<Rightarrow> RiskReport \<Rightarrow> ReportTable \<Rightarrow> string option \<times> ReportTable" where
  "sql_SaveRiskReport now marshal report db =
     (None, db(rr_BaselineTraceID report \<mapsto> report_row now marshal report))"

definition sql_GetRiskReport :: "(string \<Rightarrow> RiskReport) \<Rightarrow> string \<Rightarrow> ReportTable \<Rightarrow> RiskReport result" where
  "sql_GetRiskReport unmarshal traceID db = (case db traceID of
     None \<Rightarrow> Inl (report_not_found traceID) | Some r \<Rightarrow> Inr (unmarshal (rw_details_json r)))"

definition sql_ListRiskReports ::
    "(string \<Rightarrow> RiskReport) \<Rightarrow> string list \<Rightarrow> int \<Rightarrow> ReportTable \<Rightarrow> RiskReport list" where
  "sql_ListRiskReports unmarshal order limit db =
     (let rows = rows_of ((if limit < 0 then id else take (nat limit)) (map (\<lambda>k. rw_details_json (the (db k))) order));
          rows = rows_Close rows
      in map unmarshal (read_rows rows))"

definition sql_DeleteRiskReport :: "string \<Rightarrow> ReportTable \<Rightarrow> string option \<times> ReportTable" where
  "sql_DeleteRiskReport traceID db = (None, db(traceID := None))"

interpretation mem_reports: kv_store mr_Save mr_Get mr_Delete "\<lambda>s. s" rr_BaselineTraceID "\<lambda>r. r" report_not_found
  by unfold_locales (auto simp: mr_Save_def mr_Get_def mr_Delete_def split: option.splits)

interpretation sql_reports: kv_store "sql_SaveRiskReport now marshal" "sql_GetRiskReport unmarshal"
    sql_DeleteRiskReport "\<lambda>db k. map_option (\<lambda>r. unmarshal (rw_details_json r)) (db k)" rr_BaselineTraceID
    "\<lambda>r. unmarshal (marshal r)" report_not_found
  for now marshal unmarshal
  by unfold_locales
    (auto simp: sql_SaveRiskReport_def sql_GetRiskReport_def sql_DeleteRiskReport_def report_row_def
      split: option.splits)

section \<open>API keys\<close>

record APIKey =
  ak_KeyID :: string
  ak_Name :: string
  ak_Description :: string
  ak_CreatedAt :: gotime
  ak_ExpiresAt :: "int option"
  ak_IsActive :: bool
  ak_KeyHash :: string
  ak_KeyPrefix :: string
  ak_Permissions :: "string list"
  ak_LastUsedAt :: "int option"

type_synonym MemoryAPIKeyStore = "string \<rightharpoonup> APIKey"

definition key_id :: "gotime \<Rightarrow> string" where
  "key_id now = ''key_'' @ itoa (t_nanos now)"

definition new_key ::
    "gotime \<Rightarrow> string \<Rightarrow> string \<Rightarrow> string \<Rightarrow> string \<Rightarrow> int option \<Rightarrow> string list \<Rightarrow> APIKey" where
  "new_key now keyHash keyPrefix name description expiresAt permissions =
     \<lparr>ak_KeyID = key_id now, ak_Name = name, ak_Description = description, ak_CreatedAt = now,
      ak_ExpiresAt = expiresAt, ak_IsActive = True, ak_KeyHash = keyHash, ak_KeyPrefix = keyPrefix,
      ak_Permissions = permissions, ak_LastUsedAt = None\<rparr>"

definition mk_Create ::
    "gotime \<Rightarrow> string \<Rightarrow> string \<Rightarrow> string \<Rightarrow> string \<Rightarrow> int option \<Rightarrow> string list \<Rightarrow> MemoryAPIKeyStore
      \<Rightarrow> APIKey result \<times> MemoryAPIKeyStore" where
  "mk_Create now keyHash keyPrefix name description expiresAt permissions s =
     (let key = new_key now keyHash keyPrefix name description expiresAt permissions
      in (Inr key, s(ak_KeyID key \<mapsto> key)))"

definition mk_List :: "string list \<Rightarrow> MemoryAPIKeyStore \<Rightarrow> APIKey list" where
  "mk_List ks s = map (\<lambda>k. the (s k)) ks"

definition mk_Delete :: "string \<Rightarrow> MemoryAPIKeyStore \<Rightarrow> string option \<times> MemoryAPIKeyStore" where
  "mk_Delete keyID s = (None, s(keyID := None))"

definition mk_Validate :: "string \<Rightarrow> MemoryAPIKeyStore \<Rightarrow> bool result" where
  "mk_Validate keyID s = (case s keyID of None \<Rightarrow> Inr False | Some k \<Rightarrow> Inr (ak_IsActive k))"

text \<open>The presented key is compared with the stored hash.\<close>

definition mk_Verify :: "string list \<Rightarrow> string \<Rightarrow> MemoryAPIKeyStore \<Rightarrow> APIKey result" where
  "mk_Verify ks key s = (case find (\<lambda>k. ak_IsActive k \<and> ak_KeyHash k = key) (map (\<lambda>k. the (s k)) ks) of
     Some k \<Rightarrow> Inr k | None \<Rightarrow> Inl ''invalid api key'')"

text \<open>The table of the SQLite store by its primary key; the row keeps what a scan reads back.\<close>

record KeyRow =
  kr_name :: string
  kr_description :: string
  kr_key_hash :: string
  kr_key_prefix :: string
  kr_created_at :: string
  kr_expires_at :: "int option"
  kr_is_active :: bool
  kr_permissions_json :: string
  kr_last_used_at :: "int option"

type_synonym KeyTable = "string \<rightharpoonup> KeyRow"

definition unix_seconds :: "gotime \<Rightarrow> int" where
  "unix_seconds t = t_nanos t div 1000000000"

definition sql_CreateAPIKey ::
    "gotime \<Rightarrow> (string list \<Rightarrow> string) \<Rightarrow> string \<Rightarrow> string \<Rightarrow> string \<Rightarrow> string \<Rightarrow> int option
      \<Rightarrow> string list \<Rightarrow> KeyTable \<Rightarrow> APIKey result \<times> KeyTable" where
  "sql_CreateAPIKey now marshal keyHash keyPrefix name description expiresAt permissions db =
     (let keyID = key_id now in
      if db keyID \<noteq> None then (Inl ''UNIQUE constraint failed: api_keys.key_id'', db)
      else
        (Inr \<lparr>ak_KeyID = keyID, ak_Name = name, ak_Description = [], ak_CreatedAt = t_zero,
              ak_ExpiresAt = expiresAt, ak_IsActive = True, ak_KeyHash = keyHash,
              ak_KeyPrefix = keyPrefix, ak_Permissions = permissions, ak_LastUsedAt = None\<rparr>,
         db(keyID \<mapsto> \<lparr>kr_name = name, kr_description = description, kr_key_hash = keyHash,
              kr_key_prefix = keyPrefix, kr_created_at = RFC3339 now, kr_expires_at = expiresAt,
              kr_is_active = True, kr_permissions_json = marshal permissions,
              kr_last_used_at = Some (unix_seconds now)\<rparr>)))"

definition scan_key :: "(string \<Rightarrow> string list) \<Rightarrow> (string \<Rightarrow> gotime) \<Rightarrow> string \<Rightarrow> KeyRow \<Rightarrow> APIKey" where
  "scan_key unmarshal dec_time keyID r =
     \<lparr>ak_KeyID = keyID, ak_Name = kr_name r, ak_Description = kr_description r,
      ak_CreatedAt = dec_time (kr_created_at r), ak_ExpiresAt = kr_expires_at r,
      ak_IsActive = kr_is_active r, ak_KeyHash = kr_key_hash r, ak_KeyPrefix = kr_key_prefix r,
      ak_Permissions = unmarshal (kr_permissions_json r), ak_LastUsedAt = kr_last_used_at r\<rparr>"

definition sql_GetAPIKey ::
    "(string \<Rightarrow> string list) \<Rightarrow> (string \<Rightarrow> gotime) \<Rightarrow> string \<Rightarrow> KeyTable \<Rightarrow> APIKey result" where
  "sql_GetAPIKey unmarshal dec_time keyID db = (case db keyID of
     None \<Rightarrow> Inl (''api key not found: '' @ keyID) | Some r \<Rightarrow> Inr (scan_key unmarshal dec_time keyID r))"

definition sql_GetAPIKeyByHash ::
    "(string \<Rightarrow> string list) \<Rightarrow> (string \<Rightarrow> gotime) \<Rightarrow> string list \<Rightarrow> string \<Rightarrow> KeyTable \<Rightarrow> APIKey result" where
  "sql_GetAPIKeyByHash unmarshal dec_time order keyHash db =
     (case find (\<lambda>k. kr_key_hash (the (db k)) = keyHash) order of
        None \<Rightarrow> Inl ''api key not found'' | Some k \<Rightarrow> Inr (scan_key unmarshal dec_time k (the (db k))))"

definition sql_ListAPIKeys ::
    "(string \<Rightarrow> string list) \<Rightarrow> (string \<Rightarrow> gotime) \<Rightarrow> string list \<Rightarrow> KeyTable \<Rightarrow> APIKey list" where
  "sql_ListAPIKeys unmarshal dec_time order db =
     (let rows = rows_Close (rows_of (map (\<lambda>k. (k, the (db k))) order))
      in map (\<lambda>(k, r). scan_key unmarshal dec_time k r) (read_rows rows))"

definition sql_DeleteAPIKey :: "string \<Rightarrow> KeyTable \<Rightarrow> string option \<times> KeyTable" where
  "sql_DeleteAPIKey keyID db = (None, db(keyID := None))"

definition sql_UpdateAPIKeyLastUsed :: "gotime \<Rightarrow> string \<Rightarrow> KeyTable \<Rightarrow> string option \<times> KeyTable" where
  "sql_UpdateAPIKeyLastUsed now keyID db = (None, (\<lambda>k. case db k of
     None \<Rightarrow> None
   | Some r \<Rightarrow> Some (if k = keyID then r\<lparr>kr_last_used_at := Some (unix_seconds now)\<rparr> else r)))"

text \<open>
  \<^verbatim>\<open>UpdateAPIKey\<close> builds an UPDATE from the given changes; the engine refuses a statement
  that names a column the table lacks. The changes are the fields present in the map.
\<close>

record KeyUpdates =
  ku_name :: "string option"
  ku_description :: "string option"
  ku_expires_at :: "int option option"
  ku_is_active :: "bool option"
  ku_permissions :: "string list option"

definition api_keys_columns :: "string list" where
  "api_keys_columns = [''key_id'', ''name'', ''description'', ''key_hash'', ''key_prefix'',
     ''created_at'', ''expires_at'', ''is_active'', ''permissions_json'', ''last_used_at'']"

definition set_clauses :: "KeyUpdates \<Rightarrow> string list" where
  "set_clauses u =
     (if ku_name u \<noteq> None then [''name''] else []) @
     (if ku_description u \<noteq> None then [''description''] else []) @
     (if ku_expires_at u \<noteq> None then [''expires_at''] else []) @
     (if ku_is_active u \<noteq> None then [''is_active''] else []) @
     (if ku_permissions u \<noteq> None then [''permissions_json''] else []) @ [''updated_at'']"

definition update_row :: "(string list \<Rightarrow> string) \<Rightarrow> KeyUpdates \<Rightarrow> KeyRow \<Rightarrow> KeyRow" where
  "update_row marshal u r =
     r\<lparr>kr_name := (case ku_name u of None \<Rightarrow> kr_name r | Some n \<Rightarrow> n),
       kr_description := (case ku_description u of None \<Rightarrow> kr_description r | Some d \<Rightarrow> d),
       kr_expires_at := (case ku_expires_at u of None \<Rightarrow> kr_expires_at r | Some e \<Rightarrow> e),
       kr_is_active := (case ku_is_active u of None \<Rightarrow> kr_is_active r | Some b \<Rightarrow> b),
       kr_permissions_json := (case ku_permissions u of None \<Rightarrow> kr_permissions_json r | Some p \<Rightarrow> marshal p)\<rparr>"

definition sql_UpdateAPIKey ::
    "(string list \<Rightarrow> string) \<Rightarrow> nat \<Rightarrow> string \<Rightarrow> KeyUpdates \<Rightarrow> KeyTable \<Rightarrow> string option \<times> KeyTable" where
  "sql_UpdateAPIKey marshal len_updates keyID u db =
     (if len_updates = 0 then (None, db)
      else case find (\<lambda>col. col \<notin> set api_keys_columns) (set_clauses u) of
        Some col \<Rightarrow> (Some (''no such column: '' @ col), db)
      | None \<Rightarrow> (None, (\<lambda>k. case db k of
            None \<Rightarrow> None | Some r \<Rightarrow> Some (if k = keyID then update_row marshal u r else r))))"

definition sql_ValidateKey ::
    "(string \<Rightarrow> string list) \<Rightarrow> (string \<Rightarrow> gotime) \<Rightarrow> string \<Rightarrow> KeyTable \<Rightarrow> bool result" where
  "sql_ValidateKey unmarshal dec_time keyID db =
     map_ok ak_IsActive (sql_GetAPIKey unmarshal dec_time keyID db)"

definition sql_VerifyKey ::
    "(string \<Rightarrow> string list) \<Rightarrow> (string \<Rightarrow> gotime) \<Rightarrow> string list \<Rightarrow> string \<Rightarrow> KeyTable \<Rightarrow> APIKey result" where
  "sql_VerifyKey unmarshal dec_time order key db =
     sql_GetAPIKeyByHash unmarshal dec_time order (HashAPIKey key) db"

section \<open>Providers\<close>

record StoredProvider =
  sp_Name :: string
  sp_BaseURL :: string
  sp_AuthHeader :: string
  sp_Models :: "string list"
  sp_InputPricePer1K :: f64
  sp_OutputPricePer1K :: f64
  sp_IsDefault :: bool

type_synonym MemoryProviderStore = "string \<rightharpoonup> StoredProvider"

definition provider_not_found :: "string \<Rightarrow> string" where
  "provider_not_found name = ''provider not found: '' @ name"

definition mp_Save :: "StoredProvider \<Rightarrow> MemoryProviderStore \<Rightarrow> string option \<times> MemoryProviderStore" where
  "mp_Save config s = (None, s(sp_Name config \<mapsto> config))"

definition mp_GetByName :: "string \<Rightarrow> MemoryProviderStore \<Rightarrow> StoredProvider result" where
  "mp_GetByName name s = (case s name of None \<Rightarrow> Inl (provider_not_found name) | Some p \<Rightarrow> Inr p)"

definition mp_List :: "string list \<Rightarrow> MemoryProviderStore \<Rightarrow> StoredProvider list result" where
  "mp_List ks s = Inr (map (\<lambda>k. the (s k)) ks)"

definition mp_Delete :: "string \<Rightarrow> MemoryProviderStore \<Rightarrow> string option \<times> MemoryProviderStore" where
  "mp_Delete name s = (None, s(name := None))"

definition mp_GetDefault :: "string list \<Rightarrow> MemoryProviderStore \<Rightarrow> StoredProvider result" where
  "mp_GetDefault ks s = (case find sp_IsDefault (map (\<lambda>k. the (s k)) ks) of
     Some p \<Rightarrow> Inr p | None \<Rightarrow> Inl ''no default provider found'')"

definition mp_SetDefault :: "string \<Rightarrow> MemoryProviderStore \<Rightarrow> string option \<times> MemoryProviderStore" where
  "mp_SetDefault name s =
     (let s = (\<lambda>k. map_option (\<lambda>p. p\<lparr>sp_IsDefault := False\<rparr>) (s k)) in
      case s name of
        None \<Rightarrow> (Some (provider_not_found name), s)
      | Some p \<Rightarrow> (None, s(name \<mapsto> p\<lparr>sp_IsDefault := True\<rparr>)))"

record ProviderRow =
  pw_base_url :: string
  pw_auth_header :: string
  pw_models_json :: string
  pw_input_price :: f64
  pw_output_price :: f64
  pw_is_default :: bool

type_synonym ProviderTable = "string \<rightharpoonup> ProviderRow"

definition provider_row :: "(string list \<Rightarrow> string) \<Rightarrow> StoredProvider \<Rightarrow> ProviderRow" where
  "provider_row marshal p =
     \<lparr>pw_base_url = sp_BaseURL p, pw_auth_header = sp_AuthHeader p,
      pw_models_json = marshal (sp_Models p), pw_input_price = sp_InputPricePer1K p,
      pw_output_price = sp_OutputPricePer1K p, pw_is_default = sp_IsDefault p\<rparr>"

definition scan_provider :: "(string \<Rightarrow> string list) \<Rightarrow> string \<Rightarrow> ProviderRow \<Rightarrow> StoredProvider" where
  "scan_provider unmarshal name r =
     \<lparr>sp_Name = name, sp_BaseURL = pw_base_url r, sp_AuthHeader = pw_auth_header r,
      sp_Models = unmarshal (pw_models_json r), sp_InputPricePer1K = pw_input_price r,
      sp_OutputPricePer1K = pw_output_price r, sp_IsDefault = pw_is_default r\<rparr>"

definition sql_SaveProvider ::
    "(string list \<Rightarrow> string) \<Rightarrow> StoredProvider \<Rightarrow> ProviderTable \<Rightarrow> string option \<times> ProviderTable" where
  "sql_SaveProvider marshal config db = (None, db(sp_Name config \<mapsto> provider_row marshal config))"

definition sql_GetProvider :: "(string \<Rightarrow> string list) \<Rightarrow> string \<Rightarrow> ProviderTable \<Rightarrow> StoredProvider result" where
  "sql_GetProvider unmarshal name db = (case db name of
     None \<Rightarrow> Inl (provider_not_found name) | Some r \<Rightarrow> Inr (scan_provider unmarshal name r))"

definition sql_ListProviders ::
    "(string \<Rightarrow> string list) \<Rightarrow> string list \<Rightarrow> ProviderTable \<Rightarrow> StoredProvider list result" where
  "sql_ListProviders unmarshal order db =
     (let rows = rows_Close (rows_of (map (\<lambda>k. (k, the (db k))) order))
      in Inr (map (\<lambda>(k, r). scan_provider unmarshal k r) (read_rows rows)))"

definition sql_DeleteProvider :: "string \<Rightarrow> ProviderTable \<Rightarrow> string option \<times> ProviderTable" where
  "sql_DeleteProvider name db = (None, db(name := None))"

definition sql_GetDefaultProvider ::
    "(string \<Rightarrow> string list) \<Rightarrow> string list \<Rightarrow> ProviderTable \<Rightarrow> StoredProvider result" where
  "sql_GetDefaultProvider unmarshal order db =
     (case find (\<lambda>k. pw_is_default (the (db k))) order of
        None \<Rightarrow> Inl ''no default provider found''
      | Some k \<Rightarrow> Inr (scan_provider unmarshal k (the (db k))))"

definition sql_SetDefaultProvider :: "string \<Rightarrow> ProviderTable \<Rightarrow> string option \<times> ProviderTable" where
  "sql_SetDefaultProvider name db =
     (let db = (\<lambda>k. map_option (\<lambda>r. r\<lparr>pw_is_default := False\<rparr>) (db k));
          db = (\<lambda>k. map_option (\<lambda>r. if k = name then r\<lparr>pw_is_default := True\<rparr> else r) (db k))
      in (None, db))"

text \<open>The contract of a provider store: a record store with one flag that marks the default.\<close>

locale provider_store =
  kv_store save get delete contents sp_Name stored provider_not_found
  for save :: "StoredProvider \<Rightarrow> 's \<Rightarrow> string option \<times> 's"
    and get :: "string \<Rightarrow> 's \<Rightarrow> StoredProvider result"
    and delete :: "string \<Rightarrow> 's \<Rightarrow> string option \<times> 's"
    and contents :: "'s \<Rightarrow> string \<rightharpoonup> StoredProvider"
    and stored :: "StoredProvider \<Rightarrow> StoredProvider" +
  fixes setDefault :: "string \<Rightarrow> 's \<Rightarrow> string option \<times> 's"
  assumes contents_setDefault:
      "contents (snd (setDefault name s)) =
         (\<lambda>k. map_option (\<lambda>p. p\<lparr>sp_IsDefault := (k = name)\<rparr>) (contents s k))"
    and stored_name: "sp_Name (stored p) = sp_Name p"
    and stored_default: "sp_IsDefault (stored p) = sp_IsDefault p"
begin

lemma setDefault_unique:
  "contents (snd (setDefault name s)) k = Some p \<Longrightarrow> sp_IsDefault p \<longleftrightarrow> k = name"
  by (auto simp: contents_setDefault)

lemma setDefault_dom: "dom (contents (snd (setDefault name s))) = dom (contents s)"
  by (auto simp: contents_setDefault dom_def)

lemma setDefault_last:
  "contents (snd (setDefault name (snd (setDefault name' s)))) = contents (snd (setDefault name s))"
  by (auto simp: contents_setDefault fun_eq_iff option.map_comp comp_def)

end

lemma mp_SetDefault_contents:
  "snd (mp_SetDefault name s) = (\<lambda>k. map_option (\<lambda>p. p\<lparr>sp_IsDefault := (k = name)\<rparr>) (s k))"
proof
  fix k
  show "snd (mp_SetDefault name s) k = map_option (\<lambda>p. p\<lparr>sp_IsDefault := (k = name)\<rparr>) (s k)"
    by (cases "s name"; cases "s k"; cases "k = name") (simp_all add: mp_SetDefault_def Let_def)
qed

lemma sql_SetDefaultProvider_contents:
  "snd (sql_SetDefaultProvider name db) = (\<lambda>k. map_option (\<lambda>r. r\<lparr>pw_is_default := (k = name)\<rparr>) (db k))"
proof
  fix k
  show "snd (sql_SetDefaultProvider name db) k = map_option (\<lambda>r. r\<lparr>pw_is_default := (k = name)\<rparr>) (db k)"
    by (cases "db k") (auto simp: sql_SetDefaultProvider_def Let_def)
qed

interpretation mem_providers: provider_store mp_Save mp_GetByName mp_Delete "\<lambda>s. s" "\<lambda>p. p" mp_SetDefault
  by unfold_locales
    (auto simp: mp_Save_def mp_GetByName_def mp_Delete_def mp_SetDefault_contents split: option.splits)

interpretation sql_providers: provider_store "sql_SaveProvider marshal" "sql_GetProvider unmarshal"
    sql_DeleteProvider "\<lambda>db k. map_option (scan_provider unmarshal k) (db k)"
    "\<lambda>p. scan_provider unmarshal (sp_Name p) (provider_row marshal p)" sql_SetDefaultProvider
  for marshal unmarshal
  by unfold_locales
    (auto simp: sql_SaveProvider_def sql_GetProvider_def sql_DeleteProvider_def sql_SetDefaultProvider_contents
      provider_row_def scan_provider_def option.map_comp comp_def split: option.splits)

section \<open>Gaps of the SQLite stores\<close>

text \<open>The list functions read a closed result set.\<close>

lemma sql_record_lists_empty:
  "sql_ListRiskReports unmarshal order limit db = []" "sql_ListAPIKeys um dec_time order kdb = []"
  "sql_ListProviders um order pdb = Inr []"
  by (simp_all add: sql_ListRiskReports_def sql_ListAPIKeys_def sql_ListProviders_def)

text \<open>An update of an API key always fails: the statement sets a column the table does not have.\<close>

lemma sql_UpdateAPIKey_fails:
  "0 < n \<Longrightarrow> sql_UpdateAPIKey marshal n keyID u db = (Some ''no such column: updated_at'', db)"
proof -
  assume "0 < n"
  have "find (\<lambda>col. col \<notin> set api_keys_columns) (set_clauses u) = Some ''updated_at''"
    by (simp add: set_clauses_def api_keys_columns_def)
  with \<open>0 < n\<close> show ?thesis by (simp add: sql_UpdateAPIKey_def)
qed

section \<open>The properties\<close>

text \<open>
  Setting the default provider: afterwards exactly the provider of that name, if there
  is one, carries the flag, and nothing else changed. The memory store reports an unknown name, after
  the old default is already gone; the SQLite store does not.
\<close>

theorem set_default_exact:
  "mp_SetDefault name s =
     (if s name = None then Some (provider_not_found name) else None,
      \<lambda>k. map_option (\<lambda>p. p\<lparr>sp_IsDefault := (k = name)\<rparr>) (s k)) \<and>
   sql_SetDefaultProvider name db =
     (None, \<lambda>k. map_option (\<lambda>r. r\<lparr>pw_is_default := (k = name)\<rparr>) (db k))"
proof -
  have "fst (mp_SetDefault name s) = (if s name = None then Some (provider_not_found name) else None)"
    by (auto simp: mp_SetDefault_def Let_def split: option.splits)
  moreover have "fst (sql_SetDefaultProvider name db) = None"
    by (simp add: sql_SetDefaultProvider_def Let_def)
  ultimately show ?thesis
    using mp_SetDefault_contents [of name s] sql_SetDefaultProvider_contents [of name db]
    by (intro conjI prod_eqI) simp_all
qed

lemma key_lookup:
  assumes "iter_order order db"
  shows "(\<exists>r. sql_VerifyKey unmarshal dec_time order key db = Inr r)
      = (\<exists>k r. db k = Some r \<and> kr_key_hash r = HashAPIKey key)"
proof -
  have ord: "set order = dom db" using assms by (auto simp: iter_order_def)
  have "(\<exists>r. sql_VerifyKey unmarshal dec_time order key db = Inr r) =
      (find (\<lambda>k. kr_key_hash (the (db k)) = HashAPIKey key) order \<noteq> None)"
    by (auto simp: sql_VerifyKey_def sql_GetAPIKeyByHash_def split: option.splits)
  also have "\<dots> = (\<exists>k \<in> dom db. kr_key_hash (the (db k)) = HashAPIKey key)"
    by (auto simp: find_None_iff ord [symmetric])
  also have "\<dots> = (\<exists>k r. db k = Some r \<and> kr_key_hash r = HashAPIKey key)"
    by (fastforce simp: dom_def)
  finally show ?thesis .
qed

text \<open>
  Which presented keys the stores accept, in any order of going through the records.
  The memory store accepts a text that equals the stored hash of an active key, so the hash itself and
  not the key. The SQLite store accepts a key whose hash is stored, also when the key was deactivated or
  has expired.
\<close>

theorem verify_accepts:
  assumes "iter_order ks s" "iter_order order db"
  shows "(\<exists>r. mk_Verify ks key s = Inr r) = (\<exists>k r. s k = Some r \<and> ak_IsActive r \<and> ak_KeyHash r = key) \<and>
    (\<exists>r. sql_VerifyKey unmarshal dec_time order key db = Inr r)
      = (\<exists>k r. db k = Some r \<and> kr_key_hash r = HashAPIKey key)"
proof -
  have ks: "set ks = dom s" using assms by (auto simp: iter_order_def)
  have "(\<exists>r. mk_Verify ks key s = Inr r) =
      (find (\<lambda>k. ak_IsActive k \<and> ak_KeyHash k = key) (map (\<lambda>k. the (s k)) ks) \<noteq> None)"
    by (auto simp: mk_Verify_def split: option.splits)
  also have "\<dots> = (\<exists>k \<in> dom s. ak_IsActive (the (s k)) \<and> ak_KeyHash (the (s k)) = key)"
    by (auto simp: find_None_iff ks [symmetric])
  also have "\<dots> = (\<exists>k r. s k = Some r \<and> ak_IsActive r \<and> ak_KeyHash r = key)"
    by (fastforce simp: dom_def)
  finally have mem: "(\<exists>r. mk_Verify ks key s = Inr r) =
    (\<exists>k r. s k = Some r \<and> ak_IsActive r \<and> ak_KeyHash r = key)" .
  with key_lookup [OF assms(2)] show ?thesis by simp
qed

theorem verify_accepts_witness:
  "(\<exists>r. sql_VerifyKey (\<lambda>_. []) (\<lambda>_. t_zero) [''k''] ''secret''
     [''k'' \<mapsto> \<lparr>kr_name = [], kr_description = [], kr_key_hash = HashAPIKey ''secret'', kr_key_prefix = [],
        kr_created_at = [], kr_expires_at = Some 0, kr_is_active = False, kr_permissions_json = [],
        kr_last_used_at = None\<rparr>] = Inr r)"
proof -
  let ?db = "[''k'' \<mapsto> \<lparr>kr_name = [], kr_description = [], kr_key_hash = HashAPIKey ''secret'', kr_key_prefix = [],
        kr_created_at = [], kr_expires_at = Some 0, kr_is_active = False, kr_permissions_json = [],
        kr_last_used_at = None\<rparr>]"
  have "iter_order [''k''] ?db" by (auto simp: iter_order_def)
  from verify_accepts [OF iter_order_empty this, of "''secret''" "\<lambda>_. []" "\<lambda>_. t_zero"]
  show ?thesis by auto
qed

end
