(* ===== verification/Router.thy ===== *)
theory Router
  imports RecordStores Sse Breaker
begin

text \<open>
  \<^verbatim>\<open>internal/service/router/model_router.go\<close>: the providers with their clients, the default
  provider and the degrade map, kept in step with a provider store. The store's operations are
  arguments, behind the contract \<open>provider_store\<close>; \<open>ks\<close> is the order of ranging over the
  map of providers.
\<close>

record RouterProvider =
  rp_BaseURL :: string
  rp_AuthHeader :: string
  rp_Models :: "string list"
  rp_InputPer1K :: f64
  rp_OutputPer1K :: f64

text \<open>A client is a fault tolerant client around the provider's HTTP client.\<close>

type_synonym RouterClient = "RealUpstreamClient \<times> FaultTolerantUpstreamClient"

record 's ModelRouter =
  mo_providers :: "string \<rightharpoonup> RouterProvider"
  mo_clients :: "string \<rightharpoonup> RouterClient"
  mo_defaultProvider :: string
  mo_degradeMap :: "string \<rightharpoonup> string"
  mo_providerStore :: "'s option"

record 's ProviderOps =
  po_Save :: "StoredProvider \<Rightarrow> 's \<Rightarrow> string option \<times> 's"
  po_GetByName :: "string \<Rightarrow> 's \<Rightarrow> StoredProvider result"
  po_List :: "'s \<Rightarrow> StoredProvider list result"
  po_Delete :: "string \<Rightarrow> 's \<Rightarrow> string option \<times> 's"

definition NewModelRouter :: "'s ModelRouter" where
  "NewModelRouter = \<lparr>mo_providers = Map.empty, mo_clients = Map.empty, mo_defaultProvider = [],
     mo_degradeMap = Map.empty, mo_providerStore = None\<rparr>"

definition NewModelRouterWithStore :: "'s \<Rightarrow> 's ModelRouter" where
  "NewModelRouterWithStore store = NewModelRouter\<lparr>mo_providerStore := Some store\<rparr>"

definition make_client :: "string \<Rightarrow> string \<Rightarrow> string \<Rightarrow> RouterClient" where
  "make_client name baseURL authHeader =
     (NewRealUpstreamClient name baseURL authHeader [], NewFaultTolerantUpstreamClient)"

definition load_provider :: "'s ModelRouter \<Rightarrow> StoredProvider \<Rightarrow> 's ModelRouter" where
  "load_provider r p =
     r\<lparr>mo_providers := (mo_providers r)(sp_Name p \<mapsto>
          \<lparr>rp_BaseURL = sp_BaseURL p, rp_AuthHeader = sp_AuthHeader p, rp_Models = sp_Models p,
           rp_InputPer1K = sp_InputPricePer1K p, rp_OutputPer1K = sp_OutputPricePer1K p\<rparr>),
       mo_clients := (mo_clients r)(sp_Name p \<mapsto> make_client (sp_Name p) (sp_BaseURL p) (sp_AuthHeader p)),
       mo_defaultProvider := (if sp_IsDefault p then sp_Name p else mo_defaultProvider r)\<rparr>"

definition LoadFromStore :: "'s ProviderOps \<Rightarrow> 's ModelRouter \<Rightarrow> string option \<times> 's ModelRouter" where
  "LoadFromStore ops r = (case mo_providerStore r of
     None \<Rightarrow> (Some ''provider store not set'', r)
   | Some store \<Rightarrow> (case po_List ops store of
       Inl e \<Rightarrow> (Some (''failed to load providers from store: '' @ e), r)
     | Inr providers \<Rightarrow> (None, foldl load_provider r providers)))"

definition AddProvider :: "'s ProviderOps \<Rightarrow> string \<Rightarrow> RouterProvider \<Rightarrow> 's ModelRouter \<Rightarrow> 's ModelRouter" where
  "AddProvider ops name config r =
     (let r = r\<lparr>mo_providers := (mo_providers r)(name \<mapsto> config),
            mo_clients := (mo_clients r)(name \<mapsto> make_client name (rp_BaseURL config) (rp_AuthHeader config))\<rparr>
      in case mo_providerStore r of
        None \<Rightarrow> r
      | Some store \<Rightarrow>
          let p = \<lparr>sp_Name = name, sp_BaseURL = rp_BaseURL config, sp_AuthHeader = rp_AuthHeader config,
                 sp_Models = rp_Models config, sp_InputPricePer1K = rp_InputPer1K config,
                 sp_OutputPricePer1K = rp_OutputPer1K config, sp_IsDefault = (name = mo_defaultProvider r)\<rparr>
          in r\<lparr>mo_providerStore := Some (snd (po_Save ops p store))\<rparr>)"

text \<open>Marking a stored provider; a lookup error leaves the store alone.\<close>

definition mark_default :: "'s ProviderOps \<Rightarrow> string \<Rightarrow> bool \<Rightarrow> 's \<Rightarrow> 's" where
  "mark_default ops name flag store = (case po_GetByName ops name store of
     Inl _ \<Rightarrow> store
   | Inr p \<Rightarrow> snd (po_Save ops (p\<lparr>sp_IsDefault := flag\<rparr>) store))"

definition SetDefaultProvider :: "'s ProviderOps \<Rightarrow> string \<Rightarrow> 's ModelRouter \<Rightarrow> 's ModelRouter" where
  "SetDefaultProvider ops name r =
     (let oldDefault = mo_defaultProvider r; r = r\<lparr>mo_defaultProvider := name\<rparr> in
      case mo_providerStore r of
        None \<Rightarrow> r
      | Some store \<Rightarrow>
          let store = (if oldDefault \<noteq> [] then mark_default ops oldDefault False store else store);
              store = mark_default ops name True store
          in r\<lparr>mo_providerStore := Some store\<rparr>)"

text \<open>The first provider in the order that lists the model, then the provider before a slash.\<close>

definition serving :: "string list \<Rightarrow> string \<Rightarrow> 's ModelRouter \<Rightarrow> string option" where
  "serving ks model r = find (\<lambda>p. model \<in> set (rp_Models (the (mo_providers r p)))) ks"

definition prefix_name :: "string \<Rightarrow> string option" where
  "prefix_name model = (case Split model (CHR ''/'') of [p, _] \<Rightarrow> Some p | _ \<Rightarrow> None)"

definition GetClient :: "string list \<Rightarrow> string \<Rightarrow> 's ModelRouter \<Rightarrow> RouterClient option result" where
  "GetClient ks model r = (case serving ks model r of
     Some p \<Rightarrow> Inr (mo_clients r p)
   | None \<Rightarrow> (case Option.bind (prefix_name model) (mo_clients r) of
       Some client \<Rightarrow> Inr (Some client)
     | None \<Rightarrow> Inl (''no provider found for model: '' @ model)))"

text \<open>Prices for input and output, and an error beside them.\<close>

definition prices :: "RouterProvider \<Rightarrow> f64 \<times> f64 \<times> string option" where
  "prices c = (rp_InputPer1K c, rp_OutputPer1K c, None)"

definition mo_GetPricing :: "string list \<Rightarrow> string \<Rightarrow> 's ModelRouter \<Rightarrow> f64 \<times> f64 \<times> string option" where
  "mo_GetPricing ks model r = (case serving ks model r of
     Some p \<Rightarrow> prices (the (mo_providers r p))
   | None \<Rightarrow> (case Option.bind (prefix_name model) (mo_providers r) of
       Some c \<Rightarrow> prices c
     | None \<Rightarrow> (case (if mo_defaultProvider r \<noteq> [] then mo_providers r (mo_defaultProvider r) else None) of
         Some c \<Rightarrow> prices c
       | None \<Rightarrow> (lit (1/1000), lit (2/1000),
                   Some (''no pricing found for model: '' @ model @ '', using default'')))))"

definition AddDegradeMapping :: "string \<Rightarrow> string \<Rightarrow> 's ModelRouter \<Rightarrow> 's ModelRouter" where
  "AddDegradeMapping highCostModel lowCostModel r =
     r\<lparr>mo_degradeMap := (mo_degradeMap r)(highCostModel \<mapsto> lowCostModel)\<rparr>"

definition GetDegradeModel :: "string \<Rightarrow> 's ModelRouter \<Rightarrow> string option" where
  "GetDegradeModel model r = mo_degradeMap r model"

definition GetProvider :: "string \<Rightarrow> 's ModelRouter \<Rightarrow> RouterProvider option" where
  "GetProvider name r = mo_providers r name"

definition GetAllModels :: "string list \<Rightarrow> 's ModelRouter \<Rightarrow> string list" where
  "GetAllModels ks r = first_seen [] (concat (map (\<lambda>p. rp_Models (the (mo_providers r p))) ks))"

definition RemoveProvider :: "'s ProviderOps \<Rightarrow> string \<Rightarrow> 's ModelRouter \<Rightarrow> string option \<times> 's ModelRouter" where
  "RemoveProvider ops name r =
     (if mo_providers r name = None then (Some (''provider not found: '' @ name), r)
      else (None,
        r\<lparr>mo_providers := (mo_providers r)(name := None), mo_clients := (mo_clients r)(name := None),
          mo_defaultProvider := (if mo_defaultProvider r = name then [] else mo_defaultProvider r),
          mo_providerStore := map_option (\<lambda>s. snd (po_Delete ops name s)) (mo_providerStore r)\<rparr>))"

section \<open>Runs\<close>

datatype router_op = RAdd string RouterProvider | RDefault string | RRemove string | RLoad
  | RDegrade string string

fun router_step :: "'s ProviderOps \<Rightarrow> router_op \<Rightarrow> 's ModelRouter \<Rightarrow> 's ModelRouter" where
  "router_step ops (RAdd name c) r = AddProvider ops name c r"
| "router_step ops (RDefault name) r = SetDefaultProvider ops name r"
| "router_step ops (RRemove name) r = snd (RemoveProvider ops name r)"
| "router_step ops RLoad r = snd (LoadFromStore ops r)"
| "router_step ops (RDegrade h l) r = AddDegradeMapping h l r"

text \<open>Every provider has its client, made from its own configuration.\<close>

definition clients_ok :: "'s ModelRouter \<Rightarrow> bool" where
  "clients_ok r \<longleftrightarrow> mo_clients r =
     (\<lambda>p. map_option (\<lambda>c. make_client p (rp_BaseURL c) (rp_AuthHeader c)) (mo_providers r p))"

lemma clients_ok_load: "clients_ok r \<Longrightarrow> clients_ok (foldl load_provider r ps)"
proof (induction ps arbitrary: r)
  case (Cons p ps)
  have "clients_ok (load_provider r p)"
    using Cons.prems by (auto simp: clients_ok_def load_provider_def fun_eq_iff)
  then show ?case using Cons.IH by simp
qed simp

lemma clients_ok_step [inv_intros]: "clients_ok r \<Longrightarrow> clients_ok (router_step ops op r)"
proof (cases op)
  case RLoad
  assume "clients_ok r"
  with RLoad show ?thesis
    by (auto simp: LoadFromStore_def clients_ok_load split: option.splits sum.splits)
qed (auto simp: clients_ok_def AddProvider_def SetDefaultProvider_def RemoveProvider_def
      AddDegradeMapping_def Let_def fun_eq_iff split: option.splits)

lemma clients_ok_run: "clients_ok r \<Longrightarrow> clients_ok (fold (router_step ops) rops r)"
  by (induction rops arbitrary: r) (auto intro: inv_intros)

lemma serving_unique:
  assumes "iter_order ks (mo_providers r)" "mo_providers r p = Some c" "model \<in> set (rp_Models c)"
    and "\<And>p' c'. mo_providers r p' = Some c' \<Longrightarrow> model \<in> set (rp_Models c') \<Longrightarrow> p' = p"
  shows "serving ks model r = Some p"
proof -
  have set: "set ks = dom (mo_providers r)" using assms(1) by (simp add: iter_order_def)
  have "serving ks model r \<noteq> None"
    using assms(2,3) set by (auto simp: serving_def find_None_iff dom_def)
  then obtain q where q: "serving ks model r = Some q" by blast
  then have "q \<in> set ks" "model \<in> set (rp_Models (the (mo_providers r q)))"
    by (auto simp: serving_def find_Some_iff)
  with set assms(4) have "q = p" by auto
  with q show ?thesis by simp
qed

section \<open>The default provider in the store\<close>

text \<open>
  Every stored provider is under its own nonempty name, and one that is marked as default is the
  router's default.
\<close>

definition marks_ok :: "(string \<rightharpoonup> StoredProvider) \<Rightarrow> string \<Rightarrow> bool" where
  "marks_ok ct d \<longleftrightarrow> (\<forall>k p. ct k = Some p \<longrightarrow> k \<noteq> [] \<and> sp_Name p = k \<and> (sp_IsDefault p \<longrightarrow> k = d))"

definition ops_of ::
    "(StoredProvider \<Rightarrow> 's \<Rightarrow> string option \<times> 's) \<Rightarrow> (string \<Rightarrow> 's \<Rightarrow> StoredProvider result)
      \<Rightarrow> ('s \<Rightarrow> StoredProvider list result) \<Rightarrow> (string \<Rightarrow> 's \<Rightarrow> string option \<times> 's) \<Rightarrow> 's ProviderOps" where
  "ops_of save get lst delete = \<lparr>po_Save = save, po_GetByName = get, po_List = lst, po_Delete = delete\<rparr>"

definition store_agrees :: "('s \<Rightarrow> string \<rightharpoonup> StoredProvider) \<Rightarrow> 's ModelRouter \<Rightarrow> bool" where
  "store_agrees contents r \<longleftrightarrow>
     (case mo_providerStore r of None \<Rightarrow> True | Some s \<Rightarrow> marks_ok (contents s) (mo_defaultProvider r))"

definition named :: "router_op \<Rightarrow> bool" where
  "named op \<longleftrightarrow> (case op of RAdd name c \<Rightarrow> name \<noteq> [] | _ \<Rightarrow> True)"

lemma load_default:
  "mo_providerStore (foldl load_provider r ps) = mo_providerStore r"
  "(\<And>p. p \<in> set ps \<Longrightarrow> sp_IsDefault p \<Longrightarrow> sp_Name p = mo_defaultProvider r) \<Longrightarrow>
     mo_defaultProvider (foldl load_provider r ps) = mo_defaultProvider r"
proof -
  show "mo_providerStore (foldl load_provider r ps) = mo_providerStore r"
    by (induction ps arbitrary: r) (simp_all add: load_provider_def)
  show "mo_defaultProvider (foldl load_provider r ps) = mo_defaultProvider r"
    if "\<And>p. p \<in> set ps \<Longrightarrow> sp_IsDefault p \<Longrightarrow> sp_Name p = mo_defaultProvider r"
    using that
  proof (induction ps arbitrary: r)
    case (Cons p ps)
    then have "mo_defaultProvider (load_provider r p) = mo_defaultProvider r"
      by (auto simp: load_provider_def)
    with Cons show ?case by simp
  qed simp
qed

context provider_store
begin

abbreviation "ops lst \<equiv> ops_of save get lst delete"

lemma marks_ok_save:
  "marks_ok (contents s) d \<Longrightarrow> sp_Name p \<noteq> [] \<Longrightarrow> (sp_IsDefault p \<Longrightarrow> sp_Name p = d) \<Longrightarrow>
   marks_ok (contents (snd (save p s))) d"
  by (auto simp: marks_ok_def contents_save stored_name stored_default)

lemma mark_default_contents:
  "marks_ok (contents s) d \<Longrightarrow> contents (mark_default (ops lst) name flag s) =
     (case contents s name of None \<Rightarrow> contents s
      | Some p \<Rightarrow> (contents s)(name \<mapsto> stored (p\<lparr>sp_IsDefault := flag\<rparr>)))"
  by (auto simp: mark_default_def ops_of_def get_contents contents_save marks_ok_def split: option.splits)

lemma marks_ok_unmark:
  assumes "marks_ok (contents s) d"
  shows "marks_ok (contents (if d \<noteq> [] then mark_default (ops lst) d False s else s)) d'"
  using assms mark_default_contents [OF assms, of lst d False]
  by (auto simp: marks_ok_def stored_name stored_default split: option.splits if_splits)

lemma marks_ok_mark:
  assumes "marks_ok (contents s) d"
  shows "marks_ok (contents (mark_default (ops lst) d True s)) d"
  using assms mark_default_contents [OF assms, of lst d True]
  by (auto simp: marks_ok_def stored_name stored_default split: option.splits if_splits)

lemma store_agrees_step:
  assumes "\<And>s ps. lst s = Inr ps \<Longrightarrow> set ps \<subseteq> ran (contents s)"
    and "store_agrees contents r" "named op"
  shows "store_agrees contents (router_step (ops lst) op r)"
proof (cases "mo_providerStore r")
  case None
  with assms(2) show ?thesis
    by (cases op)
      (auto simp: store_agrees_def AddProvider_def SetDefaultProvider_def RemoveProvider_def
        AddDegradeMapping_def LoadFromStore_def Let_def)
next
  case (Some s)
  with assms(2) have marks: "marks_ok (contents s) (mo_defaultProvider r)" by (simp add: store_agrees_def)
  show ?thesis
  proof (cases op)
    case (RAdd name c)
    with Some marks assms(3) show ?thesis
      by (auto simp: store_agrees_def AddProvider_def Let_def ops_of_def named_def intro!: marks_ok_save)
  next
    case (RDefault name)
    with Some marks_ok_mark [OF marks_ok_unmark [OF marks]] show ?thesis
      by (simp add: store_agrees_def SetDefaultProvider_def Let_def)
  next
    case (RRemove name)
    with Some marks show ?thesis
      by (auto simp: store_agrees_def RemoveProvider_def ops_of_def contents_delete marks_ok_def split: if_splits)
  next
    case RLoad
    have "sp_Name p = mo_defaultProvider r" if "lst s = Inr ps" "p \<in> set ps" "sp_IsDefault p" for ps p
      using assms(1) [OF that(1)] that(2,3) marks by (auto simp: marks_ok_def ran_def)
    with RLoad Some marks show ?thesis
      by (auto simp: store_agrees_def LoadFromStore_def ops_of_def load_default split: sum.splits)
  next
    case (RDegrade h l)
    with Some marks show ?thesis by (simp add: store_agrees_def AddDegradeMapping_def)
  qed
qed

lemma store_agrees_run:
  assumes "\<And>s ps. lst s = Inr ps \<Longrightarrow> set ps \<subseteq> ran (contents s)"
  shows "store_agrees contents r \<Longrightarrow> \<forall>op \<in> set rops. named op \<Longrightarrow>
    store_agrees contents (fold (router_step (ops lst)) rops r)"
  by (induction rops arbitrary: r) (simp_all add: store_agrees_step [OF assms])

end

section \<open>The properties\<close>

text \<open>
  \<^bold>\<open>C35.\<close> Routing. In every state reached by any operations, a model that one provider lists is
  routed to that provider's client, built from its own address and credentials, and priced at that
  provider's prices, whatever order the two lookups range over the providers in.
\<close>

theorem routing_and_pricing_agree:
  assumes "r = fold (router_step ops) rops r0" "clients_ok r0"
    and "iter_order ks (mo_providers r)" "iter_order ks' (mo_providers r)"
    and "mo_providers r p = Some c" "model \<in> set (rp_Models c)"
    and "\<And>p' c'. mo_providers r p' = Some c' \<Longrightarrow> model \<in> set (rp_Models c') \<Longrightarrow> p' = p"
  shows "GetClient ks model r = Inr (Some (make_client p (rp_BaseURL c) (rp_AuthHeader c))) \<and>
    mo_GetPricing ks' model r = (rp_InputPer1K c, rp_OutputPer1K c, None)"
proof -
  have "mo_clients r p = Some (make_client p (rp_BaseURL c) (rp_AuthHeader c))"
    using clients_ok_run [OF assms(2), of ops rops] assms(1,5) by (simp add: clients_ok_def)
  with serving_unique [OF assms(3,5,6,7)] serving_unique [OF assms(4,5,6,7)] assms(5) show ?thesis
    by (simp add: GetClient_def mo_GetPricing_def prices_def)
qed

theorem routing_and_pricing_agree_witness:
  "let c = \<lparr>rp_BaseURL = ''u'', rp_AuthHeader = ''h'', rp_Models = [''m''], rp_InputPer1K = Fin 1, rp_OutputPer1K = Fin 2\<rparr>;
       r = fold (router_step (ops_of mp_Save mp_GetByName (mp_List []) mp_Delete)) [RAdd ''a'' c] NewModelRouter
   in GetClient [''a''] ''m'' r = Inr (Some (make_client ''a'' ''u'' ''h''))"
proof -
  let ?c = "\<lparr>rp_BaseURL = ''u'', rp_AuthHeader = ''h'', rp_Models = [''m''], rp_InputPer1K = Fin 1, rp_OutputPer1K = Fin 2\<rparr>"
  let ?ops = "ops_of mp_Save mp_GetByName (mp_List []) mp_Delete"
  let ?r = "fold (router_step ?ops) [RAdd ''a'' ?c] NewModelRouter"
  have r: "mo_providers ?r = [''a'' \<mapsto> ?c]"
    by (simp add: AddProvider_def NewModelRouter_def Let_def)
  have ord: "iter_order [''a''] (mo_providers ?r)" unfolding r by (simp add: iter_order_def)
  have c: "mo_providers ?r ''a'' = Some ?c" "''m'' \<in> set (rp_Models ?c)"
    "\<And>p' c'. mo_providers ?r p' = Some c' \<Longrightarrow> ''m'' \<in> set (rp_Models c') \<Longrightarrow> p' = ''a''"
    unfolding r by (auto split: if_splits)
  have "clients_ok NewModelRouter" by (simp add: clients_ok_def NewModelRouter_def)
  from routing_and_pricing_agree [OF refl this ord ord c] show ?thesis
    by (simp only: Let_def) simp
qed

text \<open>
  The store never disagrees with the router about the default: after any operations on
  a router with the memory or the SQLite provider store, in which providers have nonempty names, a
  stored provider that is marked as default is the router's default provider.
\<close>

theorem default_marks_agree:
  assumes "\<forall>op \<in> set rops. named op"
    and "\<And>s ps. lst s = Inr ps \<Longrightarrow> set ps \<subseteq> ran s"
  shows "store_agrees (\<lambda>s. s)
      (fold (router_step (ops_of mp_Save mp_GetByName lst mp_Delete)) rops (NewModelRouterWithStore Map.empty)) \<and>
    store_agrees (\<lambda>db k. map_option (scan_provider unmarshal k) (db k))
      (fold (router_step (ops_of (sql_SaveProvider marshal) (sql_GetProvider unmarshal)
          (sql_ListProviders unmarshal order) sql_DeleteProvider)) rops (NewModelRouterWithStore Map.empty))"
proof
  show "store_agrees (\<lambda>s. s)
      (fold (router_step (ops_of mp_Save mp_GetByName lst mp_Delete)) rops (NewModelRouterWithStore Map.empty))"
    using assms
    by (intro mem_providers.store_agrees_run)
      (auto simp: store_agrees_def NewModelRouterWithStore_def marks_ok_def)
  show "store_agrees (\<lambda>db k. map_option (scan_provider unmarshal k) (db k))
      (fold (router_step (ops_of (sql_SaveProvider marshal) (sql_GetProvider unmarshal)
          (sql_ListProviders unmarshal order) sql_DeleteProvider)) rops (NewModelRouterWithStore Map.empty))"
    using assms
    by (intro sql_providers.store_agrees_run)
      (auto simp: store_agrees_def NewModelRouterWithStore_def marks_ok_def sql_record_lists_empty)
qed

theorem default_marks_agree_witness:
  "let c = \<lparr>rp_BaseURL = [], rp_AuthHeader = [], rp_Models = [], rp_InputPer1K = Fin 1, rp_OutputPer1K = Fin 2\<rparr>
   in store_agrees (\<lambda>s. s)
      (fold (router_step (ops_of mp_Save mp_GetByName (mp_List []) mp_Delete))
        [RAdd ''a'' c, RAdd ''b'' c, RDefault ''a'', RDefault ''b'', RRemove ''b''] (NewModelRouterWithStore Map.empty))"
proof -
  let ?c = "\<lparr>rp_BaseURL = [], rp_AuthHeader = [], rp_Models = [], rp_InputPer1K = Fin 1, rp_OutputPer1K = Fin 2\<rparr>"
  have "\<forall>op \<in> set [RAdd ''a'' ?c, RAdd ''b'' ?c, RDefault ''a'', RDefault ''b'', RRemove ''b'']. named op"
    by (simp add: named_def)
  moreover have "mp_List [] s = Inr ps \<Longrightarrow> set ps \<subseteq> ran s" for s ps by (auto simp: mp_List_def)
  ultimately show ?thesis
    unfolding Let_def using default_marks_agree [where lst = "mp_List []"] by blast
qed

end
