(* ===== verification/Levenshtein.thy ===== *)
theory Levenshtein
  imports Utf8
begin

text \<open>
  \<^verbatim>\<open>LevenshteinDistance\<close> of \<^verbatim>\<open>internal/service/diff/differ.go\<close>: the table of the code,
  row by row, against the cost of edit scripts.
\<close>

section \<open>The table\<close>

text \<open>
  The cells \<open>dp[i][1..n]\<close> of one row: \<open>a\<close> is the rune \<open>r1[i-1]\<close>, the third argument the
  row above from the column before on, the last one the cell to the left.
\<close>

fun next_cells :: "nat \<Rightarrow> nat list \<Rightarrow> int list \<Rightarrow> int \<Rightarrow> int list" where
  "next_cells a (b # bs) (diag # up # upper) left =
     (let c = (if a = b then diag
               else let minVal = up;
                        minVal = (if left < minVal then left else minVal);
                        minVal = (if diag < minVal then diag else minVal)
                    in minVal + 1)
      in c # next_cells a bs (up # upper) c)"
| "next_cells a _ _ left = []"

fun lev_rows :: "nat list \<Rightarrow> nat list \<Rightarrow> int \<Rightarrow> int list \<Rightarrow> int list" where
  "lev_rows [] r2 i row = row"
| "lev_rows (a # as) r2 i row = lev_rows as r2 (i + 1) ((i + 1) # next_cells a r2 row (i + 1))"

definition LevenshteinDistance :: "string \<Rightarrow> string \<Rightarrow> int" where
  "LevenshteinDistance s1 s2 =
     (if length s1 = 0 then int (length s2)
      else if length s2 = 0 then int (length s1)
      else let r1 = runes s1; r2 = runes s2
           in last (lev_rows r1 r2 0 (map int [0..<Suc (length r2)])))"

section \<open>Edit scripts\<close>

text \<open>\<open>edits n xs ys\<close>: n insertions, deletions and substitutions turn \<open>xs\<close> into \<open>ys\<close>.\<close>

inductive edits :: "nat \<Rightarrow> 'a list \<Rightarrow> 'a list \<Rightarrow> bool" where
  edits_Nil: "edits 0 [] []"
| edits_keep: "edits n xs ys \<Longrightarrow> edits n (x # xs) (x # ys)"
| edits_delete: "edits n xs ys \<Longrightarrow> edits (Suc n) (x # xs) ys"
| edits_insert: "edits n xs ys \<Longrightarrow> edits (Suc n) xs (y # ys)"
| edits_replace: "edits n xs ys \<Longrightarrow> edits (Suc n) (x # xs) (y # ys)"

lemma edits_append: "edits m xs ys \<Longrightarrow> edits n us vs \<Longrightarrow> edits (m + n) (xs @ us) (ys @ vs)"
  by (induction rule: edits.induct) (auto intro: edits.intros)

lemma edits_single: "edits (Suc 0) [x] []" "edits (Suc 0) [] [y]" "edits (Suc 0) [x] [y]" "edits 0 [x] [x]"
  by (auto intro: edits.intros)

lemma edits_rev: "edits n xs ys \<Longrightarrow> edits n (rev xs) (rev ys)"
proof (induction rule: edits.induct)
  case (edits_keep n xs ys x)
  from edits_append [OF edits_keep.IH edits_single(4) [of x]] show ?case by simp
next
  case (edits_delete n xs ys x)
  from edits_append [OF edits_delete.IH edits_single(1) [of x]] show ?case by simp
next
  case (edits_insert n xs ys y)
  from edits_append [OF edits_insert.IH edits_single(2) [of y]] show ?case by simp
next
  case (edits_replace n xs ys x y)
  from edits_append [OF edits_replace.IH edits_single(3) [of x y]] show ?case by simp
qed (auto intro: edits.intros)

lemma edits_rev_iff: "edits n (rev xs) (rev ys) \<longleftrightarrow> edits n xs ys"
  using edits_rev [of n "rev xs" "rev ys"] edits_rev by auto

text \<open>The recursive distance, which keeps equal heads.\<close>

fun lev :: "'a list \<Rightarrow> 'a list \<Rightarrow> nat" where
  "lev [] ys = length ys"
| "lev (x # xs) [] = Suc (length xs)"
| "lev (x # xs) (y # ys) =
     (if x = y then lev xs ys else Suc (min (lev xs (y # ys)) (min (lev (x # xs) ys) (lev xs ys))))"

lemma lev_Nil2 [simp]: "lev xs [] = length xs"
  by (cases xs) auto

lemma edits_Nil_left: "edits (length ys) [] ys"
  by (induction ys) (auto intro: edits.intros)

lemma edits_Nil_right: "edits (length xs) xs []"
  by (induction xs) (auto intro: edits.intros)

lemma edits_lev: "edits (lev xs ys) xs ys"
proof (induction xs ys rule: lev.induct)
  case (2 x xs)
  from edits_Nil_right [of "x # xs"] show ?case by simp
next
  case (3 x xs y ys)
  show ?case
  proof (cases "x = y")
    case True
    with 3 show ?thesis by (auto intro: edits.intros)
  next
    case False
    have "edits (Suc (lev xs (y # ys))) (x # xs) (y # ys)"
      "edits (Suc (lev (x # xs) ys)) (x # xs) (y # ys)" "edits (Suc (lev xs ys)) (x # xs) (y # ys)"
      using 3(2-4) [OF False] by (auto intro: edits_delete edits_insert edits_replace)
    with False show ?thesis by (simp add: min_def)
  qed
qed (simp add: edits_Nil_left)

text \<open>One more element changes the distance by at most one, on either side.\<close>

lemma lev_step:
  "lev (x # xs) ys \<le> Suc (lev xs ys)" "lev xs ys \<le> Suc (lev (x # xs) ys)"
  "lev xs (y # ys) \<le> Suc (lev xs ys)" "lev xs ys \<le> Suc (lev xs (y # ys))"
proof -
  have "(\<forall>x. lev (x # xs) ys \<le> Suc (lev xs ys)) \<and> (\<forall>x. lev xs ys \<le> Suc (lev (x # xs) ys)) \<and>
    (\<forall>y. lev xs (y # ys) \<le> Suc (lev xs ys)) \<and> (\<forall>y. lev xs ys \<le> Suc (lev xs (y # ys)))"
  proof (induction "length xs + length ys" arbitrary: xs ys rule: less_induct)
    case less
    have IH: "lev (x # us) vs \<le> Suc (lev us vs)" "lev us vs \<le> Suc (lev (x # us) vs)"
      "lev us (y # vs) \<le> Suc (lev us vs)" "lev us vs \<le> Suc (lev us (y # vs))"
      if "length us + length vs < length xs + length ys" for us vs :: "'a list" and x y
      using less [OF that] by blast+
    have A: "lev (x # xs) ys \<le> Suc (lev xs ys)" for x
    proof (cases ys)
      case (Cons y ys')
      then show ?thesis using IH(4) [of xs ys' y] by auto
    qed simp
    have B: "lev xs ys \<le> Suc (lev (x # xs) ys)" for x
    proof (cases ys)
      case (Cons y ys')
      then show ?thesis
        using IH(3) [of xs ys' y] IH(2) [of xs ys' x] by (auto simp: min_def)
    qed simp
    have C: "lev xs (y # ys) \<le> Suc (lev xs ys)" for y
    proof (cases xs)
      case (Cons x xs')
      then show ?thesis using IH(2) [of xs' ys x] by auto
    qed simp
    have D: "lev xs ys \<le> Suc (lev xs (y # ys))" for y
    proof (cases xs)
      case (Cons x xs')
      then show ?thesis
        using IH(1) [of xs' ys x] IH(4) [of xs' ys y] by (auto simp: min_def)
    qed simp
    from A B C D show ?case by blast
  qed
  then show "lev (x # xs) ys \<le> Suc (lev xs ys)" "lev xs ys \<le> Suc (lev (x # xs) ys)"
    "lev xs (y # ys) \<le> Suc (lev xs ys)" "lev xs ys \<le> Suc (lev xs (y # ys))" by blast+
qed

lemma lev_minimal: "edits n xs ys \<Longrightarrow> lev xs ys \<le> n"
proof (induction rule: edits.induct)
  case (edits_delete n xs ys x)
  with lev_step(1) [of x xs ys] show ?case by simp
next
  case (edits_insert n xs ys y)
  with lev_step(3) [of xs y ys] show ?case by simp
next
  case (edits_replace n xs ys x y)
  then show ?case by (auto simp: min_def)
qed auto

lemma lev_rev: "lev (rev xs) (rev ys) = lev xs ys"
  by (metis antisym edits_lev edits_rev_iff lev_minimal)

lemma lev_le_max: "lev xs ys \<le> max (length xs) (length ys)"
proof (induction xs ys rule: lev.induct)
  case (3 x xs y ys)
  show ?case
  proof (cases "x = y")
    case False
    with 3 have "lev xs ys \<le> max (length xs) (length ys)" by blast
    with False show ?thesis by auto
  qed (use 3 in auto)
qed auto

section \<open>The table holds the distances\<close>

text \<open>The cell for a prefix of each text, on the reversed prefixes.\<close>

definition cell :: "nat list \<Rightarrow> nat list \<Rightarrow> int" where
  "cell p q = int (lev (rev p) (rev q))"

lemma cell_snoc:
  "cell (p @ [a]) (q @ [b]) =
     (if a = b then cell p q else min (min (cell p (q @ [b])) (cell (p @ [a]) q)) (cell p q) + 1)"
  by (simp add: cell_def min_def)

lemma next_cells_cell:
  "next_cells a bs (map (\<lambda>j. cell p (pre @ take j bs)) [0..<Suc (length bs)]) (cell (p @ [a]) pre) =
     map (\<lambda>j. cell (p @ [a]) (pre @ take (Suc j) bs)) [0..<length bs]"
proof (induction bs arbitrary: pre)
  case (Cons b bs)
  let ?c = "cell (p @ [a]) (pre @ [b])"
  have prev: "map (\<lambda>j. cell p (pre @ take j (b # bs))) [0..<Suc (length (b # bs))] =
      cell p pre # map (\<lambda>j. cell p ((pre @ [b]) @ take j bs)) [0..<Suc (length bs)]"
    by (simp add: map_upt_Suc del: upt_Suc)
  have first: "map (\<lambda>j. cell p ((pre @ [b]) @ take j bs)) [0..<Suc (length bs)] =
      cell p (pre @ [b]) # map (\<lambda>j. cell p ((pre @ [b]) @ take (Suc j) bs)) [0..<length bs]"
    by (simp add: map_upt_Suc del: upt_Suc)
  have c: "(if a = b then cell p pre
      else let minVal = cell p (pre @ [b]);
               minVal = (if cell (p @ [a]) pre < minVal then cell (p @ [a]) pre else minVal);
               minVal = (if cell p pre < minVal then cell p pre else minVal) in minVal + 1) = ?c"
    by (simp add: cell_snoc Let_def min_def)
  have "next_cells a (b # bs) (map (\<lambda>j. cell p (pre @ take j (b # bs))) [0..<Suc (length (b # bs))])
      (cell (p @ [a]) pre) =
      ?c # next_cells a bs (map (\<lambda>j. cell p ((pre @ [b]) @ take j bs)) [0..<Suc (length bs)]) ?c"
    unfolding prev first next_cells.simps c by (simp only: Let_def)
  also have "\<dots> = ?c # map (\<lambda>j. cell (p @ [a]) ((pre @ [b]) @ take (Suc j) bs)) [0..<length bs]"
    by (simp only: Cons.IH)
  also have "\<dots> = map (\<lambda>j. cell (p @ [a]) (pre @ take (Suc j) (b # bs))) [0..<length (b # bs)]"
    by (simp add: map_upt_Suc del: upt_Suc)
  finally show ?case .
qed simp

definition cell_row :: "nat list \<Rightarrow> nat list \<Rightarrow> int list" where
  "cell_row p r2 = map (\<lambda>j. cell p (take j r2)) [0..<Suc (length r2)]"

lemma cell_Nil [simp]: "cell p [] = int (length p)" "cell [] q = int (length q)"
  by (simp_all add: cell_def)

lemma cell_row_step:
  "int (length p) + 1 = i \<Longrightarrow> i # next_cells a r2 (cell_row p r2) i = cell_row (p @ [a]) r2"
  using next_cells_cell [of a r2 p "[]"]
  by (auto simp: cell_row_def map_upt_Suc add.commute simp del: upt_Suc)

lemma lev_rows_cell:
  "lev_rows as r2 (int (length p)) (cell_row p r2) = cell_row (p @ as) r2"
proof (induction as arbitrary: p)
  case (Cons a as)
  from Cons.IH [of "p @ [a]"] show ?case
    by (simp add: cell_row_step add.commute)
qed simp

lemma cell_row_Nil: "cell_row [] r2 = map int [0..<Suc (length r2)]"
  by (simp add: cell_row_def cong: map_cong)

lemma LevenshteinDistance_eq:
  "s1 \<noteq> [] \<Longrightarrow> s2 \<noteq> [] \<Longrightarrow> LevenshteinDistance s1 s2 = int (lev (runes s1) (runes s2))"
proof -
  assume "s1 \<noteq> []" "s2 \<noteq> []"
  then have "LevenshteinDistance s1 s2 = last (cell_row (runes s1) (runes s2))"
    using lev_rows_cell [of "runes s1" "runes s2" "[]"]
    by (simp add: LevenshteinDistance_def Let_def cell_row_Nil)
  then show ?thesis by (simp add: cell_row_def cell_def lev_rev)
qed

lemma LevenshteinDistance_bounds:
  "0 \<le> LevenshteinDistance s1 s2" "LevenshteinDistance s1 s2 \<le> int (max (length s1) (length s2))"
proof -
  have "lev (runes s1) (runes s2) \<le> max (length s1) (length s2)"
    using lev_le_max [of "runes s1" "runes s2"] length_runes_le [of s1] length_runes_le [of s2] by linarith
  then show "0 \<le> LevenshteinDistance s1 s2" "LevenshteinDistance s1 s2 \<le> int (max (length s1) (length s2))"
    by (cases "s1 = []"; cases "s2 = []"; simp add: LevenshteinDistance_eq;
        simp add: LevenshteinDistance_def)+
qed

section \<open>The property\<close>

text \<open>
  \<^bold>\<open>C40.\<close> The distance of two texts is the least number of insertions, deletions and
  substitutions of code points that turn one into the other, when neither is empty, and when the other
  one is ASCII. (With an empty text the code counts the bytes of the other.)
\<close>

theorem levenshtein_minimal:
  assumes "s1 \<noteq> [] \<and> s2 \<noteq> [] \<or> length (runes s1) = length s1 \<and> length (runes s2) = length s2"
  shows "edits (nat (LevenshteinDistance s1 s2)) (runes s1) (runes s2) \<and>
    (\<forall>n. edits n (runes s1) (runes s2) \<longrightarrow> LevenshteinDistance s1 s2 \<le> int n)"
proof -
  have "LevenshteinDistance s1 s2 = int (lev (runes s1) (runes s2))"
  proof (cases "s1 \<noteq> [] \<and> s2 \<noteq> []")
    case False
    with assms show ?thesis by (cases "s1 = []") (auto simp: LevenshteinDistance_def)
  qed (simp add: LevenshteinDistance_eq)
  then show ?thesis using edits_lev lev_minimal by auto
qed

theorem levenshtein_minimal_witness:
  "LevenshteinDistance ''kitten'' ''sitting'' = 3 \<and>
   edits 3 (runes ''kitten'') (runes ''sitting'') \<and> \<not> edits 2 (runes ''kitten'') (runes ''sitting'')"
proof -
  have "LevenshteinDistance ''kitten'' ''sitting'' = 3" by code_simp
  with levenshtein_minimal [of "''kitten''" "''sitting''"] show ?thesis by fastforce
qed

end
