(* ===== verification/Test_Vectors.thy ===== *)
theory Test_Vectors
  imports Sha256
begin

text \<open>The published SHA-256 test vectors, evaluated by the kernel.\<close>

lemma sha256_abc:
  "sha256_hex ''abc'' = ''ba7816bf8f01cfea414140de5dae2223b00361a396177a9cb410ff61f20015ad''"
  by code_simp

lemma sha256_empty:
  "sha256_hex [] = ''e3b0c44298fc1c149afbf4c8996fb92427ae41e4649b934ca495991b7852b855''"
  by code_simp

end
