(* ===== verification/Diff.thy ===== *)
theory Diff
  imports Domain Levenshtein
begin

text \<open>
  \<^verbatim>\<open>internal/service/diff/differ.go\<close>: the risk report for a baseline and a candidate trace.
  \<^verbatim>\<open>json.Marshal\<close> on a value of type any is the argument \<open>marshal\<close>, the order in which
  the loop visits the parameters is \<open>ks\<close>, and the clock reading is \<open>now\<close>.
\<close>

section \<open>Equality of values\<close>

text \<open>
  \<^verbatim>\<open>reflect.DeepEqual\<close> on values that contain no pointers: the same dynamic type, and equal
  contents; two maps are equal when each key of one has an equal value in the other.
\<close>

fun deep_equal :: "any \<Rightarrow> any \<Rightarrow> bool" where
  "deep_equal (AFloat a) y = (case y of AFloat b \<Rightarrow> feq a b | _ \<Rightarrow> False)"
| "deep_equal (AArr a) y = (case y of AArr b \<Rightarrow> list_all2 deep_equal a b | _ \<Rightarrow> False)"
| "deep_equal (AMapArr a) y = (case y of
     AMapArr b \<Rightarrow> list_all2 (\<lambda>m m'. length m = length m' \<and>
       list_all (\<lambda>(k, v). case map_of m' k of None \<Rightarrow> False | Some v' \<Rightarrow> deep_equal v v') m) a b
   | _ \<Rightarrow> False)"
| "deep_equal (AMap m) y = (case y of
     AMap m' \<Rightarrow> length m = length m' \<and>
       list_all (\<lambda>(k, v). case map_of m' k of None \<Rightarrow> False | Some v' \<Rightarrow> deep_equal v v') m
   | _ \<Rightarrow> False)"
| "deep_equal x y = (x = y)"

definition valuesEqual :: "(any \<Rightarrow> string result) \<Rightarrow> any \<Rightarrow> any \<Rightarrow> bool" where
  "valuesEqual marshal a b =
     (if a = ANil \<and> b = ANil then True
      else if a = ANil \<or> b = ANil then False
      else if deep_equal a b then True
      else case (marshal a, marshal b) of (Inr aJSON, Inr bJSON) \<Rightarrow> aJSON = bJSON | _ \<Rightarrow> False)"

section \<open>Similarity and score\<close>

definition similarity_of :: "string \<Rightarrow> string \<Rightarrow> f64" where
  "similarity_of old new =
     (let editDist = LevenshteinDistance old new;
          maxLen = int64_of (fmax (f_of_int (int (length old))) (f_of_int (int (length new))))
      in if 0 < maxLen then fsub (lit 1) (fdiv (f_of_int editDist) (f_of_int maxLen)) else lit 1)"

definition calculateRiskScore :: "f64 \<Rightarrow> bool \<Rightarrow> f64" where
  "calculateRiskScore similarity modelChanged =
     (let baseRisk = fsub (lit 1) similarity;
          baseRisk = (if modelChanged then fadd (fmul baseRisk (lit (8/10))) (lit (2/10)) else baseRisk);
          baseRisk = (if flt baseRisk fzero then fzero else baseRisk);
          baseRisk = (if flt (lit 1) baseRisk then lit 1 else baseRisk)
      in fdiv (fround (fmul baseRisk (lit 100))) (lit 100))"

section \<open>Field differences\<close>

definition assessParamRisk :: "string \<Rightarrow> any \<Rightarrow> any \<Rightarrow> RiskLevel" where
  "assessParamRisk key oldValue newValue =
     (if key \<in> {''temperature'', ''top_p'', ''max_tokens'', ''stop'', ''system_prompt''}
      then RiskLevelMedium else RiskLevelLow)"

definition model_difference :: "Trace \<Rightarrow> Trace \<Rightarrow> RiskReport \<Rightarrow> RiskReport" where
  "model_difference b c r =
     (if tr_Model b \<noteq> tr_Model c
      then AddFieldRisk ''model'' (AString (tr_Model b)) (AString (tr_Model c)) RiskLevelMedium
        (Some (lit 1)) ChangeTypeValueChange r
      else r)"

definition param_difference ::
    "(any \<Rightarrow> string result) \<Rightarrow> amap \<Rightarrow> amap \<Rightarrow> string \<Rightarrow> RiskReport \<Rightarrow> RiskReport" where
  "param_difference marshal bp cp key r =
     (let oldValue = (case amap_get bp key of Some v \<Rightarrow> v | None \<Rightarrow> ANil);
          newValue = (case amap_get cp key of Some v \<Rightarrow> v | None \<Rightarrow> ANil)
      in if \<not> valuesEqual marshal oldValue newValue then
           let changeType = (if amap_get bp key = None then ChangeTypeAdded
                             else if amap_get cp key = None then ChangeTypeRemoved
                             else ChangeTypeValueChange)
           in AddFieldRisk (''input.params.'' @ key) oldValue newValue
                (assessParamRisk key oldValue newValue) (Some (lit (95/100))) changeType r
         else r)"

definition params_difference ::
    "(any \<Rightarrow> string result) \<Rightarrow> string list \<Rightarrow> Trace \<Rightarrow> Trace \<Rightarrow> RiskReport \<Rightarrow> RiskReport" where
  "params_difference marshal ks b c r =
     (if in_Params (tr_Input b) \<noteq> None \<or> in_Params (tr_Input c) \<noteq> None
      then let bp = (case in_Params (tr_Input b) of Some m \<Rightarrow> m | None \<Rightarrow> []);
               cp = (case in_Params (tr_Input c) of Some m \<Rightarrow> m | None \<Rightarrow> [])
           in fold (param_difference marshal bp cp) ks r
      else r)"

definition response_difference ::
    "(any \<Rightarrow> string result) \<Rightarrow> Trace \<Rightarrow> Trace \<Rightarrow> RiskReport \<Rightarrow> RiskReport" where
  "response_difference marshal b c r =
     (let rb = out_Response (tr_Output b); rc = out_Response (tr_Output c) in
      if (rb \<noteq> None \<and> rc \<noteq> None \<and> \<not> valuesEqual marshal (AString (the rb)) (AString (the rc))) \<or>
         (rb \<noteq> None \<and> rc = None) \<or> (rb = None \<and> rc \<noteq> None)
      then let oldValue = (case rb of Some s \<Rightarrow> s | None \<Rightarrow> []);
               newValue = (case rc of Some s \<Rightarrow> s | None \<Rightarrow> []);
               changeType = (if rb = None then ChangeTypeAdded
                             else if rc = None then ChangeTypeRemoved else ChangeTypeValueChange);
               riskLevel =
                 (if 0 < length oldValue \<and> 0 < length newValue
                  then let similarity = similarity_of oldValue newValue
                       in if flt similarity (lit (3/10)) then RiskLevelHigh
                          else if flt similarity (lit (7/10)) then RiskLevelMedium else RiskLevelLow
                  else if (rb = None \<and> rc \<noteq> None) \<or> (rb \<noteq> None \<and> rc = None) then RiskLevelHigh
                  else RiskLevelLow)
           in AddFieldRisk ''output.response'' (AString oldValue) (AString newValue) riskLevel
                (Some (lit (9/10))) changeType r
      else r)"

text \<open>The difference of two token counts is taken in 64 bits.\<close>

definition tokens_difference :: "Trace \<Rightarrow> Trace \<Rightarrow> RiskReport \<Rightarrow> RiskReport" where
  "tokens_difference b c r =
     (let tb = obs_TokensCount (tr_Observations b); tc = obs_TokensCount (tr_Observations c) in
      if tb \<noteq> tc
      then let tokenDiff = signed_take_bit 63 (tc - tb);
               riskLevel = (if flt (fmul (f_of_int tb) (lit (5/10))) (fabs (f_of_int tokenDiff))
                            then RiskLevelMedium else RiskLevelLow)
           in AddFieldRisk ''observations.tokens_count'' (AInt tb) (AInt tc) riskLevel
                (Some (lit (98/100))) ChangeTypeValueChange r
      else r)"

definition cost_difference :: "Trace \<Rightarrow> Trace \<Rightarrow> RiskReport \<Rightarrow> RiskReport" where
  "cost_difference b c r =
     (let ob = obs_CostEstimatedUSD (tr_Observations b); oc = obs_CostEstimatedUSD (tr_Observations c) in
      if \<not> feq ob oc
      then let costDiff = fsub oc ob;
               riskLevel =
                 (if flt fzero costDiff \<and> flt fzero ob
                  then let increasePercent = fdiv costDiff ob
                       in if flt (lit 1) increasePercent then RiskLevelHigh
                          else if flt (lit (5/10)) increasePercent then RiskLevelMedium
                          else RiskLevelLow
                  else RiskLevelLow)
           in AddFieldRisk ''observations.cost_estimated_usd'' (AFloat ob) (AFloat oc) riskLevel
                (Some (lit (98/100))) ChangeTypeValueChange r
      else r)"

definition finish_difference :: "Trace \<Rightarrow> Trace \<Rightarrow> RiskReport \<Rightarrow> RiskReport" where
  "finish_difference b c r =
     (let fb = out_FinishReason (tr_Output b); fc = out_FinishReason (tr_Output c) in
      if fb \<noteq> fc
      then let riskLevel = (if fb = ''stop'' \<and> fc = ''length'' then RiskLevelHigh
                            else if fc = ''error'' then RiskLevelHigh else RiskLevelLow)
           in AddFieldRisk ''output.finish_reason'' (AString fb) (AString fc) riskLevel
                (Some (lit (95/100))) ChangeTypeValueChange r
      else r)"

definition analyzeFieldDifferences ::
    "(any \<Rightarrow> string result) \<Rightarrow> string list \<Rightarrow> Trace \<Rightarrow> Trace \<Rightarrow> RiskReport \<Rightarrow> RiskReport" where
  "analyzeFieldDifferences marshal ks b c r =
     finish_difference b c (cost_difference b c (tokens_difference b c
       (response_difference marshal b c (params_difference marshal ks b c (model_difference b c r)))))"

section \<open>The recommendation\<close>

definition risk_fields :: "RiskReport \<Rightarrow> FieldRisk list" where
  "risk_fields r = (case rr_Risk r of None \<Rightarrow> [] | Some ra \<Rightarrow> ra_Fields ra)"

definition count_level :: "RiskLevel \<Rightarrow> RiskReport \<Rightarrow> nat" where
  "count_level l r = length (filter (\<lambda>f. fr_RiskLevel f = l) (risk_fields r))"

definition determineRecommendationWithReasons ::
    "f64 \<Rightarrow> bool \<Rightarrow> RiskReport \<Rightarrow> Recommendation \<times> string list" where
  "determineRecommendationWithReasons riskScore modelChanged r =
     (let highRiskCount = count_level RiskLevelHigh r; mediumRiskCount = count_level RiskLevelMedium r in
      if 2 \<le> highRiskCount
      then (RecommendationBlockRelease, [''Multiple high-risk fields detected: '' @ itoa (int highRiskCount)])
      else if 1 \<le> highRiskCount
      then (RecommendationReviewRequired, [''High-risk field detected: '' @ itoa (int highRiskCount)])
      else if fle (lit (7/10)) riskScore
      then (RecommendationBlockRelease, [''Risk score is critical (>= 0.7)''])
      else if fle (lit (3/10)) riskScore
      then (RecommendationReviewRequired, [''Risk score requires review (>= 0.3)''])
      else if 2 \<le> mediumRiskCount
      then (RecommendationReviewRequired, [''Multiple medium-risk fields detected: '' @ itoa (int mediumRiskCount)])
      else if modelChanged \<and> fle (lit (2/10)) riskScore
      then (RecommendationReviewRequired, [''Model changed and risk score >= 0.2''])
      else (RecommendationApprove, [''Risk score is acceptable'']))"

definition determineRecommendation :: "f64 \<Rightarrow> bool \<Rightarrow> RiskReport \<Rightarrow> Recommendation" where
  "determineRecommendation riskScore modelChanged r =
     fst (determineRecommendationWithReasons riskScore modelChanged r)"

definition Compare ::
    "(any \<Rightarrow> string result) \<Rightarrow> string list \<Rightarrow> gotime \<Rightarrow> Trace \<Rightarrow> Trace \<Rightarrow> RiskReport" where
  "Compare marshal ks now b c =
     (let changed = (tr_Model b \<noteq> tr_Model c);
          report = (NewRiskReport (tr_TraceID b) (tr_TraceID c))\<lparr>rr_ModelChanged := changed\<rparr>
      in if out_Response (tr_Output b) = None \<and> out_Response (tr_Output c) = None
         then SetRiskWithReasons fzero RecommendationApprove [''Both responses are empty'']
                (SetTokenSimilarityWithEditDistance (lit 1) 0 0 0 report)
         else let baselineText = (case out_Response (tr_Output b) of Some s \<Rightarrow> s | None \<Rightarrow> []);
                  candidateText = (case out_Response (tr_Output c) of Some s \<Rightarrow> s | None \<Rightarrow> []);
                  similarity = similarity_of baselineText candidateText;
                  report = SetTokenSimilarityWithEditDistance similarity
                    (LevenshteinDistance baselineText candidateText)
                    (int (length baselineText)) (int (length candidateText)) report;
                  report = analyzeFieldDifferences marshal ks b c report;
                  riskScore = calculateRiskScore similarity changed;
                  (recommendation, reasons) = determineRecommendationWithReasons riskScore changed report;
                  report = SetRiskWithReasons riskScore recommendation reasons report;
                  report = report\<lparr>rr_Risk := map_option (\<lambda>ra. ra\<lparr>ra_Methodology := ''hybrid_edit_distance_model_change_v2'',
                    ra_ModelChanged := Some (rr_ModelChanged report)\<rparr>) (rr_Risk report)\<rparr>
              in report\<lparr>rr_GeneratedAt := RFC3339 (t_UTC now)\<rparr>)"

section \<open>The score\<close>

lemma to_f64_between:
  assumes "0 \<le> lo" "lo \<le> p" "p \<le> hi" "to_f64 lo = Fin l" "to_f64 hi = Fin h"
  obtains r where "to_f64 p = Fin r" "l \<le> r" "r \<le> h"
proof -
  have "to_f64 p \<noteq> NZero" using assms(1,2) by (simp add: to_f64_def Let_def)
  moreover have "fle (Fin l) (to_f64 p)" "fle (to_f64 p) (Fin h)"
    using to_f64_mono [OF assms(2)] to_f64_mono [OF assms(3)] assms(4,5) by simp_all
  ultimately show ?thesis using that by (cases "to_f64 p") (auto simp: fle_def)
qed

lemma to_f64_int: "\<bar>i\<bar> \<le> 2 ^ 53 \<Longrightarrow> to_f64 (of_int i) = Fin (of_int i)"
  using f_of_int_exact [of i] by (simp add: f_of_int_def)

lemma to_f64_small [simp]:
  "to_f64 0 = Fin 0" "to_f64 1 = Fin 1" "to_f64 20 = Fin 20" "to_f64 100 = Fin 100"
  using to_f64_int [of 0] to_f64_int [of 1] to_f64_int [of 20] to_f64_int [of 100] by simp_all

definition unit_f64 :: "f64 \<Rightarrow> bool" where
  "unit_f64 x \<longleftrightarrow> (\<exists>q. x = Fin q \<and> 0 \<le> q \<and> q \<le> 1)"

lemma unit_to_f64: "0 \<le> p \<Longrightarrow> p \<le> 1 \<Longrightarrow> unit_f64 (to_f64 p)"
  using to_f64_between [of 0 p 1 0 1] by (auto simp: unit_f64_def)

lemma unit_lit: "0 \<le> p \<Longrightarrow> p \<le> 1 \<Longrightarrow> unit_f64 (lit p)"
  by (simp add: lit_def unit_to_f64)

lemma unit_ratio:
  assumes "0 \<le> e" "e \<le> m" "0 < m" "m \<le> 2 ^ 53"
  shows "unit_f64 (fdiv (f_of_int e) (f_of_int m))"
  using assms unit_to_f64 [of "of_int e / of_int m"]
  by (auto simp: f_of_int_exact fdiv_def signed_zero_def unit_f64_def)

lemma unit_one_minus: "unit_f64 x \<Longrightarrow> unit_f64 (fsub (lit 1) x)"
proof -
  assume "unit_f64 x"
  then obtain q where "x = Fin q" "0 \<le> q" "q \<le> 1" by (auto simp: unit_f64_def)
  then show ?thesis using unit_to_f64 [of "1 - q"] by (auto simp: lit_def fsub_def fadd_def unit_f64_def)
qed

lemma unit_fmul: "unit_f64 x \<Longrightarrow> unit_f64 y \<Longrightarrow> unit_f64 (fmul x y)"
proof -
  assume "unit_f64 x" "unit_f64 y"
  then obtain p q where q: "x = Fin p" "y = Fin q" "0 \<le> p" "p \<le> 1" "0 \<le> q" "q \<le> 1"
    by (auto simp: unit_f64_def)
  then have "p * q \<le> 1" using mult_mono [of p 1 q 1] by simp
  with q unit_to_f64 [of "p * q"] show ?thesis
    by (auto simp: fmul_def Let_def signed_zero_def unit_f64_def)
qed

lemma unit_similarity:
  assumes "length s \<le> 2 ^ 53" "length t \<le> 2 ^ 53" shows "unit_f64 (similarity_of s t)"
proof -
  have m: "int64_of (fmax (f_of_int (int (length s))) (f_of_int (int (length t)))) = int (max (length s) (length t))"
  proof -
    have "fmax (f_of_int (int (length s))) (f_of_int (int (length t))) = Fin (of_int (int (max (length s) (length t))))"
      using assms by (auto simp: f_of_int_exact fmax_def)
    then show ?thesis using assms by (simp add: int64_of_def trunc_q_def int_min_def)
  qed
  have "int (max (length s) (length t)) \<le> 2 ^ 53" using assms by simp
  then show ?thesis
    using LevenshteinDistance_bounds [of s t]
    by (auto simp: similarity_of_def Let_def m simp del: of_nat_max
        intro!: unit_one_minus unit_ratio unit_lit)
qed

lemma lit_fifth: "lit (1/5) = Fin (3602879701896397 / 18014398509481984)"
  using to_f64_near [of "- 3" "1/5" 7205759403792794] by (simp add: lit_def pow2_def)

text \<open>The clamped base risk, and the score as a number of hundredths.\<close>

lemma base_risk_changed:
  assumes "unit_f64 x"
  obtains q where "fadd (fmul x (lit (8/10))) (lit (2/10)) = Fin q" "1 / 5 \<le> q"
proof -
  obtain a where a: "fmul x (lit (8/10)) = Fin a" "0 \<le> a" "a \<le> 1"
    using unit_fmul [OF assms unit_lit [of "8/10"]] by (auto simp: unit_f64_def)
  let ?v = "3602879701896397 / 18014398509481984 :: rat"
  have "to_f64 ?v = Fin ?v" using fval_ok_to_f64 [of "to_f64 (1/5)"] lit_fifth by (simp add: lit_def)
  moreover have "to_f64 20 = Fin 20" by simp
  ultimately obtain r where "to_f64 (a + ?v) = Fin r" "?v \<le> r"
    using to_f64_between [of ?v "a + ?v" 20 ?v 20] a by auto
  with a that [of r] show ?thesis by (simp add: lit_fifth fadd_Fin)
qed

lemma hundredths:
  assumes "0 \<le> q" "q \<le> 1"
  obtains k :: int where "fround (fmul (Fin q) (lit 100)) = Fin (of_int k)" "0 \<le> k" "k \<le> 100"
    "1 / 5 \<le> q \<Longrightarrow> 20 \<le> k"
proof (cases "q = 0")
  case True
  moreover have "\<lfloor>1 / 2 :: rat\<rfloor> = 0" by (rule floor_unique) simp_all
  ultimately show ?thesis using that [of 0] by (simp add: lit_def fmul_def signed_zero_def)
next
  case False
  have "\<exists>t. to_f64 (q * 100) = Fin t \<and> 0 \<le> t \<and> t \<le> 100 \<and> (1 / 5 \<le> q \<longrightarrow> 20 \<le> t)"
  proof (cases "1 / 5 \<le> q")
    case True
    with assms show ?thesis using to_f64_between [of 20 "q * 100" 100 20 100] by fastforce
  next
    case False
    with assms show ?thesis using to_f64_between [of 0 "q * 100" 100 0 100] by fastforce
  qed
  then obtain t where t: "to_f64 (q * 100) = Fin t" "0 \<le> t" "t \<le> 100" "1 / 5 \<le> q \<longrightarrow> 20 \<le> t" by blast
  show ?thesis
  proof (rule that [of "\<lfloor>t + 1 / 2\<rfloor>"])
    show "fround (fmul (Fin q) (lit 100)) = Fin (of_int \<lfloor>t + 1 / 2\<rfloor>)"
      using t False by (simp add: fmul_def lit_def)
  qed (use t in linarith)+
qed

definition score_of :: "int \<Rightarrow> f64" where
  "score_of k = fdiv (Fin (of_int k)) (lit 100)"

lemma calculateRiskScore_hundredths:
  assumes "unit_f64 s"
  obtains k where "calculateRiskScore s changed = score_of k" "0 \<le> k" "k \<le> 100" "changed \<Longrightarrow> 20 \<le> k"
proof -
  define clamp where "clamp x = (if flt (lit 1) (if flt x fzero then fzero else x) then lit 1
    else if flt x fzero then fzero else x)" for x
  define base where "base = (if changed then fadd (fmul (fsub (lit 1) s) (lit (8/10))) (lit (2/10)) else fsub (lit 1) s)"
  have u: "unit_f64 (fsub (lit 1) s)" using assms by (rule unit_one_minus)
  have "\<exists>q. clamp base = Fin q \<and> 0 \<le> q \<and> q \<le> 1 \<and> (changed \<longrightarrow> 1 / 5 \<le> q)"
  proof (cases changed)
    case True
    from base_risk_changed [OF u] obtain q where "base = Fin q" "1 / 5 \<le> q"
      by (auto simp: base_def True)
    then show ?thesis by (cases "1 < q") (auto simp: clamp_def lit_def)
  next
    case False
    with u show ?thesis by (auto simp: base_def unit_f64_def clamp_def lit_def)
  qed
  then obtain q where q: "clamp base = Fin q" "0 \<le> q" "q \<le> 1" "changed \<longrightarrow> 1 / 5 \<le> q" by blast
  have "calculateRiskScore s changed = fdiv (fround (fmul (clamp base) (lit 100))) (lit 100)"
    by (simp add: calculateRiskScore_def Let_def clamp_def base_def)
  with q that show ?thesis by (metis hundredths [OF q(2,3)] score_of_def)
qed

lemma score_of_eq: "0 \<le> k \<Longrightarrow> score_of k = to_f64 (of_int k / 100)"
  by (simp add: score_of_def lit_def fdiv_def signed_zero_def)

lemma threshold_values:
  "lit (3/10) = Fin (5404319552844595 / 18014398509481984)" "to_f64 (29/100) = Fin (5224175567749775 / 18014398509481984)"
  "lit (7/10) = Fin (6305039478318694 / 9007199254740992)" "to_f64 (69/100) = Fin (6214967485771284 / 9007199254740992)"
  using to_f64_near [of "- 2" "3/10" 5404319552844595] to_f64_near [of "- 2" "29/100" 5224175567749775]
    to_f64_near [of "- 1" "7/10" 6305039478318694] to_f64_near [of "- 1" "69/100" 6214967485771284]
  by (simp_all add: lit_def pow2_def)

lemma score_at_least:
  assumes "0 \<le> k" "0 \<le> n" "flt (to_f64 (of_int (n - 1) / 100)) (to_f64 (of_int n / 100))"
  shows "fle (to_f64 (of_int n / 100)) (score_of k) \<longleftrightarrow> n \<le> k"
proof
  assume le: "fle (to_f64 (of_int n / 100)) (score_of k)"
  show "n \<le> k"
  proof (rule ccontr)
    assume "\<not> n \<le> k"
    then have "fle (score_of k) (to_f64 (of_int (n - 1) / 100))"
      using assms(1) by (simp only: score_of_eq) (intro to_f64_mono, simp)
    with le assms(3) show False using fle_trans fle_flt_trans flt_irrefl by blast
  qed
next
  assume "n \<le> k"
  then show "fle (to_f64 (of_int n / 100)) (score_of k)"
    using assms(1) by (simp only: score_of_eq) (intro to_f64_mono, simp)
qed

lemma score_thresholds:
  assumes "0 \<le> k"
  shows "fle (lit (3/10)) (score_of k) \<longleftrightarrow> 30 \<le> k" "fle (lit (7/10)) (score_of k) \<longleftrightarrow> 70 \<le> k"
    "20 \<le> k \<Longrightarrow> fle (lit (1/5)) (score_of k)"
proof -
  show "fle (lit (3/10)) (score_of k) \<longleftrightarrow> 30 \<le> k" "fle (lit (7/10)) (score_of k) \<longleftrightarrow> 70 \<le> k"
    using score_at_least [of k 30] score_at_least [of k 70] assms threshold_values by (simp_all add: lit_def)
  show "fle (lit (1/5)) (score_of k)" if "20 \<le> k"
    using that assms to_f64_mono [of "1/5" "of_int k / 100"] by (simp add: score_of_eq lit_def)
qed

section \<open>The fields that are found\<close>

definition appends :: "(RiskReport \<Rightarrow> RiskReport) \<Rightarrow> bool" where
  "appends f \<longleftrightarrow> (\<exists>fs. \<forall>r. risk_fields (f r) = risk_fields r @ fs)"

lemma appends_AddFieldRisk: "appends (AddFieldRisk path old new level conf change)"
  by (auto simp: appends_def risk_fields_def AddFieldRisk_def Let_def zero_RiskAssessment_def
      split: option.splits)

lemma appends_id: "appends (\<lambda>r. r)"
  by (simp add: appends_def)

lemma appends_if: "appends f \<Longrightarrow> appends (\<lambda>r. if P then f r else r)"
  by (cases P) (simp_all add: appends_id)

lemma appends_comp: "appends f \<Longrightarrow> appends g \<Longrightarrow> appends (f \<circ> g)"
  unfolding appends_def comp_def by (metis append_assoc)

lemma appends_fold: "(\<And>k. appends (f k)) \<Longrightarrow> appends (fold f ks)"
proof (induction ks)
  case (Cons k ks)
  then show ?case unfolding fold.simps by (intro appends_comp) blast+
qed (simp add: appends_id id_def)

lemma appends_differences:
  "appends (model_difference b c)" "appends (params_difference marshal ks b c)"
  "appends (response_difference marshal b c)" "appends (tokens_difference b c)"
  "appends (cost_difference b c)" "appends (finish_difference b c)"
  unfolding model_difference_def params_difference_def param_difference_def response_difference_def
    tokens_difference_def cost_difference_def finish_difference_def Let_def
  by (intro appends_if appends_fold appends_AddFieldRisk)+

definition found_fields :: "(any \<Rightarrow> string result) \<Rightarrow> string list \<Rightarrow> Trace \<Rightarrow> Trace \<Rightarrow> FieldRisk list" where
  "found_fields marshal ks b c = risk_fields (analyzeFieldDifferences marshal ks b c (NewRiskReport [] []))"

lemma risk_fields_analyze:
  "rr_Risk r = None \<Longrightarrow> risk_fields (analyzeFieldDifferences marshal ks b c r) = found_fields marshal ks b c"
proof -
  assume r: "rr_Risk r = None"
  have "analyzeFieldDifferences marshal ks b c = finish_difference b c \<circ> (cost_difference b c \<circ>
      (tokens_difference b c \<circ> (response_difference marshal b c \<circ>
      (params_difference marshal ks b c \<circ> model_difference b c))))"
    by (simp add: fun_eq_iff analyzeFieldDifferences_def)
  then have "appends (analyzeFieldDifferences marshal ks b c)"
    by (simp add: appends_comp appends_differences)
  then obtain fs where fs: "\<And>r. risk_fields (analyzeFieldDifferences marshal ks b c r) = risk_fields r @ fs"
    unfolding appends_def by blast
  have "risk_fields r = []" "risk_fields (NewRiskReport [] []) = []"
    using r by (simp_all add: risk_fields_def NewRiskReport_def)
  then show ?thesis by (simp only: found_fields_def fs)
qed

definition level_count :: "RiskLevel \<Rightarrow> FieldRisk list \<Rightarrow> nat" where
  "level_count l fs = length (filter (\<lambda>f. fr_RiskLevel f = l) fs)"

text \<open>The verdict on \<open>h\<close> fields of high and \<open>m\<close> of medium risk and a score of \<open>k\<close> hundredths.\<close>

definition verdict :: "nat \<Rightarrow> nat \<Rightarrow> bool \<Rightarrow> int \<Rightarrow> Recommendation" where
  "verdict h m changed k =
     (if 2 \<le> h \<or> h = 0 \<and> 70 \<le> k then RecommendationBlockRelease
      else if h = 1 \<or> 30 \<le> k \<or> 2 \<le> m \<or> changed then RecommendationReviewRequired
      else RecommendationApprove)"

lemma count_level_eq: "count_level l r = level_count l (risk_fields r)"
  by (simp add: count_level_def level_count_def)

lemma determine_verdict:
  "0 \<le> k \<Longrightarrow> (changed \<Longrightarrow> 20 \<le> k) \<Longrightarrow>
     fst (determineRecommendationWithReasons (score_of k) changed r) =
       verdict (level_count RiskLevelHigh (risk_fields r)) (level_count RiskLevelMedium (risk_fields r)) changed k"
  unfolding determineRecommendationWithReasons_def verdict_def Let_def count_level_eq
  by (auto simp: score_thresholds)

definition response_text :: "Trace \<Rightarrow> string" where
  "response_text t = (case out_Response (tr_Output t) of Some s \<Rightarrow> s | None \<Rightarrow> [])"

text \<open>
  The report of a comparison. Two traces without responses are approved with score 0,
  even of different models. Otherwise the score is a number of hundredths from 0 to 1, the
  recommendation follows from that number and from the levels of the field differences that were found:
  a changed model is never approved, two fields of high risk always block, and one field of high
  risk only asks for review, whatever the score. The report itself lists no field.
\<close>

theorem compare_verdict:
  assumes "length (response_text b) \<le> 2 ^ 53" "length (response_text c) \<le> 2 ^ 53"
  shows "\<exists>k ra. 0 \<le> k \<and> k \<le> 100 \<and> rr_Risk (Compare marshal ks now b c) = Some ra \<and> ra_Fields ra = [] \<and>
    ra_Score ra = score_of k \<and>
    (if out_Response (tr_Output b) = None \<and> out_Response (tr_Output c) = None
     then k = 0 \<and> ra_Recommendation ra = RecommendationApprove
     else ra_Recommendation ra =
       verdict (level_count RiskLevelHigh (found_fields marshal ks b c))
         (level_count RiskLevelMedium (found_fields marshal ks b c)) (tr_Model b \<noteq> tr_Model c) k)"
proof (cases "out_Response (tr_Output b) = None \<and> out_Response (tr_Output c) = None")
  case True
  then show ?thesis
    by (intro exI [of _ 0]) (simp add: Compare_def SetRiskWithReasons_def zero_RiskAssessment_def
        score_of_eq Let_def)
next
  case False
  obtain k where k: "calculateRiskScore (similarity_of (response_text b) (response_text c))
      (tr_Model b \<noteq> tr_Model c) = score_of k" "0 \<le> k" "k \<le> 100" "tr_Model b \<noteq> tr_Model c \<Longrightarrow> 20 \<le> k"
    using calculateRiskScore_hundredths [OF unit_similarity [OF assms]] by metis
  with False show ?thesis
    by (intro exI [of _ k])
      (auto simp: Compare_def response_text_def [symmetric] SetRiskWithReasons_def zero_RiskAssessment_def
        Let_def determine_verdict risk_fields_analyze SetTokenSimilarityWithEditDistance_def NewRiskReport_def
        split: prod.splits dest: arg_cong [where f = fst])
qed

theorem compare_verdict_witness:
  "\<exists>ra. rr_Risk (Compare (\<lambda>_. Inr []) [] t_zero
      (sample_trace\<lparr>tr_Output := zero_Output\<lparr>out_Response := Some ''yes''\<rparr>\<rparr>)
      (sample_trace\<lparr>tr_Model := ''m2'', tr_Output := zero_Output\<lparr>out_Response := Some ''yes''\<rparr>\<rparr>)) = Some ra \<and>
    ra_Recommendation ra \<noteq> RecommendationApprove"
proof -
  define b where "b = sample_trace\<lparr>tr_Output := zero_Output\<lparr>out_Response := Some ''yes''\<rparr>\<rparr>"
  define c where "c = sample_trace\<lparr>tr_Model := ''m2'', tr_Output := zero_Output\<lparr>out_Response := Some ''yes''\<rparr>\<rparr>"
  have "length (response_text b) \<le> 2 ^ 53" "length (response_text c) \<le> 2 ^ 53"
    and "out_Response (tr_Output b) \<noteq> None" "tr_Model b \<noteq> tr_Model c"
    by (simp_all add: b_def c_def response_text_def sample_trace_def)
  with compare_verdict [of b c "\<lambda>_. Inr []" "[]" t_zero] show ?thesis
    unfolding b_def [symmetric] c_def [symmetric] by (auto simp: verdict_def split: if_splits)
qed

end
