(* ===== verification/Errors.thy ===== *)
theory Errors
  imports GoValue
begin

text \<open>
  \<^verbatim>\<open>pkg/errors/errors.go\<close>: the error codes of the protocol, the error structure with its
  JSON form, the HTTP status of each code and which errors a client may retry.
\<close>

type_synonym ErrorCode = string

abbreviation ErrInvalidConstraint :: ErrorCode where "ErrInvalidConstraint \<equiv> ''SENTORIS_INVALID_CONSTRAINT''"
abbreviation ErrBadConstraintCombination :: ErrorCode where
  "ErrBadConstraintCombination \<equiv> ''SENTORIS_BAD_CONSTRAINT_COMBINATION''"
abbreviation ErrBudgetExceeded :: ErrorCode where "ErrBudgetExceeded \<equiv> ''SENTORIS_BUDGET_EXCEEDED''"
abbreviation ErrMissingFocusFields :: ErrorCode where "ErrMissingFocusFields \<equiv> ''SENTORIS_MISSING_FOCUS_FIELDS''"
abbreviation ErrJCSCanonicalizationFailed :: ErrorCode where
  "ErrJCSCanonicalizationFailed \<equiv> ''SENTORIS_JCS_CANONICALIZATION_FAILED''"
abbreviation ErrSchemaViolation :: ErrorCode where "ErrSchemaViolation \<equiv> ''SENTORIS_SCHEMA_VIOLATION''"
abbreviation ErrStateTransitionInvalid :: ErrorCode where
  "ErrStateTransitionInvalid \<equiv> ''SENTORIS_STATE_TRANSITION_INVALID''"
abbreviation ErrUpstreamTimeout :: ErrorCode where "ErrUpstreamTimeout \<equiv> ''SENTORIS_UPSTREAM_TIMEOUT''"
abbreviation ErrUpstreamDisconnect :: ErrorCode where "ErrUpstreamDisconnect \<equiv> ''SENTORIS_UPSTREAM_DISCONNECT''"
abbreviation ErrUpstreamError :: ErrorCode where "ErrUpstreamError \<equiv> ''SENTORIS_UPSTREAM_ERROR''"
abbreviation ErrAuthRequired :: ErrorCode where "ErrAuthRequired \<equiv> ''SENTORIS_AUTH_REQUIRED''"
abbreviation ErrPermissionDenied :: ErrorCode where "ErrPermissionDenied \<equiv> ''SENTORIS_PERMISSION_DENIED''"
abbreviation ErrBaselineNotFound :: ErrorCode where "ErrBaselineNotFound \<equiv> ''SENTORIS_BASELINE_NOT_FOUND''"
abbreviation ErrRateLimited :: ErrorCode where "ErrRateLimited \<equiv> ''SENTORIS_RATE_LIMITED''"
abbreviation ErrStateUnavailable :: ErrorCode where "ErrStateUnavailable \<equiv> ''SENTORIS_STATE_UNAVAILABLE''"
abbreviation ErrInternalError :: ErrorCode where "ErrInternalError \<equiv> ''SENTORIS_INTERNAL_ERROR''"
abbreviation ErrVersionMismatch :: ErrorCode where "ErrVersionMismatch \<equiv> ''SENTORIS_VERSION_MISMATCH''"
abbreviation ErrInvalidMethod :: ErrorCode where "ErrInvalidMethod \<equiv> ''SENTORIS_INVALID_METHOD''"
abbreviation ErrProviderNotFound :: ErrorCode where "ErrProviderNotFound \<equiv> ''SENTORIS_PROVIDER_NOT_FOUND''"
abbreviation ErrInvalidInput :: ErrorCode where "ErrInvalidInput \<equiv> ''SENTORIS_INVALID_INPUT''"

record SentorisError =
  se_Code :: ErrorCode
  se_Message :: string
  se_Param :: string
  se_Type :: string
  se_Details :: "amap option"

text \<open>
  An error value, by the dynamic types the code distinguishes; any other error is its message.
\<close>

datatype goerror = ESentoris SentorisError | ECode ErrorCode | EPlain string

definition SentorisError_Error :: "SentorisError \<Rightarrow> string" where
  "SentorisError_Error e = se_Code e @ '': '' @ se_Message e"

definition error_text :: "goerror \<Rightarrow> string" where
  "error_text e = (case e of ESentoris s \<Rightarrow> SentorisError_Error s | ECode c \<Rightarrow> c | EPlain m \<Rightarrow> m)"

definition NewSentorisError :: "ErrorCode \<Rightarrow> string \<Rightarrow> SentorisError" where
  "NewSentorisError code message =
     \<lparr>se_Code = code, se_Message = message, se_Param = [], se_Type = ''sentoris_error'', se_Details = None\<rparr>"

definition WithParam :: "string \<Rightarrow> SentorisError \<Rightarrow> SentorisError" where
  "WithParam param e = e\<lparr>se_Param := param\<rparr>"

definition WithDetails :: "amap option \<Rightarrow> SentorisError \<Rightarrow> SentorisError" where
  "WithDetails details e = e\<lparr>se_Details := details\<rparr>"

definition ToMap :: "SentorisError \<Rightarrow> amap" where
  "ToMap e =
     (let m = [(''message'', AString (se_Message e)), (''type'', AString (se_Type e)), (''code'', AString (se_Code e))];
          m = (if se_Param e \<noteq> [] then amap_set m ''param'' (AString (se_Param e)) else m);
          m = (case se_Details e of Some d \<Rightarrow> amap_set m ''details'' (AMap d) | None \<Rightarrow> m)
      in [(''error'', AMap m)])"

definition HTTPStatusCode :: "SentorisError \<Rightarrow> int" where
  "HTTPStatusCode e = (let c = se_Code e in
     if c \<in> {ErrInvalidConstraint, ErrBadConstraintCombination, ErrMissingFocusFields, ErrVersionMismatch} then 400
     else if c = ErrAuthRequired then 401
     else if c = ErrPermissionDenied then 403
     else if c = ErrBaselineNotFound then 404
     else if c = ErrSchemaViolation then 422
     else if c \<in> {ErrBudgetExceeded, ErrRateLimited} then 429
     else if c \<in> {ErrInternalError, ErrStateTransitionInvalid} then 500
     else if c = ErrUpstreamDisconnect then 502
     else if c = ErrStateUnavailable then 503
     else if c = ErrUpstreamTimeout then 504
     else 500)"

definition ShouldRetry :: "SentorisError \<Rightarrow> bool" where
  "ShouldRetry e = (let c = se_Code e in
     if c = ErrBudgetExceeded then False
     else c \<in> {ErrRateLimited, ErrUpstreamTimeout, ErrUpstreamDisconnect, ErrStateUnavailable, ErrInternalError})"

definition WrapError :: "goerror option \<Rightarrow> ErrorCode \<Rightarrow> string \<Rightarrow> SentorisError" where
  "WrapError err code message =
     (let e = NewSentorisError code message in
      case err of None \<Rightarrow> e
      | Some g \<Rightarrow> e\<lparr>se_Details := Some [(''underlying_error'', AString (error_text g))]\<rparr>)"

text \<open>The code of an error survives its JSON form, whatever else it carries.\<close>

lemma ToMap_code: "amap_get (case amap_get (ToMap e) ''error'' of Some (AMap m) \<Rightarrow> m | _ \<Rightarrow> []) ''code'' = Some (AString (se_Code e))"
  by (simp add: ToMap_def amap_get_def [of "[_]"] Let_def split: option.split) (simp add: amap_get_def)

lemma HTTPStatusCode_range: "HTTPStatusCode e \<in> {400, 401, 403, 404, 422, 429, 500, 502, 503, 504}"
  by (simp add: HTTPStatusCode_def Let_def)

lemma retry_not_client_error: "ShouldRetry e \<Longrightarrow> HTTPStatusCode e \<in> {429, 500, 502, 503, 504}"
  by (auto simp: ShouldRetry_def HTTPStatusCode_def Let_def split: if_splits)

end
