(* ===== verification/GoNum.thy ===== *)
theory GoNum
  imports GoText GoValue
begin

text \<open>
  Numbers as text: \<^verbatim>\<open>strconv.ParseInt\<close> and \<^verbatim>\<open>strconv.ParseFloat\<close> as the header parser
  uses them, and the verb .6f of \<^verbatim>\<open>fmt\<close>. A syntax or range error is \<open>None\<close>: no caller
  tells the two apart.
\<close>

section \<open>Integers\<close>

definition ParseInt :: "string \<Rightarrow> int option" where
  "ParseInt s = (case split_sign s of (neg, ds) \<Rightarrow>
     let n = (if neg then - dec_value ds else dec_value ds) in
     if ds = [] \<or> \<not> list_all is_dec ds \<or> n < - 9223372036854775808 \<or> 9223372036854775807 < n then None
     else Some n)"

lemma ParseInt_bounds: "ParseInt s = Some n \<Longrightarrow> - 9223372036854775808 \<le> n \<and> n \<le> 9223372036854775807"
  by (auto simp: ParseInt_def Let_def split: prod.splits if_splits)

section \<open>Floats\<close>

text \<open>
  Underscores may stand between digits only. The state is the class of the last character: the
  character 0 for a digit (a base prefix counts as one), an underscore, or anything else.
\<close>

definition hex_letter :: "char \<Rightarrow> bool" where
  "hex_letter c \<longleftrightarrow> 97 \<le> ord (lower_char c) \<and> ord (lower_char c) \<le> 102"

fun underscores_ok :: "bool \<Rightarrow> char \<Rightarrow> string \<Rightarrow> bool" where
  "underscores_ok hex i [] = (i \<noteq> CHR ''_'')"
| "underscores_ok hex i (c # s) =
     (if is_dec c \<or> hex \<and> hex_letter c then underscores_ok hex (CHR ''0'') s
      else if c = CHR ''_'' then i = CHR ''0'' \<and> underscores_ok hex (CHR ''_'') s
      else i \<noteq> CHR ''_'' \<and> underscores_ok hex (CHR ''!'') s)"

definition digit_of :: "char \<Rightarrow> int" where
  "digit_of c = (if is_dec c then int (ord c) - 48 else int (ord (lower_char c)) - 87)"

definition digits_value :: "int \<Rightarrow> string \<Rightarrow> int" where
  "digits_value base ds = foldl (\<lambda>n c. base * n + digit_of c) 0 ds"

text \<open>The exponent stops growing once it has five digits.\<close>

definition exponent_value :: "string \<Rightarrow> int" where
  "exponent_value ds = foldl (\<lambda>e c. if e < 10000 then 10 * e + digit_of c else e) 0 ds"

text \<open>What follows the mantissa: nothing, or the exponent letter, a sign and digits.\<close>

definition read_exponent :: "bool \<Rightarrow> string \<Rightarrow> int option" where
  "read_exponent hex s = (case s of
     [] \<Rightarrow> if hex then None else Some 0
   | c # t \<Rightarrow>
       if lower_char c = (if hex then CHR ''p'' else CHR ''e'') then
         (case split_sign t of (neg, ds) \<Rightarrow>
            if ds = [] \<or> \<not> is_dec (hd ds) \<or> \<not> list_all (\<lambda>d. is_dec d \<or> d = CHR ''_'') ds then None
            else let e = exponent_value (filter is_dec ds) in Some (if neg then - e else e))
       else None)"

definition read_mantissa :: "bool \<Rightarrow> string \<Rightarrow> (rat \<times> string) option" where
  "read_mantissa hex s =
     (let part = (\<lambda>c. is_dec c \<or> hex \<and> hex_letter c \<or> c = CHR ''_'');
          whole = takeWhile part s; rest = dropWhile part s;
          (frac, rest) = (case rest of
             [] \<Rightarrow> ([], rest)
           | c # t \<Rightarrow> if c = CHR ''.'' then (takeWhile part t, dropWhile part t) else ([], rest));
          digits = (\<lambda>cs. filter (\<lambda>c. c \<noteq> CHR ''_'') cs);
          base = (if hex then 16 else 10)
      in if digits (whole @ frac) = [] then None
         else Some (of_int (digits_value base (digits (whole @ frac))) / of_int base ^ length (digits frac), rest))"

definition signed_f64 :: "bool \<Rightarrow> rat \<Rightarrow> f64" where
  "signed_f64 neg q = (if q = 0 then signed_zero neg else to_f64 (if neg then - q else q))"

definition ParseFloat :: "string \<Rightarrow> f64 option" where
  "ParseFloat s =
     (let (neg, t) = split_sign s; l = ToLower t; hex = HasPrefix l ''0x'' in
      if ToLower s = ''nan'' then Some NaN
      else if l = ''inf'' \<or> l = ''infinity'' then Some (signed_inf neg)
      else case read_mantissa hex (if hex then drop 2 t else t) of
        None \<Rightarrow> None
      | Some (m, rest) \<Rightarrow>
          (case read_exponent hex rest of
             None \<Rightarrow> None
           | Some e \<Rightarrow>
               if CHR ''_'' \<in> set t \<and>
                 \<not> underscores_ok hex (if hex then CHR ''0'' else CHR ''^'') (if hex then drop 2 t else t)
               then None
               else let x = signed_f64 neg (m * (if hex then 2 else 10) powi e)
                    in if finite_f64 x then Some x else None))"

lemma ParseFloat_examples:
  "ParseFloat ''_1'' = None" "ParseFloat ''NaN'' = Some NaN" "ParseFloat ''-Inf'' = Some NInf"
  "ParseFloat '' 1'' = None" "ParseFloat ''.'' = None" "ParseFloat ''-0'' = Some NZero"
  by code_simp+

section \<open>Fixed point text\<close>

text \<open>The verb .6f: the exact value rounded to six decimals, half to even.\<close>

definition fixed6 :: "rat \<Rightarrow> string" where
  "fixed6 q = (let n = rne (\<bar>q\<bar> * 1000000) in itoa (n div 1000000) @ ''.'' @ pad 6 (itoa (n mod 1000000)))"

definition Sprintf_6f :: "f64 \<Rightarrow> string" where
  "Sprintf_6f x = (case x of NaN \<Rightarrow> ''NaN'' | PInf \<Rightarrow> ''+Inf'' | NInf \<Rightarrow> ''-Inf'' | NZero \<Rightarrow> ''-0.000000''
     | Fin q \<Rightarrow> (if q < 0 then ''-'' else []) @ fixed6 q)"

lemma Sprintf_6f_example: "Sprintf_6f (Fin (- 5/4)) = ''-1.250000''"
  by code_simp

end
