(* ===== verification/Headers.thy ===== *)
theory Headers
  imports GoNum Governance
begin

text \<open>
  The protocol headers of a request (\<^verbatim>\<open>internal/transport/http/sentoris_headers.go\<close>) and the
  constraints they ask for, and the recorder of state transitions
  (\<^verbatim>\<open>state_transitions.go\<close>).
\<close>

section \<open>Header names\<close>

text \<open>
  \<^verbatim>\<open>textproto.CanonicalMIMEHeaderKey\<close> on a name of valid characters: the first letter and
  each one after a hyphen in upper case, the others in lower case.
\<close>

definition upper_char :: "char \<Rightarrow> char" where
  "upper_char c = (let n = of_char c :: nat in if 97 \<le> n \<and> n \<le> 122 then char_of (n - 32) else c)"

fun canonical_key :: "bool \<Rightarrow> string \<Rightarrow> string" where
  "canonical_key up [] = []"
| "canonical_key up (c # s) = (if up then upper_char c else lower_char c) # canonical_key (c = CHR ''-'') s"

text \<open>A request's headers: the first value of each canonical name, empty when there is none.\<close>

type_synonym ReqHeader = "string \<Rightarrow> string"

definition header_get :: "ReqHeader \<Rightarrow> string \<Rightarrow> string" where
  "header_get hs k = hs (canonical_key True k)"

section \<open>Parsing\<close>

record SentorisHeaders =
  sh_Version :: string
  sh_Capabilities :: "string list"
  sh_AcceptedCapabilities :: "string list"
  sh_Action :: string
  sh_BaselineRef :: string
  sh_BudgetLimit :: f64
  sh_BudgetStrategy :: BudgetStrategy
  sh_PrivacyLevel :: PrivacyLevel
  sh_DiffOutput :: bool
  sh_FocusFields :: "string list"
  sh_OverrideModel :: string
  sh_Seed :: "int option"
  sh_Repeatability :: bool
  sh_RepeatabilityID :: string

definition parseCapabilities :: "string \<Rightarrow> string list" where
  "parseCapabilities capStr =
     (if capStr = [] then [] else filter (\<lambda>c. c \<noteq> []) (map TrimSpace (Split capStr (CHR '',''))))"

definition parse_budget :: "string \<Rightarrow> f64" where
  "parse_budget s = (if s \<noteq> [] then (case ParseFloat s of Some x \<Rightarrow> x | None \<Rightarrow> fzero) else fzero)"

definition parse_strategy :: "string \<Rightarrow> BudgetStrategy" where
  "parse_strategy s =
     (if s = ''hard_stop'' then BudgetStrategyHardStop
      else if s = ''degrade_model'' then BudgetStrategyDegradeModel
      else if s = ''soft_alert'' then BudgetStrategySoftAlert
      else BudgetStrategyHardStop)"

definition parse_privacy :: "string \<Rightarrow> PrivacyLevel" where
  "parse_privacy s =
     (if s = ''raw'' then PrivacyRaw else if s = ''masked'' then PrivacyMasked
      else if s = ''hash_only'' then PrivacyHashOnly else PrivacyRaw)"

definition parse_focus :: "string \<Rightarrow> string list" where
  "parse_focus s = (if s \<noteq> [] then map TrimSpace (Split s (CHR '','')) else [])"

definition parse_seed :: "string \<Rightarrow> int option" where
  "parse_seed s = (if s \<noteq> [] then ParseInt s else None)"

definition ParseSentorisHeaders :: "ReqHeader \<Rightarrow> SentorisHeaders" where
  "ParseSentorisHeaders hs =
     \<lparr>sh_Version = (if header_get hs ''Sentoris-Version'' = [] then ''1.0''
                    else header_get hs ''Sentoris-Version''),
      sh_Capabilities = parseCapabilities (header_get hs ''Sentoris-Capabilities''),
      sh_AcceptedCapabilities = [],
      sh_Action = header_get hs ''Sentoris-Action'',
      sh_BaselineRef = header_get hs ''Sentoris-Baseline-Ref'',
      sh_BudgetLimit = parse_budget (header_get hs ''Sentoris-Budget-Limit''),
      sh_BudgetStrategy = parse_strategy (header_get hs ''Sentoris-Budget-Strategy''),
      sh_PrivacyLevel = parse_privacy (header_get hs ''Sentoris-Privacy-Level''),
      sh_DiffOutput = (header_get hs ''Sentoris-Diff-Output'' = ''true''),
      sh_FocusFields = parse_focus (header_get hs ''Sentoris-Focus-Fields''),
      sh_OverrideModel = header_get hs ''Sentoris-Override-Model'',
      sh_Seed = parse_seed (header_get hs ''Sentoris-Seed''),
      sh_Repeatability = (header_get hs ''Sentoris-Repeatability'' = ''true''),
      sh_RepeatabilityID = header_get hs ''Sentoris-Repeatability-ID''\<rparr>"

section \<open>Versions and capabilities\<close>

definition NegotiateCapabilities :: "string list \<Rightarrow> string list \<Rightarrow> string list" where
  "NegotiateCapabilities requested supported = filter (\<lambda>r. r \<in> set supported) requested"

abbreviation SupportedProtocolVersion :: string where "SupportedProtocolVersion \<equiv> ''1.0''"

definition supportedVersions :: "string list" where
  "supportedVersions = [''1.0'', ''1.0.0'']"

definition IsVersionSupported :: "SentorisHeaders \<Rightarrow> bool" where
  "IsVersionSupported h \<longleftrightarrow> sh_Version h \<in> set supportedVersions"

definition NegotiateVersion :: "string \<Rightarrow> string \<times> bool" where
  "NegotiateVersion requested =
     (if requested \<in> set supportedVersions then (requested, True) else (SupportedProtocolVersion, False))"

definition GetNegotiatedCapabilities :: "SentorisHeaders \<Rightarrow> string list \<Rightarrow> string list" where
  "GetNegotiatedCapabilities h supportedCapabilities = NegotiateCapabilities (sh_Capabilities h) supportedCapabilities"

definition HasCapability :: "SentorisHeaders \<Rightarrow> string \<Rightarrow> bool" where
  "HasCapability h capability \<longleftrightarrow> capability \<in> set (sh_Capabilities h)"

definition IsReplayAction :: "SentorisHeaders \<Rightarrow> bool" where
  "IsReplayAction h \<longleftrightarrow> sh_Action h = ''replay'' \<or> sh_Action h = ''replay-eval'' \<or> sh_Action h = ''save-baseline''"

definition IsSaveBaselineAction :: "SentorisHeaders \<Rightarrow> bool" where
  "IsSaveBaselineAction h \<longleftrightarrow> sh_Action h = ''save-baseline''"

definition IsDiffRequested :: "SentorisHeaders \<Rightarrow> bool" where
  "IsDiffRequested h \<longleftrightarrow> sh_DiffOutput h \<or> sh_Action h = ''replay-eval''"

definition ToConstraints :: "SentorisHeaders \<Rightarrow> Constraints" where
  "ToConstraints h =
     (let c = zero_Constraints;
          c = (if flt fzero (sh_BudgetLimit h)
               then c\<lparr>cs_Budget := Some \<lparr>bc_LimitUSD = sh_BudgetLimit h, bc_Strategy = sh_BudgetStrategy h\<rparr>\<rparr> else c);
          c = (if sh_PrivacyLevel h \<noteq> PrivacyRaw
               then c\<lparr>cs_Privacy := Some \<lparr>pc_Level = sh_PrivacyLevel h, pc_Strategy = [], pc_MaskedFields = [],
                 pc_Deterministic = False\<rparr>\<rparr> else c)
      in if sh_Seed h \<noteq> None \<or> sh_Repeatability h
         then c\<lparr>cs_Reproducibility := Some \<lparr>rc_Mode = ReproducibilityBounded, rc_Seed = sh_Seed h\<rparr>\<rparr> else c)"

section \<open>The recorder of state transitions\<close>

type_synonym Recorder = "StateTransition list"

definition NewStateTransitionRecorder :: Recorder where
  "NewStateTransitionRecorder = []"

definition RecordTransition :: "gotime \<Rightarrow> ExecutionState \<Rightarrow> ExecutionState \<Rightarrow> Recorder \<Rightarrow> Recorder" where
  "RecordTransition now from to r = r @ [\<lparr>st_From = from, st_To = to, st_Timestamp = t_UTC now\<rparr>]"

definition RecordInit :: "gotime \<Rightarrow> Recorder \<Rightarrow> Recorder" where
  "RecordInit now r = RecordTransition now [] StateInit r"

definition last_state :: "ExecutionState \<Rightarrow> Recorder \<Rightarrow> ExecutionState" where
  "last_state dflt r = (if r \<noteq> [] then st_To (last r) else dflt)"

definition RecordConstraintEval :: "gotime \<Rightarrow> Recorder \<Rightarrow> Recorder" where
  "RecordConstraintEval now r = RecordTransition now (last_state StateInit r) StateConstraintEval r"

definition RecordExecuting :: "gotime \<Rightarrow> Recorder \<Rightarrow> Recorder" where
  "RecordExecuting now r = RecordTransition now (last_state StateConstraintEval r) StateExecuting r"

definition RecordValidation :: "gotime \<Rightarrow> Recorder \<Rightarrow> Recorder" where
  "RecordValidation now r = RecordTransition now StateExecuting StateValidation r"

definition RecordFinalized :: "gotime \<Rightarrow> Recorder \<Rightarrow> Recorder" where
  "RecordFinalized now r = RecordTransition now (last_state StateValidation r) StateFinalized r"

definition RecordFailed :: "gotime \<Rightarrow> Recorder \<Rightarrow> Recorder" where
  "RecordFailed now r = RecordTransition now (last_state StateExecuting r) StateFailed r"

definition ApplyToObservations :: "Recorder \<Rightarrow> Observations \<Rightarrow> Observations" where
  "ApplyToObservations r obs = obs\<lparr>obs_StateTransitions := r\<rparr>"

section \<open>What the headers can ask for\<close>

lemma parse_strategy_cases:
  "parse_strategy s = BudgetStrategyHardStop \<or> parse_strategy s = BudgetStrategyDegradeModel \<or>
   parse_strategy s = BudgetStrategySoftAlert"
  by (simp add: parse_strategy_def)

lemma parse_privacy_cases:
  "parse_privacy s = PrivacyRaw \<or> parse_privacy s = PrivacyMasked \<or> parse_privacy s = PrivacyHashOnly"
  by (simp add: parse_privacy_def)

lemma f64_ok_ParseFloat: "ParseFloat s = Some x \<Longrightarrow> f64_ok x"
  by (auto simp: ParseFloat_def signed_f64_def signed_zero_def signed_inf_def Let_def
      split: prod.splits if_splits option.splits)

lemma f64_ok_parse_budget: "f64_ok (parse_budget s)"
  by (auto simp: parse_budget_def f64_ok_ParseFloat split: option.split)

lemma parsed_constraints_facts:
  assumes "h = ParseSentorisHeaders hs"
  shows "ValidateConstraintCombination (Some (ToConstraints h)) = None"
    "er_Decision (Evaluate (Some (ToConstraints h)) fzero) = PolicyDecisionAllow"
    "er_Error (Evaluate (Some (ToConstraints h)) fzero) = None"
    "sh_Seed h = Some n \<Longrightarrow> - 9223372036854775808 \<le> n \<and> n \<le> 9223372036854775807"
    "list_all (\<lambda>x. x \<noteq> [] \<and> TrimSpace x = x) (sh_Capabilities h)"
proof -
  have b: "f64_ok (sh_BudgetLimit h)" by (simp add: assms ParseSentorisHeaders_def f64_ok_parse_budget)
  have st: "sh_BudgetStrategy h \<in> {BudgetStrategyHardStop, BudgetStrategyDegradeModel, BudgetStrategySoftAlert}"
    and pr: "sh_PrivacyLevel h \<in> {PrivacyRaw, PrivacyMasked, PrivacyHashOnly}"
    using parse_strategy_cases parse_privacy_cases by (simp_all add: assms ParseSentorisHeaders_def)
  have "flt fzero x \<Longrightarrow> \<not> flt x fzero" for x by (cases x) auto
  with st have vb: "validate_budget \<lparr>bc_LimitUSD = sh_BudgetLimit h, bc_Strategy = sh_BudgetStrategy h\<rparr> = None"
    if "flt fzero (sh_BudgetLimit h)" using that by (auto simp: validate_budget_def)
  from pr have vp: "validate_privacy \<lparr>pc_Level = sh_PrivacyLevel h, pc_Strategy = [], pc_MaskedFields = [],
      pc_Deterministic = False\<rparr> = None" by (auto simp: validate_privacy_def)
  have v: "ValidateConstraintCombination (Some (ToConstraints h)) = None"
    by (simp add: ValidateConstraintCombination_def ToConstraints_def zero_Constraints_def Let_def vb vp
        validate_reproducibility_def)
  have l: "f64_ok (bc_LimitUSD c)" if "cs_Budget (ToConstraints h) = Some c" for c
    using that b by (auto simp: ToConstraints_def zero_Constraints_def Let_def split: if_splits)
  from v show "ValidateConstraintCombination (Some (ToConstraints h)) = None" .
  from zero_cost_allows [OF v l] show "er_Decision (Evaluate (Some (ToConstraints h)) fzero) = PolicyDecisionAllow"
    "er_Error (Evaluate (Some (ToConstraints h)) fzero) = None" by simp_all
  show "sh_Seed h = Some n \<Longrightarrow> - 9223372036854775808 \<le> n \<and> n \<le> 9223372036854775807"
    using ParseInt_bounds by (auto simp: assms ParseSentorisHeaders_def parse_seed_def split: if_splits)
  show "list_all (\<lambda>x. x \<noteq> [] \<and> TrimSpace x = x) (sh_Capabilities h)"
    by (auto simp: assms ParseSentorisHeaders_def parseCapabilities_def list_all_iff)
qed

text \<open>
  \<^bold>\<open>C32.\<close> Whatever the headers of a request contain, the constraints made from them pass
  validation, with a version that is not empty, a seed within 64 bits and capabilities without blanks
  around them; so an evaluation before anything was spent always allows the request, and the
  negotiated capabilities are those of the request that are supported, in its order.
\<close>

theorem parsed_constraints_allowed:
  "(let h = ParseSentorisHeaders hs; c = ToConstraints h in
     ValidateConstraintCombination (Some c) = None \<and> sh_Version h \<noteq> [] \<and>
     (case sh_Seed h of None \<Rightarrow> True
      | Some n \<Rightarrow> - 9223372036854775808 \<le> n \<and> n \<le> 9223372036854775807) \<and>
     list_all (\<lambda>x. x \<noteq> [] \<and> TrimSpace x = x) (sh_Capabilities h) \<and>
     er_Decision (Evaluate (Some c) fzero) = PolicyDecisionAllow \<and> er_Error (Evaluate (Some c) fzero) = None \<and>
     GetNegotiatedCapabilities h offered = filter (\<lambda>x. x \<in> set offered) (sh_Capabilities h))"
  using parsed_constraints_facts [OF refl, of hs]
  by (auto simp: Let_def ParseSentorisHeaders_def [of hs, THEN arg_cong, of sh_Version]
      GetNegotiatedCapabilities_def NegotiateCapabilities_def split: option.split)

end
