(* ===== verification/Hooks.thy ===== *)
theory Hooks
  imports Masking
begin

text \<open>
  \<^verbatim>\<open>internal/service/hooks/hooks.go\<close>: the registry, the chain of hooks a request passes, the
  detector of personal data and the rate limiter. A hook acts on the trace and on the state \<open>'w\<close>
  that all hooks of a chain share; its error is \<open>None\<close> for nil.
\<close>

section \<open>Hooks and their registry\<close>

record HookError =
  he_Message :: string
  he_IsFatal :: bool
  he_IsDegrade :: bool

type_synonym 'w stage = "Trace \<Rightarrow> 'w \<Rightarrow> HookError option \<times> Trace \<times> 'w"

record 'w Hook =
  hk_Name :: string
  hk_Priority :: int
  hk_PreExecute :: "'w stage"
  hk_PreStream :: "'w stage"
  hk_PostStream :: "'w stage"
  hk_OnFailure :: "'w stage"

definition HookError_Error :: "HookError \<Rightarrow> string" where
  "HookError_Error e = he_Message e"

type_synonym 'w HookRegistry = "string \<rightharpoonup> 'w Hook"

definition NewHookRegistry :: "'w HookRegistry" where
  "NewHookRegistry = Map.empty"

definition reg_Register :: "'w Hook \<Rightarrow> 'w HookRegistry \<Rightarrow> 'w HookRegistry" where
  "reg_Register hook r = r(hk_Name hook \<mapsto> hook)"

definition reg_Get :: "string \<Rightarrow> 'w HookRegistry \<Rightarrow> 'w Hook option" where
  "reg_Get name r = r name"

definition reg_List :: "string list \<Rightarrow> 'w HookRegistry \<Rightarrow> 'w Hook list" where
  "reg_List order r = map (\<lambda>k. the (r k)) order"

section \<open>The chain\<close>

record 'w HookChain =
  hc_hooks :: "'w Hook list"
  hc_strategy :: string

definition NewHookChain :: "string \<Rightarrow> 'w HookChain" where
  "NewHookChain strategy =
     \<lparr>hc_hooks = [], hc_strategy = (if strategy = [] then ''short-circuit'' else strategy)\<rparr>"

definition AddHook :: "'w Hook \<Rightarrow> 'w HookChain \<Rightarrow> 'w HookChain" where
  "AddHook hook c = c\<lparr>hc_hooks := hc_hooks c @ [hook]\<rparr>"

fun execute_from :: "string \<Rightarrow> ('w Hook \<Rightarrow> 'w stage) \<Rightarrow> 'w Hook list \<Rightarrow> 'w stage" where
  "execute_from strategy fn [] t w = (None, t, w)"
| "execute_from strategy fn (hook # hs) t w =
     (case fn hook t w of
        (Some err, t', w') \<Rightarrow>
          if strategy = ''short-circuit'' then (Some err, t', w') else execute_from strategy fn hs t' w'
      | (None, t', w') \<Rightarrow> execute_from strategy fn hs t' w')"

definition executeHooks :: "('w Hook \<Rightarrow> 'w stage) \<Rightarrow> 'w HookChain \<Rightarrow> 'w stage" where
  "executeHooks fn c = execute_from (hc_strategy c) fn (hc_hooks c)"

definition hc_PreExecute :: "'w HookChain \<Rightarrow> 'w stage" where
  "hc_PreExecute c = executeHooks hk_PreExecute c"

definition hc_PreStream :: "'w HookChain \<Rightarrow> 'w stage" where
  "hc_PreStream c = executeHooks hk_PreStream c"

definition hc_PostStream :: "'w HookChain \<Rightarrow> 'w stage" where
  "hc_PostStream c = executeHooks hk_PostStream c"

fun fail_from :: "'w Hook list \<Rightarrow> 'w stage" where
  "fail_from [] t w = (None, t, w)"
| "fail_from (hook # hs) t w = (case hk_OnFailure hook t w of (_, t', w') \<Rightarrow> fail_from hs t' w')"

definition hc_OnFailure :: "'w HookChain \<Rightarrow> 'w stage" where
  "hc_OnFailure c = fail_from (hc_hooks c)"

text \<open>A stage that does nothing, and the hook made of such stages.\<close>

definition no_stage :: "'w stage" where
  "no_stage t w = (None, t, w)"

definition NoopHook :: "'w Hook" where
  "NoopHook = \<lparr>hk_Name = ''noop'', hk_Priority = 1000, hk_PreExecute = no_stage, hk_PreStream = no_stage,
     hk_PostStream = no_stage, hk_OnFailure = no_stage\<rparr>"

section \<open>Metadata\<close>

definition set_metadata :: "(string \<times> any) list \<Rightarrow> Trace \<Rightarrow> Trace" where
  "set_metadata kvs t =
     (let m = (case in_Metadata (tr_Input t) of Some m \<Rightarrow> m | None \<Rightarrow> []) in
      t\<lparr>tr_Input := (tr_Input t)\<lparr>in_Metadata := Some (fold (\<lambda>(k, v) m. amap_set m k v) kvs m)\<rparr>\<rparr>)"

section \<open>The detector of personal data\<close>

text \<open>
  \<^verbatim>\<open>fmt.Sprintf\<close> with the verb v of a prompt: a string is itself, messages are printed as
  structures in brackets; \<open>other\<close> prints the rest.
\<close>

definition Sprint_prompt :: "(any \<Rightarrow> string) \<Rightarrow> any \<Rightarrow> string" where
  "Sprint_prompt other v = (case v of
     AString s \<Rightarrow> s
   | AMessages ms \<Rightarrow> ''['' @ Join (map (\<lambda>(r, c). ''{'' @ r @ '' '' @ c @ ''}'') ms) '' '' @ '']''
   | _ \<Rightarrow> other v)"

definition detect_one :: "string \<Rightarrow> string \<times> rx \<Rightarrow> string list \<Rightarrow> string list" where
  "detect_one s p found =
     (if MatchString (snd p) s \<and> fst p \<notin> set found then found @ [fst p] else found)"

definition detectPIIInString :: "string \<Rightarrow> string list \<Rightarrow> string list" where
  "detectPIIInString s found =
     fold (detect_one s) [(''email'', rx_email), (''phone'', rx_phone), (''ssn'', rx_ssn), (''credit_card'', rx_card)] found"

definition pii_PreExecute :: "(any \<Rightarrow> string) \<Rightarrow> (any \<Rightarrow> string result) \<Rightarrow> (string list) stage" where
  "pii_PreExecute other marshal t w =
     (let prompt = in_Prompt (tr_Input t);
          found = [];
          found = (if prompt \<noteq> ANil then detectPIIInString (Sprint_prompt other prompt) found else found);
          found = (if prompt \<noteq> ANil
                   then (case marshal prompt of Inr s \<Rightarrow> detectPIIInString s found | Inl _ \<Rightarrow> found) else found);
          t' = (if found \<noteq> [] then set_metadata [(''pii_detected'', ABool True), (''pii_types'', AStrArr found)] t
                else t)
      in (None, t', found))"

text \<open>
  After the stream the detector prints the response with the verb v. The response is a pointer, so what
  is printed is its address; \<open>addr\<close> is that text.
\<close>

definition pii_PostStream :: "string \<Rightarrow> (string list) stage" where
  "pii_PostStream addr t w =
     (if out_Response (tr_Output t) \<noteq> None then
        let found = (if MatchString rx_email addr then [''email''] else []) @
                    (if MatchString rx_phone addr then [''phone''] else [])
        in if found \<noteq> []
           then (None, set_metadata [(''output_pii_detected'', ABool True), (''output_pii_types'', AStrArr found)] t, w)
           else (None, t, w)
      else (None, t, w))"

definition PIIDetectorHook :: "(any \<Rightarrow> string) \<Rightarrow> (any \<Rightarrow> string result) \<Rightarrow> string \<Rightarrow> (string list) Hook" where
  "PIIDetectorHook other marshal addr = \<lparr>hk_Name = ''pii-detector'', hk_Priority = 100,
     hk_PreExecute = pii_PreExecute other marshal, hk_PreStream = no_stage,
     hk_PostStream = pii_PostStream addr, hk_OnFailure = no_stage\<rparr>"

section \<open>The rate limiter\<close>

record RateLimiterHook =
  rl_requests :: "string \<rightharpoonup> int \<times> gotime"
  rl_max :: int

definition NewRateLimiterHook :: RateLimiterHook where
  "NewRateLimiterHook = \<lparr>rl_requests = Map.empty, rl_max = 100\<rparr>"

definition NewRateLimiterHookWithLimit :: "int \<Rightarrow> RateLimiterHook" where
  "NewRateLimiterHookWithLimit n = \<lparr>rl_requests = Map.empty, rl_max = n\<rparr>"

definition session_key :: "Trace \<Rightarrow> string" where
  "session_key t = (case tr_SessionID t of Some s \<Rightarrow> s | None \<Rightarrow> ''default'')"

definition window_over :: "gotime \<Rightarrow> gotime \<Rightarrow> bool" where
  "window_over start now \<longleftrightarrow> t_nanos now - t_nanos start > 60 * 1000000000"

definition rl_PreExecute :: "gotime \<Rightarrow> RateLimiterHook stage" where
  "rl_PreExecute now t h =
     (let h = (if rl_max h = 0 then h\<lparr>rl_max := 100\<rparr> else h); s = session_key t in
      case rl_requests h s of
        None \<Rightarrow> (None, t, h\<lparr>rl_requests := (rl_requests h)(s \<mapsto> (1, now))\<rparr>)
      | Some (n, start) \<Rightarrow>
          if window_over start now
          then (None, t, h\<lparr>rl_requests := (rl_requests h)(s \<mapsto> (1, now))\<rparr>)
          else let h = h\<lparr>rl_requests := (rl_requests h)(s \<mapsto> (n + 1, start))\<rparr> in
            if rl_max h < n + 1
            then (Some \<lparr>he_Message = ''Rate limit exceeded: '' @ itoa (rl_max h) @ '' requests per minute'',
                    he_IsFatal = True, he_IsDegrade = False\<rparr>, t, h)
            else (None, set_metadata [(''rate_limit_count'', AInt (n + 1)), (''rate_limit_max'', AInt (rl_max h))] t, h))"

definition RateLimiter_Hook :: "gotime \<Rightarrow> RateLimiterHook Hook" where
  "RateLimiter_Hook now = \<lparr>hk_Name = ''rate-limiter'', hk_Priority = 50, hk_PreExecute = rl_PreExecute now,
     hk_PreStream = no_stage, hk_PostStream = no_stage, hk_OnFailure = no_stage\<rparr>"

section \<open>The window\<close>

text \<open>The limiter on a sequence of requests: which of them it admits.\<close>

fun rl_run :: "(gotime \<times> Trace) list \<Rightarrow> RateLimiterHook \<Rightarrow> (string \<times> bool) list" where
  "rl_run [] h = []"
| "rl_run ((now, t) # reqs) h =
     (case rl_PreExecute now t h of (e, _, h') \<Rightarrow> (session_key t, e = None) # rl_run reqs h')"

definition of_session :: "string \<Rightarrow> (string \<times> bool) list \<Rightarrow> bool list" where
  "of_session s rs = map snd (filter (\<lambda>r. fst r = s) rs)"

definition effective_max :: "RateLimiterHook \<Rightarrow> int" where
  "effective_max h = (if rl_max h = 0 then 100 else rl_max h)"

lemma rl_other_session:
  "session_key t \<noteq> s \<Longrightarrow>
     rl_requests (snd (snd (rl_PreExecute now t h))) s = rl_requests h s \<and>
     effective_max (snd (snd (rl_PreExecute now t h))) = effective_max h"
  by (auto simp: rl_PreExecute_def Let_def effective_max_def split: option.splits prod.splits)

lemma rl_in_window:
  assumes "rl_requests h (session_key t) = Some (n, start)" "\<not> window_over start now"
  shows "(fst (rl_PreExecute now t h) = None \<longleftrightarrow> n + 1 \<le> effective_max h) \<and>
    rl_requests (snd (snd (rl_PreExecute now t h))) (session_key t) = Some (n + 1, start) \<and>
    effective_max (snd (snd (rl_PreExecute now t h))) = effective_max h"
  using assms by (auto simp: rl_PreExecute_def Let_def effective_max_def)

lemma rl_new_window:
  assumes "\<And>n start. rl_requests h (session_key t) = Some (n, start) \<Longrightarrow> window_over start now"
  shows "fst (rl_PreExecute now t h) = None \<and>
    rl_requests (snd (snd (rl_PreExecute now t h))) (session_key t) = Some (1, now) \<and>
    effective_max (snd (snd (rl_PreExecute now t h))) = effective_max h"
  using assms by (auto simp: rl_PreExecute_def Let_def effective_max_def split: option.split)

lemma rl_run_window:
  assumes "rl_requests h s = Some (n, start)"
    and "list_all (\<lambda>(now, t). session_key t = s \<longrightarrow> \<not> window_over start now) reqs"
  shows "\<exists>k. of_session s (rl_run reqs h) = map (\<lambda>i. n + int i + 1 \<le> effective_max h) [0..<k]"
  using assms
proof (induction reqs arbitrary: h n)
  case Nil
  show ?case by (intro exI [of _ 0]) (simp add: of_session_def)
next
  case (Cons r reqs)
  obtain now t where r: "r = (now, t)" by (cases r)
  obtain e t' h' where p: "rl_PreExecute now t h = (e, t', h')" by (metis prod_cases3)
  show ?case
  proof (cases "session_key t = s")
    case True
    with Cons.prems r p rl_in_window [of h t n start now]
    have e: "(e = None) = (n + 1 \<le> effective_max h)" and h': "rl_requests h' s = Some (n + 1, start)"
      "effective_max h' = effective_max h" by auto
    from Cons.IH [OF h'(1)] Cons.prems(2) r h'(2) obtain k where
      k: "of_session s (rl_run reqs h') = map (\<lambda>i. n + 1 + int i + 1 \<le> effective_max h) [0..<k]" by auto
    have "of_session s (rl_run (r # reqs) h) = (n + 1 \<le> effective_max h) # of_session s (rl_run reqs h')"
      using True e by (simp add: r p of_session_def)
    also have "\<dots> = map (\<lambda>i. n + int i + 1 \<le> effective_max h) [0..<Suc k]"
      by (simp add: k map_upt_Suc algebra_simps del: upt_Suc)
    finally show ?thesis by blast
  next
    case False
    with p rl_other_session [of t s now h] Cons.prems
    have h': "rl_requests h' s = Some (n, start)" "effective_max h' = effective_max h" by simp_all
    from Cons.IH [OF h'(1)] Cons.prems(2) r h'(2) False p show ?thesis by (auto simp: of_session_def)
  qed
qed

lemma length_of_session: "length (of_session s (rl_run reqs h)) = length (filter (\<lambda>(now, t). session_key t = s) reqs)"
  by (induction reqs h rule: rl_run.induct) (auto simp: of_session_def split: prod.split)

text \<open>
  \<^bold>\<open>C30.\<close> Rate limiting. Take any requests, of any sessions in any order, of which the first opens a
  new window of its session and all of that session fall within a minute of it: of the session's
  requests the limiter admits the first ones up to the limit and refuses all the others, however many
  requests other sessions make.
\<close>

theorem rate_limit_window:
  assumes "0 \<le> rl_max h"
    and "\<And>n start. rl_requests h (session_key t) = Some (n, start) \<Longrightarrow> window_over start now"
    and "list_all (\<lambda>(now', t'). session_key t' = session_key t \<longrightarrow> \<not> window_over now now') reqs"
  shows "of_session (session_key t) (rl_run ((now, t) # reqs) h) =
    map (\<lambda>i. int i < effective_max h)
      [0..<Suc (length (filter (\<lambda>(now', t'). session_key t' = session_key t) reqs))]"
proof -
  obtain e t' h' where p: "rl_PreExecute now t h = (e, t', h')" by (metis prod_cases3)
  have h': "e = None" "rl_requests h' (session_key t) = Some (1, now)" "effective_max h' = effective_max h"
    using rl_new_window [of h t now] assms(2) p by auto
  obtain k where k: "of_session (session_key t) (rl_run reqs h') = map (\<lambda>i. 1 + int i + 1 \<le> effective_max h) [0..<k]"
    using rl_run_window [OF h'(2) assms(3)] h'(3) by auto
  moreover have "k = length (filter (\<lambda>(now', t'). session_key t' = session_key t) reqs)"
    using length_of_session [of "session_key t" reqs h'] by (simp add: k)
  moreover have "0 < effective_max h" using assms(1) by (simp add: effective_max_def)
  moreover have "of_session (session_key t) (rl_run ((now, t) # reqs) h) = True # of_session (session_key t) (rl_run reqs h')"
    using h'(1) p by (simp add: of_session_def)
  ultimately show ?thesis
    by (simp add: map_upt_Suc del: upt_Suc) (auto simp: algebra_simps)
qed

theorem rate_limit_window_witness:
  "of_session ''s1'' (rl_run (replicate 3 (t_zero, sample_trace)) (NewRateLimiterHookWithLimit 2))
     = [True, True, False]"
  using rate_limit_window [of "NewRateLimiterHookWithLimit 2" sample_trace t_zero "replicate 2 (t_zero, sample_trace)"]
  by (simp add: NewRateLimiterHookWithLimit_def session_key_def sample_trace_def window_over_def
      effective_max_def numeral_3_eq_3 numeral_2_eq_2)

text \<open>What the detector records after the stream does not depend on the response.\<close>

lemma pii_PostStream_blind:
  "(\<exists>r r'. out_Response (tr_Output t) = Some r \<and> out_Response (tr_Output t') = Some r') \<Longrightarrow>
   tr_Input t = tr_Input t' \<Longrightarrow>
     tr_Input (fst (snd (pii_PostStream addr t w))) = tr_Input (fst (snd (pii_PostStream addr t' w)))"
  by (auto simp: pii_PostStream_def set_metadata_def Let_def)

end
