(* ===== verification/StreamBudget.thy ===== *)
theory StreamBudget
  imports Router Governance
begin

text \<open>
  \<^verbatim>\<open>internal/service/governance/stream_budget_interceptor.go\<close>: the reservation of budget for
  each chunk of a stream. The budget store is the record of its operations; what it promises is the
  contract \<open>budget_store\<close>, which both stores meet. \<open>ks\<close> is the order of ranging over the
  router's providers.
\<close>

section \<open>The interceptor\<close>

record StreamBudgetInterceptor =
  si_budgetLimit :: f64
  si_strategy :: string
  si_model :: string
  si_sessionID :: string
  si_reservedAmount :: f64

definition NewStreamBudgetInterceptor ::
    "f64 \<Rightarrow> string \<Rightarrow> string \<Rightarrow> string \<Rightarrow> StreamBudgetInterceptor" where
  "NewStreamBudgetInterceptor budgetLimit strategy model sessionID =
     \<lparr>si_budgetLimit = budgetLimit, si_strategy = strategy, si_model = model, si_sessionID = sessionID,
      si_reservedAmount = fzero\<rparr>"

definition is_chinese :: "nat \<Rightarrow> bool" where
  "is_chinese r \<longleftrightarrow> 19968 \<le> r \<and> r \<le> 40959"

definition EstimateTokens :: "string \<Rightarrow> int" where
  "EstimateTokens content =
     (let chineseChars = int (length (filter is_chinese (runes content)));
          englishChars = int (length (filter (\<lambda>r. \<not> is_chinese r) (runes content)));
          tokenCount = fadd (fdiv (f_of_int chineseChars) (lit 2)) (fdiv (f_of_int englishChars) (lit 4))
      in int64_of (fceil tokenCount))"

definition estimateCost :: "string list \<Rightarrow> 'p ModelRouter \<Rightarrow> StreamBudgetInterceptor \<Rightarrow> int \<Rightarrow> f64 result" where
  "estimateCost ks r i tokenCount =
     (let (inputPrice, outputPrice, err) = mo_GetPricing ks (si_model i) r;
          (inputPrice, outputPrice) =
            (if err \<noteq> None \<or> feq inputPrice fzero \<or> feq outputPrice fzero
             then (lit (2/1000), lit (2/1000)) else (inputPrice, outputPrice));
          avgPrice = fdiv (fadd inputPrice outputPrice) (lit 2)
      in Inr (fdiv (fmul (f_of_int tokenCount) avgPrice) (lit 1000)))"

definition release_reserved :: "'s BudgetOps \<Rightarrow> StreamBudgetInterceptor \<Rightarrow> 's \<Rightarrow> 's" where
  "release_reserved ops i s =
     (if flt fzero (si_reservedAmount i) then snd (bo_Rollback ops (si_sessionID i) (si_reservedAmount i) s) else s)"

definition handleBudgetExceeded ::
    "'s BudgetOps \<Rightarrow> 'p ModelRouter \<Rightarrow> StreamBudgetInterceptor \<Rightarrow> 's \<Rightarrow> bool result \<times> StreamBudgetInterceptor \<times> 's" where
  "handleBudgetExceeded ops r i s =
     (if si_strategy i = ''hard_stop'' then (Inl ''budget exceeded'', i, release_reserved ops i s)
      else if si_strategy i = ''degrade'' then
        (Inr True, (case GetDegradeModel (si_model i) r of Some m \<Rightarrow> i\<lparr>si_model := m\<rparr> | None \<Rightarrow> i), s)
      else if si_strategy i = ''soft_alert'' then (Inr True, i, s)
      else (Inl ''budget exceeded'', i, release_reserved ops i s))"

definition Intercept ::
    "'s BudgetOps \<Rightarrow> string list \<Rightarrow> 'p ModelRouter \<Rightarrow> string \<Rightarrow> StreamBudgetInterceptor \<Rightarrow> 's \<Rightarrow>
       bool result \<times> StreamBudgetInterceptor \<times> 's" where
  "Intercept ops ks r content i s =
     (case estimateCost ks r i (EstimateTokens content) of
        Inl e \<Rightarrow> (Inl e, i, s)
      | Inr cost \<Rightarrow>
          if flt fzero (si_budgetLimit i) then
            (case bo_Reserve ops (si_sessionID i) cost s of
               (Inl e, s') \<Rightarrow> (Inl (''failed to reserve budget: '' @ e), i, s')
             | (Inr False, s') \<Rightarrow> handleBudgetExceeded ops r i s'
             | (Inr True, s') \<Rightarrow> (Inr True, i\<lparr>si_reservedAmount := fadd (si_reservedAmount i) cost\<rparr>, s'))
          else (Inr True, i, s))"

definition si_Commit :: "'s BudgetOps \<Rightarrow> StreamBudgetInterceptor \<Rightarrow> 's \<Rightarrow> string option \<times> StreamBudgetInterceptor \<times> 's" where
  "si_Commit ops i s =
     (if flt fzero (si_reservedAmount i) then
        (case bo_Commit ops (si_sessionID i) (si_reservedAmount i) s of
           (Some e, s') \<Rightarrow> (Some (''failed to commit budget: '' @ e), i, s')
         | (None, s') \<Rightarrow> (None, i\<lparr>si_reservedAmount := fzero\<rparr>, s'))
      else (None, i, s))"

definition si_Rollback :: "'s BudgetOps \<Rightarrow> StreamBudgetInterceptor \<Rightarrow> 's \<Rightarrow> string option \<times> StreamBudgetInterceptor \<times> 's" where
  "si_Rollback ops i s =
     (if flt fzero (si_reservedAmount i) then
        (case bo_Rollback ops (si_sessionID i) (si_reservedAmount i) s of
           (Some e, s') \<Rightarrow> (Some (''failed to rollback budget: '' @ e), i, s')
         | (None, s') \<Rightarrow> (None, i\<lparr>si_reservedAmount := fzero\<rparr>, s'))
      else (None, i, s))"

definition GetCurrentCost :: "StreamBudgetInterceptor \<Rightarrow> f64" where
  "GetCurrentCost i = si_reservedAmount i"

section \<open>Tokens\<close>

text \<open>Two Chinese or four other characters are a token; the sum is rounded up.\<close>

lemma fdiv_power2:
  assumes "\<bar>n\<bar> \<le> 2 ^ 50" "k = 1 \<or> k = 2"
  shows "fdiv (f_of_int n) (lit (2 ^ k)) = Fin (of_int n / 2 ^ k)"
proof -
  have r: "representable (of_int n / 2 ^ k)"
    using assms by (intro representableI [of _ n "- int k"]) (auto simp: pow2_def)
  have "\<bar>of_int n / 2 ^ k :: rat\<bar> \<le> of_int \<bar>n\<bar>" using assms(2) by (auto simp: abs_divide)
  also have "\<dots> \<le> of_int (2 ^ 1000)" using assms(1) by (intro of_int_le_iff [THEN iffD2]) simp
  finally have "to_f64 (of_int n / 2 ^ k) = Fin (of_int n / 2 ^ k)"
    by (intro to_f64_exact [OF r] not_too_big_le)
  moreover have "lit (2 ^ k) = Fin (2 ^ k)"
    using assms(2) f_of_int_exact [of "2 ^ k"] by (auto simp: lit_def f_of_int_def)
  ultimately show ?thesis using assms by (auto simp: f_of_int_exact fdiv_def signed_zero_def)
qed

lemma EstimateTokens_eq:
  assumes "length content \<le> 2 ^ 50"
  shows "EstimateTokens content = (2 * int (length (filter is_chinese (runes content))) +
    int (length (filter (\<lambda>r. \<not> is_chinese r) (runes content))) + 3) div 4"
proof -
  define c e where "c = int (length (filter is_chinese (runes content)))"
    and "e = int (length (filter (\<lambda>r. \<not> is_chinese r) (runes content)))"
  have "c + e = int (length (runes content))" unfolding c_def e_def
    by (simp flip: of_nat_add add: sum_length_filter_compl)
  then have b: "0 \<le> c" "0 \<le> e" "c \<le> 2 ^ 50" "e \<le> 2 ^ 50"
    using length_runes_le [of content] assms by (simp_all add: c_def e_def)
  have d: "fdiv (f_of_int c) (lit 2) = Fin (of_int c / 2)" "fdiv (f_of_int e) (lit 4) = Fin (of_int e / 4)"
    using fdiv_power2 [of c 1] fdiv_power2 [of e 2] b by simp_all
  have q: "(of_int c / 2 + of_int e / 4 :: rat) = of_int (2 * c + e) * pow2 (- 2)" by (simp add: pow2_def field_simps)
  have r: "representable (of_int c / 2 + of_int e / 4)"
    unfolding q using b by (intro representableI [OF refl]) simp_all
  have "\<bar>of_int c / 2 + of_int e / 4 :: rat\<bar> \<le> of_int (c + e)" using b by (simp add: field_simps)
  also have "\<dots> \<le> of_int (2 ^ 1000)" using b by (intro of_int_le_iff [THEN iffD2]) simp
  finally have x: "fadd (Fin (of_int c / 2)) (Fin (of_int e / 4)) = Fin (of_int c / 2 + of_int e / 4)"
    by (simp only: fadd_Fin) (intro to_f64_exact [OF r] not_too_big_le)
  have ceil: "\<lceil>of_int c / 2 + of_int e / 4 :: rat\<rceil> = (2 * c + e + 3) div 4"
  proof (rule ceiling_unique)
    have "(2 * c + e + 3) div 4 * 4 \<le> 2 * c + e + 3" "2 * c + e < (2 * c + e + 3) div 4 * 4 + 1" by linarith+
    then have "(of_int ((2 * c + e + 3) div 4 * 4) :: rat) \<le> of_int (2 * c + e + 3)"
      "(of_int (2 * c + e) :: rat) < of_int ((2 * c + e + 3) div 4 * 4 + 1)"
      by (simp_all only: of_int_le_iff of_int_less_iff)
    then show "of_int ((2 * c + e + 3) div 4) - 1 < (of_int c / 2 + of_int e / 4 :: rat)"
      "(of_int c / 2 + of_int e / 4 :: rat) \<le> of_int ((2 * c + e + 3) div 4)" by auto
  qed
  have "\<not> (of_int c / 2 + of_int e / 4 :: rat) < 0" using b by simp
  then have "EstimateTokens content = int64_of (Fin (of_int ((2 * c + e + 3) div 4)))"
    by (simp add: EstimateTokens_def c_def [symmetric] e_def [symmetric] d x ceil)
  also have "\<dots> = (2 * c + e + 3) div 4" using b by (auto simp: int64_of_def trunc_q_def int_min_def Let_def)
  finally show ?thesis by (simp add: c_def e_def)
qed

section \<open>A stream and its budget\<close>

text \<open>The chunks of a stream, until one is not let through.\<close>

fun intercept_all ::
    "'s BudgetOps \<Rightarrow> string list \<Rightarrow> 'p ModelRouter \<Rightarrow> string list \<Rightarrow> StreamBudgetInterceptor \<Rightarrow> 's \<Rightarrow>
       bool result \<times> StreamBudgetInterceptor \<times> 's" where
  "intercept_all ops ks r [] i s = (Inr True, i, s)"
| "intercept_all ops ks r (c # cs) i s =
     (case Intercept ops ks r c i s of
        (Inr True, i', s') \<Rightarrow> intercept_all ops ks r cs i' s'
      | stopped \<Rightarrow> stopped)"

text \<open>
  What a stream leaves behind. \<open>u\<close> is the cost of a chunk in units, \<open>L\<close> the session's ledger
  before. Either everything fits, and a commit turns the reservations into use; or a chunk is
  refused, the ledger is as before, and the interceptor still counts what it had reserved.
\<close>

definition stream_settles ::
    "(int \<Rightarrow> 's \<Rightarrow> string \<Rightarrow> ledger \<Rightarrow> bool) \<Rightarrow> 's BudgetOps \<Rightarrow> int \<Rightarrow> ledger \<Rightarrow> string list \<Rightarrow> 'p ModelRouter \<Rightarrow>
       (string \<Rightarrow> int) \<Rightarrow> string list \<Rightarrow> StreamBudgetInterceptor \<Rightarrow> 's \<Rightarrow> bool" where
  "stream_settles repr ops g L ks r u cs i s \<longleftrightarrow>
     (case intercept_all ops ks r cs i s of (res, i', s') \<Rightarrow>
        if lg_used L + lg_reserved L + sum_list (map u cs) \<le> lg_total L
        then res = Inr True \<and> si_reservedAmount i' = on_grid g (sum_list (map u cs)) \<and>
          repr g s' (si_sessionID i) (L\<lparr>lg_reserved := lg_reserved L + sum_list (map u cs)\<rparr>) \<and>
          (case si_Commit ops i' s' of (e, i'', s'') \<Rightarrow>
             e = None \<and> si_reservedAmount i'' = fzero \<and>
             repr g s'' (si_sessionID i) (L\<lparr>lg_used := lg_used L + sum_list (map u cs)\<rparr>))
        else res = Inl ''budget exceeded'' \<and> repr g s' (si_sessionID i) L \<and>
          (\<exists>n < length cs. si_reservedAmount i' = on_grid g (sum_list (map u (take n cs)))))"

context budget_store
begin

lemma intercept_all_ledger:
  assumes "grid_ok g" "flt fzero (si_budgetLimit i)" "si_strategy i = ''hard_stop''"
    and "\<And>c i. c \<in> set cs \<Longrightarrow> si_model i = m \<Longrightarrow> estimateCost ks r i (EstimateTokens c) = Inr (on_grid g (u c))"
    and "\<And>c. c \<in> set cs \<Longrightarrow> 0 \<le> u c \<and> u c \<le> 2 ^ 52"
    and ops: "bo_Reserve ops = reserve" "bo_Rollback ops = rollback"
    and "si_model i = m" "0 \<le> p" "ledger_ok (L\<lparr>lg_reserved := lg_reserved L + p\<rparr>)" "ledger_ok L"
    and "repr g s (si_sessionID i) (L\<lparr>lg_reserved := lg_reserved L + p\<rparr>)" "si_reservedAmount i = on_grid g p"
  shows "case intercept_all ops ks r cs i s of (res, i', s') \<Rightarrow>
    si_sessionID i' = si_sessionID i \<and>
    (if lg_used L + lg_reserved L + p + sum_list (map u cs) \<le> lg_total L
     then res = Inr True \<and> si_reservedAmount i' = on_grid g (p + sum_list (map u cs)) \<and>
       repr g s' (si_sessionID i) (L\<lparr>lg_reserved := lg_reserved L + p + sum_list (map u cs)\<rparr>)
     else res = Inl ''budget exceeded'' \<and> repr g s' (si_sessionID i) L \<and>
       (\<exists>n < length cs. si_reservedAmount i' = on_grid g (p + sum_list (map u (take n cs)))))"
  using assms(2-5,8-13)
proof (induction cs arbitrary: i s p)
  case Nil
  then show ?case by (simp add: ledger_ok_def)
next
  case (Cons c cs)
  let ?L = "L\<lparr>lg_reserved := lg_reserved L + p\<rparr>"
  have cost: "estimateCost ks r i (EstimateTokens c) = Inr (on_grid g (u c))" and u: "0 \<le> u c" "u c \<le> 2 ^ 52"
    using Cons.prems by simp_all
  have nonneg: "0 \<le> sum_list (map u cs)" using Cons.prems(4) by (intro sum_list_nonneg) auto
  show ?case
  proof (cases "lg_used L + lg_reserved L + p + u c \<le> lg_total L")
    case True
    let ?L' = "L\<lparr>lg_reserved := lg_reserved L + (p + u c)\<rparr>"
    have st: "ledger_step (BReserve (u c)) ?L = Some ?L'" using True u by (simp add: algebra_simps)
    from reserve_law [OF assms(1) Cons.prems(7,9) st] True
    obtain s1 where s1: "reserve (si_sessionID i) (on_grid g (u c)) s = (Inr True, s1)"
      "repr g s1 (si_sessionID i) ?L'"
      by (cases "reserve (si_sessionID i) (on_grid g (u c)) s") (auto simp: algebra_simps)
    have ok: "ledger_ok ?L'" using st Cons.prems(7) by (rule ledger_step_ok)
    have le: "p \<le> 2 ^ 52" "p + u c \<le> 2 ^ 52" using ok Cons.prems(6,8) u by (auto simp: ledger_ok_def)
    define i1 where "i1 = i\<lparr>si_reservedAmount := on_grid g (p + u c)\<rparr>"
    have "Intercept ops ks r c i s = (Inr True, i1, s1)"
      using le u Cons.prems(1,6,10) assms(1) by (simp add: Intercept_def cost ops s1(1) i1_def)
    moreover have "case intercept_all ops ks r cs i1 s1 of (res, i', s') \<Rightarrow>
      si_sessionID i' = si_sessionID i1 \<and>
      (if lg_used L + lg_reserved L + (p + u c) + sum_list (map u cs) \<le> lg_total L
       then res = Inr True \<and> si_reservedAmount i' = on_grid g (p + u c + sum_list (map u cs)) \<and>
         repr g s' (si_sessionID i1) (L\<lparr>lg_reserved := lg_reserved L + (p + u c) + sum_list (map u cs)\<rparr>)
       else res = Inl ''budget exceeded'' \<and> repr g s' (si_sessionID i1) L \<and>
         (\<exists>n < length cs. si_reservedAmount i' = on_grid g (p + u c + sum_list (map u (take n cs)))))"
      using Cons.prems ok s1(2) u by (intro Cons.IH) (auto simp: i1_def)
    ultimately show ?thesis
      by (auto simp: i1_def algebra_simps split: if_splits intro!: exI [of _ "Suc n" for n])
  next
    case False
    have st: "ledger_step (BReserve (u c)) ?L = Some ?L" using False u by (simp add: algebra_simps)
    from reserve_law [OF assms(1) Cons.prems(7,9) st] False
    obtain s1 where s1: "reserve (si_sessionID i) (on_grid g (u c)) s = (Inr False, s1)"
      "repr g s1 (si_sessionID i) ?L"
      by (cases "reserve (si_sessionID i) (on_grid g (u c)) s") (auto simp: algebra_simps)
    have "repr g (release_reserved ops i s1) (si_sessionID i) L"
    proof (cases "p = 0")
      case True
      with s1(2) Cons.prems(10) show ?thesis by (simp add: release_reserved_def)
    next
      case False
      have st: "ledger_step (BRollback p) ?L = Some L"
        using Cons.prems(6,8) by (simp add: ledger_ok_def)
      from rollback_law [OF assms(1) Cons.prems(7) s1(2) st] False Cons.prems(6,10) show ?thesis
        using flt_on_grid [of g 0 p] by (simp add: release_reserved_def ops)
    qed
    then have "Intercept ops ks r c i s = (Inl ''budget exceeded'', i, release_reserved ops i s1)"
      using Cons.prems(1,2) by (simp add: Intercept_def cost ops s1(1) handleBudgetExceeded_def)
    with \<open>repr g (release_reserved ops i s1) (si_sessionID i) L\<close> False nonneg Cons.prems(10)
    show ?thesis by auto
  qed
qed

lemma stream_settles:
  assumes "grid_ok g" "flt fzero (si_budgetLimit i)" "si_strategy i = ''hard_stop''"
    and "\<And>c j. c \<in> set cs \<Longrightarrow> si_model j = si_model i \<Longrightarrow>
      estimateCost ks r j (EstimateTokens c) = Inr (on_grid g (u c))"
    and "\<And>c. c \<in> set cs \<Longrightarrow> 0 \<le> u c \<and> u c \<le> 2 ^ 52"
    and ops: "bo_Reserve ops = reserve" "bo_Rollback ops = rollback" "bo_Commit ops = commit"
    and "ledger_ok L" "repr g s (si_sessionID i) L" "si_reservedAmount i = fzero"
  shows "stream_settles repr ops g L ks r u cs i s"
proof -
  let ?n = "sum_list (map u cs)"
  obtain res i' s' where run: "intercept_all ops ks r cs i s = (res, i', s')" by (metis prod_cases3)
  have L: "L\<lparr>lg_reserved := lg_reserved L + 0\<rparr> = L" by simp
  have "case intercept_all ops ks r cs i s of (res, i', s') \<Rightarrow>
    si_sessionID i' = si_sessionID i \<and>
    (if lg_used L + lg_reserved L + 0 + ?n \<le> lg_total L
     then res = Inr True \<and> si_reservedAmount i' = on_grid g (0 + ?n) \<and>
       repr g s' (si_sessionID i) (L\<lparr>lg_reserved := lg_reserved L + 0 + ?n\<rparr>)
     else res = Inl ''budget exceeded'' \<and> repr g s' (si_sessionID i) L \<and>
       (\<exists>n < length cs. si_reservedAmount i' = on_grid g (0 + sum_list (map u (take n cs)))))"
    using assms by (intro intercept_all_ledger) (simp_all add: L)
  then have main: "si_sessionID i' = si_sessionID i"
    "if lg_used L + lg_reserved L + ?n \<le> lg_total L
     then res = Inr True \<and> si_reservedAmount i' = on_grid g ?n \<and>
       repr g s' (si_sessionID i) (L\<lparr>lg_reserved := lg_reserved L + ?n\<rparr>)
     else res = Inl ''budget exceeded'' \<and> repr g s' (si_sessionID i) L \<and>
       (\<exists>n < length cs. si_reservedAmount i' = on_grid g (sum_list (map u (take n cs))))"
    unfolding run prod.case add_0_left add_0_right by blast+
  show ?thesis
  proof (cases "lg_used L + lg_reserved L + ?n \<le> lg_total L")
    case True
    let ?L = "L\<lparr>lg_reserved := lg_reserved L + ?n\<rparr>"
    have nonneg: "0 \<le> ?n" using assms(5) by (intro sum_list_nonneg) auto
    have ok: "ledger_ok ?L" using True nonneg assms(9) by (auto simp: ledger_ok_def)
    have st: "ledger_step (BCommit ?n) ?L = Some (L\<lparr>lg_used := lg_used L + ?n\<rparr>)"
      using nonneg assms(9) by (simp add: ledger_ok_def)
    from main True have r: "repr g s' (si_sessionID i) ?L" and a: "si_reservedAmount i' = on_grid g ?n" by simp_all
    from commit_law [OF assms(1) ok r st]
    have "case si_Commit ops i' s' of (e, i'', s'') \<Rightarrow> e = None \<and> si_reservedAmount i'' = fzero \<and>
        repr g s'' (si_sessionID i) (L\<lparr>lg_used := lg_used L + ?n\<rparr>)"
      using main(1) a r nonneg flt_on_grid [of g 0 ?n]
      by (cases "?n = 0") (auto simp: si_Commit_def ops split: prod.split)
    with True main show ?thesis by (simp add: stream_settles_def run)
  next
    case False
    with main show ?thesis by (simp add: stream_settles_def run)
  qed
qed

end

section \<open>The property\<close>

text \<open>
  \<^bold>\<open>C29.\<close> A stream under a hard stop, over the memory and over the SQLite budget store, with costs
  that are whole units. If all of its chunks fit the session's budget, every one is let through, and the
  commit turns exactly their sum from reserved to used; otherwise some chunk is refused and everything
  reserved for the stream is given back, with no trace in the ledger. After a refusal the interceptor still
  holds the amount it gave back, so that rolling it back again would give it back twice.
\<close>

theorem stream_budget_settles:
  assumes "grid_ok g" "flt fzero (si_budgetLimit i)" "si_strategy i = ''hard_stop''"
    and "\<And>c j. c \<in> set cs \<Longrightarrow> si_model j = si_model i \<Longrightarrow>
      estimateCost ks r j (EstimateTokens c) = Inr (on_grid g (u c))"
    and "\<And>c. c \<in> set cs \<Longrightarrow> 0 \<le> u c \<and> u c \<le> 2 ^ 52"
    and "ledger_ok L" "si_reservedAmount i = fzero"
    and "mem_repr g s (si_sessionID i) L" "sql_repr g db (si_sessionID i) L"
  shows "stream_settles mem_repr mem_ops g L ks r u cs i s \<and> stream_settles sql_repr sql_ops g L ks r u cs i db"
proof
  show "stream_settles mem_repr mem_ops g L ks r u cs i s"
    using assms by (intro mem.stream_settles) (simp_all add: mem_ops_def)
  show "stream_settles sql_repr sql_ops g L ks r u cs i db"
    using assms by (intro sql.stream_settles) (simp_all add: sql_ops_def)
qed

definition sample_router :: "unit ModelRouter" where
  "sample_router = NewModelRouter\<lparr>mo_providers := [''p'' \<mapsto> \<lparr>rp_BaseURL = [], rp_AuthHeader = [],
     rp_Models = [''m''], rp_InputPer1K = Fin 2000, rp_OutputPer1K = Fin 2000\<rparr>]\<rparr>"

lemma sample_cost:
  assumes "si_model j = ''m''" shows "estimateCost [''p''] sample_router j (EstimateTokens ''abcd'') = Inr (on_grid 0 2)"
proof -
  have "runes ''abcd'' = [97, 98, 99, 100]" by code_simp
  then have "EstimateTokens ''abcd'' = 1" by (simp add: EstimateTokens_eq is_chinese_def)
  moreover have "mo_GetPricing [''p''] ''m'' sample_router = (Fin 2000, Fin 2000, None)"
    by (simp add: mo_GetPricing_def serving_def prices_def sample_router_def NewModelRouter_def)
  moreover have "to_f64 4000 = Fin 4000" "to_f64 2000 = Fin 2000" "to_f64 2 = Fin 2" "to_f64 1000 = Fin 1000"
    "to_f64 1 = Fin 1"
    using f_of_int_exact [of 4000] f_of_int_exact [of 2000] f_of_int_exact [of 2] f_of_int_exact [of 1000]
      f_of_int_exact [of 1] by (simp_all add: f_of_int_def)
  ultimately show ?thesis using assms
    by (simp add: estimateCost_def feq_def lit_def f_of_int_def fadd_Fin fdiv_def fmul_def on_grid_def)
qed

theorem stream_budget_settles_witness:
  "stream_settles mem_repr mem_ops 0 \<lparr>lg_total = 5, lg_reserved = 0, lg_used = 0\<rparr> [''p''] sample_router (\<lambda>_. 2)
     [''abcd'', ''abcd'', ''abcd''] (NewStreamBudgetInterceptor (Fin 5) ''hard_stop'' ''m'' ''s'')
     \<lparr>mb_budget = on_grid 0 5, mb_reserved = on_grid 0 0, mb_used = on_grid 0 0\<rparr>"
proof -
  have g: "grid_ok 0" by (simp add: grid_ok_def)
  show ?thesis
    using stream_budget_settles [OF g, of "NewStreamBudgetInterceptor (Fin 5) ''hard_stop'' ''m'' ''s''"
        "[''abcd'', ''abcd'', ''abcd'']" "[''p'']" sample_router "\<lambda>_. 2" "\<lparr>lg_total = 5, lg_reserved = 0, lg_used = 0\<rparr>"
        "\<lparr>mb_budget = on_grid 0 5, mb_reserved = on_grid 0 0, mb_used = on_grid 0 0\<rparr>"
        "[''s'' \<mapsto> \<lparr>br_total = on_grid 0 5, br_used = on_grid 0 0, br_reserved = on_grid 0 0\<rparr>]"]
    by (simp add: NewStreamBudgetInterceptor_def sample_cost ledger_ok_def mem_repr_def sql_repr_def)
qed

end
