(* ===== verification/Response.thy ===== *)
theory Response
  imports Errors Headers
begin

text \<open>
  What a handler of \<^verbatim>\<open>internal/transport/http\<close> writes: the response writer of
  \<^verbatim>\<open>net/http\<close>, the header helpers of \<^verbatim>\<open>response_headers.go\<close> and the error responses
  of \<^verbatim>\<open>handler.go\<close>. The JSON encoder is left out: a body is the value that is encoded.
\<close>

section \<open>The response writer\<close>

datatype body = BJson any | BText string | BEvent any | BTrace Trace | BTraces "Trace list" | BReport RiskReport
  | BReports "RiskReport list"

text \<open>
  The header map that is being built, the status and headers once they are sent, the body, and whether
  the writer can flush. Headers set after the status was sent have no effect; the first status counts; a
  write without a status sends 200.
\<close>

record Writer =
  wr_Header :: "string \<rightharpoonup> string"
  wr_Sent :: "(int \<times> (string \<rightharpoonup> string)) option"
  wr_Body :: "body list"
  wr_Flusher :: bool

definition fresh_writer :: "bool \<Rightarrow> Writer" where
  "fresh_writer flusher = \<lparr>wr_Header = Map.empty, wr_Sent = None, wr_Body = [], wr_Flusher = flusher\<rparr>"

definition set_header :: "string \<Rightarrow> string \<Rightarrow> Writer \<Rightarrow> Writer" where
  "set_header k v w = w\<lparr>wr_Header := (wr_Header w)(canonical_key True k \<mapsto> v)\<rparr>"

definition WriteHeader :: "int \<Rightarrow> Writer \<Rightarrow> Writer" where
  "WriteHeader status w = (if wr_Sent w = None then w\<lparr>wr_Sent := Some (status, wr_Header w)\<rparr> else w)"

definition write_body :: "body \<Rightarrow> Writer \<Rightarrow> Writer" where
  "write_body b w = (let w = WriteHeader 200 w in w\<lparr>wr_Body := wr_Body w @ [b]\<rparr>)"

definition status_of :: "Writer \<Rightarrow> int" where
  "status_of w = (case wr_Sent w of Some (status, _) \<Rightarrow> status | None \<Rightarrow> 200)"

definition sent_header :: "Writer \<Rightarrow> string \<Rightarrow> string option" where
  "sent_header w k = (case wr_Sent w of Some (_, hs) \<Rightarrow> hs (canonical_key True k) | None \<Rightarrow> wr_Header w (canonical_key True k))"

section \<open>Errors\<close>

definition handleSentorisError :: "SentorisError \<Rightarrow> Writer \<Rightarrow> Writer" where
  "handleSentorisError e w =
     write_body (BJson (AMap (ToMap e)))
       (WriteHeader (HTTPStatusCode e) (set_header ''Content-Type'' ''application/json'' w))"

text \<open>The status code that a caller asks for is not used.\<close>

definition handleError :: "string \<Rightarrow> int \<Rightarrow> ErrorCode \<Rightarrow> Writer \<Rightarrow> Writer" where
  "handleError message statusCode errCode w = handleSentorisError (NewSentorisError errCode message) w"

definition handleErrorWithMessage :: "string \<Rightarrow> int \<Rightarrow> goerror \<Rightarrow> Writer \<Rightarrow> Writer" where
  "handleErrorWithMessage message statusCode err w =
     handleSentorisError
       (case err of ESentoris se \<Rightarrow> se | ECode ec \<Rightarrow> NewSentorisError ec message
        | EPlain _ \<Rightarrow> WrapError (Some err) ErrInternalError message) w"

section \<open>Headers\<close>

definition setResponseHeaders :: "string \<Rightarrow> f64 \<Rightarrow> f64 option \<Rightarrow> string list \<Rightarrow> Writer \<Rightarrow> Writer" where
  "setResponseHeaders traceID costUSD budgetRemaining acceptedCapabilities w =
     (let w = set_header ''Sentoris-Version'' ''1.0'' w;
          w = set_header ''Sentoris-Trace-Id'' traceID w;
          w = set_header ''Sentoris-Cost-Consumed'' (Sprintf_6f costUSD) w;
          w = (case budgetRemaining of
                 Some r \<Rightarrow> set_header ''Sentoris-Budget-Remaining'' (Sprintf_6f r) w | None \<Rightarrow> w)
      in if 0 < length acceptedCapabilities
         then set_header ''Sentoris-Accepted'' (Join acceptedCapabilities '','') w else w)"

definition setErrorResponseHeaders :: "string \<Rightarrow> ErrorCode \<Rightarrow> Writer \<Rightarrow> Writer" where
  "setErrorResponseHeaders traceID errCode w =
     (let w = set_header ''Sentoris-Version'' ''1.0'' w;
          w = (if traceID \<noteq> [] then set_header ''Sentoris-Trace-Id'' traceID w else w)
      in set_header ''Sentoris-Accepted'' [] w)"

definition setTruncatedResponseHeaders :: "string \<Rightarrow> f64 \<Rightarrow> bool \<Rightarrow> Writer \<Rightarrow> Writer" where
  "setTruncatedResponseHeaders traceID costUSD truncated w =
     (let w = setResponseHeaders traceID costUSD None [] w
      in if truncated then set_header ''Sentoris-Truncated'' ''true'' w else w)"

definition setReplayResponseHeaders :: "string \<Rightarrow> string \<Rightarrow> bool \<Rightarrow> Writer \<Rightarrow> Writer" where
  "setReplayResponseHeaders traceID baselineTraceID modelChanged w =
     (let w = set_header ''Sentoris-Version'' ''1.0'' w;
          w = set_header ''Sentoris-Trace-Id'' traceID w;
          w = (if baselineTraceID \<noteq> [] then set_header ''Sentoris-Baseline-Ref'' baselineTraceID w else w)
      in if modelChanged then set_header ''Sentoris-Model-Changed'' ''true'' w else w)"

section \<open>Event streams\<close>

text \<open>An event is the JSON of a value after \<^verbatim>\<open>data:\<close>; the stream ends with a fixed one.\<close>

definition done_event :: body where
  "done_event = BText (''data: [DONE]'' @ [byte 10, byte 10])"

definition event_headers :: "Writer \<Rightarrow> Writer" where
  "event_headers w = set_header ''Connection'' ''keep-alive'' (set_header ''Cache-Control'' ''no-cache''
     (set_header ''Content-Type'' ''text/event-stream'' w))"

definition WriteSSEError :: "string \<Rightarrow> string \<Rightarrow> string \<Rightarrow> Writer \<Rightarrow> string option \<times> Writer" where
  "WriteSSEError code message traceID w =
     (let w = event_headers w in
      if \<not> wr_Flusher w then (Some ''streaming not supported'', w)
      else (None, write_body done_event (write_body (BEvent (AMap [(''error'',
              AMap [(''code'', AString code), (''message'', AString message), (''trace_id'', AString traceID)])])) w)))"

definition truncateErrorMessage :: "string \<Rightarrow> int \<Rightarrow> string" where
  "truncateErrorMessage message maxLen =
     (if int (length message) \<le> maxLen then message else take (nat maxLen) message @ ''...'')"

definition handleSSEError :: "ErrorCode \<Rightarrow> string \<Rightarrow> string \<Rightarrow> Writer \<Rightarrow> Writer" where
  "handleSSEError code message traceID w =
     (let w = set_header ''X-Sentoris-Trace-ID'' traceID (event_headers w) in
      if \<not> wr_Flusher w then handleError ''Streaming not supported'' 500 ErrInternalError w
      else write_body done_event (write_body (BEvent (AMap
        [(''error'', AMap [(''code'', AString code), (''message'', AString (truncateErrorMessage message 1000))]),
         (''sentoris'', AMap [(''trace_id'', AString traceID), (''version'', AString ''1.0.0'')])])) w))"

definition handleStreamError :: "ErrorCode \<Rightarrow> string \<Rightarrow> string \<Rightarrow> Writer \<Rightarrow> Writer" where
  "handleStreamError code message traceID w = handleSSEError code message traceID w"

section \<open>What reaches the client\<close>

lemma sent_simps [simp]:
  "wr_Sent (set_header k v w) = wr_Sent w"
  "wr_Body (set_header k v w) = wr_Body w"
  "wr_Flusher (set_header k v w) = wr_Flusher w"
  "wr_Body (WriteHeader st w) = wr_Body w"
  "wr_Sent w \<noteq> None \<Longrightarrow> wr_Sent (WriteHeader st w) = wr_Sent w"
  "wr_Sent w = None \<Longrightarrow> wr_Sent (WriteHeader st w) = Some (st, wr_Header w)"
  "wr_Body (write_body b w) = wr_Body w @ [b]"
  "wr_Sent (write_body b w) = wr_Sent (WriteHeader 200 w)"
  by (simp_all add: set_header_def WriteHeader_def write_body_def Let_def)

text \<open>
  Once a status was sent an error adds its body only; before that it decides the status by its code, not by
  the status code of the call.
\<close>

lemma status_handleSentorisError:
  "status_of (handleSentorisError e w) = (if wr_Sent w = None then HTTPStatusCode e else status_of w)"
  by (auto simp: handleSentorisError_def status_of_def WriteHeader_def write_body_def Let_def split: option.splits)

lemma status_handleError:
  "status_of (handleError msg st code w) =
     (if wr_Sent w = None then HTTPStatusCode (NewSentorisError code msg) else status_of w)"
  by (simp add: handleError_def status_handleSentorisError)

lemma error_statuses:
  "HTTPStatusCode (NewSentorisError ErrInvalidMethod msg) = 500"
  "HTTPStatusCode (NewSentorisError ErrInvalidInput msg) = 500"
  "HTTPStatusCode (NewSentorisError ErrProviderNotFound msg) = 500"
  "HTTPStatusCode (NewSentorisError ErrBaselineNotFound msg) = 404"
  "HTTPStatusCode (NewSentorisError ErrBudgetExceeded msg) = 429"
  "HTTPStatusCode (NewSentorisError ErrInternalError msg) = 500"
  "HTTPStatusCode (WrapError g ErrInternalError msg) = 500"
  by (simp_all add: HTTPStatusCode_def NewSentorisError_def WrapError_def Let_def split: option.split)

end
