(* ===== verification/Chat.thy ===== *)
theory Chat
  imports Response Hooks StreamBudget TraceStore Signing
begin

text \<open>
  The chat completion of \<^verbatim>\<open>internal/transport/http/handler.go\<close>: the upstream client of the
  handler, \<^verbatim>\<open>handleChatCompletions\<close> with its streaming response, and the verification of a
  stored trace. It composes the headers, the evaluator, the router, the budget store, the trace store, the
  hooks, the privacy service and the signer. The network with JSON, the clock, the two random identifiers and
  the orders of ranging over maps are arguments.
\<close>

section \<open>The upstream client of the handler\<close>

text \<open>What \<^verbatim>\<open>json.Decode\<close> finds in an answer and in a chunk of a stream.\<close>

record LLMResp =
  lm_Model :: string
  lm_Choices :: "(string \<times> string) list"
  lm_TotalTokens :: int

record StreamChunk =
  sc_Model :: string
  sc_Deltas :: "string list"

text \<open>
  An HTTP answer: its status, the bytes of the body that arrive, and the error that ends them early.
\<close>

record NetReply =
  nr_Status :: int
  nr_Body :: string
  nr_Error :: "string option"

record Net =
  nt_marshal :: "any \<Rightarrow> string result"
  nt_newRequest :: "string \<Rightarrow> string option"
  nt_do :: "string \<Rightarrow> header_list \<Rightarrow> string \<Rightarrow> NetReply result"
  nt_decode :: "string \<Rightarrow> string option \<Rightarrow> LLMResp result"
  nt_chunk :: "string \<Rightarrow> StreamChunk option"

definition prompt_of :: "Message list \<Rightarrow> any" where
  "prompt_of ms = AMessages (map (\<lambda>m. (msg_Role m, msg_Content m)) ms)"

definition openai_request :: "ChatRequest \<Rightarrow> amap" where
  "openai_request req =
     (let m = [(''model'', AString (cr_Model req)), (''messages'', prompt_of (cr_Messages req)),
               (''stream'', ABool (cr_Stream req))];
          copy = (\<lambda>k m. case Option.bind (cr_Params req) (\<lambda>p. amap_get p k) of
                    Some v \<Rightarrow> amap_set m k v | None \<Rightarrow> m);
          m = copy ''temperature'' (copy ''max_tokens'' m)
      in case cr_Seed req of Some n \<Rightarrow> amap_set m ''seed'' (AInt64 n) | None \<Rightarrow> m)"

definition token_cost :: "int \<Rightarrow> f64" where
  "token_cost n = fmul (f_of_int n) (lit (1/100000))"

text \<open>The lines of a streamed answer: the model seen last, the content and the number of chunks.\<close>

fun stream_lines :: "(string \<Rightarrow> StreamChunk option) \<Rightarrow> string list \<Rightarrow> string \<times> string \<times> int \<Rightarrow> string \<times> string \<times> int" where
  "stream_lines chunk [] acc = acc"
| "stream_lines chunk (line # ls) (model, content, n) =
     (if \<not> HasPrefix line ''data: '' then stream_lines chunk ls (model, content, n)
      else let payload = TrimPrefix line ''data: '' in
        if payload = ''[DONE]'' then (model, content, n)
        else (case chunk payload of
            None \<Rightarrow> stream_lines chunk ls (model, content, n)
          | Some c \<Rightarrow>
              let model' = (if sc_Model c \<noteq> [] then sc_Model c else model) in
              (case sc_Deltas c of
                 d # _ \<Rightarrow> stream_lines chunk ls (model', content @ d, n + 1)
               | [] \<Rightarrow> stream_lines chunk ls (model', content, n))))"

definition parseStreamResponse :: "Net \<Rightarrow> NetReply \<Rightarrow> ChatResponse" where
  "parseStreamResponse net resp =
     (case stream_lines (nt_chunk net) (fst (scan_lines (nr_Body resp))) ([], [], 0) of (model, content, n) \<Rightarrow>
        \<lparr>rs_Model = model, rs_Content = content, rs_FinishReason = ''stop'', rs_TokensUsed = n * 2,
         rs_CostUSD = token_cost (n * 2)\<rparr>)"

definition parse_answer :: "LLMResp \<Rightarrow> ChatResponse" where
  "parse_answer r =
     (let (content, finishReason) = (case lm_Choices r of c # _ \<Rightarrow> c | [] \<Rightarrow> ([], [])) in
      \<lparr>rs_Model = lm_Model r, rs_Content = content, rs_FinishReason = finishReason,
       rs_TokensUsed = lm_TotalTokens r, rs_CostUSD = token_cost (lm_TotalTokens r)\<rparr>)"

definition uc_Chat :: "Net \<Rightarrow> string \<Rightarrow> ChatRequest \<Rightarrow> ChatResponse result" where
  "uc_Chat net baseURL req =
     (case nt_marshal net (AMap (openai_request req)) of
        Inl e \<Rightarrow> Inl e
      | Inr reqBytes \<Rightarrow>
          let url = baseURL @ ''/chat/completions'' in
          (case nt_newRequest net url of
             Some e \<Rightarrow> Inl e
           | None \<Rightarrow>
               (case nt_do net url [(''Content-Type'', ''application/json''), (''Authorization'', ''Bearer mock-key'')]
                   reqBytes of
                  Inl e \<Rightarrow> Inl e
                | Inr resp \<Rightarrow>
                    if cr_Stream req then Inr (parseStreamResponse net resp)
                    else map_ok parse_answer (nt_decode net (nr_Body resp) (nr_Error resp)))))"

section \<open>What the handler works on\<close>

record 't TraceOps =
  to_Save :: "Trace \<Rightarrow> 't \<Rightarrow> string option \<times> 't"
  to_Update :: "Trace \<Rightarrow> 't \<Rightarrow> string option \<times> 't"
  to_Get :: "string \<Rightarrow> 't \<Rightarrow> Trace result"

text \<open>The dependencies of a handler that do not change, and the state it changes.\<close>

record ('t, 'b, 'w) Deps =
  dp_traces :: "'t TraceOps"
  dp_budget :: "'b BudgetOps"
  dp_chain :: "'w HookChain option"
  dp_signer :: bool
  dp_net :: Net
  dp_toJSON :: "any \<Rightarrow> string option"
  dp_fromJSON :: "string \<Rightarrow> any option"
  dp_patterns :: "string list"
  dp_providers :: "string list"
  dp_clock :: "nat \<Rightarrow> gotime"

record ('t, 'b, 'w, 'p) Server =
  sv_traces :: 't
  sv_budget :: "'b option"
  sv_hooks :: 'w
  sv_router :: "'p ModelRouter"

text \<open>A request in progress: its trace, the recorder, the response and the server.\<close>

record ('t, 'b, 'w, 'p) Conv =
  ct_trace :: Trace
  ct_rec :: Recorder
  ct_writer :: Writer
  ct_server :: "('t, 'b, 'w, 'p) Server"

definition record_step :: "gotime \<Rightarrow> ExecutionState \<Rightarrow> ExecutionState \<Rightarrow> ('t, 'b, 'w, 'p) Conv \<Rightarrow> ('t, 'b, 'w, 'p) Conv" where
  "record_step now from to c = c\<lparr>ct_rec := RecordTransition now from to (ct_rec c)\<rparr>"

definition set_state :: "ExecutionState \<Rightarrow> ('t, 'b, 'w, 'p) Conv \<Rightarrow> ('t, 'b, 'w, 'p) Conv" where
  "set_state s c = c\<lparr>ct_trace := (ct_trace c)\<lparr>tr_ExecutionState := s\<rparr>\<rparr>"

definition store_trace :: "('t, 'b, 'w) Deps \<Rightarrow> ('t, 'b, 'w, 'p) Conv \<Rightarrow> ('t, 'b, 'w, 'p) Conv" where
  "store_trace d c = c\<lparr>ct_server := (ct_server c)
     \<lparr>sv_traces := snd (to_Update (dp_traces d) (ct_trace c) (sv_traces (ct_server c)))\<rparr>\<rparr>"

text \<open>A stage of the hooks; its error is only logged.\<close>

definition run_hooks :: "('w HookChain \<Rightarrow> 'w stage) \<Rightarrow> ('t, 'b, 'w) Deps \<Rightarrow> ('t, 'b, 'w, 'p) Conv \<Rightarrow> ('t, 'b, 'w, 'p) Conv" where
  "run_hooks stage d c = (case dp_chain d of
     None \<Rightarrow> c
   | Some chain \<Rightarrow>
       (case stage chain (ct_trace c) (sv_hooks (ct_server c)) of
          (_, t, w) \<Rightarrow> c\<lparr>ct_trace := t, ct_server := (ct_server c)\<lparr>sv_hooks := w\<rparr>\<rparr>))"

definition apply_recorder :: "('t, 'b, 'w, 'p) Conv \<Rightarrow> ('t, 'b, 'w, 'p) Conv" where
  "apply_recorder c = c\<lparr>ct_trace := (ct_trace c)
     \<lparr>tr_Observations := ApplyToObservations (ct_rec c) (tr_Observations (ct_trace c))\<rparr>\<rparr>"

definition set_error :: "string \<Rightarrow> string \<Rightarrow> ('t, 'b, 'w, 'p) Conv \<Rightarrow> ('t, 'b, 'w, 'p) Conv" where
  "set_error code message c = c\<lparr>ct_trace := (ct_trace c)\<lparr>tr_Observations := (tr_Observations (ct_trace c))
     \<lparr>obs_Error := Some \<lparr>ei_Code = code, ei_Message = message, ei_Details = None\<rparr>\<rparr>\<rparr>\<rparr>"

definition respond :: "(Writer \<Rightarrow> Writer) \<Rightarrow> ('t, 'b, 'w, 'p) Conv \<Rightarrow> ('t, 'b, 'w, 'p) Conv" where
  "respond f c = c\<lparr>ct_writer := f (ct_writer c)\<rparr>"

section \<open>The stages of a completion\<close>

definition new_trace :: "gotime \<Rightarrow> string \<Rightarrow> string \<Rightarrow> string \<Rightarrow> ChatRequest \<Rightarrow> Trace" where
  "new_trace now traceID sessionID model req =
     \<lparr>tr_TraceID = traceID, tr_ParentID = None, tr_SessionID = Some sessionID, tr_ExecutionState = StateInit,
      tr_Model = model,
      tr_Input = \<lparr>in_Prompt = prompt_of (cr_Messages req), in_Params = cr_Params req, in_Metadata = Some [], in_Seed = None\<rparr>,
      tr_Output = zero_Output, tr_Observations = zero_Observations, tr_Proofs = zero_Proofs,
      tr_ConstraintsApplied = zero_ConstraintsApplied, tr_CreatedAt = now, tr_TTLExpireAt = None, tr_Extensions = None\<rparr>"

definition chat_start ::
    "('t, 'b, 'w) Deps \<Rightarrow> string \<Rightarrow> string \<Rightarrow> string \<Rightarrow> ChatRequest \<Rightarrow> Writer \<Rightarrow> ('t, 'b, 'w, 'p) Server \<Rightarrow> ('t, 'b, 'w, 'p) Conv" where
  "chat_start d traceID sessionID model req w srv =
     (let now = dp_clock d;
          t = new_trace (now 1) traceID sessionID model req;
          c = \<lparr>ct_trace = t, ct_rec = RecordTransition (now 0) [] StateInit NewStateTransitionRecorder,
               ct_writer = w, ct_server = srv\<lparr>sv_traces := snd (to_Save (dp_traces d) t (sv_traces srv))\<rparr>\<rparr>;
          c = run_hooks hc_PreExecute d c;
          c = record_step (now 2) StateInit StateConstraintEval c
      in store_trace d (set_state StateConstraintEval c))"

definition policy_of :: "EvaluationResult \<Rightarrow> PolicyEvaluation" where
  "policy_of r = \<lparr>pe_Decision = er_Decision r, pe_ChecksPassed = er_ChecksPassed r, pe_NegotiatedCapabilities = []\<rparr>"

definition chat_block :: "('t, 'b, 'w) Deps \<Rightarrow> EvaluationResult \<Rightarrow> ('t, 'b, 'w, 'p) Conv \<Rightarrow> ('t, 'b, 'w, 'p) Conv" where
  "chat_block d r c =
     (let c = record_step (dp_clock d 3) StateConstraintEval StateFailed c;
          c = set_state StateFailed c;
          c = c\<lparr>ct_trace := (ct_trace c)\<lparr>tr_Observations := (tr_Observations (ct_trace c))\<lparr>obs_Error := er_Error r\<rparr>,
                tr_ConstraintsApplied := (er_ConstraintsUsed r)\<lparr>ca_PolicyEvaluation := Some (policy_of r)\<rparr>\<rparr>\<rparr>;
          c = store_trace d (apply_recorder c);
          errCode = (case er_Error r of
             Some e \<Rightarrow> if ei_Code e = ErrInvalidConstraint then ErrInvalidConstraint else ErrBudgetExceeded
           | None \<Rightarrow> ErrBudgetExceeded)
      in respond (handleError (ei_Message (the (er_Error r))) 429 errCode) c)"

definition chat_admit :: "('t, 'b, 'w) Deps \<Rightarrow> EvaluationResult \<Rightarrow> ('t, 'b, 'w, 'p) Conv \<Rightarrow> ('t, 'b, 'w, 'p) Conv" where
  "chat_admit d r c =
     (let t = ct_trace c;
          t = (if er_Decision r = PolicyDecisionDegrade \<and> er_DegradeAction r \<noteq> None
               then t\<lparr>tr_Observations := (tr_Observations t)\<lparr>obs_DegradeAction := er_DegradeAction r\<rparr>,
                      tr_ConstraintsApplied := (er_ConstraintsUsed r)\<lparr>ca_DegradeAction := er_DegradeAction r,
                        ca_PolicyEvaluation := Some (policy_of r)\<rparr>\<rparr>
               else t\<lparr>tr_ConstraintsApplied := (er_ConstraintsUsed r)\<lparr>ca_PolicyEvaluation := Some (policy_of r)\<rparr>\<rparr>);
          c = record_step (dp_clock d 3) StateConstraintEval StateExecuting (c\<lparr>ct_trace := t\<rparr>)
      in store_trace d (set_state StateExecuting c))"

definition find_provider :: "string list \<Rightarrow> string \<Rightarrow> 'p ModelRouter \<Rightarrow> RouterProvider option" where
  "find_provider ks model r = (case serving ks model r of
     Some p \<Rightarrow> mo_providers r p
   | None \<Rightarrow> if mo_defaultProvider r \<noteq> [] then GetProvider (mo_defaultProvider r) r else None)"

text \<open>A failure from the state the trace is in.\<close>

definition fail_trace :: "('t, 'b, 'w) Deps \<Rightarrow> string \<Rightarrow> string \<Rightarrow> ('t, 'b, 'w, 'p) Conv \<Rightarrow> ('t, 'b, 'w, 'p) Conv" where
  "fail_trace d code message c =
     (let c = record_step (dp_clock d 4) (tr_ExecutionState (ct_trace c)) StateFailed c;
          c = set_error code message (set_state StateFailed c)
      in apply_recorder c)"

definition chat_no_provider :: "('t, 'b, 'w) Deps \<Rightarrow> ('t, 'b, 'w, 'p) Conv \<Rightarrow> ('t, 'b, 'w, 'p) Conv" where
  "chat_no_provider d c =
     respond (handleError ''Model not found'' 404 ErrProviderNotFound)
       (store_trace d (fail_trace d ''PROVIDER_NOT_FOUND'' ''Model not found'' c))"

definition reserve_amount :: "RouterProvider \<Rightarrow> f64" where
  "reserve_amount p =
     (let inputPrice = (if feq (rp_InputPer1K p) fzero then lit (1/1000) else rp_InputPer1K p);
          outputPrice = (if feq (rp_OutputPer1K p) fzero then lit (2/1000) else rp_OutputPer1K p)
      in fadd (fdiv (fmul (f_of_int 1000) inputPrice) (lit 1000)) (fdiv (fmul (f_of_int 4000) outputPrice) (lit 1000)))"

definition with_budget :: "('b \<Rightarrow> 'b) \<Rightarrow> ('t, 'b, 'w, 'p) Conv \<Rightarrow> ('t, 'b, 'w, 'p) Conv" where
  "with_budget f c = c\<lparr>ct_server := (ct_server c)\<lparr>sv_budget := map_option f (sv_budget (ct_server c))\<rparr>\<rparr>"

text \<open>Whether the budget refused the request, and whether the handler counts it as reserved.\<close>

datatype reservation = Refused | Reserved | Unreserved

definition chat_reserve ::
    "('t, 'b, 'w) Deps \<Rightarrow> f64 \<Rightarrow> string \<Rightarrow> f64 \<Rightarrow> ('t, 'b, 'w, 'p) Conv \<Rightarrow> reservation \<times> ('t, 'b, 'w, 'p) Conv" where
  "chat_reserve d limit sessionID amount c =
     (case sv_budget (ct_server c) of
        None \<Rightarrow> (Unreserved, c)
      | Some b \<Rightarrow>
          if \<not> flt fzero limit \<or> sessionID = [] then (Unreserved, c)
          else (case bo_Reserve (dp_budget d) sessionID amount (snd (bo_SetBudget (dp_budget d) sessionID limit b)) of
             (ok, b') \<Rightarrow> (if ok = Inr False then Refused else Reserved, with_budget (\<lambda>_. b') c)))"

definition chat_refused :: "('t, 'b, 'w) Deps \<Rightarrow> ('t, 'b, 'w, 'p) Conv \<Rightarrow> ('t, 'b, 'w, 'p) Conv" where
  "chat_refused d c =
     respond (handleError ''Budget limit exceeded'' 429 ErrBudgetExceeded)
       (store_trace d (fail_trace d ''BUDGET_EXCEEDED'' ''Budget limit exceeded'' c))"

definition chat_failed ::
    "('t, 'b, 'w) Deps \<Rightarrow> reservation \<Rightarrow> string \<Rightarrow> f64 \<Rightarrow> string \<Rightarrow> ('t, 'b, 'w, 'p) Conv \<Rightarrow> ('t, 'b, 'w, 'p) Conv" where
  "chat_failed d res sessionID amount err c =
     (let c = (if res = Reserved then with_budget (\<lambda>b. snd (bo_Rollback (dp_budget d) sessionID amount b)) c else c);
          c = store_trace d (run_hooks hc_OnFailure d (fail_trace d ''UPSTREAM_ERROR'' err c))
      in respond (handleErrorWithMessage ''Upstream request failed'' 502 (EPlain err) \<circ>
           setErrorResponseHeaders (tr_TraceID (ct_trace c)) ErrUpstreamError) c)"

section \<open>The answer\<close>

definition handleStreamingResponse :: "Trace \<Rightarrow> ChatResponse \<Rightarrow> Writer \<Rightarrow> Writer" where
  "handleStreamingResponse t resp w =
     (let w = set_header ''X-Sentoris-Trace-ID'' (tr_TraceID t)
            (set_header ''Transfer-Encoding'' ''chunked'' (event_headers w)) in
      if \<not> wr_Flusher w then handleError ''Streaming not supported'' 500 ErrInternalError w
      else let event = (\<lambda>delta finish. BEvent (AMap
             [(''id'', AString (tr_TraceID t)), (''object'', AString ''chat.completion.chunk''),
              (''model'', AString (tr_Model t)),
              (''choices'', AMapArr [[(''index'', AInt 0), (''delta'', AMap delta), (''finish_reason'', finish)]])]))
        in write_body done_event (write_body (event [] (AString (rs_FinishReason resp)))
             (write_body (event [(''content'', AString (rs_Content resp))] ANil) w)))"

definition half :: "int \<Rightarrow> int" where
  "half n = (if 0 \<le> n then n div 2 else - ((- n) div 2))"

definition openai_response :: "gotime \<Rightarrow> string \<Rightarrow> ChatResponse \<Rightarrow> any" where
  "openai_response now traceID resp = AMap
     [(''id'', AString (''chatcmpl-'' @ take 8 traceID)), (''object'', AString ''chat.completion''),
      (''created'', AInt64 (t_nanos now div 1000000000)), (''model'', AString (rs_Model resp)),
      (''choices'', AMapArr [[(''index'', AInt 0),
         (''message'', AMap [(''role'', AString ''assistant''), (''content'', AString (rs_Content resp))]),
         (''finish_reason'', AString (rs_FinishReason resp))]]),
      (''usage'', AMap [(''prompt_tokens'', AInt (half (rs_TokensUsed resp))),
         (''completion_tokens'', AInt (half (rs_TokensUsed resp))), (''total_tokens'', AInt (rs_TokensUsed resp))])]"

definition mask_response :: "('t, 'b, 'w) Deps \<Rightarrow> PrivacyLevel \<Rightarrow> ChatResponse \<Rightarrow> ChatResponse" where
  "mask_response d level resp =
     (if level \<noteq> PrivacyRaw then
        (case mr_MaskedContent (ApplyMasking (dp_toJSON d) (dp_fromJSON d) (dp_patterns d) level (AString (rs_Content resp)) []) of
           AString s \<Rightarrow> resp\<lparr>rs_Content := s\<rparr> | _ \<Rightarrow> resp)
      else resp)"

definition budget_left :: "('t, 'b, 'w) Deps \<Rightarrow> string \<Rightarrow> f64 \<Rightarrow> f64 \<Rightarrow> 'b option \<Rightarrow> f64" where
  "budget_left d sessionID limit cost budget =
     (case budget of
        Some b \<Rightarrow> if sessionID \<noteq> [] then (case bo_GetRemaining (dp_budget d) sessionID b of
            Inr x \<Rightarrow> x | Inl _ \<Rightarrow> fsub limit cost) else fsub limit cost
      | None \<Rightarrow> fsub limit cost)"

definition chat_finalize ::
    "('t, 'b, 'w) Deps \<Rightarrow> SentorisHeaders \<Rightarrow> ChatResponse \<Rightarrow> ('t, 'b, 'w, 'p) Conv \<Rightarrow> ('t, 'b, 'w, 'p) Conv" where
  "chat_finalize d h resp c =
     (let c = record_step (dp_clock d 4) (tr_ExecutionState (ct_trace c)) StateValidation c;
          c = set_state StateFinalized (record_step (dp_clock d 5) StateValidation StateFinalized c);
          t = ct_trace c;
          t = t\<lparr>tr_Output := \<lparr>out_Response = Some (rs_Content resp), out_Truncated = False,
                  out_FinishReason = rs_FinishReason resp\<rparr>,
                tr_Observations := zero_Observations\<lparr>obs_TokensCount := rs_TokensUsed resp,
                  obs_CostEstimatedUSD := rs_CostUSD resp,
                  obs_LatencyMs := (t_nanos (dp_clock d 6) - t_nanos (tr_CreatedAt t)) div 1000000\<rparr>\<rparr>;
          c = apply_recorder (c\<lparr>ct_trace := t\<rparr>);
          ca = tr_ConstraintsApplied (ct_trace c);
          ca = (if flt fzero (sh_BudgetLimit h)
                then ca\<lparr>ca_BudgetLimitUSD := sh_BudgetLimit h, ca_BudgetActualUSD := rs_CostUSD resp\<rparr> else ca)
      in c\<lparr>ct_trace := (ct_trace c)\<lparr>tr_ConstraintsApplied := ca\<lparr>ca_PrivacyLevel := sh_PrivacyLevel h\<rparr>\<rparr>\<rparr>)"

definition sign_trace :: "Trace \<Rightarrow> Trace" where
  "sign_trace t = (case Sign (Some t) of Inr sig \<Rightarrow> set_signature sig t | Inl _ \<Rightarrow> t)"

definition chat_headers ::
    "('t, 'b, 'w) Deps \<Rightarrow> SentorisHeaders \<Rightarrow> string \<Rightarrow> ChatResponse \<Rightarrow> ('t, 'b, 'w, 'p) Conv \<Rightarrow> ('t, 'b, 'w, 'p) Conv" where
  "chat_headers d h sessionID resp c =
     (let left = (if flt fzero (sh_BudgetLimit h)
            then Some (budget_left d sessionID (sh_BudgetLimit h) (rs_CostUSD resp) (sv_budget (ct_server c))) else None);
          caps = GetNegotiatedCapabilities h [''streaming'', ''tracing'', ''audit'']
      in respond (setResponseHeaders (tr_TraceID (ct_trace c)) (rs_CostUSD resp) left caps) c)"

definition chat_json :: "('t, 'b, 'w) Deps \<Rightarrow> ChatResponse \<Rightarrow> ('t, 'b, 'w, 'p) Conv \<Rightarrow> ('t, 'b, 'w, 'p) Conv" where
  "chat_json d resp c =
     respond (write_body (BJson (openai_response (dp_clock d 7) (tr_TraceID (ct_trace c)) resp)) \<circ>
       set_header ''Content-Type'' ''application/json'') c"

definition chat_sign :: "('t, 'b, 'w) Deps \<Rightarrow> ('t, 'b, 'w, 'p) Conv \<Rightarrow> ('t, 'b, 'w, 'p) Conv" where
  "chat_sign d c = (if dp_signer d then c\<lparr>ct_trace := sign_trace (ct_trace c)\<rparr> else c)"

definition chat_answer ::
    "('t, 'b, 'w) Deps \<Rightarrow> SentorisHeaders \<Rightarrow> ChatRequest \<Rightarrow> string \<Rightarrow> ChatResponse \<Rightarrow> ('t, 'b, 'w, 'p) Conv \<Rightarrow> ('t, 'b, 'w, 'p) Conv" where
  "chat_answer d h req sessionID resp c =
     (let c = chat_headers d h sessionID resp c in
      if cr_Stream req then respond (handleStreamingResponse (ct_trace c) resp) c
      else store_trace d (run_hooks hc_PostStream d (chat_sign d (chat_json d resp c))))"

section \<open>The handler\<close>

definition chat_execute ::
    "('t, 'b, 'w) Deps \<Rightarrow> SentorisHeaders \<Rightarrow> ChatRequest \<Rightarrow> string \<Rightarrow> string \<Rightarrow> ('t, 'b, 'w, 'p) Conv \<Rightarrow> ('t, 'b, 'w, 'p) Conv" where
  "chat_execute d h req model sessionID c =
     (case find_provider (dp_providers d) model (sv_router (ct_server c)) of
        None \<Rightarrow> chat_no_provider d c
      | Some p \<Rightarrow>
          let amount = reserve_amount p in
          (case chat_reserve d (sh_BudgetLimit h) sessionID amount c of
             (Refused, c) \<Rightarrow> chat_refused d c
           | (res, c) \<Rightarrow>
               (case uc_Chat (dp_net d) (rp_BaseURL p) req of
                  Inl err \<Rightarrow> chat_failed d res sessionID amount err c
                | Inr resp \<Rightarrow>
                    let c = (if res = Reserved
                             then with_budget (\<lambda>b. snd (bo_Commit (dp_budget d) sessionID (rs_CostUSD resp) b)) c else c);
                        resp = mask_response d (sh_PrivacyLevel h) resp
                    in chat_answer d h req sessionID resp (chat_finalize d h resp c))))"

text \<open>A request that was decoded: the seed of the header replaces its own, an override replaces the model.\<close>

definition seeded :: "SentorisHeaders \<Rightarrow> ChatRequest \<Rightarrow> ChatRequest" where
  "seeded h req = (case sh_Seed h of Some n \<Rightarrow> req\<lparr>cr_Seed := Some n\<rparr> | None \<Rightarrow> req)"

definition model_for :: "SentorisHeaders \<Rightarrow> ChatRequest \<Rightarrow> string" where
  "model_for h req = (if sh_OverrideModel h \<noteq> [] then sh_OverrideModel h else cr_Model req)"

definition chat_conv ::
    "('t, 'b, 'w) Deps \<Rightarrow> string \<Rightarrow> string \<Rightarrow> SentorisHeaders \<Rightarrow> ChatRequest \<Rightarrow> Writer \<Rightarrow>
       ('t, 'b, 'w, 'p) Server \<Rightarrow> ('t, 'b, 'w, 'p) Conv" where
  "chat_conv d traceID sessionID h req w srv =
     (let req = seeded h req; model = model_for h req;
          c = chat_start d traceID sessionID model req w srv;
          r = Evaluate (Some (ToConstraints h)) fzero
      in if er_Decision r = PolicyDecisionBlock then chat_block d r c
         else chat_execute d h req model sessionID (chat_admit d r c))"

definition version_list :: string where
  "version_list = ''['' @ Join supportedVersions '' '' @ '']''"

definition handleChatCompletions ::
    "('t, 'b, 'w) Deps \<Rightarrow> string \<Rightarrow> string \<Rightarrow> string \<Rightarrow> ReqHeader \<Rightarrow> ChatRequest result \<Rightarrow> Writer \<Rightarrow>
       ('t, 'b, 'w, 'p) Server \<Rightarrow> Trace option \<times> Writer \<times> ('t, 'b, 'w, 'p) Server" where
  "handleChatCompletions d traceID sessionID meth hs body w srv =
     (if meth \<noteq> ''POST'' then (None, handleError ''Method not allowed'' 405 ErrInvalidMethod w, srv)
      else let h = ParseSentorisHeaders hs in
        if \<not> IsVersionSupported h then
          (None, handleError (''Protocol version not supported: '' @ sh_Version h @ ''. Supported versions: '' @ version_list)
             400 ErrInvalidInput w, srv)
        else (case body of
            Inl e \<Rightarrow> (None, handleErrorWithMessage ''Invalid request body'' 400 (EPlain e) w, srv)
          | Inr req \<Rightarrow>
              let c = chat_conv d traceID sessionID h req w srv
              in (Some (ct_trace c), ct_writer c, ct_server c)))"

section \<open>Verifying a stored trace\<close>

definition verify_stored :: "('t, 'b, 'w) Deps \<Rightarrow> string \<Rightarrow> Writer \<Rightarrow> ('t, 'b, 'w, 'p) Server \<Rightarrow> Writer" where
  "verify_stored d traceID w srv =
     (case to_Get (dp_traces d) traceID (sv_traces srv) of
        Inl _ \<Rightarrow> handleError ''Trace not found'' 404 ErrBaselineNotFound w
      | Inr t \<Rightarrow>
          if pf_AuditSignature (tr_Proofs t) = []
          then handleError ''No audit signature found'' 400 ErrInvalidInput w
          else (case Verify (Some t) of
              Inl e \<Rightarrow> handleErrorWithMessage ''Verification failed'' 500 (EPlain e) w
            | Inr valid \<Rightarrow>
                write_body (BJson (AMap [(''trace_id'', AString traceID), (''valid'', ABool valid),
                    (''verified_at'', AString (RFC3339Nano (t_UTC (dp_clock d 0))))]))
                  (WriteHeader 200 (set_header ''Content-Type'' ''application/json'' w))))"

definition handleVerifyTrace ::
    "('t, 'b, 'w) Deps \<Rightarrow> string \<Rightarrow> (string \<Rightarrow> string) \<Rightarrow> Writer \<Rightarrow> ('t, 'b, 'w, 'p) Server \<Rightarrow> Writer" where
  "handleVerifyTrace d meth query w srv =
     (if meth \<noteq> ''POST'' \<and> meth \<noteq> ''GET'' then handleError ''Method not allowed'' 405 ErrInvalidMethod w
      else if query ''trace_id'' = [] then handleError ''trace_id is required'' 400 ErrInvalidInput w
      else verify_stored d (query ''trace_id'') w srv)"

definition handleVerifyTraceByID ::
    "('t, 'b, 'w) Deps \<Rightarrow> string \<Rightarrow> string \<Rightarrow> Writer \<Rightarrow> ('t, 'b, 'w, 'p) Server \<Rightarrow> Writer" where
  "handleVerifyTraceByID d meth traceID w srv =
     (if meth \<noteq> ''GET'' then handleError ''Method not allowed'' 405 ErrInvalidMethod w
      else verify_stored d traceID w srv)"

section \<open>What the stages leave alone\<close>

text \<open>A hook that changes nothing of a trace but its metadata, as the three hooks of the code.\<close>

definition meta_only :: "Trace \<Rightarrow> Trace \<Rightarrow> bool" where
  "meta_only t t' \<longleftrightarrow> (\<exists>m. t' = t\<lparr>tr_Input := (tr_Input t)\<lparr>in_Metadata := m\<rparr>\<rparr>)"

definition stage_ok :: "'w stage \<Rightarrow> bool" where
  "stage_ok st \<longleftrightarrow> (\<forall>t w. meta_only t (fst (snd (st t w))))"

definition hook_ok :: "'w Hook \<Rightarrow> bool" where
  "hook_ok k \<longleftrightarrow> stage_ok (hk_PreExecute k) \<and> stage_ok (hk_PreStream k) \<and> stage_ok (hk_PostStream k) \<and>
     stage_ok (hk_OnFailure k)"

definition chain_ok :: "('t, 'b, 'w) Deps \<Rightarrow> bool" where
  "chain_ok d \<longleftrightarrow> (case dp_chain d of None \<Rightarrow> True | Some chain \<Rightarrow> list_all hook_ok (hc_hooks chain))"

lemma meta_only_refl [simp]: "meta_only t t"
  unfolding meta_only_def by (rule exI [of _ "in_Metadata (tr_Input t)"]) simp

lemma meta_only_trans: "meta_only t t' \<Longrightarrow> meta_only t' t'' \<Longrightarrow> meta_only t t''"
  by (auto simp: meta_only_def)

lemma meta_only_set_metadata [simp]: "meta_only t (set_metadata kvs t)"
  by (auto simp: meta_only_def set_metadata_def Let_def)

lemma stage_ok_no_stage [simp]: "stage_ok no_stage"
  by (simp add: stage_ok_def no_stage_def)

lemma stages_of_the_code_ok:
  "stage_ok (pii_PreExecute other marshal)" "stage_ok (pii_PostStream addr)" "stage_ok (rl_PreExecute now)"
  by (auto simp: stage_ok_def pii_PreExecute_def pii_PostStream_def rl_PreExecute_def Let_def split: option.split)

lemma hooks_of_the_code_ok:
  "hook_ok NoopHook" "hook_ok (PIIDetectorHook other marshal addr)" "hook_ok (RateLimiter_Hook now)"
  by (simp_all add: hook_ok_def NoopHook_def PIIDetectorHook_def RateLimiter_Hook_def stages_of_the_code_ok)

lemma stage_okD: "stage_ok st \<Longrightarrow> st t w = (e, t', w') \<Longrightarrow> meta_only t t'"
  unfolding stage_ok_def by (metis fst_conv snd_conv)

lemma stage_ok_execute: "(\<And>k. k \<in> set hs \<Longrightarrow> stage_ok (fn k)) \<Longrightarrow> stage_ok (execute_from strategy fn hs)"
proof (induction hs)
  case (Cons k hs)
  have k: "stage_ok (fn k)" and hs: "stage_ok (execute_from strategy fn hs)" using Cons by simp_all
  show ?case
    unfolding stage_ok_def
  proof (intro allI)
    fix t w
    obtain e t' w' where p: "fn k t w = (e, t', w')" by (metis prod_cases3)
    have m: "meta_only t t'" using k p by (rule stage_okD)
    with hs have "meta_only t (fst (snd (execute_from strategy fn hs t' w')))"
      using meta_only_trans unfolding stage_ok_def by blast
    with m show "meta_only t (fst (snd (execute_from strategy fn (k # hs) t w)))"
      by (simp add: p split: option.split)
  qed
qed (simp add: stage_ok_def)

lemma stage_ok_fail: "(\<And>k. k \<in> set hs \<Longrightarrow> stage_ok (hk_OnFailure k)) \<Longrightarrow> stage_ok (fail_from hs)"
proof (induction hs)
  case (Cons k hs)
  have k: "stage_ok (hk_OnFailure k)" and hs: "stage_ok (fail_from hs)" using Cons by simp_all
  show ?case
    unfolding stage_ok_def
  proof (intro allI)
    fix t w
    obtain e t' w' where p: "hk_OnFailure k t w = (e, t', w')" by (metis prod_cases3)
    have "meta_only t t'" using k p by (rule stage_okD)
    with hs show "meta_only t (fst (snd (fail_from (k # hs) t w)))"
      using meta_only_trans unfolding stage_ok_def by (simp add: p)
  qed
qed (simp add: stage_ok_def)

lemma run_hooks_meta:
  assumes "chain_ok d" "stage \<in> {hc_PreExecute, hc_PostStream, hc_OnFailure}"
  obtains t w where "meta_only (ct_trace c) t"
    "run_hooks stage d c = c\<lparr>ct_trace := t, ct_server := (ct_server c)\<lparr>sv_hooks := w\<rparr>\<rparr>"
proof (cases "dp_chain d")
  case None
  then show ?thesis using that [of "ct_trace c" "sv_hooks (ct_server c)"] by (simp add: run_hooks_def)
next
  case (Some chain)
  then have ok: "list_all hook_ok (hc_hooks chain)" using assms(1) by (simp add: chain_ok_def)
  have "stage_ok (stage chain)"
    using assms(2) ok
    by (auto simp: hc_PreExecute_def hc_PostStream_def hc_OnFailure_def executeHooks_def hook_ok_def list_all_iff
        intro!: stage_ok_execute stage_ok_fail)
  moreover obtain e t w where p: "stage chain (ct_trace c) (sv_hooks (ct_server c)) = (e, t, w)"
    by (metis prod_cases3)
  ultimately have "meta_only (ct_trace c) t" by (rule stage_okD)
  with Some p that [of t w] show ?thesis by (simp add: run_hooks_def)
qed

lemma meta_only_simps:
  assumes "meta_only t t'"
  shows "tr_ExecutionState t' = tr_ExecutionState t" "tr_Observations t' = tr_Observations t"
    "tr_TraceID t' = tr_TraceID t" "tr_Proofs t' = tr_Proofs t" "in_Prompt (tr_Input t') = in_Prompt (tr_Input t)"
    "history t' = history t"
  using assms by (auto simp: meta_only_def history_def)

lemma run_hooks_frame [simp]:
  "ct_rec (run_hooks stage d c) = ct_rec c" "ct_writer (run_hooks stage d c) = ct_writer c"
  "sv_traces (ct_server (run_hooks stage d c)) = sv_traces (ct_server c)"
  "sv_budget (ct_server (run_hooks stage d c)) = sv_budget (ct_server c)"
  "sv_router (ct_server (run_hooks stage d c)) = sv_router (ct_server c)"
  by (simp_all add: run_hooks_def split: option.split prod.split)

lemma run_hooks_trace:
  assumes "chain_ok d" "stage \<in> {hc_PreExecute, hc_PostStream, hc_OnFailure}"
  shows "meta_only (ct_trace c) (ct_trace (run_hooks stage d c))"
  by (rule run_hooks_meta [OF assms, of c]) simp

lemmas run_hooks_trace_simps = run_hooks_trace [THEN meta_only_simps(1)] run_hooks_trace [THEN meta_only_simps(2)]
  run_hooks_trace [THEN meta_only_simps(3)] run_hooks_trace [THEN meta_only_simps(4)]
  run_hooks_trace [THEN meta_only_simps(5)] run_hooks_trace [THEN meta_only_simps(6)]

section \<open>The recorded transitions\<close>

definition conv_path :: "('t, 'b, 'w, 'p) Conv \<Rightarrow> (ExecutionState \<times> ExecutionState) list" where
  "conv_path c = map (\<lambda>s. (st_From s, st_To s)) (ct_rec c)"

text \<open>The elementary steps, by what they change.\<close>

lemmas conv_steps = record_step_def set_state_def store_trace_def apply_recorder_def set_error_def respond_def
  with_budget_def RecordTransition_def ApplyToObservations_def

lemma chat_start_path:
  "conv_path (chat_start d traceID sessionID model req w srv) = [([], StateInit), (StateInit, StateConstraintEval)]"
  "tr_ExecutionState (ct_trace (chat_start d traceID sessionID model req w srv)) = StateConstraintEval"
  by (simp_all add: chat_start_def Let_def conv_path_def conv_steps NewStateTransitionRecorder_def)

lemma chat_admit_path:
  "conv_path (chat_admit d r c) = conv_path c @ [(StateConstraintEval, StateExecuting)]"
  "tr_ExecutionState (ct_trace (chat_admit d r c)) = StateExecuting"
  by (simp_all add: chat_admit_def Let_def conv_steps conv_path_def)

lemma fail_trace_path:
  "history (ct_trace (fail_trace d code msg c)) = conv_path c @ [(tr_ExecutionState (ct_trace c), StateFailed)]"
  "tr_ExecutionState (ct_trace (fail_trace d code msg c)) = StateFailed"
  by (simp_all add: fail_trace_def Let_def conv_steps conv_path_def history_def)

lemma chat_failed_path:
  assumes "chain_ok d"
  shows "history (ct_trace (chat_failed d res sid amount err c)) =
      conv_path c @ [(tr_ExecutionState (ct_trace c), StateFailed)]"
    "tr_ExecutionState (ct_trace (chat_failed d res sid amount err c)) = StateFailed"
  using assms
  by (simp_all add: chat_failed_def Let_def store_trace_def respond_def run_hooks_trace_simps fail_trace_path
      with_budget_def conv_path_def)

lemma chat_finalize_path:
  "history (ct_trace (chat_finalize d h resp c)) =
     conv_path c @ [(tr_ExecutionState (ct_trace c), StateValidation), (StateValidation, StateFinalized)]"
  "tr_ExecutionState (ct_trace (chat_finalize d h resp c)) = StateFinalized"
  by (simp_all add: chat_finalize_def Let_def conv_steps conv_path_def history_def)

lemma sign_trace_simps:
  "history (sign_trace t) = history t" "tr_ExecutionState (sign_trace t) = tr_ExecutionState t"
  by (simp_all add: sign_trace_def set_signature_def history_def split: sum.split)

lemma chat_answer_path:
  assumes "chain_ok d"
  shows "history (ct_trace (chat_answer d h req sid resp c)) = history (ct_trace c)"
    "tr_ExecutionState (ct_trace (chat_answer d h req sid resp c)) = tr_ExecutionState (ct_trace c)"
  using assms
  by (simp_all add: chat_answer_def Let_def chat_headers_def chat_json_def chat_sign_def respond_def store_trace_def
      run_hooks_trace_simps sign_trace_simps)

lemma chat_reserve_frame:
  "chat_reserve d limit sid amount c = (res, c') \<Longrightarrow> conv_path c' = conv_path c \<and> ct_trace c' = ct_trace c"
  by (auto simp: chat_reserve_def with_budget_def conv_path_def split: option.splits if_splits prod.splits)

lemma with_budget_frame: "conv_path (with_budget g c) = conv_path c" "ct_trace (with_budget g c) = ct_trace c"
  by (simp_all add: with_budget_def conv_path_def)

lemma chat_execute_path:
  assumes "chain_ok d" "tr_ExecutionState (ct_trace c) = StateExecuting"
  shows "(history (ct_trace (chat_execute d h req model sid c)), tr_ExecutionState (ct_trace (chat_execute d h req model sid c)))
    \<in> {(conv_path c @ [(StateExecuting, StateFailed)], StateFailed),
       (conv_path c @ [(StateExecuting, StateValidation), (StateValidation, StateFinalized)], StateFinalized)}"
proof (cases "find_provider (dp_providers d) model (sv_router (ct_server c))")
  case None
  then show ?thesis
    using fail_trace_path [of d _ _ c] assms(2)
    by (simp add: chat_execute_def chat_no_provider_def respond_def store_trace_def)
next
  case (Some p)
  obtain res c' where r: "chat_reserve d (sh_BudgetLimit h) sid (reserve_amount p) c = (res, c')"
    by (metis surj_pair)
  have f: "conv_path c' = conv_path c" "ct_trace c' = ct_trace c" using chat_reserve_frame [OF r] by simp_all
  show ?thesis
    using Some r assms(2)
    by (cases res; cases "uc_Chat (dp_net d) (rp_BaseURL p) req")
      (simp_all add: chat_execute_def chat_refused_def Let_def respond_def store_trace_def f with_budget_frame
        chat_failed_path [OF assms(1)] chat_answer_path [OF assms(1)] chat_finalize_path fail_trace_path)
qed

text \<open>
  The flow of a request that is taken on: the evaluator never blocks it, since nothing was spent yet.
\<close>

lemma chat_conv_flow:
  "chat_conv d traceID sessionID (ParseSentorisHeaders hs) req w srv =
     (let h = ParseSentorisHeaders hs; req = seeded h req; model = model_for h req in
      chat_execute d h req model sessionID
        (chat_admit d (Evaluate (Some (ToConstraints h)) fzero) (chat_start d traceID sessionID model req w srv)))"
  using parsed_constraints_facts(2) [OF refl, of hs] by (simp add: chat_conv_def Let_def)

lemma chat_flow:
  assumes "handleChatCompletions d traceID sessionID meth hs body w srv = (Some t, w', srv')"
  obtains req h r c where "body = Inr req" "h = ParseSentorisHeaders hs"
    "c = chat_execute d h (seeded h req) (model_for h (seeded h req)) sessionID
       (chat_admit d r (chat_start d traceID sessionID (model_for h (seeded h req)) (seeded h req) w srv))"
    "t = ct_trace c" "w' = ct_writer c" "srv' = ct_server c"
proof -
  let ?h = "ParseSentorisHeaders hs"
  from assms obtain req where req: "body = Inr req" "t = ct_trace (chat_conv d traceID sessionID ?h req w srv)"
    "w' = ct_writer (chat_conv d traceID sessionID ?h req w srv)"
    "srv' = ct_server (chat_conv d traceID sessionID ?h req w srv)"
    unfolding handleChatCompletions_def Let_def by (auto split: if_splits sum.splits)
  show ?thesis
    by (rule that [OF req(1) refl refl]) (simp_all add: req(2-4) chat_conv_flow Let_def)
qed

text \<open>
  \<^bold>\<open>C2.\<close> The trace of every chat request the handler takes on, whatever is asked, whatever the
  provider answers and with any hooks that touch only metadata. The first entry of its history is the
  arrival in INIT; the rest is a path the state machine of the domain allows, although the handler never
  asks it; and the trace ends in one of the two final states, so the request is never left hanging.
\<close>

theorem chat_transitions_legal:
  assumes "chain_ok d" "handleChatCompletions d traceID sessionID meth hs body w srv = (Some t, w', srv')"
  shows "hd (history t) = ([], StateInit) \<and> possible (tr_ExecutionState t) (tl (history t)) \<and> IsFinalState t"
proof -
  obtain req h r c where flow: "body = Inr req" "h = ParseSentorisHeaders hs"
    "c = chat_execute d h (seeded h req) (model_for h (seeded h req)) sessionID
       (chat_admit d r (chat_start d traceID sessionID (model_for h (seeded h req)) (seeded h req) w srv))"
    "t = ct_trace c" "w' = ct_writer c" "srv' = ct_server c"
    by (rule chat_flow [OF assms(2)])
  define a where "a = chat_admit d r (chat_start d traceID sessionID (model_for h (seeded h req)) (seeded h req) w srv)"
  have a: "conv_path a = [([], StateInit), (StateInit, StateConstraintEval), (StateConstraintEval, StateExecuting)]"
    "tr_ExecutionState (ct_trace a) = StateExecuting"
    by (simp_all add: a_def chat_admit_path chat_start_path)
  from chat_execute_path [OF assms(1) a(2), of h "seeded h req" "model_for h (seeded h req)" sessionID] show ?thesis
    unfolding flow(3,4) a_def [symmetric] a(1) by (auto simp: possible_def main_path_def IsFinalState_def)
qed

text \<open>A server with one provider and the hook for personal data, and a provider that answers.\<close>

definition demo_net :: Net where
  "demo_net = \<lparr>nt_marshal = (\<lambda>_. Inr ''{}''), nt_newRequest = (\<lambda>_. None),
     nt_do = (\<lambda>_ _ _. Inr \<lparr>nr_Status = 200, nr_Body = ''{}'', nr_Error = None\<rparr>),
     nt_decode = (\<lambda>_ _. Inr \<lparr>lm_Model = ''m'', lm_Choices = [(''hello'', ''stop'')], lm_TotalTokens = 0\<rparr>),
     nt_chunk = (\<lambda>_. None)\<rparr>"

definition demo_chain :: "string list HookChain" where
  "demo_chain = AddHook (PIIDetectorHook (\<lambda>_. []) (\<lambda>_. Inr []) ''0xc000'') (NewHookChain [])"

definition demo_deps :: "'t TraceOps \<Rightarrow> 'b BudgetOps \<Rightarrow> ('t, 'b, string list) Deps" where
  "demo_deps ops budget = \<lparr>dp_traces = ops, dp_budget = budget, dp_chain = Some demo_chain, dp_signer = True,
     dp_net = demo_net, dp_toJSON = (\<lambda>_. None), dp_fromJSON = (\<lambda>_. None), dp_patterns = [],
     dp_providers = [''p''], dp_clock = (\<lambda>_. t_zero)\<rparr>"

definition demo_server :: "'t \<Rightarrow> 'b option \<Rightarrow> ('t, 'b, string list, unit) Server" where
  "demo_server traces budget = \<lparr>sv_traces = traces, sv_budget = budget, sv_hooks = [],
     sv_router = NewModelRouter\<lparr>mo_providers := [''p'' \<mapsto> \<lparr>rp_BaseURL = ''http://u'', rp_AuthHeader = [],
       rp_Models = [''m''], rp_InputPer1K = Fin 1, rp_OutputPer1K = Fin 2\<rparr>]\<rparr>\<rparr>"

definition demo_request :: ChatRequest where
  "demo_request = \<lparr>cr_Model = ''m'', cr_Messages = [\<lparr>msg_Role = ''user'', msg_Content = ''hi''\<rparr>], cr_Stream = False,
     cr_Params = None, cr_Seed = None\<rparr>"

definition mem_trace_ops :: "MemoryTraceStore TraceOps" where
  "mem_trace_ops = \<lparr>to_Save = mt_Save, to_Update = mt_Update, to_Get = mt_Get\<rparr>"

lemma chain_ok_demo: "chain_ok (demo_deps ops budget)"
  by (simp add: chain_ok_def demo_deps_def demo_chain_def AddHook_def NewHookChain_def hooks_of_the_code_ok)

lemma handler_takes_on:
  assumes "meth = ''POST''" "IsVersionSupported (ParseSentorisHeaders hs)"
  shows "handleChatCompletions d traceID sessionID meth hs (Inr req) w srv =
     (let c = chat_conv d traceID sessionID (ParseSentorisHeaders hs) req w srv in (Some (ct_trace c), ct_writer c, ct_server c))"
  using assms by (simp add: handleChatCompletions_def Let_def)

lemma no_headers_supported: "IsVersionSupported (ParseSentorisHeaders (\<lambda>_. []))"
  by (simp add: IsVersionSupported_def ParseSentorisHeaders_def header_get_def supportedVersions_def)

theorem chat_transitions_legal_witness:
  "let r = handleChatCompletions (demo_deps mem_trace_ops mem_ops) ''t1'' ''s1'' ''POST'' (\<lambda>_. []) (Inr demo_request)
       (fresh_writer True) (demo_server Map.empty None)
   in possible (tr_ExecutionState (the (fst r))) (tl (history (the (fst r)))) \<and> IsFinalState (the (fst r))"
proof -
  let ?d = "demo_deps mem_trace_ops mem_ops" and ?w = "fresh_writer True" and ?srv = "demo_server Map.empty None"
  note e = handler_takes_on [OF refl no_headers_supported, of ?d "''t1''" "''s1''" demo_request ?w ?srv]
  from chat_transitions_legal [OF chain_ok_demo e [unfolded Let_def]] show ?thesis
    unfolding e Let_def by simp
qed

end
