(* ===== verification/ChatStore.thy ===== *)
theory ChatStore
  imports Chat RecordStores
begin

text \<open>
  What a chat completion leaves in the stores: the row of its session in the SQLite budget table, and
  the trace that a later verification finds.
\<close>

section \<open>The budget of the session\<close>

lemma chat_parts_budget [simp]:
  "sv_budget (ct_server (record_step now a b c)) = sv_budget (ct_server c)"
  "sv_budget (ct_server (set_state s c)) = sv_budget (ct_server c)"
  "sv_budget (ct_server (store_trace d c)) = sv_budget (ct_server c)"
  "sv_budget (ct_server (apply_recorder c)) = sv_budget (ct_server c)"
  "sv_budget (ct_server (set_error code msg c)) = sv_budget (ct_server c)"
  "sv_budget (ct_server (respond f c)) = sv_budget (ct_server c)"
  "sv_budget (ct_server (fail_trace d code msg c)) = sv_budget (ct_server c)"
  "sv_budget (ct_server (chat_sign d c)) = sv_budget (ct_server c)"
  by (simp_all add: conv_steps fail_trace_def Let_def chat_sign_def)

lemma chat_parts_router [simp]:
  "sv_router (ct_server (record_step now a b c)) = sv_router (ct_server c)"
  "sv_router (ct_server (set_state s c)) = sv_router (ct_server c)"
  "sv_router (ct_server (store_trace d c)) = sv_router (ct_server c)"
  by (simp_all add: conv_steps)

lemma chat_stages_budget [simp]:
  "sv_budget (ct_server (chat_start d traceID sid model req w srv)) = sv_budget srv"
  "sv_router (ct_server (chat_start d traceID sid model req w srv)) = sv_router srv"
  "sv_budget (ct_server (chat_admit d r c)) = sv_budget (ct_server c)"
  "sv_router (ct_server (chat_admit d r c)) = sv_router (ct_server c)"
  "sv_budget (ct_server (chat_refused d c)) = sv_budget (ct_server c)"
  "sv_budget (ct_server (chat_finalize d h resp c)) = sv_budget (ct_server c)"
  "sv_budget (ct_server (chat_answer d h req sid resp c)) = sv_budget (ct_server c)"
  by (simp_all add: chat_start_def chat_admit_def chat_refused_def chat_finalize_def chat_answer_def chat_headers_def
      chat_json_def Let_def del: chat_parts_budget(1))
    (simp_all add: conv_steps)

lemma chat_failed_budget [simp]:
  "sv_budget (ct_server (chat_failed d res sid amount err c)) =
     (if res = Reserved then map_option (\<lambda>b. snd (bo_Rollback (dp_budget d) sid amount b)) (sv_budget (ct_server c))
      else sv_budget (ct_server c))"
  by (simp add: chat_failed_def Let_def with_budget_def)

lemma mask_response_cost [simp]: "rs_CostUSD (mask_response d level resp) = rs_CostUSD resp"
  by (simp add: mask_response_def split: any.split)

text \<open>The row of the session when the request is over.\<close>

definition settled_row :: "f64 \<Rightarrow> f64 \<Rightarrow> ChatResponse result \<Rightarrow> BudgetRow" where
  "settled_row limit amount reply =
     (let row = (\<lambda>used reserved. \<lparr>br_total = limit, br_used = used, br_reserved = reserved\<rparr>);
          held = fadd fzero amount
      in if flt limit (fadd (fadd fzero fzero) amount) then row fzero fzero
         else (case reply of
             Inl _ \<Rightarrow> if flt held amount then row fzero held else row fzero (fsub held amount)
           | Inr resp \<Rightarrow> if flt held (rs_CostUSD resp) then row fzero held
               else row (fadd fzero (rs_CostUSD resp)) (fsub held (rs_CostUSD resp))))"

lemma chat_execute_budget_sqlite:
  assumes "dp_budget d = sql_ops" "sv_budget (ct_server c) = Some db"
    "find_provider (dp_providers d) model (sv_router (ct_server c)) = Some p"
    "flt fzero (sh_BudgetLimit h)" "sid \<noteq> []"
  shows "sv_budget (ct_server (chat_execute d h req model sid c)) =
    Some (db(sid \<mapsto> settled_row (sh_BudgetLimit h) (reserve_amount p) (uc_Chat (dp_net d) (rp_BaseURL p) req)))"
proof -
  note ops = assms(1) sql_ops_def sql_SetSessionBudget_def sql_ReserveBudget_def sql_CommitBudget_def
    sql_RollbackBudget_def
  show ?thesis
  proof (cases "flt (sh_BudgetLimit h) (fadd (fadd fzero fzero) (reserve_amount p))")
    case True
    then show ?thesis
      using assms(2-5)
      by (simp add: chat_execute_def Let_def chat_reserve_def ops with_budget_def settled_row_def)
  next
    case False
    then show ?thesis
      using assms(2-5)
      by (cases "uc_Chat (dp_net d) (rp_BaseURL p) req")
        (simp_all add: chat_execute_def Let_def chat_reserve_def ops with_budget_def settled_row_def)
  qed
qed

lemma remaining_after:
  assumes "grid_ok g" "0 \<le> C" "C \<le> A" "A \<le> T" "T \<le> 2 ^ 52" "rs_CostUSD resp = on_grid g C"
  shows "sql_GetRemainingBudget sid (db(sid \<mapsto> settled_row (on_grid g T) (on_grid g A) (Inr resp))) = Inr (on_grid g (T - A))"
proof -
  let ?row = "\<lambda>u r. \<lparr>br_total = on_grid g T, br_used = u, br_reserved = r\<rparr>"
  have "settled_row (on_grid g T) (on_grid g A) (Inr resp) = ?row (on_grid g C) (on_grid g (A - C))"
    using assms by (simp add: settled_row_def Let_def del: on_grid_0 flip: on_grid_0 [of g])
  then show ?thesis using assms by (simp add: sql_GetRemainingBudget_def)
qed

text \<open>
  \<^bold>\<open>C3.\<close> What a completion does to the budgets of the SQLite store, for a request with a limit. No
  other session is touched. A refused request leaves the limit unspent, a failed one gives the reservation
  back. An answer is charged at its cost unless it cost more than was reserved, in which case the commit
  fails, which is only logged, and nothing is charged. After a charge the rest of the reservation stays
  reserved: on amounts where floats are exact the session has its limit less the reservation left, whatever
  the answer cost.
\<close>

theorem chat_budget_sqlite:
  assumes "handleChatCompletions d traceID sid meth hs (Inr req) w srv = (Some t, w', srv')"
    and "h = ParseSentorisHeaders hs" "flt fzero (sh_BudgetLimit h)" "sid \<noteq> []"
    and "dp_budget d = sql_ops" "sv_budget srv = Some db"
    and "find_provider (dp_providers d) (model_for h (seeded h req)) (sv_router srv) = Some p"
    and "reply = uc_Chat (dp_net d) (rp_BaseURL p) (seeded h req)"
  shows "sv_budget srv' = Some (db(sid \<mapsto> settled_row (sh_BudgetLimit h) (reserve_amount p) reply)) \<and>
    (\<forall>g T A C resp. grid_ok g \<longrightarrow> 0 \<le> C \<longrightarrow> C \<le> A \<longrightarrow> A \<le> T \<longrightarrow> T \<le> 2 ^ 52 \<longrightarrow>
       sh_BudgetLimit h = on_grid g T \<longrightarrow> reserve_amount p = on_grid g A \<longrightarrow> reply = Inr resp \<longrightarrow>
       rs_CostUSD resp = on_grid g C \<longrightarrow>
       sql_GetRemainingBudget sid (the (sv_budget srv')) = Inr (on_grid g (T - A)))"
proof -
  obtain req' h' r c where flow: "(Inr req :: ChatRequest result) = Inr req'" "h' = ParseSentorisHeaders hs"
    "c = chat_execute d h' (seeded h' req') (model_for h' (seeded h' req')) sid
       (chat_admit d r (chat_start d traceID sid (model_for h' (seeded h' req')) (seeded h' req') w srv))"
    "t = ct_trace c" "w' = ct_writer c" "srv' = ct_server c"
    by (rule chat_flow [OF assms(1)])
  then have "req' = req" "h' = h" using assms(2) by simp_all
  with flow have "sv_budget srv' = Some (db(sid \<mapsto> settled_row (sh_BudgetLimit h) (reserve_amount p) reply))"
    using assms(3-8) by (simp add: chat_execute_budget_sqlite)
  then show ?thesis by (simp add: remaining_after)
qed

text \<open>The witness: a limit of 12, a reservation of 9, a free answer; 3 are left.\<close>

definition budget_header :: "string \<Rightarrow> ReqHeader" where
  "budget_header v k = (if k = ''Sentoris-Budget-Limit'' then v else [])"

lemma to_f64_numeral: "numeral n \<le> (2 ^ 53 :: int) \<Longrightarrow> to_f64 (numeral n) = Fin (numeral n)"
  using f_of_int_exact [of "numeral n"] by (simp add: f_of_int_def)

lemma to_f64_1: "to_f64 1 = Fin 1"
  using f_of_int_exact [of 1] by (simp add: f_of_int_def)

lemma ParseFloat_12: "ParseFloat ''12'' = Some (Fin 12)"
proof -
  have "read_mantissa False ''12'' = Some (12, [])" "read_exponent False [] = Some 0" by code_simp+
  moreover have "split_sign ''12'' = (False, ''12'')" "ToLower ''12'' = ''12''" by code_simp+
  ultimately show ?thesis by (simp add: ParseFloat_def signed_f64_def to_f64_numeral HasPrefix_def)
qed

lemma budget_header_12:
  "sh_BudgetLimit (ParseSentorisHeaders (budget_header ''12'')) = Fin 12"
  "IsVersionSupported (ParseSentorisHeaders (budget_header ''12''))"
  "model_for (ParseSentorisHeaders (budget_header ''12'')) r = cr_Model r"
  "seeded (ParseSentorisHeaders (budget_header ''12'')) r = r"
proof -
  have "canonical_key True ''Sentoris-Budget-Limit'' = ''Sentoris-Budget-Limit''"
    "canonical_key True ''Sentoris-Version'' = ''Sentoris-Version''"
    "canonical_key True ''Sentoris-Override-Model'' = ''Sentoris-Override-Model''"
    "canonical_key True ''Sentoris-Seed'' = ''Sentoris-Seed''" by code_simp+
  then show "sh_BudgetLimit (ParseSentorisHeaders (budget_header ''12'')) = Fin 12"
    "IsVersionSupported (ParseSentorisHeaders (budget_header ''12''))"
    "model_for (ParseSentorisHeaders (budget_header ''12'')) r = cr_Model r"
    "seeded (ParseSentorisHeaders (budget_header ''12'')) r = r"
    by (simp_all add: ParseSentorisHeaders_def header_get_def budget_header_def parse_budget_def ParseFloat_12
        IsVersionSupported_def supportedVersions_def model_for_def seeded_def parse_seed_def)
qed

lemma token_cost_0: "token_cost 0 = fzero"
proof -
  have "lit (1/100000) = Fin (5902958103587057 / 590295810358705651712)"
    using to_f64_near [of "- 17" "1/100000" 5902958103587057] by (simp add: lit_def pow2_def)
  moreover have "f_of_int 0 = fzero" using f_of_int_exact [of 0] by simp
  ultimately show ?thesis by (simp add: token_cost_def fmul_def signed_zero_def)
qed

lemma reserve_amount_demo:
  "rp_InputPer1K p = Fin 1 \<Longrightarrow> rp_OutputPer1K p = Fin 2 \<Longrightarrow> reserve_amount p = Fin 9"
  by (simp add: reserve_amount_def feq_def fle_def lit_def f_of_int_def fmul_def fdiv_def fadd_def
      to_f64_numeral to_f64_1 Let_def)

theorem chat_budget_sqlite_witness:
  "sql_GetRemainingBudget ''s1'' (the (sv_budget (snd (snd (handleChatCompletions (demo_deps mem_trace_ops sql_ops)
      ''t1'' ''s1'' ''POST'' (budget_header ''12'') (Inr demo_request) (fresh_writer True)
      (demo_server Map.empty (Some Map.empty))))))) = Inr (Fin 3)"
proof -
  let ?d = "demo_deps mem_trace_ops sql_ops" and ?w = "fresh_writer True"
    and ?srv = "demo_server Map.empty (Some Map.empty)" and ?h = "ParseSentorisHeaders (budget_header ''12'')"
  note e = handler_takes_on [OF refl budget_header_12(2), of ?d "''t1''" "''s1''" demo_request ?w ?srv]
  define p where "p = \<lparr>rp_BaseURL = ''http://u'', rp_AuthHeader = [], rp_Models = [''m''], rp_InputPer1K = Fin 1,
    rp_OutputPer1K = Fin 2\<rparr>"
  have p: "find_provider (dp_providers ?d) (model_for ?h (seeded ?h demo_request)) (sv_router ?srv) = Some p"
    by (simp add: find_provider_def serving_def demo_deps_def demo_server_def budget_header_12 demo_request_def p_def)
  define resp where "resp = parse_answer \<lparr>lm_Model = ''m'', lm_Choices = [(''hello'', ''stop'')], lm_TotalTokens = 0\<rparr>"
  have reply: "uc_Chat (dp_net ?d) (rp_BaseURL p) (seeded ?h demo_request) = Inr resp"
    by (simp add: uc_Chat_def demo_deps_def demo_net_def budget_header_12 demo_request_def resp_def)
  have cost: "rs_CostUSD resp = on_grid 0 0"
    by (simp add: resp_def parse_answer_def token_cost_0)
  have "reserve_amount p = on_grid 0 9" "sh_BudgetLimit ?h = on_grid 0 12"
    by (simp_all add: reserve_amount_demo p_def budget_header_12 on_grid_def)
  note prices = this
  have srv: "flt fzero (sh_BudgetLimit ?h)" "dp_budget ?d = sql_ops" "sv_budget ?srv = Some Map.empty"
    by (simp_all add: budget_header_12 demo_deps_def demo_server_def)
  show ?thesis
    using chat_budget_sqlite [OF e [unfolded Let_def] refl srv(1) _ srv(2,3) p reply [symmetric], THEN conjunct2,
        rule_format, of 0 0 9 12 resp] prices cost
    unfolding e Let_def by (simp add: grid_ok_def) (simp add: on_grid_def)
qed

section \<open>The stored trace\<close>

text \<open>
  What the handler needs of a trace store: a trace that was saved is found, and an update of a trace that is
  there replaces it. \<open>view t\<close> is what the store gives back for \<open>t\<close>.
\<close>

locale trace_ops =
  fixes ops :: "'t TraceOps"
    and view :: "Trace \<Rightarrow> Trace"
  assumes get_save: "to_Get ops (tr_TraceID t) (snd (to_Save ops t s)) = Inr (view t)"
    and get_update: "to_Get ops (tr_TraceID t) s = Inr u \<Longrightarrow>
      to_Get ops (tr_TraceID t) (snd (to_Update ops t s)) = Inr (view t)"

text \<open>The trace of the request is unsigned, in the handler and in the store, and its prompt is a list of messages.\<close>

definition unsigned :: "'t TraceOps \<Rightarrow> (Trace \<Rightarrow> Trace) \<Rightarrow> string \<Rightarrow> ('t, 'b, 'w, 'p) Conv \<Rightarrow> bool" where
  "unsigned ops view tid c \<longleftrightarrow> tr_TraceID (ct_trace c) = tid \<and> tr_Proofs (ct_trace c) = zero_Proofs \<and>
     (\<exists>ms. in_Prompt (tr_Input (ct_trace c)) = AMessages ms) \<and>
     (\<exists>u. to_Get ops tid (sv_traces (ct_server c)) = Inr (view u) \<and> tr_Proofs u = zero_Proofs)"

lemma unsigned_steps [simp]:
  "unsigned ops view tid (record_step now a b c) \<longleftrightarrow> unsigned ops view tid c"
  "unsigned ops view tid (set_state st c) \<longleftrightarrow> unsigned ops view tid c"
  "unsigned ops view tid (apply_recorder c) \<longleftrightarrow> unsigned ops view tid c"
  "unsigned ops view tid (set_error code msg c) \<longleftrightarrow> unsigned ops view tid c"
  "unsigned ops view tid (respond f c) \<longleftrightarrow> unsigned ops view tid c"
  "unsigned ops view tid (with_budget g c) \<longleftrightarrow> unsigned ops view tid c"
  "unsigned ops view tid (fail_trace d code msg c) \<longleftrightarrow> unsigned ops view tid c"
  by (simp_all add: unsigned_def conv_steps fail_trace_def Let_def)

lemma unsigned_run_hooks:
  "chain_ok d \<Longrightarrow> stage \<in> {hc_PreExecute, hc_PostStream, hc_OnFailure} \<Longrightarrow>
    unsigned ops view tid (run_hooks stage d c) \<longleftrightarrow> unsigned ops view tid c"
  by (simp add: unsigned_def run_hooks_trace_simps)

lemma sign_trace_messages: "in_Prompt (tr_Input t) = AMessages ms \<Longrightarrow> sign_trace t = t"
proof -
  assume "in_Prompt (tr_Input t) = AMessages ms"
  then have "\<not> signable t" by (simp add: signable_def)
  then have "unsupported (AMap (signed_map t)) \<noteq> {}"
    using supported_signed_map [of t] unfolding supported_map_def by blast
  then have "Sign (Some t) \<noteq> Inr h" for h unfolding Sign_Inr_iff by blast
  then show ?thesis by (cases "Sign (Some t)") (auto simp: sign_trace_def)
qed

lemma unsigned_chat_sign: "unsigned ops view tid c \<Longrightarrow> unsigned ops view tid (chat_sign d c)"
  by (auto simp: unsigned_def chat_sign_def sign_trace_messages)

lemma unsigned_chat_finalize [simp]: "unsigned ops view tid (chat_finalize d h resp c) \<longleftrightarrow> unsigned ops view tid c"
  by (simp add: unsigned_def chat_finalize_def Let_def conv_steps)

context trace_ops
begin

lemma unsigned_store: "dp_traces d = ops \<Longrightarrow> unsigned ops view tid c \<Longrightarrow> unsigned ops view tid (store_trace d c)"
  using get_update by (auto simp: unsigned_def store_trace_def)

lemma unsigned_start:
  assumes "dp_traces d = ops" "chain_ok d"
  shows "unsigned ops view tid (chat_start d tid sid model req w srv)"
proof -
  have "unsigned ops view tid \<lparr>ct_trace = t, ct_rec = r, ct_writer = w,
      ct_server = srv\<lparr>sv_traces := snd (to_Save ops t s)\<rparr>\<rparr>"
    if "t = new_trace now tid sid model req" for now r t s
    using get_save [of t s] by (auto simp: that unsigned_def new_trace_def prompt_of_def)
  then show ?thesis
    using assms unfolding chat_start_def Let_def by (intro unsigned_store) (simp_all add: unsigned_run_hooks)
qed

lemma unsigned_admit:
  "dp_traces d = ops \<Longrightarrow> unsigned ops view tid c \<Longrightarrow> unsigned ops view tid (chat_admit d r c)"
  unfolding chat_admit_def Let_def by (intro unsigned_store) (simp_all add: unsigned_def conv_steps)

lemma unsigned_answer:
  "dp_traces d = ops \<Longrightarrow> chain_ok d \<Longrightarrow> unsigned ops view tid c \<Longrightarrow> unsigned ops view tid (chat_answer d h req sid resp c)"
  by (simp add: chat_answer_def chat_headers_def chat_json_def Let_def unsigned_run_hooks unsigned_store
      unsigned_chat_sign)

lemma unsigned_reserve: "chat_reserve d limit sid amount c = (res, c') \<Longrightarrow> unsigned ops view tid c' \<longleftrightarrow> unsigned ops view tid c"
  by (auto simp: chat_reserve_def split: option.splits if_splits prod.splits)

lemma unsigned_execute:
  assumes "dp_traces d = ops" "chain_ok d" "unsigned ops view tid c"
  shows "unsigned ops view tid (chat_execute d h req model sid c)"
proof (cases "find_provider (dp_providers d) model (sv_router (ct_server c))")
  case None
  then show ?thesis using assms by (simp add: chat_execute_def chat_no_provider_def unsigned_store)
next
  case (Some p)
  obtain res c' where r: "chat_reserve d (sh_BudgetLimit h) sid (reserve_amount p) c = (res, c')"
    by (metis surj_pair)
  then have "unsigned ops view tid c'" using unsigned_reserve assms(3) by blast
  with Some r show ?thesis
    using assms(1,2)
    by (cases res; cases "uc_Chat (dp_net d) (rp_BaseURL p) req")
      (simp_all add: chat_execute_def chat_refused_def chat_failed_def Let_def unsigned_store unsigned_run_hooks
        unsigned_answer)
qed

lemma chat_stored_unsigned:
  assumes "dp_traces d = ops" "chain_ok d"
    and "handleChatCompletions d tid sid meth hs body w srv = (Some t, w', srv')"
  obtains u where "to_Get ops tid (sv_traces srv') = Inr (view u)" "tr_Proofs u = zero_Proofs"
proof (rule chat_flow [OF assms(3)])
  fix req h r c
  assume "c = chat_execute d h (seeded h req) (model_for h (seeded h req)) sid
       (chat_admit d r (chat_start d tid sid (model_for h (seeded h req)) (seeded h req) w srv))" "srv' = ct_server c"
  then have "unsigned ops view tid c" using assms by (simp add: unsigned_execute unsigned_admit unsigned_start)
  with \<open>srv' = ct_server c\<close> show thesis using that by (auto simp: unsigned_def)
qed

end

definition sql_trace_ops :: "TraceCodec \<Rightarrow> TraceTable TraceOps" where
  "sql_trace_ops codec = \<lparr>to_Save = sql_SaveTrace codec, to_Update = sql_UpdateTrace codec, to_Get = sql_GetTrace codec\<rparr>"

text \<open>
  A trace store in full: a record store of traces with an update. What it promises is what the handler needs, so
  that every trace store serves the chats.
\<close>

locale trace_store = kv_store save get delete contents tr_TraceID stored trace_not_found
  for save :: "Trace \<Rightarrow> 't \<Rightarrow> string option \<times> 't" and get :: "string \<Rightarrow> 't \<Rightarrow> Trace result"
    and delete contents and stored :: "Trace \<Rightarrow> Trace" +
  fixes update :: "Trace \<Rightarrow> 't \<Rightarrow> string option \<times> 't" and ops :: "'t TraceOps"
  assumes update_replaces: "get (tr_TraceID t) s = Inr u \<Longrightarrow> contents (snd (update t s)) = (contents s)(tr_TraceID t \<mapsto> stored t)"
    and ops_eq: "ops = \<lparr>to_Save = save, to_Update = update, to_Get = get\<rparr>"

sublocale trace_store \<subseteq> chat: trace_ops ops stored
  by unfold_locales (simp_all add: ops_eq get_contents contents_save update_replaces split: option.splits)

interpretation mem_chat: trace_store mt_Save mt_Get mt_Delete "\<lambda>s. s" "\<lambda>t. t" mt_Update mem_trace_ops
  by unfold_locales (auto simp: mem_trace_ops_def mt_Update_def mt_Get_def split: option.splits)

interpretation sql_chat: trace_store "sql_SaveTrace codec" "sql_GetTrace codec" sql_DeleteTrace
    "\<lambda>db k. map_option (scan_trace codec k) (db k)" "\<lambda>t. scan_trace codec (tr_TraceID t) (trace_row codec t)"
    "sql_UpdateTrace codec" "sql_trace_ops codec"
  for codec
  by unfold_locales (auto simp: sql_trace_ops_def sql_UpdateTrace_def sql_traces.contents_save)

lemma verify_unsigned:
  assumes "to_Get (dp_traces d) tid (sv_traces srv) = Inr u" "pf_AuditSignature (tr_Proofs u) = []"
  shows "verify_stored d tid w srv = handleError ''No audit signature found'' 400 ErrInvalidInput w"
  using assms by (simp add: verify_stored_def)

text \<open>
  \<^bold>\<open>C4.\<close> No chat request can ever be verified. Whatever the request, the answer and the hooks, with
  the signer configured and the traces in SQLite, the trace that is stored carries no signature: the prompt is
  a slice of messages, which the signer cannot canonicalize, and its error is dropped. Asking to verify the
  trace of a request that was just served gets the error for a missing signature, and gets it with status
  500, not with the 400 the handler asks for. The columns are assumed to give back an empty signature as empty.
\<close>

theorem chat_unverifiable:
  assumes "handleChatCompletions d tid sid meth hs body w srv = (Some t, w', srv')"
    and "dp_traces d = sql_trace_ops codec" "chain_ok d"
    and "pf_AuditSignature (dec_Proofs codec (enc_Proofs codec zero_Proofs)) = []"
  shows "handleVerifyTraceByID d ''GET'' tid v srv' = handleError ''No audit signature found'' 400 ErrInvalidInput v \<and>
    status_of (handleVerifyTraceByID d ''GET'' tid (fresh_writer b) srv') = 500"
proof -
  obtain u where u: "to_Get (dp_traces d) tid (sv_traces srv') = Inr (scan_trace codec (tr_TraceID u) (trace_row codec u))"
    "tr_Proofs u = zero_Proofs"
    using sql_chat.chat.chat_stored_unsigned [OF assms(2,3,1)] assms(2) by metis
  have "pf_AuditSignature (tr_Proofs (scan_trace codec (tr_TraceID u) (trace_row codec u))) = []"
    using assms(4) u(2) by (simp add: scan_trace_def trace_row_def)
  with u(1) have "verify_stored d tid x srv' = handleError ''No audit signature found'' 400 ErrInvalidInput x" for x
    by (rule verify_unsigned)
  then show ?thesis by (simp add: handleVerifyTraceByID_def status_handleError error_statuses fresh_writer_def)
qed

definition blank_codec :: TraceCodec where
  "blank_codec = \<lparr>enc_Input = (\<lambda>_. []), dec_Input = (\<lambda>_. zero_Input), enc_Output = (\<lambda>_. []),
     dec_Output = (\<lambda>_. zero_Output), enc_Observations = (\<lambda>_. []), dec_Observations = (\<lambda>_. zero_Observations),
     enc_Proofs = pf_AuditSignature, dec_Proofs = (\<lambda>s. zero_Proofs\<lparr>pf_AuditSignature := s\<rparr>), enc_Constraints = (\<lambda>_. []),
     dec_Constraints = (\<lambda>_. zero_ConstraintsApplied), enc_Extensions = (\<lambda>_. []), dec_Extensions = (\<lambda>_. None),
     enc_Time = RFC3339Nano, dec_Time = (\<lambda>_. t_zero)\<rparr>"

theorem chat_unverifiable_witness:
  "status_of (handleVerifyTraceByID (demo_deps (sql_trace_ops blank_codec) sql_ops) ''GET'' ''t1'' (fresh_writer True)
     (snd (snd (handleChatCompletions (demo_deps (sql_trace_ops blank_codec) sql_ops) ''t1'' ''s1'' ''POST'' (\<lambda>_. [])
       (Inr demo_request) (fresh_writer True) (demo_server Map.empty None))))) = 500"
proof -
  let ?d = "demo_deps (sql_trace_ops blank_codec) sql_ops" and ?w = "fresh_writer True" and ?srv = "demo_server Map.empty None"
  note e = handler_takes_on [OF refl no_headers_supported, of ?d "''t1''" "''s1''" demo_request ?w ?srv]
  have d: "dp_traces ?d = sql_trace_ops blank_codec" by (simp add: demo_deps_def)
  have c: "pf_AuditSignature (dec_Proofs blank_codec (enc_Proofs blank_codec zero_Proofs)) = []"
    by (simp add: blank_codec_def zero_Proofs_def)
  show ?thesis
    unfolding e Let_def using chat_unverifiable [OF e [unfolded Let_def] d chain_ok_demo c, THEN conjunct2] by simp
qed

end
