(* ===== verification/Endpoints.thy ===== *)
theory Endpoints
  imports Chat Extensions RecordStores Diff
begin

text \<open>
  The other endpoints of \<^verbatim>\<open>internal/transport/http/handler.go\<close> and the dispatch of
  \<^verbatim>\<open>ServeHTTP\<close>: models, health, monitoring, replay evaluation and administration. A handler takes
  the request, the response writer and the state of the server and gives both back.
\<close>

section \<open>The server\<close>

text \<open>What \<^verbatim>\<open>json.Decode\<close> makes of a body for each of the types it is decoded to.\<close>

record ReplayRequest =
  rpl_BaselineTraceID :: string
  rpl_Model :: string
  rpl_FocusFields :: "string list"
  rpl_Params :: "amap option"
  rpl_Reproducibility :: string

record ProviderRequest =
  prq_Name :: string
  prq_BaseURL :: string
  prq_AuthHeader :: string
  prq_Models :: "string list"
  prq_InputPricePer1K :: f64
  prq_OutputPricePer1K :: f64
  prq_IsDefault :: bool

record Request =
  rq_Method :: string
  rq_Path :: string
  rq_Header :: ReqHeader
  rq_Query :: "string \<Rightarrow> string"
  rq_chat :: "ChatRequest result"
  rq_replay :: "ReplayRequest result"
  rq_provider :: "ProviderRequest result"
  rq_name :: "string result"
  rq_total :: "f64 result"

text \<open>The operations of the stores that only these endpoints use, and what else they depend on.\<close>

record 'k KeyOps =
  ko_List :: "'k \<Rightarrow> APIKey list result"
  ko_Create :: "string \<Rightarrow> string \<Rightarrow> string \<Rightarrow> string \<Rightarrow> int option \<Rightarrow> string list \<Rightarrow> 'k \<Rightarrow> APIKey result \<times> 'k"
  ko_Delete :: "string \<Rightarrow> 'k \<Rightarrow> string option \<times> 'k"
  ko_Verify :: "string \<Rightarrow> 'k \<Rightarrow> APIKey result"

record 'r ReportOps =
  ro_Save :: "RiskReport \<Rightarrow> 'r \<Rightarrow> string option \<times> 'r"
  ro_Get :: "string \<Rightarrow> 'r \<Rightarrow> RiskReport result"
  ro_List :: "int \<Rightarrow> 'r \<Rightarrow> RiskReport list result"

record ('t, 'b, 'w, 'p, 'k, 'r, 'h) AppDeps =
  ad_deps :: "('t, 'b, 'w) Deps"
  ad_ListRecent :: "int \<Rightarrow> 't \<Rightarrow> Trace list result"
  ad_Count :: "'t \<Rightarrow> int result"
  ad_providers :: "'p ProviderOps"
  ad_keys :: "'k KeyOps"
  ad_reports :: "'r ReportOps"
  ad_extensions :: "'h ExtensionRegistry option"
  ad_ext_order :: "string list"
  ad_Sprint :: "any \<Rightarrow> string"
  ad_marshal :: "any \<Rightarrow> string result"
  ad_diff_order :: "string list"

record ('t, 'b, 'w, 'p, 'k, 'r) App =
  ap_server :: "('t, 'b, 'w, 'p) Server"
  ap_keys :: "'k option"
  ap_reports :: "'r option"

text \<open>A new handler has an empty chain of hooks and no registry of extensions.\<close>

definition NewHandler :: "('t, 'b, 'w, 'p, 'k, 'r, 'h) AppDeps \<Rightarrow> ('t, 'b, 'w, 'p, 'k, 'r, 'h) AppDeps" where
  "NewHandler d = d\<lparr>ad_deps := (ad_deps d)\<lparr>dp_chain := Some (NewHookChain [])\<rparr>, ad_extensions := None\<rparr>"

definition SetHookChain :: "'w HookChain option \<Rightarrow> ('t, 'b, 'w, 'p, 'k, 'r, 'h) AppDeps \<Rightarrow> ('t, 'b, 'w, 'p, 'k, 'r, 'h) AppDeps" where
  "SetHookChain hookChain d = d\<lparr>ad_deps := (ad_deps d)\<lparr>dp_chain := hookChain\<rparr>\<rparr>"

definition SetExtensionRegistry ::
    "'h ExtensionRegistry option \<Rightarrow> ('t, 'b, 'w, 'p, 'k, 'r, 'h) AppDeps \<Rightarrow> ('t, 'b, 'w, 'p, 'k, 'r, 'h) AppDeps" where
  "SetExtensionRegistry registry d = d\<lparr>ad_extensions := registry\<rparr>"

definition with_router :: "('p ModelRouter \<Rightarrow> 'p ModelRouter) \<Rightarrow> ('t, 'b, 'w, 'p, 'k, 'r) App \<Rightarrow> ('t, 'b, 'w, 'p, 'k, 'r) App" where
  "with_router f a = a\<lparr>ap_server := (ap_server a)\<lparr>sv_router := f (sv_router (ap_server a))\<rparr>\<rparr>"

definition json_header :: "Writer \<Rightarrow> Writer" where
  "json_header w = set_header ''Content-Type'' ''application/json'' w"

definition reply :: "any \<Rightarrow> Writer \<Rightarrow> Writer" where
  "reply v w = write_body (BJson v) (WriteHeader 200 w)"

definition done_message :: "bool \<Rightarrow> string \<Rightarrow> any" where
  "done_message ok msg = AMap [(''success'', ABool ok), (''message'', AString msg)]"

definition method_not_allowed :: "Writer \<Rightarrow> Writer" where
  "method_not_allowed w = handleError ''Method not allowed'' 405 ErrInvalidMethod w"

text \<open>Sixteen random characters; \<open>rnd\<close> are the numbers drawn below the size of the set.\<close>

definition id_charset :: string where
  "id_charset = ''abcdefghijklmnopqrstuvwxyz0123456789''"

definition generateTraceID :: "(nat \<Rightarrow> nat) \<Rightarrow> string" where
  "generateTraceID rnd = ''trace_'' @ map (\<lambda>i. id_charset ! (rnd i mod length id_charset)) [0..<16]"

definition generateSessionID :: "(nat \<Rightarrow> nat) \<Rightarrow> string" where
  "generateSessionID rnd = ''sess_'' @ map (\<lambda>i. id_charset ! (rnd i mod length id_charset)) [0..<16]"

section \<open>Models, health and monitoring\<close>

definition all_providers :: "string list \<Rightarrow> 'p ModelRouter \<Rightarrow> (string \<times> RouterProvider) list" where
  "all_providers ks r = map (\<lambda>k. (k, the (mo_providers r k))) ks"

definition handleModels :: "('t, 'b, 'w, 'p, 'k, 'r, 'h) AppDeps \<Rightarrow> Writer \<Rightarrow> ('t, 'b, 'w, 'p, 'k, 'r) App \<Rightarrow> Writer" where
  "handleModels d w a =
     (let models = map (\<lambda>(i, name). [(''id'', AString name), (''object'', AString ''model''),
            (''created'', AInt64 (unix_seconds (dp_clock (ad_deps d) i))), (''owned_by'', AString name)])
          (enumerate 0 (dp_providers (ad_deps d)))
      in write_body (BJson (AMap [(''object'', AString ''list''), (''data'', AMapArr models)])) (json_header w))"

definition handleHealthCheck :: "Writer \<Rightarrow> Writer" where
  "handleHealthCheck w = reply (AMap [(''status'', AString ''ok'')]) (json_header w)"

text \<open>The monitoring handlers send their status first.\<close>

definition monitor_open :: "Writer \<Rightarrow> Writer" where
  "monitor_open w = WriteHeader 200 (json_header w)"

definition handleMonitor :: "('t, 'b, 'w, 'p, 'k, 'r, 'h) AppDeps \<Rightarrow> Writer \<Rightarrow> ('t, 'b, 'w, 'p, 'k, 'r) App \<Rightarrow> Writer" where
  "handleMonitor d w a =
     (let n = (case ad_Count d (sv_traces (ap_server a)) of Inr n \<Rightarrow> n | Inl _ \<Rightarrow> 0)
      in write_body (BJson (AMap [(''status'', AString ''running''), (''request_count'', AInt64 n)])) (monitor_open w))"

text \<open>A counter in a map, one more; a key that is new starts at zero.\<close>

definition bump :: "string \<Rightarrow> (string \<times> int) list \<Rightarrow> (string \<times> int) list" where
  "bump k m = AList.update k ((case map_of m k of Some n \<Rightarrow> n | None \<Rightarrow> 0) + 1) m"

definition tally_trace ::
    "Trace \<Rightarrow> (string \<times> int) list \<times> (string \<times> int) list \<times> f64 \<Rightarrow> (string \<times> int) list \<times> (string \<times> int) list \<times> f64" where
  "tally_trace t acc = (case acc of (byState, byModel, totalCost) \<Rightarrow>
     (bump (if tr_ExecutionState t = [] then ''FINALIZED'' else tr_ExecutionState t) byState,
      if tr_Model t \<noteq> [] then bump (tr_Model t) byModel else byModel,
      fadd totalCost (obs_CostEstimatedUSD (tr_Observations t))))"

definition counters :: "(string \<times> int) list \<Rightarrow> any" where
  "counters m = AMap (map (\<lambda>(k, n). (k, AInt64 n)) m)"

definition trace_stats :: "any \<Rightarrow> (string \<times> int) list \<Rightarrow> (string \<times> int) list \<Rightarrow> f64 \<Rightarrow> amap" where
  "trace_stats n byState byModel cost =
     [(''total'', n), (''by_state'', counters byState), (''by_model'', counters byModel), (''total_cost'', AFloat cost)]"

definition metrics_stats :: "('t, 'b, 'w, 'p, 'k, 'r, 'h) AppDeps \<Rightarrow> 't \<Rightarrow> amap" where
  "metrics_stats d s =
     (case (ad_Count d s, ad_ListRecent d 1000 s) of
        (Inr n, Inr ts) \<Rightarrow>
          (case fold tally_trace ts ([(''FINALIZED'', 0), (''FAILED'', 0), (''EXECUTING'', 0)], [], fzero) of
             (byState, byModel, cost) \<Rightarrow> trace_stats (AInt64 n) byState byModel cost)
      | _ \<Rightarrow> trace_stats (AInt 0) [(''FINALIZED'', 0), (''FAILED'', 0)] [] fzero)"

definition handleMonitorMetrics :: "('t, 'b, 'w, 'p, 'k, 'r, 'h) AppDeps \<Rightarrow> Writer \<Rightarrow> ('t, 'b, 'w, 'p, 'k, 'r) App \<Rightarrow> Writer" where
  "handleMonitorMetrics d w a =
     (let stats = metrics_stats d (sv_traces (ap_server a));
          n = AInt (int (length (dp_providers (ad_deps d))))
      in write_body (BJson (AMap [(''request_count'', the (amap_get stats ''total'')), (''uptime'', AString ''0h''),
           (''trace'', AMap [(''stats'', AMap stats)]),
           (''router'', AMap [(''models_count'', n), (''providers_count'', n)])])) (monitor_open w))"

definition handleMonitorModels :: "('t, 'b, 'w, 'p, 'k, 'r, 'h) AppDeps \<Rightarrow> Writer \<Rightarrow> ('t, 'b, 'w, 'p, 'k, 'r) App \<Rightarrow> Writer" where
  "handleMonitorModels d w a =
     (let r = sv_router (ap_server a);
          models = concat (map (\<lambda>(name, c). map (\<lambda>m. [(''id'', AString m), (''provider'', AString name),
              (''is_default'', ABool (name = mo_defaultProvider r)), (''input_price'', AFloat (rp_InputPer1K c)),
              (''output_price'', AFloat (rp_OutputPer1K c))]) (rp_Models c)) (all_providers (dp_providers (ad_deps d)) r))
      in write_body (BJson (AMap [(''models'', AMapArr models)])) (monitor_open w))"

definition extension_list :: "('t, 'b, 'w, 'p, 'k, 'r, 'h) AppDeps \<Rightarrow> amap list" where
  "extension_list d = (case ad_extensions d of
     None \<Rightarrow> []
   | Some reg \<Rightarrow> map (\<lambda>e. [(''name'', AString (en_Title e)), (''version'', AString (en_Version e)), (''enabled'', ABool True)])
       (ext_List (ad_ext_order d) reg))"

definition handleMonitorExtensions :: "('t, 'b, 'w, 'p, 'k, 'r, 'h) AppDeps \<Rightarrow> Writer \<Rightarrow> Writer" where
  "handleMonitorExtensions d w =
     write_body (BJson (AMap [(''extensions'', AMapArr (extension_list d))])) (monitor_open w)"

definition handleMonitorTraces ::
    "('t, 'b, 'w, 'p, 'k, 'r, 'h) AppDeps \<Rightarrow> Request \<Rightarrow> Writer \<Rightarrow> ('t, 'b, 'w, 'p, 'k, 'r) App \<Rightarrow> Writer" where
  "handleMonitorTraces d rq w a =
     (let w = monitor_open w; traceID = rq_Query rq ''trace_id'' in
      if traceID = [] then handleError ''trace_id is required'' 400 ErrInvalidInput w
      else (case to_Get (dp_traces (ad_deps d)) traceID (sv_traces (ap_server a)) of
          Inl _ \<Rightarrow> handleError ''Trace not found'' 404 ErrBaselineNotFound w
        | Inr t \<Rightarrow> write_body (BTrace t) w))"

definition parse_limit :: "string \<Rightarrow> int" where
  "parse_limit s = (if s \<noteq> [] then (case scan_d s of Some (n, _) \<Rightarrow> n | None \<Rightarrow> 100) else 100)"

definition handleTracesList ::
    "('t, 'b, 'w, 'p, 'k, 'r, 'h) AppDeps \<Rightarrow> Request \<Rightarrow> Writer \<Rightarrow> ('t, 'b, 'w, 'p, 'k, 'r) App \<Rightarrow> Writer" where
  "handleTracesList d rq w a =
     (let w = monitor_open w in
      case ad_ListRecent d (parse_limit (rq_Query rq ''limit'')) (sv_traces (ap_server a)) of
        Inl e \<Rightarrow> handleErrorWithMessage ''Failed to list traces'' 500 (EPlain e) w
      | Inr ts \<Rightarrow> write_body (BTraces ts) w)"

definition budget_info :: "('t, 'b, 'w, 'p, 'k, 'r, 'h) AppDeps \<Rightarrow> ('t, 'b, 'w, 'p, 'k, 'r) App \<Rightarrow> any" where
  "budget_info d a =
     (let info = (\<lambda>budget used left. AMap [(''total_budget'', AFloat budget), (''used_budget'', AFloat used),
            (''remaining_budget'', AFloat left)]) in
      case map_option (bo_Get (dp_budget (ad_deps d))) (sv_budget (ap_server a)) of
        Some (Inr b) \<Rightarrow> info (bg_TotalBudget b) (bg_UsedBudget b) (fsub (bg_TotalBudget b) (bg_UsedBudget b))
      | _ \<Rightarrow> info fzero fzero fzero)"

definition handleMonitorBudget :: "('t, 'b, 'w, 'p, 'k, 'r, 'h) AppDeps \<Rightarrow> Writer \<Rightarrow> ('t, 'b, 'w, 'p, 'k, 'r) App \<Rightarrow> Writer" where
  "handleMonitorBudget d w a = write_body (BJson (budget_info d a)) (monitor_open w)"

text \<open>Without a report store the handler panics and \<^verbatim>\<open>net/http\<close> drops the rest of the answer.\<close>

definition handleMonitorRiskReports ::
    "('t, 'b, 'w, 'p, 'k, 'r, 'h) AppDeps \<Rightarrow> Request \<Rightarrow> Writer \<Rightarrow> ('t, 'b, 'w, 'p, 'k, 'r) App \<Rightarrow> Writer" where
  "handleMonitorRiskReports d rq w a =
     (let w = monitor_open w; traceID = rq_Query rq ''trace_id'' in
      case ap_reports a of
        None \<Rightarrow> w
      | Some s \<Rightarrow>
          if traceID \<noteq> []
          then (case ro_Get (ad_reports d) traceID s of
              Inl _ \<Rightarrow> handleError ''Risk report not found'' 404 ErrBaselineNotFound w
            | Inr report \<Rightarrow> write_body (BReport report) w)
          else (case ro_List (ad_reports d) 100 s of
              Inl e \<Rightarrow> handleErrorWithMessage ''Failed to list risk reports'' 500 (EPlain e) w
            | Inr reports \<Rightarrow> write_body (BReports reports) w))"

end
