(* ===== verification/Admin.thy ===== *)
theory Admin
  imports Endpoints
begin

text \<open>
  The endpoints of \<^verbatim>\<open>handler.go\<close> that change the server: replay evaluation, and the
  administration of providers, budget and API keys; the dispatch of \<^verbatim>\<open>ServeHTTP\<close>, and what holds
  of every request.
\<close>

type_synonym ('t, 'b, 'w, 'p, 'k, 'r) handled = "Writer \<times> ('t, 'b, 'w, 'p, 'k, 'r) App"

section \<open>Replay evaluation\<close>

definition replay_model :: "ReplayRequest \<Rightarrow> SentorisHeaders \<Rightarrow> Trace \<Rightarrow> string" where
  "replay_model q h baseline =
     (if rpl_Model q \<noteq> [] then rpl_Model q
      else if sh_OverrideModel h \<noteq> [] then sh_OverrideModel h else tr_Model baseline)"

definition replay_focus :: "ReplayRequest \<Rightarrow> SentorisHeaders \<Rightarrow> string list" where
  "replay_focus q h =
     (if rpl_FocusFields q = [] \<and> sh_FocusFields h \<noteq> [] then sh_FocusFields h else rpl_FocusFields q)"

definition replay_messages :: "(any \<Rightarrow> string) \<Rightarrow> any \<Rightarrow> Message list" where
  "replay_messages sprint prompt = (case prompt of
     ANil \<Rightarrow> []
   | AMessages ms \<Rightarrow> map (\<lambda>(r, c). \<lparr>msg_Role = r, msg_Content = c\<rparr>) ms
   | v \<Rightarrow> [\<lparr>msg_Role = ''user'', msg_Content = sprint v\<rparr>])"

definition replay_mode :: "string \<Rightarrow> string" where
  "replay_mode s = (if s = [] then ''bounded'' else s)"

definition replay_reproducibility :: "string \<Rightarrow> ReproducibilityMode" where
  "replay_reproducibility s =
     (if s = ''none'' then ReproducibilityNone else if s = ''bounded'' then ReproducibilityBounded
      else if s = ''strict'' then ReproducibilityStrict else ReproducibilityBounded)"

definition replay_seed :: "string \<Rightarrow> Trace \<Rightarrow> int option" where
  "replay_seed mode baseline =
     (if mode \<noteq> ''none'' then Some (case in_Seed (tr_Input baseline) of Some n \<Rightarrow> n | None \<Rightarrow> 42) else None)"

definition replay_request :: "(any \<Rightarrow> string) \<Rightarrow> ReplayRequest \<Rightarrow> string \<Rightarrow> Trace \<Rightarrow> ChatRequest" where
  "replay_request sprint q model baseline =
     \<lparr>cr_Model = model, cr_Messages = replay_messages sprint (in_Prompt (tr_Input baseline)), cr_Stream = False,
      cr_Params = (case rpl_Params q of Some p \<Rightarrow> Some p | None \<Rightarrow> in_Params (tr_Input baseline)),
      cr_Seed = replay_seed (replay_mode (rpl_Reproducibility q)) baseline\<rparr>"

definition candidate_trace ::
    "string \<Rightarrow> string \<Rightarrow> gotime \<Rightarrow> ReplayRequest \<Rightarrow> ChatRequest \<Rightarrow> ChatResponse \<Rightarrow> Trace \<Rightarrow> Trace" where
  "candidate_trace traceID sessionID now q req resp baseline =
     FillDefaults
       \<lparr>tr_TraceID = traceID, tr_ParentID = Some (tr_TraceID baseline), tr_SessionID = Some sessionID,
        tr_ExecutionState = StateFinalized, tr_Model = cr_Model req,
        tr_Input = \<lparr>in_Prompt = in_Prompt (tr_Input baseline), in_Params = cr_Params req,
          in_Metadata = in_Metadata (tr_Input baseline), in_Seed = cr_Seed req\<rparr>,
        tr_Output = \<lparr>out_Response = Some (rs_Content resp), out_Truncated = False, out_FinishReason = rs_FinishReason resp\<rparr>,
        tr_Observations = zero_Observations\<lparr>obs_TokensCount := rs_TokensUsed resp, obs_CostEstimatedUSD := rs_CostUSD resp\<rparr>,
        tr_Proofs = zero_Proofs,
        tr_ConstraintsApplied = zero_ConstraintsApplied
          \<lparr>ca_ReproducibilityMode := replay_reproducibility (replay_mode (rpl_Reproducibility q))\<rparr>,
        tr_CreatedAt = t_UTC now, tr_TTLExpireAt = None, tr_Extensions = None\<rparr>"

definition save_report ::
    "('t, 'b, 'w, 'p, 'k, 'r, 'h) AppDeps \<Rightarrow> RiskReport \<Rightarrow> ('t, 'b, 'w, 'p, 'k, 'r) App \<Rightarrow> ('t, 'b, 'w, 'p, 'k, 'r) App" where
  "save_report d report a = a\<lparr>ap_reports := map_option (\<lambda>s. snd (ro_Save (ad_reports d) report s)) (ap_reports a)\<rparr>"

definition replay_answered ::
    "('t, 'b, 'w, 'p, 'k, 'r, 'h) AppDeps \<Rightarrow> string list \<Rightarrow> Trace \<Rightarrow> Trace \<Rightarrow> Writer \<Rightarrow>
       ('t, 'b, 'w, 'p, 'k, 'r) App \<Rightarrow> ('t, 'b, 'w, 'p, 'k, 'r) handled" where
  "replay_answered d focus baseline candidate w a =
     (let candidate = (if dp_signer (ad_deps d) then sign_trace candidate else candidate);
          srv = ap_server a;
          srv = srv\<lparr>sv_traces := snd (to_Save (dp_traces (ad_deps d)) candidate (sv_traces srv))\<rparr>;
          report = Compare (ad_marshal d) (ad_diff_order d) (dp_clock (ad_deps d) 1) baseline candidate;
          report = (if focus \<noteq> [] then report\<lparr>rr_FocusFields := focus\<rparr> else report);
          a = save_report d report (a\<lparr>ap_server := srv\<rparr>);
          w = setReplayResponseHeaders (tr_TraceID candidate) (tr_TraceID baseline)
                (tr_Model candidate \<noteq> tr_Model baseline) w
      in (write_body (BReport report) (WriteHeader 200 (json_header w)), a))"

definition handleReplayEval ::
    "('t, 'b, 'w, 'p, 'k, 'r, 'h) AppDeps \<Rightarrow> string \<Rightarrow> string \<Rightarrow> Request \<Rightarrow> Writer \<Rightarrow>
       ('t, 'b, 'w, 'p, 'k, 'r) App \<Rightarrow> ('t, 'b, 'w, 'p, 'k, 'r) handled" where
  "handleReplayEval d traceID sessionID rq w a =
     (let dd = ad_deps d; h = ParseSentorisHeaders (rq_Header rq) in
      if rq_Method rq \<noteq> ''POST'' then (method_not_allowed w, a)
      else (case rq_replay rq of
          Inl e \<Rightarrow> (handleErrorWithMessage ''Invalid request body'' 400 (EPlain e) w, a)
        | Inr q \<Rightarrow>
            (case to_Get (dp_traces dd) (rpl_BaselineTraceID q) (sv_traces (ap_server a)) of
               Inl _ \<Rightarrow> (handleError ''Baseline trace not found'' 404 ErrBaselineNotFound w, a)
             | Inr baseline \<Rightarrow>
                 let model = replay_model q h baseline in
                 (case find_provider (dp_providers dd) model (sv_router (ap_server a)) of
                    None \<Rightarrow> (handleError ''Failed to get provider'' 500 ErrInternalError w, a)
                  | Some p \<Rightarrow>
                      let req = replay_request (ad_Sprint d) q model baseline in
                      (case uc_Chat (dp_net dd) (rp_BaseURL p) req of
                         Inl _ \<Rightarrow> (handleError ''Failed to execute LLM request'' 500 ErrInternalError w, a)
                       | Inr resp \<Rightarrow>
                           replay_answered d (replay_focus q h) baseline
                             (candidate_trace traceID sessionID (dp_clock dd 0) q req resp baseline) w a)))))"

section \<open>Providers\<close>

definition provider_entry :: "'p ModelRouter \<Rightarrow> string \<times> RouterProvider \<Rightarrow> amap" where
  "provider_entry r nc = (case nc of (name, c) \<Rightarrow>
     [(''name'', AString name), (''base_url'', AString (rp_BaseURL c)), (''auth_header'', AString (rp_AuthHeader c)),
      (''models'', AStrArr (rp_Models c)), (''input_price_per_1k'', AFloat (rp_InputPer1K c)),
      (''output_price_per_1k'', AFloat (rp_OutputPer1K c)), (''is_default'', ABool (name = mo_defaultProvider r)),
      (''status'', AString ''active'')])"

definition add_provider ::
    "('t, 'b, 'w, 'p, 'k, 'r, 'h) AppDeps \<Rightarrow> ProviderRequest \<Rightarrow> Writer \<Rightarrow> ('t, 'b, 'w, 'p, 'k, 'r) App \<Rightarrow>
       ('t, 'b, 'w, 'p, 'k, 'r) handled" where
  "add_provider d q w a =
     (if prq_Name q = [] \<or> prq_BaseURL q = [] then (handleError ''Name and base_url are required'' 400 ErrInvalidInput w, a)
      else let config = \<lparr>rp_BaseURL = prq_BaseURL q, rp_AuthHeader = prq_AuthHeader q, rp_Models = prq_Models q,
                 rp_InputPer1K = prq_InputPricePer1K q, rp_OutputPer1K = prq_OutputPricePer1K q\<rparr>;
               a = with_router (AddProvider (ad_providers d) (prq_Name q) config) a;
               a = (if prq_IsDefault q then with_router (SetDefaultProvider (ad_providers d) (prq_Name q)) a else a)
           in (reply (done_message True ''Provider added successfully'') w, a))"

definition changed_provider :: "ProviderRequest \<Rightarrow> RouterProvider \<Rightarrow> RouterProvider" where
  "changed_provider q c =
     \<lparr>rp_BaseURL = (if prq_BaseURL q \<noteq> [] then prq_BaseURL q else rp_BaseURL c),
      rp_AuthHeader = (if prq_AuthHeader q \<noteq> [] then prq_AuthHeader q else rp_AuthHeader c),
      rp_Models = (if 0 < length (prq_Models q) then prq_Models q else rp_Models c),
      rp_InputPer1K = (if flt fzero (prq_InputPricePer1K q) then prq_InputPricePer1K q else rp_InputPer1K c),
      rp_OutputPer1K = (if flt fzero (prq_OutputPricePer1K q) then prq_OutputPricePer1K q else rp_OutputPer1K c)\<rparr>"

definition update_provider ::
    "('t, 'b, 'w, 'p, 'k, 'r, 'h) AppDeps \<Rightarrow> ProviderRequest \<Rightarrow> Writer \<Rightarrow> ('t, 'b, 'w, 'p, 'k, 'r) App \<Rightarrow>
       ('t, 'b, 'w, 'p, 'k, 'r) handled" where
  "update_provider d q w a =
     (if prq_Name q = [] then (handleError ''Name is required'' 400 ErrInvalidInput w, a)
      else if prq_IsDefault q
      then (reply (done_message True ''Default provider updated'') w,
            with_router (SetDefaultProvider (ad_providers d) (prq_Name q)) a)
      else (case GetProvider (prq_Name q) (sv_router (ap_server a)) of
          None \<Rightarrow> (handleError ''Provider not found'' 404 ErrProviderNotFound w, a)
        | Some c \<Rightarrow> (reply (done_message True ''Provider updated successfully'') w,
            with_router (AddProvider (ad_providers d) (prq_Name q) (changed_provider q c)) a)))"

definition remove_provider ::
    "('t, 'b, 'w, 'p, 'k, 'r, 'h) AppDeps \<Rightarrow> string \<Rightarrow> Writer \<Rightarrow> ('t, 'b, 'w, 'p, 'k, 'r) App \<Rightarrow>
       ('t, 'b, 'w, 'p, 'k, 'r) handled" where
  "remove_provider d name w a =
     (if name = [] then (handleError ''Name is required'' 400 ErrInvalidInput w, a)
      else (case RemoveProvider (ad_providers d) name (sv_router (ap_server a)) of
          (Some e, r) \<Rightarrow> (handleErrorWithMessage ''Failed to remove provider'' 500 (EPlain e) w, with_router (\<lambda>_. r) a)
        | (None, r) \<Rightarrow> (reply (done_message True ''Provider removed successfully'') w, with_router (\<lambda>_. r) a)))"

text \<open>A handler of a decoded body.\<close>

definition decoded_body ::
    "'q result \<Rightarrow> ('q \<Rightarrow> Writer \<Rightarrow> 'a \<Rightarrow> Writer \<times> 'a) \<Rightarrow> Writer \<Rightarrow> 'a \<Rightarrow> Writer \<times> 'a" where
  "decoded_body body f w a = (case body of
     Inl e \<Rightarrow> (handleErrorWithMessage ''Invalid request body'' 400 (EPlain e) w, a) | Inr q \<Rightarrow> f q w a)"

definition handleAdminProviders ::
    "('t, 'b, 'w, 'p, 'k, 'r, 'h) AppDeps \<Rightarrow> Request \<Rightarrow> Writer \<Rightarrow> ('t, 'b, 'w, 'p, 'k, 'r) App \<Rightarrow>
       ('t, 'b, 'w, 'p, 'k, 'r) handled" where
  "handleAdminProviders d rq w a =
     (let w = json_header w; r = sv_router (ap_server a) in
      if rq_Method rq = ''GET''
      then (reply (AMap [(''providers'', AMapArr (map (provider_entry r) (all_providers (dp_providers (ad_deps d)) r)))]) w, a)
      else if rq_Method rq = ''POST'' then decoded_body (rq_provider rq) (add_provider d) w a
      else if rq_Method rq = ''PUT'' then decoded_body (rq_provider rq) (update_provider d) w a
      else if rq_Method rq = ''DELETE'' then remove_provider d (rq_Query rq ''name'') w a
      else (method_not_allowed w, a))"

text \<open>A handler of the name of a provider that has to be there.\<close>

definition named_provider ::
    "Request \<Rightarrow> (string \<Rightarrow> RouterProvider \<Rightarrow> Writer \<Rightarrow> ('t, 'b, 'w, 'p, 'k, 'r) App \<Rightarrow> ('t, 'b, 'w, 'p, 'k, 'r) handled) \<Rightarrow>
       Writer \<Rightarrow> ('t, 'b, 'w, 'p, 'k, 'r) App \<Rightarrow> ('t, 'b, 'w, 'p, 'k, 'r) handled" where
  "named_provider rq f w a =
     (let w = json_header w in
      if rq_Method rq \<noteq> ''POST'' then (method_not_allowed w, a)
      else decoded_body (rq_name rq) (\<lambda>name w a.
        if name = [] then (handleError ''Name is required'' 400 ErrInvalidInput w, a)
        else (case GetProvider name (sv_router (ap_server a)) of
            None \<Rightarrow> (handleError ''Provider not found'' 404 ErrProviderNotFound w, a)
          | Some c \<Rightarrow> f name c w a)) w a)"

definition test_request :: ChatRequest where
  "test_request = \<lparr>cr_Model = ''test-model'', cr_Messages = [\<lparr>msg_Role = ''user'', msg_Content = ''Hello''\<rparr>],
     cr_Stream = False, cr_Params = None, cr_Seed = None\<rparr>"

definition handleTestProvider ::
    "('t, 'b, 'w, 'p, 'k, 'r, 'h) AppDeps \<Rightarrow> Request \<Rightarrow> Writer \<Rightarrow> ('t, 'b, 'w, 'p, 'k, 'r) App \<Rightarrow>
       ('t, 'b, 'w, 'p, 'k, 'r) handled" where
  "handleTestProvider d rq = named_provider rq (\<lambda>name c w a.
     (case uc_Chat (dp_net (ad_deps d)) (rp_BaseURL c) test_request of
        Inl e \<Rightarrow> (reply (done_message False (''Connection test failed: '' @ e)) w, a)
      | Inr _ \<Rightarrow> (reply (done_message True ''Connection test successful'') w, a)))"

definition handleSetDefaultProvider ::
    "('t, 'b, 'w, 'p, 'k, 'r, 'h) AppDeps \<Rightarrow> Request \<Rightarrow> Writer \<Rightarrow> ('t, 'b, 'w, 'p, 'k, 'r) App \<Rightarrow>
       ('t, 'b, 'w, 'p, 'k, 'r) handled" where
  "handleSetDefaultProvider d rq = named_provider rq (\<lambda>name c w a.
     (reply (done_message True ''Default provider set successfully'') w,
      with_router (SetDefaultProvider (ad_providers d) name) a))"

section \<open>Extensions, budget and API keys\<close>

definition handleAdminExtensions :: "('t, 'b, 'w, 'p, 'k, 'r, 'h) AppDeps \<Rightarrow> Request \<Rightarrow> Writer \<Rightarrow> Writer" where
  "handleAdminExtensions d rq w =
     (let w = json_header w in
      if ad_extensions d = None then reply (AMap [(''extensions'', AArr [])]) w
      else if rq_Method rq = ''GET'' then reply (AMap [(''extensions'', AMapArr (extension_list d))]) w
      else method_not_allowed w)"

definition set_total_budget ::
    "('t, 'b, 'w, 'p, 'k, 'r, 'h) AppDeps \<Rightarrow> f64 \<Rightarrow> Writer \<Rightarrow> ('t, 'b, 'w, 'p, 'k, 'r) App \<Rightarrow>
       ('t, 'b, 'w, 'p, 'k, 'r) handled" where
  "set_total_budget d x w a =
     (let r = (case sv_budget (ap_server a) of
            None \<Rightarrow> (None, None)
          | Some s \<Rightarrow> (case bo_Set (dp_budget (ad_deps d)) x s of (e, s') \<Rightarrow> (e, Some s')));
          a = a\<lparr>ap_server := (ap_server a)\<lparr>sv_budget := snd r\<rparr>\<rparr>
      in (case fst r of
            Some e \<Rightarrow> handleErrorWithMessage ''Failed to set budget'' 500 (EPlain e) w
          | None \<Rightarrow> reply (done_message True ''Budget updated successfully'') w, a))"

definition handleAdminBudget ::
    "('t, 'b, 'w, 'p, 'k, 'r, 'h) AppDeps \<Rightarrow> Request \<Rightarrow> Writer \<Rightarrow> ('t, 'b, 'w, 'p, 'k, 'r) App \<Rightarrow>
       ('t, 'b, 'w, 'p, 'k, 'r) handled" where
  "handleAdminBudget d rq w a =
     (let w = json_header w in
      if rq_Method rq = ''GET'' then (reply (budget_info d a) w, a)
      else if rq_Method rq = ''POST'' then decoded_body (rq_total rq) (set_total_budget d) w a
      else (method_not_allowed w, a))"

definition key_entry :: "APIKey \<Rightarrow> amap" where
  "key_entry k = [(''key_id'', AString (ak_KeyID k)), (''name'', AString (ak_Name k)),
     (''created'', AString (RFC3339Nano (ak_CreatedAt k))), (''is_active'', ABool (ak_IsActive k))]"

definition key_list :: "('t, 'b, 'w, 'p, 'k, 'r, 'h) AppDeps \<Rightarrow> ('t, 'b, 'w, 'p, 'k, 'r) App \<Rightarrow> amap list" where
  "key_list d a = (case map_option (ko_List (ad_keys d)) (ap_keys a) of
     Some (Inr ks) \<Rightarrow> map key_entry ks | _ \<Rightarrow> [])"

text \<open>The key is created with an empty hash and an empty prefix, and is not sent back.\<close>

definition create_key ::
    "('t, 'b, 'w, 'p, 'k, 'r, 'h) AppDeps \<Rightarrow> string \<Rightarrow> Writer \<Rightarrow> ('t, 'b, 'w, 'p, 'k, 'r) App \<Rightarrow>
       ('t, 'b, 'w, 'p, 'k, 'r) handled" where
  "create_key d name w a =
     (let r = (case ap_keys a of
            None \<Rightarrow> (None, None)
          | Some s \<Rightarrow> (case ko_Create (ad_keys d) [] [] name [] None [''read'', ''write''] s of
              (Inl e, s') \<Rightarrow> (Some e, Some s') | (Inr _, s') \<Rightarrow> (None, Some s')))
      in (case fst r of
            Some e \<Rightarrow> handleErrorWithMessage ''Failed to create API key'' 500 (EPlain e) w
          | None \<Rightarrow> reply (done_message True ''API key created successfully'') w, a\<lparr>ap_keys := snd r\<rparr>))"

definition delete_key ::
    "('t, 'b, 'w, 'p, 'k, 'r, 'h) AppDeps \<Rightarrow> string \<Rightarrow> Writer \<Rightarrow> ('t, 'b, 'w, 'p, 'k, 'r) App \<Rightarrow>
       ('t, 'b, 'w, 'p, 'k, 'r) handled" where
  "delete_key d keyID w a =
     (if keyID = [] then (handleError ''key_id is required'' 400 ErrInvalidInput w, a)
      else let r = (case ap_keys a of
                 None \<Rightarrow> (None, None)
               | Some s \<Rightarrow> (case ko_Delete (ad_keys d) keyID s of (e, s') \<Rightarrow> (e, Some s')))
           in (case fst r of
                 Some e \<Rightarrow> handleErrorWithMessage ''Failed to delete API key'' 500 (EPlain e) w
               | None \<Rightarrow> reply (done_message True ''API key deleted successfully'') w, a\<lparr>ap_keys := snd r\<rparr>))"

definition handleAdminAPIKeys ::
    "('t, 'b, 'w, 'p, 'k, 'r, 'h) AppDeps \<Rightarrow> Request \<Rightarrow> Writer \<Rightarrow> ('t, 'b, 'w, 'p, 'k, 'r) App \<Rightarrow>
       ('t, 'b, 'w, 'p, 'k, 'r) handled" where
  "handleAdminAPIKeys d rq w a =
     (let w = json_header w in
      if rq_Method rq = ''GET'' then (reply (AMap [(''keys'', AMapArr (key_list d a))]) w, a)
      else if rq_Method rq = ''POST'' then decoded_body (rq_name rq) (create_key d) w a
      else if rq_Method rq = ''DELETE'' then delete_key d (rq_Query rq ''key_id'') w a
      else (method_not_allowed w, a))"

section \<open>The dispatch\<close>

definition handle_chat ::
    "('t, 'b, 'w, 'p, 'k, 'r, 'h) AppDeps \<Rightarrow> string \<Rightarrow> string \<Rightarrow> Request \<Rightarrow> Writer \<Rightarrow>
       ('t, 'b, 'w, 'p, 'k, 'r) App \<Rightarrow> ('t, 'b, 'w, 'p, 'k, 'r) handled" where
  "handle_chat d traceID sessionID rq w a =
     (case handleChatCompletions (ad_deps d) traceID sessionID (rq_Method rq) (rq_Header rq) (rq_chat rq) w (ap_server a) of
        (_, w, srv) \<Rightarrow> (w, a\<lparr>ap_server := srv\<rparr>))"

definition not_found :: "Writer \<Rightarrow> Writer" where
  "not_found w = handleError ''Not found'' 404 ErrBaselineNotFound w"

text \<open>\<open>traceID\<close> and \<open>sessionID\<close> are the identifiers drawn for this request.\<close>

definition ServeHTTP ::
    "('t, 'b, 'w, 'p, 'k, 'r, 'h) AppDeps \<Rightarrow> string \<Rightarrow> string \<Rightarrow> Request \<Rightarrow> Writer \<Rightarrow>
       ('t, 'b, 'w, 'p, 'k, 'r) App \<Rightarrow> ('t, 'b, 'w, 'p, 'k, 'r) handled" where
  "ServeHTTP d traceID sessionID rq w a =
     (let path = rq_Path rq; dd = ad_deps d; srv = ap_server a in
      if path = ''/v1/chat/completions'' then handle_chat d traceID sessionID rq w a
      else if path = ''/v1/models'' then (handleModels d w a, a)
      else if path = ''/health'' then (handleHealthCheck w, a)
      else if path = ''/v1/monitor'' then (handleMonitor d w a, a)
      else if path = ''/v1/monitor/metrics'' then (handleMonitorMetrics d w a, a)
      else if path = ''/v1/monitor/models'' then (handleMonitorModels d w a, a)
      else if path = ''/v1/monitor/extensions'' then (handleMonitorExtensions d w, a)
      else if path = ''/v1/monitor/traces'' then (handleMonitorTraces d rq w a, a)
      else if path = ''/v1/monitor/traces-list'' then (handleTracesList d rq w a, a)
      else if path = ''/v1/monitor/budget'' then (handleMonitorBudget d w a, a)
      else if path = ''/v1/monitor/risk-reports'' then (handleMonitorRiskReports d rq w a, a)
      else if path = ''/v1/replay-eval'' then handleReplayEval d traceID sessionID rq w a
      else if path = ''/v1/admin/providers'' then handleAdminProviders d rq w a
      else if path = ''/v1/admin/providers/test'' then handleTestProvider d rq w a
      else if path = ''/v1/admin/providers/set-default'' then handleSetDefaultProvider d rq w a
      else if path = ''/v1/admin/extensions'' then (handleAdminExtensions d rq w, a)
      else if path = ''/v1/admin/budget'' then handleAdminBudget d rq w a
      else if path = ''/v1/admin/api-keys'' then handleAdminAPIKeys d rq w a
      else if path = ''/v1/verify/trace'' then (handleVerifyTrace dd (rq_Method rq) (rq_Query rq) w srv, a)
      else if HasPrefix path ''/v1/verify/trace/'' \<and> TrimPrefix path ''/v1/verify/trace/'' \<noteq> []
      then (handleVerifyTraceByID dd (rq_Method rq) (TrimPrefix path ''/v1/verify/trace/'') w srv, a)
      else (not_found w, a))"

end
