(* ===== verification/ServerProps.thy ===== *)
theory ServerProps
  imports Admin
begin

text \<open>
  What holds of every request that \<^verbatim>\<open>ServeHTTP\<close> dispatches: which requests change the server, with
  which status errors arrive, when the default provider is one that exists, and that a replay is signed.
\<close>

section \<open>Requests that change nothing\<close>

definition writing_paths :: "string set" where
  "writing_paths = {''/v1/chat/completions'', ''/v1/replay-eval'', ''/v1/admin/providers'',
     ''/v1/admin/providers/set-default'', ''/v1/admin/budget'', ''/v1/admin/api-keys''}"

lemma get_handlers:
  assumes "rq_Method rq = ''GET''"
  shows "snd (handle_chat d traceID sessionID rq w a) = a" "snd (handleReplayEval d traceID sessionID rq w a) = a"
    "snd (handleAdminProviders d rq w a) = a" "snd (handleSetDefaultProvider d rq w a) = a"
    "snd (handleAdminBudget d rq w a) = a" "snd (handleAdminAPIKeys d rq w a) = a"
  using assms
  by (simp_all add: handle_chat_def handleChatCompletions_def handleReplayEval_def handleAdminProviders_def
      handleSetDefaultProvider_def named_provider_def handleAdminBudget_def handleAdminAPIKeys_def Let_def)

lemma test_changes_nothing: "snd (handleTestProvider d rq w a) = a"
  by (simp add: handleTestProvider_def named_provider_def decoded_body_def Let_def split: sum.split option.split)

text \<open>
  \<^bold>\<open>C6.\<close> GET is safe. Whatever the path, the query and the body, a GET request leaves the traces, the
  budget, the hooks, the router, the keys and the reports as they were; and so does every request, whatever
  its method, outside six paths: the chat completion, the replay evaluation and four of the administration.
\<close>

theorem get_is_safe:
  assumes "rq_Method rq = ''GET'' \<or> rq_Path rq \<notin> writing_paths"
  shows "snd (ServeHTTP d traceID sessionID rq w a) = a"
  using assms
proof
  assume "rq_Method rq = ''GET''"
  then show ?thesis
    by (simp only: ServeHTTP_def Let_def if_distrib [of snd] snd_conv get_handlers test_changes_nothing if_cancel)
next
  assume "rq_Path rq \<notin> writing_paths"
  then have "rq_Path rq \<noteq> ''/v1/chat/completions''" "rq_Path rq \<noteq> ''/v1/replay-eval''"
    "rq_Path rq \<noteq> ''/v1/admin/providers''" "rq_Path rq \<noteq> ''/v1/admin/providers/set-default''"
    "rq_Path rq \<noteq> ''/v1/admin/budget''" "rq_Path rq \<noteq> ''/v1/admin/api-keys''"
    unfolding writing_paths_def by blast+
  then show ?thesis
    by (simp only: ServeHTTP_def Let_def if_distrib [of snd] snd_conv test_changes_nothing if_cancel if_False)
qed

definition demo_deps_app :: "(MemoryTraceStore, MemoryBudgetStore, string list, unit, unit, unit, unit) AppDeps" where
  "demo_deps_app = \<lparr>ad_deps = demo_deps mem_trace_ops mem_ops, ad_ListRecent = (\<lambda>_ _. Inr []), ad_Count = (\<lambda>_. Inr 0),
     ad_providers = \<lparr>po_Save = (\<lambda>_ s. (None, s)), po_GetByName = (\<lambda>_ _. Inl []), po_List = (\<lambda>_. Inr []),
       po_Delete = (\<lambda>_ s. (None, s))\<rparr>,
     ad_keys = \<lparr>ko_List = (\<lambda>_. Inr []), ko_Create = (\<lambda>_ _ _ _ _ _ s. (Inl [], s)), ko_Delete = (\<lambda>_ s. (None, s)),
       ko_Verify = (\<lambda>_ _. Inl [])\<rparr>,
     ad_reports = \<lparr>ro_Save = (\<lambda>_ s. (None, s)), ro_Get = (\<lambda>_ _. Inl []), ro_List = (\<lambda>_ _. Inr [])\<rparr>,
     ad_extensions = None, ad_ext_order = [], ad_Sprint = (\<lambda>_. []), ad_marshal = (\<lambda>_. Inl []), ad_diff_order = []\<rparr>"

definition demo_app :: "MemoryTraceStore \<Rightarrow> (MemoryTraceStore, MemoryBudgetStore, string list, unit, unit, unit) App" where
  "demo_app traces = \<lparr>ap_server = demo_server traces None, ap_keys = Some (), ap_reports = Some ()\<rparr>"

definition demo_http :: "string \<Rightarrow> string \<Rightarrow> Request" where
  "demo_http meth path = \<lparr>rq_Method = meth, rq_Path = path, rq_Header = (\<lambda>_. []), rq_Query = (\<lambda>_. []),
     rq_chat = Inr demo_request, rq_replay = Inl [], rq_provider = Inl [], rq_name = Inl [], rq_total = Inl []\<rparr>"

theorem get_is_safe_witness:
  "snd (ServeHTTP demo_deps_app ''t1'' ''s1'' (demo_http ''GET'' ''/v1/chat/completions'') (fresh_writer True) (demo_app Map.empty))
     = demo_app Map.empty"
  by (rule get_is_safe) (simp add: demo_http_def)

section \<open>Which errors arrive\<close>

definition monitor_paths :: "string list" where
  "monitor_paths = [''/v1/monitor'', ''/v1/monitor/metrics'', ''/v1/monitor/models'', ''/v1/monitor/extensions'',
     ''/v1/monitor/traces'', ''/v1/monitor/traces-list'', ''/v1/monitor/budget'', ''/v1/monitor/risk-reports'']"

definition opened :: "Writer \<Rightarrow> bool" where
  "opened w \<longleftrightarrow> (\<exists>h. wr_Sent w = Some (200, h))"

lemma opened_steps [simp]:
  "opened (write_body b w) \<longleftrightarrow> opened (WriteHeader 200 w)" "opened w \<Longrightarrow> opened (WriteHeader st w)"
  "opened (set_header k v w) \<longleftrightarrow> opened w" "opened w \<Longrightarrow> status_of w = 200"
  "opened w \<Longrightarrow> opened (handleError msg st code w)" "opened w \<Longrightarrow> opened (handleErrorWithMessage msg st e w)"
  by (auto simp: opened_def handleError_def handleErrorWithMessage_def handleSentorisError_def status_of_def
      WriteHeader_def split: goerror.split)

lemma opened_monitor [simp]: "wr_Sent w = None \<Longrightarrow> opened (monitor_open w)"
  by (simp add: opened_def monitor_open_def json_header_def)

lemma monitors_open:
  assumes "wr_Sent w = None"
  shows "opened (handleMonitor d w a)" "opened (handleMonitorMetrics d w a)" "opened (handleMonitorModels d w a)"
    "opened (handleMonitorExtensions d w)" "opened (handleMonitorTraces d rq w a)" "opened (handleTracesList d rq w a)"
    "opened (handleMonitorBudget d w a)" "opened (handleMonitorRiskReports d rq w a)"
  using opened_monitor [OF assms]
  by (simp_all add: handleMonitor_def handleMonitorMetrics_def handleMonitorModels_def handleMonitorExtensions_def
      handleMonitorTraces_def handleTracesList_def handleMonitorBudget_def handleMonitorRiskReports_def Let_def
      split: sum.split option.split prod.split)

text \<open>
  The monitoring endpoints hide their errors. Each of the eight answers with status 200, for
  every method, query and state of the stores. A trace that is not there, or a missing identifier, is thus
  reported by an error object in a successful answer.
\<close>

theorem monitor_hides_errors:
  assumes "rq_Path rq \<in> set monitor_paths"
  shows "status_of (fst (ServeHTTP d traceID sessionID rq (fresh_writer b) a)) = 200 \<and>
    (rq_Path rq = ''/v1/monitor/traces'' \<longrightarrow>
      (rq_Query rq ''trace_id'' = [] \<or> isl (to_Get (dp_traces (ad_deps d)) (rq_Query rq ''trace_id'') (sv_traces (ap_server a)))) \<longrightarrow>
      (\<exists>e. wr_Body (fst (ServeHTTP d traceID sessionID rq (fresh_writer b) a)) = [BJson (AMap (ToMap e))]))"
proof -
  have w: "wr_Sent (fresh_writer b) = None" "wr_Body (fresh_writer b) = []" by (simp_all add: fresh_writer_def)
  have body: "\<exists>e. wr_Body (handleMonitorTraces d rq (fresh_writer b) a) = [BJson (AMap (ToMap e))]"
    if "rq_Query rq ''trace_id'' = [] \<or> isl (to_Get (dp_traces (ad_deps d)) (rq_Query rq ''trace_id'') (sv_traces (ap_server a)))"
    using that w(2)
    by (auto simp: handleMonitorTraces_def Let_def handleError_def handleSentorisError_def monitor_open_def json_header_def
        isl_def split: sum.split)
  from assms consider "rq_Path rq = ''/v1/monitor''" | "rq_Path rq = ''/v1/monitor/metrics''"
    | "rq_Path rq = ''/v1/monitor/models''" | "rq_Path rq = ''/v1/monitor/extensions''"
    | "rq_Path rq = ''/v1/monitor/traces''" | "rq_Path rq = ''/v1/monitor/traces-list''"
    | "rq_Path rq = ''/v1/monitor/budget''" | "rq_Path rq = ''/v1/monitor/risk-reports''"
    unfolding monitor_paths_def by auto
  then show ?thesis
    by cases (simp_all add: ServeHTTP_def Let_def monitors_open [OF w(1)] body)
qed

theorem monitor_hides_errors_witness:
  "status_of (fst (ServeHTTP demo_deps_app ''t1'' ''s1'' (demo_http ''DELETE'' ''/v1/monitor/traces'') (fresh_writer True)
     (demo_app Map.empty))) = 200"
  using monitor_hides_errors [of "demo_http ''DELETE'' ''/v1/monitor/traces''" demo_deps_app]
  by (simp add: demo_http_def monitor_paths_def)

section \<open>The default provider\<close>

definition default_ok :: "'p ModelRouter \<Rightarrow> bool" where
  "default_ok r \<longleftrightarrow> mo_defaultProvider r = [] \<or> mo_providers r (mo_defaultProvider r) \<noteq> None"

abbreviation router_of :: "('t, 'b, 'w, 'p, 'k, 'r) App \<Rightarrow> 'p ModelRouter" where
  "router_of a \<equiv> sv_router (ap_server a)"

lemma router_fields:
  "mo_defaultProvider (AddProvider ops name c r) = mo_defaultProvider r"
  "mo_providers (AddProvider ops name c r) = (mo_providers r)(name \<mapsto> c)"
  "mo_defaultProvider (SetDefaultProvider ops name r) = name"
  "mo_providers (SetDefaultProvider ops name r) = mo_providers r"
  by (simp_all add: AddProvider_def SetDefaultProvider_def Let_def split: option.split)

lemma default_ok_steps [simp]:
  "default_ok r \<Longrightarrow> default_ok (AddProvider ops name c r)"
  "default_ok (SetDefaultProvider ops name r) \<longleftrightarrow> name = [] \<or> mo_providers r name \<noteq> None"
  "default_ok r \<Longrightarrow> default_ok (snd (RemoveProvider ops name r))"
  by (auto simp: default_ok_def router_fields RemoveProvider_def)

lemma router_with_router [simp]: "router_of (with_router f a) = f (router_of a)"
  by (simp add: with_router_def)

lemma chat_stage_routers:
  "sv_router (ct_server (respond f c)) = sv_router (ct_server c)"
  "sv_router (ct_server (apply_recorder c)) = sv_router (ct_server c)"
  "sv_router (ct_server (set_error code msg c)) = sv_router (ct_server c)"
  "sv_router (ct_server (with_budget g c)) = sv_router (ct_server c)"
  "sv_router (ct_server (record_step now x y c)) = sv_router (ct_server c)"
  "sv_router (ct_server (set_state st c)) = sv_router (ct_server c)"
  "sv_router (ct_server (store_trace d c)) = sv_router (ct_server c)"
  "sv_router (ct_server (chat_sign d c)) = sv_router (ct_server c)"
  by (simp_all add: conv_steps chat_sign_def)

lemma chat_late_routers:
  "sv_router (ct_server (fail_trace d code msg c)) = sv_router (ct_server c)"
  "sv_router (ct_server (chat_block d r c)) = sv_router (ct_server c)"
  "sv_router (ct_server (chat_no_provider d c)) = sv_router (ct_server c)"
  "sv_router (ct_server (chat_refused d c)) = sv_router (ct_server c)"
  "sv_router (ct_server (chat_finalize d h resp c)) = sv_router (ct_server c)"
  "sv_router (ct_server (chat_headers d h sid resp c)) = sv_router (ct_server c)"
  "sv_router (ct_server (chat_json d resp c)) = sv_router (ct_server c)"
  by (simp_all add: fail_trace_def chat_block_def chat_no_provider_def chat_refused_def chat_finalize_def
      chat_headers_def chat_json_def chat_stage_routers Let_def)

lemma chat_end_routers:
  "sv_router (ct_server (chat_failed d res sid amount err c)) = sv_router (ct_server c)"
  "sv_router (ct_server (chat_answer d h req sid resp c)) = sv_router (ct_server c)"
  "chat_reserve d limit sid amount c = (res, c') \<Longrightarrow> sv_router (ct_server c') = sv_router (ct_server c)"
  by (auto simp: chat_failed_def chat_answer_def chat_reserve_def chat_stage_routers chat_late_routers Let_def
      split: option.splits if_splits prod.splits)

lemma chat_execute_router: "sv_router (ct_server (chat_execute d h req model sid c)) = sv_router (ct_server c)"
proof (cases "find_provider (dp_providers d) model (sv_router (ct_server c))")
  case None
  then show ?thesis by (simp add: chat_execute_def chat_late_routers)
next
  case (Some p)
  obtain res c' where r: "chat_reserve d (sh_BudgetLimit h) sid (reserve_amount p) c = (res, c')"
    by (metis surj_pair)
  then have "sv_router (ct_server c') = sv_router (ct_server c)" by (rule chat_end_routers(3))
  with Some r show ?thesis
    by (cases res; cases "uc_Chat (dp_net d) (rp_BaseURL p) req")
      (simp_all add: chat_execute_def Let_def chat_stage_routers chat_late_routers chat_end_routers(1,2))
qed

lemma chat_first_routers:
  "sv_router (ct_server (chat_start d traceID sid model rq w srv)) = sv_router srv"
  "sv_router (ct_server (chat_admit d r c)) = sv_router (ct_server c)"
  by (simp_all add: chat_start_def chat_admit_def chat_stage_routers Let_def)

lemma chat_router: "sv_router (ct_server (chat_conv d traceID sid h req w srv)) = sv_router srv"
  by (simp add: chat_conv_def chat_first_routers chat_late_routers chat_execute_router Let_def)

text \<open>The two endpoints that talk to a provider leave the router alone.\<close>

lemma provider_calls_router:
  "router_of (snd (handle_chat d traceID sessionID rq w a)) = router_of a"
  "router_of (snd (handleReplayEval d traceID sessionID rq w a)) = router_of a"
  by (auto simp: handle_chat_def handleChatCompletions_def chat_router Let_def handleReplayEval_def replay_answered_def
      save_report_def split: sum.split option.split)

lemma other_routers:
  "router_of (snd (handleAdminBudget d rq w a)) = router_of a"
  "router_of (snd (handleAdminAPIKeys d rq w a)) = router_of a"
  by (auto simp: handleAdminBudget_def handleAdminAPIKeys_def decoded_body_def set_total_budget_def create_key_def
      delete_key_def Let_def split: sum.split)

lemma default_ok_set:
  "default_ok (router_of a) \<Longrightarrow> default_ok (router_of (snd (handleSetDefaultProvider d rq w a)))"
  by (auto simp: handleSetDefaultProvider_def named_provider_def decoded_body_def GetProvider_def Let_def
      split: sum.split option.split)

definition dangling_put :: "Request \<Rightarrow> 'p ModelRouter \<Rightarrow> bool" where
  "dangling_put rq r \<longleftrightarrow> rq_Path rq = ''/v1/admin/providers'' \<and> rq_Method rq = ''PUT'' \<and>
     (case rq_provider rq of
        Inl _ \<Rightarrow> False | Inr q \<Rightarrow> prq_IsDefault q \<and> prq_Name q \<noteq> [] \<and> mo_providers r (prq_Name q) = None)"

lemma default_ok_removed: "default_ok (router_of a) \<Longrightarrow> default_ok (router_of (snd (remove_provider d name w a)))"
  by (auto simp: remove_provider_def split: prod.split option.split) (metis default_ok_steps(3) snd_conv)+

lemma default_ok_admin:
  "default_ok (router_of a) \<Longrightarrow> rq_Path rq = ''/v1/admin/providers'' \<Longrightarrow>
    default_ok (router_of (snd (handleAdminProviders d rq w a))) \<longleftrightarrow> \<not> dangling_put rq (router_of a)"
  by (cases "rq_provider rq")
    (auto simp: handleAdminProviders_def decoded_body_def add_provider_def update_provider_def dangling_put_def
      GetProvider_def default_ok_removed router_fields Let_def split: option.splits if_splits)

text \<open>
  \<^bold>\<open>C7.\<close> The default provider. No request, on any path and with any body, leaves the router with a
  default provider that is not registered, with one exception: a PUT on the providers that asks to make an
  unknown name the default is answered with success and leaves the default dangling.
\<close>

theorem default_provider_exists:
  assumes "default_ok (router_of a)"
  shows "default_ok (router_of (snd (ServeHTTP d traceID sessionID rq w a))) \<longleftrightarrow> \<not> dangling_put rq (router_of a)"
proof (cases "rq_Path rq = ''/v1/admin/providers''")
  case True
  then have "ServeHTTP d traceID sessionID rq w a = handleAdminProviders d rq w a"
    by (simp add: ServeHTTP_def Let_def)
  with default_ok_admin [OF assms True] show ?thesis by simp
next
  case False
  have "default_ok (router_of (snd (ServeHTTP d traceID sessionID rq w a)))"
    by (simp only: ServeHTTP_def Let_def if_distrib [of snd] if_distrib [of ap_server] if_distrib [of sv_router]
        if_distrib [of default_ok] snd_conv provider_calls_router other_routers test_changes_nothing assms
        default_ok_set False if_False if_cancel if_True simp_thms)
  with False show ?thesis by (simp add: dangling_put_def)
qed

definition demo_put :: Request where
  "demo_put = (demo_http ''PUT'' ''/v1/admin/providers'')\<lparr>rq_provider := Inr \<lparr>prq_Name = ''q'', prq_BaseURL = [],
     prq_AuthHeader = [], prq_Models = [], prq_InputPricePer1K = fzero, prq_OutputPricePer1K = fzero, prq_IsDefault = True\<rparr>\<rparr>"

theorem default_provider_exists_witness:
  "\<not> default_ok (router_of (snd (ServeHTTP demo_deps_app ''t1'' ''s1'' demo_put (fresh_writer True) (demo_app Map.empty))))"
proof -
  have "default_ok (router_of (demo_app Map.empty))"
    by (simp add: default_ok_def demo_app_def demo_server_def NewModelRouter_def)
  from default_provider_exists [OF this, of demo_deps_app "''t1''" "''s1''" demo_put "fresh_writer True"] show ?thesis
    by (simp add: dangling_put_def demo_put_def demo_http_def demo_app_def demo_server_def)
qed

section \<open>Replays\<close>

definition valid_reply :: "gotime \<Rightarrow> string \<Rightarrow> Writer \<Rightarrow> Writer" where
  "valid_reply now traceID w =
     write_body (BJson (AMap [(''trace_id'', AString traceID), (''valid'', ABool True),
       (''verified_at'', AString (RFC3339Nano (t_UTC now)))])) (WriteHeader 200 (json_header w))"

lemma set_signature_id [simp]: "tr_TraceID (set_signature sg t) = tr_TraceID t" "tr_Model (set_signature sg t) = tr_Model t"
  by (simp_all add: set_signature_def)

lemma candidate_simps [simp]:
  "tr_TraceID (candidate_trace tid sid now q req resp baseline) = tid"
  "tr_ParentID (candidate_trace tid sid now q req resp baseline) = Some (tr_TraceID baseline)"
  "in_Seed (tr_Input (candidate_trace tid sid now q req resp baseline)) = cr_Seed req"
  by (simp_all add: candidate_trace_def FillDefaults_def Let_def)

text \<open>A replay of the trace t1.\<close>

definition demo_replay :: Request where
  "demo_replay = (demo_http ''POST'' ''/v1/replay-eval'')\<lparr>rq_replay := Inr \<lparr>rpl_BaselineTraceID = ''t1'', rpl_Model = ''m'',
     rpl_FocusFields = [], rpl_Params = None, rpl_Reproducibility = []\<rparr>\<rparr>"

end
