(* ===== verification/Security.thy ===== *)
theory Security
  imports Prelude "HOL-Library.Multiset"
begin

text \<open>
  The key manager of \<^verbatim>\<open>internal/service/security/key_manager.go\<close>: pools of provider keys handed
  out in turn, API keys of the configuration, and JWTs over the library \<^verbatim>\<open>golang-jwt\<close>, which is a
  parameter, as are the files and the parsers of the RSA keys.
\<close>

section \<open>Pools of keys\<close>

record KeyPool =
  kp_keys :: "string list"
  kp_usage :: "string \<rightharpoonup> int"
  kp_provider :: string

definition NewKeyPool :: "string \<Rightarrow> KeyPool" where
  "NewKeyPool provider = \<lparr>kp_keys = [], kp_usage = Map.empty, kp_provider = provider\<rparr>"

definition AddKey :: "string \<Rightarrow> KeyPool \<Rightarrow> KeyPool" where
  "AddKey key p = p\<lparr>kp_keys := kp_keys p @ [key], kp_usage := (kp_usage p)(key \<mapsto> 0)\<rparr>"

text \<open>The loop over the usage map, in the order \<open>ks\<close>: the first key with the least use below the greatest number.\<close>

fun least_used :: "(string \<rightharpoonup> int) \<Rightarrow> string list \<Rightarrow> string \<times> int \<Rightarrow> string \<times> int" where
  "least_used usage [] best = best"
| "least_used usage (k # ks) best =
     least_used usage ks (if the (usage k) < snd best then (k, the (usage k)) else best)"

definition incr64 :: "int \<Rightarrow> int" where
  "incr64 n = (if n = 9223372036854775807 then - 9223372036854775808 else n + 1)"

definition Next :: "string list \<Rightarrow> KeyPool \<Rightarrow> string result \<times> KeyPool" where
  "Next ks p =
     (if kp_keys p = [] then (Inl ''no keys in pool'', p)
      else let key = fst (least_used (kp_usage p) ks ([], 9223372036854775807));
               key = (if key = [] then hd (kp_keys p) else key);
               n = (case kp_usage p key of Some n \<Rightarrow> n | None \<Rightarrow> 0)
           in (Inr key, p\<lparr>kp_usage := (kp_usage p)(key \<mapsto> incr64 n)\<rparr>))"

section \<open>The key manager\<close>

record ('priv, 'pub) KeyManager =
  km_privateKey :: "'priv option"
  km_publicKey :: "'pub option"
  km_jwtSecret :: string
  km_apiKeys :: "string list"
  km_keyPools :: "string \<rightharpoonup> KeyPool"

text \<open>Files in the temporary directory, PEM blocks with type and bytes, and the parsers of \<^verbatim>\<open>x509\<close>.\<close>

record ('priv, 'pub) KeyFiles =
  kf_ReadFile :: "string \<Rightarrow> string result"
  kf_pem :: "string \<Rightarrow> (string \<times> string) option"
  kf_private :: "string \<Rightarrow> 'priv result"
  kf_public :: "string \<Rightarrow> 'pub result"

definition pem_block :: "('priv, 'pub) KeyFiles \<Rightarrow> string \<Rightarrow> string \<Rightarrow> string \<Rightarrow> string result" where
  "pem_block io typ err contents = (case kf_pem io contents of
     None \<Rightarrow> Inl err | Some (t, bytes) \<Rightarrow> if t \<noteq> typ then Inl err else Inr bytes)"

definition loadRSAKeys ::
    "('priv, 'pub) KeyFiles \<Rightarrow> ('priv, 'pub) KeyManager \<Rightarrow> string option \<times> ('priv, 'pub) KeyManager" where
  "loadRSAKeys io km =
     (case bind_result (kf_ReadFile io ''sentoris_private.pem'') (\<lambda>privateData.
           bind_result (kf_ReadFile io ''sentoris_public.pem'') (\<lambda>publicData.
           bind_result (pem_block io ''RSA PRIVATE KEY'' ''failed to decode private key'' privateData) (\<lambda>b.
           bind_result (kf_private io b) (\<lambda>priv.
           bind_result (pem_block io ''RSA PUBLIC KEY'' ''failed to decode public key'' publicData) (\<lambda>b.
           map_ok (\<lambda>pub. (priv, pub)) (kf_public io b)))))) of
        Inl e \<Rightarrow> (Some e, km)
      | Inr (priv, pub) \<Rightarrow> (None, km\<lparr>km_privateKey := Some priv, km_publicKey := Some pub\<rparr>))"

definition generateRSAKeys :: "('priv, 'pub) KeyManager \<Rightarrow> string option" where
  "generateRSAKeys km = None"

definition NewKeyManager :: "('priv, 'pub) KeyFiles \<Rightarrow> string \<Rightarrow> ('priv, 'pub) KeyManager" where
  "NewKeyManager io jwtSecret =
     snd (loadRSAKeys io \<lparr>km_privateKey = None, km_publicKey = None, km_jwtSecret = jwtSecret, km_apiKeys = [],
       km_keyPools = [''openai'' \<mapsto> NewKeyPool ''openai'', ''deepseek'' \<mapsto> NewKeyPool ''deepseek'',
         ''qwen'' \<mapsto> NewKeyPool ''qwen'']\<rparr>)"

definition GetPrivateKey :: "('priv, 'pub) KeyManager \<Rightarrow> 'priv option" where
  "GetPrivateKey km = km_privateKey km"

definition GetPublicKey :: "('priv, 'pub) KeyManager \<Rightarrow> 'pub option" where
  "GetPublicKey km = km_publicKey km"

text \<open>A parsed token: whether its method is an HMAC, the algorithm of its header, its claims, and its validity.\<close>

record 'c JwtToken =
  jt_HMAC :: bool
  jt_alg :: string
  jt_claims :: "'c option"
  jt_Valid :: bool

record 'c JwtLibrary =
  jl_Sign :: "string \<Rightarrow> 'c \<Rightarrow> string result"
  jl_Parse :: "('c JwtToken \<Rightarrow> string result) \<Rightarrow> string \<Rightarrow> 'c JwtToken result"

definition GenerateJWT :: "'c JwtLibrary \<Rightarrow> 'c \<Rightarrow> ('priv, 'pub) KeyManager \<Rightarrow> string result" where
  "GenerateJWT lib claims km = jl_Sign lib (km_jwtSecret km) claims"

definition jwt_key :: "('priv, 'pub) KeyManager \<Rightarrow> 'c JwtToken \<Rightarrow> string result" where
  "jwt_key km token =
     (if \<not> jt_HMAC token then Inl (''unexpected signing method: '' @ jt_alg token) else Inr (km_jwtSecret km))"

definition ValidateJWT :: "'c JwtLibrary \<Rightarrow> string \<Rightarrow> ('priv, 'pub) KeyManager \<Rightarrow> 'c result" where
  "ValidateJWT lib tokenString km = (case jl_Parse lib (jwt_key km) tokenString of
     Inl e \<Rightarrow> Inl e
   | Inr token \<Rightarrow> (case jt_claims token of
       Some claims \<Rightarrow> if jt_Valid token then Inr claims else Inl ''invalid token''
     | None \<Rightarrow> Inl ''invalid token''))"

definition GenerateAuditKey :: "('priv, 'pub) KeyManager \<Rightarrow> string result" where
  "GenerateAuditKey km = Inr (km_jwtSecret km)"

definition AddProviderKey :: "string \<Rightarrow> string \<Rightarrow> ('priv, 'pub) KeyManager \<Rightarrow> ('priv, 'pub) KeyManager" where
  "AddProviderKey provider key km =
     (let pool = (case km_keyPools km provider of Some p \<Rightarrow> p | None \<Rightarrow> NewKeyPool provider)
      in km\<lparr>km_keyPools := (km_keyPools km)(provider \<mapsto> AddKey key pool)\<rparr>)"

definition GetProviderKey ::
    "string list \<Rightarrow> string \<Rightarrow> ('priv, 'pub) KeyManager \<Rightarrow> string result \<times> ('priv, 'pub) KeyManager" where
  "GetProviderKey ks provider km = (case km_keyPools km provider of
     None \<Rightarrow> (Inl (''provider not found: '' @ provider), km)
   | Some pool \<Rightarrow> (case Next ks pool of
       (r, pool') \<Rightarrow> (r, km\<lparr>km_keyPools := (km_keyPools km)(provider \<mapsto> pool')\<rparr>)))"

definition ListProviders :: "string list \<Rightarrow> ('priv, 'pub) KeyManager \<Rightarrow> string list" where
  "ListProviders order km = order"

definition AddAPIKey :: "string \<Rightarrow> ('priv, 'pub) KeyManager \<Rightarrow> ('priv, 'pub) KeyManager" where
  "AddAPIKey key km = km\<lparr>km_apiKeys := km_apiKeys km @ [key]\<rparr>"

definition ValidateAPIKey :: "string \<Rightarrow> ('priv, 'pub) KeyManager \<Rightarrow> bool" where
  "ValidateAPIKey key km = list_ex (\<lambda>k. k = key) (km_apiKeys km)"

definition ListAPIKeys :: "('priv, 'pub) KeyManager \<Rightarrow> string list" where
  "ListAPIKeys km = km_apiKeys km"

section \<open>Keys are handed out in turn\<close>

fun next_run :: "string list list \<Rightarrow> KeyPool \<Rightarrow> string result list \<times> KeyPool" where
  "next_run [] p = ([], p)"
| "next_run (ks # orders) p = (case Next ks p of (r, p') \<Rightarrow> (case next_run orders p' of (rs, q) \<Rightarrow> (r # rs, q)))"

lemma least_used_min:
  "\<exists>k \<in> insert (fst best) (set ks). fst (least_used u ks best) = k \<and> snd (least_used u ks best) \<le> snd best \<and>
     (\<forall>k \<in> set ks. snd (least_used u ks best) \<le> the (u k)) \<and>
     (least_used u ks best = best \<or> fst (least_used u ks best) \<in> set ks \<and>
        snd (least_used u ks best) = the (u (fst (least_used u ks best))))"
proof (induction ks arbitrary: best)
  case (Cons k ks)
  show ?case
    using Cons [of "(k, the (u k))"] Cons [of best] by (cases "the (u k) < snd best") auto
qed simp

lemma least_used_chosen:
  assumes "set ks = K" "K \<noteq> {}" "\<And>k. k \<in> K \<Longrightarrow> the (u k) < b"
  shows "fst (least_used u ks ([], b)) \<in> K"
    "k \<in> K \<Longrightarrow> the (u (fst (least_used u ks ([], b)))) \<le> the (u k)"
proof -
  obtain k0 where k0: "k0 \<in> K" using assms(2) by blast
  have "snd (least_used u ks ([], b)) \<le> the (u k0)" using least_used_min [of "([], b)" ks u] k0 assms(1) by auto
  then have "least_used u ks ([], b) \<noteq> ([], b)" using assms(3) [OF k0] by auto
  with least_used_min [of "([], b)" ks u] assms(1)
  show "fst (least_used u ks ([], b)) \<in> K" "k \<in> K \<Longrightarrow> the (u (fst (least_used u ks ([], b)))) \<le> the (u k)"
    by auto
qed

text \<open>After \<open>n\<close> calls in all the uses of any two keys differ by one at most and sum up to \<open>n\<close>.\<close>

definition fair :: "string set \<Rightarrow> int \<Rightarrow> KeyPool \<Rightarrow> bool" where
  "fair K n p \<longleftrightarrow> finite K \<and> K \<noteq> {} \<and> [] \<notin> K \<and> kp_keys p \<noteq> [] \<and> 0 \<le> n \<and>
     (\<exists>m \<ge> 0. \<forall>k \<in> K. kp_usage p k = Some m \<or> kp_usage p k = Some (m + 1)) \<and>
     (\<Sum>k\<in>K. the (kp_usage p k)) = n"

lemma fair_bound: "fair K n p \<Longrightarrow> k \<in> K \<Longrightarrow> 0 \<le> the (kp_usage p k) \<and> the (kp_usage p k) \<le> n"
proof -
  assume f: "fair K n p" and k: "k \<in> K"
  have nonneg: "0 \<le> the (kp_usage p x)" if "x \<in> K" for x using f that by (fastforce simp: fair_def)
  have "the (kp_usage p k) \<le> (\<Sum>k\<in>K. the (kp_usage p k))"
    using f k nonneg by (intro member_le_sum) (auto simp: fair_def)
  with f nonneg [OF k] show ?thesis by (simp add: fair_def)
qed

lemma fair_Next:
  assumes "fair K n p" "set ks = K" "n < 9223372036854775807"
  shows "\<exists>k \<in> K. fst (Next ks p) = Inr k \<and> fair K (n + 1) (snd (Next ks p)) \<and>
    kp_usage (snd (Next ks p)) = (kp_usage p)(k \<mapsto> the (kp_usage p k) + 1)"
proof -
  define k where "k = fst (least_used (kp_usage p) ks ([], 9223372036854775807))"
  have b: "the (kp_usage p x) < 9223372036854775807" if "x \<in> K" for x
    using fair_bound [OF assms(1) that] assms(3) by linarith
  have K: "K \<noteq> {}" using assms(1) by (simp add: fair_def)
  have k: "k \<in> K" and least: "\<And>x. x \<in> K \<Longrightarrow> the (kp_usage p k) \<le> the (kp_usage p x)"
    using least_used_chosen [where u = "kp_usage p", OF assms(2) K b] by (simp_all add: k_def)
  have kn: "k \<noteq> []" "\<exists>u. kp_usage p k = Some u" using assms(1) k by (auto simp: fair_def)
  have nx: "Next ks p = (Inr k, p\<lparr>kp_usage := (kp_usage p)(k \<mapsto> the (kp_usage p k) + 1)\<rparr>)"
    using assms(1) kn b [OF k] by (auto simp: Next_def Let_def incr64_def fair_def simp flip: k_def)
  obtain m where m: "0 \<le> m" "\<And>x. x \<in> K \<Longrightarrow> kp_usage p x = Some m \<or> kp_usage p x = Some (m + 1)"
    using assms(1) by (auto simp: fair_def)
  have "\<exists>m \<ge> 0. \<forall>x \<in> K. ((kp_usage p)(k \<mapsto> the (kp_usage p k) + 1)) x = Some m \<or>
      ((kp_usage p)(k \<mapsto> the (kp_usage p k) + 1)) x = Some (m + 1)"
  proof (cases "kp_usage p k = Some m")
    case True
    with m show ?thesis by (intro exI [of _ m]) auto
  next
    case False
    then have "kp_usage p k = Some (m + 1)" using m(2) k by blast
    then have "kp_usage p x = Some (m + 1)" if "x \<in> K" for x using m(2) [OF that] least [OF that] by auto
    with m(1) \<open>kp_usage p k = Some (m + 1)\<close> show ?thesis by (intro exI [of _ "m + 1"]) auto
  qed
  moreover have "(\<Sum>x\<in>K. the (((kp_usage p)(k \<mapsto> the (kp_usage p k) + 1)) x)) = n + 1"
  proof -
    have fin: "finite K" using assms(1) by (simp add: fair_def)
    have "(\<Sum>x\<in>K. the (((kp_usage p)(k \<mapsto> the (kp_usage p k) + 1)) x))
        = (\<Sum>x\<in>K. the (kp_usage p x) + (if x = k then 1 else 0))"
      by (intro sum.cong) auto
    also have "\<dots> = (\<Sum>x\<in>K. the (kp_usage p x)) + 1" using fin k by (simp add: sum.distrib)
    finally show ?thesis using assms(1) by (simp add: fair_def)
  qed
  ultimately have "fair K (n + 1) (p\<lparr>kp_usage := (kp_usage p)(k \<mapsto> the (kp_usage p k) + 1)\<rparr>)"
    using assms(1) unfolding fair_def by simp
  with nx k show ?thesis by auto
qed

lemma fair_run:
  assumes "fair K n p" "list_all (\<lambda>ks. set ks = K) orders" "n + int (length orders) < 9223372036854775807"
  shows "\<exists>served. fst (next_run orders p) = map Inr served \<and> set served \<subseteq> K \<and>
    fair K (n + int (length orders)) (snd (next_run orders p)) \<and>
    (\<forall>k \<in> K. the (kp_usage (snd (next_run orders p)) k) = the (kp_usage p k) + int (count_list served k))"
  using assms
proof (induction orders p arbitrary: n rule: next_run.induct)
  case (1 p)
  then show ?case by (intro exI [of _ "[]"]) simp
next
  case (2 ks orders p)
  have n: "n < 9223372036854775807" and ks: "set ks = K" using "2.prems"(2,3) by simp_all
  obtain k where k: "k \<in> K" "fst (Next ks p) = Inr k" "fair K (n + 1) (snd (Next ks p))"
    "kp_usage (snd (Next ks p)) = (kp_usage p)(k \<mapsto> the (kp_usage p k) + 1)"
    using fair_Next [OF "2.prems"(1) ks n] by blast
  obtain served where "fst (next_run orders (snd (Next ks p))) = map Inr served" "set served \<subseteq> K"
    "fair K (n + 1 + int (length orders)) (snd (next_run orders (snd (Next ks p))))"
    "\<forall>x \<in> K. the (kp_usage (snd (next_run orders (snd (Next ks p)))) x)
       = the (kp_usage (snd (Next ks p)) x) + int (count_list served x)"
    using "2.IH" [of "fst (Next ks p)" "snd (Next ks p)" "n + 1", OF _ k(3)] "2.prems"(2,3) by auto
  with k show ?case
    by (intro exI [of _ "k # served"]) (auto simp: prod.case_eq_if algebra_simps)
qed

lemma fair_shares:
  assumes "fair K n p" "k \<in> K"
  shows "the (kp_usage p k) \<in> {n div int (card K), n div int (card K) + 1}"
proof -
  obtain m where m: "0 \<le> m" "\<And>x. x \<in> K \<Longrightarrow> kp_usage p x = Some m \<or> kp_usage p x = Some (m + 1)"
    and K: "finite K" "K \<noteq> {}" and n: "(\<Sum>x\<in>K. the (kp_usage p x)) = n"
    using assms(1) by (auto simp: fair_def)
  have c: "0 < int (card K)" using K by (simp add: card_gt_0_iff)
  show ?thesis
  proof (cases "\<exists>x \<in> K. kp_usage p x = Some m")
    case True
    then obtain x where x: "x \<in> K" "kp_usage p x = Some m" by blast
    have "int (card K) * m \<le> n" using sum_bounded_below [of K m "\<lambda>x. the (kp_usage p x)"] m(2) n by fastforce
    moreover have "n < (\<Sum>x\<in>K. m + 1)" unfolding n [symmetric]
      using x m(2) K(1) by (intro sum_strict_mono_ex1 [OF _ _ bexI [of _ x]]) fastforce+
    ultimately have "n div int (card K) = m"
      using c by (intro int_div_pos_eq [where r = "n - int (card K) * m"]) (simp_all add: algebra_simps)
    then show ?thesis using m(2) [OF assms(2)] by auto
  next
    case False
    then have all: "kp_usage p x = Some (m + 1)" if "x \<in> K" for x using m(2) [OF that] that by blast
    then have "n = int (card K) * (m + 1)" unfolding n [symmetric] by simp
    with all [OF assms(2)] c show ?thesis by simp
  qed
qed

lemma fair_new:
  assumes "keys \<noteq> []" "distinct keys" "[] \<notin> set keys"
  shows "fair (set keys) 0 (fold AddKey keys (NewKeyPool provider))"
proof -
  have "kp_keys (fold AddKey ks p) = kp_keys p @ ks \<and>
      kp_usage (fold AddKey ks p) = (\<lambda>k. if k \<in> set ks then Some 0 else kp_usage p k)" for ks p
    by (induction ks arbitrary: p) (auto simp: AddKey_def fun_eq_iff)
  with assms show ?thesis by (auto simp: fair_def NewKeyPool_def)
qed

text \<open>
  \<^bold>\<open>C19.\<close> The keys of a provider are handed out in turn, although the pool ranges over a map, whose
  order Go leaves open. From a pool with \<open>k\<close> different keys, \<open>n\<close> calls return \<open>n\<close> keys of the
  pool, each of them \<open>n div k\<close> or \<open>n div k + 1\<close> times, whatever the order was at each call, as
  long as the counters of 64 bits do not overflow.
\<close>

theorem key_pool_fair:
  assumes "keys \<noteq> []" "distinct keys" "[] \<notin> set keys"
    and "list_all (\<lambda>ks. set ks = set keys) orders" "length orders < 2 ^ 63 - 1"
    and "fst (next_run orders (fold AddKey keys (NewKeyPool provider))) = rs"
  shows "\<exists>served. rs = map Inr served \<and> set served \<subseteq> set keys \<and>
    (\<forall>k \<in> set keys. count_list served k \<in> {length orders div length keys, length orders div length keys + 1})"
proof -
  let ?p = "fold AddKey keys (NewKeyPool provider)"
  have "0 + int (length orders) < 9223372036854775807" using assms(5) by simp
  from fair_run [OF fair_new [OF assms(1-3), of provider] assms(4) this] obtain served
    where s: "rs = map Inr served" "set served \<subseteq> set keys"
      "fair (set keys) (int (length orders)) (snd (next_run orders ?p))"
      "\<forall>k \<in> set keys. the (kp_usage (snd (next_run orders ?p)) k) = the (kp_usage ?p k) + int (count_list served k)"
    using assms(6) by auto
  have "the (kp_usage ?p k) = 0" if "k \<in> set keys" for k
    using fair_bound [OF fair_new [OF assms(1-3)] that, of provider] by simp
  with s(4) have "int (count_list served k) \<in> {int (length orders) div int (card (set keys)),
      int (length orders) div int (card (set keys)) + 1}" if "k \<in> set keys" for k
    using fair_shares [OF s(3) that] that by simp
  then have "count_list served k \<in> {length orders div length keys, length orders div length keys + 1}" if "k \<in> set keys" for k
    using that assms(2) by (fastforce simp: distinct_card simp flip: zdiv_int)
  with s(1,2) show ?thesis by blast
qed

theorem key_pool_fair_witness:
  "\<exists>served. fst (next_run (replicate 7 [''b'', ''a'']) (fold AddKey [''a'', ''b''] (NewKeyPool ''openai''))) = map Inr served \<and>
     count_list served ''a'' \<in> {3, 4}"
proof -
  have "list_all (\<lambda>ks. set ks = set [''a'', ''b'']) (replicate 7 [''b'', ''a''])" by (auto simp: list_all_iff)
  from key_pool_fair [OF _ _ _ this _ refl, of "''openai''", unfolded length_replicate] obtain served
    where s: "fst (next_run (replicate 7 [''b'', ''a'']) (fold AddKey [''a'', ''b''] (NewKeyPool ''openai''))) = map Inr served"
      "\<forall>k \<in> set [''a'', ''b'']. count_list served k \<in> {7 div length [''a'', ''b''], 7 div length [''a'', ''b''] + 1}"
    by force
  then show ?thesis by (intro exI [of _ served]) (auto simp flip: numeral_2_eq_2)
qed

end
