(* ===== verification/Auth.thy ===== *)
theory Auth
  imports ServerProps Security
begin

text \<open>
  Authentication, \<^verbatim>\<open>internal/transport/http/middleware/auth.go\<close>: the middleware in front of the
  handler, over the key manager and the store of API keys, and what the keys that are created over the API
  are worth to it.
\<close>

section \<open>The middlewares\<close>

definition http_Error :: "string \<Rightarrow> int \<Rightarrow> Writer \<Rightarrow> Writer" where
  "http_Error msg code w =
     write_body (BText (msg @ [byte 10])) (WriteHeader code
       (set_header ''X-Content-Type-Options'' ''nosniff'' (set_header ''Content-Type'' ''text/plain; charset=utf-8'' w)))"

text \<open>The store is asked first, then the keys of the configuration.\<close>

definition api_key_valid :: "'k KeyOps \<Rightarrow> 'k option \<Rightarrow> ('priv, 'pub) KeyManager \<Rightarrow> string \<Rightarrow> bool" where
  "api_key_valid ops store km token =
     (let valid = (case store of Some s \<Rightarrow> \<not> isl (ko_Verify ops token s) | None \<Rightarrow> False)
      in if \<not> valid \<and> ValidateAPIKey token km then True else valid)"

definition AuthMiddleware ::
    "'c JwtLibrary \<Rightarrow> ('priv, 'pub) KeyManager \<Rightarrow> 'k KeyOps \<Rightarrow> ('a \<Rightarrow> 'k option) \<Rightarrow>
       (ReqHeader \<Rightarrow> Writer \<Rightarrow> 'a \<Rightarrow> Writer \<times> 'a) \<Rightarrow> ReqHeader \<Rightarrow> Writer \<Rightarrow> 'a \<Rightarrow> Writer \<times> 'a" where
  "AuthMiddleware lib km ops store serve hs w a =
     (let authHeader = header_get hs ''Authorization'' in
      if authHeader = [] then (http_Error ''Authorization header required'' 401 w, a)
      else (case Split authHeader (CHR '' '') of
          [authType, tokenString] \<Rightarrow>
            if authType = ''Bearer''
            then (case ValidateJWT lib tokenString km of
                Inl _ \<Rightarrow> (http_Error ''Invalid JWT token'' 401 w, a) | Inr _ \<Rightarrow> serve hs w a)
            else if authType = ''ApiKey''
            then (if \<not> api_key_valid ops (store a) km tokenString
                  then (http_Error ''Invalid API Key'' 401 w, a) else serve hs w a)
            else (http_Error ''Unsupported authorization type'' 401 w, a)
        | _ \<Rightarrow> (http_Error ''Invalid authorization header format'' 401 w, a)))"

definition APIKeyMiddleware ::
    "string list \<Rightarrow> (ReqHeader \<Rightarrow> Writer \<Rightarrow> 'a \<Rightarrow> Writer \<times> 'a) \<Rightarrow> ReqHeader \<Rightarrow> Writer \<Rightarrow> 'a \<Rightarrow> Writer \<times> 'a" where
  "APIKeyMiddleware validAPIKeys serve hs w a =
     (let apiKey = header_get hs ''X-API-Key'' in
      if apiKey = [] then (http_Error ''X-API-Key header required'' 401 w, a)
      else if \<not> list_ex (\<lambda>key. apiKey = key) validAPIKeys then (http_Error ''Invalid API Key'' 401 w, a)
      else serve hs w a)"

section \<open>Who is admitted\<close>

definition admitted ::
    "'c JwtLibrary \<Rightarrow> ('priv, 'pub) KeyManager \<Rightarrow> 'k KeyOps \<Rightarrow> 'k option \<Rightarrow> string \<Rightarrow> bool" where
  "admitted lib km ops store h \<longleftrightarrow> (\<exists>token. CHR '' '' \<notin> set token \<and>
     (h = ''Bearer '' @ token \<and> \<not> isl (ValidateJWT lib token km) \<or>
      h = ''ApiKey '' @ token \<and> ((\<exists>s. store = Some s \<and> \<not> isl (ko_Verify ops token s)) \<or> token \<in> set (km_apiKeys km))))"

lemma Split_pair: "Split s sep = [a, b] \<longleftrightarrow> s = a @ sep # b \<and> sep \<notin> set a \<and> sep \<notin> set b"
proof
  assume "Split s sep = [a, b]"
  then show "s = a @ sep # b \<and> sep \<notin> set a \<and> sep \<notin> set b"
    using Join_Split [of s sep] Split_no_sep [of a s sep] Split_no_sep [of b s sep] by simp
qed (simp add: Split_append_sep Split_no_sep_id)

lemma admitted_Split: "admitted lib km ops store h \<longleftrightarrow> (\<exists>token.
    Split h (CHR '' '') = [''Bearer'', token] \<and> \<not> isl (ValidateJWT lib token km) \<or>
    Split h (CHR '' '') = [''ApiKey'', token] \<and>
      ((\<exists>s. store = Some s \<and> \<not> isl (ko_Verify ops token s)) \<or> token \<in> set (km_apiKeys km)))"
proof -
  have word: "Split h (CHR '' '') = [''Bearer'', token] \<longleftrightarrow> CHR '' '' \<notin> set token \<and> h = ''Bearer '' @ token"
    "Split h (CHR '' '') = [''ApiKey'', token] \<longleftrightarrow> CHR '' '' \<notin> set token \<and> h = ''ApiKey '' @ token" for token
    by (auto simp: Split_pair)
  show ?thesis unfolding word admitted_def by blast
qed

lemma api_key_valid_iff:
  "api_key_valid ops store km token \<longleftrightarrow> (\<exists>s. store = Some s \<and> \<not> isl (ko_Verify ops token s)) \<or> token \<in> set (km_apiKeys km)"
  by (auto simp: api_key_valid_def ValidateAPIKey_def list_ex_iff Let_def split: option.split)

lemma status_http_Error: "wr_Sent w = None \<Longrightarrow> status_of (http_Error msg 401 w) = 401"
  by (simp add: http_Error_def status_of_def write_body_def WriteHeader_def Let_def)

text \<open>
  \<^bold>\<open>C9.\<close> Who is let through. The middleware serves a request exactly when its header is \<open>Bearer\<close>,
  one blank and a token without blanks that the JWT library and the guard on its method accept, or
  \<open>ApiKey\<close>, one blank and a token that the store verifies or the configuration lists. It then does just
  what the server does; every other request is answered with 401 and leaves the state alone. No JWT is accepted
  that was signed with another method than an HMAC, since its key is refused to the library.
\<close>

theorem auth_gate:
  assumes "\<And>key token t. jl_Parse lib key token = Inr t \<Longrightarrow> \<not> isl (key t)"
  shows "AuthMiddleware lib km ops store serve hs (fresh_writer b) a =
      (if admitted lib km ops (store a) (header_get hs ''Authorization'') then serve hs (fresh_writer b) a
       else (fst (AuthMiddleware lib km ops store serve hs (fresh_writer b) a), a)) \<and>
    (\<not> admitted lib km ops (store a) (header_get hs ''Authorization'') \<longrightarrow>
       status_of (fst (AuthMiddleware lib km ops store serve hs (fresh_writer b) a)) = 401) \<and>
    (\<forall>token claims. ValidateJWT lib token km = Inr claims \<longrightarrow>
       (\<exists>t. jl_Parse lib (jwt_key km) token = Inr t \<and> jt_HMAC t \<and> jt_Valid t \<and> jt_claims t = Some claims))"
proof -
  define h where "h = header_get hs ''Authorization''"
  have sent: "wr_Sent (fresh_writer b) = None" by (simp add: fresh_writer_def)
  have jwt: "\<exists>t. jl_Parse lib (jwt_key km) token = Inr t \<and> jt_HMAC t \<and> jt_Valid t \<and> jt_claims t = Some claims"
    if "ValidateJWT lib token km = Inr claims" for token claims
    using that assms by (fastforce simp: ValidateJWT_def jwt_key_def split: sum.splits option.splits if_splits)
  have two: "admitted lib km ops (store a) h \<Longrightarrow> \<exists>x y. Split h (CHR '' '') = [x, y]"
    by (auto simp: admitted_Split)
  have adm: "admitted lib km ops (store a) h \<longleftrightarrow>
      (x = ''Bearer'' \<and> \<not> isl (ValidateJWT lib y km)) \<or> (x = ''ApiKey'' \<and> api_key_valid ops (store a) km y)"
    if "Split h (CHR '' '') = [x, y]" for x y
    unfolding admitted_Split api_key_valid_iff that by auto
  have "AuthMiddleware lib km ops store serve hs (fresh_writer b) a =
      (if admitted lib km ops (store a) h then serve hs (fresh_writer b) a
       else (fst (AuthMiddleware lib km ops store serve hs (fresh_writer b) a), a)) \<and>
    (\<not> admitted lib km ops (store a) h \<longrightarrow> status_of (fst (AuthMiddleware lib km ops store serve hs (fresh_writer b) a)) = 401)"
  proof (cases "\<exists>x y. Split h (CHR '' '') = [x, y]")
    case True
    then obtain x y where xy: "Split h (CHR '' '') = [x, y]" by blast
    then have "h \<noteq> []" by (auto simp: Split_pair)
    with xy adm [OF xy] show ?thesis
      by (auto simp: AuthMiddleware_def h_def [symmetric] status_http_Error sent Let_def isl_def split: sum.split)
  next
    case False
    then show ?thesis using two
      by (auto simp: AuthMiddleware_def h_def [symmetric] status_http_Error sent Let_def split: list.split)
  qed
  with jwt show ?thesis unfolding h_def by blast
qed

text \<open>A JWT library whose tokens are their keys, and a store without keys.\<close>

definition demo_jwt :: "unit JwtLibrary" where
  "demo_jwt = \<lparr>jl_Sign = (\<lambda>secret _. Inr secret),
     jl_Parse = (\<lambda>key s. let t = \<lparr>jt_HMAC = True, jt_alg = ''HS256'', jt_claims = Some (), jt_Valid = True\<rparr> in
       case key t of Inl e \<Rightarrow> Inl e | Inr k \<Rightarrow> if s = k then Inr t else Inl ''signature is invalid'')\<rparr>"

definition no_keys :: "unit KeyOps" where
  "no_keys = \<lparr>ko_List = (\<lambda>_. Inr []), ko_Create = (\<lambda>_ _ _ _ _ _ s. (Inl [], s)), ko_Delete = (\<lambda>_ s. (None, s)),
     ko_Verify = (\<lambda>_ _. Inl [])\<rparr>"

definition demo_manager :: "(unit, unit) KeyManager" where
  "demo_manager = \<lparr>km_privateKey = None, km_publicKey = None, km_jwtSecret = ''s'', km_apiKeys = [''k''], km_keyPools = Map.empty\<rparr>"

theorem auth_gate_witness:
  "AuthMiddleware demo_jwt demo_manager no_keys (\<lambda>_. None) (\<lambda>hs w a. (w, True)) (\<lambda>_. ''ApiKey k'') (fresh_writer True) False
     = (fresh_writer True, True) \<and>
   status_of (fst (AuthMiddleware demo_jwt demo_manager no_keys (\<lambda>_. None) (\<lambda>hs w a. (w, True)) (\<lambda>_. ''Bearer k'')
     (fresh_writer True) False)) = 401"
proof -
  have law: "\<not> isl (key t)" if "jl_Parse demo_jwt key token = Inr t" for key token t
    using that by (auto simp: demo_jwt_def Let_def split: sum.splits if_splits)
  have yes: "admitted demo_jwt demo_manager no_keys None ''ApiKey k''"
    by (simp add: admitted_def demo_manager_def)
  have no: "\<not> admitted demo_jwt demo_manager no_keys None ''Bearer k''"
    by (simp add: admitted_def demo_manager_def demo_jwt_def ValidateJWT_def jwt_key_def)
  have h: "header_get (\<lambda>_. s) k = s" for s k by (simp add: header_get_def)
  have a: "AuthMiddleware demo_jwt demo_manager no_keys (\<lambda>_. None) (\<lambda>hs w a. (w, True)) (\<lambda>_. ''ApiKey k'') (fresh_writer True) False
     = (fresh_writer True, True)"
    using auth_gate [where lib = demo_jwt and km = demo_manager and ops = no_keys and store = "\<lambda>_. None" and b = True and a = False
        and serve = "\<lambda>hs w a. (w, True)" and hs = "\<lambda>_. ''ApiKey k''"] law yes by (simp add: h)
  have b: "status_of (fst (AuthMiddleware demo_jwt demo_manager no_keys (\<lambda>_. None) (\<lambda>hs w a. (w, True)) (\<lambda>_. ''Bearer k'')
     (fresh_writer True) False)) = 401"
    using auth_gate [where lib = demo_jwt and km = demo_manager and ops = no_keys and store = "\<lambda>_. None" and b = True and a = False
        and serve = "\<lambda>hs w a. (w, True)" and hs = "\<lambda>_. ''Bearer k''"] law no by (simp add: h)
  show ?thesis using a b by blast
qed

section \<open>Keys that are created over the API\<close>

definition sql_key_ops ::
    "gotime \<Rightarrow> (string list \<Rightarrow> string) \<Rightarrow> (string \<Rightarrow> string list) \<Rightarrow> (string \<Rightarrow> gotime) \<Rightarrow> (KeyTable \<Rightarrow> string list) \<Rightarrow> KeyTable KeyOps" where
  "sql_key_ops now marshal unmarshal dec_time order =
     \<lparr>ko_List = (\<lambda>db. Inr (sql_ListAPIKeys unmarshal dec_time (order db) db)), ko_Create = sql_CreateAPIKey now marshal,
      ko_Delete = sql_DeleteAPIKey, ko_Verify = (\<lambda>token db. sql_VerifyKey unmarshal dec_time (order db) token db)\<rparr>"

lemma isl_iff: "\<not> isl r \<longleftrightarrow> (\<exists>x. r = Inr x)"
  by (cases r) auto

lemma HashAPIKey_not_Nil: "HashAPIKey token \<noteq> []"
proof
  assume "HashAPIKey token = []"
  then have "b64_decode [] = Some (Sum256 token)" using b64_decode_encode [of "Sum256 token"]
    by (simp add: HashAPIKey_def list_all_iff Sum256_less)
  moreover have "b64_decode [] = Some []" by code_simp
  moreover have "length (Sum256 token) = 32" by simp
  ultimately show False by auto
qed

text \<open>
  \<^bold>\<open>C10.\<close> A key that is created over the API admits nobody. With the SQLite store, after a POST on the
  API keys, which is answered with success, the middleware admits exactly the headers it admitted before: the
  key is stored with an empty hash, which no presented key has, and it is never sent to the client.
\<close>

theorem created_key_admits_nobody:
  assumes "ad_keys d = sql_key_ops now marshal unmarshal dec_time order"
    and "ap_keys a = Some db" "create_key d name (fresh_writer b) a = (w', a')" "ap_keys a' = Some db'"
    and "iter_order (order db) db" "iter_order (order db') db'"
  shows "admitted lib km (ad_keys d) (ap_keys a') h = admitted lib km (ad_keys d) (ap_keys a) h \<and>
    (db (key_id now) = None \<longrightarrow> wr_Body w' = [BJson (done_message True ''API key created successfully'')])"
proof -
  have c: "sql_CreateAPIKey now marshal [] [] name [] None [''read'', ''write''] db =
      (fst (sql_CreateAPIKey now marshal [] [] name [] None [''read'', ''write''] db), db')"
    using assms(1-4) by (auto simp: create_key_def sql_key_ops_def Let_def split: prod.splits sum.splits)
  have hashes: "(\<exists>k r. db' k = Some r \<and> kr_key_hash r = HashAPIKey token) \<longleftrightarrow>
      (\<exists>k r. db k = Some r \<and> kr_key_hash r = HashAPIKey token)" for token
  proof (cases "db (key_id now)")
    case None
    then have "db' = db(key_id now \<mapsto> \<lparr>kr_name = name, kr_description = [], kr_key_hash = [],
              kr_key_prefix = [], kr_created_at = RFC3339 now, kr_expires_at = None,
              kr_is_active = True, kr_permissions_json = marshal [''read'', ''write''],
              kr_last_used_at = Some (unix_seconds now)\<rparr>)"
      using c by (simp add: sql_CreateAPIKey_def Let_def)
    with None HashAPIKey_not_Nil [of token] show ?thesis by (auto simp: fun_upd_def) (metis option.distinct(1))
  next
    case (Some r)
    then show ?thesis using c by (simp add: sql_CreateAPIKey_def Let_def)
  qed
  have "\<not> isl (ko_Verify (ad_keys d) token db') \<longleftrightarrow> \<not> isl (ko_Verify (ad_keys d) token db)" for token
    using key_lookup [OF assms(5)] key_lookup [OF assms(6)] hashes
    by (simp add: assms(1) sql_key_ops_def isl_iff)
  then have "admitted lib km (ad_keys d) (ap_keys a') h = admitted lib km (ad_keys d) (ap_keys a) h"
    by (simp add: admitted_def assms(2,4))
  moreover have "wr_Body w' = [BJson (done_message True ''API key created successfully'')]" if "db (key_id now) = None"
    using assms(1-3) that
    by (auto simp: create_key_def sql_key_ops_def sql_CreateAPIKey_def Let_def reply_def fresh_writer_def)
  ultimately show ?thesis by blast
qed

definition demo_order :: "KeyTable \<Rightarrow> string list" where
  "demo_order db = (if db ''key_0'' = None then [] else [''key_0''])"

definition demo_key_deps :: "(MemoryTraceStore, MemoryBudgetStore, string list, unit, KeyTable, unit, unit) AppDeps" where
  "demo_key_deps = \<lparr>ad_deps = ad_deps demo_deps_app, ad_ListRecent = ad_ListRecent demo_deps_app, ad_Count = ad_Count demo_deps_app,
     ad_providers = ad_providers demo_deps_app,
     ad_keys = sql_key_ops \<lparr>t_nanos = 0, t_offset = 0\<rparr> (\<lambda>_. []) (\<lambda>_. []) (\<lambda>_. t_zero) demo_order,
     ad_reports = ad_reports demo_deps_app, ad_extensions = None, ad_ext_order = [], ad_Sprint = (\<lambda>_. []),
     ad_marshal = (\<lambda>_. Inl []), ad_diff_order = []\<rparr>"

definition demo_key_app :: "(MemoryTraceStore, MemoryBudgetStore, string list, unit, KeyTable, unit) App" where
  "demo_key_app = \<lparr>ap_server = demo_server Map.empty None, ap_keys = Some Map.empty, ap_reports = Some ()\<rparr>"

theorem created_key_admits_nobody_witness:
  "\<not> admitted demo_jwt demo_manager (ad_keys demo_key_deps)
       (ap_keys (snd (create_key demo_key_deps ''ci'' (fresh_writer True) demo_key_app))) ''ApiKey '' \<and>
   wr_Body (fst (create_key demo_key_deps ''ci'' (fresh_writer True) demo_key_app))
     = [BJson (done_message True ''API key created successfully'')]"
proof -
  let ?now = "\<lparr>t_nanos = 0, t_offset = 0\<rparr> :: gotime"
  obtain w a where wa: "create_key demo_key_deps ''ci'' (fresh_writer True) demo_key_app = (w, a)" by fastforce
  have keys: "ad_keys demo_key_deps = sql_key_ops ?now (\<lambda>_. []) (\<lambda>_. []) (\<lambda>_. t_zero) demo_order"
    by (simp add: demo_key_deps_def)
  have id: "key_id ?now = ''key_0''" by code_simp
  obtain r where db: "ap_keys a = Some [''key_0'' \<mapsto> r]"
    using wa by (auto simp: create_key_def keys sql_key_ops_def demo_key_app_def sql_CreateAPIKey_def id Let_def)
  have old: "ap_keys demo_key_app = Some Map.empty" by (simp add: demo_key_app_def)
  have orders: "iter_order (demo_order Map.empty) Map.empty" "iter_order (demo_order [''key_0'' \<mapsto> r]) [''key_0'' \<mapsto> r]"
    by (simp_all add: demo_order_def iter_order_def)
  note concl = created_key_admits_nobody [OF keys old wa db orders, of demo_jwt demo_manager "''ApiKey ''"]
  have "\<not> admitted demo_jwt demo_manager (ad_keys demo_key_deps) (ap_keys demo_key_app) ''ApiKey ''"
    by (simp add: admitted_def old keys sql_key_ops_def demo_manager_def sql_VerifyKey_def sql_GetAPIKeyByHash_def demo_order_def)
  with concl show ?thesis by (simp add: wa)
qed

end
