(* ===== verification/PgTrace.thy ===== *)
theory PgTrace
  imports TraceStore Signing
begin

text \<open>
  The trace store over PostgreSQL, \<^verbatim>\<open>internal/adapter/storage/postgres_trace.go\<close>. The database server
  is a parameter: \<open>down\<close> is the error the driver reports for a statement, \<open>None\<close> when the statement is
  executed, \<open>ks\<close> an order in which the engine goes through the rows, and what a column makes of a text or a time
  is part of the codec.
\<close>

section \<open>Columns\<close>

definition wrap_error :: "string \<Rightarrow> 'a result \<Rightarrow> 'a result" where
  "wrap_error msg r = (case r of Inl e \<Rightarrow> Inl (msg @ '': '' @ e) | Inr x \<Rightarrow> Inr x)"

lemma wrap_error_simps [simp]:
  "wrap_error msg (Inl e) = Inl (msg @ '': '' @ e)" "wrap_error msg (Inr x) = Inr x"
  "wrap_error msg r = Inr x \<longleftrightarrow> r = Inr x"
  by (auto simp: wrap_error_def split: sum.split)

text \<open>
  \<^verbatim>\<open>json.Marshal\<close> and \<^verbatim>\<open>json.Unmarshal\<close> on the parts of a trace, what a JSONB column gives back
  for a text, and what a TIMESTAMP column gives back for a time.
\<close>

record PgCodec =
  pe_Input :: "Input \<Rightarrow> string result"
  pd_Input :: "string \<Rightarrow> Input result"
  pe_Output :: "Output \<Rightarrow> string result"
  pd_Output :: "string \<Rightarrow> Output result"
  pe_Observations :: "Observations \<Rightarrow> string result"
  pd_Observations :: "string \<Rightarrow> Observations result"
  pe_Proofs :: "Proofs \<Rightarrow> string result"
  pd_Proofs :: "string \<Rightarrow> Proofs result"
  pe_Constraints :: "ConstraintsApplied \<Rightarrow> string result"
  pd_Constraints :: "string \<Rightarrow> ConstraintsApplied result"
  pe_Extensions :: "amap option \<Rightarrow> string result"
  pd_Extensions :: "string \<Rightarrow> amap option result"
  jsonb :: "string \<Rightarrow> string"
  timestamp :: "gotime \<Rightarrow> gotime"

record PgTraceRow =
  pt_parent_id :: "string option"
  pt_session_id :: string
  pt_execution_state :: string
  pt_model :: string
  pt_input :: string
  pt_output :: string
  pt_observations :: string
  pt_proofs :: string
  pt_constraints_applied :: string
  pt_created_at :: gotime
  pt_ttl_expire_at :: "gotime option"
  pt_extensions :: string

type_synonym PgTraceTable = "string \<rightharpoonup> PgTraceRow"

text \<open>The values that \<^verbatim>\<open>Save\<close> and \<^verbatim>\<open>Update\<close> send, as the columns keep them.\<close>

definition pg_row :: "PgCodec \<Rightarrow> Trace \<Rightarrow> PgTraceRow result" where
  "pg_row c t =
     bind_result (wrap_error ''failed to marshal input'' (pe_Input c (tr_Input t))) (\<lambda>inputJSON.
     bind_result (wrap_error ''failed to marshal output'' (pe_Output c (tr_Output t))) (\<lambda>outputJSON.
     bind_result (wrap_error ''failed to marshal observations'' (pe_Observations c (tr_Observations t))) (\<lambda>observationsJSON.
     bind_result (wrap_error ''failed to marshal proofs'' (pe_Proofs c (tr_Proofs t))) (\<lambda>proofsJSON.
     bind_result (wrap_error ''failed to marshal constraints_applied'' (pe_Constraints c (tr_ConstraintsApplied t))) (\<lambda>constraintsAppliedJSON.
     bind_result (wrap_error ''failed to marshal extensions'' (pe_Extensions c (tr_Extensions t))) (\<lambda>extensionsJSON.
     Inr \<lparr>pt_parent_id = tr_ParentID t,
          pt_session_id = (case tr_SessionID t of Some s \<Rightarrow> s | None \<Rightarrow> []),
          pt_execution_state = tr_ExecutionState t, pt_model = tr_Model t,
          pt_input = jsonb c inputJSON, pt_output = jsonb c outputJSON,
          pt_observations = jsonb c observationsJSON, pt_proofs = jsonb c proofsJSON,
          pt_constraints_applied = jsonb c constraintsAppliedJSON,
          pt_created_at = timestamp c (tr_CreatedAt t),
          pt_ttl_expire_at = map_option (timestamp c) (tr_TTLExpireAt t),
          pt_extensions = jsonb c extensionsJSON\<rparr>))))))"

text \<open>
  Reading a row back. The session id is scanned into a variable of its own and never put into the trace.
\<close>

definition pg_scan :: "PgCodec \<Rightarrow> string \<Rightarrow> PgTraceRow \<Rightarrow> Trace result" where
  "pg_scan c traceID r =
     bind_result (wrap_error ''failed to unmarshal input'' (pd_Input c (pt_input r))) (\<lambda>inp.
     bind_result (wrap_error ''failed to unmarshal output'' (pd_Output c (pt_output r))) (\<lambda>out.
     bind_result (wrap_error ''failed to unmarshal observations'' (pd_Observations c (pt_observations r))) (\<lambda>obs.
     bind_result (wrap_error ''failed to unmarshal proofs'' (pd_Proofs c (pt_proofs r))) (\<lambda>proofs.
     bind_result (wrap_error ''failed to unmarshal constraints_applied'' (pd_Constraints c (pt_constraints_applied r))) (\<lambda>constraints.
     bind_result (wrap_error ''failed to unmarshal extensions'' (pd_Extensions c (pt_extensions r))) (\<lambda>exts.
     Inr \<lparr>tr_TraceID = traceID, tr_ParentID = pt_parent_id r, tr_SessionID = None,
          tr_ExecutionState = pt_execution_state r, tr_Model = pt_model r, tr_Input = inp, tr_Output = out,
          tr_Observations = obs, tr_Proofs = proofs, tr_ConstraintsApplied = constraints,
          tr_CreatedAt = pt_created_at r, tr_TTLExpireAt = pt_ttl_expire_at r, tr_Extensions = exts\<rparr>))))))"

section \<open>Connecting\<close>

text \<open>
  The test of the connection: at most five pings, a longer pause after each failure. \<open>pings\<close> is what the
  first five would answer; the results are the last error, if any, and the seconds slept.
\<close>

fun ping_loop :: "nat \<Rightarrow> string option list \<Rightarrow> string option \<Rightarrow> string option \<times> nat list" where
  "ping_loop i [] lastErr = (lastErr, [])"
| "ping_loop i (p # ps) lastErr = (case p of
     Some e \<Rightarrow> (case ping_loop (i + 1) ps (Some e) of (l, slept) \<Rightarrow> (l, (i + 1) # slept))
   | None \<Rightarrow> (None, []))"

definition pg_connect :: "string \<Rightarrow> string option \<Rightarrow> string option list \<Rightarrow> string option \<Rightarrow> string option" where
  "pg_connect table opened pings created =
     (case opened of Some e \<Rightarrow> Some (''failed to connect to postgres: '' @ e)
      | None \<Rightarrow> (case fst (ping_loop 0 (take 5 pings) None) of
          Some e \<Rightarrow> Some (''failed to ping postgres after 5 attempts: '' @ e)
        | None \<Rightarrow> (case created of
            Some e \<Rightarrow> Some (''failed to create '' @ table @ '' table: '' @ e) | None \<Rightarrow> None)))"

definition NewPostgresTraceStore :: "string option \<Rightarrow> string option list \<Rightarrow> string option \<Rightarrow> string option" where
  "NewPostgresTraceStore opened pings created = pg_connect ''trace'' opened pings created"

section \<open>Operations\<close>

definition pg_SaveTrace ::
    "PgCodec \<Rightarrow> string option \<Rightarrow> Trace \<Rightarrow> PgTraceTable \<Rightarrow> string option \<times> PgTraceTable" where
  "pg_SaveTrace c down trace db = (case pg_row c trace of
     Inl e \<Rightarrow> (Some e, db)
   | Inr row \<Rightarrow> (case down of
       Some e \<Rightarrow> (Some (''failed to save trace: '' @ e), db)
     | None \<Rightarrow> (None, db(tr_TraceID trace \<mapsto> row))))"

definition pg_UpdateTrace ::
    "PgCodec \<Rightarrow> string option \<Rightarrow> Trace \<Rightarrow> PgTraceTable \<Rightarrow> string option \<times> PgTraceTable" where
  "pg_UpdateTrace c down trace db = (case pg_row c trace of
     Inl e \<Rightarrow> (Some e, db)
   | Inr row \<Rightarrow> (case down of
       Some e \<Rightarrow> (Some (''failed to update trace: '' @ e), db)
     | None \<Rightarrow> if db (tr_TraceID trace) = None then (Some (trace_not_found (tr_TraceID trace)), db)
              else (None, db(tr_TraceID trace \<mapsto> row))))"

definition pg_GetTrace :: "PgCodec \<Rightarrow> string option \<Rightarrow> string \<Rightarrow> PgTraceTable \<Rightarrow> Trace result" where
  "pg_GetTrace c down traceID db = (case down of
     Some e \<Rightarrow> Inl (''failed to get trace: '' @ e)
   | None \<Rightarrow> (case db traceID of
       None \<Rightarrow> Inl (trace_not_found traceID) | Some r \<Rightarrow> pg_scan c traceID r))"

definition pg_DeleteTrace :: "string option \<Rightarrow> string \<Rightarrow> PgTraceTable \<Rightarrow> string option \<times> PgTraceTable" where
  "pg_DeleteTrace down traceID db = (case down of
     Some e \<Rightarrow> (Some (''failed to delete trace: '' @ e), db) | None \<Rightarrow> (None, db(traceID := None)))"

text \<open>\<open>ORDER BY created_at DESC\<close>: rows of one time stay in the order the engine had them.\<close>

definition newest_first :: "string list \<Rightarrow> PgTraceTable \<Rightarrow> (string \<times> PgTraceRow) list" where
  "newest_first ks db = sort_key (\<lambda>(k, r). - t_nanos (pt_created_at r)) (map (\<lambda>k. (k, the (db k))) ks)"

definition scan_rows :: "PgCodec \<Rightarrow> (string \<times> PgTraceRow) list \<Rightarrow> Trace list result" where
  "scan_rows c rows = map_result (\<lambda>(k, r). pg_scan c k r) rows"

definition pg_ListBySession ::
    "PgCodec \<Rightarrow> string option \<Rightarrow> string list \<Rightarrow> string \<Rightarrow> PgTraceTable \<Rightarrow> Trace list result" where
  "pg_ListBySession c down ks sessionID db = (case down of
     Some e \<Rightarrow> Inl (''failed to query traces: '' @ e)
   | None \<Rightarrow> scan_rows c (filter (\<lambda>(k, r). pt_session_id r = sessionID) (newest_first ks db)))"

definition pg_ListRecent ::
    "PgCodec \<Rightarrow> string option \<Rightarrow> string list \<Rightarrow> int \<Rightarrow> PgTraceTable \<Rightarrow> Trace list result" where
  "pg_ListRecent c down ks limit db = (case down of
     Some e \<Rightarrow> Inl (''failed to query traces: '' @ e)
   | None \<Rightarrow> if limit < 0 then Inl ''failed to query traces: pq: LIMIT must not be negative''
            else scan_rows c (take (nat limit) (newest_first ks db)))"

definition pg_expired :: "PgCodec \<Rightarrow> gotime \<Rightarrow> PgTraceRow \<Rightarrow> bool" where
  "pg_expired c now r = (case pt_ttl_expire_at r of None \<Rightarrow> False | Some e \<Rightarrow> t_Before e (timestamp c now))"

definition pg_CleanupExpired ::
    "PgCodec \<Rightarrow> string option \<Rightarrow> gotime \<Rightarrow> string list \<Rightarrow> PgTraceTable \<Rightarrow> int result \<times> PgTraceTable" where
  "pg_CleanupExpired c down now ks db = (case down of
     Some e \<Rightarrow> (Inl (''failed to cleanup expired traces: '' @ e), db)
   | None \<Rightarrow> (Inr (int (length (filter (\<lambda>k. pg_expired c now (the (db k))) ks))),
       (\<lambda>k. case db k of None \<Rightarrow> None | Some r \<Rightarrow> if pg_expired c now r then None else Some r)))"

definition pg_Count :: "string option \<Rightarrow> string list \<Rightarrow> PgTraceTable \<Rightarrow> int result" where
  "pg_Count down ks db = (case down of
     Some e \<Rightarrow> Inl (''failed to count traces: '' @ e) | None \<Rightarrow> Inr (int (length ks)))"

text \<open>
  \<^verbatim>\<open>GROUP BY\<close> with \<^verbatim>\<open>COUNT(*)\<close>; the cost of a row is what the engine reads from its JSON, and
  the sum goes over the rows that have one. The four statements can fail one by one.
\<close>

fun group_count :: "string list \<Rightarrow> (string \<rightharpoonup> int) \<Rightarrow> (string \<rightharpoonup> int)" where
  "group_count [] m = m"
| "group_count (g # gs) m = group_count gs (m(g \<mapsto> (case m g of None \<Rightarrow> 1 | Some n \<Rightarrow> n + 1)))"

record PgStats =
  ps_total :: int
  ps_by_state :: "string \<rightharpoonup> int"
  ps_by_model :: "string \<rightharpoonup> int"
  ps_total_cost :: f64

definition pg_GetStats ::
    "(string \<Rightarrow> f64 option) \<Rightarrow> string option list \<Rightarrow> string list \<Rightarrow> PgTraceTable \<Rightarrow> PgStats result" where
  "pg_GetStats cost down ks db =
     (let rows = map (\<lambda>k. the (db k)) ks; fails = (\<lambda>i. if i < length down then down ! i else None) in
      case fails 0 of Some e \<Rightarrow> Inl (''failed to count traces: '' @ e)
      | None \<Rightarrow> (case fails 1 of Some e \<Rightarrow> Inl (''failed to query state stats: '' @ e)
      | None \<Rightarrow> (case fails 2 of Some e \<Rightarrow> Inl (''failed to query model stats: '' @ e)
      | None \<Rightarrow> (case fails 3 of Some e \<Rightarrow> Inl (''failed to get total cost: '' @ e)
      | None \<Rightarrow> Inr \<lparr>ps_total = int (length ks),
          ps_by_state = group_count (map pt_execution_state rows) Map.empty,
          ps_by_model = group_count (map pt_model rows) Map.empty,
          ps_total_cost = foldl fadd fzero (List.map_filter (\<lambda>r. cost (pt_observations r)) rows)\<rparr>))))"

section \<open>The store is a map\<close>

text \<open>An engine that executes every statement, and texts that are always written and read.\<close>

definition total_codec :: "TraceCodec \<Rightarrow> (string \<Rightarrow> string) \<Rightarrow> (gotime \<Rightarrow> gotime) \<Rightarrow> PgCodec" where
  "total_codec c js ts =
     \<lparr>pe_Input = Inr \<circ> enc_Input c, pd_Input = Inr \<circ> dec_Input c, pe_Output = Inr \<circ> enc_Output c,
      pd_Output = Inr \<circ> dec_Output c, pe_Observations = Inr \<circ> enc_Observations c,
      pd_Observations = Inr \<circ> dec_Observations c, pe_Proofs = Inr \<circ> enc_Proofs c, pd_Proofs = Inr \<circ> dec_Proofs c,
      pe_Constraints = Inr \<circ> enc_Constraints c, pd_Constraints = Inr \<circ> dec_Constraints c,
      pe_Extensions = Inr \<circ> enc_Extensions c, pd_Extensions = Inr \<circ> dec_Extensions c, jsonb = js, timestamp = ts\<rparr>"

lemma total_codec_Inr:
  "\<exists>r. pg_row (total_codec c js ts) t = Inr r" "\<exists>t. pg_scan (total_codec c js ts) k r = Inr t"
  by (simp_all add: pg_row_def pg_scan_def total_codec_def)

lemma projr_scan: "Inr (projr (pg_scan (total_codec c js ts) k r)) = pg_scan (total_codec c js ts) k r"
  using total_codec_Inr(2) [of c js ts k r] by auto

interpretation pg_traces: kv_store "pg_SaveTrace (total_codec c js ts) None" "pg_GetTrace (total_codec c js ts) None"
    "pg_DeleteTrace None" "\<lambda>db k. map_option (\<lambda>r. projr (pg_scan (total_codec c js ts) k r)) (db k)" tr_TraceID
    "\<lambda>t. projr (pg_scan (total_codec c js ts) (tr_TraceID t) (projr (pg_row (total_codec c js ts) t)))" trace_not_found
  for c js ts
proof
  fix r s
  obtain row where "pg_row (total_codec c js ts) r = Inr row" using total_codec_Inr(1) by blast
  then show "fst (pg_SaveTrace (total_codec c js ts) None r s) = None"
    "(\<lambda>k. map_option (\<lambda>r. projr (pg_scan (total_codec c js ts) k r)) (snd (pg_SaveTrace (total_codec c js ts) None r s) k)) =
      (\<lambda>k. map_option (\<lambda>r. projr (pg_scan (total_codec c js ts) k r)) (s k))(tr_TraceID r \<mapsto>
        projr (pg_scan (total_codec c js ts) (tr_TraceID r) (projr (pg_row (total_codec c js ts) r))))"
    by (auto simp: pg_SaveTrace_def)
qed (auto simp: pg_DeleteTrace_def pg_GetTrace_def projr_scan split: option.splits)

section \<open>Listing\<close>

lemma newest_first_sorted:
  "sorted_wrt (\<lambda>(_, r) (_, r'). \<not> t_Before (pt_created_at r) (pt_created_at r')) (newest_first ks db)"
proof -
  have "sorted (map (\<lambda>(k, r). - t_nanos (pt_created_at r)) (newest_first ks db))"
    by (simp add: newest_first_def)
  then show ?thesis
    by (simp add: sorted_map sorted_wrt_iff_nth_less t_Before_def split_def not_less)
qed

lemma newest_first_mset: "mset (newest_first ks db) = mset (map (\<lambda>k. (k, the (db k))) ks)"
  by (simp add: newest_first_def)

text \<open>Unlike the SQLite store, whose list is always empty, this one lists the latest traces.\<close>

lemma pg_list_recent:
  assumes "0 \<le> limit"
  shows "\<exists>ts. pg_ListRecent (total_codec c js cts) None ks limit db = Inr ts \<and>
    length ts = min (nat limit) (length ks) \<and> sorted_wrt not_before ts"
proof -
  define rows where "rows = take (nat limit) (newest_first ks db)"
  define scan where "scan = (\<lambda>(k, r). projr (pg_scan (total_codec c js cts) k r))"
  have inr: "pg_scan (total_codec c js cts) (fst x) (snd x) = Inr (scan x)" for x
    by (cases x) (simp add: scan_def projr_scan)
  have "map_result (\<lambda>(k, r). pg_scan (total_codec c js cts) k r) rows = Inr (map scan rows)"
    unfolding map_result_Inr_iff using inr by (simp add: split_def)
  then have "pg_ListRecent (total_codec c js cts) None ks limit db = Inr (map scan rows)"
    using assms by (simp add: pg_ListRecent_def scan_rows_def rows_def)
  moreover have "tr_CreatedAt (scan x) = pt_created_at (snd x)" for x
    by (cases x) (simp add: scan_def pg_scan_def total_codec_def)
  then have "sorted_wrt not_before (map scan rows)"
    unfolding sorted_wrt_map rows_def
    using sorted_wrt_take [OF newest_first_sorted [of ks db]] by (simp add: split_def)
  moreover have "length rows = min (nat limit) (length ks)"
    by (simp add: rows_def newest_first_def)
  ultimately show ?thesis by auto
qed

section \<open>What a trace loses\<close>

text \<open>
  The trace as it comes back: without its session, and with its times as the columns keep them.
  \<open>reads_back\<close> says that the six JSON columns give back what was written.
\<close>

definition read_back :: "PgCodec \<Rightarrow> Trace \<Rightarrow> Trace" where
  "read_back c t = t\<lparr>tr_SessionID := None, tr_CreatedAt := timestamp c (tr_CreatedAt t),
     tr_TTLExpireAt := map_option (timestamp c) (tr_TTLExpireAt t)\<rparr>"

definition reads_back :: "PgCodec \<Rightarrow> Trace \<Rightarrow> bool" where
  "reads_back c t \<longleftrightarrow>
     bind_result (pe_Input c (tr_Input t)) (pd_Input c \<circ> jsonb c) = Inr (tr_Input t) \<and>
     bind_result (pe_Output c (tr_Output t)) (pd_Output c \<circ> jsonb c) = Inr (tr_Output t) \<and>
     bind_result (pe_Observations c (tr_Observations t)) (pd_Observations c \<circ> jsonb c) = Inr (tr_Observations t) \<and>
     bind_result (pe_Proofs c (tr_Proofs t)) (pd_Proofs c \<circ> jsonb c) = Inr (tr_Proofs t) \<and>
     bind_result (pe_Constraints c (tr_ConstraintsApplied t)) (pd_Constraints c \<circ> jsonb c) = Inr (tr_ConstraintsApplied t) \<and>
     bind_result (pe_Extensions c (tr_Extensions t)) (pd_Extensions c \<circ> jsonb c) = Inr (tr_Extensions t)"

lemma pg_row_scan:
  assumes "reads_back c t"
  obtains row where "pg_row c t = Inr row" "pg_scan c (tr_TraceID t) row = Inr (read_back c t)"
  using assms
  by (auto simp: reads_back_def bind_result_Inr_iff pg_row_def pg_scan_def read_back_def)

definition sha_collision :: "json \<Rightarrow> json \<Rightarrow> bool" where
  "sha_collision a b \<longleftrightarrow> render a \<noteq> render b \<and> sha256_hex (render a) = sha256_hex (render b)"

text \<open>
  \<^bold>\<open>C11.\<close> PostgreSQL forgets the session. When the columns give back the JSON they were given, saving a
  trace succeeds, and reading it gives the trace without its session id and with its times as the columns keep
  them; an update leaves the same row; no other trace changes. The session is part of what is signed: so
  a signed trace of a session no longer verifies once it is read back, unless it exhibits a collision of SHA-256.
\<close>

theorem pg_forgets_session:
  assumes "reads_back c t"
  shows "\<exists>row. pg_SaveTrace c None t db = (None, db(tr_TraceID t \<mapsto> row)) \<and>
    pg_GetTrace c None (tr_TraceID t) (db(tr_TraceID t \<mapsto> row)) = Inr (read_back c t) \<and>
    pg_UpdateTrace c None t (db(tr_TraceID t \<mapsto> row)) = (None, db(tr_TraceID t \<mapsto> row)) \<and>
    (tr_SessionID t \<noteq> None \<longrightarrow> Verify (Some t) = Inr True \<longrightarrow> Verify (Some (read_back c t)) = Inr True \<longrightarrow>
       sha_collision (signed_json t) (signed_json (read_back c t)))"
proof -
  obtain row where row: "pg_row c t = Inr row" "pg_scan c (tr_TraceID t) row = Inr (read_back c t)"
    using pg_row_scan [OF assms] .
  have "sha_collision (signed_json t) (signed_json (read_back c t))"
    if s: "tr_SessionID t \<noteq> None" and v: "Verify (Some t) = Inr True" "Verify (Some (read_back c t)) = Inr True"
  proof -
    have "\<not> same_signed_fields t (read_back c t)"
      using s by (cases "tr_SessionID t") (simp_all add: same_signed_fields_def read_back_def)
    then have "render (signed_json t) \<noteq> render (signed_json (read_back c t))"
      using signed_json_fields [OF _ Verify_signable [OF v(1)] Verify_signable [OF v(2)]] render_signed_inject by blast
    with verified_texts [OF v] show ?thesis by (simp add: sha_collision_def read_back_def)
  qed
  with row show ?thesis by (auto simp: pg_SaveTrace_def pg_GetTrace_def pg_UpdateTrace_def)
qed

definition sample_codec :: PgCodec where
  "sample_codec = \<lparr>pe_Input = (\<lambda>_. Inr ''{}''), pd_Input = (\<lambda>_. Inr zero_Input), pe_Output = (\<lambda>_. Inr ''{}''),
     pd_Output = (\<lambda>_. Inr zero_Output), pe_Observations = (\<lambda>_. Inr ''{}''), pd_Observations = (\<lambda>_. Inr zero_Observations),
     pe_Proofs = (\<lambda>_. Inr ''{}''), pd_Proofs = (\<lambda>_. Inr zero_Proofs), pe_Constraints = (\<lambda>_. Inr ''{}''),
     pd_Constraints = (\<lambda>_. Inr zero_ConstraintsApplied), pe_Extensions = (\<lambda>_. Inr ''null''), pd_Extensions = (\<lambda>_. Inr None),
     jsonb = (\<lambda>s. s), timestamp = (\<lambda>t. t\<lparr>t_nanos := t_nanos t div 1000 * 1000\<rparr>)\<rparr>"

theorem pg_forgets_session_witness:
  "\<exists>db. pg_SaveTrace sample_codec None sample_trace Map.empty = (None, db) \<and>
     pg_GetTrace sample_codec None ''t1'' db = Inr (sample_trace\<lparr>tr_SessionID := None\<rparr>)"
proof -
  have "reads_back sample_codec sample_trace"
    by (simp add: reads_back_def sample_codec_def sample_trace_def)
  from pg_forgets_session [OF this, of Map.empty] show ?thesis
    by (auto simp: read_back_def sample_codec_def sample_trace_def)
qed

end
