(* ===== verification/PgRecords.thy ===== *)
theory PgRecords
  imports PgTrace RecordStores GoNum
begin

text \<open>
  The stores of risk reports, API keys and providers over PostgreSQL:
  \<^verbatim>\<open>postgres_risk_report.go\<close>, \<^verbatim>\<open>postgres_api_key.go\<close> and \<^verbatim>\<open>postgres_provider.go\<close> in
  \<^verbatim>\<open>internal/adapter/storage\<close>. As for the traces, \<open>down\<close> is the error the driver reports for a statement
  and \<open>ks\<close> an order in which the engine goes through the rows.
\<close>

section \<open>Risk reports\<close>

text \<open>What the DECIMAL columns keep of a number, and \<^verbatim>\<open>time.Parse\<close> and the column's view of a time.\<close>

record ReportCodec =
  rq_ratio :: "f64 \<Rightarrow> f64"
  rq_score :: "f64 \<Rightarrow> f64"
  rq_parse :: "string \<Rightarrow> gotime option"
  rq_time :: "gotime \<Rightarrow> gotime"

record PgReportRow =
  pr_baseline :: string
  pr_candidate :: string
  pr_model_changed :: bool
  pr_ratio :: "f64 option"
  pr_edit_distance :: "int option"
  pr_score :: "f64 option"
  pr_methodology :: "string option"
  pr_recommendation :: "string option"
  pr_reasons :: "string option"
  pr_baseline_length :: "int option"
  pr_candidate_length :: "int option"
  pr_diff_methodology :: "string option"
  pr_generated_at :: "gotime option"

type_synonym PgReportTable = "string \<rightharpoonup> PgReportRow"

definition NewPostgresRiskReportStore :: "string option \<Rightarrow> string option list \<Rightarrow> string option \<Rightarrow> string option" where
  "NewPostgresRiskReportStore opened pings created = pg_connect ''risk_report'' opened pings created"

definition reasons_text :: "RiskReport \<Rightarrow> string" where
  "reasons_text report = (case rr_Risk report of
     Some ra \<Rightarrow> if length (ra_RecommendationReasons ra) > 0 then Join (ra_RecommendationReasons ra) ''|'' else []
   | None \<Rightarrow> [])"

definition report_insert :: "ReportCodec \<Rightarrow> gotime \<Rightarrow> RiskReport \<Rightarrow> PgReportRow" where
  "report_insert c now report =
     (let generatedAt = (if rr_GeneratedAt report \<noteq> [] then (case rq_parse c (rr_GeneratedAt report) of
             Some t \<Rightarrow> t | None \<Rightarrow> now) else now) in
      \<lparr>pr_baseline = rr_BaselineTraceID report, pr_candidate = rr_CandidateTraceID report,
       pr_model_changed = rr_ModelChanged report,
       pr_ratio = Some (rq_ratio c (case rr_TokenDiff report of Some d \<Rightarrow> td_SimilarityRatio d | None \<Rightarrow> fzero)),
       pr_edit_distance = Some (case rr_TokenDiff report of Some d \<Rightarrow> td_EditDistance d | None \<Rightarrow> 0),
       pr_score = Some (rq_score c (case rr_Risk report of Some ra \<Rightarrow> ra_Score ra | None \<Rightarrow> fzero)),
       pr_methodology = Some (case rr_Risk report of Some ra \<Rightarrow> ra_Methodology ra | None \<Rightarrow> []),
       pr_recommendation = Some (case rr_Risk report of Some ra \<Rightarrow> ra_Recommendation ra | None \<Rightarrow> []),
       pr_reasons = Some (reasons_text report),
       pr_baseline_length = Some (case rr_TokenDiff report of Some d \<Rightarrow> td_BaselineLength d | None \<Rightarrow> 0),
       pr_candidate_length = Some (case rr_TokenDiff report of Some d \<Rightarrow> td_CandidateLength d | None \<Rightarrow> 0),
       pr_diff_methodology = Some (case rr_TokenDiff report of Some d \<Rightarrow> td_Methodology d | None \<Rightarrow> []),
       pr_generated_at = Some (rq_time c generatedAt)\<rparr>)"

text \<open>\<^verbatim>\<open>ON CONFLICT (report_id) DO UPDATE\<close> sets six of the columns.\<close>

definition report_upsert :: "PgReportRow \<Rightarrow> PgReportRow \<Rightarrow> PgReportRow" where
  "report_upsert old new =
     old\<lparr>pr_ratio := pr_ratio new, pr_edit_distance := pr_edit_distance new, pr_score := pr_score new,
       pr_methodology := pr_methodology new, pr_recommendation := pr_recommendation new, pr_reasons := pr_reasons new\<rparr>"

definition pg_SaveReport ::
    "ReportCodec \<Rightarrow> gotime \<Rightarrow> string option \<Rightarrow> RiskReport \<Rightarrow> PgReportTable \<Rightarrow> string option \<times> PgReportTable" where
  "pg_SaveReport c now down report db =
     (if rr_BaselineTraceID report = [] \<or> rr_CandidateTraceID report = []
      then (Some ''baseline_trace_id and candidate_trace_id are required'', db)
      else let reportID = rr_BaselineTraceID report @ ''_'' @ rr_CandidateTraceID report;
               row = report_insert c now report in
        (case down of Some e \<Rightarrow> (Some (''failed to save risk report: '' @ e), db)
         | None \<Rightarrow> (None, db(reportID \<mapsto> (case db reportID of None \<Rightarrow> row | Some old \<Rightarrow> report_upsert old row)))))"

abbreviation or_empty :: "string option \<Rightarrow> string" where
  "or_empty s \<equiv> (case s of Some x \<Rightarrow> x | None \<Rightarrow> [])"

abbreviation or_zero :: "int option \<Rightarrow> int" where
  "or_zero n \<equiv> (case n of Some x \<Rightarrow> x | None \<Rightarrow> 0)"

definition scan_report :: "PgReportRow \<Rightarrow> RiskReport" where
  "scan_report r =
     \<lparr>rr_BaselineTraceID = pr_baseline r, rr_CandidateTraceID = pr_candidate r, rr_ModelChanged = pr_model_changed r,
      rr_FocusFields = [],
      rr_TokenDiff = (case pr_ratio r of None \<Rightarrow> None | Some ratio \<Rightarrow>
        Some \<lparr>td_SimilarityRatio = ratio, td_EditDistance = or_zero (pr_edit_distance r),
          td_BaselineLength = or_zero (pr_baseline_length r), td_CandidateLength = or_zero (pr_candidate_length r),
          td_Methodology = or_empty (pr_diff_methodology r)\<rparr>),
      rr_Risk = (case pr_score r of None \<Rightarrow> None | Some score \<Rightarrow>
        Some \<lparr>ra_Score = score, ra_Methodology = or_empty (pr_methodology r), ra_Confidence = None,
          ra_EmbeddingModel = None, ra_Fields = [], ra_Recommendation = or_empty (pr_recommendation r),
          ra_RecommendationReasons = (if or_empty (pr_reasons r) \<noteq> [] then Split (or_empty (pr_reasons r)) (CHR ''|'') else []),
          ra_ModelChanged = None\<rparr>),
      rr_GeneratedAt = (case pr_generated_at r of Some t \<Rightarrow> RFC3339 t | None \<Rightarrow> [])\<rparr>"

definition pg_GetReport :: "string option \<Rightarrow> string \<Rightarrow> PgReportTable \<Rightarrow> RiskReport result" where
  "pg_GetReport down reportID db = (case down of
     Some e \<Rightarrow> Inl (''failed to get risk report: '' @ e)
   | None \<Rightarrow> (case db reportID of None \<Rightarrow> Inl (report_not_found reportID) | Some r \<Rightarrow> Inr (scan_report r)))"

text \<open>\<open>ORDER BY generated_at DESC\<close>; a row without a time comes first.\<close>

definition latest_reports :: "string list \<Rightarrow> PgReportTable \<Rightarrow> PgReportRow list" where
  "latest_reports ks db =
     (let rows = map (\<lambda>k. the (db k)) ks in
      filter (\<lambda>r. pr_generated_at r = None) rows @
      sort_key (\<lambda>r. - t_nanos (the (pr_generated_at r))) (filter (\<lambda>r. pr_generated_at r \<noteq> None) rows))"

definition query_reports :: "string \<Rightarrow> string option \<Rightarrow> PgReportRow list \<Rightarrow> RiskReport list result" where
  "query_reports msg down rows = (case down of Some e \<Rightarrow> Inl (msg @ e) | None \<Rightarrow> Inr (map scan_report rows))"

definition report_limit :: "int \<Rightarrow> nat" where
  "report_limit limit = nat (if limit \<le> 0 then 50 else limit)"

definition pg_GetByBaselineID :: "string option \<Rightarrow> string list \<Rightarrow> string \<Rightarrow> PgReportTable \<Rightarrow> RiskReport list result" where
  "pg_GetByBaselineID down ks baselineID db =
     query_reports ''failed to query risk reports: '' down (filter (\<lambda>r. pr_baseline r = baselineID) (latest_reports ks db))"

definition pg_ListRecentReports :: "string option \<Rightarrow> string list \<Rightarrow> int \<Rightarrow> PgReportTable \<Rightarrow> RiskReport list result" where
  "pg_ListRecentReports down ks limit db =
     query_reports ''failed to query risk reports: '' down (take (report_limit limit) (latest_reports ks db))"

definition pg_ListReports :: "string option \<Rightarrow> string list \<Rightarrow> int \<Rightarrow> PgReportTable \<Rightarrow> RiskReport list result" where
  "pg_ListReports down ks limit db = pg_ListRecentReports down ks limit db"

definition pg_CountReports :: "string option \<Rightarrow> string list \<Rightarrow> PgReportTable \<Rightarrow> int result" where
  "pg_CountReports down ks db = (case down of Some e \<Rightarrow> Inl e | None \<Rightarrow> Inr (int (length ks)))"

definition pg_ListByRiskLevel ::
    "string option \<Rightarrow> string list \<Rightarrow> string \<Rightarrow> int \<Rightarrow> PgReportTable \<Rightarrow> RiskReport list result" where
  "pg_ListByRiskLevel down ks riskLevel limit db =
     query_reports [] down (take (report_limit limit)
       (filter (\<lambda>r. pr_recommendation r = Some riskLevel) (latest_reports ks db)))"

text \<open>The total must be there; each of the three other numbers is left out when its statement fails.\<close>

definition pg_ReportStats ::
    "string option \<Rightarrow> (string \<Rightarrow> string option) \<Rightarrow> string list \<Rightarrow> PgReportTable \<Rightarrow> (string \<rightharpoonup> int) result" where
  "pg_ReportStats down fails ks db =
     (let cnt = (\<lambda>rec. int (length (filter (\<lambda>k. pr_recommendation (the (db k)) = Some rec) ks)));
          stat = (\<lambda>name rec m. if fails rec = None then m(name \<mapsto> cnt rec) else m) in
      case down of Some e \<Rightarrow> Inl e
      | None \<Rightarrow> Inr (stat ''high'' ''REJECT'' (stat ''medium'' ''REVIEW'' (stat ''low'' ''APPROVE'' [''total'' \<mapsto> int (length ks)]))))"

definition pg_DeleteReport :: "string option \<Rightarrow> string \<Rightarrow> PgReportTable \<Rightarrow> string option \<times> PgReportTable" where
  "pg_DeleteReport down traceID db = (case down of
     Some e \<Rightarrow> (Some (''failed to delete risk report: '' @ e), db)
   | None \<Rightarrow> (None, (\<lambda>k. case db k of None \<Rightarrow> None
       | Some r \<Rightarrow> if pr_baseline r = traceID \<or> pr_candidate r = traceID then None else Some r)))"

section \<open>Scanning a column\<close>

text \<open>
  The values the driver delivers, and the conversions of \<^verbatim>\<open>database/sql\<close> to the variables the code
  scans into. A time has no conversion to an integer: its text is parsed as one.
\<close>

datatype SqlValue = SqlNull | SqlInt int | SqlBool bool | SqlText string | SqlTime gotime

definition nullable :: "('a \<Rightarrow> SqlValue) \<Rightarrow> 'a option \<Rightarrow> SqlValue" where
  "nullable f x = (case x of None \<Rightarrow> SqlNull | Some v \<Rightarrow> f v)"

text \<open>\<^verbatim>\<open>time.Time.String\<close> on a time of a column without a zone, which the driver gives the offset zero.\<close>

definition time_String :: "gotime \<Rightarrow> string" where
  "time_String t = concat (map (\<lambda>c. if c = CHR ''T'' then '' '' else if c = CHR ''Z'' then '' +0000 +0000'' else [c])
     (RFC3339Nano (t_UTC t)))"

definition convert_error :: "string \<Rightarrow> string \<Rightarrow> string \<Rightarrow> string" where
  "convert_error src val dest = ''converting driver.Value type '' @ src @ '' ('' @ quoted val @ '') to a '' @ dest @ '': invalid syntax''"

fun to_string :: "SqlValue \<Rightarrow> string result" where
  "to_string (SqlText s) = Inr s"
| "to_string (SqlInt n) = Inr (itoa n)"
| "to_string (SqlBool b) = Inr (if b then ''true'' else ''false'')"
| "to_string (SqlTime t) = Inr (RFC3339Nano t)"
| "to_string SqlNull = Inl ''converting NULL to string is unsupported''"

fun to_int64 :: "SqlValue \<Rightarrow> int result" where
  "to_int64 (SqlInt n) = Inr n"
| "to_int64 (SqlText s) = (case ParseInt s of Some n \<Rightarrow> Inr n | None \<Rightarrow> Inl (convert_error ''string'' s ''int64''))"
| "to_int64 (SqlBool b) = Inl (convert_error ''bool'' (if b then ''true'' else ''false'') ''int64'')"
| "to_int64 (SqlTime t) =
     (case ParseInt (time_String t) of Some n \<Rightarrow> Inr n | None \<Rightarrow> Inl (convert_error ''time.Time'' (time_String t) ''int64''))"
| "to_int64 SqlNull = Inl ''converting NULL to int64 is unsupported''"

fun to_NullTime :: "SqlValue \<Rightarrow> gotime option result" where
  "to_NullTime SqlNull = Inr None"
| "to_NullTime (SqlTime t) = Inr (Some t)"
| "to_NullTime v = Inl ''unsupported Scan into type *time.Time''"

fun to_bool :: "SqlValue \<Rightarrow> bool result" where
  "to_bool (SqlBool b) = Inr b"
| "to_bool v = Inl ''unsupported Scan into type *bool''"

definition scan_column :: "nat \<Rightarrow> string \<Rightarrow> 'a result \<Rightarrow> 'a result" where
  "scan_column i name r = wrap_error (''sql: Scan error on column index '' @ itoa (int i) @ '', name '' @ quoted name) r"

section \<open>API keys\<close>

record KeyCodec =
  kc_marshal :: "string list \<Rightarrow> string result"
  kc_unmarshal :: "string \<Rightarrow> string list result"
  kc_time :: "gotime \<Rightarrow> gotime"
  kc_int :: "string \<Rightarrow> int option"

record PgKeyRow =
  pk_key_hash :: string
  pk_key_prefix :: string
  pk_name :: string
  pk_description :: "string option"
  pk_expires_at :: "gotime option"
  pk_is_active :: bool
  pk_permissions :: string
  pk_created_at :: gotime
  pk_last_used_at :: "gotime option"

text \<open>The rows by their id, and the next value of its sequence, which a refused insert uses up as well.\<close>

record PgKeyTable =
  pk_rows :: "int \<rightharpoonup> PgKeyRow"
  pk_seq :: int

definition NewPostgresAPIKeyStore :: "string option \<Rightarrow> string option \<Rightarrow> string option" where
  "NewPostgresAPIKeyStore opened created =
     (case opened of Some e \<Rightarrow> Some (''failed to connect to postgres: '' @ e)
      | None \<Rightarrow> (case created of Some e \<Rightarrow> Some (''failed to create api_keys table: '' @ e) | None \<Rightarrow> None))"

definition hash_taken :: "string \<Rightarrow> int list \<Rightarrow> PgKeyTable \<Rightarrow> bool" where
  "hash_taken keyHash ks db \<longleftrightarrow> list_ex (\<lambda>k. pk_key_hash (the (pk_rows db k)) = keyHash) ks"

definition pg_CreateKey ::
    "KeyCodec \<Rightarrow> gotime \<Rightarrow> string option \<Rightarrow> int list \<Rightarrow> string \<Rightarrow> string \<Rightarrow> string \<Rightarrow> string \<Rightarrow> int option \<Rightarrow>
       string list \<Rightarrow> PgKeyTable \<Rightarrow> APIKey result \<times> PgKeyTable" where
  "pg_CreateKey c now down ks keyHash keyPrefix name description expiresAt permissions db =
     (case wrap_error ''failed to marshal permissions'' (kc_marshal c permissions) of Inl e \<Rightarrow> (Inl e, db)
      | Inr permissionsJSON \<Rightarrow> (case down of Some e \<Rightarrow> (Inl (''failed to create api key: '' @ e), db)
      | None \<Rightarrow>
          let i = pk_seq db; created = kc_time c now; db = db\<lparr>pk_seq := i + 1\<rparr> in
          if hash_taken keyHash ks db
          then (Inl (''failed to create api key: pq: duplicate key value violates unique constraint '' @ quoted ''api_keys_key_hash_key''), db)
          else (Inr \<lparr>ak_KeyID = itoa i, ak_Name = name, ak_Description = description, ak_CreatedAt = created,
              ak_ExpiresAt = expiresAt, ak_IsActive = True, ak_KeyHash = keyHash, ak_KeyPrefix = keyPrefix,
              ak_Permissions = permissions, ak_LastUsedAt = None\<rparr>,
            db\<lparr>pk_rows := (pk_rows db)(i \<mapsto> \<lparr>pk_key_hash = keyHash, pk_key_prefix = keyPrefix, pk_name = name,
              pk_description = Some description,
              pk_expires_at = map_option (\<lambda>s. kc_time c \<lparr>t_nanos = s * 1000000000, t_offset = 0\<rparr>) expiresAt,
              pk_is_active = True, pk_permissions = permissionsJSON, pk_created_at = created, pk_last_used_at = None\<rparr>)\<rparr>)))"

text \<open>\<^verbatim>\<open>created_at\<close> is a TIMESTAMP, and is scanned into an \<^verbatim>\<open>int64\<close>.\<close>

definition pg_scanAPIKey :: "KeyCodec \<Rightarrow> int \<Rightarrow> PgKeyRow \<Rightarrow> APIKey result" where
  "pg_scanAPIKey c i r =
     (bind_result (wrap_error ''failed to scan api key''
        (bind_result (scan_column 0 ''id'' (to_string (SqlInt i))) (\<lambda>keyID.
         bind_result (scan_column 1 ''key_hash'' (to_string (SqlText (pk_key_hash r)))) (\<lambda>hash.
         bind_result (scan_column 2 ''key_prefix'' (to_string (SqlText (pk_key_prefix r)))) (\<lambda>keyPrefix.
         bind_result (scan_column 3 ''name'' (to_string (SqlText (pk_name r)))) (\<lambda>name.
         bind_result (scan_column 4 ''description'' (to_string (nullable SqlText (pk_description r)))) (\<lambda>description.
         bind_result (scan_column 5 ''expires_at'' (to_NullTime (nullable SqlTime (pk_expires_at r)))) (\<lambda>expiresAt.
         bind_result (scan_column 6 ''is_active'' (to_bool (SqlBool (pk_is_active r)))) (\<lambda>isActive.
         bind_result (scan_column 8 ''created_at'' (to_int64 (SqlTime (pk_created_at r)))) (\<lambda>createdAt.
         bind_result (scan_column 9 ''last_used_at'' (to_NullTime (nullable SqlTime (pk_last_used_at r)))) (\<lambda>lastUsedAt.
         Inr \<lparr>ak_KeyID = keyID, ak_Name = name, ak_Description = description,
              ak_CreatedAt = \<lparr>t_nanos = createdAt * 1000000000, t_offset = 0\<rparr>,
              ak_ExpiresAt = map_option unix_seconds expiresAt, ak_IsActive = isActive, ak_KeyHash = hash,
              ak_KeyPrefix = keyPrefix, ak_Permissions = [], ak_LastUsedAt = map_option unix_seconds lastUsedAt\<rparr>))))))))))) (\<lambda>key.
      bind_result (wrap_error ''failed to unmarshal permissions'' (kc_unmarshal c (pk_permissions r))) (\<lambda>permissions.
      Inr (key\<lparr>ak_Permissions := permissions\<rparr>))))"

definition pg_query_key ::
    "KeyCodec \<Rightarrow> string option \<Rightarrow> int list \<Rightarrow> (int \<Rightarrow> PgKeyRow \<Rightarrow> bool) \<Rightarrow> PgKeyTable \<Rightarrow> APIKey result" where
  "pg_query_key c down ks sel db = (case down of
     Some e \<Rightarrow> Inl (''failed to scan api key: '' @ e)
   | None \<Rightarrow> (case find (\<lambda>k. sel k (the (pk_rows db k))) ks of
       None \<Rightarrow> Inl ''api key not found'' | Some k \<Rightarrow> pg_scanAPIKey c k (the (pk_rows db k))))"

definition pg_GetByID :: "KeyCodec \<Rightarrow> string option \<Rightarrow> int list \<Rightarrow> int \<Rightarrow> PgKeyTable \<Rightarrow> APIKey result" where
  "pg_GetByID c down ks i db = pg_query_key c down ks (\<lambda>k r. k = i) db"

definition pg_GetByPrefix :: "KeyCodec \<Rightarrow> string option \<Rightarrow> int list \<Rightarrow> string \<Rightarrow> PgKeyTable \<Rightarrow> APIKey result" where
  "pg_GetByPrefix c down ks keyPrefix db = pg_query_key c down ks (\<lambda>k r. pk_key_prefix r = keyPrefix) db"

definition pg_VerifyKey ::
    "KeyCodec \<Rightarrow> gotime \<Rightarrow> string option \<Rightarrow> int list \<Rightarrow> string \<Rightarrow> PgKeyTable \<Rightarrow> APIKey result" where
  "pg_VerifyKey c now down ks key db =
     (let keyHash = HashAPIKey key in
      bind_result (pg_query_key c down ks (\<lambda>k r. pk_key_hash r = keyHash \<and> pk_is_active r) db) (\<lambda>k.
        if (case ak_ExpiresAt k of Some e \<Rightarrow> e < unix_seconds now | None \<Rightarrow> False) then Inl ''key expired'' else Inr k))"

definition pg_ListKeys :: "KeyCodec \<Rightarrow> string option \<Rightarrow> int list \<Rightarrow> PgKeyTable \<Rightarrow> APIKey list result" where
  "pg_ListKeys c down ks db = (case down of
     Some e \<Rightarrow> Inl (''failed to query api keys: '' @ e)
   | None \<Rightarrow> map_result (\<lambda>k. pg_scanAPIKey c k (the (pk_rows db k)))
       (sort_key (\<lambda>k. - t_nanos (pk_created_at (the (pk_rows db k)))) ks))"

text \<open>The update names a column \<^verbatim>\<open>updated_at\<close>, which the table does not have.\<close>

definition pg_api_keys_columns :: "string list" where
  "pg_api_keys_columns = [''id'', ''key_hash'', ''key_prefix'', ''name'', ''description'', ''expires_at'', ''is_active'',
     ''permissions'', ''created_at'', ''last_used_at'']"

definition pg_UpdateKey ::
    "string option \<Rightarrow> int \<Rightarrow> string \<Rightarrow> string \<Rightarrow> bool \<Rightarrow> PgKeyTable \<Rightarrow> string option \<times> PgKeyTable" where
  "pg_UpdateKey down i name description isActive db =
     (case down of Some e \<Rightarrow> (Some (''failed to update api key: '' @ e), db)
      | None \<Rightarrow> (case find (\<lambda>col. col \<notin> set pg_api_keys_columns) [''name'', ''description'', ''is_active'', ''updated_at''] of
          Some col \<Rightarrow> (Some (''failed to update api key: pq: column '' @ quoted col @ '' of relation '' @ quoted ''api_keys'' @ '' does not exist''), db)
        | None \<Rightarrow> (case pk_rows db i of None \<Rightarrow> (Some ''api key not found'', db)
            | Some r \<Rightarrow> (None, db\<lparr>pk_rows := (pk_rows db)(i \<mapsto>
                r\<lparr>pk_name := name, pk_description := Some description, pk_is_active := isActive\<rparr>)\<rparr>))))"

text \<open>\<open>kc_int\<close> is how the engine reads an integer parameter; \<open>None\<close> is an error of the statement.\<close>

definition pg_DeleteKey :: "KeyCodec \<Rightarrow> string option \<Rightarrow> string \<Rightarrow> PgKeyTable \<Rightarrow> string option \<times> PgKeyTable" where
  "pg_DeleteKey c down keyID db =
     (case down of Some e \<Rightarrow> (Some (''failed to delete api key: '' @ e), db)
      | None \<Rightarrow> (case kc_int c keyID of
          None \<Rightarrow> (Some (''failed to delete api key: pq: invalid input syntax for type integer: '' @ quoted keyID), db)
        | Some i \<Rightarrow> (None, db\<lparr>pk_rows := (pk_rows db)(i := None)\<rparr>)))"

definition pg_UpdateLastUsed :: "KeyCodec \<Rightarrow> gotime \<Rightarrow> string option \<Rightarrow> int \<Rightarrow> PgKeyTable \<Rightarrow> string option \<times> PgKeyTable" where
  "pg_UpdateLastUsed c now down i db =
     (case down of Some e \<Rightarrow> (Some (''failed to update last used time: '' @ e), db)
      | None \<Rightarrow> (None, db\<lparr>pk_rows := (case pk_rows db i of None \<Rightarrow> pk_rows db
          | Some r \<Rightarrow> (pk_rows db)(i \<mapsto> r\<lparr>pk_last_used_at := Some (kc_time c now)\<rparr>))\<rparr>))"

definition pg_ValidateKey :: "KeyCodec \<Rightarrow> string option \<Rightarrow> string \<Rightarrow> PgKeyTable \<Rightarrow> bool result" where
  "pg_ValidateKey c down keyID db = (case ParseInt keyID of None \<Rightarrow> Inl ''invalid key id''
     | Some i \<Rightarrow> (case down of Some e \<Rightarrow> Inl e
     | None \<Rightarrow> (case kc_int c (itoa i) of
         None \<Rightarrow> Inl (''pq: value '' @ quoted (itoa i) @ '' is out of range for type integer'')
       | Some i \<Rightarrow> (case pk_rows db i of None \<Rightarrow> Inr False | Some r \<Rightarrow> Inr (pk_is_active r)))))"

section \<open>Providers\<close>

text \<open>\<open>vc_price\<close> is what a DECIMAL(10,6) column keeps of a price.\<close>

record ProviderCodec =
  vc_marshal :: "string list \<Rightarrow> string result"
  vc_unmarshal :: "string \<Rightarrow> string list result"
  vc_price :: "f64 \<Rightarrow> f64"

definition NewPostgresProviderStore :: "string option \<Rightarrow> string option \<Rightarrow> string option" where
  "NewPostgresProviderStore opened created =
     (case opened of Some e \<Rightarrow> Some (''failed to connect to postgres: '' @ e)
      | None \<Rightarrow> (case created of Some e \<Rightarrow> Some (''failed to create provider table: '' @ e) | None \<Rightarrow> None))"

definition pg_SaveProvider ::
    "ProviderCodec \<Rightarrow> string option \<Rightarrow> StoredProvider \<Rightarrow> ProviderTable \<Rightarrow> string option \<times> ProviderTable" where
  "pg_SaveProvider c down config db =
     (case wrap_error ''failed to marshal models'' (vc_marshal c (sp_Models config)) of Inl e \<Rightarrow> (Some e, db)
      | Inr modelsJSON \<Rightarrow> (case down of Some e \<Rightarrow> (Some (''failed to save provider: '' @ e), db)
      | None \<Rightarrow> (None, db(sp_Name config \<mapsto> \<lparr>pw_base_url = sp_BaseURL config, pw_auth_header = sp_AuthHeader config,
          pw_models_json = modelsJSON, pw_input_price = vc_price c (sp_InputPricePer1K config),
          pw_output_price = vc_price c (sp_OutputPricePer1K config), pw_is_default = sp_IsDefault config\<rparr>))))"

definition pg_scan_provider :: "ProviderCodec \<Rightarrow> string \<Rightarrow> ProviderRow \<Rightarrow> StoredProvider result" where
  "pg_scan_provider c name r =
     bind_result (wrap_error ''failed to unmarshal models'' (vc_unmarshal c (pw_models_json r))) (\<lambda>models.
     Inr \<lparr>sp_Name = name, sp_BaseURL = pw_base_url r, sp_AuthHeader = pw_auth_header r, sp_Models = models,
       sp_InputPricePer1K = pw_input_price r, sp_OutputPricePer1K = pw_output_price r, sp_IsDefault = pw_is_default r\<rparr>)"

definition pg_GetProvider :: "ProviderCodec \<Rightarrow> string option \<Rightarrow> string \<Rightarrow> ProviderTable \<Rightarrow> StoredProvider result" where
  "pg_GetProvider c down name db = (case down of
     Some e \<Rightarrow> Inl (''failed to get provider: '' @ e)
   | None \<Rightarrow> (case db name of None \<Rightarrow> Inl (provider_not_found name) | Some r \<Rightarrow> pg_scan_provider c name r))"

text \<open>\<open>ORDER BY name\<close>; \<open>collate\<close> sorts names by the collation of the database.\<close>

definition pg_ListProviders ::
    "ProviderCodec \<Rightarrow> string option \<Rightarrow> (string list \<Rightarrow> string list) \<Rightarrow> string list \<Rightarrow> ProviderTable \<Rightarrow> StoredProvider list result" where
  "pg_ListProviders c down collate ks db = (case down of
     Some e \<Rightarrow> Inl (''failed to query providers: '' @ e)
   | None \<Rightarrow> map_result (\<lambda>k. pg_scan_provider c k (the (db k))) (collate ks))"

definition pg_DeleteProvider :: "string option \<Rightarrow> string \<Rightarrow> ProviderTable \<Rightarrow> string option \<times> ProviderTable" where
  "pg_DeleteProvider down name db = (case down of
     Some e \<Rightarrow> (Some (''failed to delete provider: '' @ e), db) | None \<Rightarrow> (None, db(name := None)))"

definition pg_GetDefault :: "ProviderCodec \<Rightarrow> string option \<Rightarrow> string list \<Rightarrow> ProviderTable \<Rightarrow> StoredProvider result" where
  "pg_GetDefault c down ks db = (case down of
     Some e \<Rightarrow> Inl (''failed to get default provider: '' @ e)
   | None \<Rightarrow> (case find (\<lambda>k. pw_is_default (the (db k))) ks of
       None \<Rightarrow> Inl ''no default provider found'' | Some k \<Rightarrow> pg_scan_provider c k (the (db k))))"

text \<open>Two statements outside a transaction: the first stays when the second fails or finds no row.\<close>

definition pg_SetDefault ::
    "string option \<Rightarrow> string option \<Rightarrow> string \<Rightarrow> ProviderTable \<Rightarrow> string option \<times> ProviderTable" where
  "pg_SetDefault down1 down2 name db = (case down1 of
     Some e \<Rightarrow> (Some (''failed to clear default flags: '' @ e), db)
   | None \<Rightarrow>
       let db = (\<lambda>k. map_option (\<lambda>r. r\<lparr>pw_is_default := False\<rparr>) (db k)) in
       (case down2 of Some e \<Rightarrow> (Some (''failed to set default provider: '' @ e), db)
        | None \<Rightarrow> (case db name of None \<Rightarrow> (Some (provider_not_found name), db)
            | Some r \<Rightarrow> (None, db(name \<mapsto> r\<lparr>pw_is_default := True\<rparr>)))))"

section \<open>No key is ever read\<close>

lemma not_is_dec_blank [simp]: "\<not> is_dec CHR '' ''"
  by (simp add: is_dec_def ord_def)

lemma ParseInt_blank:
  assumes "CHR '' '' \<in> set s"
  shows "ParseInt s = None"
proof -
  obtain neg ds where s: "split_sign s = (neg, ds)" by fastforce
  then have "CHR '' '' \<in> set ds" using assms by (auto simp: split_sign_def split: list.splits if_splits)
  then have "\<not> list_all is_dec ds" unfolding list_all_iff using not_is_dec_blank by blast
  then show ?thesis by (simp add: ParseInt_def s)
qed

lemma blank_in_time: "CHR '' '' \<in> set (time_String t)"
proof -
  have "CHR ''T'' \<in> set (RFC3339Nano (t_UTC t))"
    by (cases "civil ((t_offset (t_UTC t) + t_nanos (t_UTC t) div 1000000000) div 86400)")
      (simp add: RFC3339Nano_def Let_def)
  then show ?thesis by (force simp: time_String_def)
qed

lemma pg_scanAPIKey_fails: "isl (pg_scanAPIKey c i r)"
proof (rule ccontr)
  assume "\<not> isl (pg_scanAPIKey c i r)"
  then obtain k where "pg_scanAPIKey c i r = Inr k" by (cases "pg_scanAPIKey c i r") auto
  then show False
    by (auto simp: pg_scanAPIKey_def bind_result_Inr_iff scan_column_def ParseInt_blank blank_in_time
        simp del: to_string.simps to_NullTime.simps to_bool.simps)
qed

lemma pg_query_key_fails: "isl (pg_query_key c down ks sel db)"
  by (simp add: pg_query_key_def pg_scanAPIKey_fails split: option.split)

lemma isl_bind: "isl r \<Longrightarrow> isl (bind_result r f)"
  by (cases r) simp_all

text \<open>
  No key is ever read back, whatever was stored: a lookup by id or by prefix, a verification, a list that is
  not empty, and every update fail.
\<close>

lemma pg_key_reads_fail:
  "isl (pg_GetByID c down ks i db)" "isl (pg_GetByPrefix c down ks p db)" "isl (pg_VerifyKey c now down ks key db)"
  "isl (pg_ListKeys c None ks db) \<longleftrightarrow> ks \<noteq> []" "fst (pg_UpdateKey down i name description isActive db) \<noteq> None"
proof -
  show "isl (pg_GetByID c down ks i db)" "isl (pg_GetByPrefix c down ks p db)" "isl (pg_VerifyKey c now down ks key db)"
    by (simp_all add: pg_GetByID_def pg_GetByPrefix_def pg_VerifyKey_def isl_bind pg_query_key_fails)
  show "isl (pg_ListKeys c None ks db) \<longleftrightarrow> ks \<noteq> []"
    by (simp add: pg_ListKeys_def isl_map_result pg_scanAPIKey_fails ex_in_conv)
  show "fst (pg_UpdateKey down i name description isActive db) \<noteq> None"
    by (simp add: pg_UpdateKey_def pg_api_keys_columns_def split: option.split)
qed

section \<open>Reports\<close>

text \<open>
  A report is found under both its identifiers joined, not under that of its baseline; saving it again keeps the
  verdict on the model and the time of the first one.
\<close>

lemma pg_report_saved:
  assumes "rr_BaselineTraceID report \<noteq> []" "rr_CandidateTraceID report \<noteq> []"
    and "reportID = rr_BaselineTraceID report @ ''_'' @ rr_CandidateTraceID report"
    and "pg_SaveReport c now None report db = (e, db')"
  shows "e = None" "k \<noteq> reportID \<Longrightarrow> pg_GetReport None k db' = pg_GetReport None k db"
    "db reportID = None \<Longrightarrow> pg_GetReport None reportID db' = Inr (scan_report (report_insert c now report))"
    "db reportID = Some old \<Longrightarrow> \<exists>r. pg_GetReport None reportID db' = Inr r \<and> rr_ModelChanged r = pr_model_changed old \<and>
       rr_GeneratedAt r = rr_GeneratedAt (scan_report old)"
  using assms by (auto simp: pg_SaveReport_def pg_GetReport_def Let_def report_upsert_def scan_report_def)

text \<open>The statistics count recommendations that the domain does not have.\<close>

lemma pg_report_stats:
  assumes "\<And>k. k \<in> set ks \<Longrightarrow> pr_recommendation (the (db k)) \<in>
    {Some [], Some RecommendationApprove, Some RecommendationReviewRequired, Some RecommendationBlockRelease}"
  shows "\<exists>m. pg_ReportStats None (\<lambda>_. None) ks db = Inr m \<and> m ''medium'' = Some 0 \<and> m ''high'' = Some 0 \<and>
    m ''total'' = Some (int (length ks))"
proof -
  have "filter (\<lambda>k. pr_recommendation (the (db k)) = Some rec) ks = []" if "rec = ''REJECT'' \<or> rec = ''REVIEW''" for rec
    using assms that by (fastforce simp: filter_empty_conv)
  then show ?thesis by (simp add: pg_ReportStats_def Let_def)
qed

section \<open>The default provider\<close>

lemma pg_set_default:
  "pg_SetDefault None None name db = (e, db') \<Longrightarrow> db name = None \<Longrightarrow>
     e = Some (provider_not_found name) \<and> (\<forall>k r. db' k = Some r \<longrightarrow> \<not> pw_is_default r)"
  "pg_SetDefault None None name db = (e, db') \<Longrightarrow> db name = Some r \<Longrightarrow>
     e = None \<and> (\<forall>k r. db' k = Some r \<longrightarrow> pw_is_default r = (k = name))"
  by (auto simp: pg_SetDefault_def Let_def split: if_splits)

interpretation pg_providers: kv_store "pg_SaveProvider \<lparr>vc_marshal = Inr \<circ> m, vc_unmarshal = Inr \<circ> u, vc_price = pr\<rparr> None"
    "pg_GetProvider \<lparr>vc_marshal = Inr \<circ> m, vc_unmarshal = Inr \<circ> u, vc_price = pr\<rparr> None" "pg_DeleteProvider None"
    "\<lambda>db k. map_option (scan_provider u k) (db k)" sp_Name
    "\<lambda>p. scan_provider u (sp_Name p) (provider_row m (p\<lparr>sp_InputPricePer1K := pr (sp_InputPricePer1K p),
       sp_OutputPricePer1K := pr (sp_OutputPricePer1K p)\<rparr>))" provider_not_found
  for m u pr
  by unfold_locales
    (auto simp: pg_SaveProvider_def pg_GetProvider_def pg_DeleteProvider_def pg_scan_provider_def scan_provider_def
      provider_row_def split: option.splits)

end
