(* ===== verification/Redis.thy ===== *)
theory Redis
  imports BudgetStore GoNum
begin

text \<open>
  The budget store over Redis, \<^verbatim>\<open>internal/adapter/storage/redis_budget.go\<close>: the Lua scripts that the code
  sends, and what the code makes of their replies. The server is a parameter: its commands, and how it reads and
  writes numbers. \<open>down\<close> is an error of the connection.
\<close>

section \<open>Scripts\<close>

datatype Reply = RNil | RStr string | RInt int | RFloat f64

text \<open>
  The server: a command with its arguments, Lua's \<^verbatim>\<open>tonumber\<close>, a float as the client sends it, a number as
  a script passes it to a command, a number as the integer reply it becomes when a script returns it, and the text
  of the error that \<^verbatim>\<open>strconv.ParseFloat\<close> gives for a text.
\<close>

record 'd RedisServer =
  rd_call :: "string list \<Rightarrow> 'd \<Rightarrow> Reply result \<times> 'd"
  rd_tonumber :: "string \<Rightarrow> f64 option"
  rd_arg :: "f64 \<Rightarrow> string"
  rd_lua :: "f64 \<Rightarrow> string"
  rd_integer :: "f64 \<Rightarrow> int"
  rd_parse_error :: "string \<Rightarrow> string"

type_synonym ('d, 'a) script = "'d \<Rightarrow> 'a result \<times> 'd"

definition script_return :: "'a \<Rightarrow> ('d, 'a) script" where
  "script_return x d = (Inr x, d)"

definition script_bind :: "('d, 'a) script \<Rightarrow> ('a \<Rightarrow> ('d, 'b) script) \<Rightarrow> ('d, 'b) script" where
  "script_bind m f d = (case m d of (Inl e, d') \<Rightarrow> (Inl e, d') | (Inr x, d') \<Rightarrow> f x d')"

definition nil_arithmetic :: string where
  "nil_arithmetic = ''ERR attempt to perform arithmetic on a nil value''"

definition lua_arg :: "'d RedisServer \<Rightarrow> string \<Rightarrow> ('d, f64) script" where
  "lua_arg rd s d = (case rd_tonumber rd s of None \<Rightarrow> (Inl nil_arithmetic, d) | Some x \<Rightarrow> (Inr x, d))"

text \<open>\<^verbatim>\<open>redis.call('get', key) or '0'\<close>\<close>

definition lua_get :: "'d RedisServer \<Rightarrow> string \<Rightarrow> ('d, string) script" where
  "lua_get rd key = script_bind (rd_call rd [''get'', key]) (\<lambda>r. script_return (case r of RStr s \<Rightarrow> s | _ \<Rightarrow> ''0''))"

definition lua_number :: "'d RedisServer \<Rightarrow> string \<Rightarrow> ('d, f64) script" where
  "lua_number rd key = script_bind (lua_get rd key) (lua_arg rd)"

definition budget_key :: "string \<Rightarrow> string" where "budget_key sessionID = ''budget:'' @ sessionID"
definition reserved_key :: "string \<Rightarrow> string" where "reserved_key sessionID = ''budget:'' @ sessionID @ '':reserved''"
definition used_key :: "string \<Rightarrow> string" where "used_key sessionID = ''budget:'' @ sessionID @ '':used''"

definition reserve_script :: "'d RedisServer \<Rightarrow> string \<Rightarrow> string \<Rightarrow> ('d, Reply) script" where
  "reserve_script rd sessionID arg =
     script_bind (lua_number rd (budget_key sessionID)) (\<lambda>budget.
     script_bind (lua_number rd (reserved_key sessionID)) (\<lambda>reserved.
     script_bind (lua_arg rd arg) (\<lambda>amount.
     let available = fsub budget reserved in
     if fle amount available
     then script_bind (rd_call rd [''incrbyfloat'', reserved_key sessionID, rd_lua rd amount]) (\<lambda>_. script_return (RInt 1))
     else script_return (RInt 0))))"

text \<open>The amount that was used is read, but nothing is done with it.\<close>

definition commit_script :: "'d RedisServer \<Rightarrow> string \<Rightarrow> string \<Rightarrow> ('d, Reply) script" where
  "commit_script rd sessionID arg =
     script_bind (lua_number rd (reserved_key sessionID)) (\<lambda>reserved.
     script_bind (lua_get rd (used_key sessionID)) (\<lambda>used.
     script_bind (lua_arg rd arg) (\<lambda>amount.
     let to_rollback = fsub reserved amount in
     script_bind (if flt fzero to_rollback
         then rd_call rd [''decrbyfloat'', reserved_key sessionID, rd_lua rd to_rollback] else script_return RNil) (\<lambda>_.
     script_bind (rd_call rd [''incrbyfloat'', used_key sessionID, rd_lua rd amount]) (\<lambda>_.
     script_return (RStr ''OK''))))))"

definition rollback_script :: "'d RedisServer \<Rightarrow> string \<Rightarrow> string \<Rightarrow> ('d, Reply) script" where
  "rollback_script rd sessionID arg =
     script_bind (lua_arg rd arg) (\<lambda>amount.
     script_bind (lua_number rd (reserved_key sessionID)) (\<lambda>reserved.
     let new_reserved = fsub reserved amount;
         new_reserved = (if flt new_reserved fzero then fzero else new_reserved) in
     script_bind (rd_call rd [''set'', reserved_key sessionID, rd_lua rd new_reserved]) (\<lambda>_. script_return (RStr ''OK''))))"

definition remaining_script :: "'d RedisServer \<Rightarrow> string \<Rightarrow> ('d, Reply) script" where
  "remaining_script rd sessionID =
     script_bind (lua_number rd (budget_key sessionID)) (\<lambda>budget.
     script_bind (lua_number rd (reserved_key sessionID)) (\<lambda>reserved.
     script_bind (lua_number rd (used_key sessionID)) (\<lambda>used.
     script_return (RInt (rd_integer rd (fsub (fsub budget reserved) used))))))"

definition set_script :: "'d RedisServer \<Rightarrow> string \<Rightarrow> string \<Rightarrow> ('d, Reply) script" where
  "set_script rd sessionID arg =
     script_bind (lua_arg rd arg) (\<lambda>amount.
     script_bind (rd_call rd [''set'', budget_key sessionID, rd_lua rd amount]) (\<lambda>_.
     script_bind (rd_call rd [''del'', reserved_key sessionID]) (\<lambda>_.
     script_bind (rd_call rd [''del'', used_key sessionID]) (\<lambda>_. script_return (RStr ''OK'')))))"

section \<open>The store\<close>

datatype RedisClient =
    Failover string "string list" string int
  | Cluster "string list" string
  | Single string string int

definition NewRedisBudgetStore ::
    "string \<Rightarrow> string \<Rightarrow> int \<Rightarrow> string \<Rightarrow> string \<Rightarrow> string list \<Rightarrow> RedisClient" where
  "NewRedisBudgetStore addr password db mode master nodes =
     (if mode = ''sentinel'' then Failover master nodes password db
      else if mode = ''cluster'' then Cluster nodes password
      else Single addr password db)"

definition eval_script :: "string option \<Rightarrow> string \<Rightarrow> ('d, Reply) script \<Rightarrow> ('d, Reply) script" where
  "eval_script down msg m d = (case (case down of Some e \<Rightarrow> (Inl e, d) | None \<Rightarrow> m d) of
     (Inl e, d') \<Rightarrow> (Inl (msg @ '': '' @ e), d') | (Inr r, d') \<Rightarrow> (Inr r, d'))"

definition error_of :: "('d, Reply) script \<Rightarrow> 'd \<Rightarrow> string option \<times> 'd" where
  "error_of m d = (case m d of (Inl e, d') \<Rightarrow> (Some e, d') | (Inr _, d') \<Rightarrow> (None, d'))"

definition redis_Reserve :: "'d RedisServer \<Rightarrow> string option \<Rightarrow> string \<Rightarrow> f64 \<Rightarrow> 'd \<Rightarrow> bool result \<times> 'd" where
  "redis_Reserve rd down sessionID amount =
     script_bind (eval_script down ''failed to reserve budget'' (reserve_script rd sessionID (rd_arg rd amount)))
       (\<lambda>result. script_return (result = RInt 1))"

definition redis_Commit :: "'d RedisServer \<Rightarrow> string option \<Rightarrow> string \<Rightarrow> f64 \<Rightarrow> 'd \<Rightarrow> string option \<times> 'd" where
  "redis_Commit rd down sessionID amount =
     error_of (eval_script down ''failed to commit budget'' (commit_script rd sessionID (rd_arg rd amount)))"

definition redis_Rollback :: "'d RedisServer \<Rightarrow> string option \<Rightarrow> string \<Rightarrow> f64 \<Rightarrow> 'd \<Rightarrow> string option \<times> 'd" where
  "redis_Rollback rd down sessionID amount =
     error_of (eval_script down ''failed to rollback budget'' (rollback_script rd sessionID (rd_arg rd amount)))"

text \<open>A reply that is neither a float nor a text counts as zero.\<close>

definition remaining_of :: "Reply \<Rightarrow> f64" where
  "remaining_of r = (case r of RFloat x \<Rightarrow> x
     | RStr s \<Rightarrow> (case ParseFloat s of Some x \<Rightarrow> x | None \<Rightarrow> fzero) | _ \<Rightarrow> fzero)"

definition redis_GetRemaining :: "'d RedisServer \<Rightarrow> string option \<Rightarrow> string \<Rightarrow> 'd \<Rightarrow> f64 result" where
  "redis_GetRemaining rd down sessionID d =
     map_ok remaining_of (fst (eval_script down ''failed to get remaining budget'' (remaining_script rd sessionID) d))"

definition redis_SetBudget :: "'d RedisServer \<Rightarrow> string option \<Rightarrow> string \<Rightarrow> f64 \<Rightarrow> 'd \<Rightarrow> string option \<times> 'd" where
  "redis_SetBudget rd down sessionID amount =
     error_of (eval_script down ''failed to set budget'' (set_script rd sessionID (rd_arg rd amount)))"

definition redis_Get :: "'d RedisServer \<Rightarrow> string option \<Rightarrow> 'd \<Rightarrow> Budget result" where
  "redis_Get rd down d =
     bind_result (fst (eval_script down ''failed to get budget'' (rd_call rd [''get'', ''budget:global'']) d)) (\<lambda>r.
       case r of RStr s \<Rightarrow> (case ParseFloat s of
           Some x \<Rightarrow> Inr \<lparr>bg_TotalBudget = x, bg_UsedBudget = fzero\<rparr>
         | None \<Rightarrow> Inl (''failed to parse budget: '' @ rd_parse_error rd s))
       | _ \<Rightarrow> Inr \<lparr>bg_TotalBudget = fzero, bg_UsedBudget = fzero\<rparr>)"

definition redis_Set :: "'d RedisServer \<Rightarrow> string option \<Rightarrow> f64 \<Rightarrow> 'd \<Rightarrow> string option \<times> 'd" where
  "redis_Set rd down amount =
     error_of (eval_script down ''failed to set budget'' (rd_call rd [''set'', ''budget:global'', rd_arg rd amount, ''ex'', ''86400'']))"

definition redis_ops :: "'d RedisServer \<Rightarrow> 'd BudgetOps" where
  "redis_ops rd = \<lparr>bo_Reserve = redis_Reserve rd None, bo_Commit = redis_Commit rd None, bo_Rollback = redis_Rollback rd None,
     bo_GetRemaining = redis_GetRemaining rd None, bo_Get = redis_Get rd None, bo_Set = redis_Set rd None,
     bo_SetBudget = redis_SetBudget rd None\<rparr>"

section \<open>What the scripts do\<close>

text \<open>
  The documented commands: \<^verbatim>\<open>GET\<close> reads, \<^verbatim>\<open>INCRBYFLOAT\<close> replaces a number by another, and
  there is no \<^verbatim>\<open>DECRBYFLOAT\<close>. \<open>view\<close> is what the server holds. The law is about amounts as the program writes
  them: Redis refuses a sum that is infinite and a text with a leading blank, which Lua reads as a number.
\<close>

definition number_at :: "'d RedisServer \<Rightarrow> ('d \<Rightarrow> string \<rightharpoonup> string) \<Rightarrow> 'd \<Rightarrow> string \<Rightarrow> f64 option" where
  "number_at rd view d k = rd_tonumber rd (case view d k of None \<Rightarrow> ''0'' | Some s \<Rightarrow> s)"

definition redis_laws :: "'d RedisServer \<Rightarrow> ('d \<Rightarrow> string \<rightharpoonup> string) \<Rightarrow> bool" where
  "redis_laws rd view \<longleftrightarrow>
     (\<forall>k d. rd_call rd [''get'', k] d = (Inr (case view d k of None \<Rightarrow> RNil | Some s \<Rightarrow> RStr s), d)) \<and>
     (\<forall>k x d. number_at rd view d k \<noteq> None \<longrightarrow> rd_tonumber rd x \<noteq> None \<longrightarrow>
        (\<exists>v d'. rd_call rd [''incrbyfloat'', k, x] d = (Inr (RStr v), d') \<and> view d' = (view d)(k \<mapsto> v))) \<and>
     (\<forall>args d. \<exists>e. rd_call rd (''decrbyfloat'' # args) d = (Inl e, d))"

lemma script_simps [simp]:
  "script_bind m f d = (case m d of (Inl e, d') \<Rightarrow> (Inl e, d') | (Inr x, d') \<Rightarrow> f x d')"
  "script_return x d = (Inr x, d)"
  by (simp_all add: script_bind_def script_return_def)

lemma lua_get_number:
  assumes "redis_laws rd view"
  shows "lua_get rd k d = (Inr (case view d k of None \<Rightarrow> ''0'' | Some s \<Rightarrow> s), d)"
    "lua_number rd k d = (case number_at rd view d k of None \<Rightarrow> (Inl nil_arithmetic, d) | Some x \<Rightarrow> (Inr x, d))"
  using assms
  by (auto simp: lua_get_def lua_number_def lua_arg_def number_at_def redis_laws_def split: option.splits)

text \<open>
  \<^bold>\<open>C12.\<close> The budget over Redis. A commit of less than what is reserved, the normal case after an answer,
  fails and charges nothing, since its script calls a command that Redis does not have; the reservation stays. A
  commit of at least what is reserved is charged and leaves the reservation as it is as well. A reservation
  looks at the total and at what is reserved, and never at what was used. The remaining budget is always
  reported as zero.
\<close>

theorem redis_budget_stuck:
  assumes "redis_laws rd view" "number_at rd view d (budget_key sessionID) = Some b"
    and "number_at rd view d (reserved_key sessionID) = Some r" "number_at rd view d (used_key sessionID) = Some u"
    and "rd_tonumber rd (rd_arg rd amount) = Some amount" "rd_tonumber rd (rd_lua rd amount) \<noteq> None"
  shows "(if flt fzero (fsub r amount) then \<exists>e. redis_Commit rd None sessionID amount d = (Some e, d)
      else \<exists>v d'. redis_Commit rd None sessionID amount d = (None, d') \<and> view d' = (view d)(used_key sessionID \<mapsto> v)) \<and>
    (if fle amount (fsub b r)
     then \<exists>v d'. redis_Reserve rd None sessionID amount d = (Inr True, d') \<and> view d' = (view d)(reserved_key sessionID \<mapsto> v)
     else redis_Reserve rd None sessionID amount d = (Inr False, d)) \<and>
    redis_GetRemaining rd None sessionID d = Inr fzero"
proof -
  note get = lua_get_number [OF assms(1)]
  have incr: "\<exists>v d'. rd_call rd [''incrbyfloat'', k, rd_lua rd amount] d = (Inr (RStr v), d') \<and> view d' = (view d)(k \<mapsto> v)"
    if "number_at rd view d k \<noteq> None" for k
    using assms(1,6) that unfolding redis_laws_def by blast
  obtain v1 d1 where i1: "rd_call rd [''incrbyfloat'', used_key sessionID, rd_lua rd amount] d = (Inr (RStr v1), d1)"
    "view d1 = (view d)(used_key sessionID \<mapsto> v1)" using incr assms(4) by blast
  obtain v2 d2 where i2: "rd_call rd [''incrbyfloat'', reserved_key sessionID, rd_lua rd amount] d = (Inr (RStr v2), d2)"
    "view d2 = (view d)(reserved_key sessionID \<mapsto> v2)" using incr assms(3) by blast
  obtain e where dec: "rd_call rd [''decrbyfloat'', reserved_key sessionID, rd_lua rd (fsub r amount)] d = (Inl e, d)"
    using assms(1) unfolding redis_laws_def by blast
  show ?thesis
    using assms(2-5) i1 i2 dec
    by (simp add: redis_Commit_def redis_Reserve_def redis_GetRemaining_def error_of_def eval_script_def commit_script_def
        reserve_script_def remaining_script_def get lua_arg_def Let_def remaining_of_def) blast
qed

text \<open>A server that holds whole numbers.\<close>

definition demo_number :: "string \<Rightarrow> f64 option" where
  "demo_number s = map_option (\<lambda>n. Fin (of_int n)) (ParseInt s)"

definition demo_call :: "string list \<Rightarrow> (string \<rightharpoonup> string) \<Rightarrow> Reply result \<times> (string \<rightharpoonup> string)" where
  "demo_call args d = (case args of
     [cmd, k] \<Rightarrow> if cmd = ''get'' then (Inr (case d k of None \<Rightarrow> RNil | Some s \<Rightarrow> RStr s), d) else (Inl ''ERR'', d)
   | [cmd, k, x] \<Rightarrow>
       if cmd = ''incrbyfloat'' then
         (let v = itoa ((case d k of None \<Rightarrow> 0 | Some s \<Rightarrow> the (ParseInt s)) + the (ParseInt x)) in (Inr (RStr v), d(k \<mapsto> v)))
       else (Inl ''ERR'', d)
   | _ \<Rightarrow> (Inl ''ERR'', d))"

definition demo_redis :: "(string \<rightharpoonup> string) RedisServer" where
  "demo_redis = \<lparr>rd_call = demo_call, rd_tonumber = demo_number, rd_arg = (\<lambda>x. itoa \<lfloor>fval x\<rfloor>),
     rd_lua = (\<lambda>x. itoa \<lfloor>fval x\<rfloor>), rd_integer = (\<lambda>x. \<lfloor>fval x\<rfloor>), rd_parse_error = (\<lambda>_. [])\<rparr>"

theorem redis_budget_stuck_witness:
  "\<exists>e. redis_Commit demo_redis None ''s'' (Fin 2) [''budget:s'' \<mapsto> ''10'', ''budget:s:reserved'' \<mapsto> ''5'']
     = (Some e, [''budget:s'' \<mapsto> ''10'', ''budget:s:reserved'' \<mapsto> ''5''])"
proof -
  let ?d = "[''budget:s'' \<mapsto> ''10'', ''budget:s:reserved'' \<mapsto> ''5'']"
  have laws: "redis_laws demo_redis (\<lambda>d. d)"
    by (simp add: redis_laws_def demo_redis_def demo_call_def Let_def split: option.split list.split)
  have num: "demo_number ''10'' = Some (Fin 10)" "demo_number ''5'' = Some (Fin 5)" "demo_number ''0'' = Some (Fin 0)"
    "demo_number ''2'' = Some (Fin 2)" "itoa 2 = ''2''"
    by code_simp+
  have keys: "budget_key ''s'' = ''budget:s''" "reserved_key ''s'' = ''budget:s:reserved''" "used_key ''s'' = ''budget:s:used''"
    by (simp_all add: budget_key_def reserved_key_def used_key_def)
  have "flt fzero (fsub (Fin 5) (Fin 2))" by code_simp
  with redis_budget_stuck [OF laws, of ?d "''s''" "Fin 10" "Fin 5" "Fin 0" "Fin 2"]
  show ?thesis by (simp add: number_at_def keys num demo_redis_def)
qed

end
