(* ===== verification/GoPath.thy ===== *)
theory GoPath
  imports GoText
begin

text \<open>
  The functions of \<^verbatim>\<open>path/filepath\<close> on Unix that the servers use: cleaning, joining, the directory and
  the extension of a path.
\<close>

section \<open>Paths\<close>

text \<open>
  \<^verbatim>\<open>path/filepath\<close> on Unix: a path is cleaned component by component. Empty components and single dots
  are dropped, two dots drop the component before them.
\<close>

definition clean_step :: "bool \<Rightarrow> string list \<Rightarrow> string \<Rightarrow> string list" where
  "clean_step rooted out c =
     (if c = [] \<or> c = ''.'' then out
      else if c = ''..''
      then (if out \<noteq> [] \<and> last out \<noteq> ''..'' then butlast out else if rooted then out else out @ [c])
      else out @ [c])"

definition is_rooted :: "string \<Rightarrow> bool" where
  "is_rooted p \<longleftrightarrow> HasPrefix p ''/''"

definition clean_parts :: "string \<Rightarrow> string list" where
  "clean_parts p = foldl (clean_step (is_rooted p)) [] (Split p (CHR ''/''))"

definition path_text :: "bool \<Rightarrow> string list \<Rightarrow> string" where
  "path_text rooted cs =
     (if rooted then CHR ''/'' # Join cs ''/'' else if cs = [] then ''.'' else Join cs ''/'')"

definition Clean :: "string \<Rightarrow> string" where
  "Clean p = (if p = [] then ''.'' else path_text (is_rooted p) (clean_parts p))"

definition path_Join :: "string \<Rightarrow> string \<Rightarrow> string" where
  "path_Join a b = (if a \<noteq> [] then Clean (a @ ''/'' @ b) else if b \<noteq> [] then Clean b else [])"

definition Ext :: "string \<Rightarrow> string" where
  "Ext p = (let r = takeWhile (\<lambda>c. c \<noteq> CHR ''/'') (rev p) in
     if CHR ''.'' \<in> set r then CHR ''.'' # rev (takeWhile (\<lambda>c. c \<noteq> CHR ''.'') r) else [])"

text \<open>Everything up to the last slash, cleaned.\<close>

definition Dir :: "string \<Rightarrow> string" where
  "Dir p = Clean (rev (dropWhile (\<lambda>c. c \<noteq> CHR ''/'') (rev p)))"

lemma Dir_plain:
  assumes "CHR ''/'' \<notin> set f"
  shows "Dir (d @ CHR ''/'' # f) = Clean (d @ ''/'')" "Dir f = ''.''"
proof -
  have skip: "dropWhile (\<lambda>c. c \<noteq> CHR ''/'') (rev f @ xs) = dropWhile (\<lambda>c. c \<noteq> CHR ''/'') xs" for xs
    using assms by (subst dropWhile_append2) auto
  show "Dir (d @ CHR ''/'' # f) = Clean (d @ ''/'')" by (simp add: Dir_def skip)
  show "Dir f = ''.''" using skip [of "[]"] by (simp add: Dir_def Clean_def)
qed

end
