(* ===== verification/HeaderMiddleware.thy ===== *)
theory HeaderMiddleware
  imports Headers
begin

text \<open>
  The header middleware, \<^verbatim>\<open>internal/transport/http/middleware/headers.go\<close>: it parses the protocol headers
  a second time, with rules of its own, negotiates structured capabilities, and carries values in the context.
\<close>

section \<open>Capabilities\<close>

record SentorisCapability =
  scp_Namespace :: string
  scp_Major :: int
  scp_Minor :: int
  scp_Feature :: string
  scp_Raw :: string

definition feature_char :: "char \<Rightarrow> bool" where
  "feature_char c \<longleftrightarrow> 97 \<le> ord c \<and> ord c \<le> 122 \<or> is_dec c \<or> c = CHR ''_'' \<or> c = CHR ''-''"

text \<open>
  The pattern \<^verbatim>\<open>^sentoris\.ai/v([0-9]+)/([a-z0-9_-]+)$\<close> with its two groups. Digits and slash are
  disjoint, so that there is one way to match.
\<close>

definition capability_groups :: "string \<Rightarrow> (string \<times> string) option" where
  "capability_groups s =
     (if HasPrefix s ''sentoris.ai/v'' then
        let t = TrimPrefix s ''sentoris.ai/v''; major = takeWhile is_dec t; rest = dropWhile is_dec t in
        (case rest of
           c # feature \<Rightarrow> if major \<noteq> [] \<and> c = CHR ''/'' \<and> feature \<noteq> [] \<and> list_all feature_char feature
                         then Some (major, feature) else None
         | [] \<Rightarrow> None)
      else None)"

text \<open>\<^verbatim>\<open>strconv.Atoi\<close> on digits; its range error is dropped and leaves the greatest value.\<close>

definition Atoi_digits :: "string \<Rightarrow> int" where
  "Atoi_digits ds = min (dec_value ds) 9223372036854775807"

definition ParseCapability :: "string \<Rightarrow> SentorisCapability result" where
  "ParseCapability capability = (case capability_groups capability of
     None \<Rightarrow> Inl (''invalid capability format: '' @ capability)
   | Some (major, feature) \<Rightarrow> Inr \<lparr>scp_Namespace = ''sentoris.ai'', scp_Major = Atoi_digits major, scp_Minor = 0,
       scp_Feature = feature, scp_Raw = capability\<rparr>)"

definition IsValidCapability :: "string \<Rightarrow> bool" where
  "IsValidCapability capability \<longleftrightarrow> capability_groups capability \<noteq> None"

section \<open>Parsing\<close>

record MwHeaders =
  mh_Version :: string
  mh_Capabilities :: "SentorisCapability list"
  mh_AcceptedCapabilities :: "string list"
  mh_Action :: string
  mh_BaselineRef :: string
  mh_BudgetLimit :: f64
  mh_BudgetStrategy :: BudgetStrategy
  mh_PrivacyLevel :: PrivacyLevel
  mh_DiffOutput :: bool
  mh_FocusFields :: string
  mh_OverrideModel :: string
  mh_Warning :: string

fun valid_capabilities :: "string list \<Rightarrow> SentorisCapability list" where
  "valid_capabilities [] = []"
| "valid_capabilities (s # ss) = (case ParseCapability (TrimSpace s) of
     Inr c \<Rightarrow> c # valid_capabilities ss | Inl _ \<Rightarrow> valid_capabilities ss)"

definition mw_ParseSentorisHeaders :: "ReqHeader \<Rightarrow> MwHeaders" where
  "mw_ParseSentorisHeaders req =
     (let capabilities = header_get req ''Sentoris-Capabilities''; budgetStrategy = header_get req ''Sentoris-Budget-Strategy'';
          privacyLevel = header_get req ''Sentoris-Privacy-Level''; diffStr = header_get req ''Sentoris-Diff-Output'' in
      \<lparr>mh_Version = (if header_get req ''Sentoris-Version'' = [] then ''1.0.0'' else header_get req ''Sentoris-Version''),
       mh_Capabilities = (if capabilities \<noteq> [] then valid_capabilities (Split capabilities (CHR '','')) else []),
       mh_AcceptedCapabilities = [],
       mh_Action = header_get req ''Sentoris-Action'', mh_BaselineRef = header_get req ''Sentoris-Baseline-Ref'',
       mh_BudgetLimit = parse_budget (header_get req ''Sentoris-Budget-Limit''),
       mh_BudgetStrategy = (if budgetStrategy = [] then ''hard_stop'' else budgetStrategy),
       mh_PrivacyLevel = (if privacyLevel = [] then ''raw'' else privacyLevel),
       mh_DiffOutput = (if diffStr \<noteq> [] then ToLower diffStr = ''true'' else False),
       mh_FocusFields = header_get req ''Sentoris-Focus-Fields'',
       mh_OverrideModel = header_get req ''Sentoris-Override-Model'', mh_Warning = []\<rparr>)"

section \<open>Negotiation\<close>

text \<open>\<open>order i\<close> is the order of ranging over the supported ones for the request number \<open>i\<close>.\<close>

fun negotiate_from ::
    "(nat \<Rightarrow> string list) \<Rightarrow> string set \<Rightarrow> nat \<Rightarrow> SentorisCapability list \<Rightarrow> string list \<times> string \<Rightarrow> string list \<times> string" where
  "negotiate_from order supported i [] acc = acc"
| "negotiate_from order supported i (c # cs) (accepted, warning) =
     negotiate_from order supported (i + 1) cs
       (if scp_Raw c \<in> supported then (accepted @ [scp_Raw c], warning)
        else case find (\<lambda>s. HasSuffix s (CHR ''/'' # scp_Feature c)) (order i) of
          Some s \<Rightarrow> (accepted @ [s], ''extension downgraded: requested '' @ scp_Raw c @ '', using '' @ s)
        | None \<Rightarrow> (accepted, ''unsupported capability: '' @ scp_Raw c))"

definition mw_NegotiateCapabilities ::
    "(nat \<Rightarrow> string list) \<Rightarrow> SentorisCapability list \<Rightarrow> string list \<Rightarrow> string list \<times> string" where
  "mw_NegotiateCapabilities order requested supported = negotiate_from order (set supported) 0 requested ([], [])"

definition mw_ToConstraints :: "MwHeaders \<Rightarrow> Constraints" where
  "mw_ToConstraints h =
     zero_Constraints\<lparr>cs_Budget := Some \<lparr>bc_LimitUSD = mh_BudgetLimit h, bc_Strategy = mh_BudgetStrategy h\<rparr>,
       cs_Privacy := Some \<lparr>pc_Level = mh_PrivacyLevel h, pc_Strategy = [], pc_MaskedFields = [], pc_Deterministic = False\<rparr>,
       cs_Reproducibility := (if mh_Action h = ''replay'' \<and> mh_BaselineRef h \<noteq> []
         then Some \<lparr>rc_Mode = ReproducibilityBounded, rc_Seed = None\<rparr> else None)\<rparr>"

section \<open>The context\<close>

datatype CtxValue = CString string | CConstraints "Constraints option"

type_synonym Context = "string \<Rightarrow> CtxValue option"

definition InjectToContext :: "Context \<Rightarrow> MwHeaders \<Rightarrow> string \<Rightarrow> Context" where
  "InjectToContext ctx h traceID =
     ctx(''sentoris_trace_id'' := Some (CString traceID),
         ''sentoris_constraints'' := Some (CConstraints (Some (mw_ToConstraints h))),
         ''sentoris_version'' := Some (CString (mh_Version h)))"

text \<open>A value of another type panics: \<open>None\<close>.\<close>

definition ctx_string :: "string \<Rightarrow> Context \<Rightarrow> string option" where
  "ctx_string key ctx = (case ctx key of None \<Rightarrow> Some [] | Some (CString s) \<Rightarrow> Some s | Some _ \<Rightarrow> None)"

definition GetTraceIDFromContext :: "Context \<Rightarrow> string option" where
  "GetTraceIDFromContext ctx = ctx_string ''sentoris_trace_id'' ctx"

definition GetConstraintsFromContext :: "Context \<Rightarrow> Constraints option option" where
  "GetConstraintsFromContext ctx = (case ctx ''sentoris_constraints'' of
     None \<Rightarrow> Some None | Some (CConstraints c) \<Rightarrow> Some c | Some _ \<Rightarrow> None)"

definition GetSentorisVersionFromContext :: "Context \<Rightarrow> string option" where
  "GetSentorisVersionFromContext ctx = ctx_string ''sentoris_version'' ctx"

section \<open>Response headers\<close>

record MwResponseHeaders =
  mr_SentorisVersion :: string
  mr_SentorisAccepted :: string
  mr_SentorisTraceID :: string
  mr_SentorisDiffReport :: string
  mr_SentorisCostConsumed :: f64
  mr_SentorisBudgetRemaining :: "f64 option"
  mr_SentorisWarning :: string
  mr_SentorisTruncated :: bool

definition set_if :: "bool \<Rightarrow> string \<Rightarrow> string \<Rightarrow> (string \<rightharpoonup> string) \<Rightarrow> (string \<rightharpoonup> string)" where
  "set_if b k v hs = (if b then hs(canonical_key True k \<mapsto> v) else hs)"

definition Apply :: "MwResponseHeaders \<Rightarrow> (string \<rightharpoonup> string) \<Rightarrow> (string \<rightharpoonup> string)" where
  "Apply h hs =
     (let hs = set_if (mr_SentorisVersion h \<noteq> []) ''Sentoris-Version'' (mr_SentorisVersion h) hs;
          hs = set_if (mr_SentorisAccepted h \<noteq> []) ''Sentoris-Accepted'' (mr_SentorisAccepted h) hs;
          hs = set_if (mr_SentorisTraceID h \<noteq> []) ''Sentoris-Trace-Id'' (mr_SentorisTraceID h) hs;
          hs = set_if (mr_SentorisDiffReport h \<noteq> []) ''Sentoris-Diff-Report'' (mr_SentorisDiffReport h) hs;
          hs = set_if (flt fzero (mr_SentorisCostConsumed h)) ''Sentoris-Cost-Consumed'' (Sprintf_6f (mr_SentorisCostConsumed h)) hs;
          hs = (case mr_SentorisBudgetRemaining h of None \<Rightarrow> hs
                | Some r \<Rightarrow> set_if True ''Sentoris-Budget-Remaining'' (Sprintf_6f r) hs);
          hs = set_if (mr_SentorisWarning h \<noteq> []) ''Sentoris-Warning'' (mr_SentorisWarning h) hs
      in set_if (mr_SentorisTruncated h) ''Sentoris-Truncated'' ''true'' hs)"

section \<open>What is parsed and accepted\<close>

text \<open>A capability is read back from its parts.\<close>

lemma takeWhile_dec: "list_all is_dec m \<Longrightarrow> takeWhile is_dec (m @ CHR ''/'' # f) = m" "list_all is_dec m \<Longrightarrow> dropWhile is_dec (m @ CHR ''/'' # f) = CHR ''/'' # f"
proof -
  have slash: "\<not> is_dec CHR ''/''" by (simp add: is_dec_def ord_def)
  assume "list_all is_dec m"
  then show "takeWhile is_dec (m @ CHR ''/'' # f) = m" "dropWhile is_dec (m @ CHR ''/'' # f) = CHR ''/'' # f"
    by (induction m) (simp_all add: slash)
qed

lemma ParseCapability_parts:
  assumes "m \<noteq> []" "list_all is_dec m" "f \<noteq> []" "list_all feature_char f"
  shows "ParseCapability (''sentoris.ai/v'' @ m @ ''/'' @ f) =
    Inr \<lparr>scp_Namespace = ''sentoris.ai'', scp_Major = Atoi_digits m, scp_Minor = 0, scp_Feature = f,
      scp_Raw = ''sentoris.ai/v'' @ m @ ''/'' @ f\<rparr>"
proof -
  have "capability_groups (''sentoris.ai/v'' @ m @ ''/'' @ f) = Some (m, f)"
    using assms takeWhile_dec [OF assms(2), of f]
    by (simp add: capability_groups_def TrimPrefix_def HasPrefix_def Let_def)
  then show ?thesis by (simp add: ParseCapability_def)
qed

definition mw_pick :: "(nat \<Rightarrow> string list) \<Rightarrow> string set \<Rightarrow> nat \<Rightarrow> SentorisCapability \<Rightarrow> string option" where
  "mw_pick order supported i c =
     (if scp_Raw c \<in> supported then Some (scp_Raw c)
      else find (\<lambda>s. HasSuffix s (CHR ''/'' # scp_Feature c)) (order i))"

lemma negotiate_accepted:
  "fst (negotiate_from order S i cs (a, w)) = a @ List.map_filter (\<lambda>(j, c). mw_pick order S j c) (List.enumerate i cs)"
proof (induction cs arbitrary: i a w)
  case (Cons c cs)
  show ?case by (simp add: Cons mw_pick_def map_filter_simps split: option.split)
qed (simp add: map_filter_simps)

lemma negotiate_warning:
  "snd (negotiate_from order S i cs (a, w)) = [] \<longleftrightarrow> w = [] \<and> (\<forall>c \<in> set cs. scp_Raw c \<in> S)"
proof (induction cs arbitrary: i a w)
  case (Cons c cs)
  show ?case by (simp add: Cons split: option.split)
qed simp

lemma map_filter_enumerate_all:
  "(\<And>j c. c \<in> set cs \<Longrightarrow> f (j, c) = Some (g c)) \<Longrightarrow> List.map_filter f (List.enumerate i cs) = map g cs"
  by (induction cs arbitrary: i) (simp_all add: map_filter_simps)

lemma set_map_filter: "x \<in> set (List.map_filter f xs) \<longleftrightarrow> (\<exists>y \<in> set xs. f y = Some x)"
  by (induction xs) (auto simp: map_filter_simps split: option.split)

lemma length_map_filter: "length (List.map_filter f xs) = length (filter (\<lambda>x. f x \<noteq> None) xs)"
  by (induction xs) (auto simp: map_filter_simps split: option.split)

lemma filter_all_length: "length (filter P xs) = length xs \<longleftrightarrow> list_all P xs"
proof (induction xs)
  case (Cons x xs)
  have "length (filter P xs) < Suc (length xs)" by (simp add: less_Suc_eq_le)
  then have "length (filter P xs) \<noteq> Suc (length xs)" by simp
  with Cons show ?case by auto
qed simp

text \<open>
  Negotiation, for every order of ranging over the supported capabilities. What is accepted is
  supported, and was requested under this very name or ends in a slash and the requested feature; a requested
  capability that is supported is accepted; there is a warning exactly when some request is not supported by name;
  and when all are, they are accepted in the order of the request. Any supported text of the feature counts as
  a replacement, also one of a higher version: what the code calls a downgrade compares no versions.
\<close>

theorem negotiation_sound:
  assumes "\<forall>i. set (order i) = set supported"
  shows "(case mw_NegotiateCapabilities order requested supported of (accepted, warning) \<Rightarrow>
    (\<forall>s \<in> set accepted. s \<in> set supported \<and>
      (\<exists>c \<in> set requested. s = scp_Raw c \<or> HasSuffix s (CHR ''/'' # scp_Feature c))) \<and>
    (\<forall>c \<in> set requested. scp_Raw c \<in> set supported \<longrightarrow> scp_Raw c \<in> set accepted) \<and>
    (warning = [] \<longleftrightarrow> (\<forall>c \<in> set requested. scp_Raw c \<in> set supported)) \<and>
    (warning = [] \<longrightarrow> accepted = map scp_Raw requested) \<and>
    (length accepted = length requested \<longleftrightarrow> (\<forall>c \<in> set requested. scp_Raw c \<in> set supported \<or>
      (\<exists>s \<in> set supported. HasSuffix s (CHR ''/'' # scp_Feature c)))))"
proof -
  let ?S = "set supported"
  obtain accepted warning where n: "mw_NegotiateCapabilities order requested supported = (accepted, warning)" by fastforce
  have acc: "accepted = List.map_filter (\<lambda>(j, c). mw_pick order ?S j c) (List.enumerate 0 requested)"
    using negotiate_accepted [of order ?S 0 requested "[]" "[]"] n by (simp add: mw_NegotiateCapabilities_def)
  have warn: "warning = [] \<longleftrightarrow> (\<forall>c \<in> set requested. scp_Raw c \<in> ?S)"
    using negotiate_warning [of order ?S 0 requested "[]" "[]"] n by (simp add: mw_NegotiateCapabilities_def)
  have pick: "mw_pick order ?S j c = Some s \<Longrightarrow> s \<in> ?S \<and> (s = scp_Raw c \<or> HasSuffix s (CHR ''/'' # scp_Feature c))" for j c s
    using assms by (auto simp: mw_pick_def find_Some_iff split: if_splits) (metis nth_mem)+
  have none: "mw_pick order ?S j c \<noteq> None \<longleftrightarrow> scp_Raw c \<in> ?S \<or> (\<exists>s \<in> ?S. HasSuffix s (CHR ''/'' # scp_Feature c))" for j c
  proof -
    have "find P (order j) \<noteq> None \<longleftrightarrow> (\<exists>s \<in> ?S. P s)" for P
      using assms by (metis find_None_iff)
    then show ?thesis by (simp add: mw_pick_def)
  qed
  have mem: "(j, c) \<in> set (List.enumerate 0 requested) \<Longrightarrow> c \<in> set requested" for j c
    by (metis in_set_zip enumerate_eq_zip snd_conv nth_mem)
  have ex: "\<exists>j. (j, c) \<in> set (List.enumerate 0 requested)" if c: "c \<in> set requested" for c
  proof -
    obtain i where "i < length requested" "requested ! i = c" using c unfolding in_set_conv_nth by blast
    then have "(i, c) \<in> set (List.enumerate 0 requested)" by (simp add: in_set_enumerate_eq)
    then show ?thesis by blast
  qed
  show ?thesis
    unfolding n prod.case
  proof (intro conjI ballI impI)
    fix s assume "s \<in> set accepted"
    then obtain j c where jc: "(j, c) \<in> set (List.enumerate 0 requested)" "mw_pick order ?S j c = Some s"
      unfolding acc set_map_filter by auto
    from pick [OF jc(2)] mem [OF jc(1)]
    show "s \<in> ?S" "\<exists>c \<in> set requested. s = scp_Raw c \<or> HasSuffix s (CHR ''/'' # scp_Feature c)" by blast+
  next
    fix c assume "c \<in> set requested" "scp_Raw c \<in> ?S"
    then show "scp_Raw c \<in> set accepted"
      using ex [of c] unfolding acc set_map_filter by (force simp: mw_pick_def)
  next
    show "warning = [] \<longleftrightarrow> (\<forall>c \<in> set requested. scp_Raw c \<in> ?S)" by (rule warn)
  next
    assume "warning = []"
    then have "\<And>c. c \<in> set requested \<Longrightarrow> scp_Raw c \<in> ?S" using warn by blast
    then show "accepted = map scp_Raw requested"
      unfolding acc by (intro map_filter_enumerate_all) (simp add: mw_pick_def)
  next
    let ?E = "List.enumerate 0 requested"
    have "length accepted = length (filter (\<lambda>x. mw_pick order ?S (fst x) (snd x) \<noteq> None) ?E)"
      unfolding acc length_map_filter by (simp add: split_def)
    also have "\<dots> = length requested \<longleftrightarrow> (\<forall>x \<in> set ?E. mw_pick order ?S (fst x) (snd x) \<noteq> None)"
      using filter_all_length [of "\<lambda>x. mw_pick order ?S (fst x) (snd x) \<noteq> None" ?E] by (simp add: list_all_iff)
    also have "\<dots> \<longleftrightarrow> (\<forall>c \<in> set (map snd ?E). scp_Raw c \<in> ?S \<or> (\<exists>s \<in> ?S. HasSuffix s (CHR ''/'' # scp_Feature c)))"
      unfolding none set_map by blast
    finally show "length accepted = length requested \<longleftrightarrow> (\<forall>c \<in> set requested. scp_Raw c \<in> ?S \<or>
        (\<exists>s \<in> ?S. HasSuffix s (CHR ''/'' # scp_Feature c)))"
      by (simp only: map_snd_enumerate)
  qed
qed

theorem negotiation_sound_witness:
  "mw_NegotiateCapabilities (\<lambda>_. [''sentoris.ai/v2/diff''])
     [\<lparr>scp_Namespace = ''sentoris.ai'', scp_Major = 1, scp_Minor = 0, scp_Feature = ''diff'', scp_Raw = ''sentoris.ai/v1/diff''\<rparr>]
     [''sentoris.ai/v2/diff'']
   = ([''sentoris.ai/v2/diff''], ''extension downgraded: requested sentoris.ai/v1/diff, using sentoris.ai/v2/diff'')"
proof -
  let ?c = "\<lparr>scp_Namespace = ''sentoris.ai'', scp_Major = 1, scp_Minor = 0, scp_Feature = ''diff'', scp_Raw = ''sentoris.ai/v1/diff''\<rparr>"
  let ?n = "mw_NegotiateCapabilities (\<lambda>_. [''sentoris.ai/v2/diff'']) [?c] [''sentoris.ai/v2/diff'']"
  have "\<forall>i :: nat. set ((\<lambda>_. [''sentoris.ai/v2/diff'']) i) = set [''sentoris.ai/v2/diff'']" by simp
  note fact = negotiation_sound [OF this, of "[?c]"]
  have suffix: "HasSuffix ''sentoris.ai/v2/diff'' ''/diff''" by code_simp
  with fact have "length (fst ?n) = 1" "\<forall>s \<in> set (fst ?n). s = ''sentoris.ai/v2/diff''"
    by (auto split: prod.splits)
  then have "fst ?n = [''sentoris.ai/v2/diff'']"
    by (cases "fst ?n") auto
  moreover have "snd ?n = ''extension downgraded: requested sentoris.ai/v1/diff, using sentoris.ai/v2/diff''"
    by (simp add: mw_NegotiateCapabilities_def suffix)
  ultimately show ?thesis by (simp add: prod_eq_iff)
qed

end
