(* ===== verification/Deprecation.thy ===== *)
theory Deprecation
  imports Prelude
begin

text \<open>
  Deprecation notices, \<^verbatim>\<open>internal/service/deprecation/deprecation.go\<close>. The single manager is its map;
  \<open>ks\<close> is the order of ranging over it.
\<close>

record DeprecationNotice =
  dn_DeprecatedSince :: string
  dn_RemovedIn :: string
  dn_Replacement :: string
  dn_Description :: string

type_synonym DeprecationManager = "string \<rightharpoonup> DeprecationNotice"

text \<open>The first call makes the manager, each later one returns the same.\<close>

definition GetDeprecationManager :: "DeprecationManager option \<Rightarrow> DeprecationManager" where
  "GetDeprecationManager instance = (case instance of None \<Rightarrow> Map.empty | Some dm \<Rightarrow> dm)"

definition RegisterDeprecation :: "string \<Rightarrow> DeprecationNotice \<Rightarrow> DeprecationManager \<Rightarrow> DeprecationManager" where
  "RegisterDeprecation field notice dm = dm(field \<mapsto> notice)"

definition GetDeprecationNotice :: "string \<Rightarrow> DeprecationManager \<Rightarrow> DeprecationNotice option" where
  "GetDeprecationNotice field dm = dm field"

fun copy_notices :: "string list \<Rightarrow> DeprecationManager \<Rightarrow> DeprecationManager \<Rightarrow> DeprecationManager" where
  "copy_notices [] dm result = result"
| "copy_notices (k # ks) dm result = copy_notices ks dm (result(k \<mapsto> the (dm k)))"

definition GetAllNotices :: "string list \<Rightarrow> DeprecationManager \<Rightarrow> DeprecationManager" where
  "GetAllNotices ks dm = copy_notices ks dm Map.empty"

definition notice_text :: "string \<Rightarrow> DeprecationNotice \<Rightarrow> string" where
  "notice_text field n =
     (if dn_Replacement n \<noteq> []
      then ''Field '' @ quoted field @ '' is deprecated since '' @ dn_DeprecatedSince n @ '', use '' @ quoted (dn_Replacement n) @
        '' instead. Will be removed in '' @ dn_RemovedIn n @ ''.''
      else ''Field '' @ quoted field @ '' is deprecated since '' @ dn_DeprecatedSince n @ ''. Will be removed in '' @
        dn_RemovedIn n @ ''. '' @ dn_Description n)"

definition GenerateHeader :: "string list \<Rightarrow> DeprecationManager \<Rightarrow> string" where
  "GenerateHeader ks dm = (if ks = [] then [] else Join (map (\<lambda>k. notice_text k (the (dm k))) ks) '' | '')"

definition InitializeDefaultNotices :: "DeprecationManager \<Rightarrow> DeprecationManager" where
  "InitializeDefaultNotices dm =
     RegisterDeprecation ''reproducibility_mode'' \<lparr>dn_DeprecatedSince = ''v1.2.0'', dn_RemovedIn = ''v2.0.0'',
       dn_Replacement = ''reproducibility.mode'', dn_Description = []\<rparr>
     (RegisterDeprecation ''privacy_level'' \<lparr>dn_DeprecatedSince = ''v1.2.0'', dn_RemovedIn = ''v2.0.0'',
       dn_Replacement = ''privacy.level'', dn_Description = []\<rparr>
     (RegisterDeprecation ''budget_limit'' \<lparr>dn_DeprecatedSince = ''v1.1.0'', dn_RemovedIn = ''v2.0.0'',
       dn_Replacement = ''budget.limit_usd'', dn_Description = []\<rparr> dm))"

section \<open>What it keeps\<close>

lemma copy_notices_eq: "copy_notices ks dm result k = (if k \<in> set ks then Some (the (dm k)) else result k)"
  by (induction ks arbitrary: result) auto

text \<open>The copy is the map itself, in any order of ranging over it.\<close>

lemma GetAllNotices_copy: "iter_order ks dm \<Longrightarrow> GetAllNotices ks dm = dm"
  by (auto simp: GetAllNotices_def copy_notices_eq iter_order_def fun_eq_iff dom_def)

lemma notice_registered:
  "GetDeprecationNotice f (RegisterDeprecation field notice dm) = (if f = field then Some notice else GetDeprecationNotice f dm)"
  by (simp add: GetDeprecationNotice_def RegisterDeprecation_def)

text \<open>The header carries every notice, whatever the order.\<close>

lemma header_has_notice:
  assumes "iter_order ks dm" "dm k = Some n"
  shows "Contains (GenerateHeader ks dm) (notice_text k n)"
proof -
  have k: "k \<in> set ks" using assms by (auto simp: iter_order_def)
  have sub: "x \<in> set xs \<Longrightarrow> \<exists>u v. Join xs sep = u @ x @ v" for x xs sep
  proof (induction xs sep rule: Join.induct)
    case (3 a b xs sep)
    then consider "x = a" | "x \<in> set (b # xs)" by auto
    then show ?case
    proof cases
      case 1
      then have "Join (a # b # xs) sep = [] @ x @ (sep @ Join (b # xs) sep)" by simp
      then show ?thesis by blast
    next
      case 2
      with 3 obtain u v where "Join (b # xs) sep = u @ x @ v" by blast
      then have "Join (a # b # xs) sep = (a @ sep @ u) @ x @ v" by simp
      then show ?thesis by blast
    qed
  next
    case (2 a sep)
    then have "Join [a] sep = [] @ x @ []" by simp
    then show ?case by blast
  qed simp
  have "notice_text k n \<in> set (map (\<lambda>k. notice_text k (the (dm k))) ks)" using k assms(2) by force
  with sub show ?thesis using k unfolding Contains_iff GenerateHeader_def by (auto simp del: set_map)
qed

end
