(* ===== verification/Ed25519.thy ===== *)
theory Ed25519
  imports Signing Crypto
begin

text \<open>
  The signer with key pairs, \<^verbatim>\<open>internal/service/audit/ed25519_signer.go\<close>. The scheme itself is the
  library's and a parameter: \<open>ed_public\<close>, \<open>ed_sign\<close> and \<open>ed_verify\<close>, on bytes.
\<close>

section \<open>The signer\<close>

record Ed25519Lib =
  ed_public :: "nat list \<Rightarrow> nat list"
  ed_sign :: "nat list \<Rightarrow> string \<Rightarrow> nat list"
  ed_verify :: "nat list \<Rightarrow> string \<Rightarrow> nat list \<Rightarrow> bool"

record Ed25519Signer =
  es_privateKey :: "nat list"
  es_publicKey :: "nat list"

abbreviation PrivateKeySize :: nat where "PrivateKeySize \<equiv> 64"
abbreviation PublicKeySize :: nat where "PublicKeySize \<equiv> 32"

definition NewEd25519Signer :: "Ed25519Lib \<Rightarrow> nat list \<Rightarrow> Ed25519Signer result" where
  "NewEd25519Signer lib privateKey =
     (if length privateKey \<noteq> PrivateKeySize
      then Inl (''invalid private key size: expected '' @ itoa (int PrivateKeySize) @ '', got '' @ itoa (int (length privateKey)))
      else Inr \<lparr>es_privateKey = privateKey, es_publicKey = ed_public lib privateKey\<rparr>)"

definition GenerateEd25519KeyPair :: "(nat list \<times> nat list) result \<Rightarrow> (nat list \<times> nat list) result" where
  "GenerateEd25519KeyPair generated = generated"

definition canonical_or_fail :: "any \<Rightarrow> string result" where
  "canonical_or_fail v = (case Canonicalize v of
     Inl e \<Rightarrow> Inl (''canonicalization failed: '' @ e) | Inr c \<Rightarrow> Inr c)"

definition es_Sign :: "Ed25519Lib \<Rightarrow> any \<Rightarrow> Ed25519Signer \<Rightarrow> string result" where
  "es_Sign lib v s = bind_result (canonical_or_fail v) (\<lambda>canonical.
     Inr (b64_encode (ed_sign lib (es_privateKey s) canonical)))"

definition es_SignTrace :: "Ed25519Lib \<Rightarrow> Trace option \<Rightarrow> Ed25519Signer \<Rightarrow> string result" where
  "es_SignTrace lib trace s = (case trace of
     None \<Rightarrow> Inl ''trace cannot be nil''
   | Some t \<Rightarrow> es_Sign lib (AMap (StripNonSignatureFields (traceToMap (clear_signature t)))) s)"

definition es_Verify :: "Ed25519Lib \<Rightarrow> any \<Rightarrow> string \<Rightarrow> Ed25519Signer \<Rightarrow> bool result" where
  "es_Verify lib v signatureBase64 s = bind_result (canonical_or_fail v) (\<lambda>canonical.
     case b64_decode signatureBase64 of
       None \<Rightarrow> Inl ''invalid signature format: illegal base64 data''
     | Some signature \<Rightarrow> Inr (ed_verify lib (es_publicKey s) canonical signature))"

definition GetPublicKeyBase64 :: "Ed25519Signer \<Rightarrow> string" where
  "GetPublicKeyBase64 s = b64_encode (es_publicKey s)"

definition VerifyEd25519Signature :: "Ed25519Lib \<Rightarrow> string \<Rightarrow> any \<Rightarrow> string \<Rightarrow> bool result" where
  "VerifyEd25519Signature lib publicKeyBase64 v signatureBase64 = (case b64_decode publicKeyBase64 of
     None \<Rightarrow> Inl ''invalid public key format: illegal base64 data''
   | Some publicKey \<Rightarrow>
       if length publicKey \<noteq> PublicKeySize
       then Inl (''invalid public key size: expected '' @ itoa (int PublicKeySize) @ '', got '' @ itoa (int (length publicKey)))
       else bind_result (canonical_or_fail v) (\<lambda>canonical.
         case b64_decode signatureBase64 of
           None \<Rightarrow> Inl ''invalid signature format: illegal base64 data''
         | Some signature \<Rightarrow> Inr (ed_verify lib publicKey canonical signature)))"

section \<open>Proofs\<close>

record Ed25519Proof =
  ep_ProofType :: string
  ep_PublicKey :: string
  ep_Signature :: string
  ep_CanonicalData :: string

text \<open>A text after \<^verbatim>\<open>encoding/json\<close> wrote and read it: what is not UTF-8 is replaced.\<close>

definition json_text :: "string \<Rightarrow> string" where
  "json_text s = string_of_runes (runes s)"

definition ep_ToMap :: "Ed25519Proof \<Rightarrow> amap" where
  "ep_ToMap p =
     [(''proof_type'', AString (json_text (ep_ProofType p))), (''public_key'', AString (json_text (ep_PublicKey p))),
      (''signature'', AString (json_text (ep_Signature p)))] @
     (if ep_CanonicalData p = [] then [] else [(''canonical_data'', AString (json_text (ep_CanonicalData p)))])"

section \<open>Signing and verifying\<close>

lemma ed_canonical_supported: "canonical_or_fail v = Inr c \<longleftrightarrow> Canonicalize v = Inr c"
  by (auto simp: canonical_or_fail_def split: sum.split)

text \<open>
  Signatures with key pairs. Under the documented law of the scheme, that a signature verifies under
  the public key of the key that made it, and with keys and signatures that are bytes: what a signer made from a
  private key of 64 bytes signs, it verifies itself, and so does anyone who has only its published public key; a
  trace is signed without regard to the signature it carries; and a value that has no canonical text is refused
  with the same error by all of them.
\<close>

theorem ed25519_round_trip:
  assumes "NewEd25519Signer lib key = Inr s"
    and law: "\<And>m. ed_verify lib (ed_public lib key) m (ed_sign lib key m)"
    and bytes: "\<And>m. list_all (\<lambda>b. b < 256) (ed_sign lib key m)" "list_all (\<lambda>b. b < 256) (ed_public lib key)"
    and size: "length (ed_public lib key) = PublicKeySize"
  shows "(case es_Sign lib v s of
      Inl e \<Rightarrow> (\<forall>sg. es_Verify lib v sg s = Inl e \<and> VerifyEd25519Signature lib (GetPublicKeyBase64 s) v sg = Inl e)
    | Inr sg \<Rightarrow> es_Verify lib v sg s = Inr True \<and> VerifyEd25519Signature lib (GetPublicKeyBase64 s) v sg = Inr True) \<and>
    es_SignTrace lib (Some (set_signature x t)) s = es_SignTrace lib (Some t) s \<and>
    (isl (es_SignTrace lib (Some t) s) \<longleftrightarrow> \<not> signable t)"
proof -
  have s: "es_privateKey s = key" "es_publicKey s = ed_public lib key"
    using assms(1) by (auto simp: NewEd25519Signer_def split: if_splits)
  have pub: "b64_decode (GetPublicKeyBase64 s) = Some (ed_public lib key)"
    by (simp add: GetPublicKeyBase64_def s b64_decode_encode bytes(2))
  have "isl (es_SignTrace lib (Some t) s) \<longleftrightarrow> isl (Canonicalize (AMap (signed_map t)))"
    by (cases "Canonicalize (AMap (signed_map t))")
      (simp_all add: es_SignTrace_def es_Sign_def canonical_or_fail_def signed_map_def)
  moreover have "isl (Canonicalize (AMap (signed_map t))) \<longleftrightarrow> \<not> signable t"
    using Sign_Some [of t] isl_Sign [of t] by (cases "Canonicalize (AMap (signed_map t))") auto
  moreover have "case es_Sign lib v s of
      Inl e \<Rightarrow> (\<forall>sg. es_Verify lib v sg s = Inl e \<and> VerifyEd25519Signature lib (GetPublicKeyBase64 s) v sg = Inl e)
    | Inr sg \<Rightarrow> es_Verify lib v sg s = Inr True \<and> VerifyEd25519Signature lib (GetPublicKeyBase64 s) v sg = Inr True"
    by (cases "canonical_or_fail v")
      (simp_all add: es_Sign_def es_Verify_def VerifyEd25519Signature_def pub size s law b64_decode_encode bytes)
  ultimately show ?thesis by (simp add: es_SignTrace_def)
qed

text \<open>A toy scheme: the signature of a text is its length and the key.\<close>

definition demo_scheme :: Ed25519Lib where
  "demo_scheme = \<lparr>ed_public = take 32, ed_sign = (\<lambda>k m. (length m mod 256) # take 32 k),
     ed_verify = (\<lambda>p m sg. sg = (length m mod 256) # p)\<rparr>"

theorem ed25519_round_trip_witness:
  "\<exists>s sg. NewEd25519Signer demo_scheme (replicate 64 7) = Inr s \<and> es_SignTrace demo_scheme (Some sample_trace) s = Inr sg"
proof -
  let ?s = "\<lparr>es_privateKey = replicate 64 7, es_publicKey = replicate 32 7\<rparr>"
  have new: "NewEd25519Signer demo_scheme (replicate 64 7) = Inr ?s"
    by (simp add: NewEd25519Signer_def demo_scheme_def)
  have "\<not> isl (es_SignTrace demo_scheme (Some sample_trace) ?s) \<longleftrightarrow> signable sample_trace"
    using ed25519_round_trip [OF new, of "AMap []" "[]" sample_trace] by (simp add: demo_scheme_def list_all_iff)
  with signable_sample new show ?thesis by (cases "es_SignTrace demo_scheme (Some sample_trace) ?s") auto
qed

end
