(* ===== verification/Proxy.thy ===== *)
theory Proxy
  imports Auth ChatStore Config Redis PgRecords Extensions Hooks Deprecation
begin

text \<open>
  The program that puts the parts together, \<^verbatim>\<open>cmd/sentoris-proxy/main.go\<close>: the choice of the stores,
  the first API keys, hooks and extensions, and which requests pass the authentication. Logging, metrics, signals
  and the life of the HTTP server are left out.
\<close>

section \<open>Configuration and stores\<close>

definition init_version :: "string \<Rightarrow> string" where
  "init_version v = (if v = ''development'' then ''v0.0.0-dev'' else v)"

text \<open>A configuration that cannot be loaded is replaced by the defaults; the flag goes before the file.\<close>

definition effective_config :: "Config result \<Rightarrow> string \<Rightarrow> Config" where
  "effective_config loaded storageMode =
     (let cfg = (case loaded of Inl _ \<Rightarrow> DefaultConfig | Inr c \<Rightarrow> c)
      in if storageMode \<noteq> [] then cfg\<lparr>cf_StorageMode := storageMode\<rparr> else cfg)"

definition listen_port :: "int \<Rightarrow> Config \<Rightarrow> int" where
  "listen_port port cfg = (if 0 < cf_Port cfg then cf_Port cfg else port)"

datatype BudgetKind = RedisBudget RedisClient | MemoryBudget | SQLiteBudget
datatype StoreKind = PostgresStore | MemoryStore | SQLiteStore

record Stores =
  so_budget :: BudgetKind
  so_traces :: StoreKind
  so_reports :: StoreKind
  so_keys :: StoreKind

definition or_memory :: "string option \<Rightarrow> StoreKind" where
  "or_memory err = (case err of None \<Rightarrow> PostgresStore | Some _ \<Rightarrow> MemoryStore)"

text \<open>
  \<open>redis\<close> is the error of asking Redis for a budget, \<open>traces\<close>, \<open>reports\<close> and \<open>keys\<close> those of connecting to
  PostgreSQL, \<open>sqlite path\<close> that of opening the file (\<open>NewSQLiteStore\<close> of \<open>SqliteOpen\<close>), which panics: \<open>None\<close>.
\<close>

definition remote_stores :: "string option \<Rightarrow> string option \<Rightarrow> string option \<Rightarrow> string option \<Rightarrow> Config \<Rightarrow> Stores" where
  "remote_stores redis traces reports keys cfg =
     (let r = cf_Redis cfg in
      \<lparr>so_budget = (case redis of Some _ \<Rightarrow> MemoryBudget
         | None \<Rightarrow> RedisBudget (NewRedisBudgetStore (rc_Addr r) (rc_Password r) (rc_DB r) (rc_Mode r) (rc_Master r) (rc_Nodes r))),
       so_traces = or_memory traces, so_reports = or_memory reports, so_keys = or_memory keys\<rparr>)"

definition sqlite_path :: "Config \<Rightarrow> string" where
  "sqlite_path cfg = (if cf_DatabasePath cfg = [] then ''./data/sentoris.db'' else cf_DatabasePath cfg)"

definition select_stores ::
    "string option \<Rightarrow> string option \<Rightarrow> string option \<Rightarrow> string option \<Rightarrow> (string \<Rightarrow> string option) \<Rightarrow> Config \<Rightarrow> Stores option" where
  "select_stores redis traces reports keys sqlite cfg =
     (if cf_StorageMode cfg = ''postgres_redis'' then Some (remote_stores redis traces reports keys cfg)
      else if cf_StorageMode cfg = ''sqlite''
      then (case sqlite (sqlite_path cfg) of Some _ \<Rightarrow> None
        | None \<Rightarrow> Some \<lparr>so_budget = SQLiteBudget, so_traces = SQLiteStore, so_reports = SQLiteStore, so_keys = SQLiteStore\<rparr>)
      else if cf_StorageMode cfg = ''memory''
      then Some \<lparr>so_budget = MemoryBudget, so_traces = MemoryStore, so_reports = MemoryStore, so_keys = MemoryStore\<rparr>
      else Some (remote_stores redis traces reports keys cfg))"

section \<open>Router, keys, hooks and extensions\<close>

definition setup_router :: "'s ProviderOps \<Rightarrow> string list \<Rightarrow> Config \<Rightarrow> 's ModelRouter" where
  "setup_router ops names cfg =
     (let r = fold (\<lambda>name r. AddProvider ops name (the (the (cf_Upstreams cfg name))) r) names NewModelRouter
      in if cf_DefaultProvider cfg \<noteq> [] then SetDefaultProvider ops (cf_DefaultProvider cfg) r else r)"

text \<open>
  The keys of the configuration are taken when the store lists none, also when listing fails. \<open>ops i\<close> is the
  store at the moment of the key number \<open>i\<close>; errors of creating a key are dropped.
\<close>

fun add_config_keys ::
    "(nat \<Rightarrow> 'k KeyOps) \<Rightarrow> nat \<Rightarrow> string list \<Rightarrow> ('priv, 'pub) KeyManager \<times> 'k \<Rightarrow> ('priv, 'pub) KeyManager \<times> 'k" where
  "add_config_keys ops i [] s = s"
| "add_config_keys ops i (apiKey # ks) (km, store) =
     add_config_keys ops (i + 1) ks (AddAPIKey apiKey km,
       snd (ko_Create (ops i) (HashAPIKey apiKey) (GetKeyPrefix apiKey) ''Default Key'' ''Default API key from config'' None
         [''read'', ''write''] store))"

definition setup_keys ::
    "(nat \<Rightarrow> 'k KeyOps) \<Rightarrow> Config \<Rightarrow> ('priv, 'pub) KeyManager \<times> 'k \<Rightarrow> ('priv, 'pub) KeyManager \<times> 'k" where
  "setup_keys ops cfg s =
     (let apiKeys = (case ko_List (ops 0) (snd s) of Inl _ \<Rightarrow> [] | Inr ks \<Rightarrow> ks)
      in if length apiKeys = 0 then add_config_keys ops 0 (cf_APIKeys cfg) s else s)"

definition setup_hooks :: "'w Hook \<Rightarrow> 'w Hook \<Rightarrow> 'w Hook \<Rightarrow> Config \<Rightarrow> 'w HookChain" where
  "setup_hooks noop pii limiter cfg =
     (let registry = reg_Register limiter (reg_Register pii (reg_Register noop NewHookRegistry))
      in fold (\<lambda>hc chain. case reg_Get (hkc_Name hc) registry of Some hook \<Rightarrow> AddHook hook chain | None \<Rightarrow> chain)
           (cf_HooksEnabled cfg) (NewHookChain (cf_HooksStrategy cfg)))"

definition builtin_entry ::
    "string \<Rightarrow> string \<Rightarrow> string \<Rightarrow> string \<Rightarrow> string \<Rightarrow> builtin_extension \<Rightarrow> builtin_extension ExtensionRegistryEntry" where
  "builtin_entry namespace title spec tag handlerClass handler =
     \<lparr>en_Namespace = namespace, en_Version = ''1.0.0'', en_Title = title, en_Status = ''active'',
      en_Maintainer = \<lparr>mi_Name = ''Sentoris AI'', mi_ContactURI = ''https://sentoris.ai'', mi_GitHubOrg = []\<rparr>,
      en_SpecificationURI = spec, en_MinProtocolVersion = ''1.0.0'', en_Dependencies = [], en_ConflictsWith = [],
      en_CapabilitiesRequired = [], en_SchemaRef = [], en_Tags = [tag], en_CreatedAt = [], en_UpdatedAt = [],
      en_HandlerClass = handlerClass, en_Handler = Some handler\<rparr>"

definition setup_extensions :: "builtin_extension ExtensionRegistry" where
  "setup_extensions =
     (let r = snd (ext_Register (builtin_entry ''sentoris.ai/v1/memory_firewall'' ''Memory Firewall Extension''
                ''https://sentoris.ai/spec/v1/extensions/memory-firewall'' ''security'' ''MemoryFirewallExtension'' MemoryFirewallExtension) NewExtensionRegistry)
      in snd (ext_Register (builtin_entry ''sentoris.ai/v1/custom_rule'' ''Custom Rule Extension''
                ''https://sentoris.ai/spec/v1/extensions/custom-rule'' ''customization'' ''CustomRuleExtension'' CustomRuleExtension) r))"

text \<open>The handler over the stores, the signer and the network of \<open>d\<close>.\<close>

definition setup_handler ::
    "'w Hook \<Rightarrow> 'w Hook \<Rightarrow> 'w Hook \<Rightarrow> Config \<Rightarrow> ('t, 'b, 'w, 'p, 'k, 'r, builtin_extension) AppDeps \<Rightarrow>
       ('t, 'b, 'w, 'p, 'k, 'r, builtin_extension) AppDeps" where
  "setup_handler noop pii limiter cfg d =
     SetExtensionRegistry (Some setup_extensions) (SetHookChain (Some (setup_hooks noop pii limiter cfg)) (NewHandler d))"

section \<open>Requests\<close>

definition publicPaths :: "string list" where
  "publicPaths = [''/v1/chat/completions'', ''/v1/models'', ''/health'', ''/dashboard'', ''/dashboard/index.html'', ''/'']"

definition is_public :: "string \<Rightarrow> bool" where
  "is_public path \<longleftrightarrow> HasPrefix path ''/v1/monitor'' \<or> HasPrefix path ''/v1/admin'' \<or> HasPrefix path ''/v1/replay-eval'' \<or>
     HasPrefix path ''/v1/verify'' \<or> path \<in> set publicPaths"

definition wrappedHandler ::
    "('t, 'b, 'w, 'p, 'k, 'r, 'h) AppDeps \<Rightarrow> 'c JwtLibrary \<Rightarrow> ('priv, 'pub) KeyManager \<Rightarrow> string \<Rightarrow> string \<Rightarrow> Request \<Rightarrow>
       Writer \<Rightarrow> ('t, 'b, 'w, 'p, 'k, 'r) App \<Rightarrow> ('t, 'b, 'w, 'p, 'k, 'r) handled" where
  "wrappedHandler d lib km traceID sessionID rq w a =
     (if is_public (rq_Path rq) then ServeHTTP d traceID sessionID rq w a
      else AuthMiddleware lib km (ad_keys d) ap_keys (\<lambda>_ w a. ServeHTTP d traceID sessionID rq w a) (rq_Header rq) w a)"

section \<open>What the authentication protects\<close>

text \<open>The paths that lead to a handler.\<close>

definition routes :: "string list" where
  "routes = [''/v1/chat/completions'', ''/v1/models'', ''/health'', ''/v1/monitor'', ''/v1/monitor/metrics'',
     ''/v1/monitor/models'', ''/v1/monitor/extensions'', ''/v1/monitor/traces'', ''/v1/monitor/traces-list'',
     ''/v1/monitor/budget'', ''/v1/monitor/risk-reports'', ''/v1/replay-eval'', ''/v1/admin/providers'',
     ''/v1/admin/providers/test'', ''/v1/admin/providers/set-default'', ''/v1/admin/extensions'', ''/v1/admin/budget'',
     ''/v1/admin/api-keys'', ''/v1/verify/trace'']"

definition has_handler :: "string \<Rightarrow> bool" where
  "has_handler path \<longleftrightarrow> path \<in> set routes \<or>
     HasPrefix path ''/v1/verify/trace/'' \<and> TrimPrefix path ''/v1/verify/trace/'' \<noteq> []"

lemma routes_public: "list_all is_public routes"
  by (simp add: routes_def is_public_def publicPaths_def HasPrefix_def)

lemma HasPrefix_longer: "HasPrefix s (p @ q) \<Longrightarrow> HasPrefix s p"
  by (auto simp: HasPrefix_iff)

lemma handled_public: "has_handler path \<Longrightarrow> is_public path"
  using routes_public HasPrefix_longer [of path "''/v1/verify''" "''/trace/''"]
  by (auto simp: has_handler_def list_all_iff is_public_def)

lemma unhandled: "\<not> has_handler (rq_Path rq) \<Longrightarrow> ServeHTTP d traceID sessionID rq w a = (not_found w, a)"
  by (simp add: has_handler_def routes_def ServeHTTP_def Let_def) blast

lemma status_not_found: "status_of (not_found (fresh_writer b)) = 404"
  by (simp add: not_found_def status_handleError error_statuses fresh_writer_def)

lemma AuthMiddleware_cases:
  "AuthMiddleware lib km ops store serve hs (fresh_writer b) a = serve hs (fresh_writer b) a \<or>
   snd (AuthMiddleware lib km ops store serve hs (fresh_writer b) a) = a \<and>
   status_of (fst (AuthMiddleware lib km ops store serve hs (fresh_writer b) a)) = 401"
  by (auto simp: AuthMiddleware_def Let_def status_http_Error fresh_writer_def split: list.split sum.split)

text \<open>
  \<^bold>\<open>C5.\<close> The authentication protects nothing. Every path that has a handler is public: such a
  request is served as it is, whatever its headers, also on the paths of the administration. The middleware is
  only asked about paths without a handler; those change nothing and are answered with 401 or 404.
\<close>

theorem auth_protects_nothing:
  "if has_handler (rq_Path rq)
   then wrappedHandler d lib km traceID sessionID rq (fresh_writer b) a = ServeHTTP d traceID sessionID rq (fresh_writer b) a
   else snd (wrappedHandler d lib km traceID sessionID rq (fresh_writer b) a) = a \<and>
     status_of (fst (wrappedHandler d lib km traceID sessionID rq (fresh_writer b) a)) \<in> {401, 404}"
proof (cases "has_handler (rq_Path rq)")
  case True
  then show ?thesis by (simp add: wrappedHandler_def handled_public)
next
  case False
  with AuthMiddleware_cases [of lib km "ad_keys d" ap_keys "\<lambda>_ w a. ServeHTTP d traceID sessionID rq w a" "rq_Header rq" b a]
  show ?thesis by (auto simp: wrappedHandler_def unhandled status_not_found)
qed

section \<open>What the configuration decides\<close>

text \<open>The port of the command line is never used: the configuration always has one, 8080 if none is written.\<close>

lemma port_flag_unused: "0 \<le> cf_Port c \<Longrightarrow> listen_port port (setDefaults c) = cf_Port (setDefaults c)"
  by (simp add: listen_port_def setDefaults_def)

lemma builtin_extensions:
  "setup_extensions = [''sentoris.ai/v1/custom_rule'' \<mapsto> builtin_entry ''sentoris.ai/v1/custom_rule'' ''Custom Rule Extension''
       ''https://sentoris.ai/spec/v1/extensions/custom-rule'' ''customization'' ''CustomRuleExtension'' CustomRuleExtension,
     ''sentoris.ai/v1/memory_firewall'' \<mapsto> builtin_entry ''sentoris.ai/v1/memory_firewall'' ''Memory Firewall Extension''
       ''https://sentoris.ai/spec/v1/extensions/memory-firewall'' ''security'' ''MemoryFirewallExtension'' MemoryFirewallExtension]"
  (is "_ = [''sentoris.ai/v1/custom_rule'' \<mapsto> ?c, _ \<mapsto> ?m]")
proof -
  have "Entry_Validate ?c = None" "Entry_Validate ?m = None" by code_simp+
  then show ?thesis
    by (simp add: setup_extensions_def ext_Register_def NewExtensionRegistry_def) (simp add: builtin_entry_def fun_upd_twist)
qed

text \<open>What the assembled proxy says of its extensions: the two that are built in, in some order.\<close>

lemma extensions_listed:
  assumes "iter_order (ad_ext_order d) setup_extensions"
  shows "mset (extension_list (setup_handler noop pii limiter cfg d)) =
    mset (map (\<lambda>title. [(''name'', AString title), (''version'', AString ''1.0.0''), (''enabled'', ABool True)])
      [''Custom Rule Extension'', ''Memory Firewall Extension''])"
proof -
  have "set (ad_ext_order d) = {''sentoris.ai/v1/custom_rule'', ''sentoris.ai/v1/memory_firewall''}" "distinct (ad_ext_order d)"
    using assms by (auto simp: iter_order_def builtin_extensions)
  then have "mset (ad_ext_order d) = mset [''sentoris.ai/v1/custom_rule'', ''sentoris.ai/v1/memory_firewall'']"
    by (subst set_eq_iff_mset_eq_distinct [symmetric]) auto
  then have "mset (map f (ad_ext_order d)) = mset (map f [''sentoris.ai/v1/custom_rule'', ''sentoris.ai/v1/memory_firewall''])" for f :: "string \<Rightarrow> amap"
    by (metis mset_map)
  then show ?thesis
    by (simp add: extension_list_def setup_handler_def SetExtensionRegistry_def SetHookChain_def NewHandler_def ext_List_def
        entries_in_def comp_def builtin_extensions builtin_entry_def del: mset_map mset.simps)
qed

lemma builtin_extensions_registered:
  "setup_extensions ''sentoris.ai/v1/memory_firewall'' \<noteq> None" "setup_extensions ''sentoris.ai/v1/custom_rule'' \<noteq> None"
  by code_simp+

section \<open>API keys over PostgreSQL\<close>

definition pg_key_ops ::
    "KeyCodec \<Rightarrow> gotime \<Rightarrow> string option \<Rightarrow> (PgKeyTable \<Rightarrow> int list) \<Rightarrow> PgKeyTable KeyOps" where
  "pg_key_ops c now down ks =
     \<lparr>ko_List = (\<lambda>db. pg_ListKeys c down (ks db) db),
      ko_Create = (\<lambda>keyHash keyPrefix name description expiresAt permissions db.
        pg_CreateKey c now down (ks db) keyHash keyPrefix name description expiresAt permissions db),
      ko_Delete = pg_DeleteKey c down, ko_Verify = (\<lambda>token db. pg_VerifyKey c now down (ks db) token db)\<rparr>"

lemma config_keys_added: "km_apiKeys (fst (add_config_keys ops i keys (km, store))) = km_apiKeys km @ keys"
proof (induction keys arbitrary: i km store)
  case (Cons k ks)
  show ?case using Cons [of "i + 1" "AddAPIKey k km"] by (simp add: AddAPIKey_def)
qed simp

lemma pg_lists_nothing: "case ko_List (pg_key_ops c now down ks) db of Inl _ \<Rightarrow> True | Inr r \<Rightarrow> r = []"
proof (cases down)
  case None
  show ?thesis
    using pg_key_reads_fail(4) [of c "ks db" db] None
    by (cases "ks db = []") (auto simp: pg_key_ops_def pg_ListKeys_def split: sum.split)
qed (simp add: pg_key_ops_def pg_ListKeys_def)

text \<open>
  With PostgreSQL no stored key admits anybody. Whatever the table holds, the program takes the keys
  of the configuration at its start, since listing the stored ones gives none, and from then on the middleware
  admits an API key exactly when it is one of these: a key that was created over the API, or in an earlier
  run, is refused, since reading its row always fails.
\<close>

theorem pg_only_config_keys:
  "(case setup_keys (\<lambda>i. pg_key_ops c (now i) (down i) ks) cfg (km, db) of (km', db') \<Rightarrow>
     set (km_apiKeys km') = set (km_apiKeys km) \<union> set (cf_APIKeys cfg) \<and>
     admitted lib km' (pg_key_ops c t e ks) (Some any_db) (''ApiKey '' @ token) =
       (CHR '' '' \<notin> set token \<and> token \<in> set (km_apiKeys km) \<union> set (cf_APIKeys cfg)))"
proof -
  let ?ops = "\<lambda>i. pg_key_ops c (now i) (down i) ks"
  have st: "setup_keys ?ops cfg (km, db) = add_config_keys ?ops 0 (cf_APIKeys cfg) (km, db)"
    using pg_lists_nothing [of c "now 0" "down 0" ks db] by (simp add: setup_keys_def Let_def split: sum.splits)
  obtain km' db' where s: "add_config_keys ?ops 0 (cf_APIKeys cfg) (km, db) = (km', db')" by fastforce
  have keys: "set (km_apiKeys km') = set (km_apiKeys km) \<union> set (cf_APIKeys cfg)"
    using config_keys_added [of ?ops 0 "cf_APIKeys cfg" km db] s by simp
  have "isl (ko_Verify (pg_key_ops c t e ks) token any_db)" for token
    by (simp add: pg_key_ops_def pg_key_reads_fail)
  then have "admitted lib km' (pg_key_ops c t e ks) (Some any_db) (''ApiKey '' @ token) =
      (CHR '' '' \<notin> set token \<and> token \<in> set (km_apiKeys km'))"
    by (auto simp: admitted_def)
  with keys s st show ?thesis by simp
qed

section \<open>Chats over PostgreSQL\<close>

definition pg_trace_ops :: "PgCodec \<Rightarrow> PgTraceTable TraceOps" where
  "pg_trace_ops c = \<lparr>to_Save = pg_SaveTrace c None, to_Update = pg_UpdateTrace c None, to_Get = pg_GetTrace c None\<rparr>"

interpretation pg_chat: trace_store "pg_SaveTrace (total_codec c js ts) None" "pg_GetTrace (total_codec c js ts) None"
    "pg_DeleteTrace None" "\<lambda>db k. map_option (\<lambda>r. projr (pg_scan (total_codec c js ts) k r)) (db k)"
    "\<lambda>t. projr (pg_scan (total_codec c js ts) (tr_TraceID t) (projr (pg_row (total_codec c js ts) t)))"
    "pg_UpdateTrace (total_codec c js ts) None" "pg_trace_ops (total_codec c js ts)"
  for c js ts
proof
  fix t :: Trace and s u
  assume found: "pg_GetTrace (total_codec c js ts) None (tr_TraceID t) s = Inr u"
  obtain row where "pg_row (total_codec c js ts) t = Inr row" using total_codec_Inr(1) by blast
  with found show "(\<lambda>k. map_option (\<lambda>r. projr (pg_scan (total_codec c js ts) k r)) (snd (pg_UpdateTrace (total_codec c js ts) None t s) k))
      = (\<lambda>k. map_option (\<lambda>r. projr (pg_scan (total_codec c js ts) k r)) (s k))(tr_TraceID t \<mapsto>
        projr (pg_scan (total_codec c js ts) (tr_TraceID t) (projr (pg_row (total_codec c js ts) t))))"
    by (auto simp: pg_UpdateTrace_def pg_GetTrace_def split: option.splits)
qed (simp add: pg_trace_ops_def)

text \<open>With PostgreSQL as well the trace of a chat is stored without a signature.\<close>

lemma pg_chat_unsigned:
  assumes "handleChatCompletions d tid sid meth hs body w srv = (Some t, w', srv')"
    and "dp_traces d = pg_trace_ops (total_codec c js ts)" "chain_ok d"
    and "pf_AuditSignature (dec_Proofs c (js (enc_Proofs c zero_Proofs))) = []"
  shows "handleVerifyTraceByID d ''GET'' tid v srv' = handleError ''No audit signature found'' 400 ErrInvalidInput v"
proof -
  obtain u where u: "to_Get (dp_traces d) tid (sv_traces srv') =
      Inr (projr (pg_scan (total_codec c js ts) (tr_TraceID u) (projr (pg_row (total_codec c js ts) u))))"
    "tr_Proofs u = zero_Proofs"
    using pg_chat.chat.chat_stored_unsigned [OF assms(2,3,1)] assms(2) by metis
  have "pf_AuditSignature (tr_Proofs (projr (pg_scan (total_codec c js ts) (tr_TraceID u) (projr (pg_row (total_codec c js ts) u))))) = []"
    using assms(4) u(2) by (simp add: pg_scan_def pg_row_def total_codec_def)
  with u(1) show ?thesis by (simp add: verify_unsigned handleVerifyTraceByID_def)
qed

end
