(* ===== verification/UiClient.thy ===== *)
theory UiClient
  imports Proxy
begin

text \<open>
  The API client of the user interface, \<^verbatim>\<open>internal/ui/api/client.go\<close>: its requests, the structures its answers
  are decoded into, and what it can see and change when it talks to the proxy of this repository. The network
  is an argument: a function of the request and of the state of the server. A body of an answer is the list of
  values that were written, as in \<open>Response\<close>.
\<close>

section \<open>Decoding into structures\<close>

text \<open>
  \<^verbatim>\<open>encoding/json\<close>: what a decoder makes of a JSON value and the present value of its target, and
  whether the types did not fit; decoding goes on after a mismatch. A JSON null leaves the target alone, and
  so does a key without a field; a field is found by its name, or by its name up to case.
\<close>

type_synonym 'v dec = "any \<Rightarrow> 'v \<Rightarrow> 'v \<times> bool"

fun dec_string :: "string dec" where
  "dec_string (AString s) v = (s, False)"
| "dec_string ANil v = (v, False)"
| "dec_string _ v = (v, True)"

fun dec_bool :: "bool dec" where
  "dec_bool (ABool b) v = (b, False)"
| "dec_bool ANil v = (v, False)"
| "dec_bool _ v = (v, True)"

fun dec_float :: "f64 dec" where
  "dec_float (AFloat x) v = (x, False)"
| "dec_float ANil v = (v, False)"
| "dec_float _ v = (v, True)"

fun dec_int :: "int dec" where
  "dec_int (AFloat (Fin q)) v =
     (if q = of_int \<lfloor>q\<rfloor> \<and> - (2 ^ 63) \<le> \<lfloor>q\<rfloor> \<and> \<lfloor>q\<rfloor> < 2 ^ 63 then (\<lfloor>q\<rfloor>, False) else (v, True))"
| "dec_int (AFloat NZero) v = (0, False)"
| "dec_int ANil v = (v, False)"
| "dec_int _ v = (v, True)"

fun dec_list :: "'v dec \<Rightarrow> 'v \<Rightarrow> 'v list dec" where
  "dec_list d zero (AArr xs) v = (let r = map (\<lambda>x. d x zero) xs in (map fst r, list_ex snd r))"
| "dec_list d zero ANil v = (v, False)"
| "dec_list d zero _ v = (v, True)"

fun dec_dict :: "'v dec \<Rightarrow> 'v \<Rightarrow> (string \<rightharpoonup> 'v) dec" where
  "dec_dict d zero (AMap m) v =
     foldl (\<lambda>(v, e) (k, x). case d x zero of (y, e') \<Rightarrow> (v(k \<mapsto> y), e \<or> e')) (v, False) m"
| "dec_dict d zero ANil v = (v, False)"
| "dec_dict d zero _ v = (v, True)"

definition field_of :: "(string \<times> 'v dec) list \<Rightarrow> string \<Rightarrow> 'v dec option" where
  "field_of fds k = (case map_of fds k of
     Some d \<Rightarrow> Some d
   | None \<Rightarrow> map_option snd (find (\<lambda>f. ToLower (fst f) = ToLower k) fds))"

definition dec_object :: "(string \<times> 'v dec) list \<Rightarrow> amap \<Rightarrow> 'v \<Rightarrow> 'v \<times> bool" where
  "dec_object fds m v = foldl (\<lambda>(v, e) (k, x). case field_of fds k of
       None \<Rightarrow> (v, e) | Some d \<Rightarrow> (case d x v of (v', e') \<Rightarrow> (v', e \<or> e'))) (v, False) m"

fun dec_struct :: "(string \<times> 'v dec) list \<Rightarrow> 'v dec" where
  "dec_struct fds (AMap m) v = dec_object fds m v"
| "dec_struct fds ANil v = (v, False)"
| "dec_struct fds _ v = (v, True)"

definition dec_at :: "('v \<Rightarrow> 'f) \<Rightarrow> (('f \<Rightarrow> 'f) \<Rightarrow> 'v \<Rightarrow> 'v) \<Rightarrow> 'f dec \<Rightarrow> 'v dec" where
  "dec_at get put d x v = (case d x (get v) of (y, e) \<Rightarrow> (put (\<lambda>_. y) v, e))"

lemma dec_object_unknown:
  "\<forall>k \<in> fst ` set m. field_of fds k = None \<Longrightarrow> dec_object fds m v = (v, False)"
  unfolding dec_object_def by (induction m) auto

section \<open>The answers\<close>

record MonitorResponse =
  mon_Status :: string
  mon_RequestCount :: int
  mon_Uptime :: string

definition zero_MonitorResponse :: MonitorResponse where
  "zero_MonitorResponse = \<lparr>mon_Status = [], mon_RequestCount = 0, mon_Uptime = []\<rparr>"

definition MonitorResponse_fields :: "(string \<times> MonitorResponse dec) list" where
  "MonitorResponse_fields =
     [(''status'', dec_at mon_Status mon_Status_update dec_string),
      (''request_count'', dec_at mon_RequestCount mon_RequestCount_update dec_int),
      (''uptime'', dec_at mon_Uptime mon_Uptime_update dec_string)]"

record UiRouterMetrics =
  urm_ModelsCount :: int
  urm_ProvidersCount :: int
  urm_Status :: string

record UiTraceStats =
  uts_ByModel :: "string \<rightharpoonup> int"
  uts_ByState :: "string \<rightharpoonup> int"
  uts_Total :: int
  uts_TotalCost :: f64

record UiTraceMetrics =
  utm_Count :: int
  utm_Stats :: UiTraceStats
  utm_Status :: string

record UiBudgetMetrics =
  ubm_RemainingUSD :: f64
  ubm_Status :: string

record MetricsResponse =
  met_RequestCount :: int
  met_Uptime :: string
  met_TotalCost :: f64
  met_SuccessRate :: f64
  met_Router :: UiRouterMetrics
  met_Trace :: UiTraceMetrics
  met_Budget :: UiBudgetMetrics

definition zero_MetricsResponse :: MetricsResponse where
  "zero_MetricsResponse =
     \<lparr>met_RequestCount = 0, met_Uptime = [], met_TotalCost = fzero, met_SuccessRate = fzero,
      met_Router = \<lparr>urm_ModelsCount = 0, urm_ProvidersCount = 0, urm_Status = []\<rparr>,
      met_Trace = \<lparr>utm_Count = 0, utm_Stats = \<lparr>uts_ByModel = Map.empty, uts_ByState = Map.empty, uts_Total = 0,
          uts_TotalCost = fzero\<rparr>, utm_Status = []\<rparr>,
      met_Budget = \<lparr>ubm_RemainingUSD = fzero, ubm_Status = []\<rparr>\<rparr>"

definition MetricsResponse_fields :: "(string \<times> MetricsResponse dec) list" where
  "MetricsResponse_fields =
     [(''request_count'', dec_at met_RequestCount met_RequestCount_update dec_int),
      (''uptime'', dec_at met_Uptime met_Uptime_update dec_string),
      (''total_cost'', dec_at met_TotalCost met_TotalCost_update dec_float),
      (''success_rate'', dec_at met_SuccessRate met_SuccessRate_update dec_float),
      (''router'', dec_at met_Router met_Router_update (dec_struct
         [(''models_count'', dec_at urm_ModelsCount urm_ModelsCount_update dec_int),
          (''providers_count'', dec_at urm_ProvidersCount urm_ProvidersCount_update dec_int),
          (''status'', dec_at urm_Status urm_Status_update dec_string)])),
      (''trace'', dec_at met_Trace met_Trace_update (dec_struct
         [(''count'', dec_at utm_Count utm_Count_update dec_int),
          (''stats'', dec_at utm_Stats utm_Stats_update (dec_struct
             [(''by_model'', dec_at uts_ByModel uts_ByModel_update (dec_dict dec_int 0)),
              (''by_state'', dec_at uts_ByState uts_ByState_update (dec_dict dec_int 0)),
              (''total'', dec_at uts_Total uts_Total_update dec_int),
              (''total_cost'', dec_at uts_TotalCost uts_TotalCost_update dec_float)])),
          (''status'', dec_at utm_Status utm_Status_update dec_string)])),
      (''budget'', dec_at met_Budget met_Budget_update (dec_struct
         [(''remaining_usd'', dec_at ubm_RemainingUSD ubm_RemainingUSD_update dec_float),
          (''status'', dec_at ubm_Status ubm_Status_update dec_string)]))]"


record UiPricing =
  upr_InputPer1K :: f64
  upr_OutputPer1K :: f64

record UiProvider =
  upv_BaseURL :: string
  upv_IsDefault :: bool
  upv_Models :: "string list"
  upv_Name :: string
  upv_Pricing :: UiPricing
  upv_Status :: string

record ModelsResponse =
  mdl_Models :: "UiProvider list"
  mdl_TotalModels :: "string list"
  mdl_TotalProviders :: int

definition zero_UiProvider :: UiProvider where
  "zero_UiProvider = \<lparr>upv_BaseURL = [], upv_IsDefault = False, upv_Models = [], upv_Name = [],
     upv_Pricing = \<lparr>upr_InputPer1K = fzero, upr_OutputPer1K = fzero\<rparr>, upv_Status = []\<rparr>"

definition zero_ModelsResponse :: ModelsResponse where
  "zero_ModelsResponse = \<lparr>mdl_Models = [], mdl_TotalModels = [], mdl_TotalProviders = 0\<rparr>"

text \<open>An element of \<^verbatim>\<open>models\<close> is a structure whose only field is the provider.\<close>

definition UiProvider_fields :: "(string \<times> UiProvider dec) list" where
  "UiProvider_fields =
     [(''base_url'', dec_at upv_BaseURL upv_BaseURL_update dec_string),
      (''is_default'', dec_at upv_IsDefault upv_IsDefault_update dec_bool),
      (''models'', dec_at upv_Models upv_Models_update (dec_list dec_string [])),
      (''name'', dec_at upv_Name upv_Name_update dec_string),
      (''pricing'', dec_at upv_Pricing upv_Pricing_update (dec_struct
         [(''input_per_1k'', dec_at upr_InputPer1K upr_InputPer1K_update dec_float),
          (''output_per_1k'', dec_at upr_OutputPer1K upr_OutputPer1K_update dec_float)])),
      (''status'', dec_at upv_Status upv_Status_update dec_string)]"

definition ModelsResponse_fields :: "(string \<times> ModelsResponse dec) list" where
  "ModelsResponse_fields =
     [(''models'', dec_at mdl_Models mdl_Models_update
         (dec_list (dec_struct [(''provider'', dec_struct UiProvider_fields)]) zero_UiProvider)),
      (''total_models'', dec_at mdl_TotalModels mdl_TotalModels_update (dec_list dec_string [])),
      (''total_providers'', dec_at mdl_TotalProviders mdl_TotalProviders_update dec_int)]"

record UiExtension =
  uex_Namespace :: string
  uex_Version :: string
  uex_Title :: string
  uex_Status :: string
  uex_Maintainer :: string
  uex_SpecificationURI :: string
  uex_MinProtocolVersion :: string
  uex_Tags :: "string list"
  uex_HandlerClass :: string
  uex_Handler :: string

record ExtensionsResponse =
  exr_Extensions :: "UiExtension list"

definition zero_UiExtension :: UiExtension where
  "zero_UiExtension = \<lparr>uex_Namespace = [], uex_Version = [], uex_Title = [], uex_Status = [], uex_Maintainer = [],
     uex_SpecificationURI = [], uex_MinProtocolVersion = [], uex_Tags = [], uex_HandlerClass = [], uex_Handler = []\<rparr>"

definition ExtensionsResponse_fields :: "(string \<times> ExtensionsResponse dec) list" where
  "ExtensionsResponse_fields =
     [(''extensions'', dec_at exr_Extensions exr_Extensions_update (dec_list (dec_struct
         [(''namespace'', dec_at uex_Namespace uex_Namespace_update dec_string),
          (''version'', dec_at uex_Version uex_Version_update dec_string),
          (''title'', dec_at uex_Title uex_Title_update dec_string),
          (''status'', dec_at uex_Status uex_Status_update dec_string),
          (''maintainer'', dec_at uex_Maintainer uex_Maintainer_update dec_string),
          (''specification_uri'', dec_at uex_SpecificationURI uex_SpecificationURI_update dec_string),
          (''min_protocol_version'', dec_at uex_MinProtocolVersion uex_MinProtocolVersion_update dec_string),
          (''tags'', dec_at uex_Tags uex_Tags_update (dec_list dec_string [])),
          (''handler_class'', dec_at uex_HandlerClass uex_HandlerClass_update dec_string),
          (''handler'', dec_at uex_Handler uex_Handler_update dec_string)]) zero_UiExtension))]"

record TraceItem =
  tit_TraceID :: string
  tit_Model :: string
  tit_Status :: string
  tit_CostUSD :: f64
  tit_TokensCount :: int
  tit_CreatedAt :: string

record TracesResponse =
  trs_Traces :: "TraceItem list"
  trs_DisplayCount :: int
  trs_TotalCount :: int

definition zero_TraceItem :: TraceItem where
  "zero_TraceItem = \<lparr>tit_TraceID = [], tit_Model = [], tit_Status = [], tit_CostUSD = fzero, tit_TokensCount = 0,
     tit_CreatedAt = []\<rparr>"

definition zero_TracesResponse :: TracesResponse where
  "zero_TracesResponse = \<lparr>trs_Traces = [], trs_DisplayCount = 0, trs_TotalCount = 0\<rparr>"

definition TracesResponse_fields :: "(string \<times> TracesResponse dec) list" where
  "TracesResponse_fields =
     [(''traces'', dec_at trs_Traces trs_Traces_update (dec_list (dec_struct
         [(''trace_id'', dec_at tit_TraceID tit_TraceID_update dec_string),
          (''model'', dec_at tit_Model tit_Model_update dec_string),
          (''status'', dec_at tit_Status tit_Status_update dec_string),
          (''cost_usd'', dec_at tit_CostUSD tit_CostUSD_update dec_float),
          (''tokens_count'', dec_at tit_TokensCount tit_TokensCount_update dec_int),
          (''created_at'', dec_at tit_CreatedAt tit_CreatedAt_update dec_string)]) zero_TraceItem)),
      (''display_count'', dec_at trs_DisplayCount trs_DisplayCount_update dec_int),
      (''total_count'', dec_at trs_TotalCount trs_TotalCount_update dec_int)]"

record Transaction =
  txn_ID :: string
  txn_Model :: string
  txn_CostUSD :: f64
  txn_Status :: string
  txn_Timestamp :: string

record BudgetResponse =
  bur_ConsumedUSD :: f64
  bur_RemainingUSD :: f64
  bur_TotalLimitUSD :: f64
  bur_Status :: string
  bur_Transactions :: "Transaction list"

definition zero_Transaction :: Transaction where
  "zero_Transaction = \<lparr>txn_ID = [], txn_Model = [], txn_CostUSD = fzero, txn_Status = [], txn_Timestamp = []\<rparr>"

definition zero_BudgetResponse :: BudgetResponse where
  "zero_BudgetResponse = \<lparr>bur_ConsumedUSD = fzero, bur_RemainingUSD = fzero, bur_TotalLimitUSD = fzero,
     bur_Status = [], bur_Transactions = []\<rparr>"

definition BudgetResponse_fields :: "(string \<times> BudgetResponse dec) list" where
  "BudgetResponse_fields =
     [(''consumed_usd'', dec_at bur_ConsumedUSD bur_ConsumedUSD_update dec_float),
      (''remaining_usd'', dec_at bur_RemainingUSD bur_RemainingUSD_update dec_float),
      (''total_limit_usd'', dec_at bur_TotalLimitUSD bur_TotalLimitUSD_update dec_float),
      (''status'', dec_at bur_Status bur_Status_update dec_string),
      (''transactions'', dec_at bur_Transactions bur_Transactions_update (dec_list (dec_struct
         [(''id'', dec_at txn_ID txn_ID_update dec_string),
          (''model'', dec_at txn_Model txn_Model_update dec_string),
          (''cost_usd'', dec_at txn_CostUSD txn_CostUSD_update dec_float),
          (''status'', dec_at txn_Status txn_Status_update dec_string),
          (''timestamp'', dec_at txn_Timestamp txn_Timestamp_update dec_string)]) zero_Transaction))]"

record UiProviderConfig =
  upc_Name :: string
  upc_BaseURL :: string
  upc_APIKey :: string
  upc_DefaultModel :: string
  upc_Models :: "string list"
  upc_IsDefault :: bool

section \<open>The client\<close>

text \<open>
  What the client needs of the libraries: the error of \<^verbatim>\<open>http.NewRequest\<close> for a URL it cannot parse, the
  first JSON value of a body (an error at its end or when it is no JSON), the text of a type mismatch and the text
  of a body.
\<close>

record HttpRequest =
  hq_Method :: string
  hq_URL :: string
  hq_Header :: header_list
  hq_Body :: string

record HttpResponse =
  ht_StatusCode :: int
  ht_Status :: string
  ht_Body :: "body list"

record ClientLib =
  cl_NewRequest :: "string \<Rightarrow> string option"
  cl_value :: "body list \<Rightarrow> any result"
  cl_mismatch :: string
  cl_text :: "body list \<Rightarrow> string"

type_synonym 's network = "HttpRequest \<Rightarrow> 's \<Rightarrow> HttpResponse result \<times> 's"

definition api_error :: "ClientLib \<Rightarrow> HttpResponse \<Rightarrow> string" where
  "api_error lib r = ''API request failed: '' @ ht_Status r @ '' - '' @ cl_text lib (ht_Body r)"

definition Decode :: "ClientLib \<Rightarrow> (string \<times> 'v dec) list \<Rightarrow> body list \<Rightarrow> 'v \<Rightarrow> 'v \<times> string option" where
  "Decode lib fds b v = (case cl_value lib b of
     Inl e \<Rightarrow> (v, Some e)
   | Inr x \<Rightarrow> (case dec_struct fds x v of (v', e) \<Rightarrow> (v', if e then Some (cl_mismatch lib) else None)))"

text \<open>The result is filled in place and returned with the error, if there is one.\<close>

definition getJSON ::
    "ClientLib \<Rightarrow> 's network \<Rightarrow> string \<Rightarrow> string \<Rightarrow> (string \<times> 'v dec) list \<Rightarrow> 'v \<Rightarrow> 's \<Rightarrow> ('v \<times> string option) \<times> 's" where
  "getJSON lib net baseURL path fds result s =
     (case cl_NewRequest lib (baseURL @ path) of
        Some e \<Rightarrow> ((result, Some e), s)
      | None \<Rightarrow> (case net \<lparr>hq_Method = ''GET'', hq_URL = baseURL @ path, hq_Header = [], hq_Body = []\<rparr> s of
          (Inl e, s) \<Rightarrow> ((result, Some e), s)
        | (Inr r, s) \<Rightarrow>
            if ht_StatusCode r \<noteq> 200 then ((result, Some (api_error lib r)), s)
            else (Decode lib fds (ht_Body r) result, s)))"

definition GetMonitor where
  "GetMonitor lib net baseURL = getJSON lib net baseURL ''/v1/monitor'' MonitorResponse_fields zero_MonitorResponse"

definition GetMetrics where
  "GetMetrics lib net baseURL = getJSON lib net baseURL ''/v1/monitor/metrics'' MetricsResponse_fields zero_MetricsResponse"

definition GetModels where
  "GetModels lib net baseURL = getJSON lib net baseURL ''/v1/monitor/models'' ModelsResponse_fields zero_ModelsResponse"

definition GetExtensions where
  "GetExtensions lib net baseURL =
     getJSON lib net baseURL ''/v1/monitor/extensions'' ExtensionsResponse_fields \<lparr>exr_Extensions = []\<rparr>"

definition GetTraces where
  "GetTraces lib net baseURL = getJSON lib net baseURL ''/v1/monitor/traces'' TracesResponse_fields zero_TracesResponse"

definition GetBudget where
  "GetBudget lib net baseURL = getJSON lib net baseURL ''/v1/monitor/budget'' BudgetResponse_fields zero_BudgetResponse"

definition GetProviders where
  "GetProviders lib net baseURL = getJSON lib net baseURL ''/v1/monitor/models'' ModelsResponse_fields zero_ModelsResponse"

text \<open>
  A request for its effect. The body that is to be sent is not used: the request is made with the body nil. No
  caller asks for a result.
\<close>

definition doJSON :: "ClientLib \<Rightarrow> 's network \<Rightarrow> string \<Rightarrow> string \<Rightarrow> string \<Rightarrow> 'body \<Rightarrow> 's \<Rightarrow> string option \<times> 's" where
  "doJSON lib net baseURL meth path body s =
     (case cl_NewRequest lib (baseURL @ path) of
        Some e \<Rightarrow> (Some e, s)
      | None \<Rightarrow> (case net \<lparr>hq_Method = meth, hq_URL = baseURL @ path,
            hq_Header = [(''Content-Type'', ''application/json'')], hq_Body = []\<rparr> s of
          (Inl e, s) \<Rightarrow> (Some e, s)
        | (Inr r, s) \<Rightarrow> (if 400 \<le> ht_StatusCode r then Some (api_error lib r) else None, s)))"

definition postJSON where
  "postJSON lib net baseURL path body = doJSON lib net baseURL ''POST'' path body"

definition putJSON where
  "putJSON lib net baseURL path body = doJSON lib net baseURL ''PUT'' path body"

definition ui_delete :: "ClientLib \<Rightarrow> 's network \<Rightarrow> string \<Rightarrow> string \<Rightarrow> 's \<Rightarrow> string option \<times> 's" where
  "ui_delete lib net baseURL path s =
     (case cl_NewRequest lib (baseURL @ path) of
        Some e \<Rightarrow> (Some e, s)
      | None \<Rightarrow> (case net \<lparr>hq_Method = ''DELETE'', hq_URL = baseURL @ path, hq_Header = [], hq_Body = []\<rparr> s of
          (Inl e, s) \<Rightarrow> (Some e, s)
        | (Inr r, s) \<Rightarrow> (if 400 \<le> ht_StatusCode r then Some (api_error lib r) else None, s)))"

definition ui_AddProvider :: "ClientLib \<Rightarrow> 's network \<Rightarrow> string \<Rightarrow> UiProviderConfig \<Rightarrow> 's \<Rightarrow> string option \<times> 's" where
  "ui_AddProvider lib net baseURL config = postJSON lib net baseURL ''/v1/admin/providers'' config"

definition ui_UpdateProvider ::
    "ClientLib \<Rightarrow> 's network \<Rightarrow> string \<Rightarrow> string \<Rightarrow> UiProviderConfig \<Rightarrow> 's \<Rightarrow> string option \<times> 's" where
  "ui_UpdateProvider lib net baseURL name config = putJSON lib net baseURL (''/v1/admin/providers/'' @ name) config"

definition ui_DeleteProvider :: "ClientLib \<Rightarrow> 's network \<Rightarrow> string \<Rightarrow> string \<Rightarrow> 's \<Rightarrow> string option \<times> 's" where
  "ui_DeleteProvider lib net baseURL name = ui_delete lib net baseURL (''/v1/admin/providers/'' @ name)"

section \<open>The client and the proxy\<close>

text \<open>The path of a request target: without fragment and query, with its escapes read.\<close>

definition unhex :: "char \<Rightarrow> nat option" where
  "unhex c = (let n = of_char c in
     if 48 \<le> n \<and> n \<le> 57 then Some (n - 48)
     else if 97 \<le> n \<and> n \<le> 102 then Some (n - 87)
     else if 65 \<le> n \<and> n \<le> 70 then Some (n - 55) else None)"

fun unescape :: "string \<Rightarrow> string option" where
  "unescape [] = Some []"
| "unescape (c # s) =
     (if c = CHR ''%''
      then (case s of a # b # s' \<Rightarrow> (case (unhex a, unhex b) of
            (Some x, Some y) \<Rightarrow> map_option (\<lambda>r. char_of (16 * x + y) # r) (unescape s') | _ \<Rightarrow> None)
          | _ \<Rightarrow> None)
      else map_option (Cons c) (unescape s))"

definition without_fragment :: "string \<Rightarrow> string" where
  "without_fragment t = takeWhile (\<lambda>c. c \<noteq> CHR ''#'') t"

definition url_path :: "string \<Rightarrow> string option" where
  "url_path t = unescape (takeWhile (\<lambda>c. c \<noteq> CHR 0x3F) (without_fragment t))"

definition raw_query :: "string \<Rightarrow> string" where
  "raw_query t = drop 1 (dropWhile (\<lambda>c. c \<noteq> CHR 0x3F) (without_fragment t))"

text \<open>The request that the handlers of the proxy see. A decoder that is given no body reports the end of the file.\<close>

record BodyDecoders =
  bd_chat :: "string \<Rightarrow> ChatRequest result"
  bd_replay :: "string \<Rightarrow> ReplayRequest result"
  bd_provider :: "string \<Rightarrow> ProviderRequest result"
  bd_name :: "string \<Rightarrow> string result"
  bd_total :: "string \<Rightarrow> f64 result"
  bd_query :: "string \<Rightarrow> string \<Rightarrow> string"

definition decode_body :: "(string \<Rightarrow> 'q result) \<Rightarrow> string \<Rightarrow> 'q result" where
  "decode_body f b = (if b = [] then Inl ''EOF'' else f b)"

definition received :: "BodyDecoders \<Rightarrow> HttpRequest \<Rightarrow> string \<Rightarrow> string \<Rightarrow> Request" where
  "received bd hq target path =
     \<lparr>rq_Method = hq_Method hq, rq_Path = path,
      rq_Header = (\<lambda>k. case map_of (hq_Header hq) k of Some v \<Rightarrow> v | None \<Rightarrow> []),
      rq_Query = (if raw_query target = [] then (\<lambda>_. []) else bd_query bd (raw_query target)),
      rq_chat = decode_body (bd_chat bd) (hq_Body hq), rq_replay = decode_body (bd_replay bd) (hq_Body hq),
      rq_provider = decode_body (bd_provider bd) (hq_Body hq), rq_name = decode_body (bd_name bd) (hq_Body hq),
      rq_total = decode_body (bd_total bd) (hq_Body hq)\<rparr>"

text \<open>
  The network between the client and the proxy: \<open>down\<close> is its failure before the request arrives, \<open>texts\<close>
  the text of a status.
\<close>

definition proxy_net ::
    "('t, 'b, 'w, 'p, 'k, 'r, 'h) AppDeps \<Rightarrow> 'c JwtLibrary \<Rightarrow> ('priv, 'pub) KeyManager \<Rightarrow> string \<Rightarrow> string \<Rightarrow> BodyDecoders \<Rightarrow>
       (int \<Rightarrow> string) \<Rightarrow> string option \<Rightarrow> string \<Rightarrow> ('t, 'b, 'w, 'p, 'k, 'r) App network" where
  "proxy_net d jwt km traceID sessionID bd texts down baseURL hq a =
     (case down of
        Some e \<Rightarrow> (Inl e, a)
      | None \<Rightarrow> (let target = TrimPrefix (hq_URL hq) baseURL in
          case url_path target of
            None \<Rightarrow> (Inl ''malformed request target'', a)
          | Some path \<Rightarrow>
              (case wrappedHandler d jwt km traceID sessionID (received bd hq target path) (fresh_writer True) a of
                 (w, a') \<Rightarrow> (Inr \<lparr>ht_StatusCode = status_of w, ht_Status = texts (status_of w), ht_Body = wr_Body w\<rparr>, a'))))"

lemma TrimPrefix_append [simp]: "TrimPrefix (p @ s) p = s"
  by (simp add: TrimPrefix_def)

lemma received_simps [simp]:
  "rq_Method (received bd hq target path) = hq_Method hq"
  "rq_Path (received bd hq target path) = path"
  "rq_provider (received bd hq target path) = decode_body (bd_provider bd) (hq_Body hq)"
  "raw_query target = [] \<Longrightarrow> rq_Query (received bd hq target path) k = []"
  by (simp_all add: received_def)

lemma decode_body_Nil [simp]: "decode_body f [] = Inl ''EOF''"
  by (simp add: decode_body_def)

lemma provider_target: "url_path (''/v1/admin/providers/'' @ name) = Some path \<Longrightarrow> \<exists>p. path = ''/v1/admin/providers/'' @ p"
  by (auto simp: url_path_def without_fragment_def)

text \<open>No request for a path below the providers changes anything, unless it is a POST.\<close>

lemma provider_path_refused:
  assumes "rq_Path rq = ''/v1/admin/providers/'' @ p" "rq_Method rq \<noteq> ''POST''"
  shows "snd (wrappedHandler d jwt km traceID sessionID rq (fresh_writer b) a) = a \<and>
    400 \<le> status_of (fst (wrappedHandler d jwt km traceID sessionID rq (fresh_writer b) a))"
proof -
  have serve: "ServeHTTP d traceID sessionID rq w a =
      (if p = ''test'' then handleTestProvider d rq w a
       else if p = ''set-default'' then handleSetDefaultProvider d rq w a else (not_found w, a))" for w
    using assms(1) by (simp add: ServeHTTP_def HasPrefix_def)
  have public: "is_public (rq_Path rq)" by (simp add: assms(1) is_public_def HasPrefix_def)
  show ?thesis
    using assms(2)
    by (simp add: wrappedHandler_def public serve handleTestProvider_def handleSetDefaultProvider_def named_provider_def
        Let_def method_not_allowed_def not_found_def status_handleError error_statuses json_header_def
        fresh_writer_def set_header_def)
qed

lemma empty_post_refused:
  assumes "rq_Path rq = ''/v1/admin/providers''" "rq_Method rq = ''POST''" "rq_provider rq = Inl e"
  shows "snd (wrappedHandler d jwt km traceID sessionID rq (fresh_writer b) a) = a \<and>
    400 \<le> status_of (fst (wrappedHandler d jwt km traceID sessionID rq (fresh_writer b) a))"
proof -
  have public: "is_public ''/v1/admin/providers''" by (simp add: is_public_def HasPrefix_def)
  show ?thesis
    using assms
    by (simp add: wrappedHandler_def public ServeHTTP_def handleAdminProviders_def decoded_body_def
        Let_def handleErrorWithMessage_def status_handleSentorisError error_statuses json_header_def
        fresh_writer_def set_header_def HasPrefix_def)
qed

lemma provider_target_refused:
  assumes "url_path (''/v1/admin/providers/'' @ name) = Some path'" "meth \<noteq> ''POST''"
  shows "let rq = received bd \<lparr>hq_Method = meth, hq_URL = url, hq_Header = hs, hq_Body = content\<rparr> target path';
      r = wrappedHandler d jwt km traceID sessionID rq (fresh_writer True) a in snd r = a \<and> 400 \<le> status_of (fst r)"
proof -
  obtain p where "path' = ''/v1/admin/providers/'' @ p" using provider_target [OF assms(1)] by blast
  then show ?thesis unfolding Let_def using assms(2) by (intro provider_path_refused [of _ p]) simp_all
qed

text \<open>What a request for its effect comes to when the proxy refuses it.\<close>

lemma doJSON_refused:
  assumes "\<And>path'. url_path path = Some path' \<Longrightarrow>
      let rq = received bd \<lparr>hq_Method = meth, hq_URL = baseURL @ path,
                 hq_Header = [(''Content-Type'', ''application/json'')], hq_Body = []\<rparr> path path';
          r = wrappedHandler d jwt km traceID sessionID rq (fresh_writer True) a
      in snd r = a \<and> 400 \<le> status_of (fst r)"
  shows "fst (doJSON lib (proxy_net d jwt km traceID sessionID bd texts down baseURL) baseURL meth path body a) \<noteq> None \<and>
    snd (doJSON lib (proxy_net d jwt km traceID sessionID bd texts down baseURL) baseURL meth path body a) = a"
  using assms
  by (cases "url_path path")
    (auto simp: doJSON_def proxy_net_def Let_def split: option.splits prod.splits)

lemma ui_delete_refused:
  assumes "\<And>path'. url_path path = Some path' \<Longrightarrow>
      let rq = received bd \<lparr>hq_Method = ''DELETE'', hq_URL = baseURL @ path, hq_Header = [], hq_Body = []\<rparr> path path';
          r = wrappedHandler d jwt km traceID sessionID rq (fresh_writer True) a
      in snd r = a \<and> 400 \<le> status_of (fst r)"
  shows "fst (ui_delete lib (proxy_net d jwt km traceID sessionID bd texts down baseURL) baseURL path a) \<noteq> None \<and>
    snd (ui_delete lib (proxy_net d jwt km traceID sessionID bd texts down baseURL) baseURL path a) = a"
  using assms
  by (cases "url_path path")
    (auto simp: ui_delete_def proxy_net_def Let_def split: option.splits prod.splits)

text \<open>
  \<^bold>\<open>C13.\<close> The interface cannot change a provider. Whatever configuration or name it is given, and in
  every state of the proxy, adding, updating and deleting a provider through the client ends with an error and
  leaves the proxy as it was: what is to be added is never sent, and updates and deletions go to paths that the
  proxy does not have.
\<close>

theorem ui_changes_nothing:
  "let net = proxy_net d jwt km traceID sessionID bd texts down baseURL in
    fst (ui_AddProvider lib net baseURL config a) \<noteq> None \<and> snd (ui_AddProvider lib net baseURL config a) = a \<and>
    fst (ui_UpdateProvider lib net baseURL name config a) \<noteq> None \<and>
    snd (ui_UpdateProvider lib net baseURL name config a) = a \<and>
    fst (ui_DeleteProvider lib net baseURL name a) \<noteq> None \<and> snd (ui_DeleteProvider lib net baseURL name a) = a"
proof -
  let ?net = "proxy_net d jwt km traceID sessionID bd texts down baseURL"
  have "url_path ''/v1/admin/providers'' = Some ''/v1/admin/providers''"
    by (simp add: url_path_def without_fragment_def)
  then have "fst (ui_AddProvider lib ?net baseURL config a) \<noteq> None \<and> snd (ui_AddProvider lib ?net baseURL config a) = a"
    unfolding ui_AddProvider_def postJSON_def by (intro doJSON_refused) (simp add: Let_def empty_post_refused)
  moreover have "fst (ui_UpdateProvider lib ?net baseURL name config a) \<noteq> None \<and>
      snd (ui_UpdateProvider lib ?net baseURL name config a) = a"
    unfolding ui_UpdateProvider_def putJSON_def
    by (rule doJSON_refused, rule provider_target_refused) simp_all
  moreover have "fst (ui_DeleteProvider lib ?net baseURL name a) \<noteq> None \<and> snd (ui_DeleteProvider lib ?net baseURL name a) = a"
    unfolding ui_DeleteProvider_def
    by (rule ui_delete_refused, rule provider_target_refused) simp_all
  ultimately show ?thesis by (simp add: Let_def)
qed

text \<open>
  What is assumed of the JSON library for the next property: a JSON object that was encoded from a map is decoded
  to a map with the same keys, unless it cannot be encoded at all.
\<close>

definition keeps_keys :: "ClientLib \<Rightarrow> bool" where
  "keeps_keys lib \<longleftrightarrow> (\<forall>m rest v. cl_value lib (BJson (AMap m) # rest) = Inr v \<longrightarrow>
     (\<exists>m'. v = AMap m' \<and> fst ` set m' = fst ` set m))"

lemma Decode_unknown:
  assumes "keeps_keys lib" "\<forall>k \<in> fst ` set m. field_of fds k = None"
  shows "\<exists>e. Decode lib fds (BJson (AMap m) # rest) v = (v, e)"
proof (cases "cl_value lib (BJson (AMap m) # rest)")
  case (Inl e)
  then show ?thesis by (simp add: Decode_def)
next
  case (Inr x)
  with assms(1) obtain m' where "x = AMap m'" "fst ` set m' = fst ` set m" unfolding keeps_keys_def by blast
  with assms(2) Inr show ?thesis by (simp add: Decode_def dec_object_unknown)
qed

lemma getJSON_unknown:
  assumes lib: "keeps_keys lib"
    and path: "url_path path = Some path" "raw_query path = []" "is_public path"
    and serve: "\<And>rq. rq_Path rq = path \<Longrightarrow> rq_Query rq ''trace_id'' = [] \<Longrightarrow>
      \<exists>w m. ServeHTTP d traceID sessionID rq (fresh_writer True) a = (w, a) \<and> wr_Body w = [BJson (AMap m)] \<and>
        (\<forall>k \<in> fst ` set m. field_of fds k = None)"
  shows "\<exists>e. getJSON lib (proxy_net d jwt km traceID sessionID bd texts down baseURL) baseURL path fds v a = ((v, e), a)"
proof -
  let ?rq = "received bd \<lparr>hq_Method = ''GET'', hq_URL = baseURL @ path, hq_Header = [], hq_Body = []\<rparr> path path"
  obtain w m where w: "ServeHTTP d traceID sessionID ?rq (fresh_writer True) a = (w, a)"
    "wr_Body w = [BJson (AMap m)]" "\<forall>k \<in> fst ` set m. field_of fds k = None"
    using serve [of ?rq] path(2) by auto
  then obtain e where "Decode lib fds (wr_Body w) v = (v, e)" using Decode_unknown [OF lib w(3)] by metis
  with w path show ?thesis
    by (auto simp: getJSON_def proxy_net_def wrappedHandler_def split: option.split)
qed

text \<open>
  The interface cannot see a trace or a budget. Whatever the proxy stores, asking it for the
  traces gives an empty list and asking for the budget gives zeros: the traces are asked for without the identifier
  that the proxy wants, whose error comes with status 200, and the fields of the budget have other names.
\<close>

theorem ui_sees_nothing:
  assumes "keeps_keys lib"
  shows "\<exists>e e'. let net = proxy_net d jwt km traceID sessionID bd texts down baseURL in
    GetTraces lib net baseURL a = ((zero_TracesResponse, e), a) \<and>
    GetBudget lib net baseURL a = ((zero_BudgetResponse, e'), a)"
proof -
  have "\<exists>e. GetTraces lib (proxy_net d jwt km traceID sessionID bd texts down baseURL) baseURL a = ((zero_TracesResponse, e), a)"
    unfolding GetTraces_def
  proof (rule getJSON_unknown [OF assms])
    fix rq :: Request
    assume "rq_Path rq = ''/v1/monitor/traces''" "rq_Query rq ''trace_id'' = []"
    then show "\<exists>w m. ServeHTTP d traceID sessionID rq (fresh_writer True) a = (w, a) \<and> wr_Body w = [BJson (AMap m)] \<and>
        (\<forall>k \<in> fst ` set m. field_of TracesResponse_fields k = None)"
      by (simp add: ServeHTTP_def handleMonitorTraces_def Let_def handleError_def handleSentorisError_def write_body_def
          monitor_open_def json_header_def WriteHeader_def fresh_writer_def set_header_def ToMap_def field_of_def
          TracesResponse_fields_def ToLower_def lower_char_def)
  qed (simp_all add: url_path_def raw_query_def without_fragment_def is_public_def HasPrefix_def)
  moreover have "\<exists>e. GetBudget lib (proxy_net d jwt km traceID sessionID bd texts down baseURL) baseURL a = ((zero_BudgetResponse, e), a)"
    unfolding GetBudget_def
  proof (rule getJSON_unknown [OF assms])
    fix rq :: Request
    assume "rq_Path rq = ''/v1/monitor/budget''"
    then show "\<exists>w m. ServeHTTP d traceID sessionID rq (fresh_writer True) a = (w, a) \<and> wr_Body w = [BJson (AMap m)] \<and>
        (\<forall>k \<in> fst ` set m. field_of BudgetResponse_fields k = None)"
      by (simp add: ServeHTTP_def handleMonitorBudget_def Let_def write_body_def budget_info_def
          monitor_open_def json_header_def WriteHeader_def fresh_writer_def set_header_def field_of_def
          BudgetResponse_fields_def ToLower_def lower_char_def split: option.split sum.split)
  qed (simp_all add: url_path_def raw_query_def without_fragment_def is_public_def HasPrefix_def)
  ultimately show ?thesis by (simp add: Let_def)
qed

text \<open>A library over bodies as they are, and a proxy that holds a trace and a budget.\<close>

definition demo_lib :: ClientLib where
  "demo_lib = \<lparr>cl_NewRequest = (\<lambda>_. None),
     cl_value = (\<lambda>b. case b of BJson v # _ \<Rightarrow> Inr v | _ \<Rightarrow> Inl ''EOF''), cl_mismatch = ''cannot unmarshal'', cl_text = (\<lambda>_. [])\<rparr>"

definition demo_decoders :: BodyDecoders where
  "demo_decoders = \<lparr>bd_chat = (\<lambda>_. Inl ''?''), bd_replay = (\<lambda>_. Inl ''?''), bd_provider = (\<lambda>_. Inl ''?''),
     bd_name = (\<lambda>_. Inl ''?''), bd_total = (\<lambda>_. Inl ''?''), bd_query = (\<lambda>_ _. [])\<rparr>"

theorem ui_sees_nothing_witness:
  "\<exists>e e'. let net = proxy_net demo_deps_app demo_jwt demo_manager ''t2'' ''s2'' demo_decoders (\<lambda>_. []) None ''http://p'';
        a = demo_app [''t1'' \<mapsto> sample_trace] in
    GetTraces demo_lib net ''http://p'' a = ((zero_TracesResponse, e), a) \<and>
    GetBudget demo_lib net ''http://p'' a = ((zero_BudgetResponse, e'), a)"
proof -
  have "keeps_keys demo_lib" by (simp add: keeps_keys_def demo_lib_def)
  from ui_sees_nothing [OF this, of demo_deps_app demo_jwt demo_manager "''t2''" "''s2''" demo_decoders "\<lambda>_. []" None "''http://p''"
      "demo_app [''t1'' \<mapsto> sample_trace]"]
  show ?thesis by (simp add: Let_def)
qed

end
