(* ===== verification/UiServer.thy ===== *)
theory UiServer
  imports Headers Sse GoPath
begin

text \<open>
  The web server of the user interface, \<^verbatim>\<open>internal/ui/server.go\<close> and the routes of
  \<^verbatim>\<open>cmd/sentoris-ui\<close>: static files below one directory, and the relay to the proxy. The file system and
  the network are arguments.
\<close>

section \<open>Answers\<close>

text \<open>\<^verbatim>\<open>http.Header\<close>: the values of each key in the order they were added; a key that is not there has none.\<close>

type_synonym HeaderMap = "string \<Rightarrow> string list"

definition hdr_Set :: "string \<Rightarrow> string \<Rightarrow> HeaderMap \<Rightarrow> HeaderMap" where
  "hdr_Set k v h = h(canonical_key True k := [v])"

definition hdr_Add :: "string \<Rightarrow> string \<Rightarrow> HeaderMap \<Rightarrow> HeaderMap" where
  "hdr_Add k v h = h(canonical_key True k := h (canonical_key True k) @ [v])"

definition no_header :: HeaderMap where
  "no_header = (\<lambda>_. [])"

record UiAnswer =
  ua_Status :: int
  ua_Header :: HeaderMap
  ua_Body :: string

definition ui_Error :: "string \<Rightarrow> int \<Rightarrow> UiAnswer" where
  "ui_Error msg code = \<lparr>ua_Status = code,
     ua_Header = hdr_Set ''X-Content-Type-Options'' ''nosniff'' (hdr_Set ''Content-Type'' ''text/plain; charset=utf-8'' no_header),
     ua_Body = msg @ [byte 10]\<rparr>"

definition ui_NotFound :: UiAnswer where
  "ui_NotFound = ui_Error ''404 page not found'' 404"

section \<open>Static files\<close>

definition getContentType :: "string \<Rightarrow> string" where
  "getContentType path = (let ext = ToLower (Ext path) in
     if ext = ''.html'' \<or> ext = ''.htm'' then ''text/html; charset=utf-8''
     else if ext = ''.css'' then ''text/css; charset=utf-8''
     else if ext = ''.js'' then ''application/javascript; charset=utf-8''
     else if ext = ''.json'' then ''application/json; charset=utf-8''
     else if ext = ''.png'' then ''image/png''
     else if ext = ''.jpg'' \<or> ext = ''.jpeg'' then ''image/jpeg''
     else if ext = ''.svg'' then ''image/svg+xml''
     else if ext = ''.ico'' then ''image/x-icon''
     else ''text/plain; charset=utf-8'')"

text \<open>What is at a path: nothing, something that cannot be read as a file (a directory), or a text.\<close>

datatype FileEntry = FileMissing | FileUnreadable | FileText string

definition StaticHandler :: "(string \<Rightarrow> FileEntry) \<Rightarrow> string \<Rightarrow> string \<Rightarrow> UiAnswer" where
  "StaticHandler fs staticDir path =
     (let path = (if path = ''/'' then ''/index.html'' else path) in
      if Contains path ''..'' then ui_NotFound
      else let filePath = path_Join staticDir (Clean path);
               filePath = (if fs filePath = FileMissing then path_Join staticDir ''index.html'' else filePath)
           in (case fs filePath of
                 FileText content \<Rightarrow> \<lparr>ua_Status = 200,
                   ua_Header = hdr_Set ''Content-Type'' (getContentType filePath) no_header, ua_Body = content\<rparr>
               | _ \<Rightarrow> ui_NotFound))"

section \<open>What can be read\<close>

text \<open>A path below a directory: the directory's components and more, none of them two dots.\<close>

definition below :: "string \<Rightarrow> string \<Rightarrow> bool" where
  "below dir p \<longleftrightarrow> (\<exists>cs. ''..'' \<notin> set cs \<and> p = path_text (is_rooted dir) (clean_parts dir @ cs))"

definition plain_part :: "string \<Rightarrow> bool" where
  "plain_part c \<longleftrightarrow> c \<noteq> [] \<and> c \<noteq> ''.'' \<and> c \<noteq> ''..'' \<and> CHR ''/'' \<notin> set c"

lemma foldl_clean_plain:
  "''..'' \<notin> set xs \<Longrightarrow> foldl (clean_step r) out xs = out @ filter (\<lambda>c. c \<noteq> [] \<and> c \<noteq> ''.'') xs"
  by (induction xs arbitrary: out) (auto simp: clean_step_def)

lemma Split_sep_append: "Split (a @ sep # b) sep = Split a sep @ Split b sep"
proof (induction a)
  case (Cons c a)
  then show ?case by (cases "Split a sep") auto
qed simp

lemma Split_Join: "cs \<noteq> [] \<Longrightarrow> \<forall>c \<in> set cs. sep \<notin> set c \<Longrightarrow> Split (Join cs [sep]) sep = cs"
proof (induction cs rule: induct_list012)
  case (3 x y zs)
  then show ?case by (simp add: Split_sep_append Split_no_sep_id)
qed (simp_all add: Split_no_sep_id)

lemma Split_factor: "c \<in> set (Split s sep) \<Longrightarrow> \<exists>u v. s = u @ c @ v"
proof (induction s arbitrary: c)
  case Nil
  then show ?case by simp
next
  case (Cons x s)
  show ?case
  proof (cases "x = sep")
    case True
    with Cons.prems have "c = [] \<or> c \<in> set (Split s sep)" by simp
    then show ?thesis
    proof
      assume "c \<in> set (Split s sep)"
      then obtain u v where "s = u @ c @ v" using Cons.IH by blast
      then have "x # s = (x # u) @ c @ v" by simp
      then show ?thesis by blast
    next
      assume "c = []"
      then have "x # s = [] @ c @ (x # s)" by simp
      then show ?thesis by blast
    qed
  next
    case False
    obtain p ps where ps: "Split s sep = p # ps" by (cases "Split s sep") auto
    with False Cons.prems have "c = x # p \<or> c \<in> set ps" by simp
    then show ?thesis
    proof
      assume c: "c = x # p"
      have "s = p @ (if ps = [] then [] else sep # Join ps [sep])"
        using Join_Split [of s sep] ps by (cases ps) auto
      with c have "x # s = [] @ c @ (if ps = [] then [] else sep # Join ps [sep])" by simp
      then show ?thesis by blast
    next
      assume "c \<in> set ps"
      then have "c \<in> set (Split s sep)" by (simp add: ps)
      then obtain u v where "s = u @ c @ v" using Cons.IH by blast
      then have "x # s = (x # u) @ c @ v" by simp
      then show ?thesis by blast
    qed
  qed
qed

text \<open>The components of a path without two dots in a row.\<close>

lemma clean_parts_plain:
  assumes "\<not> Contains p ''..''"
  shows "list_all plain_part (clean_parts p)"
proof -
  have no: "''..'' \<notin> set (Split p (CHR ''/''))"
    using assms Split_factor [of "''..''" p "CHR ''/''"] unfolding Contains_iff by blast
  then show ?thesis
    unfolding clean_parts_def foldl_clean_plain [OF no]
    by (auto simp: list_all_iff plain_part_def dest: Split_no_sep)
qed

lemma Split_path_text:
  assumes "list_all plain_part cs"
  shows "filter (\<lambda>c. c \<noteq> [] \<and> c \<noteq> ''.'') (Split (path_text r cs) (CHR ''/'')) = cs"
    and "''..'' \<notin> set (Split (path_text r cs) (CHR ''/''))"
proof -
  have plain: "filter (\<lambda>c. c \<noteq> [] \<and> c \<noteq> ''.'') cs = cs" "''..'' \<notin> set cs"
    using assms by (auto simp: list_all_iff plain_part_def filter_id_conv)
  have split: "cs \<noteq> [] \<Longrightarrow> Split (Join cs ''/'') (CHR ''/'') = cs"
    using assms by (intro Split_Join) (auto simp: list_all_iff plain_part_def)
  show "filter (\<lambda>c. c \<noteq> [] \<and> c \<noteq> ''.'') (Split (path_text r cs) (CHR ''/'')) = cs"
    by (cases "cs = []") (simp_all add: path_text_def split plain)
  show "''..'' \<notin> set (Split (path_text r cs) (CHR ''/''))"
    by (cases "cs = []") (simp_all add: path_text_def split plain)
qed

lemma path_Join_below:
  assumes "dir \<noteq> []" "list_all plain_part cs"
  shows "below dir (path_Join dir (path_text r cs))"
proof -
  have "clean_parts (dir @ CHR ''/'' # path_text r cs) = clean_parts dir @ cs" if "is_rooted (dir @ CHR ''/'' # path_text r cs) = is_rooted dir"
    using Split_path_text [OF assms(2)]
    by (simp add: clean_parts_def that Split_sep_append foldl_clean_plain)
  moreover have "is_rooted (dir @ CHR ''/'' # path_text r cs) = is_rooted dir"
    using assms(1) by (cases dir) (auto simp: is_rooted_def HasPrefix_def)
  ultimately have "path_Join dir (path_text r cs) = path_text (is_rooted dir) (clean_parts dir @ cs)"
    using assms(1) by (simp add: path_Join_def Clean_def)
  moreover have "''..'' \<notin> set cs" using assms(2) by (auto simp: list_all_iff plain_part_def)
  ultimately show ?thesis unfolding below_def by blast
qed

lemma static_paths_below:
  assumes "dir \<noteq> []" "\<not> Contains path ''..''"
  shows "below dir (path_Join dir (Clean path))" "below dir (path_Join dir ''index.html'')"
proof -
  show "below dir (path_Join dir (Clean path))"
  proof (cases "path = []")
    case True
    then show ?thesis
      using path_Join_below [OF assms(1), of "[]" False] by (simp add: Clean_def path_text_def)
  next
    case False
    then show ?thesis
      using path_Join_below [OF assms(1) clean_parts_plain [OF assms(2)]] by (simp add: Clean_def)
  qed
  show "below dir (path_Join dir ''index.html'')"
    using path_Join_below [OF assms(1), of "[''index.html'']" False] by (simp add: path_text_def plain_part_def)
qed

text \<open>
  \<^bold>\<open>C14.\<close> Static files are confined. The answer to a request for a file depends only on what is below
  the static directory: two file systems that agree there, and differ anywhere else, give the same answer for every
  path that is asked for, with whatever dots and slashes.
\<close>

theorem static_files_confined:
  assumes "staticDir \<noteq> []" and "\<And>p. below staticDir p \<Longrightarrow> fs p = fs' p"
  shows "StaticHandler fs staticDir path = StaticHandler fs' staticDir path"
proof -
  define q where "q = (if path = ''/'' then ''/index.html'' else path)"
  show ?thesis
  proof (cases "Contains q ''..''")
    case True
    then show ?thesis by (simp add: StaticHandler_def Let_def q_def [symmetric])
  next
    case False
    note b = static_paths_below [OF assms(1) False, THEN assms(2)]
    show ?thesis unfolding StaticHandler_def Let_def q_def [symmetric] using b by simp
  qed
qed

theorem static_files_confined_witness:
  "StaticHandler (\<lambda>p. if p = ''web/index.html'' then FileText ''ui'' else FileMissing) ''./web'' ''/a/b''
     = StaticHandler (\<lambda>p. if p = ''web/index.html'' then FileText ''ui'' else if p = ''/etc/passwd'' then FileText ''root'' else FileMissing)
         ''./web'' ''/a/b''"
proof (rule static_files_confined)
  fix p assume "below ''./web'' p"
  moreover have "clean_parts ''./web'' = [''web'']" "\<not> is_rooted ''./web''"
    by (simp_all add: clean_parts_def clean_step_def is_rooted_def HasPrefix_def)
  ultimately obtain cs where "p = Join (''web'' # cs) ''/''" by (auto simp: below_def path_text_def)
  then have "p \<noteq> ''/etc/passwd''" by (cases cs) auto
  then show "(if p = ''web/index.html'' then FileText ''ui'' else FileMissing) =
      (if p = ''web/index.html'' then FileText ''ui'' else if p = ''/etc/passwd'' then FileText ''root'' else FileMissing)"
    by simp
qed simp

section \<open>The relay\<close>

text \<open>
  A request as the server hands it over: the path is decoded. The relay builds the URL from the decoded path and
  copies the headers; \<open>ks\<close> and \<open>ks'\<close> are the orders of ranging over the headers of the request and of the answer.
  The body of the answer is what its reads give, each with the error that ends the reading.
\<close>

record UiRequest =
  ur_Method :: string
  ur_Path :: string
  ur_RawQuery :: string
  ur_Header :: HeaderMap
  ur_Body :: string

record RelayRequest =
  rr_Method :: string
  rr_URL :: string
  rr_Headers :: HeaderMap
  rr_Content :: string

record RelayReply =
  rp_Status :: int
  rp_Headers :: HeaderMap
  rp_Reads :: "(string \<times> string option) list"

definition copy_headers :: "string list \<Rightarrow> HeaderMap \<Rightarrow> HeaderMap \<Rightarrow> HeaderMap" where
  "copy_headers ks src dst = foldl (\<lambda>h k. foldl (\<lambda>h v. hdr_Add k v h) h (src k)) dst ks"

fun copy_body :: "(string \<times> string option) list \<Rightarrow> string" where
  "copy_body [] = []"
| "copy_body ((chunk, err) # reads) = chunk @ (case err of Some _ \<Rightarrow> [] | None \<Rightarrow> copy_body reads)"

definition relay_url :: "string \<Rightarrow> UiRequest \<Rightarrow> string" where
  "relay_url baseURL r =
     (let url = baseURL @ ur_Path r in if ur_RawQuery r \<noteq> [] then url @ CHR 0x3F # ur_RawQuery r else url)"

definition ProxyHandler ::
    "(string \<Rightarrow> string option) \<Rightarrow> (RelayRequest \<Rightarrow> RelayReply result) \<Rightarrow> string list \<Rightarrow> string list \<Rightarrow> string \<Rightarrow>
       UiRequest \<Rightarrow> UiAnswer" where
  "ProxyHandler newRequest doHTTP ks ks' baseURL r =
     (let url = relay_url baseURL r in
      case newRequest url of
        Some e \<Rightarrow> ui_Error e 500
      | None \<Rightarrow> (case doHTTP \<lparr>rr_Method = ur_Method r, rr_URL = url, rr_Headers = copy_headers ks (ur_Header r) no_header,
              rr_Content = ur_Body r\<rparr> of
            Inl e \<Rightarrow> ui_Error e 502
          | Inr resp \<Rightarrow> \<lparr>ua_Status = rp_Status resp, ua_Header = copy_headers ks' (rp_Headers resp) no_header,
              ua_Body = copy_body (rp_Reads resp)\<rparr>))"

text \<open>
  The routes of the command: what starts with \<^verbatim>\<open>/api/\<close> is relayed without that prefix, everything else is a
  file. The multiplexer of \<^verbatim>\<open>net/http\<close> answers a path that is not clean with a redirect, and so the path
  \<^verbatim>\<open>/api\<close>.
\<close>

definition clean_url_path :: "string \<Rightarrow> string" where
  "clean_url_path p =
     (if p = [] then ''/''
      else let p = (if HasPrefix p ''/'' then p else CHR ''/'' # p); np = Clean p
           in if HasSuffix p ''/'' \<and> np \<noteq> ''/'' then np @ ''/'' else np)"

datatype Routed = Redirected string | Answered UiAnswer

definition ui_mux :: "(UiRequest \<Rightarrow> UiAnswer) \<Rightarrow> (string \<Rightarrow> UiAnswer) \<Rightarrow> UiRequest \<Rightarrow> Routed" where
  "ui_mux relay static r =
     (if ur_Method r \<noteq> ''CONNECT'' \<and> clean_url_path (ur_Path r) \<noteq> ur_Path r then Redirected (clean_url_path (ur_Path r))
      else if ur_Path r = ''/api'' then Redirected ''/api/''
      else if HasPrefix (ur_Path r) ''/api/'' then Answered (relay (r\<lparr>ur_Path := TrimPrefix (ur_Path r) ''/api''\<rparr>))
      else Answered (static (ur_Path r)))"

text \<open>The headers of a message: every key in its canonical form.\<close>

definition canonical_headers :: "string list \<Rightarrow> HeaderMap \<Rightarrow> bool" where
  "canonical_headers ks h \<longleftrightarrow> distinct ks \<and> (\<forall>k. h k \<noteq> [] \<longrightarrow> k \<in> set ks) \<and> (\<forall>k \<in> set ks. canonical_key True k = k)"

lemma add_values: "canonical_key True k = k \<Longrightarrow> foldl (\<lambda>h v. hdr_Add k v h) h vs = h(k := h k @ vs)"
  by (induction vs arbitrary: h) (simp_all add: hdr_Add_def)

lemma copy_headers_at:
  "distinct ks \<Longrightarrow> \<forall>k \<in> set ks. canonical_key True k = k \<Longrightarrow>
    copy_headers ks src dst k = (if k \<in> set ks then dst k @ src k else dst k)"
  unfolding copy_headers_def by (induction ks arbitrary: dst) (simp_all add: add_values)

lemma copy_headers_all: "canonical_headers ks h \<Longrightarrow> copy_headers ks h no_header = h"
  by (rule ext) (auto simp: canonical_headers_def copy_headers_at no_header_def, metis)

lemma copy_body_reads: "copy_body (map (\<lambda>c. (c, None)) cs @ [(c, Some e)]) = concat cs @ c"
  by (induction cs) simp_all

text \<open>
  The relay is transparent. A request below \<^verbatim>\<open>/api\<close> reaches the proxy with its method, its
  path without the prefix, its query, its headers and its body; and the answer of the proxy comes back with its
  status, its headers, and its body in full, in whatever pieces it was read and in whatever order the headers are
  ranged over.
\<close>

theorem relay_transparent:
  assumes "clean_url_path (''/api'' @ CHR ''/'' # p) = ''/api'' @ CHR ''/'' # p"
    and "canonical_headers ks h" "canonical_headers ks' h'"
    and "newRequest (baseURL @ CHR ''/'' # p @ (if q = [] then [] else CHR 0x3F # q)) = None"
    and "doHTTP \<lparr>rr_Method = m, rr_URL = baseURL @ CHR ''/'' # p @ (if q = [] then [] else CHR 0x3F # q),
           rr_Headers = h, rr_Content = content\<rparr>
         = Inr \<lparr>rp_Status = st, rp_Headers = h', rp_Reads = map (\<lambda>c. (c, None)) cs @ [(c, Some e)]\<rparr>"
  shows "ui_mux (ProxyHandler newRequest doHTTP ks ks' baseURL) static
      \<lparr>ur_Method = m, ur_Path = ''/api'' @ CHR ''/'' # p, ur_RawQuery = q, ur_Header = h, ur_Body = content\<rparr>
    = Answered \<lparr>ua_Status = st, ua_Header = h', ua_Body = concat cs @ c\<rparr>"
  using assms
  by (cases "q = []") (simp_all add: ui_mux_def HasPrefix_def TrimPrefix_def ProxyHandler_def relay_url_def Let_def copy_headers_all copy_body_reads)

theorem relay_transparent_witness:
  "ui_mux (ProxyHandler (\<lambda>_. None) (\<lambda>r. Inr \<lparr>rp_Status = 200, rp_Headers = no_header, rp_Reads = map (\<lambda>c. (c, None)) [rr_URL r] @ [([], Some ''EOF'')]\<rparr>)
      [''Accept''] [] ''http://p'') (\<lambda>_. ui_NotFound)
      \<lparr>ur_Method = ''GET'', ur_Path = ''/api'' @ CHR ''/'' # ''health'', ur_RawQuery = ''x'', ur_Header = no_header(''Accept'' := [''a'', ''b'']), ur_Body = []\<rparr>
    = Answered \<lparr>ua_Status = 200, ua_Header = no_header, ua_Body = concat [''http://p/health?x''] @ []\<rparr>"
  by (rule relay_transparent [where c = "[]" and e = "''EOF''"])
    (simp_all add: clean_url_path_def Clean_def clean_parts_def clean_step_def is_rooted_def path_text_def HasPrefix_def
      HasSuffix_def canonical_headers_def no_header_def upper_char_def lower_char_def Let_def)

text \<open>
  What escapes stood for is read again: the path \<^verbatim>\<open>a%3Fb\<close>, decoded by the server, reaches the proxy as the
  path \<^verbatim>\<open>a\<close> with the query \<^verbatim>\<open>b\<close>, as if those had been asked for.
\<close>

lemma relay_confuses_escapes:
  "relay_url base \<lparr>ur_Method = m, ur_Path = p @ CHR 0x3F # q, ur_RawQuery = [], ur_Header = h, ur_Body = b\<rparr>
     = relay_url base \<lparr>ur_Method = m, ur_Path = p, ur_RawQuery = q, ur_Header = h, ur_Body = b\<rparr>" if "q \<noteq> []"
  using that by (simp add: relay_url_def)

end
