(* ===== verification/Services.thy ===== *)
theory Services
  imports Upstream Domain
begin

text \<open>
  The small services of \<^verbatim>\<open>internal/service/governance/budget_service.go\<close> beside the budget and the
  masking: the tokenizer service with its truncation, the comparison of two traces and the list of deprecated
  features.
\<close>

section \<open>The tokenizer service\<close>

text \<open>
  The tokenizer is a field of an interface type. It can be nil, it can hold the nil pointer that a failed
  \<^verbatim>\<open>DefaultTokenizer\<close> returns, which is not nil as an interface and panics when it is used, or a tokenizer.
  A panic is \<open>None\<close>.
\<close>

datatype 'tok TokenizerField = NilInterface | NilPointer | Tokenizer "'tok OpenAITokenizer"

definition NewTokenizerService ::
    "(string \<Rightarrow> (string \<Rightarrow> 'tok list) result) \<Rightarrow> (string \<Rightarrow> (string \<Rightarrow> 'tok list) result) \<Rightarrow> 'tok TokenizerField" where
  "NewTokenizerService EncodingForModel GetEncoding =
     (case DefaultTokenizer EncodingForModel GetEncoding of Inl _ \<Rightarrow> NilPointer | Inr tok \<Rightarrow> Tokenizer tok)"

definition ts_CountTokens :: "'tok TokenizerField \<Rightarrow> string \<Rightarrow> int result option" where
  "ts_CountTokens s text = (case s of
     NilInterface \<Rightarrow> Some (Inl ''tokenizer not initialized'')
   | NilPointer \<Rightarrow> None
   | Tokenizer t \<Rightarrow> Some (CountTokens t text))"

text \<open>The loop of \<^verbatim>\<open>Truncate\<close> from \<open>i\<close> runes downwards; a failed count is the zero that comes with the error.\<close>

fun truncate_from :: "'tok OpenAITokenizer \<Rightarrow> int \<Rightarrow> nat list \<Rightarrow> nat \<Rightarrow> string" where
  "truncate_from t maxTokens rs 0 = []"
| "truncate_from t maxTokens rs (Suc i) =
     (let testText = string_of_runes (take (Suc i) rs);
          testTokens = (case CountTokens t testText of Inl _ \<Rightarrow> 0 | Inr n \<Rightarrow> n)
      in if testTokens \<le> maxTokens then testText else truncate_from t maxTokens rs i)"

definition ts_Truncate :: "'tok TokenizerField \<Rightarrow> string \<Rightarrow> int \<Rightarrow> (string \<times> string option) option" where
  "ts_Truncate s text maxTokens = (case s of
     NilInterface \<Rightarrow> Some (text, None)
   | NilPointer \<Rightarrow> None
   | Tokenizer t \<Rightarrow> Some (case CountTokens t text of
         Inl e \<Rightarrow> (text, Some e)
       | Inr tokens \<Rightarrow>
           if tokens \<le> maxTokens then (text, None)
           else (truncate_from t maxTokens (runes text) (length (runes text)), None)))"

definition tokens_of :: "'tok OpenAITokenizer \<Rightarrow> string \<Rightarrow> int" where
  "tokens_of t s = int (length (tk_encode t s))"

lemma CountTokens_tokens [simp]: "CountTokens t s = Inr (tokens_of t s)"
  by (simp add: CountTokens_def tokens_of_def)

lemma truncate_from_longest:
  "\<exists>n \<le> i. truncate_from t m rs i = string_of_runes (take n rs) \<and> (0 < n \<longrightarrow> tokens_of t (string_of_runes (take n rs)) \<le> m) \<and>
     (\<forall>j. n < j \<and> j \<le> i \<longrightarrow> m < tokens_of t (string_of_runes (take j rs)))"
proof (induction i)
  case 0
  show ?case by (simp add: string_of_runes_def)
next
  case (Suc i)
  show ?case
  proof (cases "tokens_of t (string_of_runes (take (Suc i) rs)) \<le> m")
    case True
    then have "truncate_from t m rs (Suc i) = string_of_runes (take (Suc i) rs)" by (simp add: Let_def)
    with True show ?thesis by (intro exI [of _ "Suc i"]) auto
  next
    case False
    then have eq: "truncate_from t m rs (Suc i) = truncate_from t m rs i" by (simp add: Let_def)
    from Suc obtain n where "n \<le> i" "truncate_from t m rs i = string_of_runes (take n rs)"
      "0 < n \<longrightarrow> tokens_of t (string_of_runes (take n rs)) \<le> m"
      "\<forall>j. n < j \<and> j \<le> i \<longrightarrow> m < tokens_of t (string_of_runes (take j rs))" by blast
    with False eq show ?thesis by (intro exI [of _ n]) (auto simp: le_Suc_eq not_le)
  qed
qed

text \<open>
  Truncation keeps as much as fits. A text within the limit is returned as it is. Of any
  other text the result is a prefix of its runes within the limit, or empty, and no longer prefix is within the
  limit, however the encoder counts.
\<close>

theorem truncate_longest:
  "if tokens_of t text \<le> m then ts_Truncate (Tokenizer t) text m = Some (text, None)
   else \<exists>n. n \<le> length (runes text) \<and>
     ts_Truncate (Tokenizer t) text m = Some (string_of_runes (take n (runes text)), None) \<and>
     (n = 0 \<or> tokens_of t (string_of_runes (take n (runes text))) \<le> m) \<and>
     {j. j \<le> length (runes text) \<and> 0 < j \<and> tokens_of t (string_of_runes (take j (runes text))) \<le> m} \<subseteq> {..n}"
proof -
  obtain n where n: "n \<le> length (runes text)"
    "truncate_from t m (runes text) (length (runes text)) = string_of_runes (take n (runes text))"
    "n = 0 \<or> tokens_of t (string_of_runes (take n (runes text))) \<le> m"
    and above: "\<And>j. n < j \<Longrightarrow> j \<le> length (runes text) \<Longrightarrow> m < tokens_of t (string_of_runes (take j (runes text)))"
    using truncate_from_longest [of "length (runes text)" t m "runes text"] by auto
  have "{j. j \<le> length (runes text) \<and> 0 < j \<and> tokens_of t (string_of_runes (take j (runes text))) \<le> m} \<subseteq> {..n}"
  proof
    fix j assume "j \<in> {j. j \<le> length (runes text) \<and> 0 < j \<and> tokens_of t (string_of_runes (take j (runes text))) \<le> m}"
    then show "j \<in> {..n}" using above [of j] by (cases "n < j") simp_all
  qed
  with n show ?thesis by (cases "tokens_of t text \<le> m") (simp add: ts_Truncate_def, simp add: ts_Truncate_def, blast)
qed

text \<open>When no encoding can be loaded the service does not report it: it panics at the first use.\<close>

lemma uninitialized_panics:
  "isl (EncodingForModel ''gpt-3.5-turbo'') \<Longrightarrow> isl (GetEncoding ''cl100k_base'') \<Longrightarrow>
    ts_CountTokens (NewTokenizerService EncodingForModel GetEncoding) text = None"
  by (auto simp: isl_def NewTokenizerService_def DefaultTokenizer_def NewOpenAITokenizer_def ts_CountTokens_def)

section \<open>Comparison of traces\<close>

definition ds_Compare :: "Trace option \<Rightarrow> Trace option \<Rightarrow> bool \<times> string list" where
  "ds_Compare a b = (case (a, b) of
     (Some a, Some b) \<Rightarrow>
       (let diffFields = [];
            diffFields = (if tr_Model a \<noteq> tr_Model b then diffFields @ [''model''] else diffFields);
            diffFields = (if tr_ExecutionState a \<noteq> tr_ExecutionState b then diffFields @ [''execution_state''] else diffFields)
        in (0 < length diffFields, diffFields))
   | _ \<Rightarrow> (False, []))"

definition GenerateDiffReport :: "Trace option \<Rightarrow> Trace option \<Rightarrow> string" where
  "GenerateDiffReport a b = (case ds_Compare a b of (hasDiff, diffFields) \<Rightarrow>
     if \<not> hasDiff then ''No differences found'' else ''Differences found in fields: '' @ Join diffFields '', '')"

lemma ds_Compare_sym: "ds_Compare a b = ds_Compare b a"
  by (auto simp: ds_Compare_def Let_def split: option.split)

lemma ds_Compare_differs:
  "fst (ds_Compare (Some a) (Some b)) \<longleftrightarrow> tr_Model a \<noteq> tr_Model b \<or> tr_ExecutionState a \<noteq> tr_ExecutionState b"
  by (simp add: ds_Compare_def Let_def)

section \<open>Deprecated features\<close>

definition ds_IsDeprecated :: "string \<Rightarrow> bool" where
  "ds_IsDeprecated feature \<longleftrightarrow> (case [''legacy-auth'' \<mapsto> True] feature of Some b \<Rightarrow> b | None \<Rightarrow> False)"

definition ds_GetDeprecationWarning :: "string \<Rightarrow> string" where
  "ds_GetDeprecationWarning feature =
     ''Feature '' @ [CHR 0x27] @ feature @ [CHR 0x27] @ '' is deprecated and will be removed in a future version''"

end
