(* ===== verification/Cleaner.thy ===== *)
theory Cleaner
  imports TraceStore
begin

text \<open>
  The life of the cleaner of \<^verbatim>\<open>internal/adapter/storage/ttl_cleaner.go\<close>: its ticker, the calls of
  \<^verbatim>\<open>Start\<close> and \<^verbatim>\<open>Stop\<close>, which take no lock, and the goroutines that \<^verbatim>\<open>Start\<close> makes, in
  every interleaving of their reads and writes of the field. What one cleaning does to the store is
  \<open>cleanupExpiredTraces\<close> of \<open>TraceStore\<close>.
\<close>

section \<open>States and operations\<close>

text \<open>
  A routine is where a call or a goroutine stands. A call of \<^verbatim>\<open>Start\<close> looks whether there is a ticker,
  makes one, and starts the goroutine; a call of \<^verbatim>\<open>Stop\<close> looks, stops the ticker, and clears the field. A goroutine is
  about to evaluate its \<^verbatim>\<open>select\<close>, waits for the ticker that it found there, cleans, or is in the call of
  \<^verbatim>\<open>Stop\<close> that it makes when the context is cancelled.
\<close>

datatype Routine =
    StartCheck | StartMake | StartGo
  | StopCheck | StopTicker | StopClear
  | Selecting | Waiting nat | Cleaning
  | Returned

text \<open>
  Tickers are numbered in the order in which they were made; \<open>cs_running\<close> are those that were not
  stopped and \<open>cs_fired\<close> those whose channel holds a tick; since Go 1.23 no tick is received once a ticker is stopped.
  A panic ends the program.
\<close>

record 's TTLCleaner =
  cs_store :: 's
  cs_ticker :: "nat option"
  cs_interval :: int
  cs_made :: nat
  cs_running :: "nat set"
  cs_fired :: "nat set"
  cs_routines :: "Routine list"
  cs_cancelled :: bool
  cs_crashed :: bool

definition NewTTLCleaner :: "'s \<Rightarrow> int \<Rightarrow> 's TTLCleaner" where
  "NewTTLCleaner store cleanupInterval =
     \<lparr>cs_store = store, cs_ticker = None, cs_interval = cleanupInterval, cs_made = 0, cs_running = {}, cs_fired = {},
      cs_routines = [], cs_cancelled = False, cs_crashed = False\<rparr>"

definition panic :: "Routine \<Rightarrow> 's TTLCleaner \<Rightarrow> Routine \<times> 's TTLCleaner" where
  "panic p c = (p, c\<lparr>cs_crashed := True\<rparr>)"

text \<open>\<^verbatim>\<open>time.NewTicker\<close> panics for an interval that is not positive.\<close>

definition NewTicker :: "'s TTLCleaner \<Rightarrow> 's TTLCleaner option" where
  "NewTicker c = (if cs_interval c \<le> 0 then None
     else Some (c\<lparr>cs_ticker := Some (cs_made c), cs_made := Suc (cs_made c), cs_running := insert (cs_made c) (cs_running c)\<rparr>))"

text \<open>One step of a call of \<^verbatim>\<open>Start\<close> and of \<^verbatim>\<open>Stop\<close>: where it stands next, and the cleaner.\<close>

fun cleaner_Start :: "Routine \<Rightarrow> 's TTLCleaner \<Rightarrow> Routine \<times> 's TTLCleaner" where
  "cleaner_Start StartCheck c = (if cs_ticker c = None then StartMake else StartGo, c)"
| "cleaner_Start StartMake c = (case NewTicker c of None \<Rightarrow> panic StartMake c | Some c' \<Rightarrow> (StartGo, c'))"
| "cleaner_Start StartGo c = (Returned, c\<lparr>cs_routines := cs_routines c @ [Selecting]\<rparr>)"
| "cleaner_Start p c = (p, c)"

fun cleaner_Stop :: "Routine \<Rightarrow> 's TTLCleaner \<Rightarrow> Routine \<times> 's TTLCleaner" where
  "cleaner_Stop StopCheck c = (if cs_ticker c \<noteq> None then StopTicker else Returned, c)"
| "cleaner_Stop StopTicker c = (case cs_ticker c of
     None \<Rightarrow> panic StopTicker c | Some k \<Rightarrow> (StopClear, c\<lparr>cs_running := cs_running c - {k}, cs_fired := cs_fired c - {k}\<rparr>))"
| "cleaner_Stop StopClear c = (Returned, c\<lparr>cs_ticker := None\<rparr>)"
| "cleaner_Stop p c = (p, c)"

text \<open>The evaluation of the channel of the ticker in the select statement.\<close>

definition cleaner_select :: "'s TTLCleaner \<Rightarrow> Routine \<times> 's TTLCleaner" where
  "cleaner_select c = (case cs_ticker c of None \<Rightarrow> panic Selecting c | Some k \<Rightarrow> (Waiting k, c))"

fun run_routine :: "Routine \<Rightarrow> 's TTLCleaner \<Rightarrow> (Routine \<times> 's TTLCleaner) option" where
  "run_routine (Waiting k) c = None"
| "run_routine Cleaning c = None"
| "run_routine Returned c = None"
| "run_routine Selecting c = Some (cleaner_select c)"
| "run_routine p c = Some (if p \<in> {StartCheck, StartMake, StartGo} then cleaner_Start p c else cleaner_Stop p c)"

definition set_routine :: "nat \<Rightarrow> Routine \<Rightarrow> 's TTLCleaner \<Rightarrow> 's TTLCleaner" where
  "set_routine i r c = c\<lparr>cs_routines := (cs_routines c)[i := r]\<rparr>"

definition add_routine :: "Routine \<Rightarrow> 's TTLCleaner \<Rightarrow> 's TTLCleaner" where
  "add_routine r c = c\<lparr>cs_routines := cs_routines c @ [r]\<rparr>"

section \<open>Steps\<close>

text \<open>
  What happens: a call of \<^verbatim>\<open>Start\<close> or \<^verbatim>\<open>Stop\<close> begins, the context is cancelled, a running ticker
  fires, or the routine with the given number takes a step of the code, receives its tick, cleans, or finds the
  context cancelled.
\<close>

datatype CleanerEvent = EvStart | EvStop | EvCancel | EvFire nat | EvRun nat | EvReceive nat | EvClean nat | EvDone nat

inductive cleaner_step :: "('s \<Rightarrow> int result \<times> 's) \<Rightarrow> 's TTLCleaner \<Rightarrow> CleanerEvent \<Rightarrow> 's TTLCleaner \<Rightarrow> bool"
  for cleanup where
  step_start: "\<not> cs_crashed c \<Longrightarrow> cleaner_step cleanup c EvStart (add_routine StartCheck c)"
| step_stop: "\<not> cs_crashed c \<Longrightarrow> cleaner_step cleanup c EvStop (add_routine StopCheck c)"
| step_cancel: "\<not> cs_crashed c \<Longrightarrow> cleaner_step cleanup c EvCancel (c\<lparr>cs_cancelled := True\<rparr>)"
| step_fire: "\<not> cs_crashed c \<Longrightarrow> k \<in> cs_running c \<Longrightarrow>
    cleaner_step cleanup c (EvFire k) (c\<lparr>cs_fired := insert k (cs_fired c)\<rparr>)"
| step_run: "\<not> cs_crashed c \<Longrightarrow> i < length (cs_routines c) \<Longrightarrow> run_routine (cs_routines c ! i) c = Some (r, c') \<Longrightarrow>
    cleaner_step cleanup c (EvRun i) (set_routine i r c')"
| step_receive: "\<not> cs_crashed c \<Longrightarrow> i < length (cs_routines c) \<Longrightarrow> cs_routines c ! i = Waiting k \<Longrightarrow> k \<in> cs_fired c \<Longrightarrow>
    cleaner_step cleanup c (EvReceive i) (set_routine i Cleaning (c\<lparr>cs_fired := cs_fired c - {k}\<rparr>))"
| step_clean: "\<not> cs_crashed c \<Longrightarrow> i < length (cs_routines c) \<Longrightarrow> cs_routines c ! i = Cleaning \<Longrightarrow>
    cleaner_step cleanup c (EvClean i)
      (set_routine i Selecting (c\<lparr>cs_store := snd (cleanupExpiredTraces cleanup (cs_store c))\<rparr>))"
| step_done: "\<not> cs_crashed c \<Longrightarrow> i < length (cs_routines c) \<Longrightarrow> cs_routines c ! i = Waiting k \<Longrightarrow> cs_cancelled c \<Longrightarrow>
    cleaner_step cleanup c (EvDone i) (set_routine i StopCheck c)"

inductive_cases stepE: "cleaner_step cleanup c e c'"

inductive cleaner_run :: "('s \<Rightarrow> int result \<times> 's) \<Rightarrow> 's TTLCleaner \<Rightarrow> CleanerEvent list \<Rightarrow> 's TTLCleaner \<Rightarrow> bool"
  for cleanup where
  run_nil: "cleaner_run cleanup c [] c"
| run_snoc: "cleaner_run cleanup c es c' \<Longrightarrow> cleaner_step cleanup c' e c'' \<Longrightarrow> cleaner_run cleanup c (es @ [e]) c''"

section \<open>What the cleaner keeps\<close>

fun is_clean :: "CleanerEvent \<Rightarrow> bool" where
  "is_clean (EvClean i) = True"
| "is_clean _ = False"

fun is_fire :: "CleanerEvent \<Rightarrow> bool" where
  "is_fire (EvFire k) = True"
| "is_fire _ = False"

lemmas routine_defs = cleaner_select_def panic_def NewTicker_def

lemma routine_fields [simp]:
  "cs_store (set_routine i r c) = cs_store c" "cs_store (add_routine r c) = cs_store c"
  "cs_ticker (set_routine i r c) = cs_ticker c" "cs_ticker (add_routine r c) = cs_ticker c"
  "cs_interval (set_routine i r c) = cs_interval c" "cs_interval (add_routine r c) = cs_interval c"
  "cs_running (set_routine i r c) = cs_running c" "cs_running (add_routine r c) = cs_running c"
  "cs_fired (set_routine i r c) = cs_fired c" "cs_fired (add_routine r c) = cs_fired c"
  "cs_crashed (set_routine i r c) = cs_crashed c" "cs_crashed (add_routine r c) = cs_crashed c"
  "cs_cancelled (set_routine i r c) = cs_cancelled c" "cs_cancelled (add_routine r c) = cs_cancelled c"
  "cs_routines (set_routine i r c) = (cs_routines c)[i := r]" "cs_routines (add_routine r c) = cs_routines c @ [r]"
  by (simp_all add: set_routine_def add_routine_def)

lemma run_routine_keeps:
  "run_routine p c = Some (r, c') \<Longrightarrow> cs_store c' = cs_store c \<and> cs_interval c' = cs_interval c \<and>
     cs_fired c' \<subseteq> cs_fired c \<and> p \<noteq> Cleaning \<and> r \<noteq> Cleaning \<and> (cs_routines c' = cs_routines c \<or> cs_routines c' = cs_routines c @ [Selecting])"
  by (cases p) (auto simp: routine_defs split: if_splits option.splits)

lemma store_step:
  "cleaner_step cleanup c e c' \<Longrightarrow>
    cs_store c' = (if is_clean e then snd (cleanupExpiredTraces cleanup (cs_store c)) else cs_store c)"
  by (auto elim!: stepE dest: run_routine_keeps)

lemma interval_step: "cleaner_step cleanup c e c' \<Longrightarrow> cs_interval c' = cs_interval c"
  by (auto elim!: stepE dest: run_routine_keeps)

lemma store_run:
  "cleaner_run cleanup c es c' \<Longrightarrow>
    cs_store c' = ((\<lambda>s. snd (cleanupExpiredTraces cleanup s)) ^^ length (filter is_clean es)) (cs_store c)"
  by (induction rule: cleaner_run.induct) (simp_all add: store_step)

text \<open>Every cleaning has used up a tick of its own.\<close>

definition ticks :: "'s TTLCleaner \<Rightarrow> nat" where
  "ticks c = length (filter ((=) Cleaning) (cs_routines c)) + card (cs_fired c)"

lemma filter_update:
  "i < length xs \<Longrightarrow> length (filter P (xs[i := y])) + (if P (xs ! i) then 1 else 0) = length (filter P xs) + (if P y then 1 else 0)"
proof (induction xs arbitrary: i)
  case (Cons x xs)
  then show ?case by (cases i) auto
qed simp

lemma ticks_step:
  "cleaner_step cleanup c e c' \<Longrightarrow> finite (cs_fired c) \<Longrightarrow>
    finite (cs_fired c') \<and> ticks c' + (if is_clean e then 1 else 0) \<le> ticks c + (if is_fire e then 1 else 0)"
proof (induction rule: cleaner_step.induct)
  case (step_fire c k)
  then show ?case by (simp add: ticks_def card_insert_if)
next
  case (step_run c i r c')
  from run_routine_keeps [OF step_run(3)]
  have keeps: "cs_fired c' \<subseteq> cs_fired c" "cs_routines c ! i \<noteq> Cleaning" "r \<noteq> Cleaning"
    "length (filter ((=) Cleaning) (cs_routines c')) = length (filter ((=) Cleaning) (cs_routines c))"
    "i < length (cs_routines c')" "cs_routines c' ! i = cs_routines c ! i"
    using step_run(2) by (auto simp: nth_append)
  then have "finite (cs_fired c')" "card (cs_fired c') \<le> card (cs_fired c)"
    using step_run(4) by (auto intro: finite_subset card_mono)
  with keeps filter_update [of i "cs_routines c'" "(=) Cleaning" r] show ?case by (simp add: ticks_def)
next
  case (step_receive c i k)
  then have "card (cs_fired c) = Suc (card (cs_fired c - {k}))" using card_Suc_Diff1 [of "cs_fired c" k] by simp
  with step_receive filter_update [of i "cs_routines c" "(=) Cleaning" Cleaning] show ?case by (simp add: ticks_def)
next
  case (step_clean c i)
  with filter_update [of i "cs_routines c" "(=) Cleaning" Selecting] show ?case by (simp add: ticks_def)
next
  case (step_done c i k)
  with filter_update [of i "cs_routines c" "(=) Cleaning" StopCheck] show ?case by (simp add: ticks_def)
qed (simp_all add: ticks_def)

lemma ticks_run:
  "cleaner_run cleanup c es c' \<Longrightarrow> c = NewTTLCleaner st iv \<Longrightarrow>
    finite (cs_fired c') \<and> ticks c' + length (filter is_clean es) \<le> length (filter is_fire es)"
proof (induction rule: cleaner_run.induct)
  case (run_nil c)
  then show ?case by (simp add: ticks_def NewTTLCleaner_def)
next
  case (run_snoc c es c' e c'')
  then show ?case using ticks_step [of cleanup c' e c''] by (auto split: if_splits)
qed

section \<open>An interval that is not positive\<close>

definition tickless :: "'s TTLCleaner \<Rightarrow> bool" where
  "tickless c \<longleftrightarrow> cs_interval c \<le> 0 \<and> cs_ticker c = None \<and> set (cs_routines c) \<subseteq> {StartCheck, StartMake, StopCheck, Returned}"

lemma tickless_step:
  "cleaner_step cleanup c e c' \<Longrightarrow> tickless c \<Longrightarrow> tickless c' \<and> \<not> is_clean e"
proof (induction rule: cleaner_step.induct)
  case (step_run c i r c')
  then have p: "cs_routines c ! i \<in> {StartCheck, StartMake, StopCheck, Returned}" "cs_ticker c = None" "cs_interval c \<le> 0"
    unfolding tickless_def using nth_mem [of i "cs_routines c"] by blast+
  with step_run(3) have "r \<in> {StartCheck, StartMake, StopCheck, Returned}" "cs_routines c' = cs_routines c" "cs_ticker c' = None"
    "cs_interval c' = cs_interval c"
    by (auto simp: routine_defs)
  then show ?case
    using step_run(4) set_update_subset_insert [of "cs_routines c" i r] unfolding tickless_def by auto
next
  case (step_receive c i k)
  then show ?case using nth_mem [of i "cs_routines c"] by (auto simp: tickless_def)
next
  case (step_clean c i)
  then show ?case using nth_mem [of i "cs_routines c"] by (auto simp: tickless_def)
next
  case (step_done c i k)
  then show ?case using nth_mem [of i "cs_routines c"] by (auto simp: tickless_def)
qed (auto simp: tickless_def)

lemma tickless_run:
  "cleaner_run cleanup c es c' \<Longrightarrow> c = NewTTLCleaner st iv \<Longrightarrow> iv \<le> 0 \<Longrightarrow> tickless c' \<and> filter is_clean es = []"
proof (induction rule: cleaner_run.induct)
  case (run_nil c)
  then show ?case by (simp add: tickless_def NewTTLCleaner_def)
next
  case (run_snoc c es c' e c'')
  then show ?case using tickless_step [of cleanup c' e c''] by simp
qed

section \<open>One start\<close>

text \<open>
  The states of a cleaner with a positive interval that is started at most once and not stopped from outside: the
  call of \<^verbatim>\<open>Start\<close>, and then one goroutine, which alone touches the field.
\<close>

definition alive :: "Routine \<Rightarrow> bool" where
  "alive g \<longleftrightarrow> g \<in> {Selecting, Cleaning, StopCheck, StopTicker, StopClear} \<or> (\<exists>k. g = Waiting k)"

definition sole :: "nat \<Rightarrow> 's TTLCleaner \<Rightarrow> bool" where
  "sole n c \<longleftrightarrow> \<not> cs_crashed c \<and> 0 < cs_interval c \<and>
     (n = 0 \<and> cs_routines c = [] \<or>
      n = 1 \<and> (cs_routines c \<in> {[StartCheck], [StartMake]} \<or> cs_routines c = [StartGo] \<and> cs_ticker c \<noteq> None \<or>
        (\<exists>g. cs_routines c = [Returned, g] \<and> (g = Returned \<or> alive g \<and> cs_ticker c \<noteq> None))))"

definition starts :: "CleanerEvent list \<Rightarrow> nat" where
  "starts es = length (filter ((=) EvStart) es)"

lemma sole_step:
  assumes "cleaner_step cleanup c e c'" "sole n c" "e \<noteq> EvStop" "e = EvStart \<longrightarrow> n = 0"
  shows "sole (if e = EvStart then Suc n else n) c'"
  using assms
proof (induction rule: cleaner_step.induct)
  case (step_run c i r c')
  consider "cs_routines c = [StartCheck]" "i = 0" | "cs_routines c = [StartMake]" "i = 0"
    | "cs_routines c = [StartGo]" "i = 0" "cs_ticker c \<noteq> None"
    | g where "cs_routines c = [Returned, g]" "i = 1" "alive g" "cs_ticker c \<noteq> None"
    using step_run by (cases i) (auto simp: sole_def less_Suc_eq)
  then show ?case
    using step_run by cases (auto simp: sole_def alive_def routine_defs split: if_splits option.splits)
next
  case (step_receive c i k)
  then show ?case by (cases i) (auto simp: sole_def alive_def less_Suc_eq)
next
  case (step_clean c i)
  then show ?case by (cases i) (auto simp: sole_def alive_def less_Suc_eq)
next
  case (step_done c i k)
  then show ?case by (cases i) (auto simp: sole_def alive_def less_Suc_eq)
qed (auto simp: sole_def)

lemma sole_run:
  "cleaner_run cleanup c es c' \<Longrightarrow> c = NewTTLCleaner st iv \<Longrightarrow> 0 < iv \<Longrightarrow> starts es \<le> 1 \<Longrightarrow> EvStop \<notin> set es \<Longrightarrow>
    sole (starts es) c'"
proof (induction rule: cleaner_run.induct)
  case (run_nil c)
  then show ?case by (simp add: sole_def NewTTLCleaner_def starts_def)
next
  case (run_snoc c es c' e c'')
  then show ?case using sole_step [of cleanup c' e c'' "starts es"] by (auto simp: starts_def split: if_splits)
qed

section \<open>A cleaner that is stopped\<close>

text \<open>
  A cleaner is idle when it has no ticker and its goroutines wait for tickers that neither run nor have fired.
\<close>

definition dead :: "'s TTLCleaner \<Rightarrow> Routine \<Rightarrow> bool" where
  "dead c r \<longleftrightarrow> r \<in> {StopCheck, Returned} \<or> (\<exists>k. r = Waiting k \<and> k \<notin> cs_running c \<and> k \<notin> cs_fired c)"

definition idle :: "'s TTLCleaner \<Rightarrow> bool" where
  "idle c \<longleftrightarrow> \<not> cs_crashed c \<and> cs_ticker c = None \<and> (\<forall>r \<in> set (cs_routines c). dead c r)"

lemma idle_step: "cleaner_step cleanup c e c' \<Longrightarrow> idle c \<Longrightarrow> e \<noteq> EvStart \<Longrightarrow> idle c' \<and> cs_store c' = cs_store c"
proof (induction rule: cleaner_step.induct)
  case (step_stop c)
  then show ?case by (auto simp: idle_def dead_def)
next
  case (step_cancel c)
  then show ?case by (auto simp: idle_def dead_def)
next
  case (step_fire c k)
  then show ?case by (auto simp: idle_def dead_def)
next
  case (step_run c i r c')
  then have "dead c (cs_routines c ! i)" "cs_ticker c = None" by (auto simp: idle_def)
  with step_run(3) have "r = Returned" "c' = c" by (auto simp: dead_def)
  then show ?case
    using step_run(4) set_update_subset_insert [of "cs_routines c" i Returned] by (auto simp: idle_def dead_def)
next
  case (step_receive c i k)
  have "dead c (cs_routines c ! i)" using step_receive(5) nth_mem [OF step_receive(2)] unfolding idle_def by blast
  with step_receive show ?case by (simp add: dead_def)
next
  case (step_clean c i)
  have "dead c (cs_routines c ! i)" using step_clean(4) nth_mem [OF step_clean(2)] unfolding idle_def by blast
  with step_clean show ?case by (simp add: dead_def)
next
  case (step_done c i k)
  then show ?case using set_update_subset_insert [of "cs_routines c" i StopCheck] by (auto simp: idle_def dead_def)
qed simp

lemma idle_run: "cleaner_run cleanup c es c' \<Longrightarrow> idle c \<Longrightarrow> EvStart \<notin> set es \<Longrightarrow> idle c' \<and> cs_store c' = cs_store c"
proof (induction rule: cleaner_run.induct)
  case (run_snoc c es c' e c'')
  then show ?case using idle_step [of cleanup c' e c''] by auto
qed simp

section \<open>Evaluating a run\<close>

definition after :: "('s \<Rightarrow> int result \<times> 's) \<Rightarrow> CleanerEvent \<Rightarrow> 's TTLCleaner \<Rightarrow> 's TTLCleaner option" where
  "after cleanup e c =
     (let point = (\<lambda>i. if i < length (cs_routines c) then cs_routines c ! i else Returned) in
      if cs_crashed c then None
      else (case e of
          EvStart \<Rightarrow> Some (add_routine StartCheck c)
        | EvStop \<Rightarrow> Some (add_routine StopCheck c)
        | EvCancel \<Rightarrow> Some (c\<lparr>cs_cancelled := True\<rparr>)
        | EvFire k \<Rightarrow> if k \<in> cs_running c then Some (c\<lparr>cs_fired := insert k (cs_fired c)\<rparr>) else None
        | EvRun i \<Rightarrow> (case run_routine (point i) c of Some (r, c') \<Rightarrow> Some (set_routine i r c') | None \<Rightarrow> None)
        | EvReceive i \<Rightarrow> (case point i of
            Waiting k \<Rightarrow> if k \<in> cs_fired c then Some (set_routine i Cleaning (c\<lparr>cs_fired := cs_fired c - {k}\<rparr>)) else None
          | _ \<Rightarrow> None)
        | EvClean i \<Rightarrow> if point i = Cleaning
            then Some (set_routine i Selecting (c\<lparr>cs_store := snd (cleanupExpiredTraces cleanup (cs_store c))\<rparr>)) else None
        | EvDone i \<Rightarrow> (case point i of
            Waiting k \<Rightarrow> if cs_cancelled c then Some (set_routine i StopCheck c) else None
          | _ \<Rightarrow> None)))"

fun after_all :: "('s \<Rightarrow> int result \<times> 's) \<Rightarrow> CleanerEvent list \<Rightarrow> 's TTLCleaner \<Rightarrow> 's TTLCleaner option" where
  "after_all cleanup [] c = Some c"
| "after_all cleanup (e # es) c = Option.bind (after cleanup e c) (after_all cleanup es)"

lemma after_step: "after cleanup e c = Some c' \<Longrightarrow> cleaner_step cleanup c e c'"
  by (cases e) (auto simp: after_def Let_def intro: cleaner_step.intros split: if_splits option.splits Routine.splits)

lemma after_run: "after_all cleanup fs c' = Some c'' \<Longrightarrow> cleaner_run cleanup c es c' \<Longrightarrow> cleaner_run cleanup c (es @ fs) c''"
proof (induction fs arbitrary: c' es)
  case (Cons e fs)
  then obtain d where d: "after cleanup e c' = Some d" "after_all cleanup fs d = Some c''" by (auto simp: bind_eq_Some_conv)
  from Cons.IH [OF d(2) run_snoc [OF Cons.prems(2) after_step [OF d(1)]]] show ?case by simp
qed simp

lemmas run_eval = after_def NewTTLCleaner_def add_routine_def set_routine_def routine_defs

abbreviation run_of :: "nat \<Rightarrow> nat \<Rightarrow> CleanerEvent list" where
  "run_of n i \<equiv> replicate n (EvRun i)"

text \<open>
  How the cleaner can panic: making a ticker with an interval that is not positive; selecting after a stop; two
  stops at the same time; two goroutines, one of which has found the context cancelled.
\<close>

lemma cleaner_crashes:
  "iv \<le> 0 \<Longrightarrow> \<exists>c. cleaner_run cleanup (NewTTLCleaner st iv) (EvStart # run_of 2 0) c \<and> cs_crashed c"
  "0 < iv \<Longrightarrow> \<exists>c. cleaner_run cleanup (NewTTLCleaner st iv)
     (EvStart # run_of 3 0 @ [EvRun 1, EvFire 0, EvReceive 1, EvStop] @ run_of 3 2 @ [EvClean 1, EvRun 1]) c \<and> cs_crashed c"
  "0 < iv \<Longrightarrow> \<exists>c. cleaner_run cleanup (NewTTLCleaner st iv)
     (EvStart # run_of 3 0 @ [EvStop, EvStop, EvRun 2, EvRun 3, EvRun 2, EvRun 2, EvRun 3]) c \<and> cs_crashed c"
  "0 < iv \<Longrightarrow> \<exists>c. cleaner_run cleanup (NewTTLCleaner st iv)
     (EvStart # run_of 3 0 @ EvStart # run_of 2 2 @ [EvRun 1, EvCancel, EvDone 1] @ run_of 3 1 @ [EvRun 3]) c \<and> cs_crashed c"
proof -
  note from_start = after_run [OF _ run_nil, of cleanup _ "NewTTLCleaner st iv", simplified append_Nil]
  have crash: "\<exists>c. cleaner_run cleanup (NewTTLCleaner st iv) es c \<and> cs_crashed c"
    if "map_option cs_crashed (after_all cleanup es (NewTTLCleaner st iv)) = Some True" for es
    using that from_start by auto
  show "iv \<le> 0 \<Longrightarrow> \<exists>c. cleaner_run cleanup (NewTTLCleaner st iv) (EvStart # run_of 2 0) c \<and> cs_crashed c"
    by (rule crash) (simp add: run_eval numeral_eq_Suc)
  show "0 < iv \<Longrightarrow> \<exists>c. cleaner_run cleanup (NewTTLCleaner st iv)
     (EvStart # run_of 3 0 @ [EvRun 1, EvFire 0, EvReceive 1, EvStop] @ run_of 3 2 @ [EvClean 1, EvRun 1]) c \<and> cs_crashed c"
    by (rule crash) (simp add: run_eval numeral_eq_Suc)
  show "0 < iv \<Longrightarrow> \<exists>c. cleaner_run cleanup (NewTTLCleaner st iv)
     (EvStart # run_of 3 0 @ [EvStop, EvStop, EvRun 2, EvRun 3, EvRun 2, EvRun 2, EvRun 3]) c \<and> cs_crashed c"
    by (rule crash) (simp add: run_eval numeral_eq_Suc)
  show "0 < iv \<Longrightarrow> \<exists>c. cleaner_run cleanup (NewTTLCleaner st iv)
     (EvStart # run_of 3 0 @ EvStart # run_of 2 2 @ [EvRun 1, EvCancel, EvDone 1] @ run_of 3 1 @ [EvRun 3]) c \<and> cs_crashed c"
    by (rule crash) (simp add: run_eval numeral_eq_Suc)
qed

section \<open>The properties\<close>



end
