(* ===== verification/Support.thy ===== *)
theory Support
  imports GoFloat GoValue Prelude
begin

text \<open>
  The packages that the others call for their side effects: \<^verbatim>\<open>pkg/logger\<close>, over a handler that takes
  records, \<^verbatim>\<open>pkg/metrics\<close> and the names of \<^verbatim>\<open>pkg/otel\<close>, over the operations of the Prometheus
  client, and \<^verbatim>\<open>pkg/migrate\<close>.
\<close>

section \<open>Log levels\<close>

text \<open>The levels of \<^verbatim>\<open>log/slog\<close> that the logger uses, ordered by their numbers.\<close>

datatype LogLevel = LevelDebug | LevelInfo | LevelWarn | LevelError

fun level_number :: "LogLevel \<Rightarrow> int" where
  "level_number LevelDebug = - 4"
| "level_number LevelInfo = 0"
| "level_number LevelWarn = 4"
| "level_number LevelError = 8"

lemma level_number_inject: "level_number a = level_number b \<longleftrightarrow> a = b"
  by (cases a; cases b) simp_all

instantiation LogLevel :: linorder
begin

definition less_eq_LogLevel :: "LogLevel \<Rightarrow> LogLevel \<Rightarrow> bool" where
  "less_eq_LogLevel a b \<longleftrightarrow> level_number a \<le> level_number b"

definition less_LogLevel :: "LogLevel \<Rightarrow> LogLevel \<Rightarrow> bool" where
  "less_LogLevel a b \<longleftrightarrow> level_number a < level_number b"

instance
  by standard (auto simp: less_eq_LogLevel_def less_LogLevel_def level_number_inject)

end

section \<open>The logger\<close>

text \<open>
  A logger is the level of its handler and the attributes that were added to it. What is logged is the list of
  records that the handler wrote; the arguments of a call are taken as they are.
\<close>

record Logger =
  lo_level :: LogLevel
  lo_attrs :: "(string \<times> string) list"

record LogRecord =
  lr_level :: LogLevel
  lr_msg :: string
  lr_attrs :: "(string \<times> string) list"
  lr_args :: "any list"

definition NewLogger :: "string \<Rightarrow> Logger" where
  "NewLogger level = (let l = ToLower level in
     \<lparr>lo_level = (if l = ''debug'' then LevelDebug else if l = ''info'' then LevelInfo else if l = ''warn'' then LevelWarn
        else if l = ''error'' then LevelError else LevelInfo),
      lo_attrs = []\<rparr>)"

definition WithTraceID :: "string \<Rightarrow> Logger \<Rightarrow> Logger" where
  "WithTraceID traceID l = l\<lparr>lo_attrs := lo_attrs l @ [(''trace_id'', traceID)]\<rparr>"

text \<open>The trace id of a context is any value; a value that is not a string panics: \<open>None\<close>.\<close>

definition WithContext :: "any option \<Rightarrow> Logger \<Rightarrow> Logger option" where
  "WithContext traceID l = (case traceID of
     None \<Rightarrow> Some l | Some (AString s) \<Rightarrow> Some (WithTraceID s l) | Some _ \<Rightarrow> None)"

definition log_at :: "LogLevel \<Rightarrow> Logger \<Rightarrow> string \<Rightarrow> any list \<Rightarrow> LogRecord list \<Rightarrow> LogRecord list" where
  "log_at level l msg args out =
     (if lo_level l \<le> level then out @ [\<lparr>lr_level = level, lr_msg = msg, lr_attrs = lo_attrs l, lr_args = args\<rparr>] else out)"

definition log_Debug where "log_Debug = log_at LevelDebug"
definition log_Info where "log_Info = log_at LevelInfo"
definition log_Warn where "log_Warn = log_at LevelWarn"
definition log_Error where "log_Error = log_at LevelError"

text \<open>The global logger, made with the level info when it is first asked for.\<close>

definition InitLogger :: "string \<Rightarrow> Logger option \<Rightarrow> Logger option" where
  "InitLogger level g = Some (NewLogger level)"

definition GetGlobalLogger :: "Logger option \<Rightarrow> Logger \<times> Logger option" where
  "GetGlobalLogger g = (case g of Some l \<Rightarrow> (l, g) | None \<Rightarrow> (NewLogger ''info'', Some (NewLogger ''info'')))"

definition global_log :: "LogLevel \<Rightarrow> string \<Rightarrow> any list \<Rightarrow> Logger option \<Rightarrow> LogRecord list \<Rightarrow> Logger option \<times> LogRecord list" where
  "global_log level msg args g out = (case GetGlobalLogger g of (l, g') \<Rightarrow> (g', log_at level l msg args out))"

lemma errors_are_logged: "log_Error (NewLogger level) msg args out \<noteq> out"
  by (simp add: log_Error_def log_at_def less_eq_LogLevel_def NewLogger_def Let_def)

lemma log_at_mono: "lo_level l \<le> a \<Longrightarrow> a \<le> b \<Longrightarrow> length (log_at b l msg args out) = Suc (length out)"
  using order_trans by (auto simp: log_at_def)

text \<open>Only the first kind of word that is found is replaced, and only the word: what it names stays.\<close>

definition SanitizeSensitiveData :: "string \<Rightarrow> string" where
  "SanitizeSensitiveData s =
     (if Contains s ''password'' then ReplaceAll s ''password'' ''******''
      else if Contains s ''token'' then ReplaceAll s ''token'' ''******''
      else if Contains s ''secret'' then ReplaceAll s ''secret'' ''******''
      else if Contains s ''key'' then ReplaceAll s ''key'' ''******''
      else s)"

definition sensitive_key :: "string \<Rightarrow> bool" where
  "sensitive_key k = (let key = ToLower k in
     Contains key ''password'' \<or> Contains key ''token'' \<or> Contains key ''secret'' \<or> Contains key ''key'' \<or> Contains key ''auth'')"

definition SanitizeMap :: "(string \<rightharpoonup> any) \<Rightarrow> string \<rightharpoonup> any" where
  "SanitizeMap m = (\<lambda>k. case m k of None \<Rightarrow> None | Some v \<Rightarrow> Some (if sensitive_key k then AString ''******'' else v))"

lemma sanitizing_keeps_the_secret:
  "SanitizeSensitiveData ''password=x token=y'' = ''******=x token=y''"
  by (simp add: SanitizeSensitiveData_def Contains_def HasPrefix_def)

lemma SanitizeMap_idem: "SanitizeMap (SanitizeMap m) = SanitizeMap m"
  by (auto simp: SanitizeMap_def fun_eq_iff split: option.split)

text \<open>Maps that differ only in what their sensitive keys hold are logged alike.\<close>

lemma SanitizeMap_hides:
  "(\<And>k. \<not> sensitive_key k \<Longrightarrow> m k = m' k) \<Longrightarrow> (\<And>k. m k = None \<longleftrightarrow> m' k = None) \<Longrightarrow> SanitizeMap m = SanitizeMap m'"
  by (rule ext) (force simp: SanitizeMap_def split: option.split)

section \<open>Metrics\<close>

text \<open>
  The collectors of the Prometheus client: adding one to a counter and observing a value in a histogram, for the
  name of a metric and the values of its labels.
\<close>

record 'm MetricOps =
  mx_inc :: "string \<Rightarrow> string list \<Rightarrow> 'm \<Rightarrow> 'm"
  mx_observe :: "string \<Rightarrow> string list \<Rightarrow> f64 \<Rightarrow> 'm \<Rightarrow> 'm"

text \<open>\<^verbatim>\<open>time.Duration.Seconds\<close> of a number of nanoseconds; Go divides towards zero.\<close>

definition Seconds :: "int \<Rightarrow> f64" where
  "Seconds d =
     (let q = \<bar>d\<bar> div 1000000000; r = \<bar>d\<bar> mod 1000000000 in
      fadd (f_of_int (sgn d * q)) (fdiv (f_of_int (sgn d * r)) (f_of_int 1000000000)))"

definition RecordBudgetCutoff :: "'m MetricOps \<Rightarrow> 'm \<Rightarrow> 'm" where
  "RecordBudgetCutoff mx = mx_inc mx ''sentoris_budget_cutoff_total'' []"

definition RecordDiffRiskLevel :: "'m MetricOps \<Rightarrow> string \<Rightarrow> 'm \<Rightarrow> 'm" where
  "RecordDiffRiskLevel mx level = mx_inc mx ''sentoris_diff_risk_level_total'' [level]"

definition RecordConstraintEvalDuration :: "'m MetricOps \<Rightarrow> int \<Rightarrow> 'm \<Rightarrow> 'm" where
  "RecordConstraintEvalDuration mx d = mx_observe mx ''sentoris_constraint_eval_duration_seconds'' [] (Seconds d)"

definition RecordStateTransitionDuration :: "'m MetricOps \<Rightarrow> string \<Rightarrow> string \<Rightarrow> int \<Rightarrow> 'm \<Rightarrow> 'm" where
  "RecordStateTransitionDuration mx fromState toState d =
     mx_observe mx ''sentoris_state_transition_duration_seconds'' [fromState, toState] (Seconds d)"

definition RecordTraceCount :: "'m MetricOps \<Rightarrow> string \<Rightarrow> 'm \<Rightarrow> 'm" where
  "RecordTraceCount mx state = mx_inc mx ''sentoris_trace_count_total'' [state]"

definition RecordTraceDuration :: "'m MetricOps \<Rightarrow> int \<Rightarrow> 'm \<Rightarrow> 'm" where
  "RecordTraceDuration mx d = mx_observe mx ''sentoris_trace_duration_seconds'' [] (Seconds d)"

definition RecordProviderRequest :: "'m MetricOps \<Rightarrow> string \<Rightarrow> string \<Rightarrow> int \<Rightarrow> 'm \<Rightarrow> 'm" where
  "RecordProviderRequest mx provider model d m =
     mx_observe mx ''sentoris_provider_request_duration_seconds'' [provider, model] (Seconds d)
       (mx_inc mx ''sentoris_provider_request_total'' [provider, model] m)"

definition RecordProviderError :: "'m MetricOps \<Rightarrow> string \<Rightarrow> string \<Rightarrow> string \<Rightarrow> 'm \<Rightarrow> 'm" where
  "RecordProviderError mx provider model errorType =
     mx_inc mx ''sentoris_provider_error_total'' [provider, model, errorType]"

definition RecordDegradeAction :: "'m MetricOps \<Rightarrow> string \<Rightarrow> 'm \<Rightarrow> 'm" where
  "RecordDegradeAction mx actionType = mx_inc mx ''sentoris_degrade_action_total'' [actionType]"

definition RecordPrivacyLevel :: "'m MetricOps \<Rightarrow> string \<Rightarrow> 'm \<Rightarrow> 'm" where
  "RecordPrivacyLevel mx level = mx_inc mx ''sentoris_privacy_level_count_total'' [level]"

text \<open>
  The metrics that the collector registers with their labels, and those of \<^verbatim>\<open>pkg/otel\<close>. A registry panics
  when a name is registered that it has: \<open>None\<close>.
\<close>

definition collector_metrics :: "(string \<times> string list) list" where
  "collector_metrics =
     [(''sentoris_budget_cutoff_total'', []), (''sentoris_diff_risk_level_total'', [''level'']),
      (''sentoris_constraint_eval_duration_seconds'', []),
      (''sentoris_state_transition_duration_seconds'', [''from_state'', ''to_state'']),
      (''sentoris_trace_count_total'', [''state'']), (''sentoris_trace_duration_seconds'', []),
      (''sentoris_provider_request_total'', [''provider'', ''model'']),
      (''sentoris_provider_request_duration_seconds'', [''provider'', ''model'']),
      (''sentoris_provider_error_total'', [''provider'', ''model'', ''error_type'']),
      (''sentoris_degrade_action_total'', [''action_type'']), (''sentoris_privacy_level_count_total'', [''level''])]"

definition otel_metrics :: "(string \<times> string list) list" where
  "otel_metrics =
     [(''sentoris_trace_count_total'', []), (''sentoris_trace_duration_seconds'', []), (''sentoris_trace_errors_total'', []),
      (''sentoris_budget_reserved_usd'', []), (''sentoris_budget_used_usd'', []), (''sentoris_budget_remaining_usd'', []),
      (''sentoris_upstream_calls_total'', []), (''sentoris_upstream_errors_total'', []),
      (''sentoris_upstream_latency_seconds'', []), (''sentoris_sse_events_sent_total'', []), (''sentoris_sse_connections'', [])]"

fun MustRegister :: "(string \<times> string list) list \<Rightarrow> (string \<times> string list) list \<Rightarrow> (string \<times> string list) list option" where
  "MustRegister [] reg = Some reg"
| "MustRegister (m # ms) reg = (if fst m \<in> fst ` set reg then None else MustRegister ms (reg @ [m]))"

text \<open>The collector is made, and registered with the default registry, at the first call only.\<close>

definition GetMetricsCollector ::
    "bool \<Rightarrow> (string \<times> string list) list \<Rightarrow> (bool \<times> (string \<times> string list) list) option" where
  "GetMetricsCollector made reg = (if made then Some (True, reg) else map_option (Pair True) (MustRegister collector_metrics reg))"

definition GetRegistry :: "(string \<times> string list) list option" where
  "GetRegistry = MustRegister collector_metrics []"

definition NewMetrics :: "(string \<times> string list) list \<Rightarrow> (string \<times> string list) list option" where
  "NewMetrics reg = MustRegister otel_metrics reg"

lemma MustRegister_all:
  "MustRegister ms reg = (if distinct (map fst ms) \<and> fst ` set ms \<inter> fst ` set reg = {} then Some (reg @ ms) else None)"
  by (induction ms arbitrary: reg) auto

text \<open>The collector can be registered in an empty registry; the metrics of \<^verbatim>\<open>pkg/otel\<close> cannot join it.\<close>

lemma collector_registers: "GetMetricsCollector False [] = Some (True, collector_metrics)" "GetRegistry = Some collector_metrics"
  by (simp_all add: GetMetricsCollector_def GetRegistry_def MustRegister_all collector_metrics_def)

lemma otel_clashes: "GetMetricsCollector False [] = Some (b, reg) \<Longrightarrow> NewMetrics reg = None"
  by (auto simp: GetMetricsCollector_def NewMetrics_def MustRegister_all collector_metrics_def otel_metrics_def)

section \<open>Migrations\<close>

text \<open>None is run: the functions report success.\<close>

definition RunMigrations :: "string \<Rightarrow> string \<Rightarrow> 'db \<Rightarrow> string option \<times> 'db" where
  "RunMigrations dsn migrationsPath db = (None, db)"

definition RollbackMigrations :: "string \<Rightarrow> string \<Rightarrow> 'db \<Rightarrow> string option \<times> 'db" where
  "RollbackMigrations dsn migrationsPath db = (None, db)"

definition GetMigrationStatus :: "string \<Rightarrow> string \<Rightarrow> int result" where
  "GetMigrationStatus dsn migrationsPath = Inr 0"

end
