(* ===== verification/LoadTest.thy ===== *)
theory LoadTest
  imports Prelude
begin

text \<open>
  The load test of \<^verbatim>\<open>cmd/load-test/main.go\<close>: a loop that starts one goroutine per request, a semaphore
  that bounds how many are under way, two counters behind a lock, and a wait group. The steps of the loop and of the
  goroutines interleave; what a request comes to is an argument.
\<close>

section \<open>Requests\<close>

definition totalRequests :: nat where
  "totalRequests = 1000"

definition concurrency :: nat where
  "concurrency = 10"

definition load_models :: "string list" where
  "load_models = [''gpt-4o'', ''deepseek-chat'', ''qwen-turbo'']"

definition load_messages :: "string list" where
  "load_messages = [''Hello, how are you?'', ''What is the weather today?'', ''Explain quantum computing'', ''Tell me a joke'',
     ''What is machine learning?'', ''Write a poem'', ''Explain AI'', ''What is blockchain?'', ''Help me write an email'',
     ''Tell me about history'']"

definition load_request :: "nat \<Rightarrow> string \<times> string" where
  "load_request i = (load_models ! (i mod length load_models), load_messages ! (i mod length load_messages))"

text \<open>\<open>send i\<close> is the status of the answer to the request with number \<open>i\<close>, or the error of encoding, making or sending it.\<close>

definition succeeds :: "(nat \<Rightarrow> string \<times> string \<Rightarrow> int result) \<Rightarrow> nat \<Rightarrow> bool" where
  "succeeds send i \<longleftrightarrow> send i (load_request i) = Inr 200"

section \<open>States and steps\<close>

text \<open>
  The loop is about to handle a number, blocked on the semaphore with it, or through with the wait group. A
  goroutine sends its request, has counted the outcome, has released the semaphore, or is gone.
\<close>

datatype MainPhase = Looping nat | Blocked nat | Finished
datatype WorkerPhase = Unborn | Sending | Counted | Leaving | Gone

record LoadState =
  ls_main :: MainPhase
  ls_workers :: "nat \<Rightarrow> WorkerPhase"
  ls_sem :: nat
  ls_wg :: nat
  ls_success :: nat
  ls_failure :: nat

definition load_init :: LoadState where
  "load_init = \<lparr>ls_main = Looping 0, ls_workers = (\<lambda>_. Unborn), ls_sem = 0, ls_wg = 0, ls_success = 0, ls_failure = 0\<rparr>"

definition set_worker :: "nat \<Rightarrow> WorkerPhase \<Rightarrow> LoadState \<Rightarrow> LoadState" where
  "set_worker i p s = s\<lparr>ls_workers := (ls_workers s)(i := p)\<rparr>"

definition count_outcome :: "bool \<Rightarrow> LoadState \<Rightarrow> LoadState" where
  "count_outcome ok s = (if ok then s\<lparr>ls_success := ls_success s + 1\<rparr> else s\<lparr>ls_failure := ls_failure s + 1\<rparr>)"

text \<open>\<open>n\<close> requests, at most \<open>m\<close> at a time, \<open>ok i\<close> whether request \<open>i\<close> succeeds.\<close>

inductive load_step :: "nat \<Rightarrow> nat \<Rightarrow> (nat \<Rightarrow> bool) \<Rightarrow> LoadState \<Rightarrow> LoadState \<Rightarrow> bool" for n m ok where
  load_add: "ls_main s = Looping i \<Longrightarrow> i < n \<Longrightarrow> load_step n m ok s (s\<lparr>ls_main := Blocked i, ls_wg := ls_wg s + 1\<rparr>)"
| load_acquire: "ls_main s = Blocked i \<Longrightarrow> ls_sem s < m \<Longrightarrow>
    load_step n m ok s (set_worker i Sending (s\<lparr>ls_main := Looping (i + 1), ls_sem := ls_sem s + 1\<rparr>))"
| load_answer: "i < n \<Longrightarrow> ls_workers s i = Sending \<Longrightarrow> load_step n m ok s (set_worker i Counted (count_outcome (ok i) s))"
| load_release: "i < n \<Longrightarrow> ls_workers s i = Counted \<Longrightarrow>
    load_step n m ok s (set_worker i Leaving (s\<lparr>ls_sem := ls_sem s - 1\<rparr>))"
| load_done: "i < n \<Longrightarrow> ls_workers s i = Leaving \<Longrightarrow> load_step n m ok s (set_worker i Gone (s\<lparr>ls_wg := ls_wg s - 1\<rparr>))"
| load_waited: "ls_main s = Looping i \<Longrightarrow> \<not> i < n \<Longrightarrow> ls_wg s = 0 \<Longrightarrow> load_step n m ok s (s\<lparr>ls_main := Finished\<rparr>)"

inductive load_run :: "nat \<Rightarrow> nat \<Rightarrow> (nat \<Rightarrow> bool) \<Rightarrow> nat \<Rightarrow> LoadState \<Rightarrow> bool" for n m ok where
  load_start: "load_run n m ok 0 load_init"
| load_more: "load_run n m ok k s \<Longrightarrow> load_step n m ok s s' \<Longrightarrow> load_run n m ok (Suc k) s'"

section \<open>The invariant\<close>

text \<open>A weight of every goroutine's phase, summed up, changes with one phase at a time.\<close>

definition weigh :: "nat \<Rightarrow> (nat \<Rightarrow> WorkerPhase \<Rightarrow> nat) \<Rightarrow> (nat \<Rightarrow> WorkerPhase) \<Rightarrow> nat" where
  "weigh n w ph = (\<Sum>i<n. w i (ph i))"

lemma weigh_upd:
  assumes "j < n"
  shows "weigh n w (ph(j := p)) + w j (ph j) = weigh n w ph + w j p"
proof -
  have split: "weigh n w f = w j (f j) + (\<Sum>i \<in> {..<n} - {j}. w i (f i))" for f
    unfolding weigh_def using assms by (simp add: sum.remove)
  have "(\<Sum>i \<in> {..<n} - {j}. w i ((ph(j := p)) i)) = (\<Sum>i \<in> {..<n} - {j}. w i (ph i))"
    by (rule sum.cong) auto
  then show ?thesis by (simp add: split)
qed

lemma weigh_zero: "weigh n w ph = 0 \<longleftrightarrow> (\<forall>i<n. w i (ph i) = 0)"
  by (auto simp: weigh_def)

definition alive :: "nat \<Rightarrow> WorkerPhase \<Rightarrow> nat" where
  "alive i p = (if p \<in> {Sending, Counted, Leaving} then 1 else 0)"

definition holding :: "nat \<Rightarrow> WorkerPhase \<Rightarrow> nat" where
  "holding i p = (if p \<in> {Sending, Counted} then 1 else 0)"

definition counted :: "(nat \<Rightarrow> bool) \<Rightarrow> nat \<Rightarrow> WorkerPhase \<Rightarrow> nat" where
  "counted ok i p = (if p \<in> {Counted, Leaving, Gone} \<and> ok i then 1 else 0)"

definition rank :: "nat \<Rightarrow> WorkerPhase \<Rightarrow> nat" where
  "rank i p = (case p of Unborn \<Rightarrow> 3 | Sending \<Rightarrow> 3 | Counted \<Rightarrow> 2 | Leaving \<Rightarrow> 1 | Gone \<Rightarrow> 0)"

fun started :: "nat \<Rightarrow> MainPhase \<Rightarrow> nat" where
  "started n (Looping i) = i"
| "started n (Blocked i) = i"
| "started n Finished = n"

fun main_left :: "nat \<Rightarrow> MainPhase \<Rightarrow> nat" where
  "main_left n (Looping i) = 2 * (n - i) + 1"
| "main_left n (Blocked i) = 2 * (n - i)"
| "main_left n Finished = 0"

definition phases_ok :: "nat \<Rightarrow> LoadState \<Rightarrow> bool" where
  "phases_ok n s \<longleftrightarrow> (\<forall>i. ls_workers s i \<noteq> Unborn \<longleftrightarrow> i < started n (ls_main s)) \<and>
     (case ls_main s of Looping i \<Rightarrow> i \<le> n | Blocked i \<Rightarrow> i < n | Finished \<Rightarrow> ls_wg s = 0)"

definition numbers_ok :: "nat \<Rightarrow> nat \<Rightarrow> (nat \<Rightarrow> bool) \<Rightarrow> nat \<Rightarrow> LoadState \<Rightarrow> bool" where
  "numbers_ok n m ok k s \<longleftrightarrow>
     ls_wg s = weigh n alive (ls_workers s) + (case ls_main s of Blocked i \<Rightarrow> 1 | _ \<Rightarrow> 0) \<and>
     ls_sem s = weigh n holding (ls_workers s) \<and> ls_sem s \<le> m \<and>
     ls_success s = weigh n (counted ok) (ls_workers s) \<and>
     ls_failure s = weigh n (counted (\<lambda>i. \<not> ok i)) (ls_workers s) \<and>
     k + weigh n rank (ls_workers s) + main_left n (ls_main s) = 5 * n + 1"

lemma load_ok_init: "phases_ok n load_init" "numbers_ok n m ok 0 load_init"
  by (simp_all add: phases_ok_def numbers_ok_def load_init_def weigh_def alive_def holding_def counted_def rank_def)

text \<open>How the weights change when a goroutine moves on.\<close>

lemma worker_moves:
  assumes "i < n"
  shows "ph i = Unborn \<Longrightarrow> weigh n alive (ph(i := Sending)) = weigh n alive ph + 1 \<and>
      weigh n holding (ph(i := Sending)) = weigh n holding ph + 1 \<and>
      weigh n (counted ok) (ph(i := Sending)) = weigh n (counted ok) ph \<and> weigh n rank (ph(i := Sending)) = weigh n rank ph"
    and "ph i = Sending \<Longrightarrow> weigh n alive (ph(i := Counted)) = weigh n alive ph \<and>
      weigh n holding (ph(i := Counted)) = weigh n holding ph \<and>
      weigh n (counted ok) (ph(i := Counted)) = weigh n (counted ok) ph + (if ok i then 1 else 0) \<and>
      weigh n rank ph = weigh n rank (ph(i := Counted)) + 1"
    and "ph i = Counted \<Longrightarrow> weigh n alive (ph(i := Leaving)) = weigh n alive ph \<and>
      weigh n holding ph = weigh n holding (ph(i := Leaving)) + 1 \<and>
      weigh n (counted ok) (ph(i := Leaving)) = weigh n (counted ok) ph \<and>
      weigh n rank ph = weigh n rank (ph(i := Leaving)) + 1"
    and "ph i = Leaving \<Longrightarrow> weigh n alive ph = weigh n alive (ph(i := Gone)) + 1 \<and>
      weigh n holding (ph(i := Gone)) = weigh n holding ph \<and>
      weigh n (counted ok) (ph(i := Gone)) = weigh n (counted ok) ph \<and>
      weigh n rank ph = weigh n rank (ph(i := Gone)) + 1"
proof -
  note upd = weigh_upd [OF assms]
  note w = alive_def [of i] holding_def [of i] counted_def [of ok i] rank_def [of i]
  show "ph i = Unborn \<Longrightarrow> weigh n alive (ph(i := Sending)) = weigh n alive ph + 1 \<and>
      weigh n holding (ph(i := Sending)) = weigh n holding ph + 1 \<and>
      weigh n (counted ok) (ph(i := Sending)) = weigh n (counted ok) ph \<and> weigh n rank (ph(i := Sending)) = weigh n rank ph"
    using upd [of alive ph Sending] upd [of holding ph Sending] upd [of "counted ok" ph Sending] upd [of rank ph Sending]
    by (simp add: w)
  show "ph i = Sending \<Longrightarrow> weigh n alive (ph(i := Counted)) = weigh n alive ph \<and>
      weigh n holding (ph(i := Counted)) = weigh n holding ph \<and>
      weigh n (counted ok) (ph(i := Counted)) = weigh n (counted ok) ph + (if ok i then 1 else 0) \<and>
      weigh n rank ph = weigh n rank (ph(i := Counted)) + 1"
    using upd [of alive ph Counted] upd [of holding ph Counted] upd [of "counted ok" ph Counted] upd [of rank ph Counted]
    by (simp add: w)
  show "ph i = Counted \<Longrightarrow> weigh n alive (ph(i := Leaving)) = weigh n alive ph \<and>
      weigh n holding ph = weigh n holding (ph(i := Leaving)) + 1 \<and>
      weigh n (counted ok) (ph(i := Leaving)) = weigh n (counted ok) ph \<and>
      weigh n rank ph = weigh n rank (ph(i := Leaving)) + 1"
    using upd [of alive ph Leaving] upd [of holding ph Leaving] upd [of "counted ok" ph Leaving] upd [of rank ph Leaving]
    by (simp add: w)
  show "ph i = Leaving \<Longrightarrow> weigh n alive ph = weigh n alive (ph(i := Gone)) + 1 \<and>
      weigh n holding (ph(i := Gone)) = weigh n holding ph \<and>
      weigh n (counted ok) (ph(i := Gone)) = weigh n (counted ok) ph \<and>
      weigh n rank ph = weigh n rank (ph(i := Gone)) + 1"
    using upd [of alive ph Gone] upd [of holding ph Gone] upd [of "counted ok" ph Gone] upd [of rank ph Gone]
    by (simp add: w)
qed

lemma phases_step:
  assumes "load_step n m ok s s'" "phases_ok n s"
  shows "phases_ok n s'"
proof -
  have move: "phases_ok n (set_worker i p t)"
    if "phases_ok n t" "ls_workers t i \<noteq> Unborn" "p \<noteq> Unborn" for i p t
    using that by (auto simp: phases_ok_def set_worker_def split: MainPhase.splits)
  from assms show ?thesis
  proof (induction rule: load_step.induct)
    case (load_acquire s i)
    then show ?case by (auto simp: phases_ok_def set_worker_def less_Suc_eq)
  next
    case (load_answer i s)
    then show ?case by (intro move; cases "ls_main s"; cases "ok i") (simp_all add: phases_ok_def count_outcome_def)
  next
    case (load_release i s)
    then show ?case by (intro move; cases "ls_main s") (simp_all add: phases_ok_def)
  next
    case (load_done i s)
    then show ?case by (intro move; cases "ls_main s") (simp_all add: phases_ok_def)
  qed (auto simp: phases_ok_def)
qed

lemma numbers_step:
  assumes "load_step n m ok s s'" "phases_ok n s" "numbers_ok n m ok k s"
  shows "numbers_ok n m ok (Suc k) s'"
  using assms
proof (induction rule: load_step.induct)
  case (load_add s i)
  then show ?case by (simp add: numbers_ok_def)
next
  case (load_acquire s i)
  then have "i < n" "ls_workers s i = Unborn" by (auto simp: phases_ok_def)
  note moves = worker_moves(1) [where ph = "ls_workers s", OF this]
  from load_acquire moves [of ok] moves [of "\<lambda>i. \<not> ok i"] \<open>i < n\<close> show ?case
    by (simp add: numbers_ok_def set_worker_def) linarith
next
  case (load_answer i s)
  note moves = worker_moves(2) [where ph = "ls_workers s", OF load_answer(1,2)]
  from load_answer moves [of ok] moves [of "\<lambda>i. \<not> ok i"]
  show ?case by (cases "ok i") (simp_all add: numbers_ok_def set_worker_def count_outcome_def)
next
  case (load_release i s)
  note moves = worker_moves(3) [where ph = "ls_workers s", OF load_release(1,2)]
  from load_release moves [of ok] moves [of "\<lambda>i. \<not> ok i"] show ?case by (simp add: numbers_ok_def set_worker_def)
next
  case (load_done i s)
  note moves = worker_moves(4) [where ph = "ls_workers s", OF load_done(1,2)]
  from load_done moves [of ok] moves [of "\<lambda>i. \<not> ok i"] show ?case by (simp add: numbers_ok_def set_worker_def)
next
  case (load_waited s i)
  then show ?case by (simp add: numbers_ok_def)
qed

lemma load_run_ok: "load_run n m ok k s \<Longrightarrow> phases_ok n s \<and> numbers_ok n m ok k s"
  by (induction rule: load_run.induct) (use load_ok_init phases_step numbers_step in blast)+

section \<open>Every run ends\<close>

lemma load_progress:
  assumes "phases_ok n s" "numbers_ok n m ok k s" "0 < m" "ls_main s \<noteq> Finished"
  shows "\<exists>s'. load_step n m ok s s'"
proof (cases "\<exists>i<n. ls_workers s i \<in> {Sending, Counted, Leaving}")
  case True
  then obtain i where "i < n" "ls_workers s i = Sending \<or> ls_workers s i = Counted \<or> ls_workers s i = Leaving" by auto
  then show ?thesis by (elim disjE) (rule exI, erule (1) load_answer load_release load_done)+
next
  case False
  then have zero: "weigh n alive (ls_workers s) = 0" "weigh n holding (ls_workers s) = 0"
    by (auto simp: weigh_zero alive_def holding_def)
  show ?thesis
  proof (cases "ls_main s")
    case (Looping i)
    with assms(2) zero have "ls_wg s = 0" by (simp add: numbers_ok_def)
    with Looping show ?thesis by (cases "i < n") (rule exI, erule (1) load_add, rule exI, erule (2) load_waited)
  next
    case (Blocked i)
    with assms(2,3) zero have "ls_sem s < m" by (simp add: numbers_ok_def)
    with Blocked show ?thesis by - (rule exI, erule (1) load_acquire)
  qed (use assms(4) in simp)
qed

lemma finished_counts:
  assumes "phases_ok n s" "numbers_ok n m ok k s" "ls_main s = Finished"
  shows "ls_success s = card {i. i < n \<and> ok i} \<and> ls_success s + ls_failure s = n \<and> k = 5 * n + 1"
proof -
  have "weigh n alive (ls_workers s) = 0" using assms by (simp add: phases_ok_def numbers_ok_def)
  moreover have "ls_workers s i \<noteq> Unborn" if "i < n" for i using assms(1,3) that by (simp add: phases_ok_def)
  moreover have "p = Gone" if "alive i p = 0" "p \<noteq> Unborn" for i p using that by (cases p) (simp_all add: alive_def)
  ultimately have gone: "ls_workers s i = Gone" if "i < n" for i using that unfolding weigh_zero by blast
  have count: "weigh n (counted f) (ls_workers s) = card {i. i < n \<and> f i}" for f
  proof -
    have "weigh n (counted f) (ls_workers s) = (\<Sum>i<n. if f i then 1 else 0)"
      unfolding weigh_def by (rule sum.cong) (simp_all add: gone counted_def)
    also have "\<dots> = card ({..<n} \<inter> {i. f i})" by (simp add: sum.If_cases)
    also have "{..<n} \<inter> {i. f i} = {i. i < n \<and> f i}" by auto
    finally show ?thesis .
  qed
  have "card {i. i < n \<and> ok i} + card {i. i < n \<and> \<not> ok i} = card ({i. i < n \<and> ok i} \<union> {i. i < n \<and> \<not> ok i})"
    by (rule card_Un_disjoint [symmetric]) auto
  also have "{i. i < n \<and> ok i} \<union> {i. i < n \<and> \<not> ok i} = {..<n}" by auto
  finally have "card {i. i < n \<and> ok i} + card {i. i < n \<and> \<not> ok i} = n" by simp
  moreover have "weigh n rank (ls_workers s) = 0" by (simp add: weigh_zero gone rank_def)
  ultimately show ?thesis using assms(2,3) by (simp add: numbers_ok_def count)
qed

text \<open>
  \<^bold>\<open>C17.\<close> The load test ends and counts right. Whatever the requests come to and in whatever order the
  loop and the goroutines take their steps: at most ten requests are under way; as long as the test has not finished a
  step is possible, and it has finished after 5001 steps; then the two counters add up to the thousand requests and
  the first is the number of those that were answered with status 200.
\<close>

theorem load_test_ends:
  assumes "load_run totalRequests concurrency (succeeds send) k s"
  shows "card {i. i < totalRequests \<and> ls_workers s i \<in> {Sending, Counted}} \<le> concurrency \<and>
    (ls_main s \<noteq> Finished \<longrightarrow> k < 5001 \<and> (\<exists>s'. load_step totalRequests concurrency (succeeds send) s s')) \<and>
    (ls_main s = Finished \<longrightarrow> k = 5001 \<and> ls_success s + ls_failure s = totalRequests \<and>
      ls_success s = card {i. i < totalRequests \<and> succeeds send i})"
proof -
  have ok: "phases_ok totalRequests s" "numbers_ok totalRequests concurrency (succeeds send) k s"
    using load_run_ok [OF assms] by blast+
  have "weigh totalRequests holding (ls_workers s) = card {i. i < totalRequests \<and> ls_workers s i \<in> {Sending, Counted}}"
    unfolding weigh_def holding_def
    by (simp add: sum.If_cases) (metis (no_types, lifting) Collect_cong Collect_conj_eq lessThan_def)
  moreover have "ls_main s \<noteq> Finished \<Longrightarrow> 0 < main_left totalRequests (ls_main s)"
    using ok(1) by (cases "ls_main s") (simp_all add: phases_ok_def)
  ultimately show ?thesis
    using ok load_progress [OF ok] finished_counts [OF ok]
    by (auto simp: numbers_ok_def concurrency_def totalRequests_def [symmetric]) (simp_all add: totalRequests_def)
qed

lemma load_run_goes_on:
  "0 < m \<Longrightarrow> k \<le> 5 * n + 1 \<Longrightarrow> \<exists>s. load_run n m ok k s"
proof (induction k)
  case 0
  show ?case using load_start by blast
next
  case (Suc k)
  then obtain s where run: "load_run n m ok k s" by auto
  then have ok: "phases_ok n s" "numbers_ok n m ok k s" using load_run_ok by blast+
  have "ls_main s \<noteq> Finished" using finished_counts [OF ok] Suc.prems(2) by auto
  then obtain s' where "load_step n m ok s s'" using load_progress [OF ok Suc.prems(1)] by blast
  then have "load_run n m ok (Suc k) s'" by (rule load_more [OF run])
  then show ?case by blast
qed

theorem load_test_ends_witness:
  "\<exists>s. load_run totalRequests concurrency (succeeds (\<lambda>_ _. Inr 200)) 5001 s \<and> ls_main s = Finished \<and>
    ls_success s = 1000 \<and> ls_failure s = 0"
proof -
  obtain s where run: "load_run totalRequests concurrency (succeeds (\<lambda>_ _. Inr 200)) 5001 s"
    using load_run_goes_on [of concurrency 5001 totalRequests] by (auto simp: concurrency_def totalRequests_def)
  have all: "{i. i < totalRequests \<and> succeeds (\<lambda>_ _. Inr 200) i} = {..<totalRequests}" by (auto simp: succeeds_def)
  from load_test_ends [OF run]
  have "ls_main s = Finished \<and> ls_success s + ls_failure s = totalRequests \<and> ls_success s = totalRequests"
    unfolding all by auto
  with run show ?thesis by (auto simp: totalRequests_def)
qed

end
