(* ===== verification/Factory.thy ===== *)
theory Factory
  imports Breaker Sse
begin

text \<open>
  The clients behind the interface \<^verbatim>\<open>LLMClient\<close> of \<^verbatim>\<open>internal/adapter/upstream/client.go\<close> and
  the factory that makes and keeps them by name.
\<close>

section \<open>Clients\<close>

datatype 'tok LLMClient =
  EchoClient "'tok OpenAIClient"
| RealClient RealUpstreamClient
| RetryingClient "'tok LLMClient" CircuitBreakerClient

fun ProviderName :: "'tok LLMClient \<Rightarrow> string" where
  "ProviderName (EchoClient c) = ''openai''"
| "ProviderName (RealClient c) = rc_provider c"
| "ProviderName (RetryingClient c b) = ProviderName c"

fun client_GetModel :: "'tok LLMClient \<Rightarrow> string" where
  "client_GetModel (EchoClient c) = oc_model c"
| "client_GetModel (RealClient c) = rc_model c"
| "client_GetModel (RetryingClient c b) = client_GetModel c"

text \<open>
  An echo client takes the tokenizer of its model, or else the default one; when both fail it holds a nil pointer
  and panics at its first use: \<open>None\<close>. The URL and the key it is given are not used.
\<close>

definition NewOpenAIClient ::
    "(string \<Rightarrow> (string \<Rightarrow> 'tok list) result) \<Rightarrow> (string \<Rightarrow> (string \<Rightarrow> 'tok list) result) \<Rightarrow> string \<Rightarrow> string \<Rightarrow> string \<Rightarrow>
       'tok OpenAIClient option" where
  "NewOpenAIClient EncodingForModel GetEncoding baseURL apiKey defaultModel =
     (let tok = (case NewOpenAITokenizer EncodingForModel GetEncoding defaultModel of
            Inr t \<Rightarrow> Some t
          | Inl _ \<Rightarrow> (case DefaultTokenizer EncodingForModel GetEncoding of Inr t \<Rightarrow> Some t | Inl _ \<Rightarrow> None))
      in map_option (\<lambda>t. \<lparr>oc_model = defaultModel, oc_pricing = echo_pricing, oc_tokenizer = t\<rparr>) tok)"

definition NewCircuitBreakerClient :: "'tok LLMClient \<Rightarrow> int \<Rightarrow> int \<Rightarrow> 'tok LLMClient" where
  "NewCircuitBreakerClient client maxRetries retryDelay =
     RetryingClient client \<lparr>cc_maxRetries = maxRetries, cc_retryDelay = retryDelay\<rparr>"

section \<open>The factory\<close>

definition NewClientFactory :: "'c ClientFactory" where
  "NewClientFactory = Map.empty"

definition CreateOpenAI ::
    "'tok OpenAIClient \<Rightarrow> 'tok LLMClient ClientFactory \<Rightarrow> 'tok LLMClient \<times> 'tok LLMClient ClientFactory" where
  "CreateOpenAI client f = (EchoClient client, cf_Register ''openai'' (EchoClient client) f)"

definition CreateCircuitBreakerClient ::
    "'tok LLMClient \<Rightarrow> int \<Rightarrow> int \<Rightarrow> 'tok LLMClient ClientFactory \<Rightarrow> 'tok LLMClient \<times> 'tok LLMClient ClientFactory" where
  "CreateCircuitBreakerClient client maxRetries retryDelay f =
     (let cbClient = NewCircuitBreakerClient client maxRetries retryDelay
      in (cbClient, cf_Register (ProviderName client @ ''-circuit-breaker'') cbClient f))"

definition CreateRealClient ::
    "string \<Rightarrow> string \<Rightarrow> string \<Rightarrow> string \<Rightarrow> 'tok LLMClient ClientFactory \<Rightarrow> 'tok LLMClient \<times> 'tok LLMClient ClientFactory" where
  "CreateRealClient provider baseURL apiKey model f =
     (let client = RealClient (NewRealUpstreamClient provider baseURL apiKey model)
      in (client, cf_Register provider client f))"

definition CreateOpenAIClient where
  "CreateOpenAIClient baseURL apiKey model = CreateRealClient ''openai'' baseURL (''Bearer '' @ apiKey) model"

definition CreateDeepSeekClient where
  "CreateDeepSeekClient baseURL apiKey model = CreateRealClient ''deepseek'' baseURL (''Bearer '' @ apiKey) model"

definition CreateQwenClient where
  "CreateQwenClient baseURL apiKey model = CreateRealClient ''qwen'' baseURL (''Bearer '' @ apiKey) model"

lemmas factory_defs = CreateOpenAI_def CreateCircuitBreakerClient_def CreateRealClient_def CreateOpenAIClient_def
  CreateDeepSeekClient_def CreateQwenClient_def NewCircuitBreakerClient_def NewRealUpstreamClient_def cf_Register_def cf_Get_def Let_def

text \<open>
  Clients of different providers do not disturb each other, wrapped ones neither; but a retrying client of a retrying
  client takes its name, and a real OpenAI client takes the name of the echo client.
\<close>

lemma factory_keeps:
  "cf_Get p (snd (CreateCircuitBreakerClient c n d f)) = (if p = ProviderName c @ ''-circuit-breaker'' then
     Some (RetryingClient c \<lparr>cc_maxRetries = n, cc_retryDelay = d\<rparr>) else cf_Get p f)"
  "cf_Get p (snd (CreateRealClient q u k m f)) = (if p = q then Some (fst (CreateRealClient q u k m f)) else cf_Get p f)"
  by (simp_all add: factory_defs)

lemma factory_overwrites:
  "cf_Get ''openai'' (snd (CreateOpenAIClient u k m (snd (CreateOpenAI e f)))) = Some (fst (CreateOpenAIClient u k m f))"
  "cf_Get (ProviderName c @ ''-circuit-breaker'')
     (snd (CreateCircuitBreakerClient (fst (CreateCircuitBreakerClient c n d f)) n' d' (snd (CreateCircuitBreakerClient c n d f))))
     = Some (RetryingClient (fst (CreateCircuitBreakerClient c n d f)) \<lparr>cc_maxRetries = n', cc_retryDelay = d'\<rparr>)"
  by (simp_all add: factory_defs)

end
