(* ===== verification/SqliteOpen.thy ===== *)
theory SqliteOpen
  imports RecordStores TraceStore GoPath
begin

text \<open>
  Opening the SQLite store: \<^verbatim>\<open>NewSQLiteStore\<close> and \<^verbatim>\<open>createTables\<close> of
  \<^verbatim>\<open>internal/adapter/storage/sqlite.go\<close>. The file system and the engine are arguments; a statement that
  creates a table is given by the name of the table and its columns with their types.
\<close>

section \<open>Operations\<close>

type_synonym table_def = "string \<times> (string \<times> string) list"

definition sqlite_tables :: "table_def list" where
  "sqlite_tables =
    [(''traces'',
      [(''trace_id'', ''TEXT PRIMARY KEY''), (''parent_id'', ''TEXT''), (''session_id'', ''TEXT''),
       (''execution_state'', ''TEXT''), (''model'', ''TEXT''), (''input_json'', ''TEXT''), (''output_json'',
       ''TEXT''), (''observations_json'', ''TEXT''), (''proofs_json'', ''TEXT''),
       (''constraints_applied_json'', ''TEXT''), (''created_at'', ''DATETIME''), (''ttl_expire_at'',
       ''DATETIME''), (''extensions_json'', ''TEXT'')]),
     (''risk_reports'',
      [(''baseline_trace_id'', ''TEXT PRIMARY KEY''), (''replay_trace_id'', ''TEXT''), (''score'', ''REAL''),
       (''details_json'', ''TEXT''), (''created_at'', ''DATETIME'')]),
     (''api_keys'',
      [(''key_id'', ''TEXT PRIMARY KEY''), (''name'', ''TEXT''), (''description'', ''TEXT''), (''key_hash'',
       ''TEXT''), (''key_prefix'', ''TEXT''), (''created_at'', ''DATETIME''), (''expires_at'', ''INTEGER''),
       (''is_active'', ''BOOLEAN''), (''permissions_json'', ''TEXT''), (''last_used_at'', ''INTEGER'')]),
     (''providers'',
      [(''name'', ''TEXT PRIMARY KEY''), (''base_url'', ''TEXT''), (''auth_header'', ''TEXT''),
       (''models_json'', ''TEXT''), (''pricing_json'', ''TEXT''), (''input_price_per_1k'', ''REAL''),
       (''output_price_per_1k'', ''REAL''), (''is_default'', ''BOOLEAN''), (''created_at'', ''DATETIME''),
       (''updated_at'', ''DATETIME'')]),
     (''budget_store'',
      [(''session_id'', ''TEXT PRIMARY KEY''), (''total_budget'', ''REAL''), (''used_budget'', ''REAL''),
       (''reserved_budget'', ''REAL''), (''updated_at'', ''DATETIME'')])]"

fun exec_all :: "(table_def \<Rightarrow> 'd \<Rightarrow> string option \<times> 'd) \<Rightarrow> table_def list \<Rightarrow> 'd \<Rightarrow> string option \<times> 'd" where
  "exec_all exec [] db = (None, db)"
| "exec_all exec (query # qs) db = (case exec query db of
     (Some e, db') \<Rightarrow> (Some (''failed to execute query: '' @ e), db')
   | (None, db') \<Rightarrow> exec_all exec qs db')"

definition createTables :: "(table_def \<Rightarrow> 'd \<Rightarrow> string option \<times> 'd) \<Rightarrow> 'd \<Rightarrow> string option \<times> 'd" where
  "createTables exec db = exec_all exec sqlite_tables db"

text \<open>
  \<open>mkdir\<close> is \<^verbatim>\<open>os.MkdirAll\<close> on the file system, \<open>connect\<close> is \<^verbatim>\<open>sql.Open\<close>. When the store is not
  returned, what was done before the failure stays done.
\<close>

definition NewSQLiteStore ::
    "(string \<Rightarrow> 'd \<Rightarrow> string option \<times> 'd) \<Rightarrow> (string \<Rightarrow> string option) \<Rightarrow> (table_def \<Rightarrow> 'd \<Rightarrow> string option \<times> 'd) \<Rightarrow>
       string \<Rightarrow> 'd \<Rightarrow> string option \<times> 'd" where
  "NewSQLiteStore mkdir connect exec dbPath d = (case mkdir (Dir dbPath) d of
     (Some e, d) \<Rightarrow> (Some (''failed to create data directory: '' @ e), d)
   | (None, d) \<Rightarrow> (case connect dbPath of
       Some e \<Rightarrow> (Some (''failed to open sqlite database: '' @ e), d)
     | None \<Rightarrow> (case createTables exec d of
         (Some e, d) \<Rightarrow> (Some (''failed to create tables: '' @ e), d) | (None, d) \<Rightarrow> (None, d))))"

section \<open>The schema\<close>

text \<open>What the engine does for \<^verbatim>\<open>CREATE TABLE IF NOT EXISTS\<close>: a table that is there stays as it is.\<close>

definition creates :: "('d \<Rightarrow> string \<rightharpoonup> (string \<times> string) list) \<Rightarrow> (table_def \<Rightarrow> 'd \<Rightarrow> string option \<times> 'd) \<Rightarrow> bool" where
  "creates schema exec \<longleftrightarrow> (\<forall>t cols d. fst (exec (t, cols) d) = None \<longrightarrow>
     schema (snd (exec (t, cols) d)) = (if schema d t = None then (schema d)(t \<mapsto> cols) else schema d))"

lemma exec_all_schema:
  assumes "creates schema exec" "fst (exec_all exec qs d) = None"
  shows "schema (snd (exec_all exec qs d)) = map_of qs ++ schema d"
  using assms(2)
proof (induction qs arbitrary: d)
  case (Cons q qs)
  obtain t cols where q: "q = (t, cols)" by (cases q)
  have ok: "fst (exec q d) = None" using Cons.prems by (auto split: prod.splits option.splits)
  with Cons.prems have "fst (exec_all exec qs (snd (exec q d))) = None"
    by (auto split: prod.splits)
  from Cons.IH [OF this] ok have "schema (snd (exec_all exec (q # qs) d)) = map_of qs ++ schema (snd (exec q d))"
    by (auto split: prod.splits)
  also have "schema (snd (exec q d)) = (if schema d t = None then (schema d)(t \<mapsto> cols) else schema d)"
    using assms(1) ok by (simp add: creates_def q)
  also have "map_of qs ++ \<dots> = map_of (q # qs) ++ schema d"
    by (rule ext) (auto simp: q map_add_def split: option.split)
  finally show ?case .
qed simp

lemma api_keys_columns_of_table:
  "map_option (map fst) (map_of sqlite_tables ''api_keys'') = Some api_keys_columns"
  by (simp add: sqlite_tables_def api_keys_columns_def)

text \<open>
  A store that was opened has the five tables. A table that the file had before keeps its columns, also when they
  are others than those the statements of the store name; opening it once more changes nothing.
\<close>

lemma open_schema:
  assumes "creates schema exec" "\<And>dir d. schema (snd (mkdir dir d)) = schema d"
    and "NewSQLiteStore mkdir connect exec path d = (None, d')"
  shows "schema d' = map_of sqlite_tables ++ schema d \<and>
    (NewSQLiteStore mkdir connect exec path d' = (None, d'') \<longrightarrow> schema d'' = schema d')"
proof -
  have step: "schema d2 = map_of sqlite_tables ++ schema d1" if "NewSQLiteStore mkdir connect exec path d1 = (None, d2)" for d1 d2
    using that assms(2) [of "Dir path" d1] exec_all_schema [OF assms(1), of sqlite_tables "snd (mkdir (Dir path) d1)"]
    by (auto simp: NewSQLiteStore_def createTables_def split: prod.splits option.splits)
  from step [OF assms(3)] step [of d' d''] show ?thesis
    by (auto simp: map_add_def fun_eq_iff split: option.split)
qed


end
