(* ===== verification/Lifetime.thy ===== *)
theory Lifetime
  imports Proxy Cleaner
begin

text \<open>
  What becomes of the traces that are stored: the requests of the proxy and the goroutines of its cleaner
  (\<^verbatim>\<open>ttl_cleaner.go\<close>, started by \<^verbatim>\<open>main.go\<close>) on one trace store, in any interleaving.
\<close>

section \<open>Stores that keep what does not expire\<close>

text \<open>
  What the traces of a store have in common, whatever the requests: \<open>fine\<close> depends only on what the steps of a chat
  leave alone, and holds of a new trace, of a signed one, and of what a replay makes of a stored one. A store
  is \<open>good K\<close> when the traces with the identifiers \<open>K\<close> are in it in the way it promises, and all its traces are fine.
  Saving and updating a fine trace keeps it good, and so does cleaning in one of the ways \<open>cleanups\<close>.
\<close>

locale lasting_store =
  fixes ops :: "'t TraceOps"
    and cleanups :: "('t \<Rightarrow> int result \<times> 't) set"
    and fine :: "Trace \<Rightarrow> bool"
    and good :: "string set \<Rightarrow> 't \<Rightarrow> bool"
  assumes fine_local: "tr_TTLExpireAt t = tr_TTLExpireAt u \<Longrightarrow> in_Prompt (tr_Input t) = in_Prompt (tr_Input u) \<Longrightarrow> tr_Proofs t = tr_Proofs u \<Longrightarrow>
      fine t \<longleftrightarrow> fine u"
    and fine_new: "fine (new_trace now tid sid model req)"
    and fine_signed: "fine t \<Longrightarrow> fine (sign_trace t)"
    and fine_candidate: "good K s \<Longrightarrow> to_Get ops k s = Inr baseline \<Longrightarrow> fine (candidate_trace tid sid now q req resp baseline)"
    and good_save: "good K s \<Longrightarrow> fine t \<Longrightarrow> good (insert (tr_TraceID t) K) (snd (to_Save ops t s))"
    and good_update: "good K s \<Longrightarrow> fine t \<Longrightarrow> good K (snd (to_Update ops t s))"
    and good_less: "good K s \<Longrightarrow> L \<subseteq> K \<Longrightarrow> good L s"
    and good_cleanup: "good K s \<Longrightarrow> cleanup \<in> cleanups \<Longrightarrow> good K (snd (cleanup s))"

text \<open>A trace without a time at which it expires.\<close>

definition unexpiring :: "Trace \<Rightarrow> bool" where
  "unexpiring t \<longleftrightarrow> tr_TTLExpireAt t = None"

lemma unexpiring_requests:
  "unexpiring (new_trace now tid sid model req)" "unexpiring (sign_trace t) \<longleftrightarrow> unexpiring t"
  "unexpiring (candidate_trace tid sid now q r resp baseline)"
  by (simp_all add: unexpiring_def new_trace_def sign_trace_def set_signature_def candidate_trace_def FillDefaults_def Let_def
      split: sum.split)

definition mem_cleanups :: "(MemoryTraceStore \<Rightarrow> int result \<times> MemoryTraceStore) set" where
  "mem_cleanups = {\<lambda>s. map_prod Inr id (mt_CleanupExpired now (ks s) s) | now ks. \<forall>s. finite (dom s) \<longrightarrow> iter_order (ks s) s}"

definition mem_good :: "string set \<Rightarrow> MemoryTraceStore \<Rightarrow> bool" where
  "mem_good K s \<longleftrightarrow> finite (dom s) \<and> K \<subseteq> dom s \<and> (\<forall>k t. s k = Some t \<longrightarrow> tr_TTLExpireAt t = None)"

definition sql_cleanups :: "(TraceTable \<Rightarrow> int result \<times> TraceTable) set" where
  "sql_cleanups = {\<lambda>s. map_prod Inr id (sql_CleanupExpiredTraces now (order s) s) | now order. True}"

definition sql_good :: "string set \<Rightarrow> TraceTable \<Rightarrow> bool" where
  "sql_good K db \<longleftrightarrow> K \<subseteq> dom db \<and> (\<forall>k r. db k = Some r \<longrightarrow> tw_ttl_expire_at r = None)"

definition pg_cleanups :: "PgCodec \<Rightarrow> (PgTraceTable \<Rightarrow> int result \<times> PgTraceTable) set" where
  "pg_cleanups c = {\<lambda>s. pg_CleanupExpired c down now (order s) s | down now order. True}"

definition pg_good :: "string set \<Rightarrow> PgTraceTable \<Rightarrow> bool" where
  "pg_good K db \<longleftrightarrow> K \<subseteq> dom db \<and> (\<forall>k r. db k = Some r \<longrightarrow> pt_ttl_expire_at r = None)"

lemma mem_cleanup_idle:
  assumes "mem_good K s" "iter_order ks s"
  shows "snd (mt_CleanupExpired now ks s) = s"
proof -
  have d: "distinct ks" and k: "\<And>k. k \<in> set ks \<Longrightarrow> \<exists>t. s k = Some t" using assms(2) by (auto simp: iter_order_def)
  have "\<not> expired now (the (s k))" if "k \<in> set ks" for k
    using k [OF that] assms(1) by (auto simp: mem_good_def expired_def)
  then show ?thesis by (auto simp: mt_CleanupExpired_def cleanup_keys_eq [OF d] fun_eq_iff)
qed

interpretation mem_lasting: lasting_store mem_trace_ops mem_cleanups unexpiring mem_good
proof
  fix K s cleanup assume "mem_good K s" "cleanup \<in> mem_cleanups"
  then show "mem_good K (snd (cleanup s))"
    by (auto simp: mem_cleanups_def mem_cleanup_idle mem_good_def)
qed (auto simp: unexpiring_requests [unfolded unexpiring_def] unexpiring_def mem_good_def mem_trace_ops_def mt_Save_def mt_Update_def split: if_splits)

interpretation sql_lasting: lasting_store "sql_trace_ops codec" sql_cleanups unexpiring sql_good for codec
proof
  fix K s cleanup assume "sql_good K s" "cleanup \<in> sql_cleanups"
  then show "sql_good K (snd (cleanup s))"
    by (auto simp: sql_cleanups_def sql_good_def sql_CleanupExpiredTraces_def sql_expired_def subset_iff dom_def
        split: option.splits)
qed (auto simp: unexpiring_requests [unfolded unexpiring_def] unexpiring_def sql_good_def sql_trace_ops_def sql_UpdateTrace_def sql_SaveTrace_def trace_row_def split: if_splits)

lemma pg_row_ttl: "pg_row c t = Inr r \<Longrightarrow> pt_ttl_expire_at r = map_option (timestamp c) (tr_TTLExpireAt t)"
  by (auto simp: pg_row_def bind_result_def split: sum.splits)

interpretation pg_lasting: lasting_store "pg_trace_ops (total_codec c js ts)" "pg_cleanups (total_codec c js ts)" unexpiring pg_good
  for c js ts
proof
  fix K s and t :: Trace assume s: "pg_good K s" "unexpiring t"
  obtain row where row: "pg_row (total_codec c js ts) t = Inr row" using total_codec_Inr(1) by blast
  with s have "pt_ttl_expire_at row = None" by (simp add: pg_row_ttl unexpiring_def)
  with s row show "pg_good (insert (tr_TraceID t) K) (snd (to_Save (pg_trace_ops (total_codec c js ts)) t s))"
    "pg_good K (snd (to_Update (pg_trace_ops (total_codec c js ts)) t s))"
    by (auto simp: pg_good_def pg_trace_ops_def pg_SaveTrace_def pg_UpdateTrace_def)
next
  fix K s cleanup assume "pg_good K s" "cleanup \<in> pg_cleanups (total_codec c js ts)"
  then show "pg_good K (snd (cleanup s))"
    by (auto simp: pg_cleanups_def pg_good_def pg_CleanupExpired_def pg_expired_def subset_iff dom_def split: option.splits)
qed (auto simp: unexpiring_requests [unfolded unexpiring_def] unexpiring_def pg_good_def)

section \<open>Requests\<close>

text \<open>Two traces that agree on what the steps of a chat leave alone.\<close>

definition same_core :: "Trace \<Rightarrow> Trace \<Rightarrow> bool" where
  "same_core t u \<longleftrightarrow> tr_TTLExpireAt t = tr_TTLExpireAt u \<and> in_Prompt (tr_Input t) = in_Prompt (tr_Input u) \<and> tr_Proofs t = tr_Proofs u"

text \<open>Two requests in progress with such traces and the same store.\<close>

definition same_lasting :: "('t, 'b, 'w, 'p) Conv \<Rightarrow> ('t, 'b, 'w, 'p) Conv \<Rightarrow> bool" where
  "same_lasting c e \<longleftrightarrow> same_core (ct_trace c) (ct_trace e) \<and> sv_traces (ct_server c) = sv_traces (ct_server e)"

lemma lasting_steps:
  "same_lasting (record_step now a b c) c" "same_lasting (set_state st c) c" "same_lasting (apply_recorder c) c"
  "same_lasting (set_error code msg c) c" "same_lasting (respond f c) c" "same_lasting (with_budget g c) c"
  "same_lasting (fail_trace d code msg c) c" "same_lasting (chat_finalize d h resp c) c"
  by (simp_all add: same_lasting_def same_core_def conv_steps fail_trace_def chat_finalize_def Let_def)

lemma lasting_run_hooks:
  "chain_ok d \<Longrightarrow> stage \<in> {hc_PreExecute, hc_PostStream, hc_OnFailure} \<Longrightarrow> same_lasting (run_hooks stage d c) c"
  using run_hooks_trace [of d stage c] by (auto simp: same_lasting_def same_core_def meta_only_def)

lemma lasting_reserve: "chat_reserve d limit sid amount c = (res, c') \<Longrightarrow> same_lasting c' c"
  by (auto simp: chat_reserve_def conv_steps same_lasting_def same_core_def split: option.splits if_splits prod.splits)

abbreviation traces_of :: "('t, 'b, 'w, 'p, 'k, 'r) App \<Rightarrow> 't" where
  "traces_of a \<equiv> sv_traces (ap_server a)"

text \<open>The identifier under which a request stores its trace, if it is a chat that is taken on.\<close>

definition stored_by ::
    "('t, 'b, 'w, 'p, 'k, 'r, 'h) AppDeps \<Rightarrow> string \<Rightarrow> string \<Rightarrow> Request \<Rightarrow> Writer \<Rightarrow> ('t, 'b, 'w, 'p, 'k, 'r) App \<Rightarrow> string set" where
  "stored_by d tid sid rq w a =
     (if rq_Path rq = ''/v1/chat/completions'' \<and>
         fst (handleChatCompletions (ad_deps d) tid sid (rq_Method rq) (rq_Header rq) (rq_chat rq) w (ap_server a)) \<noteq> None
      then {tid} else {})"

lemma admin_traces:
  "traces_of (with_router f a) = traces_of a"
  "traces_of (snd (add_provider d q w a)) = traces_of a" "traces_of (snd (update_provider d q w a)) = traces_of a"
  "traces_of (snd (remove_provider d name w a)) = traces_of a" "traces_of (snd (set_total_budget d x w a)) = traces_of a"
  "traces_of (snd (create_key d name w a)) = traces_of a" "traces_of (snd (delete_key d keyID w a)) = traces_of a"
  by (simp_all add: with_router_def add_provider_def update_provider_def remove_provider_def set_total_budget_def
      create_key_def delete_key_def Let_def split: option.split prod.split)

lemma admin_handler_traces:
  "traces_of (snd (handleAdminProviders d rq w a)) = traces_of a" "traces_of (snd (handleSetDefaultProvider d rq w a)) = traces_of a"
  "traces_of (snd (handleAdminBudget d rq w a)) = traces_of a" "traces_of (snd (handleAdminAPIKeys d rq w a)) = traces_of a"
  by (simp_all add: handleAdminProviders_def handleSetDefaultProvider_def named_provider_def handleAdminBudget_def
      handleAdminAPIKeys_def decoded_body_def admin_traces Let_def split: sum.split option.split)

context lasting_store
begin

text \<open>A request in progress: its trace is fine, and the store is good.\<close>

definition lasts :: "string set \<Rightarrow> ('t, 'b, 'w, 'p) Conv \<Rightarrow> bool" where
  "lasts K c \<longleftrightarrow> fine (ct_trace c) \<and> good K (sv_traces (ct_server c))"

lemma lasts_same: "same_lasting c e \<Longrightarrow> lasts K c \<longleftrightarrow> lasts K e"
  unfolding lasts_def same_lasting_def same_core_def by (metis fine_local)

lemmas lasts_steps [simp] = lasting_steps [THEN lasts_same]
lemmas lasts_run_hooks = lasting_run_hooks [THEN lasts_same]
lemmas lasts_reserve = lasting_reserve [THEN lasts_same]

lemma lasts_chat_sign: "lasts K c \<Longrightarrow> lasts K (chat_sign d c)"
  using fine_signed by (simp add: lasts_def chat_sign_def)

lemma lasts_store: "dp_traces d = ops \<Longrightarrow> lasts K c \<Longrightarrow> lasts K (store_trace d c)"
  using good_update by (simp add: lasts_def store_trace_def)

lemma lasts_start:
  assumes "dp_traces d = ops" "chain_ok d" "good K (sv_traces srv)"
  shows "lasts (insert tid K) (chat_start d tid sid model req w srv)"
proof -
  have "lasts (insert tid K) \<lparr>ct_trace = t, ct_rec = r, ct_writer = w,
      ct_server = srv\<lparr>sv_traces := snd (to_Save ops t (sv_traces srv))\<rparr>\<rparr>"
    if "t = new_trace now tid sid model req" for now r t
    using good_save [OF assms(3), of t] fine_new [of now tid sid model req] by (simp add: that lasts_def) (simp add: new_trace_def)
  then show ?thesis
    using assms(1,2) unfolding chat_start_def Let_def by (intro lasts_store) (simp_all add: lasts_run_hooks)
qed

lemma lasts_admit:
  assumes "dp_traces d = ops" "lasts K c"
  shows "lasts K (chat_admit d r c)"
proof -
  have "lasts K e" if "same_lasting e c" for e using that assms(2) lasts_same by blast
  then show ?thesis
    using assms(1) unfolding chat_admit_def Let_def
    by (intro lasts_store) (simp_all add: same_lasting_def same_core_def conv_steps)
qed

lemma lasts_answer:
  "dp_traces d = ops \<Longrightarrow> chain_ok d \<Longrightarrow> lasts K c \<Longrightarrow> lasts K (chat_answer d h req sid resp c)"
  by (simp add: chat_answer_def chat_headers_def chat_json_def Let_def lasts_run_hooks lasts_store lasts_chat_sign)

lemma lasts_execute:
  assumes "dp_traces d = ops" "chain_ok d" "lasts K c"
  shows "lasts K (chat_execute d h req model sid c)"
proof (cases "find_provider (dp_providers d) model (sv_router (ct_server c))")
  case None
  then show ?thesis using assms by (simp add: chat_execute_def chat_no_provider_def lasts_store)
next
  case (Some p)
  obtain res c' where r: "chat_reserve d (sh_BudgetLimit h) sid (reserve_amount p) c = (res, c')"
    by (metis surj_pair)
  then have "lasts K c'" using lasts_reserve assms(3) by blast
  with Some r show ?thesis
    using assms(1,2)
    by (cases res; cases "uc_Chat (dp_net d) (rp_BaseURL p) req")
      (simp_all add: chat_execute_def chat_refused_def chat_failed_def Let_def lasts_store lasts_run_hooks lasts_answer)
qed

lemma good_chat:
  assumes "dp_traces d = ops" "chain_ok d" "good K (sv_traces srv)"
    and "handleChatCompletions d tid sid meth hs body w srv = (r, w', srv')"
  shows "good (K \<union> (if r = None then {} else {tid})) (sv_traces srv')"
proof (cases r)
  case None
  then have "srv' = srv"
    using assms(4) unfolding handleChatCompletions_def Let_def by (auto split: if_splits sum.splits)
  with None assms(3) show ?thesis by simp
next
  case (Some t)
  show ?thesis
  proof (rule chat_flow [OF assms(4) [unfolded Some]])
    fix req h q c
    assume "c = chat_execute d h (seeded h req) (model_for h (seeded h req)) sid
         (chat_admit d q (chat_start d tid sid (model_for h (seeded h req)) (seeded h req) w srv))" "srv' = ct_server c"
    then have "lasts (insert tid K) c" using assms(1-3) by (simp add: lasts_execute lasts_admit lasts_start)
    with \<open>srv' = ct_server c\<close> Some show ?thesis by (simp add: lasts_def)
  qed
qed

lemma good_replay:
  assumes "dp_traces (ad_deps d) = ops" "good K (traces_of a)"
  shows "good K (traces_of (snd (handleReplayEval d tid sid rq w a)))"
proof -
  have answered: "good K (traces_of (snd (replay_answered d focus baseline t w a)))" if "fine t" for focus baseline t
  proof -
    have "fine (if dp_signer (ad_deps d) then sign_trace t else t)" using that fine_signed by simp
    from good_save [OF assms(2) this] show ?thesis
      by (auto simp: replay_answered_def save_report_def assms(1) Let_def intro: good_less)
  qed
  then show ?thesis
    using assms(2) answered fine_candidate [OF assms(2)]
    by (simp add: handleReplayEval_def assms(1) Let_def split: sum.split option.split)
qed

lemma good_serve:
  assumes "dp_traces (ad_deps d) = ops" "chain_ok (ad_deps d)" "good K (traces_of a)"
  shows "good (K \<union> stored_by d tid sid rq w a) (traces_of (snd (ServeHTTP d tid sid rq w a)))"
proof (cases "rq_Path rq = ''/v1/chat/completions''")
  case True
  obtain r w' srv' where e: "handleChatCompletions (ad_deps d) tid sid (rq_Method rq) (rq_Header rq) (rq_chat rq) w
      (ap_server a) = (r, w', srv')" by (metis prod_cases3)
  from good_chat [OF assms(1,2,3) e] True e show ?thesis
    by (cases r) (simp_all add: ServeHTTP_def handle_chat_def stored_by_def Let_def)
next
  case False
  then have "stored_by d tid sid rq w a = {}" by (simp add: stored_by_def)
  moreover have "good K (traces_of (snd (ServeHTTP d tid sid rq w a)))"
    by (simp only: ServeHTTP_def Let_def if_distrib [of snd] if_distrib [of ap_server] if_distrib [of sv_traces]
        if_distrib [of "good K"] snd_conv good_replay [OF assms(1,3)] admin_handler_traces test_changes_nothing assms(3)
        False if_False if_cancel if_True)
  ultimately show ?thesis by simp
qed

lemma good_wrapped:
  assumes "dp_traces (ad_deps d) = ops" "chain_ok (ad_deps d)" "good K (traces_of a)"
  shows "good (K \<union> stored_by d tid sid rq (fresh_writer b) a)
    (traces_of (snd (wrappedHandler d lib km tid sid rq (fresh_writer b) a)))"
proof (cases "has_handler (rq_Path rq)")
  case True
  then show ?thesis using good_serve [OF assms] by (simp add: wrappedHandler_def handled_public)
next
  case False
  then have "stored_by d tid sid rq (fresh_writer b) a = {}" by (auto simp: stored_by_def has_handler_def routes_def)
  moreover have "snd (wrappedHandler d lib km tid sid rq (fresh_writer b) a) = a"
    using False AuthMiddleware_cases [of lib km "ad_keys d" ap_keys "\<lambda>_ w a. ServeHTTP d tid sid rq w a" "rq_Header rq" b a]
    by (auto simp: wrappedHandler_def unhandled)
  ultimately show ?thesis using assms(3) by simp
qed

end

section \<open>The running proxy\<close>

text \<open>The main program cleans every hour, in nanoseconds.\<close>

definition cleanup_interval :: int where
  "cleanup_interval = 3600 * 10 ^ 9"

text \<open>
  A run from a server and the cleaner on its trace store: a request is served as a whole, by a handler whose
  parameters (network, clock, orders) may be others each time, or the cleaner takes a step. \<open>K\<close> are the identifiers
  of the chats that were taken on. Both work on the same store, which each of the two states has.
\<close>

definition with_traces :: "'t \<Rightarrow> ('t, 'b, 'w, 'p, 'k, 'r) App \<Rightarrow> ('t, 'b, 'w, 'p, 'k, 'r) App" where
  "with_traces s a = a\<lparr>ap_server := (ap_server a)\<lparr>sv_traces := s\<rparr>\<rparr>"

definition handlers :: "'t TraceOps \<Rightarrow> ('t, 'b, 'w, 'p, 'k, 'r, 'h) AppDeps set" where
  "handlers ops = {d. dp_traces (ad_deps d) = ops \<and> chain_ok (ad_deps d)}"

inductive proxy_run ::
    "('t, 'b, 'w, 'p, 'k, 'r, 'h) AppDeps set \<Rightarrow> ('t \<Rightarrow> int result \<times> 't) set \<Rightarrow> 'c JwtLibrary \<Rightarrow> ('priv, 'pub) KeyManager \<Rightarrow> ('t, 'b, 'w, 'p, 'k, 'r) App \<Rightarrow>
       string set \<Rightarrow> ('t, 'b, 'w, 'p, 'k, 'r) App \<Rightarrow> 't TTLCleaner \<Rightarrow> bool"
  for ds cleanups lib km a0 where
  proxy_start: "proxy_run ds cleanups lib km a0 {} a0 (NewTTLCleaner (traces_of a0) cleanup_interval)"
| proxy_request: "proxy_run ds cleanups lib km a0 K a c \<Longrightarrow> \<not> cs_crashed c \<Longrightarrow> d \<in> ds \<Longrightarrow>
    a' = snd (wrappedHandler d lib km tid sid rq (fresh_writer b) a) \<Longrightarrow>
    proxy_run ds cleanups lib km a0 (K \<union> stored_by d tid sid rq (fresh_writer b) a) a' (c\<lparr>cs_store := traces_of a'\<rparr>)"
| proxy_clean: "proxy_run ds cleanups lib km a0 K a c \<Longrightarrow> cleanup \<in> cleanups \<Longrightarrow> cleaner_step cleanup c e c' \<Longrightarrow>
    proxy_run ds cleanups lib km a0 K (with_traces (cs_store c') a) c'"

lemma snd_cleanup: "snd (cleanupExpiredTraces cleanup s) = snd (cleanup s)"
  by (simp add: cleanupExpiredTraces_def split: prod.split sum.split)

context lasting_store
begin

lemma good_run:
  "proxy_run (handlers ops) cleanups lib km a0 K a c \<Longrightarrow> good L (traces_of a0) \<Longrightarrow> good (K \<union> L) (traces_of a) \<and> cs_store c = traces_of a"
proof (induction rule: proxy_run.induct)
  case proxy_start
  then show ?case by (simp add: NewTTLCleaner_def)
next
  case (proxy_request K a c d a' tid sid rq b)
  then have "good ((K \<union> L) \<union> stored_by d tid sid rq (fresh_writer b) a) (traces_of a')"
    using good_wrapped [of d "K \<union> L" a] by (simp add: handlers_def)
  then show ?case by (auto elim: good_less)
next
  case (proxy_clean K a c cleanup e c')
  then have "good (K \<union> L) (cs_store c')"
    using store_step [of cleanup c e c'] good_cleanup [of "K \<union> L" "traces_of a" cleanup] by (auto simp: snd_cleanup split: if_splits)
  then show ?case by (simp add: with_traces_def)
qed

end

text \<open>
  \<^bold>\<open>C16.\<close> Nothing ever expires. No request gives a trace a time at which it expires, on any path, with any
  hooks of the code and any answers of the network; so, over every interleaving of requests with the steps of the
  cleaner, at whatever times it cleans, every trace that was in the memory store, and that of every chat that was taken
  on since, is still there, and the cleaner has removed none: the store only grows.
\<close>

theorem traces_live_forever:
  assumes "proxy_run (handlers mem_trace_ops) mem_cleanups lib km a0 K a c"
    and "finite (dom (traces_of a0))" "\<forall>t \<in> ran (traces_of a0). tr_TTLExpireAt t = None"
  shows "K \<union> dom (traces_of a0) \<subseteq> dom (traces_of a) \<and> (\<forall>t \<in> ran (traces_of a). tr_TTLExpireAt t = None)"
proof -
  have "mem_good (dom (traces_of a0)) (traces_of a0)" using assms(2,3) by (auto simp: mem_good_def ran_def)
  from mem_lasting.good_run [OF assms(1) this] show ?thesis by (auto simp: mem_good_def ran_def)
qed

text \<open>The same over SQLite and PostgreSQL, where the expiry column is always NULL.\<close>

lemma sql_traces_live_forever:
  assumes "proxy_run (handlers (sql_trace_ops codec)) sql_cleanups lib km a0 K a c"
    and "\<forall>r \<in> ran (traces_of a0). tw_ttl_expire_at r = None"
  shows "K \<union> dom (traces_of a0) \<subseteq> dom (traces_of a) \<and> (\<forall>r \<in> ran (traces_of a). tw_ttl_expire_at r = None)"
proof -
  have "sql_good (dom (traces_of a0)) (traces_of a0)" using assms(2) by (auto simp: sql_good_def ran_def)
  from sql_lasting.good_run [OF assms(1) this] show ?thesis by (auto simp: sql_good_def ran_def)
qed

lemma iter_order_exists: "\<exists>ks. \<forall>s. finite (dom s) \<longrightarrow> iter_order (ks s) s"
  by (rule choice) (metis iter_order_def finite_distinct_list)

lemma pg_traces_live_forever:
  assumes "proxy_run (handlers (pg_trace_ops (total_codec codec js ts))) (pg_cleanups (total_codec codec js ts)) lib km a0 K a c"
    and "\<forall>r \<in> ran (traces_of a0). pt_ttl_expire_at r = None"
  shows "K \<union> dom (traces_of a0) \<subseteq> dom (traces_of a) \<and> (\<forall>r \<in> ran (traces_of a). pt_ttl_expire_at r = None)"
proof -
  have "pg_good (dom (traces_of a0)) (traces_of a0)" using assms(2) by (auto simp: pg_good_def ran_def)
  from pg_lasting.good_run [OF assms(1) this] show ?thesis by (auto simp: pg_good_def ran_def)
qed

text \<open>A chat, and then the start of the cleaner.\<close>

theorem traces_live_forever_witness:
  "\<exists>a c. proxy_run (insert demo_deps_app (handlers mem_trace_ops)) mem_cleanups demo_jwt demo_manager (demo_app Map.empty) {''t1''} a c \<and>
     cs_ticker c = Some 0 \<and> ''t1'' \<in> dom (traces_of a)"
proof -
  let ?rq = "demo_http ''POST'' ''/v1/chat/completions''" and ?a = "demo_app Map.empty"
  let ?start = "proxy_run (insert demo_deps_app (handlers mem_trace_ops)) mem_cleanups demo_jwt demo_manager ?a"
  let ?run = "?start {''t1''}"
  let ?a1 = "snd (wrappedHandler demo_deps_app demo_jwt demo_manager ''t1'' ''s1'' ?rq (fresh_writer True) ?a)"
  let ?c1 = "(NewTTLCleaner Map.empty cleanup_interval)\<lparr>cs_store := traces_of ?a1\<rparr>"
  have "demo_deps_app \<in> handlers mem_trace_ops"
    by (simp add: handlers_def demo_deps_app_def chain_ok_demo) (simp add: demo_deps_def)
  then have ds: "insert demo_deps_app (handlers mem_trace_ops) = handlers mem_trace_ops" by (rule insert_absorb)
  have stored: "stored_by demo_deps_app ''t1'' ''s1'' ?rq (fresh_writer True) ?a = {''t1''}"
    by (simp add: stored_by_def demo_http_def handler_takes_on [OF refl no_headers_supported] Let_def)
  have "?start {} ?a (NewTTLCleaner (traces_of ?a) cleanup_interval)" by (rule proxy_start)
  from proxy_request [where tid = "''t1''" and sid = "''s1''" and rq = ?rq and b = True, OF this _ insertI1 refl] stored
  have r1: "?run ?a1 ?c1" by (simp add: NewTTLCleaner_def demo_app_def demo_server_def)
  obtain ks :: "MemoryTraceStore \<Rightarrow> string list" where "\<forall>s. finite (dom s) \<longrightarrow> iter_order (ks s) s"
    using iter_order_exists by blast
  then obtain cleanup where cleanup: "cleanup \<in> mem_cleanups" unfolding mem_cleanups_def by blast
  obtain c4 where c4: "after_all cleanup [EvStart, EvRun 0, EvRun 0] ?c1 = Some c4" "cs_ticker c4 = Some 0" "cs_store c4 = traces_of ?a1"
    by (simp add: run_eval cleanup_interval_def)
  then obtain c2 c3 where steps: "cleaner_step cleanup ?c1 EvStart c2" "cleaner_step cleanup c2 (EvRun 0) c3"
      "cleaner_step cleanup c3 (EvRun 0) c4"
    by (auto simp: bind_eq_Some_conv dest: after_step)
  from proxy_clean [OF proxy_clean [OF proxy_clean [OF r1 cleanup steps(1)] cleanup steps(2)] cleanup steps(3)]
  obtain a where r2: "?run a c4" by blast
  have "''t1'' \<in> dom (traces_of a)"
    using traces_live_forever [OF r2 [unfolded ds]] by (simp add: demo_app_def demo_server_def)
  with r2 c4(2) show ?thesis by blast
qed

end
