(* ===== verification/SqliteServer.thy ===== *)
theory SqliteServer
  imports Proxy SqliteOpen
begin

text \<open>
  The proxy in SQLite mode: the wrapper types of \<^verbatim>\<open>internal/adapter/storage/sqlite.go\<close> that make the one
  store into the stores of the interfaces, and what the endpoints show of what is stored.
\<close>

section \<open>The wrappers\<close>

text \<open>The list functions of the handlers that go beyond \<open>sql_trace_ops\<close>; \<open>order\<close> is the order of the engine.\<close>

definition sql_ListRecent :: "TraceCodec \<Rightarrow> (TraceTable \<Rightarrow> string list) \<Rightarrow> int \<Rightarrow> TraceTable \<Rightarrow> Trace list result" where
  "sql_ListRecent codec order limit db = Inr (sql_ListRecentTraces codec (order db) limit db)"

definition sql_ListBySession :: "TraceCodec \<Rightarrow> (TraceTable \<Rightarrow> string list) \<Rightarrow> string \<Rightarrow> TraceTable \<Rightarrow> Trace list result" where
  "sql_ListBySession codec order sessionID db = Inr (sql_ListTracesBySession codec (order db) sessionID db)"

definition sql_Count :: "(TraceTable \<Rightarrow> string list) \<Rightarrow> TraceTable \<Rightarrow> int result" where
  "sql_Count order db = Inr (sql_CountTraces (order db) db)"

definition sql_CleanupExpired :: "gotime \<Rightarrow> (TraceTable \<Rightarrow> string list) \<Rightarrow> TraceTable \<Rightarrow> int result \<times> TraceTable" where
  "sql_CleanupExpired now order db = map_prod Inr id (sql_CleanupExpiredTraces now (order db) db)"

definition sql_report_ops ::
    "gotime \<Rightarrow> (RiskReport \<Rightarrow> string) \<Rightarrow> (string \<Rightarrow> RiskReport) \<Rightarrow> (ReportTable \<Rightarrow> string list) \<Rightarrow> ReportTable ReportOps" where
  "sql_report_ops now marshal unmarshal order =
     \<lparr>ro_Save = sql_SaveRiskReport now marshal, ro_Get = sql_GetRiskReport unmarshal,
      ro_List = (\<lambda>limit db. Inr (sql_ListRiskReports unmarshal (order db) limit db))\<rparr>"

definition sql_provider_ops ::
    "(string list \<Rightarrow> string) \<Rightarrow> (string \<Rightarrow> string list) \<Rightarrow> (ProviderTable \<Rightarrow> string list) \<Rightarrow> ProviderTable ProviderOps" where
  "sql_provider_ops marshal unmarshal order =
     \<lparr>po_Save = sql_SaveProvider marshal, po_GetByName = sql_GetProvider unmarshal,
      po_List = (\<lambda>db. sql_ListProviders unmarshal (order db) db), po_Delete = sql_DeleteProvider\<rparr>"

section \<open>What the endpoints show\<close>

definition sqlite_deps ::
    "TraceCodec \<Rightarrow> (TraceTable \<Rightarrow> string list) \<Rightarrow> ReportTable ReportOps \<Rightarrow> KeyTable KeyOps \<Rightarrow>
       (TraceTable, BudgetTable, 'w, 'p, KeyTable, ReportTable, 'h) AppDeps \<Rightarrow>
       (TraceTable, BudgetTable, 'w, 'p, KeyTable, ReportTable, 'h) AppDeps" where
  "sqlite_deps codec order reports keys d =
     d\<lparr>ad_deps := (ad_deps d)\<lparr>dp_traces := sql_trace_ops codec, dp_budget := sql_ops\<rparr>,
       ad_ListRecent := sql_ListRecent codec order, ad_Count := sql_Count order, ad_reports := reports, ad_keys := keys\<rparr>"

lemma fresh_writer_simps [simp]: "wr_Sent (fresh_writer b) = None" "wr_Body (fresh_writer b) = []"
  by (simp_all add: fresh_writer_def)

text \<open>
  In SQLite mode the endpoints that list show nothing, whatever is stored: no trace, no risk report, no API key,
  a budget of zero, and metrics with the number of the traces but no state, model or cost of any.
\<close>

lemma sqlite_shows_nothing:
  fixes d :: "(TraceTable, BudgetTable, 'w, 'p, KeyTable, ReportTable, 'h) AppDeps"
  assumes "d = sqlite_deps codec order (sql_report_ops now marshal unmarshal rorder) (sql_key_ops kn km ku kt korder) d0"
  shows "wr_Body (handleTracesList d rq (fresh_writer b) a) = [BTraces []]"
    and "rq_Query rq ''trace_id'' = [] \<Longrightarrow> ap_reports a = Some s \<Longrightarrow> wr_Body (handleMonitorRiskReports d rq (fresh_writer b) a) = [BReports []]"
    and "key_list d a = []"
    and "budget_info d a = AMap [(''total_budget'', AFloat fzero), (''used_budget'', AFloat fzero), (''remaining_budget'', AFloat (fsub fzero fzero))]
      \<or> budget_info d a = AMap [(''total_budget'', AFloat fzero), (''used_budget'', AFloat fzero), (''remaining_budget'', AFloat fzero)]"
    and "metrics_stats d db = trace_stats (AInt64 (int (length (order db)))) [(''FINALIZED'', 0), (''FAILED'', 0), (''EXECUTING'', 0)] [] fzero"
proof -
  show "wr_Body (handleTracesList d rq (fresh_writer b) a) = [BTraces []]"
    by (simp add: assms sqlite_deps_def handleTracesList_def sql_ListRecent_def sql_lists_empty monitor_open_def json_header_def Let_def)
  show "wr_Body (handleMonitorRiskReports d rq (fresh_writer b) a) = [BReports []]"
    if "rq_Query rq ''trace_id'' = []" "ap_reports a = Some s"
    using that by (simp add: assms sqlite_deps_def handleMonitorRiskReports_def sql_report_ops_def sql_record_lists_empty
        monitor_open_def json_header_def Let_def)
  show "key_list d a = []"
    by (simp add: assms sqlite_deps_def key_list_def sql_key_ops_def sql_record_lists_empty split: option.split)
  show "budget_info d a = AMap [(''total_budget'', AFloat fzero), (''used_budget'', AFloat fzero), (''remaining_budget'', AFloat (fsub fzero fzero))]
      \<or> budget_info d a = AMap [(''total_budget'', AFloat fzero), (''used_budget'', AFloat fzero), (''remaining_budget'', AFloat fzero)]"
    by (cases "sv_budget (ap_server a)") (simp_all add: assms sqlite_deps_def budget_info_def sql_ops_def sql_GetBudget_def Let_def)
  show "metrics_stats d db = trace_stats (AInt64 (int (length (order db)))) [(''FINALIZED'', 0), (''FAILED'', 0), (''EXECUTING'', 0)] [] fzero"
    by (simp add: assms sqlite_deps_def metrics_stats_def sql_ListRecent_def sql_Count_def sql_CountTraces_def sql_lists_empty)
qed

text \<open>A router over an SQLite store of providers starts without any.\<close>

lemma sqlite_router_loads_nothing:
  "LoadFromStore (sql_provider_ops marshal unmarshal order) (NewModelRouterWithStore db) = (None, NewModelRouterWithStore db)"
  by (simp add: LoadFromStore_def NewModelRouterWithStore_def sql_provider_ops_def sql_ListProviders_def)

section \<open>The keys of the configuration\<close>

text \<open>
  Since listing the keys gives none, every start of the program creates those of the configuration once more, each
  under the identifier of its moment.
\<close>

lemma sqlite_keys_again:
  assumes "\<And>i. ops i = sql_key_ops (now i) marshal unmarshal dec_time order"
  shows "setup_keys ops cfg (km, db) = add_config_keys ops 0 (cf_APIKeys cfg) (km, db)"
    "dom (snd (setup_keys ops cfg (km, db))) = dom db \<union> (\<lambda>i. key_id (now i)) ` {..<length (cf_APIKeys cfg)}"
proof -
  have created: "dom (snd (ko_Create (ops i) h p n ds x ps db)) = insert (key_id (now i)) (dom db)" for i h p n ds x ps db
    by (auto simp: assms sql_key_ops_def sql_CreateAPIKey_def Let_def split: if_splits)
  have dom: "dom (snd (add_config_keys ops i keys (km, db))) = dom db \<union> (\<lambda>i. key_id (now i)) ` {i..<i + length keys}" for i keys km db
  proof (induction keys arbitrary: i km db)
    case (Cons k ks)
    have "insert (key_id (now i)) ((\<lambda>i. key_id (now i)) ` {i + 1..<i + 1 + length ks}) = (\<lambda>i. key_id (now i)) ` {i..<i + length (k # ks)}"
      by (subst image_insert [symmetric]) (rule arg_cong [where f = "image _"], auto)
    then show ?case by (simp only: add_config_keys.simps Cons.IH created) blast
  qed simp
  show again: "setup_keys ops cfg (km, db) = add_config_keys ops 0 (cf_APIKeys cfg) (km, db)"
    by (simp add: setup_keys_def assms sql_key_ops_def sql_record_lists_empty)
  show "dom (snd (setup_keys ops cfg (km, db))) = dom db \<union> (\<lambda>i. key_id (now i)) ` {..<length (cf_APIKeys cfg)}"
    using dom [of 0 "cf_APIKeys cfg" km db] by (simp add: again lessThan_atLeast0)
qed

end
