(* ===== verification/Replays.thy ===== *)
theory Replays
  imports Lifetime ServerProps
begin

text \<open>
  What becomes of replay evaluations: which of the traces that are stored carry a signature, over the memory store
  and over SQLite.
\<close>

section \<open>Nothing is signed in memory\<close>

text \<open>A trace without a signature whose prompt is a slice of messages, which the signer refuses.\<close>

definition unsignable :: "Trace \<Rightarrow> bool" where
  "unsignable t \<longleftrightarrow> pf_AuditSignature (tr_Proofs t) = [] \<and> (\<exists>ms. in_Prompt (tr_Input t) = AMessages ms)"

definition mem_unsignable :: "string set \<Rightarrow> MemoryTraceStore \<Rightarrow> bool" where
  "mem_unsignable K s \<longleftrightarrow> finite (dom s) \<and> (\<forall>k t. s k = Some t \<longrightarrow> unsignable t)"

lemma unsignable_signed: "unsignable t \<Longrightarrow> sign_trace t = t"
  unfolding unsignable_def using sign_trace_messages by blast

lemma unsignable_new: "unsignable (new_trace now tid sid model req)"
  by (simp add: unsignable_def new_trace_def zero_Proofs_def prompt_of_def)

lemma unsignable_candidate: "unsignable baseline \<Longrightarrow> unsignable (candidate_trace tid sid now q req resp baseline)"
  by (simp add: unsignable_def candidate_trace_def FillDefaults_def zero_Proofs_def Let_def)

interpretation mem_unsigned: lasting_store mem_trace_ops mem_cleanups unsignable mem_unsignable
proof
  fix K s cleanup assume s: "mem_unsignable K s" and "cleanup \<in> mem_cleanups"
  then obtain now ks where c: "cleanup = (\<lambda>s. map_prod Inr id (mt_CleanupExpired now (ks s) s))"
    and "iter_order (ks s) s" by (auto simp: mem_cleanups_def mem_unsignable_def)
  then have d: "distinct (ks s)" by (simp add: iter_order_def)
  have "snd (cleanup s) k = None \<or> snd (cleanup s) k = s k" for k
    by (simp add: c mt_CleanupExpired_def cleanup_keys_eq [OF d])
  then have "dom (snd (cleanup s)) \<subseteq> dom s" "\<And>k t. snd (cleanup s) k = Some t \<Longrightarrow> s k = Some t"
    by (auto simp: dom_def) (metis option.distinct(1))+
  with s show "mem_unsignable K (snd (cleanup s))" unfolding mem_unsignable_def using finite_subset by blast
next
  fix K s k baseline tid sid now q req resp
  assume "mem_unsignable K s" "to_Get mem_trace_ops k s = Inr baseline"
  then have "unsignable baseline"
    by (auto simp: mem_unsignable_def mem_trace_ops_def mt_Get_def split: option.splits)
  then show "unsignable (candidate_trace tid sid now q req resp baseline)" by (rule unsignable_candidate)
next
  fix t u :: Trace assume "in_Prompt (tr_Input t) = in_Prompt (tr_Input u)" "tr_Proofs t = tr_Proofs u"
  then show "unsignable t \<longleftrightarrow> unsignable u" by (simp add: unsignable_def)
qed (auto simp: unsignable_signed unsignable_new mem_unsignable_def mem_trace_ops_def mt_Save_def mt_Update_def split: if_splits)

section \<open>What a replay leaves\<close>

text \<open>A replay that is answered: its answer, the report and the store, with the candidate that is stored.\<close>

lemma replay_run:
  assumes "handleReplayEval d tid sid rq (fresh_writer b) a = (w', a')"
    and "rq_Method rq = ''POST''" "rq_replay rq = Inr q" "model = replay_model q (ParseSentorisHeaders (rq_Header rq)) baseline"
    and "to_Get (dp_traces (ad_deps d)) (rpl_BaselineTraceID q) (traces_of a) = Inr baseline"
    and "find_provider (dp_providers (ad_deps d)) model (router_of a) = Some p"
    and "req = replay_request (ad_Sprint d) q model baseline" "uc_Chat (dp_net (ad_deps d)) (rp_BaseURL p) req = Inr resp"
    and "t = candidate_trace tid sid (dp_clock (ad_deps d) 0) q req resp baseline"
    and "u = (if dp_signer (ad_deps d) then sign_trace t else t)"
  shows "\<exists>report. traces_of a' = snd (to_Save (dp_traces (ad_deps d)) u (traces_of a)) \<and> status_of w' = 200 \<and>
    wr_Body w' = [BReport report] \<and> ap_reports a' = map_option (\<lambda>s. snd (ro_Save (ad_reports d) report s)) (ap_reports a) \<and>
    report\<lparr>rr_FocusFields := []\<rparr> = (Compare (ad_marshal d) (ad_diff_order d) (dp_clock (ad_deps d) 1) baseline u)\<lparr>rr_FocusFields := []\<rparr>"
proof -
  define focus where "focus = replay_focus q (ParseSentorisHeaders (rq_Header rq))"
  define report where "report = (let r = Compare (ad_marshal d) (ad_diff_order d) (dp_clock (ad_deps d) 1) baseline u
    in if focus \<noteq> [] then r\<lparr>rr_FocusFields := focus\<rparr> else r)"
  have "handleReplayEval d tid sid rq (fresh_writer b) a = replay_answered d focus baseline t (fresh_writer b) a"
    using assms(2-9) by (simp add: handleReplayEval_def Let_def focus_def)
  then have res: "w' = write_body (BReport report) (WriteHeader 200 (json_header
        (setReplayResponseHeaders (tr_TraceID u) (tr_TraceID baseline) (tr_Model u \<noteq> tr_Model baseline) (fresh_writer b))))"
      "a' = save_report d report (a\<lparr>ap_server := (ap_server a)
        \<lparr>sv_traces := snd (to_Save (dp_traces (ad_deps d)) u (traces_of a))\<rparr>\<rparr>)"
    using assms(1,10) by (simp_all add: replay_answered_def Let_def report_def)
  have "wr_Sent (fresh_writer b) = None" "wr_Body (fresh_writer b) = []" by (simp_all add: fresh_writer_def)
  then have "status_of w' = 200" "wr_Body w' = [BReport report]"
    by (auto simp: res(1) status_of_def json_header_def setReplayResponseHeaders_def Let_def WriteHeader_def write_body_def
        split: option.split)
  moreover have "traces_of a' = snd (to_Save (dp_traces (ad_deps d)) u (traces_of a))"
    "ap_reports a' = map_option (\<lambda>s. snd (ro_Save (ad_reports d) report s)) (ap_reports a)"
    by (simp_all add: res(2) save_report_def)
  ultimately show ?thesis by (auto simp: report_def Let_def)
qed

lemma candidate_seed:
  "req = replay_request sprint q model baseline \<Longrightarrow> in_Seed (tr_Input (candidate_trace tid sid now q req resp baseline)) =
     (if rpl_Reproducibility q = ''none'' then None else Some (case in_Seed (tr_Input baseline) of Some n \<Rightarrow> n | None \<Rightarrow> 42))"
  by (simp add: replay_request_def replay_seed_def replay_mode_def)

text \<open>
  Over SQLite the columns give back a prompt as \<^verbatim>\<open>encoding/json\<close> decodes it, which the signer does support. A replay
  of any trace of the table is then signed, and, when the columns give back the candidate as it was, verifies.
\<close>

fun json_value :: "any \<Rightarrow> bool" where
  "json_value (AArr vs) \<longleftrightarrow> list_all json_value vs"
| "json_value (AMap m) \<longleftrightarrow> list_all (\<lambda>(k, v). json_value v) m"
| "json_value v \<longleftrightarrow> v = ANil \<or> (\<exists>b. v = ABool b) \<or> (\<exists>f. v = AFloat f) \<or> (\<exists>s. v = AString s)"

lemma json_value_supported: "json_value v \<Longrightarrow> unsupported v = {}"
  by (induction v rule: json_value.induct) (auto simp: list_all_iff unsupported.simps(3))

lemma json_value_strip:
  "list_all (\<lambda>(k, v). json_value v) m \<longrightarrow> list_all (\<lambda>(k, v). json_value v) (StripNonSignatureFields m)"
  "json_value v \<longrightarrow> list_all (\<lambda>(k, v). json_value v) (strip_field k v)"
  "list_all json_value vs \<longrightarrow> list_all json_value (stripArrayNonSignatureFields vs)"
  "json_value w \<longrightarrow> json_value (strip_elem w)"
proof (induction m and k v and vs and w rule:
    StripNonSignatureFields_strip_field_stripArrayNonSignatureFields_strip_elem.induct)
  case (3 k c)
  have "json_value (stripExtensionField v)" if "json_value v" for v
    using that by (cases v) (auto simp: stripExtensionField_def list_all_iff)
  then have "list_all (\<lambda>(k, v). json_value v) c \<Longrightarrow> list_all (\<lambda>(k, v). json_value v) (strip_extensions c)"
    by (auto simp: strip_extensions_def list_all_iff)
  with 3 show ?case by auto
qed auto

lemma json_value_map: "list_all (\<lambda>(k, v). json_value v) m \<Longrightarrow> supported_map (StripNonSignatureFields m)"
  using json_value_strip(1) [of m] json_value_supported by (force simp: supported_map_def unsupported.simps(3) list_all_iff)

lemma json_value_field: "json_value v \<Longrightarrow> supported_map (strip_field k v)"
  using json_value_strip(2) [of v k] json_value_supported by (force simp: supported_map_def unsupported.simps(3) list_all_iff)

definition json_input :: "Input \<Rightarrow> bool" where
  "json_input i \<longleftrightarrow> json_value (in_Prompt i) \<and> pred_option (json_value \<circ> AMap) (in_Params i) \<and>
     pred_option (json_value \<circ> AMap) (in_Metadata i)"

lemma json_value_option: "pred_option (json_value \<circ> AMap) x \<Longrightarrow> pred_option (supported_map \<circ> StripNonSignatureFields) x"
  by (cases x) (simp_all add: json_value_map)

lemma candidate_signable:
  assumes "json_input (tr_Input baseline)" "pred_option (json_value \<circ> AMap) (rpl_Params q)"
  shows "signable (candidate_trace tid sid now q (replay_request sprint q model baseline) resp baseline)"
  using assms
  by (auto simp: signable_def candidate_trace_def FillDefaults_def replay_request_def json_input_def json_value_field json_value_map json_value_option
      zero_Observations_def zero_ConstraintsApplied_def Let_def split: option.split)

theorem sql_replay_verifiable:
  assumes "handleReplayEval d tid sid rq (fresh_writer b) a = (w', a')"
    and "rq_Method rq = ''POST''" "rq_replay rq = Inr q" "model = replay_model q (ParseSentorisHeaders (rq_Header rq)) baseline"
    and "dp_traces (ad_deps d) = sql_trace_ops codec" "dp_signer (ad_deps d)"
    and "sql_GetTrace codec (rpl_BaselineTraceID q) (traces_of a) = Inr baseline"
    and "find_provider (dp_providers (ad_deps d)) model (router_of a) = Some p"
    and "req = replay_request (ad_Sprint d) q model baseline" "uc_Chat (dp_net (ad_deps d)) (rp_BaseURL p) req = Inr resp"
    and "t = candidate_trace tid sid (dp_clock (ad_deps d) 0) q req resp baseline"
    and "\<And>s. json_input (dec_Input codec s)" "pred_option (json_value \<circ> AMap) (rpl_Params q)"
    and "\<And>sg. scan_trace codec tid (trace_row codec (set_signature sg t)) = set_signature sg t"
  shows "handleVerifyTraceByID (ad_deps d) ''GET'' tid v (ap_server a') = valid_reply (dp_clock (ad_deps d) 0) tid v \<and>
    status_of w' = 200 \<and> in_Seed (tr_Input t) = (if rpl_Reproducibility q = ''none'' then None
      else Some (case in_Seed (tr_Input baseline) of Some n \<Rightarrow> n | None \<Rightarrow> 42))"
proof -
  have "json_input (tr_Input baseline)"
    using assms(7,12) by (auto simp: sql_GetTrace_def scan_trace_def split: option.splits)
  then have "signable t" using candidate_signable assms(9,11,13) by blast
  then obtain sg where sg: "Sign (Some t) = Inr sg" using Sign_signable by blast
  have base: "to_Get (dp_traces (ad_deps d)) (rpl_BaselineTraceID q) (traces_of a) = Inr baseline"
    using assms(5,7) by (simp add: sql_trace_ops_def)
  have signed: "(if dp_signer (ad_deps d) then sign_trace t else t) = set_signature sg t" using assms(6) sg by (simp add: sign_trace_def)
  have id: "tr_TraceID (set_signature sg t) = tid" using assms(11) by simp
  from replay_run [OF assms(1-4) base assms(8-11) refl] signed id
  have res: "traces_of a' = (traces_of a)(tid \<mapsto> trace_row codec (set_signature sg t))" "status_of w' = 200"
    by (auto simp: assms(5) sql_trace_ops_def sql_SaveTrace_def)
  have "to_Get (dp_traces (ad_deps d)) tid (traces_of a') = Inr (set_signature sg t)"
    by (simp add: assms(5) sql_trace_ops_def sql_GetTrace_def res(1) assms(14))
  then have "handleVerifyTraceByID (ad_deps d) ''GET'' tid v (ap_server a') = valid_reply (dp_clock (ad_deps d) 0) tid v"
    using Verify_signed [OF sg]
    by (simp add: handleVerifyTraceByID_def verify_stored_def valid_reply_def json_header_def)
  with res(2) show ?thesis using candidate_seed [OF assms(9)] assms(11) by simp
qed

section \<open>The property\<close>

text \<open>
  \<^bold>\<open>C8.\<close> A replay over the memory store is answered and stored, but nothing in that store can ever be verified. Take any
  server that was started with an empty store, after any requests, replays included, interleaved with the cleaner, and
  a replay whose baseline is stored and whose provider answers. It is answered with the risk report of the
  comparison, which is also the report that is saved; the candidate is stored under its new identifier with the
  baseline as its parent and the seed of the baseline, or 42, unless the mode is none, and nothing else changes in the
  store. The signer is asked but cannot sign: the candidate copies the messages of the baseline, so it stays without a
  signature like every other trace of the store, and verifying any of them answers the error for a missing signature.
\<close>

theorem replay_unverifiable:
  assumes "proxy_run (handlers mem_trace_ops) mem_cleanups lib km a0 K a c" "traces_of a0 = Map.empty"
    and "d \<in> handlers mem_trace_ops" "handleReplayEval d tid sid rq (fresh_writer b) a = (w', a')"
    and "rq_Method rq = ''POST''" "rq_replay rq = Inr q" "model = replay_model q (ParseSentorisHeaders (rq_Header rq)) baseline"
    and "traces_of a (rpl_BaselineTraceID q) = Some baseline"
    and "find_provider (dp_providers (ad_deps d)) model (router_of a) = Some p"
    and "req = replay_request (ad_Sprint d) q model baseline" "uc_Chat (dp_net (ad_deps d)) (rp_BaseURL p) req = Inr resp"
    and "t = candidate_trace tid sid (dp_clock (ad_deps d) 0) q req resp baseline"
  shows "(\<exists>report. traces_of a' = (traces_of a)(tid \<mapsto> t) \<and> status_of w' = 200 \<and> wr_Body w' = [BReport report] \<and>
      ap_reports a' = map_option (\<lambda>s. snd (ro_Save (ad_reports d) report s)) (ap_reports a) \<and>
      report\<lparr>rr_FocusFields := []\<rparr> = (Compare (ad_marshal d) (ad_diff_order d) (dp_clock (ad_deps d) 1) baseline t)\<lparr>rr_FocusFields := []\<rparr>) \<and>
    tr_ParentID t = Some (tr_TraceID baseline) \<and>
    in_Seed (tr_Input t) = (if rpl_Reproducibility q = ''none'' then None
      else Some (case in_Seed (tr_Input baseline) of Some n \<Rightarrow> n | None \<Rightarrow> 42)) \<and>
    (\<forall>k u. traces_of a' k = Some u \<longrightarrow> pf_AuditSignature (tr_Proofs u) = [] \<and>
      handleVerifyTraceByID (ad_deps d) ''GET'' k v (ap_server a') = handleError ''No audit signature found'' 400 ErrInvalidInput v)"
proof -
  have ops: "dp_traces (ad_deps d) = mem_trace_ops" using assms(3) by (simp add: handlers_def)
  have "mem_unsignable {} (traces_of a0)" using assms(2) by (simp add: mem_unsignable_def)
  from mem_unsigned.good_run [OF assms(1) this] have good: "mem_unsignable K (traces_of a)" by simp
  then have "unsignable t" using assms(8,12) unsignable_candidate by (auto simp: mem_unsignable_def)
  then have t: "(if dp_signer (ad_deps d) then sign_trace t else t) = t" by (simp add: unsignable_signed)
  have base: "to_Get (dp_traces (ad_deps d)) (rpl_BaselineTraceID q) (traces_of a) = Inr baseline"
    using assms(8) by (simp add: ops mem_trace_ops_def mt_Get_def)
  have id: "tr_TraceID t = tid" using assms(12) by simp
  from replay_run [OF assms(4-7) base assms(9-12) refl] t id
  obtain report where report: "traces_of a' = (traces_of a)(tid \<mapsto> t)" "status_of w' = 200" "wr_Body w' = [BReport report]"
      "ap_reports a' = map_option (\<lambda>s. snd (ro_Save (ad_reports d) report s)) (ap_reports a)"
      "report\<lparr>rr_FocusFields := []\<rparr> = (Compare (ad_marshal d) (ad_diff_order d) (dp_clock (ad_deps d) 1) baseline t)\<lparr>rr_FocusFields := []\<rparr>"
    by (auto simp: ops mem_trace_ops_def mt_Save_def)
  have "pf_AuditSignature (tr_Proofs u) = [] \<and>
      handleVerifyTraceByID (ad_deps d) ''GET'' k v (ap_server a') = handleError ''No audit signature found'' 400 ErrInvalidInput v"
    if "traces_of a' k = Some u" for k u
  proof -
    have "unsignable u" using that \<open>unsignable t\<close> good by (auto simp: report(1) mem_unsignable_def split: if_splits)
    then have u: "pf_AuditSignature (tr_Proofs u) = []" by (simp add: unsignable_def)
    moreover have "to_Get (dp_traces (ad_deps d)) k (traces_of a') = Inr u" using that by (simp add: ops mem_trace_ops_def mt_Get_def)
    ultimately show ?thesis using verify_unsigned [of "ad_deps d" k "ap_server a'" u] by (simp add: handleVerifyTraceByID_def)
  qed
  moreover have "tr_ParentID t = Some (tr_TraceID baseline)" unfolding assms(12) by simp
  moreover have "in_Seed (tr_Input t) = (if rpl_Reproducibility q = ''none'' then None
      else Some (case in_Seed (tr_Input baseline) of Some n \<Rightarrow> n | None \<Rightarrow> 42))"
    unfolding assms(12) by (rule candidate_seed [OF assms(10)])
  ultimately show ?thesis using report by blast
qed

text \<open>A chat, a replay of its trace, and the question whether the replay verifies.\<close>

theorem replay_unverifiable_witness:
  "let d = demo_deps_app;
       a = snd (wrappedHandler d demo_jwt demo_manager ''t1'' ''s1'' (demo_http ''POST'' ''/v1/chat/completions'') (fresh_writer True)
         (demo_app Map.empty));
       a' = snd (handleReplayEval d ''t2'' ''s2'' demo_replay (fresh_writer True) a) in
     ''t2'' \<in> dom (traces_of a') \<and>
     status_of (handleVerifyTraceByID (ad_deps d) ''GET'' ''t2'' (fresh_writer True) (ap_server a')) = 500"
proof -
  let ?rq = "demo_http ''POST'' ''/v1/chat/completions''" and ?start = "demo_app Map.empty" and ?d = demo_deps_app
  let ?a = "snd (wrappedHandler ?d demo_jwt demo_manager ''t1'' ''s1'' ?rq (fresh_writer True) ?start)"
  let ?c = "(NewTTLCleaner (traces_of ?start) cleanup_interval)\<lparr>cs_store := traces_of ?a\<rparr>"
  let ?run = "proxy_run (insert ?d (handlers mem_trace_ops)) mem_cleanups demo_jwt demo_manager ?start"
  have d: "?d \<in> handlers mem_trace_ops"
    by (simp add: handlers_def demo_deps_app_def chain_ok_demo) (simp add: demo_deps_def)
  have stored: "stored_by ?d ''t1'' ''s1'' ?rq (fresh_writer True) ?start = {''t1''}"
    by (simp add: stored_by_def demo_http_def handler_takes_on [OF refl no_headers_supported] Let_def)
  have "?run {} ?start (NewTTLCleaner (traces_of ?start) cleanup_interval)" by (rule proxy_start)
  from proxy_request [where tid = "''t1''" and sid = "''s1''" and rq = ?rq and b = True, OF this _ insertI1 refl] stored
  have "?run {''t1''} ?a ?c" by (simp add: NewTTLCleaner_def)
  note run = this [unfolded insert_absorb [OF d]]
  have empty: "traces_of ?start = Map.empty" by (simp add: demo_app_def demo_server_def)
  have "mem_good {} (traces_of ?start)" by (simp add: mem_good_def empty)
  from mem_lasting.good_run [OF run this] obtain baseline where baseline: "traces_of ?a ''t1'' = Some baseline"
    by (auto simp: mem_good_def)
  define q where "q = \<lparr>rpl_BaselineTraceID = ''t1'', rpl_Model = ''m'', rpl_FocusFields = [], rpl_Params = None,
    rpl_Reproducibility = []\<rparr>"
  define p where "p = \<lparr>rp_BaseURL = ''http://u'', rp_AuthHeader = [], rp_Models = [''m''], rp_InputPer1K = Fin 1,
    rp_OutputPer1K = Fin 2\<rparr>"
  define req where "req = replay_request (ad_Sprint ?d) q ''m'' baseline"
  define resp where "resp = parse_answer \<lparr>lm_Model = ''m'', lm_Choices = [(''hello'', ''stop'')], lm_TotalTokens = 0\<rparr>"
  have "router_of ?a = router_of ?start"
    by (simp add: wrappedHandler_def is_public_def publicPaths_def demo_http_def HasPrefix_def ServeHTTP_def Let_def
        provider_calls_router)
  then have facts: "rq_Method demo_replay = ''POST''" "rq_replay demo_replay = Inr q"
    "''m'' = replay_model q (ParseSentorisHeaders (rq_Header demo_replay)) baseline"
    "traces_of ?a (rpl_BaselineTraceID q) = Some baseline"
    "find_provider (dp_providers (ad_deps ?d)) ''m'' (router_of ?a) = Some p"
    "uc_Chat (dp_net (ad_deps ?d)) (rp_BaseURL p) req = Inr resp"
    using baseline
    by (simp_all add: demo_replay_def demo_http_def q_def replay_model_def demo_deps_app_def demo_deps_def demo_app_def
        demo_server_def find_provider_def serving_def p_def uc_Chat_def demo_net_def req_def replay_request_def resp_def)
  note r = replay_unverifiable [OF run empty d prod.collapse [symmetric] facts(1-5) req_def facts(6) refl]
  let ?later = "snd (handleReplayEval ?d ''t2'' ''s2'' demo_replay (fresh_writer True) ?a)"
  obtain u where u: "traces_of ?later ''t2'' = Some u"
    using r [where v = "fresh_writer True" and tid = "''t2''" and sid = "''s2''" and b = True, THEN conjunct1] by auto
  then have "handleVerifyTraceByID (ad_deps ?d) ''GET'' ''t2'' (fresh_writer True) (ap_server ?later)
      = handleError ''No audit signature found'' 400 ErrInvalidInput (fresh_writer True)"
    using r [where v = "fresh_writer True" and tid = "''t2''" and sid = "''s2''" and b = True, THEN conjunct2, THEN conjunct2, THEN conjunct2] by blast
  with u show ?thesis by (simp add: Let_def status_handleError error_statuses fresh_writer_def domI)
qed

end
