(* ===== verification/Spec2Isabelle.thy ===== *)
theory Spec2Isabelle
  imports Domain Canonical Signing Merkle BudgetStore BudgetDecimal Governance Masking Sanitizer
    Breaker Sse Upstream Extensions TraceStore Crypto RecordStores Router Levenshtein Test_Vectors
    Diff Errors GoNum Headers Hooks StreamBudget Response Chat ChatStore
    Endpoints Admin ServerProps Security Auth
    PgTrace PgRecords Redis Config HeaderMiddleware Deprecation Ed25519 Proxy
    UiClient UiServer Services Cleaner Support LoadTest Factory SqliteOpen Lifetime SqliteServer Locations Replays
begin

text \<open>
  A verification development for Sentoris proxy, an OpenAI-compatible proxy in Go that evaluates the constraints of
  a request (budget, privacy, reproducibility), routes it to a provider, and keeps a signed, replayable trace of it.
  All paths below are relative to \<^verbatim>\<open>src/\<close> of the repository.

  \<^bold>\<open>The program and how its parts interact.\<close> The binary \<^verbatim>\<open>cmd/sentoris-proxy\<close> loads its configuration, chooses
  the stores (SQLite, PostgreSQL with Redis for budgets, or memory), builds the router, the key manager, the hooks and the
  extension registry, and serves \<^verbatim>\<open>internal/transport/http\<close> behind the authentication middleware. A chat completion
  parses the protocol headers, saves a fresh trace, runs the hooks, asks the evaluator of
  \<^verbatim>\<open>internal/service/governance\<close> for a decision, looks up a provider in \<^verbatim>\<open>internal/service/router\<close>, reserves
  budget in \<^verbatim>\<open>internal/adapter/storage\<close>, calls the provider, charges or gives back, masks, answers, signs
  (\<^verbatim>\<open>internal/service/audit\<close> over \<^verbatim>\<open>pkg/jcs\<close>) and updates the trace. A replay evaluation repeats a stored trace
  and compares the two with \<^verbatim>\<open>internal/service/diff\<close>. The binary \<^verbatim>\<open>cmd/sentoris-ui\<close> is a client of the same
  endpoints.

  \<^bold>\<open>Conventions.\<close> A Go string is the list of its bytes (\<^verbatim>\<open>string\<close> of HOL, 8-bit characters) and runes are code
  points decoded by \<open>Utf8\<close>. A nil pointer or map is \<open>None\<close>; an operation that can fail returns
  \<open>string + 'a\<close> (\<open>Inl\<close> the message), one that returns only an error returns \<open>string option\<close>. A \<^verbatim>\<open>float64\<close> is the
  type \<open>f64\<close> of \<open>GoFloat\<close>, IEEE-754 binary64 with rounding to nearest even; an \<^verbatim>\<open>int\<close> is \<open>int\<close>, with the wrap-around written
  out where the code can reach it; SHA-256 works on 32-bit words. A struct is a record (two letters and an underscore before the Go
  field name), a stateful method takes the state and returns the new one. Where Go ranges over a map the order is an
  argument (\<open>ks\<close>, \<open>names\<close>, \<open>order\<close>), and properties hold for every order. A constant
  that the code declares as a typed string is an abbreviation.
\<close>

section \<open>The theories and the code\<close>

text \<open>
  \<^bold>\<open>Foundations.\<close>
  \<^item> \<open>Prelude\<close>: results, maps with an iteration order, byte-string functions of \<^verbatim>\<open>strings\<close> and \<^verbatim>\<open>strconv\<close>.
  \<^item> \<open>Utf8\<close>, \<open>GoText\<close>, \<open>GoNum\<close>: \<^verbatim>\<open>unicode/utf8\<close>; trimming, cutting, \<^verbatim>\<open>bufio.Scanner\<close>;
    \<^verbatim>\<open>ParseInt\<close>, \<^verbatim>\<open>ParseFloat\<close>, the verb \<^verbatim>\<open>%.6f\<close>. \<open>GoPath\<close>: \<^verbatim>\<open>path/filepath\<close>.
  \<^item> \<open>GoFloat\<close>: binary64 with its specials and negative zero; rounding is monotone and the identity on
    representable numbers. \<open>GoValue\<close>: values of type \<^verbatim>\<open>any\<close>, \<^verbatim>\<open>time.Time\<close> and RFC 3339;
    \<open>Locations\<close>: the locations inside such a value and what stands there, in which stripping and masking are specified.
  \<^item> \<open>Sha256\<close> (with \<open>Test_Vectors\<close>, the published vectors evaluated by the kernel): \<^verbatim>\<open>crypto/sha256\<close>.
  \<^item> \<open>Regex\<close>: the part of \<^verbatim>\<open>regexp\<close> that the patterns of the code use.

  \<^bold>\<open>Domain and audit.\<close>
  \<^item> \<open>Domain\<close>: \<^verbatim>\<open>internal/domain\<close> (\<^verbatim>\<open>trace.go\<close>, \<^verbatim>\<open>constraints.go\<close>, \<^verbatim>\<open>risk_report.go\<close>); the
    execution state machine as the inductive relation \<open>guarded_run\<close>.
  \<^item> \<open>Jcs\<close>, \<open>Canonical\<close>: \<^verbatim>\<open>pkg/jcs/canonical.go\<close>, its operations and what the canonical text promises (independence of map order,
    totality on supported values, injectivity into JSON values, what the removal of unsigned fields leaves at every location).
  \<^item> \<open>Signing\<close>: \<^verbatim>\<open>audit/signer.go\<close> (\<open>traceToMap\<close>, \<open>Sign\<close>, \<open>Verify\<close>): round trip, each field that a
    signature covers and those that it does not. \<open>Ed25519\<close>: \<^verbatim>\<open>audit/ed25519_signer.go\<close>.
  \<^item> \<open>Merkle\<close>: \<^verbatim>\<open>audit/merkle.go\<close>, nodes in an arena, against the recursive hash of the sorted signatures.
  \<^item> \<open>Levenshtein\<close>, \<open>Diff\<close>: \<^verbatim>\<open>diff/differ.go\<close>, the distance against edit scripts, the risk report.
  \<^item> \<open>Errors\<close>: \<^verbatim>\<open>pkg/errors/errors.go\<close>.

  \<^bold>\<open>Stores\<close> (\<^verbatim>\<open>internal/adapter/storage\<close>).
  \<^item> \<open>KvStore\<close>: the contract \<open>kv_store\<close> of saving, reading and deleting a record by its key.
  \<^item> \<open>TraceStore\<close>: the trace stores of \<^verbatim>\<open>storage.go\<close> and \<^verbatim>\<open>sqlite.go\<close>; \<open>Cleaner\<close>: \<^verbatim>\<open>ttl_cleaner.go\<close> as
    the step relation \<open>cleaner_step\<close>, in which each look at the ticker and each write of it by a call of \<^verbatim>\<open>Start\<close> or
    \<^verbatim>\<open>Stop\<close> or by a goroutine is a step.
  \<^item> \<open>RecordStores\<close>: risk reports, API keys and providers in memory and in SQLite; the contract \<open>provider_store\<close>
    extends \<open>kv_store\<close>. \<open>Crypto\<close>: \<^verbatim>\<open>crypto.go\<close>. \<open>SqliteOpen\<close>: \<^verbatim>\<open>NewSQLiteStore\<close> and its tables.
  \<^item> \<open>BudgetStore\<close>, \<open>BudgetDecimal\<close>: the budget stores of \<^verbatim>\<open>storage.go\<close> and \<^verbatim>\<open>sqlite.go\<close>, refined to a
    ledger of integer amounts (contracts \<open>budget_store\<close>, \<open>session_budget_store\<close>), and decimal amounts where floats drift.
  \<^item> \<open>PgTrace\<close>, \<open>PgRecords\<close>: the \<^verbatim>\<open>postgres_*.go\<close> stores. \<open>Redis\<close>: \<^verbatim>\<open>redis_budget.go\<close> with its Lua scripts.

  \<^bold>\<open>Governance and services\<close> (\<^verbatim>\<open>internal/service\<close>).
  \<^item> \<open>Governance\<close>: the budget check and the evaluator; \<open>Masking\<close>: the privacy service; \<open>Sanitizer\<close>:
    \<^verbatim>\<open>input_sanitizer.go\<close>; \<open>StreamBudget\<close>: \<^verbatim>\<open>stream_budget_interceptor.go\<close>; \<open>Services\<close>: the small services of
    \<^verbatim>\<open>budget_service.go\<close>.
  \<^item> \<open>Router\<close>: \<^verbatim>\<open>router/model_router.go\<close> over any \<open>provider_store\<close>. \<open>Hooks\<close>: \<^verbatim>\<open>hooks/hooks.go\<close>.
    \<open>Extensions\<close>: \<^verbatim>\<open>extensions/registry.go\<close>. \<open>Security\<close>: \<^verbatim>\<open>security/key_manager.go\<close>.
    \<open>Deprecation\<close>: \<^verbatim>\<open>deprecation/deprecation.go\<close>.

  \<^bold>\<open>Upstream\<close> (\<^verbatim>\<open>internal/adapter/upstream\<close>).
  \<^item> \<open>Upstream\<close>: the types, the echo client, the tokenizer. \<open>Sse\<close>: decoder, reader and the provider client.
    \<open>Breaker\<close>: circuit breaker and retry loops. \<open>Factory\<close>: the clients behind \<^verbatim>\<open>LLMClient\<close> and their factory.

  \<^bold>\<open>The server.\<close>
  \<^item> \<open>Headers\<close>: \<^verbatim>\<open>sentoris_headers.go\<close>, \<^verbatim>\<open>state_transitions.go\<close>; \<open>HeaderMiddleware\<close>:
    \<^verbatim>\<open>middleware/headers.go\<close>; \<open>Response\<close>: the response writer, \<^verbatim>\<open>response_headers.go\<close> and the errors of \<^verbatim>\<open>handler.go\<close>.
  \<^item> \<open>Chat\<close>: \<^verbatim>\<open>handleChatCompletions\<close> in stages (\<open>chat_start\<close>, \<open>chat_block\<close>, \<open>chat_admit\<close>, \<open>chat_execute\<close>,
    \<open>chat_finalize\<close>, \<open>chat_answer\<close>) over the records \<open>Deps\<close> and \<open>Server\<close>; \<open>ChatStore\<close>: what it leaves in
    the stores, over the contracts \<open>trace_ops\<close> and \<open>trace_store\<close>.
  \<^item> \<open>Endpoints\<close>, \<open>Admin\<close>: every other handler and \<open>ServeHTTP\<close>; \<open>ServerProps\<close>: what holds of every request.
  \<^item> \<open>Auth\<close>: \<^verbatim>\<open>middleware/auth.go\<close>. \<open>Config\<close>: \<^verbatim>\<open>internal/config/config.go\<close>. \<open>Proxy\<close>:
    \<^verbatim>\<open>cmd/sentoris-proxy/main.go\<close>, the composition of all of these. \<open>Lifetime\<close>: requests and cleaner on one store, over
    the contract \<open>lasting_store\<close> (what the handlers write satisfies a condition \<open>fine\<close>, and then the store keeps its
    invariant) that the memory, the SQLite and the PostgreSQL store meet; \<open>Replays\<close>: replay evaluations over the memory store, by a
    second instance of that contract, and over SQLite. \<open>SqliteServer\<close>: the wrappers of \<^verbatim>\<open>sqlite.go\<close> and what the endpoints show
    in SQLite mode.

  \<^bold>\<open>Around the proxy.\<close>
  \<^item> \<open>UiClient\<close>: \<^verbatim>\<open>internal/ui/api/client.go\<close>, composed with \<open>wrappedHandler\<close> of \<open>Proxy\<close>; \<open>UiServer\<close>:
    \<^verbatim>\<open>internal/ui/server.go\<close> and the routes of \<^verbatim>\<open>cmd/sentoris-ui\<close>.
  \<^item> \<open>LoadTest\<close>: \<^verbatim>\<open>cmd/load-test/main.go\<close> as the step relation \<open>load_step\<close>.
  \<^item> \<open>Support\<close>: \<^verbatim>\<open>pkg/logger\<close>, \<^verbatim>\<open>pkg/metrics\<close>, the names of \<^verbatim>\<open>pkg/otel/metrics.go\<close>, \<^verbatim>\<open>pkg/migrate\<close>.
\<close>

section \<open>What the theorems show\<close>

text \<open>
  \<^item> \<^bold>\<open>State machines.\<close> A trace passes the states of the domain in order (\<open>Domain\<close>), every chat request ends
    in one of the two last ones along a legal path (\<open>Chat\<close>); the circuit breaker, the stream budget, the
    cleaner and the load test are characterised over all their runs.
  \<^item> \<^bold>\<open>Refinement.\<close> The budget stores refine a ledger that is never overspent, the Merkle arena refines the recursive
    hash, the edit distance is the least cost of an edit script, and the stores meet the contracts of their interfaces.
  \<^item> \<^bold>\<open>Round trips.\<close> Signing and verifying, the canonical text and the JSON value, events written and
    decoded, what each store reads back, sealing and unsealing.
  \<^item> \<^bold>\<open>Values.\<close> Masking and stripping are specified by what stands at every location of a value, the evaluator by
    its result on every combination of constraints, a loaded configuration by every one of its settings.
  \<^item> \<^bold>\<open>Composition.\<close> Which requests change the server, what a completion leaves in the budget table and the trace
    store, what the authentication lets through, what the user interface can do to the proxy.
  \<^item> \<^bold>\<open>Deviations.\<close> Where the code does not do what it means to, the model has the behaviour of the code and a theorem
    states it; the text before the theorem says what was meant.
  The theorems with an identifier in the text before them are the main properties; a theorem that ends in \<open>_witness\<close> evaluates
  one of them at a concrete input.
\<close>

section \<open>Parameters, bounds and limits\<close>

text \<open>
  \<^bold>\<open>Parameters.\<close> The network (\<open>Net\<close>: what a request comes back as), encoding and decoding by
  \<^verbatim>\<open>encoding/json\<close>, the clock, random identifiers and nonces, AES-GCM, Ed25519, JWT and RSA keys, the commands of
  Redis, the errors of the PostgreSQL driver and what its columns make of texts and times, the YAML decoder, the environment,
  the file system, the tiktoken encoder, gobreaker and Prometheus are arguments of the definitions that use them. What a theorem needs of
  them is a hypothesis, instantiated by a concrete function in its witness. SQL statements are modelled by their effect on the rows
  they name: an upsert by key, a delete, a selection with the condition and order of the text of the statement.

  \<^bold>\<open>Termination and bounds.\<close> All loops are total functions with a measure, except the replacement of environment
  variables, which may run forever: it is a \<open>partial_function (option)\<close> whose value is \<open>None\<close> then, and a theorem of \<open>Config\<close>
  says when it ends and shows an input on which it does not. A nil pointer that a decoder can bring in and that is followed, a null provider in the
  configuration or a null entry for the extension registry, is a panic, the value \<open>Panics\<close>. The climb in a Merkle tree takes at most the number of nodes in the arena,
  since a parent has a larger index. The retry loops count down from the configured number of attempts. A run of the load test
  with its 1000 requests has at most 5001 steps, five for a request and one for the end. The theorems on budget stores are about amounts
  that are multiples of a common unit small enough for every sum to be representable, where float addition is exact; \<open>BudgetDecimal\<close> shows what happens for others.

  \<^bold>\<open>Simplifications.\<close> Locks and transactions make the operations of the stores atomic, so a store is its state between operations; the
  interleavings that no lock rules out are modelled where goroutines are started (\<open>Cleaner\<close>, \<open>LoadTest\<close>). A store keeps a
  trace by value, as SQL does; the memory store keeps the pointer it was given, so that changes of a trace after it was saved are visible there
  before the next update. The body of an answer is the sequence of values written, not their bytes.

  \<^bold>\<open>Not modelled.\<close> The reflection of \<^verbatim>\<open>encoding/json\<close> (and with it \<^verbatim>\<open>ToJSON\<close> and \<^verbatim>\<open>TraceFromJSON\<close>, which only
  call it); \<^verbatim>\<open>pkg/otel/otel.go\<close>, a sequence of calls of the OpenTelemetry SDK; flags, signals and the life of the servers in the
  two main programs; closing of connections, tracing spans, log lines, the final report of the load test; panics
  on stores or routers that are nil, except the report store in \<open>handleMonitorRiskReports\<close>, and null entries in the registry's own JSON; contexts that are cancelled in the middle of a request; the examples,
  scripts, tests and the browser code of the user interface.
\<close>

end
